(* ===== verification/PyPrelude.thy ===== *)
theory PyPrelude
  imports Main "HOL-Library.AList" "HOL-Library.List_Lexorder" "HOL-Library.Char_ord"
    "HOL-Library.Sublist"
begin

text \<open>
  The development's prelude: how the Python data structures the program uses are read in HOL,
  and the generic lemmas every component shares.

  \<^item> A Python dictionary keeps insertion order, so it is an association list:
    \<open>d[k] = v\<close> is \<open>AList.update k v d\<close> (an existing key keeps its place, a new one goes to
    the end), \<open>d.pop(k, None)\<close> is \<open>AList.delete k d\<close> and \<open>d.get(k)\<close> is \<open>map_of d k\<close>.
  \<^item> A \<open>collections.Counter\<close> (or a dictionary used as one) is \<open>ctr\<close>, read with default 0.
  \<^item> A \<open>deque(maxlen = n)\<close> is a list written with \<open>push_bounded n\<close>.
  \<^item> Python's \<open>a or b\<close> on optional values tests truth, not presence: \<open>None\<close>, \<open>0\<close> and
    \<open>""\<close> are false. \<open>or_int\<close> and \<open>or_str\<close> write that out.
  \<^item> \<open>tuple(sorted(set(xs)))\<close> over strings is \<open>sorted_set xs\<close> (the code points of the
    program's literals are ASCII, so HOL's lexicographic order on characters is Python's).
\<close>

named_theorems inv_intros \<open>how each operation keeps its component's invariant\<close>
named_theorems frame_simps \<open>fields an operation does not write\<close>

subsection \<open>Truth-tested alternatives\<close>

definition or_int :: "int option \<Rightarrow> int option \<Rightarrow> int option" where
  "or_int a b = (if a = None \<or> a = Some 0 then b else a)"

definition or_str :: "string option \<Rightarrow> string option \<Rightarrow> string option" where
  "or_str a b = (if a = None \<or> a = Some [] then b else a)"

definition int_or :: "int option \<Rightarrow> int \<Rightarrow> int" where
  "int_or a d = (case a of None \<Rightarrow> d | Some n \<Rightarrow> if n = 0 then d else n)"

definition str_or :: "string option \<Rightarrow> string \<Rightarrow> string" where
  "str_or a d = (case a of None \<Rightarrow> d | Some s \<Rightarrow> if s = [] then d else s)"

lemma or_int_simps [simp]:
  "or_int None b = b" "or_int (Some 0) b = b" "n \<noteq> 0 \<Longrightarrow> or_int (Some n) b = Some n"
  by (simp_all add: or_int_def)

lemma or_str_simps [simp]:
  "or_str None b = b" "or_str (Some []) b = b" "or_str (Some (c # cs)) b = Some (c # cs)"
  by (simp_all add: or_str_def)

lemma or_str_ne_None [simp]: "b \<noteq> None \<Longrightarrow> or_str a b \<noteq> None"
  by (auto simp: or_str_def)

lemma int_or_simps [simp]:
  "int_or None d = d" "n \<noteq> 0 \<Longrightarrow> int_or (Some n) d = n" "int_or (Some 0) d = d"
  by (simp_all add: int_or_def)

lemma str_or_simps [simp]:
  "str_or None d = d" "str_or (Some []) d = d" "str_or (Some (c # cs)) d = c # cs"
  by (simp_all add: str_or_def)

subsection \<open>Counters\<close>

type_synonym 'k counter = "('k \<times> int) list"

definition ctr :: "'k counter \<Rightarrow> 'k \<Rightarrow> int" where
  "ctr c k = (case map_of c k of None \<Rightarrow> 0 | Some n \<Rightarrow> n)"

definition ctr_add :: "'k \<Rightarrow> int \<Rightarrow> 'k counter \<Rightarrow> 'k counter" where
  "ctr_add k d c = AList.update k (ctr c k + d) c"

abbreviation ctr_inc :: "'k \<Rightarrow> 'k counter \<Rightarrow> 'k counter" where
  "ctr_inc k c \<equiv> ctr_add k 1 c"

lemma ctr_Nil [simp]: "ctr [] k = 0"
  by (simp add: ctr_def)

lemma ctr_add_eq [simp]: "ctr (ctr_add k d c) j = (if j = k then ctr c k + d else ctr c j)"
  by (simp add: ctr_add_def ctr_def update_conv')

lemma ctr_update [simp]: "ctr (AList.update k n c) j = (if j = k then n else ctr c j)"
  by (simp add: ctr_def update_conv')

subsection \<open>Dictionaries\<close>

lemma dict_get_set [simp]:
  "map_of (AList.update k v d) j = (if j = k then Some v else map_of d j)"
  by (simp add: update_conv')

lemma dict_get_pop [simp]:
  "map_of (AList.delete k d) j = (if j = k then None else map_of d j)"
  by (simp add: delete_conv')

lemma keys_update: "fst ` set (AList.update k v d) = insert k (fst ` set d)"
  by (simp add: dom_update)

lemma keys_delete [simp]: "fst ` set (AList.delete k d) = fst ` set d - {k}"
  by (auto simp: AList.delete_eq)

lemma distinct_keys_update [simp]:
  "distinct (map fst d) \<Longrightarrow> distinct (map fst (AList.update k v d))"
  by (rule distinct_update)

lemma distinct_keys_delete [simp]:
  "distinct (map fst d) \<Longrightarrow> distinct (map fst (AList.delete k d))"
  by (rule distinct_delete)

lemma values_update: "snd ` set (AList.update k v d) \<subseteq> insert v (snd ` set d)"
  by (induction d) auto

lemma set_update: "set (AList.update k v d) \<subseteq> insert (k, v) (set d)"
  by (induction d) auto

lemma set_delete: "set (AList.delete k d) \<subseteq> set d"
  by (auto simp: AList.delete_eq)

lemma length_update_new:
  "k \<notin> fst ` set d \<Longrightarrow> length (AList.update k v d) = Suc (length d)"
  by (induction d) auto

lemma length_update_old:
  "k \<in> fst ` set d \<Longrightarrow> length (AList.update k v d) = length d"
  by (induction d) auto

lemma length_delete_le: "length (AList.delete k d) \<le> length d"
  by (simp add: AList.delete_eq)

lemma length_delete_present:
  "distinct (map fst d) \<Longrightarrow> k \<in> fst ` set d \<Longrightarrow> Suc (length (AList.delete k d)) = length d"
  by (induction d) (auto simp: AList.delete_id)

subsection \<open>Bounded queues\<close>

definition push_bounded :: "nat \<Rightarrow> 'a \<Rightarrow> 'a list \<Rightarrow> 'a list" where
  "push_bounded n x xs = (let ys = xs @ [x] in drop (length ys - n) ys)"

lemma length_push_bounded: "length (push_bounded n x xs) \<le> n"
  by (simp add: push_bounded_def Let_def)

lemma set_push_bounded: "set (push_bounded n x xs) \<subseteq> insert x (set xs)"
  by (auto simp: push_bounded_def Let_def dest: in_set_dropD)

lemma push_bounded_room: "length xs < n \<Longrightarrow> push_bounded n x xs = xs @ [x]"
  by (simp add: push_bounded_def)

subsection \<open>Sorted sets of strings\<close>

definition sorted_set :: "string list \<Rightarrow> string list" where
  "sorted_set xs = sort (remdups xs)"

lemma set_sorted_set [simp]: "set (sorted_set xs) = set xs"
  by (simp add: sorted_set_def)

lemma sorted_set_Nil_iff [simp]: "sorted_set xs = [] \<longleftrightarrow> xs = []"
  by (metis set_empty set_sorted_set)

lemma sorted_set_props: "sorted (sorted_set xs)" "distinct (sorted_set xs)"
  by (simp_all add: sorted_set_def)

subsection \<open>Folding a step over a list\<close>

text \<open>
  A loop \<open>for x in xs: s = step(x, s)\<close> is \<open>fold step xs s\<close>. What every step keeps, the loop
  keeps.
\<close>

lemma fold_invariant_set:
  "P s \<Longrightarrow> (\<And>x t. x \<in> set xs \<Longrightarrow> P t \<Longrightarrow> P (step x t)) \<Longrightarrow> P (fold step xs s)"
  by (induction xs arbitrary: s) auto

lemma fold_frame:
  "(\<And>x t. f (step x t) = f t) \<Longrightarrow> f (fold step xs s) = f s"
  by (induction xs arbitrary: s) auto

subsection \<open>Decimal digits\<close>

function pos_digits :: "int \<Rightarrow> string" where
  "pos_digits n =
     (if n < 10 then [char_of (48 + n)] else pos_digits (n div 10) @ [char_of (48 + n mod 10)])"
  by auto
termination by (relation "measure nat") auto

declare pos_digits.simps [simp del]

definition int_digits :: "int \<Rightarrow> string" where
  \<comment> \<open>\<open>str(n)\<close>\<close>
  "int_digits i = (if i < 0 then CHR ''-'' # pos_digits (- i) else pos_digits i)"

end
