(* ===== verification/PyNum.thy ===== *)
theory PyNum
  imports PyPrelude Complex_Main
begin

text \<open>
  Python's numbers. A \<open>float\<close> is an IEEE binary64 value: a finite one is the rational it
  stands for, and every arithmetic result is the exact rational rounded half to even to 53
  bits (\<open>f64\<close>), with the infinities and NaN as values of their own. A \<open>Decimal\<close> is exact
  when it is parsed; arithmetic on it rounds half to even to the 28 digits of the default
  context (\<open>d28\<close>). Integers are \<open>int\<close>.

  Both roundings are \<open>round_sig\<close> at a radix, a precision and a least exponent. What the
  components use of a rounding is the locale \<open>rounding\<close> (monotone, idempotent, odd, zero to
  zero); it is interpreted on both.

  Not distinguished: the two float zeros (no operation of the modelled code tells them
  apart). \<open>float(n)\<close> of an integer beyond \<open>2 ^ 1024\<close> raises OverflowError in Python and is
  an infinity here; the integers of the program are nanosecond clocks, identifiers and
  counters read from 64-bit JSON numbers, far below.
\<close>

subsection \<open>Rounding to a number of significant digits\<close>

definition rhe :: "rat \<Rightarrow> int" where
  \<comment> \<open>round half to even, as Python's \<open>round\<close> and both arithmetics do\<close>
  "rhe x = (let f = \<lfloor>x\<rfloor>; d = x - of_int f in
     if d < 1 / 2 then f else if d > 1 / 2 then f + 1 else if even f then f else f + 1)"

function nlog :: "nat \<Rightarrow> int \<Rightarrow> nat" where
  "nlog b n = (if b < 2 \<or> n < int b then 0 else Suc (nlog b (n div int b)))"
  by auto
termination
  by (relation "measure (\<lambda>(b, n). nat n)") (auto simp: int_div_less_self)

declare nlog.simps [simp del]

definition fexp :: "nat \<Rightarrow> rat \<Rightarrow> int" where
  \<comment> \<open>the exponent of the leading digit of a positive rational in base \<open>b\<close>\<close>
  "fexp b x = (case quotient_of x of (p, q) \<Rightarrow>
     let e = int (nlog b p) - int (nlog b q)
     in if of_nat b powi e \<le> x then e else e - 1)"

definition quantum_exp :: "nat \<Rightarrow> nat \<Rightarrow> int \<Rightarrow> rat \<Rightarrow> int" where
  "quantum_exp b p qmin x = max qmin (fexp b \<bar>x\<bar> - (int p - 1))"

definition round_sig :: "nat \<Rightarrow> nat \<Rightarrow> int \<Rightarrow> rat \<Rightarrow> rat" where
  "round_sig b p qmin x =
     (if x = 0 then 0
      else let u = of_nat b powi quantum_exp b p qmin x in of_int (rhe (x / u)) * u)"

definition r64 :: "rat \<Rightarrow> rat" where
  "r64 = round_sig 2 53 (-1074)"

definition r28 :: "rat \<Rightarrow> rat" where
  "r28 = round_sig 10 28 (-1000026)"

lemma rhe_of_int [simp]: "rhe (of_int n) = n"
  by (simp add: rhe_def Let_def)

lemma rhe_bounds: "\<lfloor>x\<rfloor> \<le> rhe x" "rhe x \<le> \<lfloor>x\<rfloor> + 1"
  by (simp_all add: rhe_def Let_def)

lemma rhe_mono: assumes "x \<le> y" shows "rhe x \<le> rhe y"
proof (cases "\<lfloor>x\<rfloor> = \<lfloor>y\<rfloor>")
  case True
  with assms show ?thesis by (auto simp: rhe_def Let_def)
next
  case False
  with assms have "\<lfloor>x\<rfloor> + 1 \<le> \<lfloor>y\<rfloor>" by (smt (verit) floor_mono)
  with rhe_bounds(2) [of x] rhe_bounds(1) [of y] show ?thesis by linarith
qed

lemma rhe_uminus: "rhe (- x) = - rhe x"
proof -
  define f d where "f = \<lfloor>x\<rfloor>" and "d = x - of_int f"
  have x: "x = of_int f + d" and d: "0 \<le> d" "d < 1"
    using floor_correct [of x] by (auto simp: f_def d_def)
  show ?thesis
  proof (cases "d = 0")
    case True
    with x have "x = of_int f" by simp
    then show ?thesis by (metis of_int_minus rhe_of_int)
  next
    case False
    with d have pos: "0 < d" by simp
    have fl: "\<lfloor>- x\<rfloor> = - f - 1"
      using pos d by (intro floor_unique) (auto simp: x)
    have frac: "- x - of_int (- f - 1) = 1 - d" by (simp add: x)
    have r1: "rhe x = (if d < 1 / 2 then f else if d > 1 / 2 then f + 1
        else if even f then f else f + 1)"
      by (simp only: rhe_def Let_def f_def [symmetric] d_def [symmetric])
    have r2: "rhe (- x) = (if 1 - d < 1 / 2 then - f - 1 else if 1 - d > 1 / 2 then - f - 1 + 1
        else if even (- f - 1) then - f - 1 else - f - 1 + 1)"
      by (simp only: rhe_def Let_def fl frac)
    show ?thesis unfolding r1 r2 by auto
  qed
qed

lemma nlog_bounds:
  assumes "2 \<le> b" and "0 < n"
  shows "int b ^ nlog b n \<le> n \<and> n < int b ^ Suc (nlog b n)"
  using assms
proof (induction b n rule: nlog.induct)
  case (1 b n)
  show ?case
  proof (cases "n < int b")
    case True
    with 1 show ?thesis by (simp add: nlog.simps [of b n])
  next
    case False
    with 1 have pos: "0 < n div int b" by (simp add: pos_imp_zdiv_pos_iff)
    with 1 False have ih: "int b ^ nlog b (n div int b) \<le> n div int b"
      "n div int b < int b ^ Suc (nlog b (n div int b))"
      by auto
    have "int b * int b ^ nlog b (n div int b) \<le> int b * (n div int b)"
      using ih(1) by (rule mult_left_mono) simp
    also have "\<dots> \<le> n" using 1(2) by (simp add: minus_mod_eq_mult_div [symmetric])
    finally have lo: "int b ^ Suc (nlog b (n div int b)) \<le> n" by simp
    have "n div int b + 1 \<le> int b ^ Suc (nlog b (n div int b))" using ih(2) by simp
    then have up: "int b * (n div int b + 1) \<le> int b * int b ^ Suc (nlog b (n div int b))"
      by (rule mult_left_mono) simp
    have "n < int b * (n div int b + 1)"
      using 1(2) pos_mod_bound [of "int b" n]
      by (simp add: distrib_left minus_mod_eq_mult_div [symmetric])
    then have "n < int b * int b ^ Suc (nlog b (n div int b))" using up by (rule less_le_trans)
    with lo False 1(2) show ?thesis by (simp add: nlog.simps [of b n])
  qed
qed

lemma fexp_bounds:
  assumes b: "2 \<le> b" and x: "0 < x"
  shows "of_nat b powi fexp b x \<le> x" and "x < of_nat b powi (fexp b x + 1)"
proof -
  obtain p q where pq: "quotient_of x = (p, q)" by (cases "quotient_of x")
  have q: "0 < q" using pq by (rule quotient_of_denom_pos)
  have xpq: "x = of_int p / of_int q" using pq by (rule quotient_of_div)
  have p: "0 < p" using x q by (simp add: xpq zero_less_divide_iff)
  define B where "B = (of_nat b :: rat)"
  have B: "1 < B" using b by (simp add: B_def)
  define lp lq where "lp = nlog b p" and "lq = nlog b q"
  have np: "int b ^ lp \<le> p" "p < int b ^ Suc lp"
    using nlog_bounds [OF b p] by (simp_all add: lp_def)
  have nq: "int b ^ lq \<le> q" "q < int b ^ Suc lq"
    using nlog_bounds [OF b q] by (simp_all add: lq_def)
  have pw: "B ^ k = of_int (int b ^ k)" for k by (simp add: B_def)
  have P: "B ^ lp \<le> of_int p" "of_int p < B ^ Suc lp"
    unfolding pw of_int_le_iff of_int_less_iff by (fact np)+
  have Q: "B ^ lq \<le> of_int q" "of_int q < B ^ Suc lq"
    unfolding pw of_int_le_iff of_int_less_iff by (fact nq)+
  define e where "e = int lp - int lq"
  have hi: "x < B powi (e + 1)"
  proof -
    have "x \<le> of_int p / B ^ lq"
      using Q(1) q p B unfolding xpq by (intro divide_left_mono) auto
    also have "\<dots> < B ^ Suc lp / B ^ lq"
      using P(2) B by (intro divide_strict_right_mono) auto
    also have "\<dots> = B powi (e + 1)"
      using B by (simp add: e_def power_int_diff power_int_add)
    finally show ?thesis .
  qed
  have lo: "B powi (e - 1) \<le> x"
  proof -
    have "B powi (e - 1) = B ^ lp / B ^ Suc lq"
      using B by (simp add: e_def power_int_diff power_int_add)
    also have "\<dots> \<le> of_int p / B ^ Suc lq"
      using P(1) B by (intro divide_right_mono) auto
    also have "\<dots> \<le> of_int p / of_int q"
      using Q(2) q p B by (intro divide_left_mono) auto
    finally show ?thesis by (simp add: xpq)
  qed
  have fe: "fexp b x = (if B powi e \<le> x then e else e - 1)"
    by (simp add: fexp_def pq Let_def e_def lp_def lq_def B_def)
  show "of_nat b powi fexp b x \<le> x" using lo by (simp add: fe flip: B_def)
  show "x < of_nat b powi (fexp b x + 1)" using hi by (auto simp: fe simp flip: B_def)
qed

lemma powi_less_cancel:
  fixes x :: "'a :: linordered_field"
  assumes "x powi m < x powi n" and "1 < x"
  shows "m < n"
proof (rule ccontr)
  assume "\<not> m < n"
  then have "x powi n \<le> x powi m" using assms(2) by (intro power_int_increasing) auto
  with assms(1) show False by simp
qed

lemma fexp_unique:
  assumes b: "2 \<le> b" and "of_nat b powi e \<le> x" and "x < of_nat b powi (e + 1)"
  shows "fexp b x = e"
proof -
  have B: "1 < (of_nat b :: rat)" using b by simp
  have "0 < (of_nat b :: rat) powi e" using b by (intro zero_less_power_int) simp
  then have "0 < x" using assms(2) by linarith
  note f = fexp_bounds [OF b this]
  from f(1) assms(3) have "(of_nat b :: rat) powi fexp b x < of_nat b powi (e + 1)" by linarith
  then have "fexp b x < e + 1" using B by (rule powi_less_cancel)
  moreover from f(2) assms(2) have "(of_nat b :: rat) powi e < of_nat b powi (fexp b x + 1)"
    by linarith
  then have "e < fexp b x + 1" using B by (rule powi_less_cancel)
  ultimately show ?thesis by simp
qed


lemma quantum_mono:
  assumes b: "2 \<le> b" and "0 < x" and "x \<le> y"
  shows "quantum_exp b p qmin x \<le> quantum_exp b p qmin y"
proof -
  have y: "0 < y" using assms by linarith
  have "of_nat b powi fexp b x < (of_nat b :: rat) powi (fexp b y + 1)"
    using fexp_bounds(1) [OF b \<open>0 < x\<close>] fexp_bounds(2) [OF b y] \<open>x \<le> y\<close> by linarith
  then have "fexp b x < fexp b y + 1" by (rule powi_less_cancel) (use b in simp)
  then show ?thesis using \<open>0 < x\<close> y by (auto simp: quantum_exp_def)
qed

lemma on_grid:
  assumes "2 \<le> b" and "q \<le> k"
  shows "of_nat b powi k / of_nat b powi q = (of_int (int b ^ nat (k - q)) :: rat)"
proof -
  have "(of_nat b :: rat) powi k / of_nat b powi q = of_nat b powi (k - q)"
    using assms by (simp add: power_int_diff)
  also have "\<dots> = of_nat b ^ nat (k - q)" using assms by (simp add: power_int_def)
  finally show ?thesis by simp
qed

lemma round_sig_pos:
  assumes "0 < x"
  shows "round_sig b p qmin x = of_int (rhe (x / of_nat b powi quantum_exp b p qmin x))
           * of_nat b powi quantum_exp b p qmin x"
  using assms by (simp add: round_sig_def Let_def)

lemma round_sig_le_power:
  assumes b: "2 \<le> b" and x: "0 < x" and le: "x \<le> of_nat b powi k"
    and q: "quantum_exp b p qmin x \<le> k"
  shows "round_sig b p qmin x \<le> of_nat b powi k"
proof -
  define u where "u = (of_nat b :: rat) powi quantum_exp b p qmin x"
  have u: "0 < u" using b by (simp add: u_def)
  have g: "of_nat b powi k / u = of_int (int b ^ nat (k - quantum_exp b p qmin x))"
    unfolding u_def by (rule on_grid [OF b q])
  have "x / u \<le> of_nat b powi k / u" using le u by (simp add: divide_right_mono)
  then have "rhe (x / u) \<le> rhe (of_nat b powi k / u)" by (rule rhe_mono)
  also have "\<dots> = int b ^ nat (k - quantum_exp b p qmin x)" by (simp only: g rhe_of_int)
  finally have "of_int (rhe (x / u)) \<le> of_nat b powi k / u"
    by (simp only: g of_int_le_iff)
  then show ?thesis using u by (simp add: round_sig_pos [OF x] u_def [symmetric] field_simps)
qed

lemma power_le_round_sig:
  assumes b: "2 \<le> b" and x: "0 < x" and le: "of_nat b powi k \<le> x"
    and q: "quantum_exp b p qmin x \<le> k"
  shows "of_nat b powi k \<le> round_sig b p qmin x"
proof -
  define u where "u = (of_nat b :: rat) powi quantum_exp b p qmin x"
  have u: "0 < u" using b by (simp add: u_def)
  have g: "of_nat b powi k / u = of_int (int b ^ nat (k - quantum_exp b p qmin x))"
    unfolding u_def by (rule on_grid [OF b q])
  have "of_nat b powi k / u \<le> x / u" using le u by (simp add: divide_right_mono)
  then have "rhe (of_nat b powi k / u) \<le> rhe (x / u)" by (rule rhe_mono)
  then have "of_nat b powi k / u \<le> of_int (rhe (x / u))"
    by (simp only: g rhe_of_int of_int_le_iff)
  then show ?thesis using u by (simp add: round_sig_pos [OF x] u_def [symmetric] field_simps)
qed

lemma round_sig_nonneg:
  assumes "2 \<le> b" and "0 \<le> x"
  shows "0 \<le> round_sig b p qmin x"
proof (cases "x = 0")
  case True
  then show ?thesis by (simp add: round_sig_def)
next
  case False
  have "rhe 0 \<le> rhe (x / of_nat b powi quantum_exp b p qmin x)"
    using assms by (intro rhe_mono) simp
  with False assms show ?thesis
    using rhe_of_int [of 0] by (simp add: round_sig_def Let_def)
qed

lemma round_sig_mono_pos:
  assumes b: "2 \<le> b" and p: "1 \<le> p" and x: "0 < x" and le: "x \<le> y"
  shows "round_sig b p qmin x \<le> round_sig b p qmin y"
proof (cases "quantum_exp b p qmin x = quantum_exp b p qmin y")
  case True
  define u where "u = (of_nat b :: rat) powi quantum_exp b p qmin y"
  have u: "0 < u" using b by (simp add: u_def)
  have "x / u \<le> y / u" using le u by (simp add: divide_right_mono)
  then have "rhe (x / u) \<le> rhe (y / u)" by (rule rhe_mono)
  then have "of_int (rhe (x / u)) * u \<le> of_int (rhe (y / u)) * u"
    using u by (simp add: mult_right_mono)
  moreover have "0 < y" using x le by linarith
  ultimately show ?thesis by (simp add: round_sig_pos x True u_def)
next
  case False
  have y: "0 < y" using x le by linarith
  have lt: "quantum_exp b p qmin x < quantum_exp b p qmin y"
    using False quantum_mono [OF b x le, of p qmin] by linarith
  have qy: "quantum_exp b p qmin y = fexp b y - (int p - 1)"
    using lt y by (auto simp: quantum_exp_def max_def split: if_splits)
  have ex: "fexp b x - (int p - 1) \<le> quantum_exp b p qmin x" using x by (simp add: quantum_exp_def)
  have "x \<le> of_nat b powi (fexp b x + 1)" using fexp_bounds(2) [OF b x] by simp
  also have "\<dots> \<le> of_nat b powi fexp b y"
    using lt ex qy b by (intro power_int_increasing) auto
  finally have "round_sig b p qmin x \<le> of_nat b powi fexp b y"
    by (rule round_sig_le_power [OF b x]) (use lt qy p in simp)
  also have "\<dots> \<le> round_sig b p qmin y"
    by (rule power_le_round_sig [OF b y fexp_bounds(1) [OF b y]]) (use qy p in simp)
  finally show ?thesis .
qed

lemma round_sig_zero [simp]: "round_sig b p qmin 0 = 0"
  by (simp add: round_sig_def)

lemma round_sig_uminus: "round_sig b p qmin (- x) = - round_sig b p qmin x"
  by (simp add: round_sig_def Let_def quantum_exp_def rhe_uminus)

lemma round_sig_mono:
  assumes b: "2 \<le> b" and p: "1 \<le> p" and le: "x \<le> y"
  shows "round_sig b p qmin x \<le> round_sig b p qmin y"
proof -
  consider "0 < x" | "x \<le> 0" "0 \<le> y" | "y < 0" by linarith
  then show ?thesis
  proof cases
    case 1
    then show ?thesis by (rule round_sig_mono_pos [OF b p _ le])
  next
    case 2
    have "0 \<le> round_sig b p qmin (- x)" using 2 by (intro round_sig_nonneg [OF b]) simp
    moreover have "0 \<le> round_sig b p qmin y" using 2 by (intro round_sig_nonneg [OF b]) simp
    ultimately show ?thesis by (simp add: round_sig_uminus)
  next
    case 3
    have "round_sig b p qmin (- y) \<le> round_sig b p qmin (- x)"
      using 3 le by (intro round_sig_mono_pos [OF b p]) simp_all
    then show ?thesis by (simp add: round_sig_uminus)
  qed
qed


lemma round_sig_idem_pos:
  assumes b: "2 \<le> b" and p: "1 \<le> p" and x: "0 < x"
  shows "round_sig b p qmin (round_sig b p qmin x) = round_sig b p qmin x"
proof -
  define q where "q = quantum_exp b p qmin x"
  define u where "u = (of_nat b :: rat) powi q"
  define m where "m = rhe (x / u)"
  define y where "y = of_int m * u"
  have u: "0 < u" using b by (simp add: u_def)
  have y: "round_sig b p qmin x = y" by (simp add: round_sig_pos [OF x] y_def m_def u_def q_def)
  have "0 \<le> y" using round_sig_nonneg [OF b, of x p qmin] x y by simp
  show ?thesis
  proof (cases "y = 0")
    case True
    then show ?thesis by (simp add: y)
  next
    case False
    with \<open>0 \<le> y\<close> have ypos: "0 < y" by simp
    have q1: "fexp b x - (int p - 1) \<le> q" and q2: "qmin \<le> q"
      using x by (simp_all add: q_def quantum_exp_def)
    define k where "k = max (fexp b x + 1) q"
    have "x \<le> of_nat b powi (fexp b x + 1)" using fexp_bounds(2) [OF b x] by simp
    also have "\<dots> \<le> of_nat b powi k" using b by (intro power_int_increasing) (auto simp: k_def)
    finally have "y \<le> of_nat b powi k"
      unfolding y [symmetric] by (rule round_sig_le_power [OF b x]) (simp add: k_def q_def)
    then have "of_nat b powi fexp b y \<le> (of_nat b :: rat) powi k"
      using fexp_bounds(1) [OF b ypos] by linarith
    then have "of_nat b powi fexp b y < (of_nat b :: rat) powi (k + 1)"
      using b by (intro le_less_trans [OF _ power_int_strict_increasing]) auto
    then have "fexp b y < k + 1" by (rule powi_less_cancel) (use b in simp)
    then have ey: "fexp b y \<le> q + int p" using q1 p by (auto simp: k_def)
    define q' where "q' = quantum_exp b p qmin y"
    have q': "q' \<le> q + 1" using ey q2 ypos p by (simp add: q'_def quantum_exp_def)
    have "y / of_nat b powi q' = of_int (rhe (y / of_nat b powi q'))"
    proof (cases "q' \<le> q")
      case True
      have "y / of_nat b powi q' = of_int (m * int b ^ nat (q - q'))"
        using on_grid [OF b True]
        by (simp add: y_def u_def times_divide_eq_right [symmetric] del: times_divide_eq_right)
      then show ?thesis by (simp only: rhe_of_int)
    next
      case False
      with q' have q'q: "q' = q + 1" by simp
      with q2 have "fexp b y = q + int p"
        using ypos by (simp add: q'_def quantum_exp_def max_def split: if_splits)
      then have "of_nat b powi (q + int p) \<le> y" using fexp_bounds(1) [OF b ypos] by simp
      moreover have "y \<le> of_nat b powi (q + int p)"
        by (rule order_trans [OF \<open>y \<le> of_nat b powi k\<close>], rule power_int_increasing)
           (use b q1 p in \<open>auto simp: k_def\<close>)
      ultimately have "y = of_nat b powi (q + int p)" by simp
      moreover have "q' \<le> q + int p" using q'q p by simp
      ultimately have "y / of_nat b powi q' = of_int (int b ^ nat (q + int p - q'))"
        by (simp only: on_grid [OF b])
      then show ?thesis by (simp only: rhe_of_int)
    qed
    then have "of_int (rhe (y / of_nat b powi q')) * of_nat b powi q' = y"
      using b by (simp add: field_simps)
    then show ?thesis by (simp add: y round_sig_pos [OF ypos] q'_def)
  qed
qed

lemma round_sig_idem:
  assumes b: "2 \<le> b" and p: "1 \<le> p"
  shows "round_sig b p qmin (round_sig b p qmin x) = round_sig b p qmin x"
proof -
  consider "0 < x" | "x = 0" | "0 < - x" by linarith
  then show ?thesis
  proof cases
    case 3
    from round_sig_idem_pos [OF b p 3] show ?thesis by (simp add: round_sig_uminus)
  qed (simp_all add: round_sig_idem_pos [OF b p])
qed

subsection \<open>The interface of a rounding\<close>

locale rounding =
  fixes rnd :: "rat \<Rightarrow> rat"
  assumes mono: "x \<le> y \<Longrightarrow> rnd x \<le> rnd y"
    and idem: "rnd (rnd x) = rnd x"
    and zero: "rnd 0 = 0"
    and minus: "rnd (- x) = - rnd x"
begin

lemma nonneg: "0 \<le> x \<Longrightarrow> 0 \<le> rnd x"
  using mono [of 0 x] zero by simp

lemma nonpos: "x \<le> 0 \<Longrightarrow> rnd x \<le> 0"
  using mono [of x 0] zero by simp

lemma above: "rnd a = a \<Longrightarrow> a \<le> x \<Longrightarrow> a \<le> rnd x"
  using mono [of a x] by simp

lemma below: "rnd a = a \<Longrightarrow> x \<le> a \<Longrightarrow> rnd x \<le> a"
  using mono [of x a] by simp

lemma abs_commute: "rnd \<bar>x\<bar> = \<bar>rnd x\<bar>"
  using nonneg [of x] nonpos [of x] by (cases "0 \<le> x") (auto simp: abs_if minus)

lemma midpoint:
  assumes "rnd a = a" "rnd b = b" "rnd (2 * a) = 2 * a" "rnd (2 * b) = 2 * b" and "a \<le> b"
  shows "a \<le> rnd (rnd (a + b) / 2)" and "rnd (rnd (a + b) / 2) \<le> b"
proof -
  have "2 * a \<le> rnd (a + b)" by (rule above) (use assms in simp_all)
  then show "a \<le> rnd (rnd (a + b) / 2)" by (intro above) (use assms in simp_all)
  have "rnd (a + b) \<le> 2 * b" by (rule below) (use assms in simp_all)
  then show "rnd (rnd (a + b) / 2) \<le> b" by (intro below) (use assms in simp_all)
qed

end

interpretation binary64: rounding r64
  by unfold_locales
    (simp_all add: r64_def round_sig_mono round_sig_idem round_sig_uminus)

interpretation decimal28: rounding r28
  by unfold_locales
    (simp_all add: r28_def round_sig_mono round_sig_idem round_sig_uminus)


subsection \<open>Floats\<close>

datatype pyfloat = Fin rat | PInf | NInf | NaN

definition f64_limit :: rat where
  "f64_limit = 2 ^ 1024"

lemma f64_limit_code [code]:
  "f64_limit = 179769313486231590772930519078902473361797697894230657273430081157732675805500963132708477322407536021120113879871393357658789768814416622492847430639474124377767893424865485276302219601246094119453082952085005768838150682342462881473913110540827237163350510684586298239947245938479716304835356329624224137216"
  by (simp add: f64_limit_def)

definition f64 :: "rat \<Rightarrow> pyfloat" where
  "f64 x = (let r = r64 x in
     if f64_limit \<le> r then PInf else if r \<le> - f64_limit then NInf else Fin r)"

fun fless :: "pyfloat \<Rightarrow> pyfloat \<Rightarrow> bool" where
  "fless (Fin a) (Fin b) = (a < b)"
| "fless (Fin _) PInf = True"
| "fless NInf (Fin _) = True"
| "fless NInf PInf = True"
| "fless _ _ = False"

definition feq :: "pyfloat \<Rightarrow> pyfloat \<Rightarrow> bool" where
  "feq x y \<longleftrightarrow> x = y \<and> x \<noteq> NaN"

definition fle :: "pyfloat \<Rightarrow> pyfloat \<Rightarrow> bool" where
  "fle x y \<longleftrightarrow> fless x y \<or> feq x y"

fun fneg :: "pyfloat \<Rightarrow> pyfloat" where
  "fneg (Fin a) = Fin (- a)"
| "fneg PInf = NInf"
| "fneg NInf = PInf"
| "fneg NaN = NaN"

fun fadd :: "pyfloat \<Rightarrow> pyfloat \<Rightarrow> pyfloat" where
  "fadd (Fin a) (Fin b) = f64 (a + b)"
| "fadd NaN _ = NaN"
| "fadd _ NaN = NaN"
| "fadd PInf NInf = NaN"
| "fadd NInf PInf = NaN"
| "fadd PInf _ = PInf"
| "fadd _ PInf = PInf"
| "fadd NInf _ = NInf"
| "fadd _ NInf = NInf"

definition fsub :: "pyfloat \<Rightarrow> pyfloat \<Rightarrow> pyfloat" where
  "fsub a b = fadd a (fneg b)"

fun fsign :: "pyfloat \<Rightarrow> rat" where
  "fsign (Fin a) = sgn a"
| "fsign PInf = 1"
| "fsign NInf = - 1"
| "fsign NaN = 0"

definition inf_of_sign :: "rat \<Rightarrow> pyfloat" where
  "inf_of_sign s = (if s > 0 then PInf else if s < 0 then NInf else NaN)"

fun fmul :: "pyfloat \<Rightarrow> pyfloat \<Rightarrow> pyfloat" where
  "fmul (Fin a) (Fin b) = f64 (a * b)"
| "fmul NaN _ = NaN"
| "fmul _ NaN = NaN"
| "fmul x y = inf_of_sign (fsign x * fsign y)"

text \<open>
  Division by a zero float raises ZeroDivisionError; every division of the modelled code is by
  a positive constant or stands behind a test, so \<open>fdiv\<close> gives NaN there.
\<close>

fun fdiv :: "pyfloat \<Rightarrow> pyfloat \<Rightarrow> pyfloat" where
  "fdiv (Fin a) (Fin b) = (if b = 0 then NaN else f64 (a / b))"
| "fdiv NaN _ = NaN"
| "fdiv _ NaN = NaN"
| "fdiv (Fin _) _ = Fin 0"
| "fdiv x (Fin b) = (if b = 0 then NaN else inf_of_sign (fsign x * sgn b))"
| "fdiv _ _ = NaN"

fun fabs :: "pyfloat \<Rightarrow> pyfloat" where
  "fabs (Fin a) = Fin \<bar>a\<bar>"
| "fabs NInf = PInf"
| "fabs x = x"

definition float_of_int :: "int \<Rightarrow> pyfloat" where
  "float_of_int n = f64 (of_int n)"

definition int_truediv :: "int \<Rightarrow> int \<Rightarrow> pyfloat" where
  \<comment> \<open>Python's \<open>/\<close> on two integers: the correctly rounded quotient\<close>
  "int_truediv m n = f64 (of_int m / of_int n)"

definition ms_of_ns :: "int \<Rightarrow> pyfloat" where
  \<comment> \<open>\<open>n / 1_000_000.0\<close>: the integer becomes a float first\<close>
  "ms_of_ns n = fdiv (float_of_int n) (Fin 1000000)"

fun fint :: "pyfloat \<Rightarrow> int option" where
  \<comment> \<open>\<open>int(x)\<close> truncates; it raises on the infinities and on NaN\<close>
  "fint (Fin x) = Some (if x < 0 then \<lceil>x\<rceil> else \<lfloor>x\<rfloor>)"
| "fint _ = None"

text \<open>
  The built-ins \<open>max(a, b)\<close> and \<open>min(a, b)\<close> keep the first argument unless the second compares
  strictly better, which decides what they do with NaN.
\<close>

definition pymax :: "pyfloat \<Rightarrow> pyfloat \<Rightarrow> pyfloat" where
  "pymax a b = (if fless a b then b else a)"

definition pymin :: "pyfloat \<Rightarrow> pyfloat \<Rightarrow> pyfloat" where
  "pymin a b = (if fless b a then b else a)"

definition or_float :: "pyfloat option \<Rightarrow> pyfloat option \<Rightarrow> pyfloat option" where
  "or_float a b = (if a = None \<or> a = Some (Fin 0) then b else a)"

abbreviation fzero :: pyfloat where "fzero \<equiv> Fin 0"

definition is_f64 :: "rat \<Rightarrow> bool" where
  "is_f64 a \<longleftrightarrow> r64 a = a \<and> \<bar>a\<bar> < f64_limit"

lemma f64_limit_pos [simp]: "0 < f64_limit"
  by (simp add: f64_limit_def)

lemma f64_not_NaN [simp]: "f64 x \<noteq> NaN" "NaN \<noteq> f64 x"
  by (auto simp: f64_def Let_def)

lemma fle_simps [simp]:
  "fle (Fin a) (Fin b) \<longleftrightarrow> a \<le> b" "fle NaN x = False" "fle x NaN = False"
  "fle NInf x \<longleftrightarrow> x \<noteq> NaN" "fle x PInf \<longleftrightarrow> x \<noteq> NaN"
  "fle PInf (Fin b) = False" "fle (Fin b) NInf = False" "fle PInf NInf = False"
  by (cases x; auto simp: fle_def feq_def)+

lemma fle_refl [simp]: "fle x x \<longleftrightarrow> x \<noteq> NaN"
  by (cases x) auto

lemma fless_irrefl [simp]: "\<not> fless x x"
  by (cases x) auto

lemma fless_NaN [simp]: "\<not> fless x NaN" "\<not> fless NaN x"
  by (cases x; simp)+

lemma fless_trans: "fless x y \<Longrightarrow> fless y z \<Longrightarrow> fless x z"
  by (cases x; cases y; cases z) auto

lemma fle_trans: "fle x y \<Longrightarrow> fle y z \<Longrightarrow> fle x z"
  by (cases x; cases y; cases z) auto

lemma fless_fle_trans: "fless x y \<Longrightarrow> fle y z \<Longrightarrow> fless x z"
  by (cases x; cases y; cases z) auto

lemma fle_fless_trans: "fle x y \<Longrightarrow> fless y z \<Longrightarrow> fless x z"
  by (cases x; cases y; cases z) auto

lemma fless_imp_fle: "fless x y \<Longrightarrow> fle x y"
  by (simp add: fle_def)

lemma not_fless_iff: "x \<noteq> NaN \<Longrightarrow> y \<noteq> NaN \<Longrightarrow> \<not> fless x y \<longleftrightarrow> fle y x"
  by (cases x; cases y) auto

lemma not_fle_iff: "x \<noteq> NaN \<Longrightarrow> y \<noteq> NaN \<Longrightarrow> \<not> fle x y \<longleftrightarrow> fless y x"
  by (cases x; cases y) auto

lemma fless_asym: "fless x y \<Longrightarrow> \<not> fle y x"
  by (cases x; cases y) auto

lemma f64_mono: "x \<le> y \<Longrightarrow> fle (f64 x) (f64 y)"
  using binary64.mono [of x y] f64_limit_pos by (auto simp: f64_def Let_def)

lemma f64_exact: "is_f64 a \<Longrightarrow> f64 a = Fin a"
  by (auto simp: is_f64_def f64_def Let_def)

lemma is_f64_0 [simp]: "is_f64 0"
  by (simp add: is_f64_def binary64.zero)

lemma f64_0 [simp]: "f64 0 = Fin 0"
  by (rule f64_exact) simp

lemma f64_nonneg: "0 \<le> x \<Longrightarrow> fle fzero (f64 x)"
  using f64_mono [of 0 x] by simp

lemma f64_Fin_is_f64: "f64 x = Fin a \<Longrightarrow> is_f64 a"
  using binary64.idem [of x]
  by (auto simp: f64_def Let_def is_f64_def abs_less_iff split: if_splits)

lemma fdiv_pos_mono: "fle x y \<Longrightarrow> 0 < b \<Longrightarrow> fle (fdiv x (Fin b)) (fdiv y (Fin b))"
  by (cases x; cases y) (auto simp: inf_of_sign_def f64_mono divide_right_mono)

lemma ms_of_ns_mono: "m \<le> n \<Longrightarrow> fle (ms_of_ns m) (ms_of_ns n)"
  unfolding ms_of_ns_def float_of_int_def by (intro fdiv_pos_mono f64_mono) simp_all

lemma ms_of_ns_0 [simp]: "ms_of_ns 0 = fzero"
  by (simp add: ms_of_ns_def float_of_int_def)

lemma ms_of_ns_nonneg: "0 \<le> n \<Longrightarrow> fle fzero (ms_of_ns n)"
  using ms_of_ns_mono [of 0 n] by simp

lemma ms_of_ns_not_NaN [simp]: "ms_of_ns n \<noteq> NaN" "NaN \<noteq> ms_of_ns n"
  using ms_of_ns_mono [of n n] by auto

lemma pymax_ge_left: "a \<noteq> NaN \<Longrightarrow> fle a (pymax a b)"
  by (cases a; cases b) (auto simp: pymax_def)

lemma pymax_not_NaN [simp]: "a \<noteq> NaN \<Longrightarrow> pymax a b \<noteq> NaN"
  by (auto simp: pymax_def)

subsection \<open>Sorted samples\<close>

text \<open>
  \<open>sorted\<close> on floats. The order below agrees with Python's on everything but NaN, where
  Python's \<open><\<close> is always false (that is \<open>fless\<close>) and the outcome of a sort depends on the
  algorithm; the samples the program sorts are quotients of integers and never NaN.
\<close>

fun float_key :: "pyfloat \<Rightarrow> nat \<times> rat" where
  "float_key NInf = (0, 0)"
| "float_key (Fin x) = (1, x)"
| "float_key PInf = (2, 0)"
| "float_key NaN = (3, 0)"

lemma float_key_inj: "float_key a = float_key b \<Longrightarrow> a = b"
  by (cases a; cases b) auto

instantiation pyfloat :: linorder
begin

definition less_eq_pyfloat :: "pyfloat \<Rightarrow> pyfloat \<Rightarrow> bool" where
  "a \<le> b \<longleftrightarrow> fst (float_key a) < fst (float_key b)
     \<or> fst (float_key a) = fst (float_key b) \<and> snd (float_key a) \<le> snd (float_key b)"

definition less_pyfloat :: "pyfloat \<Rightarrow> pyfloat \<Rightarrow> bool" where
  "a < b \<longleftrightarrow> fst (float_key a) < fst (float_key b)
     \<or> fst (float_key a) = fst (float_key b) \<and> snd (float_key a) < snd (float_key b)"

instance
proof
  fix a b c :: pyfloat
  show "(a < b) = (a \<le> b \<and> \<not> b \<le> a)" by (auto simp: less_eq_pyfloat_def less_pyfloat_def)
  show "a \<le> a" by (simp add: less_eq_pyfloat_def)
  show "a \<le> b \<Longrightarrow> b \<le> c \<Longrightarrow> a \<le> c" by (auto simp: less_eq_pyfloat_def)
  show "a \<le> b \<or> b \<le> a" by (auto simp: less_eq_pyfloat_def)
  assume "a \<le> b" "b \<le> a"
  then have "float_key a = float_key b" by (auto simp: less_eq_pyfloat_def prod_eq_iff)
  then show "a = b" by (rule float_key_inj)
qed

end

lemma le_imp_fle: "a \<le> b \<Longrightarrow> b \<noteq> NaN \<Longrightarrow> fle a b"
  by (cases a; cases b) (auto simp: less_eq_pyfloat_def fle_def feq_def)

definition percentile_index :: "nat \<Rightarrow> pyfloat \<Rightarrow> int" where
  \<comment> \<open>\<open>round((n - 1) * pct)\<close>, clamped to the list; the product is finite for every list in memory\<close>
  "percentile_index n pct = (let i = (case fmul (float_of_int (int n - 1)) pct of
       Fin r \<Rightarrow> rhe r | _ \<Rightarrow> 0) in min (int n - 1) (max 0 i))"

definition percentile :: "pyfloat list \<Rightarrow> pyfloat \<Rightarrow> pyfloat" where
  "percentile values pct =
     (if values = [] then fzero else if length values = 1 then values ! 0
      else values ! nat (percentile_index (length values) pct))"

lemma percentile_index_range: "0 < n \<Longrightarrow> 0 \<le> percentile_index n pct \<and> percentile_index n pct < int n"
  unfolding percentile_index_def Let_def by linarith

lemma percentile_mem: "values \<noteq> [] \<Longrightarrow> percentile values pct \<in> set values"
  using percentile_index_range [of "length values" pct]
  by (auto simp: percentile_def nat_less_iff intro!: nth_mem)


subsection \<open>Small integers are floats\<close>

lemma r64_int_pos:
  assumes "0 < n" and "n \<le> 4503599627370496"
  shows "r64 (of_int n) = of_int n"
proof -
  define x :: rat where "x = of_int n"
  have x: "0 < x" using assms(1) by (simp add: x_def)
  define q where "q = quantum_exp 2 53 (-1074) x"
  have "of_nat 2 powi fexp 2 x \<le> x" using fexp_bounds(1) [of 2 x] x by simp
  also have "x \<le> of_int 4503599627370496" using assms(2) unfolding x_def of_int_le_iff .
  also have "\<dots> < (2 :: rat) powi 53" by (simp add: power_int_def)
  finally have "fexp 2 x < 53" by (intro powi_less_cancel [of "2 :: rat"]) simp_all
  then have q: "q \<le> 0" using x by (simp add: q_def quantum_exp_def)
  define u :: rat where "u = of_nat 2 powi q"
  have "x / u = of_int n * (of_nat 2 powi 0 / u)" by (simp add: x_def)
  also have "\<dots> = of_int (n * int 2 ^ nat (0 - q))"
    unfolding u_def on_grid [OF order_refl q] by simp
  finally have "of_int (rhe (x / u)) = x / u" by (simp only: rhe_of_int)
  then have "r64 x = x / u * u" by (simp only: r64_def round_sig_pos [OF x] q_def u_def)
  also have "\<dots> = x" by (simp add: u_def)
  finally show ?thesis by (simp add: x_def)
qed

lemma r64_int:
  assumes "\<bar>n\<bar> \<le> 4503599627370496"
  shows "r64 (of_int n) = of_int n"
proof -
  consider "0 < n" | "n = 0" | "0 < - n" by linarith
  then show ?thesis
  proof cases
    case 3
    with assms have "r64 (of_int (- n)) = of_int (- n)" by (intro r64_int_pos) simp_all
    then show ?thesis by (simp add: binary64.minus)
  qed (use assms in \<open>simp_all add: r64_int_pos binary64.zero\<close>)
qed

end
