(* ===== verification/PyVal.thy ===== *)
theory PyVal
  imports PyNum
begin

text \<open>
  Values as the program receives them: \<open>pyval\<close> is a decoded JSON value (a Python \<open>object\<close>
  of the types orjson produces), \<open>pydec\<close> a \<open>Decimal\<close>. The theory holds the conversions of
  Python's library the code calls on them: \<open>float(x)\<close>, \<open>Decimal(str(x))\<close>, \<open>str(x)\<close> and the
  truth test of \<open>a or b\<close>. Strings are sequences of ASCII characters here.
\<close>

datatype pyval =
    VNone | VBool bool | VInt int | VFloat pyfloat | VStr string
  | VList "pyval list" | VDict "(string \<times> pyval) list"

datatype py_error =
    KeyError | ValueError | ZeroDivisionError | IndexError | InvalidOperation | AttributeError | TypeError | OverflowError | AssertionError
  | OSError | TimeoutError | ClientError | RuntimeError

subsection \<open>Decimals\<close>

datatype pydec = DNegInf | DFin rat | DPosInf | DNaN

text \<open>
  Finite decimals and the infinities are ordered as numbers. Ordering a NaN raises
  InvalidOperation in Python; the books never hold one (\<open>BookState\<close> proves that every stored
  price and size is finite), so its place above the others is never looked at.
\<close>

fun dec_key :: "pydec \<Rightarrow> nat \<times> rat" where
  "dec_key DNegInf = (0, 0)"
| "dec_key (DFin x) = (1, x)"
| "dec_key DPosInf = (2, 0)"
| "dec_key DNaN = (3, 0)"

lemma dec_key_inj: "dec_key a = dec_key b \<Longrightarrow> a = b"
  by (cases a; cases b) auto

instantiation pydec :: linorder
begin

definition less_eq_pydec :: "pydec \<Rightarrow> pydec \<Rightarrow> bool" where
  "a \<le> b \<longleftrightarrow> fst (dec_key a) < fst (dec_key b)
     \<or> fst (dec_key a) = fst (dec_key b) \<and> snd (dec_key a) \<le> snd (dec_key b)"

definition less_pydec :: "pydec \<Rightarrow> pydec \<Rightarrow> bool" where
  "a < b \<longleftrightarrow> fst (dec_key a) < fst (dec_key b)
     \<or> fst (dec_key a) = fst (dec_key b) \<and> snd (dec_key a) < snd (dec_key b)"

instance
proof
  fix a b c :: pydec
  show "(a < b) = (a \<le> b \<and> \<not> b \<le> a)" by (auto simp: less_eq_pydec_def less_pydec_def)
  show "a \<le> a" by (simp add: less_eq_pydec_def)
  show "a \<le> b \<Longrightarrow> b \<le> c \<Longrightarrow> a \<le> c" by (auto simp: less_eq_pydec_def)
  show "a \<le> b \<or> b \<le> a" by (auto simp: less_eq_pydec_def)
  assume "a \<le> b" "b \<le> a"
  then have "dec_key a = dec_key b" by (auto simp: less_eq_pydec_def prod_eq_iff)
  then show "a = b" by (rule dec_key_inj)
qed

end

lemma DFin_le [simp]: "DFin a \<le> DFin b \<longleftrightarrow> a \<le> b"
  by (simp add: less_eq_pydec_def)

lemma DFin_less [simp]: "DFin a < DFin b \<longleftrightarrow> a < b"
  by (simp add: less_pydec_def)

fun dec_finite :: "pydec \<Rightarrow> bool" where
  "dec_finite (DFin _) = True"
| "dec_finite _ = False"

abbreviation dzero :: pydec where "dzero \<equiv> DFin 0"

lemma dec_finite_iff: "dec_finite d \<longleftrightarrow> (\<exists>x. d = DFin x)"
  by (cases d) auto

text \<open>
  Arithmetic in the default context. A subtraction of equal infinities signals
  InvalidOperation; it and a comparison with NaN are the branch \<open>DNaN\<close>, on which the callers
  raise. Exponents never come near the context's bound of 999999.
\<close>

fun dsub :: "pydec \<Rightarrow> pydec \<Rightarrow> pydec" where
  "dsub (DFin a) (DFin b) = DFin (r28 (a - b))"
| "dsub (DFin a) DPosInf = DNegInf"
| "dsub (DFin a) DNegInf = DPosInf"
| "dsub DPosInf (DFin b) = DPosInf"
| "dsub DNegInf (DFin b) = DNegInf"
| "dsub DPosInf DNegInf = DPosInf"
| "dsub DNegInf DPosInf = DNegInf"
| "dsub _ _ = DNaN"

fun dadd :: "pydec \<Rightarrow> pydec \<Rightarrow> pydec" where
  "dadd (DFin a) (DFin b) = DFin (r28 (a + b))"
| "dadd _ _ = DNaN"

fun dhalf :: "pydec \<Rightarrow> pydec" where
  "dhalf (DFin a) = DFin (r28 (a / 2))"
| "dhalf _ = DNaN"

fun dabs :: "pydec \<Rightarrow> pydec" where
  "dabs (DFin a) = DFin (r28 \<bar>a\<bar>)"
| "dabs DNaN = DNaN"
| "dabs _ = DPosInf"

subsection \<open>Number literals\<close>

definition is_space :: "char \<Rightarrow> bool" where
  "is_space c \<longleftrightarrow> of_char c \<in> {9, 10, 11, 12, 13, 28, 29, 30, 31, 32 :: int}"

definition strip :: "string \<Rightarrow> string" where
  "strip s = rev (dropWhile is_space (rev (dropWhile is_space s)))"

definition is_digit :: "char \<Rightarrow> bool" where
  "is_digit c \<longleftrightarrow> 48 \<le> (of_char c :: int) \<and> (of_char c :: int) \<le> 57"

definition lower_char :: "char \<Rightarrow> char" where
  "lower_char c = (let n = of_char c :: int in if 65 \<le> n \<and> n \<le> 90 then char_of (n + 32) else c)"

definition upper_char :: "char \<Rightarrow> char" where
  "upper_char c = (let n = of_char c :: int in if 97 \<le> n \<and> n \<le> 122 then char_of (n - 32) else c)"

definition lower :: "string \<Rightarrow> string" where
  "lower = map lower_char"

definition upper :: "string \<Rightarrow> string" where
  "upper = map upper_char"

definition digits_val :: "string \<Rightarrow> int" where
  "digits_val = foldl (\<lambda>n c. 10 * n + (of_char c - 48)) 0"

datatype numlit = LNum rat | LInf | LNaN

definition split_sign :: "string \<Rightarrow> bool \<times> string" where
  "split_sign s = (case s of [] \<Rightarrow> (False, [])
     | c # t \<Rightarrow> if c = CHR ''-'' then (True, t) else if c = CHR ''+'' then (False, t) else (False, s))"

definition parse_unsigned :: "string \<Rightarrow> numlit option" where
  "parse_unsigned s =
     (if s = ''inf'' \<or> s = ''infinity'' then Some LInf
      else if s = ''nan'' then Some LNaN
      else let ip = takeWhile is_digit s; r1 = dropWhile is_digit s;
               (fp, r2) = (case r1 of [] \<Rightarrow> ([], [])
                 | c # t \<Rightarrow> if c = CHR ''.'' then (takeWhile is_digit t, dropWhile is_digit t)
                           else ([], r1))
           in if ip = [] \<and> fp = [] then None
              else let m = of_int (digits_val (ip @ fp)) / 10 ^ length fp in
                (case r2 of [] \<Rightarrow> Some (LNum m)
                 | c # t \<Rightarrow> let (neg, e) = split_sign t in
                     if c = CHR ''e'' \<and> e \<noteq> [] \<and> list_all is_digit e
                     then Some (LNum (m * 10 powi (if neg then - digits_val e else digits_val e)))
                     else None))"

definition float_of_lit :: "bool \<Rightarrow> numlit \<Rightarrow> pyfloat" where
  "float_of_lit neg l = (let x = (case l of LNum m \<Rightarrow> f64 m | LInf \<Rightarrow> PInf | LNaN \<Rightarrow> NaN)
     in if neg then fneg x else x)"

definition dec_of_lit :: "bool \<Rightarrow> numlit \<Rightarrow> pydec" where
  "dec_of_lit neg l = (case l of LNum m \<Rightarrow> DFin (if neg then - m else m)
     | LInf \<Rightarrow> if neg then DNegInf else DPosInf | LNaN \<Rightarrow> DNaN)"

fun underscores_ok :: "bool \<Rightarrow> string \<Rightarrow> bool" where
  \<comment> \<open>\<open>float\<close> takes an underscore between two digits only\<close>
  "underscores_ok prev [] = True"
| "underscores_ok prev (c # t) =
     (if c = CHR ''_'' then prev \<and> t \<noteq> [] \<and> is_digit (hd t) \<and> underscores_ok False t
      else underscores_ok (is_digit c) t)"

definition float_of_str :: "string \<Rightarrow> pyfloat option" where
  "float_of_str s0 = (let s = lower (strip s0) in
     if \<not> underscores_ok False s then None
     else let (neg, t) = split_sign (filter (\<lambda>c. c \<noteq> CHR ''_'') s)
          in map_option (float_of_lit neg) (parse_unsigned t))"

definition is_nan_text :: "string \<Rightarrow> bool" where
  "is_nan_text t \<longleftrightarrow> (take 3 t = ''nan'' \<and> list_all is_digit (drop 3 t))
     \<or> (take 4 t = ''snan'' \<and> list_all is_digit (drop 4 t))"

definition dec_of_str :: "string \<Rightarrow> pydec option" where
  "dec_of_str s0 = (let (neg, t) = split_sign (filter (\<lambda>c. c \<noteq> CHR ''_'') (lower (strip s0))) in
     if is_nan_text t then Some DNaN else map_option (dec_of_lit neg) (parse_unsigned t))"

subsection \<open>The shortest decimal of a float\<close>

text \<open>
  \<open>repr(x)\<close> is the decimal with the fewest digits that reads back as \<open>x\<close>, the nearest to \<open>x\<close>
  of those. \<open>short_at n x\<close> looks for one with \<open>n\<close> significant digits among the two neighbours
  of \<open>x\<close>; 17 digits always suffice, and the search falls back to the exact value.
\<close>

definition short_at :: "nat \<Rightarrow> rat \<Rightarrow> (int \<times> int) option" where
  "short_at n x =
     (let e = fexp 10 x - (int n - 1); u = 10 powi e; lo = \<lfloor>x / u\<rfloor>; near = rhe (x / u);
          far = (if near = lo then lo + 1 else lo)
      in if r64 (of_int near * u) = x then Some (near, e)
         else if r64 (of_int far * u) = x then Some (far, e) else None)"

fun short_from :: "nat \<Rightarrow> nat \<Rightarrow> rat \<Rightarrow> (int \<times> int) option" where
  "short_from 0 n x = None"
| "short_from (Suc k) n x = (case short_at n x of Some r \<Rightarrow> Some r | None \<Rightarrow> short_from k (Suc n) x)"

definition repr_value :: "rat \<Rightarrow> rat" where
  \<comment> \<open>the number the text \<open>repr(x)\<close> stands for\<close>
  "repr_value x = (if x = 0 then 0 else
     (case short_from 17 1 \<bar>x\<bar> of
        Some (m, e) \<Rightarrow> sgn x * (of_int m * 10 powi e) | None \<Rightarrow> x))"

definition repr_digits :: "rat \<Rightarrow> string" where
  \<comment> \<open>\<open>repr(x)\<close> of a positive float\<close>
  "repr_digits x = (case short_from 17 1 x of None \<Rightarrow> ''?'' | Some (m, e) \<Rightarrow>
     let ds = pos_digits m; n = int (length ds); pt = n + e in
     if 0 < pt \<and> pt \<le> 16 then
       (if n \<le> pt then ds @ replicate (nat (pt - n)) (CHR ''0'') @ ''.0''
        else take (nat pt) ds @ ''.'' @ drop (nat pt) ds)
     else if - 4 < pt \<and> pt \<le> 0 then ''0.'' @ replicate (nat (- pt)) (CHR ''0'') @ ds
     else let x10 = pt - 1; a = pos_digits \<bar>x10\<bar> in
       hd ds # (if tl ds = [] then [] else CHR ''.'' # tl ds) @ ''e'' @ (if x10 < 0 then ''-'' else ''+'')
         @ (if length a = 1 then CHR ''0'' # a else a))"

fun float_repr :: "pyfloat \<Rightarrow> string" where
  "float_repr (Fin x) = (if x = 0 then ''0.0'' else if x < 0 then CHR ''-'' # repr_digits (- x)
                         else repr_digits x)"
| "float_repr PInf = ''inf''"
| "float_repr NInf = ''-inf''"
| "float_repr NaN = ''nan''"

lemma short_from_r64:
  "short_from k n x = Some (m, e) \<Longrightarrow> r64 (of_int m * 10 powi e) = x"
  by (induction k n x rule: short_from.induct)
    (auto simp: short_at_def Let_def split: if_splits option.splits)

text \<open>Reading the shortest decimal back gives the float again.\<close>

lemma r64_repr_value: assumes "r64 x = x" shows "r64 (repr_value x) = x"
proof (cases "x = 0 \<or> short_from 17 1 \<bar>x\<bar> = None")
  case True
  then show ?thesis using assms by (auto simp: repr_value_def binary64.zero)
next
  case False
  then obtain m e where s: "short_from 17 1 \<bar>x\<bar> = Some (m, e)" and x: "x \<noteq> 0" by auto
  have "r64 (of_int m * 10 powi e) = \<bar>x\<bar>" using s by (rule short_from_r64)
  then show ?thesis using s x
    by (cases "0 < x") (auto simp: repr_value_def sgn_if binary64.minus)
qed

subsection \<open>Conversions of a value\<close>

fun escape_char :: "char \<Rightarrow> char \<Rightarrow> string" where
  "escape_char q c = (if c = q \<or> c = CHR 0x5C then [CHR 0x5C, c]
     else if c = CHR 0x0A then [CHR 0x5C, CHR ''n''] else if c = CHR 0x0D then [CHR 0x5C, CHR ''r'']
     else if c = CHR 0x09 then [CHR 0x5C, CHR ''t''] else [c])"

definition str_repr :: "string \<Rightarrow> string" where
  "str_repr s = (let q = (if CHR 0x27 \<in> set s \<and> CHR 0x22 \<notin> set s then CHR 0x22 else CHR 0x27)
     in q # concat (map (escape_char q) s) @ [q])"

fun py_repr :: "pyval \<Rightarrow> string"
  and list_repr :: "pyval list \<Rightarrow> string"
  and dict_repr :: "(string \<times> pyval) list \<Rightarrow> string" where
  "py_repr VNone = ''None''"
| "py_repr (VBool b) = (if b then ''True'' else ''False'')"
| "py_repr (VInt n) = int_digits n"
| "py_repr (VFloat x) = float_repr x"
| "py_repr (VStr s) = str_repr s"
| "py_repr (VList xs) = CHR ''['' # list_repr xs @ '']''"
| "py_repr (VDict d) = CHR ''{'' # dict_repr d @ ''}''"
| "list_repr [] = []"
| "list_repr [x] = py_repr x"
| "list_repr (x # y # ys) = py_repr x @ '', '' @ list_repr (y # ys)"
| "dict_repr [] = []"
| "dict_repr [(k, v)] = str_repr k @ '': '' @ py_repr v"
| "dict_repr ((k, v) # e # d) = str_repr k @ '': '' @ py_repr v @ '', '' @ dict_repr (e # d)"

fun py_str :: "pyval \<Rightarrow> string" where
  "py_str (VStr s) = s"
| "py_str v = py_repr v"

fun truthy :: "pyval \<Rightarrow> bool" where
  "truthy VNone = False"
| "truthy (VBool b) = b"
| "truthy (VInt n) = (n \<noteq> 0)"
| "truthy (VFloat x) = (x \<noteq> Fin 0)"
| "truthy (VStr s) = (s \<noteq> [])"
| "truthy (VList xs) = (xs \<noteq> [])"
| "truthy (VDict d) = (d \<noteq> [])"

definition val_or :: "pyval \<Rightarrow> pyval \<Rightarrow> pyval" where
  "val_or a b = (if truthy a then a else b)"

definition vget :: "(string \<times> pyval) list \<Rightarrow> string \<Rightarrow> pyval" where
  \<comment> \<open>\<open>d.get(k)\<close>\<close>
  "vget d k = (case map_of d k of None \<Rightarrow> VNone | Some v \<Rightarrow> v)"

fun float_from :: "pyval \<Rightarrow> py_error + pyfloat" where
  "float_from (VBool b) = Inr (if b then Fin 1 else Fin 0)"
| "float_from (VInt n) = Inr (float_of_int n)"
| "float_from (VFloat x) = Inr x"
| "float_from (VStr s) = (case float_of_str s of None \<Rightarrow> Inl ValueError | Some x \<Rightarrow> Inr x)"
| "float_from _ = Inl ValueError"

fun dec_of_val :: "pyval \<Rightarrow> pydec option" where
  \<comment> \<open>\<open>Decimal(str(value))\<close>, \<open>None\<close> for InvalidOperation: the texts of \<open>None\<close>, booleans and
     containers are no numbers\<close>
  "dec_of_val (VInt n) = Some (DFin (of_int n))"
| "dec_of_val (VFloat (Fin x)) = Some (DFin (repr_value x))"
| "dec_of_val (VFloat PInf) = Some DPosInf"
| "dec_of_val (VFloat NInf) = Some DNegInf"
| "dec_of_val (VFloat NaN) = Some DNaN"
| "dec_of_val (VStr s) = dec_of_str s"
| "dec_of_val _ = None"

subsection \<open>Exceptions and texts\<close>

definition and_then :: "py_error + 'a \<Rightarrow> ('a \<Rightarrow> py_error + 'b) \<Rightarrow> py_error + 'b" where
  \<comment> \<open>the first exception of a sequence of evaluations\<close>
  "and_then x f = (case x of Inl e \<Rightarrow> Inl e | Inr a \<Rightarrow> f a)"

fun join_with :: "string \<Rightarrow> string list \<Rightarrow> string" where
  "join_with sep [] = []"
| "join_with sep [s] = s"
| "join_with sep (s # t # ts) = s @ sep @ join_with sep (t # ts)"

end
