(* ===== verification/LevelBook.thy ===== *)
theory LevelBook
  imports PyVal
begin

text \<open>
  Price levels shared by the two order books. \<open>bisect_left\<close> and \<open>bisect_right\<close> are the binary
  searches of Python's \<open>bisect\<close> module as its documentation gives them; on a sorted list they
  find the number of smaller (not greater) elements. The locale \<open>level_book\<close> is what a book
  promises about applying one level: the invariant is kept, and the lookup changes at that
  price only. What a batch of levels does (the last level of a price wins) is proved once in it.
\<close>

subsection \<open>Binary search\<close>

function bisect_left_in :: "'a::linorder list \<Rightarrow> 'a \<Rightarrow> nat \<Rightarrow> nat \<Rightarrow> nat" where
  "bisect_left_in xs x lo hi =
     (if lo < hi then let mid = (lo + hi) div 2 in
        if xs ! mid < x then bisect_left_in xs x (mid + 1) hi else bisect_left_in xs x lo mid
      else lo)"
  by auto
termination by (relation "measure (\<lambda>(xs, x, lo, hi). hi - lo)") auto

function bisect_right_in :: "'a::linorder list \<Rightarrow> 'a \<Rightarrow> nat \<Rightarrow> nat \<Rightarrow> nat" where
  "bisect_right_in xs x lo hi =
     (if lo < hi then let mid = (lo + hi) div 2 in
        if x < xs ! mid then bisect_right_in xs x lo mid else bisect_right_in xs x (mid + 1) hi
      else lo)"
  by auto
termination by (relation "measure (\<lambda>(xs, x, lo, hi). hi - lo)") auto

declare bisect_left_in.simps [simp del] bisect_right_in.simps [simp del]

definition bisect_left :: "'a::linorder list \<Rightarrow> 'a \<Rightarrow> nat" where
  "bisect_left xs x = bisect_left_in xs x 0 (length xs)"

definition insort_right :: "'a::linorder list \<Rightarrow> 'a \<Rightarrow> 'a list" where
  "insort_right xs x = (let i = bisect_right_in xs x 0 (length xs) in take i xs @ x # drop i xs)"

definition list_pop :: "nat \<Rightarrow> 'a list \<Rightarrow> 'a list" where
  "list_pop i xs = take i xs @ drop (Suc i) xs"

lemma bisect_left_in_spec:
  assumes "sorted xs" and "lo \<le> hi" and "hi \<le> length xs"
    and "\<forall>i<lo. xs ! i < x" and "\<forall>i<length xs. hi \<le> i \<longrightarrow> x \<le> xs ! i"
  shows "bisect_left_in xs x lo hi \<le> length xs
    \<and> (\<forall>i<bisect_left_in xs x lo hi. xs ! i < x)
    \<and> (\<forall>i<length xs. bisect_left_in xs x lo hi \<le> i \<longrightarrow> x \<le> xs ! i)"
  using assms
proof (induction xs x lo hi rule: bisect_left_in.induct)
  case (1 xs x lo hi)
  show ?case
  proof (cases "lo < hi")
    case False
    then have "bisect_left_in xs x lo hi = lo" by (simp add: bisect_left_in.simps [of xs x lo hi])
    with 1(3-7) False show ?thesis by simp
  next
    case True
    define mid where "mid = (lo + hi) div 2"
    have mid: "lo \<le> mid" "mid < hi" using True by (auto simp: mid_def)
    then have in_range: "mid + 1 \<le> hi" "mid \<le> length xs" using 1(5) by simp_all
    show ?thesis
    proof (cases "xs ! mid < x")
      case lt: True
      have H: "\<forall>i<mid + 1. xs ! i < x"
      proof (intro allI impI)
        fix i assume "i < mid + 1"
        then have "xs ! i \<le> xs ! mid" using sorted_nth_mono [OF 1(3), of i mid] mid 1(5) by simp
        with lt show "xs ! i < x" by simp
      qed
      have "bisect_left_in xs x (mid + 1) hi \<le> length xs
          \<and> (\<forall>i<bisect_left_in xs x (mid + 1) hi. xs ! i < x) \<and> (\<forall>i<length xs. bisect_left_in xs x (mid + 1) hi \<le> i \<longrightarrow> x \<le> xs ! i)"
        by (rule 1(1) [OF True mid_def lt 1(3) in_range(1) 1(5) H 1(7)])
      moreover have "bisect_left_in xs x lo hi = bisect_left_in xs x (mid + 1) hi"
        using True lt by (simp add: bisect_left_in.simps [of xs x lo hi] Let_def flip: mid_def)
      ultimately show ?thesis by simp
    next
      case ge: False
      have H: "\<forall>i<length xs. mid \<le> i \<longrightarrow> x \<le> xs ! i"
        using ge sorted_nth_mono [OF 1(3)] by (meson le_less_trans not_le)
      have "bisect_left_in xs x lo mid \<le> length xs
          \<and> (\<forall>i<bisect_left_in xs x lo mid. xs ! i < x) \<and> (\<forall>i<length xs. bisect_left_in xs x lo mid \<le> i \<longrightarrow> x \<le> xs ! i)"
        by (rule 1(2) [OF True mid_def ge 1(3) mid(1) in_range(2) 1(6) H])
      moreover have "bisect_left_in xs x lo hi = bisect_left_in xs x lo mid"
        using True ge by (simp add: bisect_left_in.simps [of xs x lo hi] Let_def flip: mid_def)
      ultimately show ?thesis by simp
    qed
  qed
qed

lemma bisect_right_in_spec:
  assumes "sorted xs" and "lo \<le> hi" and "hi \<le> length xs"
    and "\<forall>i<lo. xs ! i \<le> x" and "\<forall>i<length xs. hi \<le> i \<longrightarrow> x < xs ! i"
  shows "bisect_right_in xs x lo hi \<le> length xs
    \<and> (\<forall>i<bisect_right_in xs x lo hi. xs ! i \<le> x)
    \<and> (\<forall>i<length xs. bisect_right_in xs x lo hi \<le> i \<longrightarrow> x < xs ! i)"
  using assms
proof (induction xs x lo hi rule: bisect_right_in.induct)
  case (1 xs x lo hi)
  show ?case
  proof (cases "lo < hi")
    case False
    then have "bisect_right_in xs x lo hi = lo" by (simp add: bisect_right_in.simps [of xs x lo hi])
    with 1(3-7) False show ?thesis by simp
  next
    case True
    define mid where "mid = (lo + hi) div 2"
    have mid: "lo \<le> mid" "mid < hi" using True by (auto simp: mid_def)
    then have in_range: "mid + 1 \<le> hi" "mid \<le> length xs" using 1(5) by simp_all
    show ?thesis
    proof (cases "x < xs ! mid")
      case lt: True
      have H: "\<forall>i<length xs. mid \<le> i \<longrightarrow> x < xs ! i"
        using lt sorted_nth_mono [OF 1(3)] by (meson less_le_trans)
      have "bisect_right_in xs x lo mid \<le> length xs
          \<and> (\<forall>i<bisect_right_in xs x lo mid. xs ! i \<le> x) \<and> (\<forall>i<length xs. bisect_right_in xs x lo mid \<le> i \<longrightarrow> x < xs ! i)"
        by (rule 1(1) [OF True mid_def lt 1(3) mid(1) in_range(2) 1(6) H])
      moreover have "bisect_right_in xs x lo hi = bisect_right_in xs x lo mid"
        using True lt by (simp add: bisect_right_in.simps [of xs x lo hi] Let_def flip: mid_def)
      ultimately show ?thesis by simp
    next
      case ge: False
      have H: "\<forall>i<mid + 1. xs ! i \<le> x"
      proof (intro allI impI)
        fix i assume "i < mid + 1"
        then have "xs ! i \<le> xs ! mid" using sorted_nth_mono [OF 1(3), of i mid] mid 1(5) by simp
        with ge show "xs ! i \<le> x" by simp
      qed
      have "bisect_right_in xs x (mid + 1) hi \<le> length xs
          \<and> (\<forall>i<bisect_right_in xs x (mid + 1) hi. xs ! i \<le> x) \<and> (\<forall>i<length xs. bisect_right_in xs x (mid + 1) hi \<le> i \<longrightarrow> x < xs ! i)"
        by (rule 1(2) [OF True mid_def ge 1(3) in_range(1) 1(5) H 1(7)])
      moreover have "bisect_right_in xs x lo hi = bisect_right_in xs x (mid + 1) hi"
        using True ge by (simp add: bisect_right_in.simps [of xs x lo hi] Let_def flip: mid_def)
      ultimately show ?thesis by simp
    qed
  qed
qed

lemma bisect_left_spec:
  assumes "sorted xs"
  shows "bisect_left xs x \<le> length xs" and "\<And>i. i < bisect_left xs x \<Longrightarrow> xs ! i < x"
    and "\<And>i. i < length xs \<Longrightarrow> bisect_left xs x \<le> i \<Longrightarrow> x \<le> xs ! i"
  using bisect_left_in_spec [of xs 0 "length xs" x] assms by (auto simp: bisect_left_def)

lemma bisect_left_finds:
  assumes "sorted xs" and "x \<in> set xs"
  shows "bisect_left xs x < length xs" and "xs ! bisect_left xs x = x"
proof -
  obtain j where j: "j < length xs" "xs ! j = x" using assms(2) by (auto simp: in_set_conv_nth)
  have le: "bisect_left xs x \<le> j"
    using bisect_left_spec(2) [OF assms(1), of j x] j by (meson less_irrefl not_le)
  with j show lt: "bisect_left xs x < length xs" by simp
  show "xs ! bisect_left xs x = x"
    using bisect_left_spec(3) [OF assms(1) lt, of x] sorted_nth_mono [OF assms(1) le j(1)] j by simp
qed

lemma insort_right_insort:
  assumes "sorted xs" and "x \<notin> set xs"
  shows "sorted (insort_right xs x)" and "set (insort_right xs x) = insert x (set xs)"
    and "distinct xs \<Longrightarrow> distinct (insort_right xs x)"
proof -
  define i where "i = bisect_right_in xs x 0 (length xs)"
  have i: "i \<le> length xs" "\<And>j. j < i \<Longrightarrow> xs ! j \<le> x"
    "\<And>j. j < length xs \<Longrightarrow> i \<le> j \<Longrightarrow> x < xs ! j"
    using bisect_right_in_spec [of xs 0 "length xs" x] assms(1) by (auto simp: i_def)
  have lo: "\<forall>y\<in>set (take i xs). y \<le> x" using i(1,2) by (auto simp: in_set_conv_nth)
  have hi: "\<forall>y\<in>set (drop i xs). x \<le> y"
    using i by (auto simp: in_set_conv_nth intro!: less_imp_le)
  have "\<forall>y\<in>set (take i xs). \<forall>z\<in>set (drop i xs). y \<le> z" using lo hi by (meson order_trans)
  then show "sorted (insort_right xs x)"
    using lo hi assms(1) by (simp add: insort_right_def sorted_append Let_def sorted_wrt_take sorted_wrt_drop flip: i_def)
  have e: "set (take i xs) \<union> set (drop i xs) = set xs" by (metis append_take_drop_id set_append)
  then show "set (insort_right xs x) = insert x (set xs)"
    by (auto simp: insort_right_def Let_def simp flip: i_def)
  assume d: "distinct xs"
  then have "distinct (take i xs @ drop i xs)" by simp
  then have "set (take i xs) \<inter> set (drop i xs) = {}" unfolding distinct_append by blast
  then show "distinct (insort_right xs x)"
    using d assms(2) e by (auto simp: insort_right_def Let_def simp flip: i_def dest: in_set_takeD in_set_dropD)
qed

lemma pop_bisect_left:
  assumes "sorted xs" and "distinct xs" and "x \<in> set xs"
  shows "list_pop (bisect_left xs x) xs = filter (\<lambda>y. y \<noteq> x) xs"
proof -
  define i where "i = bisect_left xs x"
  have i: "i < length xs" "xs ! i = x" using bisect_left_finds [OF assms(1,3)] by (auto simp: i_def)
  have split: "xs = take i xs @ x # drop (Suc i) xs" using i by (metis id_take_nth_drop)
  have "distinct (take i xs @ x # drop (Suc i) xs)" using split assms(2) by simp
  then have "x \<notin> set (take i xs)" "x \<notin> set (drop (Suc i) xs)" by auto
  then have "filter (\<lambda>y. y \<noteq> x) (take i xs @ x # drop (Suc i) xs) = take i xs @ drop (Suc i) xs"
    by (auto simp: filter_id_conv intro!: arg_cong2 [where f = append])
  then show ?thesis using split by (simp add: list_pop_def flip: i_def)
qed

subsection \<open>Books of levels\<close>

locale level_book =
  fixes inv :: "'b \<Rightarrow> bool" and look :: "'b \<Rightarrow> 'p \<Rightarrow> 's option"
    and app :: "'p \<times> 's \<Rightarrow> 'b \<Rightarrow> 'b" and ok :: "'p \<times> 's \<Rightarrow> bool" and live :: "'s \<Rightarrow> bool"
  assumes app_inv: "inv b \<Longrightarrow> ok l \<Longrightarrow> inv (app l b)"
    and app_look: "inv b \<Longrightarrow> ok (p, s) \<Longrightarrow>
      look (app (p, s) b) = (look b) (p := if live s then Some s else None)"
begin

lemma fold_inv: "inv b \<Longrightarrow> \<forall>l\<in>set ls. ok l \<Longrightarrow> inv (fold app ls b)"
  by (induction ls arbitrary: b) (auto intro: app_inv)

lemma fold_look:
  "inv b \<Longrightarrow> \<forall>l\<in>set ls. ok l \<Longrightarrow>
     look (fold app ls b) q = (case map_of (rev ls) q of None \<Rightarrow> look b q
       | Some s \<Rightarrow> if live s then Some s else None)"
proof (induction ls arbitrary: b)
  case (Cons l ls)
  obtain p s where l: "l = (p, s)" by (cases l)
  from Cons show ?case
    by (auto simp: l app_inv app_look map_add_def split: option.splits)
qed simp

lemma fold_look_other:
  "inv b \<Longrightarrow> \<forall>l\<in>set ls. ok l \<Longrightarrow> q \<notin> fst ` set ls \<Longrightarrow> look (fold app ls b) q = look b q"
  by (auto simp: fold_look split: option.splits dest!: map_of_SomeD intro: rev_image_eqI)

end

end
