(* ===== verification/BookState.thy ===== *)
theory BookState
  imports LevelBook
begin

text \<open>
  \<open>app/marketdata/orderbook_state.py\<close>: the authoritative Binance order book of one symbol.
  \<open>orderbook_state\<close> is the object, \<open>apply_snapshot\<close>, \<open>apply_delta\<close>, \<open>mark_not_ready\<close> and the
  others are its methods, from state to state (and result). The two clocks are arguments:
  \<open>now\<close> is what \<open>monotonic_now_ns()\<close> returns during the call, \<open>iso_now\<close> what \<open>_utc_iso_now()\<close>
  returns.

  The lemmas show that the sorted price indexes always agree with the dictionaries, that a
  delta is applied exactly when it continues the update-id sequence, what a batch of levels
  does to the book, and that a book that may be emitted is two-sided, uncrossed and continuous
  with its snapshot; after a gap nothing but a fresher snapshot makes it usable again.
\<close>

subsection \<open>Levels\<close>

record parsed_level =
  lvl_price :: pydec
  lvl_size :: pydec

datatype level_row =
    RowObj pyval pyval  \<comment> \<open>an object with attributes \<open>price\<close> and \<open>size\<close>\<close>
  | RowVal pyval        \<comment> \<open>a decoded JSON value\<close>

abbreviation "decimal_or_none \<equiv> dec_of_val"

definition parse_price :: "pyval \<Rightarrow> pydec option \<times> string list" where
  "parse_price value = (case decimal_or_none value of
     None \<Rightarrow> (None, [''invalid_price_level''])
   | Some parsed \<Rightarrow>
       let errors = (if \<not> dec_finite parsed then [''non_finite_price'', ''invalid_price_level'']
                     else if parsed \<le> dzero then [''negative_price'', ''invalid_price_level'']
                     else [])
       in (if errors \<noteq> [] then None else Some parsed, errors))"

definition parse_size :: "bool \<Rightarrow> pyval \<Rightarrow> pydec option \<times> string list" where
  "parse_size allow_zero value = (case decimal_or_none value of
     None \<Rightarrow> (None, [''invalid_size_level''])
   | Some parsed \<Rightarrow>
       let errors = (if \<not> dec_finite parsed then [''non_finite_size'', ''invalid_size_level'']
                     else if parsed < dzero \<or> (parsed = dzero \<and> \<not> allow_zero)
                       then [''negative_size'', ''invalid_size_level'']
                     else [])
       in (if errors \<noteq> [] then None else Some parsed, errors))"

definition row_fields :: "level_row \<Rightarrow> (pyval \<times> pyval) option" where
  "row_fields row = (case row of
     RowObj p s \<Rightarrow> Some (p, s)
   | RowVal (VDict d) \<Rightarrow> Some (vget d ''price'', vget d ''size'')
   | RowVal (VList (p # s # _)) \<Rightarrow> Some (p, s)
   | _ \<Rightarrow> None)"

fun parse_levels :: "bool \<Rightarrow> level_row list \<Rightarrow> parsed_level list \<times> string list" where
  "parse_levels allow_zero [] = ([], [])"
| "parse_levels allow_zero (row # rows) =
     (let (parsed, errors) = parse_levels allow_zero rows in
      case row_fields row of
        None \<Rightarrow> (parsed, ''invalid_price_level'' # ''invalid_size_level'' # errors)
      | Some (price_raw, size_raw) \<Rightarrow>
          (case (parse_price price_raw, parse_size allow_zero size_raw) of
             ((Some price, []), (Some sz, [])) \<Rightarrow>
               (\<lparr>lvl_price = price, lvl_size = sz\<rparr> # parsed, errors)
           | ((_, price_errors), (_, size_errors)) \<Rightarrow>
               (parsed, price_errors @ size_errors @ errors)))"

type_synonym book_side = "(pydec \<times> pydec) list"

definition apply_level :: "parsed_level \<Rightarrow> book_side \<times> pydec list \<Rightarrow> book_side \<times> pydec list" where
  "apply_level level bs = (case bs of (book, prices) \<Rightarrow>
     let exists = map_of book (lvl_price level) \<noteq> None in
     if lvl_size level = dzero then
       if exists then
         let index = bisect_left prices (lvl_price level) in
         (AList.delete (lvl_price level) book,
          if index < length prices \<and> prices ! index = lvl_price level
          then list_pop index prices else prices)
       else (book, prices)
     else (AList.update (lvl_price level) (lvl_size level) book,
           if \<not> exists then insort_right prices (lvl_price level) else prices))"

definition level_errors :: "pydec \<times> pydec \<Rightarrow> string list" where
  "level_errors l = (case l of (price, sz) \<Rightarrow>
     (if \<not> dec_finite price then [''non_finite_price'', ''invalid_price_level''] else [])
     @ (if \<not> dec_finite sz then [''non_finite_size'', ''invalid_size_level''] else [])
     @ (if price \<le> dzero then [''negative_price'', ''invalid_price_level''] else [])
     @ (if sz \<le> dzero then [''negative_size'', ''invalid_size_level''] else []))"

definition active_level_errors :: "book_side \<Rightarrow> string list" where
  "active_level_errors book = concat (map level_errors book)"

subsection \<open>The state\<close>

record orderbook_state =
  symbol :: string
  bids :: book_side
  asks :: book_side
  bid_prices_asc :: "pydec list"
  ask_prices_asc :: "pydec list"
  snapshot_ready :: bool
  ready_to_emit :: bool
  last_update_id :: "int option"
  snapshot_last_update_id :: "int option"
  required_fresh_snapshot_after_update_id :: "int option"
  state_version :: int
  generation :: int
  sequence_continuous :: bool
  awaiting_first_delta_after_snapshot :: bool
  last_not_ready_reason :: "string option"
  last_message_recv_monotonic_ns :: "int option"
  last_book_update_monotonic_ns :: "int option"
  last_successful_apply_monotonic_ns :: "int option"
  last_stale_check_monotonic_ns :: "int option"
  last_local_recv_monotonic_ns :: "int option"
  last_local_recv_wall_ts :: "string option"
  ready_false_since_monotonic_ns :: "int option"
  ready_false_warning_after_ns :: int
  ready_to_emit_false_duration_ms_max :: pyfloat
  ready_to_emit_false_warning_count :: int

record orderbook_apply_result =
  res_accepted :: bool
  res_status :: string
  res_errors :: "string list"
  res_warnings :: "string list"
  res_first_update_id :: "int option"
  res_final_update_id :: "int option"
  res_previous_last_update_id :: "int option"
  res_expected_next_update_id :: "int option"
  res_state_version_before :: int
  res_state_version_after :: int
  res_snapshot_ready_before :: bool
  res_snapshot_ready_after :: bool
  res_ready_to_emit_after :: bool
  res_generation_before :: int
  res_generation_after :: int

record orderbook_snapshot =
  snap_symbol :: string
  snap_snapshot_version :: int
  snap_state_version :: int
  snap_generation_id :: int
  snap_bids_top_n :: book_side
  snap_asks_top_n :: book_side
  snap_bid_count :: int
  snap_ask_count :: int
  snap_best_bid :: "pydec option"
  snap_best_ask :: "pydec option"
  snap_spread :: "pydec option"
  snap_mid :: "pydec option"
  snap_last_update_id :: "int option"
  snap_last_book_update_monotonic_ns :: "int option"
  snap_local_recv_monotonic_ns :: int
  snap_local_recv_wall_ts :: "string option"

definition orderbook_init :: "string \<Rightarrow> pyfloat \<Rightarrow> int \<Rightarrow> orderbook_state option" where
  \<comment> \<open>\<open>None\<close> where \<open>int(sec * 1e9)\<close> raises\<close>
  "orderbook_init symb ready_false_warning_after_sec now =
     map_option (\<lambda>after_ns.
      \<lparr>symbol = upper symb, bids = [], asks = [], bid_prices_asc = [], ask_prices_asc = [],
       snapshot_ready = False, ready_to_emit = False, last_update_id = None,
       snapshot_last_update_id = None, required_fresh_snapshot_after_update_id = None,
       state_version = 0, generation = 0, sequence_continuous = False,
       awaiting_first_delta_after_snapshot = False,
       last_not_ready_reason = Some ''initial_snapshot_missing'',
       last_message_recv_monotonic_ns = None, last_book_update_monotonic_ns = None,
       last_successful_apply_monotonic_ns = None, last_stale_check_monotonic_ns = None,
       last_local_recv_monotonic_ns = None, last_local_recv_wall_ts = None,
       ready_false_since_monotonic_ns = Some now, ready_false_warning_after_ns = after_ns,
       ready_to_emit_false_duration_ms_max = fzero, ready_to_emit_false_warning_count = 0\<rparr>)
     (fint (fmul ready_false_warning_after_sec (Fin 1000000000)))"

subsection \<open>Helpers of the operations\<close>

definition record_ready_false_age :: "int \<Rightarrow> orderbook_state \<Rightarrow> orderbook_state" where
  "record_ready_false_age now_ns s =
     (case ready_false_since_monotonic_ns s of
        None \<Rightarrow> s
      | Some since \<Rightarrow>
          if ready_to_emit s then s
          else let duration_ms = ms_of_ns (now_ns - since);
            s1 = (if fless (ready_to_emit_false_duration_ms_max s) duration_ms
                  then s\<lparr>ready_to_emit_false_duration_ms_max := duration_ms\<rparr> else s);
            duration_ns = now_ns - since; threshold = ready_false_warning_after_ns s
          in if threshold > 0
                \<and> duration_ns \<ge> (ready_to_emit_false_warning_count s + 1) * threshold
             then s1\<lparr>ready_to_emit_false_warning_count := ready_to_emit_false_warning_count s + 1\<rparr>
             else s1)"

definition record_message_recv :: "int \<Rightarrow> orderbook_state \<Rightarrow> orderbook_state" where
  "record_message_recv recv_ns s =
     s\<lparr>last_message_recv_monotonic_ns := Some recv_ns, last_local_recv_monotonic_ns := Some recv_ns\<rparr>"

definition mark_not_ready ::
  "int \<Rightarrow> string \<Rightarrow> int option \<Rightarrow> bool \<Rightarrow> int option \<Rightarrow> orderbook_state \<Rightarrow> orderbook_state" where
  "mark_not_ready now reason recv_ns advance_generation gap_boundary s =
     (let now_ns = int_or recv_ns now;
          s1 = (if ready_false_since_monotonic_ns s = None
                then s\<lparr>ready_false_since_monotonic_ns := Some now_ns\<rparr> else s);
          s2 = s1\<lparr>snapshot_ready := False, ready_to_emit := False, sequence_continuous := False,
                  awaiting_first_delta_after_snapshot := False,
                  last_not_ready_reason := Some reason\<rparr>;
          s3 = (if advance_generation then s2\<lparr>generation := generation s2 + 1\<rparr> else s2);
          s4 = (if gap_boundary \<noteq> None
                then s3\<lparr>required_fresh_snapshot_after_update_id := gap_boundary\<rparr> else s3)
      in record_ready_false_age now_ns s4)"

definition rebuild_price_indexes :: "orderbook_state \<Rightarrow> orderbook_state" where
  "rebuild_price_indexes s =
     s\<lparr>bid_prices_asc := sort (map fst (bids s)), ask_prices_asc := sort (map fst (asks s))\<rparr>"

definition ensure_price_indexes :: "orderbook_state \<Rightarrow> orderbook_state" where
  "ensure_price_indexes s =
     (if length (bid_prices_asc s) \<noteq> length (bids s) \<or> length (ask_prices_asc s) \<noteq> length (asks s)
      then rebuild_price_indexes s else s)"

definition best_bid :: "orderbook_state \<Rightarrow> pydec option \<times> orderbook_state" where
  "best_bid s = (let s = ensure_price_indexes s in
     (if bid_prices_asc s \<noteq> [] then Some (last (bid_prices_asc s)) else None, s))"

definition best_ask :: "orderbook_state \<Rightarrow> pydec option \<times> orderbook_state" where
  "best_ask s = (let s = ensure_price_indexes s in
     (if ask_prices_asc s \<noteq> [] then Some (hd (ask_prices_asc s)) else None, s))"

definition validate :: "orderbook_state \<Rightarrow> string list \<times> orderbook_state" where
  "validate s0 =
     (let errors = active_level_errors (bids s0) @ active_level_errors (asks s0);
          (bid, s1) = best_bid s0; (ask, s) = best_ask s1;
          e1 = (if bids s = [] \<and> asks s = [] then [''book_empty''] else []);
          e2 = (if bids s = [] \<or> asks s = [] then [''one_side_missing''] else []);
          e3 = (if bid = None then [''best_bid_missing''] else []);
          e4 = (if ask = None then [''best_ask_missing''] else []);
          e5 = (case (bid, ask) of (Some b, Some a) \<Rightarrow> if b \<ge> a then [''crossed_book''] else []
                | _ \<Rightarrow> [])
      in (sorted_set (errors @ e1 @ e2 @ e3 @ e4 @ e5), s))"

definition refresh_ready_to_emit :: "int \<Rightarrow> orderbook_state \<Rightarrow> orderbook_state" where
  "refresh_ready_to_emit now_ns s0 =
     (let (errs, s) = validate s0;
          ready = snapshot_ready s \<and> sequence_continuous s
            \<and> \<not> awaiting_first_delta_after_snapshot s \<and> errs = [];
          s1 = s\<lparr>ready_to_emit := ready\<rparr>
      in if ready then s1\<lparr>ready_false_since_monotonic_ns := None, last_not_ready_reason := None\<rparr>
         else let s2 = (if ready_false_since_monotonic_ns s1 = None
                        then s1\<lparr>ready_false_since_monotonic_ns := Some now_ns\<rparr> else s1);
                  s3 = s2\<lparr>last_not_ready_reason :=
                         Some (str_or (last_not_ready_reason s2) ''quality_gate_failed'')\<rparr>
              in record_ready_false_age now_ns s3)"

definition mark_ready :: "int \<Rightarrow> int option \<Rightarrow> orderbook_state \<Rightarrow> bool \<times> orderbook_state" where
  "mark_ready now recv_ns s =
     (let s1 = refresh_ready_to_emit (int_or recv_ns now) s in (ready_to_emit s1, s1))"

definition book_age_ms :: "int \<Rightarrow> orderbook_state \<Rightarrow> pyfloat option \<times> orderbook_state" where
  "book_age_ms now_ns s =
     (map_option (\<lambda>t. ms_of_ns (now_ns - t)) (last_book_update_monotonic_ns s),
      s\<lparr>last_stale_check_monotonic_ns := Some now_ns\<rparr>)"

definition cleanup :: "orderbook_state \<Rightarrow> orderbook_state" where
  "cleanup s = s\<lparr>bids := [], asks := [], bid_prices_asc := [], ask_prices_asc := [],
     snapshot_ready := False, ready_to_emit := False, sequence_continuous := False,
     awaiting_first_delta_after_snapshot := False, last_not_ready_reason := Some ''symbol_removed''\<rparr>"

subsection \<open>Copies of the book\<close>

definition copy_levels :: "book_side \<Rightarrow> pydec list \<Rightarrow> book_side" where
  \<comment> \<open>the body of both loops: the level of each price, zero sizes skipped\<close>
  "copy_levels book prices =
     filter (\<lambda>l. snd l \<noteq> dzero) (map (\<lambda>price. (price, the (map_of book price))) prices)"

definition copy_top_bid_levels :: "int \<Rightarrow> orderbook_state \<Rightarrow> book_side" where
  "copy_top_bid_levels n s =
     (if n \<le> 0 then []
      else let prices = bid_prices_asc s; start = nat (max (int (length prices) - n) 0)
        in copy_levels (bids s) (rev (drop start prices)))"

definition copy_top_ask_levels :: "int \<Rightarrow> orderbook_state \<Rightarrow> book_side" where
  "copy_top_ask_levels n s =
     (if n \<le> 0 then []
      else let prices = ask_prices_asc s; limit = nat (min (int (length prices)) n)
        in copy_levels (asks s) (take limit prices))"

definition top_n :: "string \<Rightarrow> int \<Rightarrow> orderbook_state \<Rightarrow> book_side \<times> orderbook_state" where
  "top_n side n s0 = (let s = ensure_price_indexes s0 in
     (if side = ''bid'' then copy_top_bid_levels n s else copy_top_ask_levels n s, s))"

definition copy_snapshot ::
  "int \<Rightarrow> string \<Rightarrow> int \<Rightarrow> int option \<Rightarrow> string option \<Rightarrow> orderbook_state
     \<Rightarrow> orderbook_snapshot \<times> orderbook_state" where
  "copy_snapshot now iso_now n recv_ns wall_ts s0 =
     (let s = ensure_price_indexes s0;
          bids_top_n = copy_top_bid_levels n s; asks_top_n = copy_top_ask_levels n s;
          bid = (if bids_top_n \<noteq> [] then Some (fst (hd bids_top_n)) else None);
          ask = (if asks_top_n \<noteq> [] then Some (fst (hd asks_top_n)) else None);
          spread = (case (bid, ask) of (Some b, Some a) \<Rightarrow> Some (dsub a b) | _ \<Rightarrow> None);
          mid = (case (bid, ask) of (Some b, Some a) \<Rightarrow> Some (dhalf (dadd b a)) | _ \<Rightarrow> None)
      in (\<lparr>snap_symbol = symbol s, snap_snapshot_version = state_version s,
           snap_state_version = state_version s, snap_generation_id = generation s,
           snap_bids_top_n = bids_top_n, snap_asks_top_n = asks_top_n,
           snap_bid_count = int (length (bids s)), snap_ask_count = int (length (asks s)),
           snap_best_bid = bid, snap_best_ask = ask, snap_spread = spread, snap_mid = mid,
           snap_last_update_id = last_update_id s,
           snap_last_book_update_monotonic_ns = last_book_update_monotonic_ns s,
           snap_local_recv_monotonic_ns = int_or recv_ns now,
           snap_local_recv_wall_ts =
             or_str wall_ts (or_str (last_local_recv_wall_ts s) (Some iso_now))\<rparr>, s))"

subsection \<open>Snapshots and deltas\<close>

record result_base =
  base_first_update_id :: "int option"
  base_final_update_id :: "int option"
  base_previous_last_update_id :: "int option"
  base_state_version_before :: int
  base_snapshot_ready_before :: bool
  base_generation_before :: int

definition result_base_of :: "int option \<Rightarrow> int option \<Rightarrow> orderbook_state \<Rightarrow> result_base" where
  "result_base_of first_id final_id s =
     \<lparr>base_first_update_id = first_id, base_final_update_id = final_id,
      base_previous_last_update_id = last_update_id s, base_state_version_before = state_version s,
      base_snapshot_ready_before = snapshot_ready s, base_generation_before = generation s\<rparr>"

definition result_of ::
  "result_base \<Rightarrow> bool \<Rightarrow> string \<Rightarrow> string list \<Rightarrow> int option \<Rightarrow> orderbook_state
     \<Rightarrow> orderbook_apply_result \<times> orderbook_state" where
  "result_of before accepted status errors expected s =
     (\<lparr>res_accepted = accepted, res_status = status, res_errors = errors, res_warnings = [],
       res_first_update_id = base_first_update_id before,
       res_final_update_id = base_final_update_id before,
       res_previous_last_update_id = base_previous_last_update_id before,
       res_expected_next_update_id = expected,
       res_state_version_before = base_state_version_before before,
       res_state_version_after = state_version s,
       res_snapshot_ready_before = base_snapshot_ready_before before,
       res_snapshot_ready_after = snapshot_ready s,
       res_ready_to_emit_after = ready_to_emit s,
       res_generation_before = base_generation_before before,
       res_generation_after = generation s\<rparr>, s)"

definition dict_of_levels :: "parsed_level list \<Rightarrow> book_side" where
  "dict_of_levels levels = fold (\<lambda>l. AList.update (lvl_price l) (lvl_size l)) levels []"

definition apply_snapshot ::
  "int \<Rightarrow> string \<Rightarrow> level_row list \<Rightarrow> level_row list \<Rightarrow> int \<Rightarrow> int \<Rightarrow> string option \<Rightarrow> int option
     \<Rightarrow> orderbook_state \<Rightarrow> orderbook_apply_result \<times> orderbook_state" where
  "apply_snapshot now iso_now bid_rows ask_rows last_id recv_ns wall_ts gen s0 =
     (let s = record_message_recv recv_ns s0; before = result_base_of None None s in
      if gen \<noteq> None \<and> gen \<noteq> Some (generation s) then
        result_of before False ''stale_snapshot_generation'' [''snapshot_inconsistent''] None s
      else if (case required_fresh_snapshot_after_update_id s of
                 None \<Rightarrow> False | Some boundary \<Rightarrow> last_id \<le> boundary) then
        result_of before False ''stale_snapshot_before_gap_boundary'' [''sequence_gap_or_reset'']
          None s
      else
        let (parsed_bids, bid_errors) = parse_levels False bid_rows;
            (parsed_asks, ask_errors) = parse_levels False ask_rows;
            errors = sorted_set (bid_errors @ ask_errors)
        in if errors \<noteq> [] then
             let s1 = mark_not_ready now ''snapshot_invalid_levels'' (Some recv_ns) False None s
             in result_of before False ''snapshot_invalid_levels'' errors None s1
           else
             let s1 = rebuild_price_indexes
                        (s\<lparr>bids := dict_of_levels parsed_bids, asks := dict_of_levels parsed_asks\<rparr>);
                 s2 = s1\<lparr>snapshot_ready := True, sequence_continuous := False,
                         awaiting_first_delta_after_snapshot := True, ready_to_emit := False,
                         last_not_ready_reason := Some ''waiting_for_first_delta_bridge'',
                         last_update_id := Some last_id, snapshot_last_update_id := Some last_id,
                         required_fresh_snapshot_after_update_id := None,
                         last_book_update_monotonic_ns := Some recv_ns,
                         last_successful_apply_monotonic_ns := Some recv_ns,
                         last_local_recv_monotonic_ns := Some recv_ns,
                         last_local_recv_wall_ts := or_str wall_ts (Some iso_now),
                         state_version := state_version s1 + 1\<rparr>;
                 s3 = record_ready_false_age recv_ns s2
             in result_of before True ''snapshot_loaded'' [] None s3)"

definition apply_levels :: "parsed_level list \<Rightarrow> parsed_level list \<Rightarrow> orderbook_state \<Rightarrow> orderbook_state"
  where
  "apply_levels parsed_bids parsed_asks s =
     (let (b, bp) = fold apply_level parsed_bids (bids s, bid_prices_asc s);
          (a, ap) = fold apply_level parsed_asks (asks s, ask_prices_asc s)
      in s\<lparr>bids := b, bid_prices_asc := bp, asks := a, ask_prices_asc := ap\<rparr>)"

definition bridges_snapshot :: "int \<Rightarrow> int \<Rightarrow> orderbook_state \<Rightarrow> bool" where
  "bridges_snapshot first_id final_id s =
     (case snapshot_last_update_id s of None \<Rightarrow> False
      | Some snap \<Rightarrow> first_id \<le> snap + 1 \<and> snap + 1 \<le> final_id)"

definition apply_delta ::
  "int \<Rightarrow> int \<Rightarrow> int \<Rightarrow> level_row list \<Rightarrow> level_row list \<Rightarrow> int \<Rightarrow> int option \<Rightarrow> orderbook_state
     \<Rightarrow> orderbook_apply_result \<times> orderbook_state" where
  "apply_delta now first_id final_id bid_rows ask_rows recv_ns prev_final s0 =
     (let s = record_message_recv recv_ns s0;
          before = result_base_of (Some first_id) (Some final_id) s;
          reject = (\<lambda>status reason error expected.
            result_of before False status [error] (Some expected)
              (mark_not_ready now reason (Some recv_ns) True (Some final_id) s))
      in if \<not> snapshot_ready s \<or> last_update_id s = None then
           result_of before False ''delta_before_snapshot'' [''sample_before_book_ready''] None
             (record_ready_false_age recv_ns s)
         else let previous = the (last_update_id s); expected = previous + 1 in
         if final_id \<le> previous then
           result_of before False ''duplicate_update'' [''duplicate_update''] (Some expected)
             (record_ready_false_age recv_ns s)
         else if prev_final \<noteq> None \<and> prev_final \<noteq> Some previous then
           reject ''previous_final_update_id_mismatch'' ''previous_final_update_id_mismatch''
             ''previous_final_update_id_mismatch'' expected
         else if awaiting_first_delta_after_snapshot s \<and> \<not> bridges_snapshot first_id final_id s then
           reject ''sequence_bridge_failed'' ''sequence_bridge_failed'' ''sequence_gap_or_reset''
             expected
         else if \<not> awaiting_first_delta_after_snapshot s \<and> first_id \<noteq> expected then
           reject ''sequence_gap_or_reset'' ''sequence_gap_or_reset'' ''sequence_gap_or_reset''
             expected
         else
           let (parsed_bids, bid_errors) = parse_levels True bid_rows;
               (parsed_asks, ask_errors) = parse_levels True ask_rows;
               errors = sorted_set (bid_errors @ ask_errors)
           in if errors \<noteq> [] then
                result_of before False ''invalid_delta_levels'' errors (Some expected)
                  (mark_not_ready now ''invalid_delta_fail_closed'' (Some recv_ns) True
                    (Some final_id) s)
              else
                let s1 = apply_levels parsed_bids parsed_asks s;
                    s2 = s1\<lparr>last_update_id := Some final_id,
                            last_book_update_monotonic_ns := Some recv_ns,
                            last_successful_apply_monotonic_ns := Some recv_ns,
                            last_local_recv_monotonic_ns := Some recv_ns,
                            awaiting_first_delta_after_snapshot := False,
                            sequence_continuous := True, state_version := state_version s1 + 1\<rparr>
                in result_of before True ''delta_applied'' [] (Some expected)
                     (refresh_ready_to_emit recv_ns s2))"

subsection \<open>The price indexes\<close>

fun level_in_range :: "bool \<Rightarrow> pydec \<times> pydec \<Rightarrow> bool" where
  "level_in_range allow_zero (p, sz) \<longleftrightarrow> dec_finite p \<and> dzero < p \<and> dec_finite sz
     \<and> (dzero < sz \<or> allow_zero \<and> sz = dzero)"

definition side_ok :: "book_side \<times> pydec list \<Rightarrow> bool" where
  "side_ok bs \<longleftrightarrow> distinct (map fst (fst bs)) \<and> sorted (snd bs) \<and> distinct (snd bs)
     \<and> set (snd bs) = fst ` set (fst bs) \<and> list_all (level_in_range False) (fst bs)"

lemma side_okD:
  assumes "side_ok (book, prices)"
  shows "distinct (map fst book)" "sorted prices" "distinct prices"
    "set prices = fst ` set book" "\<forall>l\<in>set book. level_in_range False l"
  using assms by (auto simp: side_ok_def list_all_iff)

lemma side_ok_length: "side_ok (book, prices) \<Longrightarrow> length prices = length book"
  by (metis distinct_card length_map set_map side_okD(1,3,4))

lemma side_ok_Nil [simp]: "side_ok ([], [])"
  by (simp add: side_ok_def)

lemma side_ok_rebuild:
  "distinct (map fst book) \<Longrightarrow> list_all (level_in_range False) book
     \<Longrightarrow> side_ok (book, sort (map fst book))"
  by (simp add: side_ok_def)

abbreviation as_level :: "pydec \<times> pydec \<Rightarrow> parsed_level" where
  "as_level l \<equiv> \<lparr>lvl_price = fst l, lvl_size = snd l\<rparr>"

lemma level_eqI: "\<lparr>lvl_price = lvl_price l, lvl_size = lvl_size l\<rparr> = (l :: parsed_level)"
  by simp

lemma fold_apply_level:
  "fold apply_level levels = fold (\<lambda>l. apply_level (as_level l))
     (map (\<lambda>l. (lvl_price l, lvl_size l)) levels)"
  by (simp add: fold_map comp_def level_eqI)

lemma apply_level_ok:
  assumes inv: "side_ok (book, prices)" and r: "level_in_range True (p, sz)"
  shows "side_ok (apply_level \<lparr>lvl_price = p, lvl_size = sz\<rparr> (book, prices))"
proof -
  note d = side_okD [OF inv]
  show ?thesis
  proof (cases "p \<in> fst ` set book")
    case True
    then have ex: "map_of book p \<noteq> None" by (simp add: map_of_eq_None_iff)
    have mem: "p \<in> set prices" using True d(4) by simp
    note i = bisect_left_finds [OF d(2) mem]
    show ?thesis
    proof (cases "sz = dzero")
      case True
      have "filter (\<lambda>y. y \<noteq> p) prices = list_pop (bisect_left prices p) prices"
        by (simp add: pop_bisect_left [OF d(2,3) mem])
      moreover have "side_ok (AList.delete p book, filter (\<lambda>y. y \<noteq> p) prices)"
        using d by (auto simp: side_ok_def list_all_iff sorted_wrt_filter dest: set_delete [THEN subsetD])
      ultimately show ?thesis using True ex i by (simp add: apply_level_def Let_def)
    next
      case False
      have "side_ok (AList.update p sz book, prices)"
        using d True r False
        by (auto simp: side_ok_def list_all_iff keys_update dest!: set_update [THEN subsetD])
      then show ?thesis using False ex by (auto simp: apply_level_def Let_def)
    qed
  next
    case False
    then have nex: "map_of book p = None" by (simp add: map_of_eq_None_iff)
    have nmem: "p \<notin> set prices" using False d(4) by simp
    have "side_ok (AList.update p sz book, insort_right prices p)" if "sz \<noteq> dzero"
      using d that r insort_right_insort [OF d(2) nmem]
      by (auto simp: side_ok_def list_all_iff keys_update dest!: set_update [THEN subsetD])
    then show ?thesis using inv nex by (simp add: apply_level_def Let_def)
  qed
qed

lemma apply_level_look:
  "map_of (fst (apply_level \<lparr>lvl_price = p, lvl_size = sz\<rparr> bs))
     = (map_of (fst bs)) (p := if sz \<noteq> dzero then Some sz else None)"
  by (cases bs) (auto simp: apply_level_def Let_def fun_eq_iff)

interpretation side: level_book side_ok "\<lambda>bs. map_of (fst bs)"
  "\<lambda>l. apply_level (as_level l)" "level_in_range True" "\<lambda>sz. sz \<noteq> dzero"
  by unfold_locales (auto intro!: apply_level_ok simp: apply_level_look)

subsection \<open>Parsing\<close>

lemma parse_price_ok:
  "parse_price v = (Some p, e) \<Longrightarrow> dec_finite p \<and> dzero < p \<and> e = []"
  by (auto simp: parse_price_def Let_def split: option.splits if_splits)

lemma parse_size_ok:
  "parse_size z v = (Some x, e) \<Longrightarrow> dec_finite x \<and> (dzero < x \<or> z \<and> x = dzero) \<and> e = []"
  by (auto simp: parse_size_def Let_def split: option.splits if_splits)

lemma parse_levels_ok:
  "\<forall>l\<in>set (fst (parse_levels z rows)). level_in_range z (lvl_price l, lvl_size l)"
proof (induction z rows rule: parse_levels.induct)
  case (2 z row rows)
  obtain ls es where ih: "parse_levels z rows = (ls, es)" by (cases "parse_levels z rows")
  show ?case
  proof (cases "row_fields row")
    case None
    with 2 ih show ?thesis by simp
  next
    case (Some f)
    obtain pr sr where f: "f = (pr, sr)" by (cases f)
    obtain p pe where p: "parse_price pr = (p, pe)" by (cases "parse_price pr")
    obtain x se where x: "parse_size z sr = (x, se)" by (cases "parse_size z sr")
    show ?thesis
      using 2 ih Some f p x parse_price_ok [of pr] parse_size_ok [of z sr]
      by (auto split: option.splits list.splits)
  qed
qed simp

lemma dict_of_levels_look:
  "map_of (dict_of_levels levels) p
     = map_of (rev (map (\<lambda>l. (lvl_price l, lvl_size l)) levels)) p"
proof -
  have "map_of (fold (\<lambda>l. AList.update (lvl_price l) (lvl_size l)) levels d) p
    = (map_of d ++ map_of (rev (map (\<lambda>l. (lvl_price l, lvl_size l)) levels))) p" for d
    by (induction levels arbitrary: d) (auto simp: map_add_def split: option.splits)
  then show ?thesis by (simp add: dict_of_levels_def)
qed

lemma dict_of_levels_ok:
  assumes "\<forall>l\<in>set levels. level_in_range False (lvl_price l, lvl_size l)"
  shows "distinct (map fst (dict_of_levels levels))
    \<and> list_all (level_in_range False) (dict_of_levels levels)"
  unfolding dict_of_levels_def
  by (rule fold_invariant_set)
    (use assms in \<open>auto simp: list_all_iff dest!: set_update [THEN subsetD]\<close>)

subsection \<open>What the helpers write\<close>

lemma record_ready_false_age_frame [simp]:
  "bids (record_ready_false_age n s) = bids s" "asks (record_ready_false_age n s) = asks s"
  "bid_prices_asc (record_ready_false_age n s) = bid_prices_asc s"
  "ask_prices_asc (record_ready_false_age n s) = ask_prices_asc s"
  "snapshot_ready (record_ready_false_age n s) = snapshot_ready s"
  "ready_to_emit (record_ready_false_age n s) = ready_to_emit s"
  "last_update_id (record_ready_false_age n s) = last_update_id s"
  "snapshot_last_update_id (record_ready_false_age n s) = snapshot_last_update_id s"
  "required_fresh_snapshot_after_update_id (record_ready_false_age n s)
     = required_fresh_snapshot_after_update_id s"
  "state_version (record_ready_false_age n s) = state_version s"
  "generation (record_ready_false_age n s) = generation s"
  "sequence_continuous (record_ready_false_age n s) = sequence_continuous s"
  "awaiting_first_delta_after_snapshot (record_ready_false_age n s)
     = awaiting_first_delta_after_snapshot s"
  "last_not_ready_reason (record_ready_false_age n s) = last_not_ready_reason s"
  "last_book_update_monotonic_ns (record_ready_false_age n s) = last_book_update_monotonic_ns s"
  "ready_false_since_monotonic_ns (record_ready_false_age n s) = ready_false_since_monotonic_ns s"
  by (simp_all add: record_ready_false_age_def Let_def split: option.splits)

lemma record_message_recv_frame [simp]:
  "bids (record_message_recv n s) = bids s" "asks (record_message_recv n s) = asks s"
  "bid_prices_asc (record_message_recv n s) = bid_prices_asc s"
  "ask_prices_asc (record_message_recv n s) = ask_prices_asc s"
  "snapshot_ready (record_message_recv n s) = snapshot_ready s"
  "ready_to_emit (record_message_recv n s) = ready_to_emit s"
  "last_update_id (record_message_recv n s) = last_update_id s"
  "snapshot_last_update_id (record_message_recv n s) = snapshot_last_update_id s"
  "required_fresh_snapshot_after_update_id (record_message_recv n s)
     = required_fresh_snapshot_after_update_id s"
  "state_version (record_message_recv n s) = state_version s"
  "generation (record_message_recv n s) = generation s"
  "sequence_continuous (record_message_recv n s) = sequence_continuous s"
  "awaiting_first_delta_after_snapshot (record_message_recv n s)
     = awaiting_first_delta_after_snapshot s"
  "last_book_update_monotonic_ns (record_message_recv n s) = last_book_update_monotonic_ns s"
  by (simp_all add: record_message_recv_def)

lemma mark_not_ready_frame [simp]:
  "bids (mark_not_ready now r t g b s) = bids s" "asks (mark_not_ready now r t g b s) = asks s"
  "bid_prices_asc (mark_not_ready now r t g b s) = bid_prices_asc s"
  "ask_prices_asc (mark_not_ready now r t g b s) = ask_prices_asc s"
  "\<not> snapshot_ready (mark_not_ready now r t g b s)"
  "\<not> ready_to_emit (mark_not_ready now r t g b s)"
  "last_update_id (mark_not_ready now r t g b s) = last_update_id s"
  "snapshot_last_update_id (mark_not_ready now r t g b s) = snapshot_last_update_id s"
  "required_fresh_snapshot_after_update_id (mark_not_ready now r t g b s)
     = (if b = None then required_fresh_snapshot_after_update_id s else b)"
  "state_version (mark_not_ready now r t g b s) = state_version s"
  "generation (mark_not_ready now r t g b s) = generation s + (if g then 1 else 0)"
  "\<not> sequence_continuous (mark_not_ready now r t g b s)"
  "\<not> awaiting_first_delta_after_snapshot (mark_not_ready now r t g b s)"
  "last_not_ready_reason (mark_not_ready now r t g b s) = Some r"
  "last_book_update_monotonic_ns (mark_not_ready now r t g b s) = last_book_update_monotonic_ns s"
  by (simp_all add: mark_not_ready_def Let_def)

subsection \<open>The invariant\<close>

definition uncrossed :: "orderbook_state \<Rightarrow> bool" where
  "uncrossed s \<longleftrightarrow> bids s \<noteq> [] \<and> asks s \<noteq> []
     \<and> (\<forall>b\<in>fst ` set (bids s). \<forall>a\<in>fst ` set (asks s). b < a)"

definition sides_ok :: "orderbook_state \<Rightarrow> bool" where
  "sides_ok s \<longleftrightarrow> side_ok (bids s, bid_prices_asc s) \<and> side_ok (asks s, ask_prices_asc s)"

definition flags_ok :: "orderbook_state \<Rightarrow> bool" where
  "flags_ok s \<longleftrightarrow>
     (ready_to_emit s \<longrightarrow> sequence_continuous s \<and> uncrossed s)
   \<and> (sequence_continuous s \<longrightarrow> snapshot_ready s \<and> \<not> awaiting_first_delta_after_snapshot s)
   \<and> (awaiting_first_delta_after_snapshot s \<longrightarrow>
        snapshot_ready s \<and> snapshot_last_update_id s = last_update_id s)
   \<and> (snapshot_ready s \<longrightarrow> sequence_continuous s \<or> awaiting_first_delta_after_snapshot s)
   \<and> (snapshot_ready s \<longrightarrow> required_fresh_snapshot_after_update_id s = None
        \<and> (\<exists>a b. snapshot_last_update_id s = Some a \<and> last_update_id s = Some b \<and> a \<le> b))"

definition book_inv :: "orderbook_state \<Rightarrow> bool" where
  "book_inv s \<longleftrightarrow> sides_ok s \<and> flags_ok s"

lemma ensure_price_indexes_id [simp]: "sides_ok s \<Longrightarrow> ensure_price_indexes s = s"
  by (simp add: sides_ok_def ensure_price_indexes_def side_ok_length)

lemma sides_ok_rebuild:
  "distinct (map fst (bids s)) \<and> list_all (level_in_range False) (bids s) \<Longrightarrow>
   distinct (map fst (asks s)) \<and> list_all (level_in_range False) (asks s) \<Longrightarrow>
   sides_ok (rebuild_price_indexes s)"
  by (simp add: sides_ok_def rebuild_price_indexes_def side_ok_rebuild)

lemma side_empty_iff: "side_ok (book, prices) \<Longrightarrow> prices = [] \<longleftrightarrow> book = []"
  using side_ok_length by fastforce

lemma sides_okD:
  assumes "sides_ok s"
  shows "side_ok (bids s, bid_prices_asc s)" "side_ok (asks s, ask_prices_asc s)"
  using assms by (simp_all add: sides_ok_def)

lemma best_bid_ok:
  assumes "sides_ok s"
  shows "best_bid s = (if bids s = [] then None else Some (Max (fst ` set (bids s))), s)"
proof -
  note d = side_okD [OF sides_okD(1) [OF assms]]
  have e: "bid_prices_asc s = [] \<longleftrightarrow> bids s = []" by (rule side_empty_iff [OF sides_okD(1) [OF assms]])
  have "last (bid_prices_asc s) = Max (set (bid_prices_asc s))" if "bid_prices_asc s \<noteq> []"
  proof (rule Max_eqI [symmetric])
    fix y assume "y \<in> set (bid_prices_asc s)"
    then obtain i where "i < length (bid_prices_asc s)" "bid_prices_asc s ! i = y"
      by (auto simp: in_set_conv_nth)
    then show "y \<le> last (bid_prices_asc s)"
      using sorted_nth_mono [OF d(2), of i "length (bid_prices_asc s) - 1"] that
      by (auto simp: last_conv_nth)
  qed (use that in auto)
  then show ?thesis using assms d(4) e by (simp add: best_bid_def)
qed

lemma best_ask_ok:
  assumes "sides_ok s"
  shows "best_ask s = (if asks s = [] then None else Some (Min (fst ` set (asks s))), s)"
proof -
  note d = side_okD [OF sides_okD(2) [OF assms]]
  have e: "ask_prices_asc s = [] \<longleftrightarrow> asks s = []" by (rule side_empty_iff [OF sides_okD(2) [OF assms]])
  have "hd (ask_prices_asc s) = Min (set (ask_prices_asc s))" if "ask_prices_asc s \<noteq> []"
    by (rule Min_eqI [symmetric]) (use that d(2) in \<open>cases "ask_prices_asc s"; auto\<close>)+
  then show ?thesis using assms d(4) e by (simp add: best_ask_def)
qed

lemma level_errors_in_range: "level_in_range False l \<Longrightarrow> level_errors l = []"
  by (cases l) (auto simp: level_errors_def)

lemma active_level_errors_ok:
  "side_ok (book, prices) \<Longrightarrow> active_level_errors book = []"
  by (auto simp: active_level_errors_def concat_eq_Nil_conv
      dest!: side_okD(5) intro: level_errors_in_range)

lemma Max_less_Min_iff:
  fixes A B :: "'a :: linorder set"
  assumes "finite A" "finite B" "A \<noteq> {}" "B \<noteq> {}"
  shows "Max A < Min B \<longleftrightarrow> (\<forall>a\<in>A. \<forall>b\<in>B. a < b)"
  using assms by (auto simp: Max_less_iff)

lemma validate_ok:
  assumes "sides_ok s"
  shows "snd (validate s) = s" and "fst (validate s) = [] \<longleftrightarrow> uncrossed s"
proof -
  note e = active_level_errors_ok [OF sides_okD(1) [OF assms]]
    active_level_errors_ok [OF sides_okD(2) [OF assms]]
  show "snd (validate s) = s"
    by (simp add: validate_def Let_def best_bid_ok best_ask_ok assms)
  show "fst (validate s) = [] \<longleftrightarrow> uncrossed s"
  proof (cases "bids s = [] \<or> asks s = []")
    case True
    then show ?thesis
      by (auto simp: validate_def Let_def best_bid_ok best_ask_ok assms e uncrossed_def)
  next
    case False
    then have "Max (fst ` set (bids s)) < Min (fst ` set (asks s)) \<longleftrightarrow>
        (\<forall>b\<in>fst ` set (bids s). \<forall>a\<in>fst ` set (asks s). b < a)"
      by (intro Max_less_Min_iff) auto
    then have "uncrossed s \<longleftrightarrow> \<not> Min (fst ` set (asks s)) \<le> Max (fst ` set (bids s))"
      using False by (simp add: uncrossed_def not_le)
    then show ?thesis using False
      by (simp add: validate_def Let_def best_bid_ok best_ask_ok assms e)
  qed
qed

lemma sides_ok_cong:
  "bids t = bids s \<Longrightarrow> asks t = asks s \<Longrightarrow> bid_prices_asc t = bid_prices_asc s
     \<Longrightarrow> ask_prices_asc t = ask_prices_asc s \<Longrightarrow> sides_ok t = sides_ok s"
  by (simp add: sides_ok_def)

lemma uncrossed_cong: "bids t = bids s \<Longrightarrow> asks t = asks s \<Longrightarrow> uncrossed t = uncrossed s"
  by (simp add: uncrossed_def)

lemma flags_not_ready:
  "\<not> snapshot_ready s \<Longrightarrow> \<not> ready_to_emit s \<Longrightarrow> \<not> sequence_continuous s
     \<Longrightarrow> \<not> awaiting_first_delta_after_snapshot s \<Longrightarrow> flags_ok s"
  by (simp add: flags_ok_def)

lemma sides_ok_helpers [simp]:
  "sides_ok (record_message_recv n s) = sides_ok s"
  "sides_ok (record_ready_false_age n s) = sides_ok s"
  "sides_ok (mark_not_ready now r t g b s) = sides_ok s"
  by (simp_all add: sides_ok_def)

lemma uncrossed_helpers [simp]:
  "uncrossed (record_message_recv n s) = uncrossed s"
  "uncrossed (record_ready_false_age n s) = uncrossed s"
  "uncrossed (mark_not_ready now r t g b s) = uncrossed s"
  by (simp_all add: uncrossed_def)

lemma inv_record_message_recv [inv_intros]:
  "book_inv s \<Longrightarrow> book_inv (record_message_recv n s)"
  by (simp add: book_inv_def flags_ok_def)

lemma inv_record_ready_false_age [inv_intros]:
  "book_inv s \<Longrightarrow> book_inv (record_ready_false_age n s)"
  by (simp add: book_inv_def flags_ok_def)

lemma inv_mark_not_ready [inv_intros]:
  "book_inv s \<Longrightarrow> book_inv (mark_not_ready now r t g b s)"
  by (simp add: book_inv_def flags_not_ready)

lemma refresh_frame:
  assumes "sides_ok s"
  shows "bids (refresh_ready_to_emit n s) = bids s" "asks (refresh_ready_to_emit n s) = asks s"
    "bid_prices_asc (refresh_ready_to_emit n s) = bid_prices_asc s"
    "ask_prices_asc (refresh_ready_to_emit n s) = ask_prices_asc s"
    "snapshot_ready (refresh_ready_to_emit n s) = snapshot_ready s"
    "ready_to_emit (refresh_ready_to_emit n s) \<longleftrightarrow> snapshot_ready s \<and> sequence_continuous s
       \<and> \<not> awaiting_first_delta_after_snapshot s \<and> uncrossed s"
    "last_update_id (refresh_ready_to_emit n s) = last_update_id s"
    "snapshot_last_update_id (refresh_ready_to_emit n s) = snapshot_last_update_id s"
    "required_fresh_snapshot_after_update_id (refresh_ready_to_emit n s)
       = required_fresh_snapshot_after_update_id s"
    "state_version (refresh_ready_to_emit n s) = state_version s"
    "generation (refresh_ready_to_emit n s) = generation s"
    "sequence_continuous (refresh_ready_to_emit n s) = sequence_continuous s"
    "awaiting_first_delta_after_snapshot (refresh_ready_to_emit n s)
       = awaiting_first_delta_after_snapshot s"
    "last_book_update_monotonic_ns (refresh_ready_to_emit n s) = last_book_update_monotonic_ns s"
proof -
  obtain errs where v: "validate s = (errs, s)" and u: "errs = [] \<longleftrightarrow> uncrossed s"
    using validate_ok [OF assms] by (cases "validate s") auto
  show "bids (refresh_ready_to_emit n s) = bids s" "asks (refresh_ready_to_emit n s) = asks s"
    "bid_prices_asc (refresh_ready_to_emit n s) = bid_prices_asc s"
    "ask_prices_asc (refresh_ready_to_emit n s) = ask_prices_asc s"
    "snapshot_ready (refresh_ready_to_emit n s) = snapshot_ready s"
    "ready_to_emit (refresh_ready_to_emit n s) \<longleftrightarrow> snapshot_ready s \<and> sequence_continuous s
       \<and> \<not> awaiting_first_delta_after_snapshot s \<and> uncrossed s"
    "last_update_id (refresh_ready_to_emit n s) = last_update_id s"
    "snapshot_last_update_id (refresh_ready_to_emit n s) = snapshot_last_update_id s"
    "required_fresh_snapshot_after_update_id (refresh_ready_to_emit n s)
       = required_fresh_snapshot_after_update_id s"
    "state_version (refresh_ready_to_emit n s) = state_version s"
    "generation (refresh_ready_to_emit n s) = generation s"
    "sequence_continuous (refresh_ready_to_emit n s) = sequence_continuous s"
    "awaiting_first_delta_after_snapshot (refresh_ready_to_emit n s)
       = awaiting_first_delta_after_snapshot s"
    "last_book_update_monotonic_ns (refresh_ready_to_emit n s) = last_book_update_monotonic_ns s"
    by (simp_all add: refresh_ready_to_emit_def v Let_def u)
qed

lemma inv_refresh [inv_intros]:
  assumes "book_inv s"
  shows "book_inv (refresh_ready_to_emit n s)"
proof -
  have "sides_ok s" using assms by (simp add: book_inv_def)
  note f = refresh_frame [OF this]
  have "sides_ok (refresh_ready_to_emit n s) = sides_ok s" by (rule sides_ok_cong) (simp_all add: f)
  moreover have "uncrossed (refresh_ready_to_emit n s) = uncrossed s"
    by (rule uncrossed_cong) (simp_all add: f)
  ultimately show ?thesis using assms by (simp add: book_inv_def flags_ok_def f)
qed

lemma inv_cleanup [inv_intros]: "book_inv (cleanup s)"
  by (simp add: book_inv_def sides_ok_def flags_ok_def cleanup_def)

lemma inv_copy [inv_intros]:
  "book_inv s \<Longrightarrow> book_inv (snd (top_n side n s))"
  "book_inv s \<Longrightarrow> book_inv (snd (copy_snapshot now iso_now n t w s))"
  by (simp_all add: book_inv_def top_n_def copy_snapshot_def Let_def)

lemma inv_book_age [inv_intros]: "book_inv s \<Longrightarrow> book_inv (snd (book_age_ms n s))"
  by (simp add: book_inv_def book_age_ms_def sides_ok_def flags_ok_def uncrossed_def)

lemma inv_mark_ready [inv_intros]: "book_inv s \<Longrightarrow> book_inv (snd (mark_ready now t s))"
  by (simp add: mark_ready_def Let_def inv_intros)

lemma snd_result_of [simp]: "snd (result_of before a st e x s) = s"
  by (simp add: result_of_def)

lemma result_of_fields [simp]:
  "res_accepted (fst (result_of before a st e x s)) = a"
  "res_status (fst (result_of before a st e x s)) = st"
  "res_errors (fst (result_of before a st e x s)) = e"
  "res_expected_next_update_id (fst (result_of before a st e x s)) = x"
  "res_ready_to_emit_after (fst (result_of before a st e x s)) = ready_to_emit s"
  by (simp_all add: result_of_def)

lemma inv_apply_snapshot [inv_intros]:
  assumes "book_inv s"
  shows "book_inv (snd (apply_snapshot now iso_now br ar i t w g s))"
proof -
  define r where "r = record_message_recv t s"
  have r: "book_inv r" using assms by (simp add: r_def inv_intros)
  obtain pb eb where pb: "parse_levels False br = (pb, eb)" by (cases "parse_levels False br")
  obtain pa ea where pa: "parse_levels False ar = (pa, ea)" by (cases "parse_levels False ar")
  have lb: "\<forall>l\<in>set pb. level_in_range False (lvl_price l, lvl_size l)"
    using parse_levels_ok [of False br] pb by simp
  have la: "\<forall>l\<in>set pa. level_in_range False (lvl_price l, lvl_size l)"
    using parse_levels_ok [of False ar] pa by simp
  have so: "sides_ok (rebuild_price_indexes (r\<lparr>bids := dict_of_levels pb, asks := dict_of_levels pa\<rparr>))"
    by (rule sides_ok_rebuild) (simp_all add: dict_of_levels_ok [OF lb] dict_of_levels_ok [OF la])
  show ?thesis
    using r so
    by (auto simp: apply_snapshot_def Let_def pb pa inv_mark_not_ready simp flip: r_def
        simp: book_inv_def sides_ok_def flags_ok_def)
qed

lemma apply_levels_frame [simp]:
  "snapshot_ready (apply_levels pb pa s) = snapshot_ready s"
  "ready_to_emit (apply_levels pb pa s) = ready_to_emit s"
  "last_update_id (apply_levels pb pa s) = last_update_id s"
  "snapshot_last_update_id (apply_levels pb pa s) = snapshot_last_update_id s"
  "required_fresh_snapshot_after_update_id (apply_levels pb pa s)
     = required_fresh_snapshot_after_update_id s"
  "state_version (apply_levels pb pa s) = state_version s"
  "generation (apply_levels pb pa s) = generation s"
  "sequence_continuous (apply_levels pb pa s) = sequence_continuous s"
  "awaiting_first_delta_after_snapshot (apply_levels pb pa s)
     = awaiting_first_delta_after_snapshot s"
  by (simp_all add: apply_levels_def Let_def split: prod.splits)

lemma apply_levels_sides:
  "(bids (apply_levels pb pa s), bid_prices_asc (apply_levels pb pa s))
     = fold apply_level pb (bids s, bid_prices_asc s)"
  "(asks (apply_levels pb pa s), ask_prices_asc (apply_levels pb pa s))
     = fold apply_level pa (asks s, ask_prices_asc s)"
  by (simp_all add: apply_levels_def Let_def split: prod.splits)

lemma parsed_pairs_ok:
  "\<forall>l\<in>set (map (\<lambda>l. (lvl_price l, lvl_size l)) (fst (parse_levels True rows))).
     level_in_range True l"
  using parse_levels_ok [of True rows] by auto

lemma apply_levels_ok:
  assumes "sides_ok s"
  shows "sides_ok (apply_levels (fst (parse_levels True br)) (fst (parse_levels True ar)) s)"
proof -
  note f = side.fold_inv [OF _ parsed_pairs_ok]
  show ?thesis
    using f [OF sides_okD(1) [OF assms], of br] f [OF sides_okD(2) [OF assms], of ar]
    by (simp add: sides_ok_def apply_levels_sides flip: fold_apply_level)
qed

definition delta_continues :: "int \<Rightarrow> int \<Rightarrow> int option \<Rightarrow> orderbook_state \<Rightarrow> bool" where
  \<comment> \<open>the update ids of the delta continue the book's sequence\<close>
  "delta_continues first_id final_id prev_final s \<longleftrightarrow> snapshot_ready s
     \<and> (case last_update_id s of None \<Rightarrow> False
        | Some p \<Rightarrow> p < final_id \<and> (prev_final = None \<or> prev_final = Some p)
            \<and> (if awaiting_first_delta_after_snapshot s then bridges_snapshot first_id final_id s
               else first_id = p + 1))"

definition delta_parses :: "level_row list \<Rightarrow> level_row list \<Rightarrow> bool" where
  "delta_parses br ar \<longleftrightarrow> snd (parse_levels True br) = [] \<and> snd (parse_levels True ar) = []"

definition delta_state ::
  "int \<Rightarrow> level_row list \<Rightarrow> level_row list \<Rightarrow> int \<Rightarrow> orderbook_state \<Rightarrow> orderbook_state" where
  \<comment> \<open>the state an accepted delta leaves, before the readiness is evaluated\<close>
  "delta_state final_id br ar t s =
     (let s1 = apply_levels (fst (parse_levels True br)) (fst (parse_levels True ar)) s
      in s1\<lparr>last_update_id := Some final_id, last_book_update_monotonic_ns := Some t,
            last_successful_apply_monotonic_ns := Some t, last_local_recv_monotonic_ns := Some t,
            awaiting_first_delta_after_snapshot := False, sequence_continuous := True,
            state_version := state_version s1 + 1\<rparr>)"

lemma bridges_record [simp]:
  "bridges_snapshot a b (record_message_recv t s) = bridges_snapshot a b s"
  by (simp add: bridges_snapshot_def)

lemma delta_accepted:
  "delta_continues a b pf s \<Longrightarrow> delta_parses br ar \<Longrightarrow>
     res_accepted (fst (apply_delta now a b br ar t pf s))
     \<and> snd (apply_delta now a b br ar t pf s)
       = refresh_ready_to_emit t (delta_state b br ar t (record_message_recv t s))"
  by (cases "parse_levels True br"; cases "parse_levels True ar")
    (auto simp: apply_delta_def Let_def delta_continues_def delta_parses_def delta_state_def
      split: option.splits if_splits)

lemma delta_rejected:
  "\<not> (delta_continues a b pf s \<and> delta_parses br ar) \<Longrightarrow>
     \<not> res_accepted (fst (apply_delta now a b br ar t pf s))
     \<and> (snd (apply_delta now a b br ar t pf s) = record_ready_false_age t (record_message_recv t s)
        \<or> snapshot_ready s \<and> (\<exists>reason. snd (apply_delta now a b br ar t pf s)
              = mark_not_ready now reason (Some t) True (Some b) (record_message_recv t s)))"
  by (cases "parse_levels True br"; cases "parse_levels True ar")
    (auto simp: apply_delta_def Let_def delta_continues_def delta_parses_def
      split: option.splits if_splits)

lemma delta_accepted_iff:
  "res_accepted (fst (apply_delta now a b br ar t pf s))
     \<longleftrightarrow> delta_continues a b pf s \<and> delta_parses br ar"
  using delta_accepted delta_rejected by blast

lemma delta_state_frame [simp]:
  "snapshot_ready (delta_state b br ar t s) = snapshot_ready s"
  "last_update_id (delta_state b br ar t s) = Some b"
  "snapshot_last_update_id (delta_state b br ar t s) = snapshot_last_update_id s"
  "required_fresh_snapshot_after_update_id (delta_state b br ar t s)
     = required_fresh_snapshot_after_update_id s"
  "state_version (delta_state b br ar t s) = state_version s + 1"
  "generation (delta_state b br ar t s) = generation s"
  "sequence_continuous (delta_state b br ar t s)"
  "\<not> awaiting_first_delta_after_snapshot (delta_state b br ar t s)"
  by (simp_all add: delta_state_def Let_def)

lemma delta_state_sides:
  assumes "sides_ok s"
  shows "sides_ok (delta_state b br ar t s)"
  using apply_levels_ok [OF assms, of br ar] by (simp add: delta_state_def Let_def sides_ok_def)

lemma inv_apply_delta [inv_intros]:
  assumes "book_inv s"
  shows "book_inv (snd (apply_delta now a b br ar t pf s))"
proof (cases "delta_continues a b pf s \<and> delta_parses br ar")
  case True
  let ?d = "delta_state b br ar t (record_message_recv t s)"
  have so: "sides_ok s" and fl: "flags_ok s" using assms by (simp_all add: book_inv_def)
  have sd: "sides_ok ?d" using so by (simp add: delta_state_sides)
  note f = refresh_frame [OF sd]
  have "sides_ok (refresh_ready_to_emit t ?d)"
    using sd by (subst sides_ok_cong [of _ ?d]) (simp_all add: f)
  moreover have "uncrossed (refresh_ready_to_emit t ?d) = uncrossed ?d"
    by (rule uncrossed_cong) (simp_all add: f)
  ultimately have "book_inv (refresh_ready_to_emit t ?d)"
    using fl True by (auto simp: book_inv_def flags_ok_def f delta_continues_def split: option.splits)
  then show ?thesis using delta_accepted True by simp
next
  case False
  show ?thesis using delta_rejected [OF False, of now t] assms by (auto simp: inv_intros)
qed

subsection \<open>Every reachable book\<close>

datatype book_op =
    OpSnapshot "level_row list" "level_row list" int int "string option" "int option"
  | OpDelta int int "level_row list" "level_row list" int "int option"
  | OpNotReady string "int option" bool "int option"
  | OpReady "int option" | OpRecv int | OpAge int | OpTop string int
  | OpCopy int "int option" "string option" | OpCleanup

fun book_step :: "int \<Rightarrow> string \<Rightarrow> book_op \<Rightarrow> orderbook_state \<Rightarrow> orderbook_state" where
  "book_step now iso_now (OpSnapshot br ar i t w g) s = snd (apply_snapshot now iso_now br ar i t w g s)"
| "book_step now iso_now (OpDelta a b br ar t pf) s = snd (apply_delta now a b br ar t pf s)"
| "book_step now iso_now (OpNotReady r t g b) s = mark_not_ready now r t g b s"
| "book_step now iso_now (OpReady t) s = snd (mark_ready now t s)"
| "book_step now iso_now (OpRecv t) s = record_message_recv t s"
| "book_step now iso_now (OpAge t) s = snd (book_age_ms t s)"
| "book_step now iso_now (OpTop side n) s = snd (top_n side n s)"
| "book_step now iso_now (OpCopy n t w) s = snd (copy_snapshot now iso_now n t w s)"
| "book_step now iso_now OpCleanup s = cleanup s"

inductive book_reach :: "orderbook_state \<Rightarrow> bool" where
  start: "orderbook_init symb sec now = Some s \<Longrightarrow> book_reach s"
| step: "book_reach s \<Longrightarrow> book_reach (book_step now iso_now op s)"

lemma inv_book_step [inv_intros]: "book_inv s \<Longrightarrow> book_inv (book_step now iso_now op s)"
  by (cases op) (simp_all add: inv_intros)

lemma inv_orderbook_init: "orderbook_init symb sec now = Some s \<Longrightarrow> book_inv s"
  by (auto simp: orderbook_init_def book_inv_def sides_ok_def flags_ok_def)

lemma book_reach_inv: "book_reach s \<Longrightarrow> book_inv s"
  by (induction rule: book_reach.induct) (auto intro: inv_orderbook_init inv_intros)

subsection \<open>Runs of operations\<close>

fun is_snapshot_op :: "book_op \<Rightarrow> bool" where
  "is_snapshot_op (OpSnapshot br ar i t w g) = True"
| "is_snapshot_op _ = False"

definition accepted_range :: "int \<Rightarrow> book_op \<Rightarrow> orderbook_state \<Rightarrow> (int \<times> int) list" where
  "accepted_range now op s = (case op of
     OpDelta a b br ar t pf \<Rightarrow>
       if res_accepted (fst (apply_delta now a b br ar t pf s)) then [(a, b)] else []
   | _ \<Rightarrow> [])"

fun accepted_ranges :: "int \<Rightarrow> string \<Rightarrow> book_op list \<Rightarrow> orderbook_state \<Rightarrow> (int \<times> int) list" where
  \<comment> \<open>the id ranges of the deltas a run accepts, in order\<close>
  "accepted_ranges now iso_now [] s = []"
| "accepted_ranges now iso_now (op # ops) s =
     accepted_range now op s @ accepted_ranges now iso_now ops (book_step now iso_now op s)"

fun id_chain :: "bool \<Rightarrow> int \<Rightarrow> (int \<times> int) list \<Rightarrow> bool" where
  \<comment> \<open>the first range covers \<open>n + 1\<close> when it bridges a snapshot, every other one starts there\<close>
  "id_chain bridge n [] = True"
| "id_chain bridge n ((a, b) # r) =
     ((if bridge then a \<le> n + 1 else a = n + 1) \<and> n + 1 \<le> b \<and> id_chain False b r)"

lemma step_without_snapshot:
  assumes "book_inv s" and "\<not> is_snapshot_op op" and "accepted_range now op s = []"
  shows "\<not> snapshot_ready (book_step now iso_now op s)
    \<or> snapshot_ready s \<and> last_update_id (book_step now iso_now op s) = last_update_id s
      \<and> awaiting_first_delta_after_snapshot (book_step now iso_now op s)
        = awaiting_first_delta_after_snapshot s"
proof -
  have so: "sides_ok s" using assms(1) by (simp add: book_inv_def)
  show ?thesis
  proof (cases op)
    case (OpDelta a b br ar t pf)
    with assms(3) have "\<not> (delta_continues a b pf s \<and> delta_parses br ar)"
      by (simp add: accepted_range_def delta_accepted_iff split: if_splits)
    from delta_rejected [OF this, of now t] show ?thesis by (auto simp: OpDelta)
  qed (use assms so in \<open>auto simp: mark_ready_def Let_def refresh_frame book_age_ms_def top_n_def
      copy_snapshot_def cleanup_def\<close>)
qed

lemma accepted_range_delta:
  assumes "book_inv s" and "accepted_range now op s \<noteq> []"
  obtains a b n where "accepted_range now op s = [(a, b)]" and "snapshot_ready s"
    and "last_update_id s = Some n" and "n + 1 \<le> b"
    and "if awaiting_first_delta_after_snapshot s then a \<le> n + 1 else a = n + 1"
    and "snapshot_ready (book_step now iso_now op s)"
    and "last_update_id (book_step now iso_now op s) = Some b"
    and "\<not> awaiting_first_delta_after_snapshot (book_step now iso_now op s)"
proof -
  obtain a b br ar t pf where op: "op = OpDelta a b br ar t pf"
    and acc: "res_accepted (fst (apply_delta now a b br ar t pf s))"
    using assms(2) by (auto simp: accepted_range_def split: book_op.splits if_splits)
  have c: "delta_continues a b pf s" "delta_parses br ar" using acc by (simp_all add: delta_accepted_iff)
  have so: "sides_ok s" and fl: "flags_ok s" using assms(1) by (simp_all add: book_inv_def)
  have sd: "sides_ok (delta_state b br ar t (record_message_recv t s))"
    using so by (simp add: delta_state_sides)
  obtain n where n: "last_update_id s = Some n" using c(1) by (auto simp: delta_continues_def split: option.splits)
  show thesis
  proof (rule that [of a b n])
    show "accepted_range now op s = [(a, b)]" using acc by (simp add: op accepted_range_def)
    show "snapshot_ready s" using c(1) by (simp add: delta_continues_def)
    show "last_update_id s = Some n" by (rule n)
    show "n + 1 \<le> b" using c(1) n by (simp add: delta_continues_def)
    show "if awaiting_first_delta_after_snapshot s then a \<le> n + 1 else a = n + 1"
      using c(1) n fl by (auto simp: delta_continues_def bridges_snapshot_def flags_ok_def)
  qed (use delta_accepted [OF c, of now t] c(1) in
      \<open>simp_all add: op refresh_frame [OF sd] delta_continues_def\<close>)
qed

lemma accepted_range_not_ready:
  "book_inv s \<Longrightarrow> \<not> snapshot_ready s \<Longrightarrow> accepted_range now op s = []"
  using accepted_range_delta by (metis (no_types, lifting))

lemma not_ready_stays:
  "book_inv s \<Longrightarrow> \<not> snapshot_ready s \<Longrightarrow> \<not> is_snapshot_op op
     \<Longrightarrow> \<not> snapshot_ready (book_step now iso_now op s)"
  using step_without_snapshot accepted_range_not_ready by blast

lemma accepted_ranges_not_ready:
  "book_inv s \<Longrightarrow> \<not> snapshot_ready s \<Longrightarrow> \<forall>op\<in>set ops. \<not> is_snapshot_op op
     \<Longrightarrow> accepted_ranges now iso_now ops s = []"
  by (induction ops arbitrary: s) (auto simp: accepted_range_not_ready not_ready_stays inv_intros)

lemma accepted_ranges_chain:
  "book_inv s \<Longrightarrow> snapshot_ready s \<Longrightarrow> last_update_id s = Some n
     \<Longrightarrow> \<forall>op\<in>set ops. \<not> is_snapshot_op op
     \<Longrightarrow> id_chain (awaiting_first_delta_after_snapshot s) n (accepted_ranges now iso_now ops s)"
proof (induction ops arbitrary: s n)
  case (Cons op ops)
  let ?s = "book_step now iso_now op s"
  have inv: "book_inv ?s" using Cons.prems(1) by (rule inv_intros)
  show ?case
  proof (cases "accepted_range now op s = []")
    case True
    consider "\<not> snapshot_ready ?s" | "snapshot_ready ?s" "last_update_id ?s = last_update_id s"
      "awaiting_first_delta_after_snapshot ?s = awaiting_first_delta_after_snapshot s"
      using step_without_snapshot [OF Cons.prems(1) _ True, of iso_now] Cons.prems(4) by auto
    then show ?thesis
    proof cases
      case 1
      then show ?thesis using True Cons.prems(4) by (simp add: accepted_ranges_not_ready [OF inv])
    next
      case 2
      then show ?thesis using True Cons.prems Cons.IH [OF inv 2(1), of n] by simp
    qed
  next
    case False
    obtain a b m where *: "accepted_range now op s = [(a, b)]" "last_update_id s = Some m"
      "m + 1 \<le> b" "if awaiting_first_delta_after_snapshot s then a \<le> m + 1 else a = m + 1"
      "snapshot_ready ?s" "last_update_id ?s = Some b" "\<not> awaiting_first_delta_after_snapshot ?s"
      by (rule accepted_range_delta [OF Cons.prems(1) False])
    have "id_chain False b (accepted_ranges now iso_now ops ?s)"
      using Cons.IH [OF inv *(5,6)] Cons.prems(4) *(7) by simp
    then show ?thesis using * Cons.prems(3) by (auto split: if_splits)
  qed
qed simp

fun keeps_gap :: "int \<Rightarrow> book_op \<Rightarrow> bool" where
  \<comment> \<open>no snapshot above the boundary, no call that moves the boundary by hand\<close>
  "keeps_gap boundary (OpSnapshot br ar i t w g) = (i \<le> boundary)"
| "keeps_gap boundary (OpNotReady r t g b) = (b = None)"
| "keeps_gap boundary _ = True"

lemma gap_step:
  assumes "book_inv s" and "\<not> snapshot_ready s"
    and "required_fresh_snapshot_after_update_id s = Some boundary" and "keeps_gap boundary op"
  shows "\<not> snapshot_ready (book_step now iso_now op s)
    \<and> required_fresh_snapshot_after_update_id (book_step now iso_now op s) = Some boundary"
proof -
  have so: "sides_ok s" using assms(1) by (simp add: book_inv_def)
  show ?thesis
  proof (cases op)
    case (OpDelta a b br ar t pf)
    have "\<not> (delta_continues a b pf s \<and> delta_parses br ar)"
      using assms(2) by (simp add: delta_continues_def)
    from delta_rejected [OF this, of now t] show ?thesis using assms by (auto simp: OpDelta)
  qed (use assms so in \<open>auto simp: mark_ready_def Let_def refresh_frame book_age_ms_def top_n_def
      copy_snapshot_def cleanup_def apply_snapshot_def\<close>)
qed

lemma gap_run:
  "book_inv s \<Longrightarrow> \<not> snapshot_ready s
     \<Longrightarrow> required_fresh_snapshot_after_update_id s = Some boundary
     \<Longrightarrow> \<forall>op\<in>set ops. keeps_gap boundary op
     \<Longrightarrow> book_inv (fold (book_step now iso_now) ops s)
       \<and> \<not> snapshot_ready (fold (book_step now iso_now) ops s)
       \<and> required_fresh_snapshot_after_update_id (fold (book_step now iso_now) ops s) = Some boundary"
  by (rule fold_invariant_set) (use gap_step in \<open>auto intro: inv_intros\<close>)

subsection \<open>A concrete book for the witnesses\<close>

definition example_start :: orderbook_state where
  "example_start = the (orderbook_init ''btcusdt'' (Fin 300) 100)"

abbreviation str_row :: "string \<Rightarrow> string \<Rightarrow> level_row" where
  "str_row p sz \<equiv> RowVal (VList [VStr p, VStr sz])"

definition example_snapshot_op :: book_op where
  "example_snapshot_op = OpSnapshot [str_row ''0.5'' ''3'', str_row ''0.4'' ''1'']
     [str_row ''0.75'' ''2''] 10 100 None None"

definition example_delta_op :: book_op where
  "example_delta_op = OpDelta 9 12 [str_row ''0.4'' ''0'', str_row ''0.6'' ''5''] [] 101 None"

definition example_loaded :: orderbook_state where
  "example_loaded = book_step 1 ''t'' example_snapshot_op example_start"

definition example_book :: orderbook_state where
  "example_book = book_step 1 ''t'' example_delta_op example_loaded"

lemma example_reach: "book_reach example_start" "book_reach example_loaded" "book_reach example_book"
proof -
  have "orderbook_init ''btcusdt'' (Fin 300) 100 \<noteq> None" by code_simp
  then have "orderbook_init ''btcusdt'' (Fin 300) 100 = Some example_start"
    by (auto simp: example_start_def)
  then show *: "book_reach example_start" by (rule book_reach.start)
  then show **: "book_reach example_loaded" unfolding example_loaded_def by (rule book_reach.step)
  then show "book_reach example_book" unfolding example_book_def by (rule book_reach.step)
qed



lemma example_loaded_value:
  "example_loaded =
     \<lparr>symbol = ''BTCUSDT'', bids = [(DFin (1/2), DFin 3), (DFin (2/5), DFin 1)],
      asks = [(DFin (3/4), DFin 2)], bid_prices_asc = [DFin (2/5), DFin (1/2)],
      ask_prices_asc = [DFin (3/4)], snapshot_ready = True, ready_to_emit = False,
      last_update_id = Some 10, snapshot_last_update_id = Some 10,
      required_fresh_snapshot_after_update_id = None, state_version = 1, generation = 0,
      sequence_continuous = False, awaiting_first_delta_after_snapshot = True,
      last_not_ready_reason = Some ''waiting_for_first_delta_bridge'',
      last_message_recv_monotonic_ns = Some 100, last_book_update_monotonic_ns = Some 100,
      last_successful_apply_monotonic_ns = Some 100, last_stale_check_monotonic_ns = None,
      last_local_recv_monotonic_ns = Some 100, last_local_recv_wall_ts = Some ''t'',
      ready_false_since_monotonic_ns = Some 100, ready_false_warning_after_ns = 300000000000,
      ready_to_emit_false_duration_ms_max = fzero,
      ready_to_emit_false_warning_count = 0\<rparr>"
  by code_simp

lemma example_book_value:
  "example_book =
     \<lparr>symbol = ''BTCUSDT'', bids = [(DFin (1/2), DFin 3), (DFin (3/5), DFin 5)],
      asks = [(DFin (3/4), DFin 2)], bid_prices_asc = [DFin (1/2), DFin (3/5)],
      ask_prices_asc = [DFin (3/4)], snapshot_ready = True, ready_to_emit = True,
      last_update_id = Some 12, snapshot_last_update_id = Some 10,
      required_fresh_snapshot_after_update_id = None, state_version = 2, generation = 0,
      sequence_continuous = True, awaiting_first_delta_after_snapshot = False,
      last_not_ready_reason = None, last_message_recv_monotonic_ns = Some 101,
      last_book_update_monotonic_ns = Some 101, last_successful_apply_monotonic_ns = Some 101,
      last_stale_check_monotonic_ns = None, last_local_recv_monotonic_ns = Some 101,
      last_local_recv_wall_ts = Some ''t'', ready_false_since_monotonic_ns = None,
      ready_false_warning_after_ns = 300000000000,
      ready_to_emit_false_duration_ms_max = fzero, ready_to_emit_false_warning_count = 0\<rparr>"
  unfolding example_book_def example_loaded_value by code_simp

subsection \<open>Properties\<close>

lemma sorted_index_unique:
  "side_ok (book, prices) \<Longrightarrow> prices = sort (map fst book)"
  by (metis side_okD(1-4) distinct_sort set_map set_sort sorted_distinct_set_unique sorted_sort)

text \<open>
  C1: in every reachable state a book that may be emitted is loaded, continuous with its
  snapshot, free of a pending gap boundary, two-sided and uncrossed, and all its levels are
  finite and positive.
\<close>
theorem ready_book_is_sound:
  assumes "book_reach s" and "ready_to_emit s"
  shows "snapshot_ready s \<and> sequence_continuous s \<and> \<not> awaiting_first_delta_after_snapshot s
    \<and> required_fresh_snapshot_after_update_id s = None
    \<and> bids s \<noteq> [] \<and> asks s \<noteq> []
    \<and> (\<forall>b\<in>fst ` set (bids s). \<forall>a\<in>fst ` set (asks s). b < a)
    \<and> (\<forall>(p, sz)\<in>set (bids s) \<union> set (asks s).
         dec_finite p \<and> dzero < p \<and> dec_finite sz \<and> dzero < sz)"
proof -
  have inv: "sides_ok s" "flags_ok s" using book_reach_inv [OF assms(1)] by (simp_all add: book_inv_def)
  have "\<forall>(p, sz)\<in>set (bids s) \<union> set (asks s).
      dec_finite p \<and> dzero < p \<and> dec_finite sz \<and> dzero < sz"
    using side_okD(5) [OF sides_okD(1) [OF inv(1)]] side_okD(5) [OF sides_okD(2) [OF inv(1)]] by auto
  then show ?thesis using inv(2) assms(2) by (auto simp: flags_ok_def uncrossed_def)
qed

theorem ready_book_is_sound_witness:
  "snapshot_ready example_book \<and> bids example_book \<noteq> []"
  using ready_book_is_sound [OF example_reach(3)] by (simp add: example_book_value)

text \<open>
  The price indexes, maintained by binary search, are in every reachable state exactly the
  sorted keys of the dictionaries.
\<close>
theorem price_indexes_are_sorted_keys:
  assumes "book_reach s"
  shows "bid_prices_asc s = sort (map fst (bids s)) \<and> ask_prices_asc s = sort (map fst (asks s))
    \<and> distinct (map fst (bids s)) \<and> distinct (map fst (asks s))"
proof -
  have "sides_ok s" using book_reach_inv [OF assms] by (simp add: book_inv_def)
  note so = sides_okD [OF this]
  show ?thesis
    using sorted_index_unique [OF so(1)] sorted_index_unique [OF so(2)] side_okD(1) [OF so(1)]
      side_okD(1) [OF so(2)] by blast
qed

theorem price_indexes_are_sorted_keys_witness:
  "bid_prices_asc example_book = sort (map fst (bids example_book))"
  using price_indexes_are_sorted_keys [OF example_reach(3)] by blast

text \<open>
  C2: a delta is accepted exactly when its update ids continue the sequence (after a snapshot
  it covers the next id, later it starts there), its previous id, if given, is the last one,
  and every level parses.
\<close>
theorem delta_accept_iff:
  "res_accepted (fst (apply_delta now a b br ar t prev s)) \<longleftrightarrow>
     snapshot_ready s
     \<and> (\<exists>n. last_update_id s = Some n \<and> n < b \<and> prev \<in> {None, Some n}
          \<and> (if awaiting_first_delta_after_snapshot s
             then \<exists>m. snapshot_last_update_id s = Some m \<and> a \<le> m + 1 \<and> m + 1 \<le> b
             else a = n + 1))
     \<and> snd (parse_levels True br) = [] \<and> snd (parse_levels True ar) = []"
  unfolding delta_accepted_iff
  by (auto simp: delta_continues_def delta_parses_def bridges_snapshot_def
      split: option.splits if_splits)

text \<open>
  C3: a rejected delta leaves the levels, the update id and the version alone; if the book was
  loaded and the delta is not a duplicate, the book fails closed: it is no longer ready, its
  generation advances and only a snapshot beyond the delta is accepted from then on.
\<close>
theorem delta_reject_fails_closed:
  assumes "\<not> res_accepted (fst (apply_delta now a b br ar t prev s))"
  shows "bids (snd (apply_delta now a b br ar t prev s)) = bids s
    \<and> asks (snd (apply_delta now a b br ar t prev s)) = asks s
    \<and> last_update_id (snd (apply_delta now a b br ar t prev s)) = last_update_id s
    \<and> state_version (snd (apply_delta now a b br ar t prev s)) = state_version s
    \<and> (if snapshot_ready s \<and> (\<exists>n. last_update_id s = Some n \<and> n < b)
       then \<not> snapshot_ready (snd (apply_delta now a b br ar t prev s))
         \<and> \<not> ready_to_emit (snd (apply_delta now a b br ar t prev s))
         \<and> generation (snd (apply_delta now a b br ar t prev s)) = generation s + 1
         \<and> required_fresh_snapshot_after_update_id (snd (apply_delta now a b br ar t prev s)) = Some b
       else ready_to_emit (snd (apply_delta now a b br ar t prev s)) = ready_to_emit s
         \<and> generation (snd (apply_delta now a b br ar t prev s)) = generation s)"
  using assms unfolding delta_accepted_iff
  by (cases "parse_levels True br"; cases "parse_levels True ar")
    (auto simp: apply_delta_def Let_def delta_continues_def delta_parses_def
      split: option.splits if_splits)

theorem delta_reject_fails_closed_witness:
  "generation (snd (apply_delta 1 14 15 [] [] 102 None example_book)) = 1"
proof -
  have "\<not> res_accepted (fst (apply_delta 1 14 15 [] [] 102 None example_book))"
    unfolding delta_accepted_iff by (simp add: delta_continues_def example_book_value)
  from delta_reject_fails_closed [OF this] show ?thesis by (simp add: example_book_value)
qed

text \<open>
  C4: an accepted delta refines the book to the map update it describes: at every price the
  last level of the batch decides (a zero size removes it), and a price the batch does not
  name keeps its size.
\<close>
theorem delta_refines_map_update:
  assumes "book_reach s" and "res_accepted (fst (apply_delta now a b br ar t prev s))"
  shows "map_of (bids (snd (apply_delta now a b br ar t prev s))) p =
      (case map_of (rev (map (\<lambda>l. (lvl_price l, lvl_size l)) (fst (parse_levels True br)))) p of
         None \<Rightarrow> map_of (bids s) p | Some z \<Rightarrow> if z \<noteq> dzero then Some z else None)
    \<and> map_of (asks (snd (apply_delta now a b br ar t prev s))) p =
      (case map_of (rev (map (\<lambda>l. (lvl_price l, lvl_size l)) (fst (parse_levels True ar)))) p of
         None \<Rightarrow> map_of (asks s) p | Some z \<Rightarrow> if z \<noteq> dzero then Some z else None)"
proof -
  let ?r = "record_message_recv t s"
  have so: "sides_ok ?r" using book_reach_inv [OF assms(1)] by (simp add: book_inv_def)
  have c: "delta_continues a b prev s" "delta_parses br ar"
    using assms(2) by (simp_all add: delta_accepted_iff)
  have e: "snd (apply_delta now a b br ar t prev s) = refresh_ready_to_emit t (delta_state b br ar t ?r)"
    using delta_accepted [OF c] by blast
  note f = refresh_frame(1,2) [OF delta_state_sides [OF so]]
  have b: "bids (delta_state b br ar t ?r)
      = fst (fold apply_level (fst (parse_levels True br)) (bids s, bid_prices_asc s))"
    and a: "asks (delta_state b br ar t ?r)
      = fst (fold apply_level (fst (parse_levels True ar)) (asks s, ask_prices_asc s))"
    by (simp_all add: delta_state_def Let_def apply_levels_def split: prod.splits)
  note look = side.fold_look [OF _ parsed_pairs_ok]
  show ?thesis
    using look [of "(bids s, bid_prices_asc s)" br p] look [of "(asks s, ask_prices_asc s)" ar p]
      sides_okD [OF so]
    by (simp add: e f a b fold_apply_level cong: option.case_cong)
qed

theorem delta_refines_map_update_witness:
  "map_of (bids (snd (apply_delta 1 13 13 [str_row ''0.6'' ''0''] [] 102 None example_book))) (DFin (1/2))
     = Some (DFin 3)"
proof -
  have p: "snd (parse_levels True [str_row ''0.6'' ''0'']) = []"
    "map_of (rev (map (\<lambda>l. (lvl_price l, lvl_size l))
      (fst (parse_levels True [str_row ''0.6'' ''0''])))) (DFin (1/2)) = None"
    by code_simp+
  have "res_accepted (fst (apply_delta 1 13 13 [str_row ''0.6'' ''0''] [] 102 None example_book))"
    unfolding delta_accepted_iff
    using p(1) by (simp add: delta_continues_def delta_parses_def example_book_value)
  note this [THEN delta_refines_map_update [OF example_reach(3)], THEN conjunct1, of "DFin (1/2)",
    unfolded p(2)]
  moreover have "map_of (bids example_book) (DFin (1/2)) = Some (DFin 3)"
    by (simp add: example_book_value)
  ultimately show ?thesis by simp
qed

text \<open>
  C5: between two snapshots the deltas a run accepts form one unbroken chain of update ids,
  whatever else is called in between: the first after a snapshot covers the id that follows
  it, and every later one starts right after the one before.
\<close>
theorem accepted_deltas_are_contiguous:
  assumes "book_reach s" and "snapshot_ready s" and "last_update_id s = Some n"
    and "\<forall>op\<in>set ops. \<not> is_snapshot_op op"
  shows "id_chain (awaiting_first_delta_after_snapshot s) n (accepted_ranges now iso_now ops s)"
  using assms(2-4) by (rule accepted_ranges_chain [OF book_reach_inv [OF assms(1)]])

theorem accepted_deltas_are_contiguous_witness:
  "id_chain True 10 (accepted_ranges 1 ''t'' [example_delta_op, OpAge 3] example_loaded)"
  using accepted_deltas_are_contiguous [OF example_reach(2), of 10 "[example_delta_op, OpAge 3]"]
  by (simp add: example_loaded_value example_delta_op_def)

text \<open>
  After a gap at boundary \<open>n\<close>, no run of operations makes the book usable again unless it
  applies a snapshot with a larger update id.
\<close>
theorem gap_needs_fresher_snapshot:
  assumes "book_reach s" and "\<not> snapshot_ready s"
    and "required_fresh_snapshot_after_update_id s = Some n" and "\<forall>op\<in>set ops. keeps_gap n op"
  shows "\<not> snapshot_ready (fold (book_step now iso_now) ops s)
    \<and> \<not> ready_to_emit (fold (book_step now iso_now) ops s)"
  using gap_run [OF book_reach_inv [OF assms(1)] assms(2-4)]
  by (auto simp: book_inv_def flags_ok_def)

text \<open>A book with an open gap: a delta skips the ids 13 and 14.\<close>

definition example_gap :: orderbook_state where
  "example_gap = book_step 1 ''t'' (OpDelta 15 16 [] [] 103 None) example_book"

lemma example_gap_reach: "book_reach example_gap"
  unfolding example_gap_def by (rule book_reach.step [OF example_reach(3)])

lemma example_gap_values:
  "\<not> snapshot_ready example_gap" "required_fresh_snapshot_after_update_id example_gap = Some 16"
  "generation example_gap = 1"
  unfolding example_gap_def example_book_value
  by (simp_all add: apply_delta_def Let_def record_message_recv_def)

theorem gap_needs_fresher_snapshot_witness:
  "\<not> ready_to_emit (fold (book_step 1 ''t'')
     [OpSnapshot [str_row ''0.5'' ''1''] [str_row ''0.6'' ''1''] 16 104 None None,
      OpDelta 17 17 [] [] 105 None, OpReady None] example_gap)"
  by (rule gap_needs_fresher_snapshot
      [OF example_gap_reach example_gap_values(1,2), THEN conjunct2]) simp

definition snapshot_parses :: "level_row list \<Rightarrow> level_row list \<Rightarrow> bool" where
  "snapshot_parses br ar \<longleftrightarrow> snd (parse_levels False br) = [] \<and> snd (parse_levels False ar) = []"

lemma snapshot_accepted:
  assumes "g = None \<or> g = Some (generation s)"
    and "\<forall>n. required_fresh_snapshot_after_update_id s = Some n \<longrightarrow> n < i"
    and "snapshot_parses br ar"
  shows "res_accepted (fst (apply_snapshot now iso_now br ar i t w g s))"
    and "snapshot_ready (snd (apply_snapshot now iso_now br ar i t w g s))"
    and "awaiting_first_delta_after_snapshot (snd (apply_snapshot now iso_now br ar i t w g s))"
    and "last_update_id (snd (apply_snapshot now iso_now br ar i t w g s)) = Some i"
    and "snapshot_last_update_id (snd (apply_snapshot now iso_now br ar i t w g s)) = Some i"
    and "bids (snd (apply_snapshot now iso_now br ar i t w g s))
      = dict_of_levels (fst (parse_levels False br))"
    and "asks (snd (apply_snapshot now iso_now br ar i t w g s))
      = dict_of_levels (fst (parse_levels False ar))"
  using assms
  by (cases "parse_levels False br"; cases "parse_levels False ar";
      auto simp: apply_snapshot_def Let_def snapshot_parses_def rebuild_price_indexes_def
        split: option.splits)+

text \<open>
  C6: recovery. Whatever happened before, a snapshot of the current generation beyond the gap
  boundary whose levels parse, followed by a delta that covers the next id, is accepted; the
  book is continuous again and may be emitted as soon as both sides are there and not crossed.
\<close>
theorem snapshot_and_bridge_recover:
  assumes "book_reach s" and "g = None \<or> g = Some (generation s)"
    and "\<forall>n. required_fresh_snapshot_after_update_id s = Some n \<longrightarrow> n < i"
    and "snapshot_parses br ar" and "a \<le> i + 1" and "i + 1 \<le> b" and "delta_parses dbr dar"
    and "s1 = snd (apply_snapshot now iso_now br ar i t w g s)"
    and "s2 = snd (apply_delta now a b dbr dar t2 None s1)"
  shows "snapshot_ready s1 \<and> \<not> ready_to_emit s1 \<and> last_update_id s2 = Some b
    \<and> sequence_continuous s2 \<and> (ready_to_emit s2 \<longleftrightarrow> uncrossed s2)"
proof -
  note sn = snapshot_accepted [OF assms(2,3,4), of now iso_now t w, folded assms(8)]
  have inv: "book_inv s1" unfolding assms(8) using book_reach_inv [OF assms(1)] by (rule inv_intros)
  have "delta_continues a b None s1"
    using sn assms(5,6) by (simp add: delta_continues_def bridges_snapshot_def)
  note e = delta_accepted [OF this assms(7), of now t2, THEN conjunct2, folded assms(9)]
  have so: "sides_ok (delta_state b dbr dar t2 (record_message_recv t2 s1))"
    using inv by (simp add: delta_state_sides book_inv_def)
  note f = refresh_frame [OF so]
  have "uncrossed s2 = uncrossed (delta_state b dbr dar t2 (record_message_recv t2 s1))"
    unfolding e by (rule uncrossed_cong) (simp_all add: f)
  then show ?thesis using sn inv by (auto simp: e f book_inv_def flags_ok_def)
qed

theorem snapshot_and_bridge_recover_witness:
  "last_update_id (snd (apply_delta 1 15 20 [] [] 106 None
     (snd (apply_snapshot 1 ''t'' [] [] 17 105 None (Some 1) example_gap)))) = Some 20"
proof -
  have "Some 1 = None \<or> Some 1 = Some (generation example_gap)"
    and "\<forall>n. required_fresh_snapshot_after_update_id example_gap = Some n \<longrightarrow> n < 17"
    and "snapshot_parses [] []" and "(15::int) \<le> 17 + 1" and "17 + 1 \<le> (20::int)"
    and "delta_parses [] []"
    by (simp_all add: example_gap_values snapshot_parses_def delta_parses_def)
  from snapshot_and_bridge_recover [OF example_gap_reach this refl refl] show ?thesis by blast
qed

lemma copy_levels_ok:
  assumes "side_ok (book, prices)" and "set ps \<subseteq> set prices"
  shows "map fst (copy_levels book ps) = ps" and "set (copy_levels book ps) \<subseteq> set book"
proof -
  note d = side_okD [OF assms(1)]
  have m: "(p, the (map_of book p)) \<in> set book \<and> the (map_of book p) \<noteq> dzero" if "p \<in> set ps" for p
  proof -
    have "p \<in> fst ` set book" using that assms(2) d(4) by blast
    then obtain z where "(p, z) \<in> set book" by force
    moreover from this d(1) have "map_of book p = Some z" by simp
    ultimately show ?thesis using d(5) by force
  qed
  then have "copy_levels book ps = map (\<lambda>p. (p, the (map_of book p))) ps"
    by (auto simp: copy_levels_def filter_id_conv)
  then show "map fst (copy_levels book ps) = ps" and "set (copy_levels book ps) \<subseteq> set book"
    using m by (auto simp: comp_def)
qed

lemma top_bids_ok:
  assumes "sides_ok s" and "0 < n"
  shows "map fst (copy_top_bid_levels n s) = take (nat n) (rev (bid_prices_asc s))"
    and "set (copy_top_bid_levels n s) \<subseteq> set (bids s)"
proof -
  note so = sides_okD(1) [OF assms(1)]
  have d: "drop (nat (max (int (length (bid_prices_asc s)) - n) 0)) (bid_prices_asc s)
      = drop (length (bid_prices_asc s) - nat n) (bid_prices_asc s)"
    using assms(2) by (intro arg_cong [where f = "\<lambda>k. drop k (bid_prices_asc s)"]) auto
  have e: "copy_top_bid_levels n s
      = copy_levels (bids s) (rev (drop (length (bid_prices_asc s) - nat n) (bid_prices_asc s)))"
    using assms(2) by (simp add: copy_top_bid_levels_def d Let_def)
  note c = copy_levels_ok [OF so, of "rev (drop (length (bid_prices_asc s) - nat n) (bid_prices_asc s))"]
  show "map fst (copy_top_bid_levels n s) = take (nat n) (rev (bid_prices_asc s))"
    using c(1) by (simp add: e set_drop_subset take_rev)
  show "set (copy_top_bid_levels n s) \<subseteq> set (bids s)"
    using c(2) by (simp add: e set_drop_subset)
qed

lemma top_asks_ok:
  assumes "sides_ok s" and "0 < n"
  shows "map fst (copy_top_ask_levels n s) = take (nat n) (ask_prices_asc s)"
    and "set (copy_top_ask_levels n s) \<subseteq> set (asks s)"
proof -
  note so = sides_okD(2) [OF assms(1)]
  have "take (nat (min (int (length (ask_prices_asc s))) n)) (ask_prices_asc s)
      = take (nat n) (ask_prices_asc s)"
    by (cases "n \<le> int (length (ask_prices_asc s))") (auto simp: min_def)
  then have e: "copy_top_ask_levels n s = copy_levels (asks s) (take (nat n) (ask_prices_asc s))"
    using assms(2) by (simp add: copy_top_ask_levels_def)
  note c = copy_levels_ok [OF so, of "take (nat n) (ask_prices_asc s)"]
  show "map fst (copy_top_ask_levels n s) = take (nat n) (ask_prices_asc s)"
    and "set (copy_top_ask_levels n s) \<subseteq> set (asks s)"
    using c by (simp_all add: e set_take_subset)
qed

lemma copy_snapshot_top:
  assumes "book_reach s" and "0 < n"
    and "snap = fst (copy_snapshot now iso_now n t w s)"
  shows "map fst (snap_bids_top_n snap) = take (nat n) (rev (sort (map fst (bids s))))
    \<and> map fst (snap_asks_top_n snap) = take (nat n) (sort (map fst (asks s)))
    \<and> set (snap_bids_top_n snap) \<subseteq> set (bids s) \<and> set (snap_asks_top_n snap) \<subseteq> set (asks s)
    \<and> snap_best_bid snap = (if bids s = [] then None else Some (Max (fst ` set (bids s))))
    \<and> snap_best_ask snap = (if asks s = [] then None else Some (Min (fst ` set (asks s))))"
proof -
  have so: "sides_ok s" using book_reach_inv [OF assms(1)] by (simp add: book_inv_def)
  note idx = sorted_index_unique [OF sides_okD(1) [OF so]] sorted_index_unique [OF sides_okD(2) [OF so]]
  note b = top_bids_ok [OF so assms(2)] and a = top_asks_ok [OF so assms(2)]
  have eb: "snap_bids_top_n snap = copy_top_bid_levels n s"
    and ea: "snap_asks_top_n snap = copy_top_ask_levels n s"
    and bb: "snap_best_bid snap = (if copy_top_bid_levels n s \<noteq> []
      then Some (fst (hd (copy_top_bid_levels n s))) else None)"
    and ba: "snap_best_ask snap = (if copy_top_ask_levels n s \<noteq> []
      then Some (fst (hd (copy_top_ask_levels n s))) else None)"
    using so by (simp_all add: assms(3) copy_snapshot_def Let_def)
  have hb: "snap_best_bid snap = fst (best_bid s)"
    using bb b(1) so assms(2) hd_map [of "copy_top_bid_levels n s" fst]
    by (auto simp: best_bid_def hd_rev simp flip: map_is_Nil_conv [of fst])
  have ha: "snap_best_ask snap = fst (best_ask s)"
    using ba a(1) so assms(2) hd_map [of "copy_top_ask_levels n s" fst]
    by (auto simp: best_ask_def simp flip: map_is_Nil_conv [of fst])
  show ?thesis
    using b a hb ha by (simp add: eb ea idx best_bid_ok [OF so] best_ask_ok [OF so])
qed

text \<open>
  C7: the copied snapshot of a reachable book holds real levels of it, the \<open>n\<close> highest bids
  from the top down and the \<open>n\<close> lowest asks from the bottom up; its best prices are the
  greatest bid and the least ask of the whole book.
\<close>
theorem copy_snapshot_is_top_of_book:
  assumes "book_reach s" and "0 < n"
    and "snap = fst (copy_snapshot now iso_now n t w s)"
  shows "map fst (snap_bids_top_n snap) = take (nat n) (rev (sort (map fst (bids s))))
    \<and> map fst (snap_asks_top_n snap) = take (nat n) (sort (map fst (asks s)))
    \<and> set (snap_bids_top_n snap) \<subseteq> set (bids s) \<and> set (snap_asks_top_n snap) \<subseteq> set (asks s)
    \<and> snap_best_bid snap = (if bids s = [] then None else Some (Max (fst ` set (bids s))))
    \<and> snap_best_ask snap = (if asks s = [] then None else Some (Min (fst ` set (asks s))))"
  using assms by (rule copy_snapshot_top)

theorem copy_snapshot_is_top_of_book_witness:
  "map fst (snap_bids_top_n (fst (copy_snapshot 1 ''t'' 1 None None example_book))) = [DFin (3/5)]"
proof -
  have "take (nat 1) (rev (sort (map fst (bids example_book)))) = [DFin (3/5)]"
    by (simp add: example_book_value)
  with copy_snapshot_is_top_of_book [OF example_reach(3), of 1, OF _ refl] show ?thesis by simp
qed

end
