(* ===== verification/ShortDecimal.thy ===== *)
theory ShortDecimal
  imports PyVal
begin

text \<open>
  The decimal that \<open>repr\<close> prints for a float. The rounding error of the two arithmetics is bounded
  here, a decimal near a float is shown to read back as that float, and with it that the search for
  the shortest decimal always succeeds: the decimal of a float has at most 17 digits, so the model
  of \<open>repr\<close> never falls back to the exact value.
\<close>

subsection \<open>Rounding errors\<close>

lemma rhe_error: "\<bar>of_int (rhe x) - x\<bar> \<le> (1 / 2 :: rat)"
proof -
  define f d where "f = \<lfloor>x\<rfloor>" and "d = x - of_int f"
  have d: "0 \<le> d" "d < 1" "x = of_int f + d" using floor_correct [of x] by (auto simp: f_def d_def)
  have "rhe x = (if d < 1 / 2 then f else if d > 1 / 2 then f + 1 else if even f then f else f + 1)"
    by (simp only: rhe_def Let_def f_def [symmetric] d_def [symmetric])
  with d show ?thesis by (auto simp: abs_if)
qed

lemma round_sig_error_pos:
  assumes b: "2 \<le> b" and x: "0 < x" and low: "of_nat b powi (qmin + int p - 1) \<le> x"
  shows "\<bar>round_sig b p qmin x - x\<bar> \<le> x * of_nat b powi (1 - int p) / 2"
proof -
  define u where "u = (of_nat b :: rat) powi quantum_exp b p qmin x"
  have u: "0 < u" using b by (simp add: u_def)
  have "(of_nat b :: rat) powi (qmin + int p - 1) < of_nat b powi (fexp b x + 1)"
    using low fexp_bounds(2) [OF b x] by linarith
  then have "qmin + int p - 1 < fexp b x + 1" by (rule powi_less_cancel) (use b in simp)
  then have q: "quantum_exp b p qmin x = fexp b x + (1 - int p)" using x by (simp add: quantum_exp_def)
  have "u = of_nat b powi fexp b x * of_nat b powi (1 - int p)"
    using b unfolding u_def q by (intro power_int_add) simp
  also have "\<dots> \<le> x * of_nat b powi (1 - int p)"
    using fexp_bounds(1) [OF b x] b by (intro mult_right_mono) auto
  finally have le: "u \<le> x * of_nat b powi (1 - int p)" .
  have "round_sig b p qmin x - x = (of_int (rhe (x / u)) - x / u) * u"
    using u by (simp add: round_sig_pos [OF x] u_def [symmetric] left_diff_distrib)
  then have "\<bar>round_sig b p qmin x - x\<bar> = \<bar>of_int (rhe (x / u)) - x / u\<bar> * u"
    using u by (simp add: abs_mult)
  also have "\<dots> \<le> 1 / 2 * u" using u by (intro mult_right_mono rhe_error) simp
  also have "\<dots> \<le> x * of_nat b powi (1 - int p) / 2" using le by simp
  finally show ?thesis .
qed

lemma round_sig_digits:
  assumes b: "2 \<le> b" and "\<bar>a\<bar> \<le> int b ^ p" and "qmin \<le> i" and "1 \<le> p"
  shows "round_sig b p qmin (of_int a * of_nat b powi i) = of_int a * of_nat b powi i"
proof -
  have main: "round_sig b p qmin (of_int a * of_nat b powi i) = of_int a * of_nat b powi i"
    if a: "0 < a" "a \<le> int b ^ p" for a
  proof -
    define x where "x = (of_int a * of_nat b powi i :: rat)"
    have x: "0 < x" using a b by (simp add: x_def)
    show ?thesis
    proof (cases "quantum_exp b p qmin x \<le> i")
      case True
      define u where "u = (of_nat b :: rat) powi quantum_exp b p qmin x"
      have u: "0 < u" using b by (simp add: u_def)
      have "x / u = of_int (a * int b ^ nat (i - quantum_exp b p qmin x))"
        using on_grid [OF b True] by (simp add: x_def u_def times_divide_eq_right [symmetric] del: times_divide_eq_right)
      then have "of_int (rhe (x / u)) = x / u" by (simp only: rhe_of_int)
      then have "round_sig b p qmin x = x / u * u" by (simp add: round_sig_pos [OF x] u_def)
      then show ?thesis using u by (simp add: x_def)
    next
      case False
      then have f: "i + int p \<le> fexp b x" using assms(3) x by (simp add: quantum_exp_def)
      have "of_int a \<le> (of_int (int b ^ p) :: rat)" using a(2) by (simp only: of_int_le_iff)
      then have "x \<le> of_nat b ^ p * of_nat b powi i" using b unfolding x_def by (intro mult_right_mono) auto
      also have "\<dots> = of_nat b powi (i + int p)" using b by (simp add: power_int_add)
      finally have le: "x \<le> of_nat b powi (i + int p)" .
      moreover have "of_nat b powi (i + int p) \<le> (of_nat b :: rat) powi fexp b x"
        using f b by (intro power_int_increasing) auto
      ultimately have eq: "x = of_nat b powi (i + int p)" using fexp_bounds(1) [OF b x] by simp
      have "fexp b x = i + int p"
        by (rule fexp_unique [OF b]) (use b in \<open>simp_all add: eq power_int_add\<close>)
      then have q: "quantum_exp b p qmin x \<le> i + int p" using assms(3,4) x by (simp add: quantum_exp_def)
      have "x \<le> round_sig b p qmin x" unfolding eq
        by (rule power_le_round_sig [OF b]) (use x q in \<open>simp_all add: eq [symmetric]\<close>)
      moreover have "round_sig b p qmin x \<le> x"
        using round_sig_le_power [OF b x le q] by (simp add: eq)
      ultimately show ?thesis by (simp add: x_def)
    qed
  qed
  consider "0 < a" | "a = 0" | "0 < - a" by linarith
  then show ?thesis
  proof cases
    case 3
    with main [of "- a"] assms(2) show ?thesis by (simp add: round_sig_uminus)
  qed (use main assms(2) in simp_all)
qed

lemma on_own_grid:
  assumes "0 < x" and "round_sig b p qmin x = x" and "2 \<le> b"
  obtains m where "x = of_int m * of_nat b powi quantum_exp b p qmin x"
  using assms(2) unfolding round_sig_pos [OF assms(1)] by metis

subsection \<open>Decimals near a float\<close>

lemma r64_near:
  assumes x: "0 < x" and own: "r64 x = x" and near: "\<bar>y - x\<bar> \<le> x * (91 / 1801439850948198400)"
  shows "r64 y = x"
proof -
  define qx qy where "qx = quantum_exp 2 53 (-1074) x" and "qy = quantum_exp 2 53 (-1074) y"
  define u v where "u = (2 :: rat) powi qx" and "v = (2 :: rat) powi qy"
  have uv: "0 < u" "0 < v" by (simp_all add: u_def v_def)
  from near have "- (y - x) \<le> x * (91 / 1801439850948198400)" by linarith
  then have y: "0 < y" and xy: "x < y * (101 / 100)" using x by (auto simp: field_simps)
  obtain k where k: "x = of_int k * u"
    using on_own_grid [of x 2 53 "-1074"] x own unfolding r64_def u_def qx_def by auto
  have fx: "x < 2 powi (fexp 2 x + 1)" and fy: "2 powi fexp 2 y \<le> y" "y < 2 powi (fexp 2 y + 1)"
    using fexp_bounds [of 2 x] fexp_bounds [of 2 y] x y by simp_all
  have "qy \<le> qx"
  proof (rule ccontr)
    assume "\<not> qy \<le> qx"
    then have lt: "fexp 2 x + 1 \<le> fexp 2 y" "fexp 2 x - 52 \<le> qx"
      using x y by (auto simp: qx_def qy_def quantum_exp_def max_def split: if_splits)
    define B where "B = (2 :: rat) powi (fexp 2 x + 1)"
    have "B \<le> 2 powi fexp 2 y" unfolding B_def using lt(1) by (intro power_int_increasing) simp_all
    then have By: "B \<le> y" using fy(1) by linarith
    have "0 < k" using k x uv by (simp add: zero_less_mult_iff)
    then have "of_int 1 \<le> (of_int k :: rat)" by (simp only: of_int_le_iff)
    then have "1 * u \<le> x" using uv unfolding k by (intro mult_right_mono) simp_all
    then have "(2 :: rat) powi qx < 2 powi (fexp 2 x + 1)" using fx by (simp add: u_def)
    then have "qx < fexp 2 x + 1" by (rule powi_less_cancel) simp
    then have "B / u = of_int (2 ^ nat (fexp 2 x + 1 - qx))"
      using on_grid [of 2 qx "fexp 2 x + 1"] by (simp add: B_def u_def)
    then have g: "B = of_int (2 ^ nat (fexp 2 x + 1 - qx)) * u" using uv by (simp add: field_simps)
    have "x < B" using fx by (simp add: B_def)
    then have "k < 2 ^ nat (fexp 2 x + 1 - qx)" using uv unfolding k g by (simp only: mult_less_cancel_right_pos of_int_less_iff)
    then have "of_int (k + 1) \<le> (of_int (2 ^ nat (fexp 2 x + 1 - qx)) :: rat)" by (simp only: of_int_le_iff)
    then have "of_int (k + 1) * u \<le> B" using uv unfolding g by (intro mult_right_mono) simp_all
    then have gap: "u \<le> y - x" using By k by (simp add: distrib_right)
    have "B = 2 powi (fexp 2 x - 52) * 9007199254740992" unfolding B_def by (simp add: power_int_diff power_int_add)
    also have "\<dots> \<le> u * 9007199254740992" unfolding u_def using lt(2) by (intro mult_right_mono power_int_increasing) simp_all
    finally have "x < u * 9007199254740992" using \<open>x < B\<close> by linarith
    then show False using near gap uv by linarith
  qed
  then have "2 powi qx / 2 powi qy = (of_int (2 ^ nat (qx - qy)) :: rat)" using on_grid [of 2 qy qx] by simp
  then have m: "x / v = of_int (k * 2 ^ nat (qx - qy))"
    unfolding k u_def v_def by (simp only: of_int_mult times_divide_eq_right [symmetric])
  have "2 powi (fexp 2 y + 1) = (2 powi (fexp 2 y - 52) * 9007199254740992 :: rat)" by (simp add: power_int_diff power_int_add)
  also have "\<dots> \<le> v * 9007199254740992"
    unfolding v_def using y by (intro mult_right_mono power_int_increasing) (simp_all add: qy_def quantum_exp_def)
  finally have "x < v * 9007199254740992 * (101 / 100)" using fy(2) xy by linarith
  then have "\<bar>y - x\<bar> < v / 2" using near by linarith
  then have "\<bar>y / v - x / v\<bar> < 1 / 2" using uv by (simp add: diff_divide_distrib [symmetric] field_simps)
  then have "\<bar>of_int (rhe (y / v)) - (of_int (k * 2 ^ nat (qx - qy)) :: rat)\<bar> < 1"
    using rhe_error [of "y / v"] unfolding m by linarith
  then have "rhe (y / v) = k * 2 ^ nat (qx - qy)" by linarith
  then have "r64 y = x / v * v" using m by (simp add: r64_def round_sig_pos [OF y] v_def qy_def)
  then show ?thesis using uv by simp
qed

lemma short_from_later: "short_at (n + k) x \<noteq> None \<Longrightarrow> short_from (Suc k) n x \<noteq> None"
  by (induction k arbitrary: n) (auto split: option.splits)

lemma short_at_17:
  assumes x: "0 < x" and "r64 x = x"
  shows "short_at 17 x \<noteq> None"
proof -
  define u where "u = (10 :: rat) powi (fexp 10 x - 16)"
  have u: "0 < u" by (simp add: u_def)
  have "u * 10000000000000000 = 10 powi fexp 10 x" by (simp add: u_def power_int_diff)
  then have ux: "u * 10000000000000000 \<le> x" using fexp_bounds(1) [of 10 x] x by simp
  have "of_int (rhe (x / u)) * u - x = (of_int (rhe (x / u)) - x / u) * u" using u by (simp add: left_diff_distrib)
  then have "\<bar>of_int (rhe (x / u)) * u - x\<bar> \<le> 1 / 2 * u"
    using rhe_error [of "x / u"] u by (simp add: abs_mult)
  then have "r64 (of_int (rhe (x / u)) * u) = x" by (intro r64_near [OF assms]) (use ux u in linarith)
  moreover have "fexp 10 x - (int 17 - 1) = fexp 10 x - 16" by simp
  ultimately show ?thesis
    by (simp only: short_at_def Let_def u_def [symmetric] if_True simp_thms option.distinct)
qed

lemma short_at_digits:
  assumes x: "0 < x" and "short_at n x = Some (m, e)"
  shows "0 \<le> m \<and> m \<le> 10 ^ n"
proof -
  define u where "u = (10 :: rat) powi (fexp 10 x - (int n - 1))"
  have u: "0 < u" by (simp add: u_def)
  have "x < 10 powi (fexp 10 x + 1)" using fexp_bounds(2) [of 10 x] x by simp
  also have "\<dots> = 10 ^ n * u" by (simp add: u_def power_int_diff power_int_add)
  finally have "x / u < of_int (10 ^ n)" using u by (simp add: pos_divide_less_eq)
  then have f: "0 \<le> \<lfloor>x / u\<rfloor>" "\<lfloor>x / u\<rfloor> < 10 ^ n" using x u by (simp_all add: floor_less_iff)
  have "m \<in> {rhe (x / u), \<lfloor>x / u\<rfloor>, \<lfloor>x / u\<rfloor> + 1}"
    using assms(2) unfolding short_at_def Let_def u_def [symmetric] by (auto split: if_splits)
  moreover have "0 \<le> rhe (x / u)" "rhe (x / u) \<le> \<lfloor>x / u\<rfloor> + 1"
    using f(1) rhe_bounds [of "x / u"] by linarith+
  ultimately show ?thesis using f by auto
qed

lemma short_from_digits:
  "short_from (Suc k) n x = Some (m, e) \<Longrightarrow> 0 < x \<Longrightarrow> 0 \<le> m \<and> m \<le> 10 ^ (n + k)"
proof (induction k arbitrary: n)
  case 0
  then show ?case using short_at_digits [of x n m e] by (simp split: option.splits)
next
  case (Suc k)
  show ?case
  proof (cases "short_at n x")
    case None
    then show ?thesis using Suc.IH [of "Suc n"] Suc.prems by simp
  next
    case (Some r)
    then have "0 \<le> m \<and> m \<le> 10 ^ n" using Suc.prems by (intro short_at_digits [of x n m e]) simp_all
    moreover have "(10 :: int) ^ n \<le> 10 ^ (n + Suc k)" by (intro power_increasing) simp_all
    ultimately show ?thesis by linarith
  qed
qed

lemma repr_value_decimal:
  assumes "r64 x = x"
  obtains a i where "repr_value x = of_int a * 10 powi i" and "\<bar>a\<bar> \<le> 10 ^ 17"
proof (cases "x = 0")
  case True
  then show ?thesis using that [of 0 0] by (simp add: repr_value_def)
next
  case False
  then have x: "0 < \<bar>x\<bar>" by simp
  have "r64 \<bar>x\<bar> = \<bar>x\<bar>" using assms by (simp add: binary64.abs_commute)
  from short_at_17 [OF x this] have "short_from (Suc 16) 1 \<bar>x\<bar> \<noteq> None"
    by (intro short_from_later) simp
  then obtain m e where s: "short_from (Suc 16) 1 \<bar>x\<bar> = Some (m, e)" by auto
  then have "\<bar>m\<bar> \<le> 10 ^ 17" using short_from_digits [OF s x] by simp
  moreover from s have "short_from 17 1 \<bar>x\<bar> = Some (m, e)" by (simp only: numeral_eq_Suc pred_numeral_simps)
  ultimately show ?thesis using False that [of "if 0 < x then m else - m" e]
    by (cases "0 < x") (simp_all add: repr_value_def)
qed

subsection \<open>The range of the decimals\<close>

lemma r64_tiny:
  assumes "0 < y" and "y < 2 powi (- 1076)"
  shows "r64 y = 0"
proof -
  have "(2 :: rat) powi fexp 2 y < 2 powi (- 1076)" using fexp_bounds(1) [of 2 y] assms by simp
  then have "fexp 2 y < - 1076" by (rule powi_less_cancel) simp
  then have q: "quantum_exp 2 53 (- 1074) y = - 1074" using assms(1) by (simp add: quantum_exp_def)
  have "(2 :: rat) powi (- 1076) = 2 powi (- 1074) / 4"
    using power_int_add [of "2 :: rat" "- 1074" "- 2"] by simp
  then have s: "y / 2 powi (- 1074) < 1 / 4" using assms(2) by (simp add: pos_divide_less_eq)
  moreover have "0 < y / 2 powi (- 1074)" using assms(1) by simp
  ultimately have "\<lfloor>y / 2 powi (- 1074)\<rfloor> = 0" by (intro floor_unique) simp_all
  then have "rhe (y / 2 powi (- 1074)) = 0" using s by (simp add: rhe_def Let_def)
  then show ?thesis by (simp add: r64_def round_sig_pos [OF assms(1)] q)
qed

lemma repr_value_range:
  assumes "is_f64 x" and "x \<noteq> 0"
  shows "10 powi (- 400) \<le> \<bar>repr_value x\<bar>" and "\<bar>repr_value x\<bar> \<le> 10 powi 400"
proof -
  have own: "r64 \<bar>repr_value x\<bar> = \<bar>x\<bar>"
    using assms(1) r64_repr_value [of x] by (simp add: binary64.abs_commute is_f64_def)
  show "10 powi (- 400) \<le> \<bar>repr_value x\<bar>"
  proof (rule ccontr)
    assume "\<not> ?thesis"
    moreover have "(10 :: rat) powi (- 400) < 2 powi (- 1076)" by (simp add: power_int_minus)
    ultimately have "\<bar>repr_value x\<bar> < 2 powi (- 1076)" by linarith
    moreover have "\<bar>repr_value x\<bar> \<noteq> 0" using own assms(2) binary64.zero by auto
    ultimately have "r64 \<bar>repr_value x\<bar> = 0" by (intro r64_tiny) simp_all
    then show False using own assms(2) by simp
  qed
  show "\<bar>repr_value x\<bar> \<le> 10 powi 400"
  proof (rule ccontr)
    assume "\<not> ?thesis"
    moreover have "(2 :: rat) powi 1024 \<le> 10 powi 400" by simp
    ultimately have "(2 :: rat) powi 1024 \<le> \<bar>repr_value x\<bar>" by linarith
    moreover have "r64 (2 powi 1024) = 2 powi 1024"
      using round_sig_digits [of 2 1 53 "- 1074" 1024] unfolding r64_def by simp
    ultimately have "f64_limit \<le> \<bar>x\<bar>" using own binary64.above [of "2 powi 1024" "\<bar>repr_value x\<bar>"]
      by (simp add: f64_limit_def)
    then show False using assms(1) by (simp add: is_f64_def)
  qed
qed

end
