(* ===== verification/BookQuality.thy ===== *)
theory BookQuality
  imports BookState ShortDecimal
begin

text \<open>
  \<open>app/marketdata/orderbook_quality.py\<close>: the validator that decides whether a copied snapshot
  of the book may be used as a sample. \<open>quality_validate\<close> is
  \<open>OrderbookQualityValidator.validate\<close>; it returns the state too, because the validation of the
  book may rebuild its indexes, and \<open>Inl InvalidOperation\<close> where the reported prices make the
  decimal arithmetic raise.
\<close>

record quality_validator =
  stale_after_ms :: pyfloat
  queue_lag_warning_ms :: pyfloat
  queue_lag_severe_ms :: pyfloat
  price_tolerance :: pydec
  size_tolerance :: pydec

definition default_validator :: quality_validator where
  "default_validator = \<lparr>stale_after_ms = Fin 1000, queue_lag_warning_ms = Fin 50,
     queue_lag_severe_ms = Fin 250, price_tolerance = DFin (1 / 100),
     size_tolerance = DFin (1 / 1000000000)\<rparr>"

record mismatch_details =
  bid_mismatch :: bool
  ask_mismatch :: bool
  any_mismatch :: bool
  bid_diff :: "pydec option"
  ask_diff :: "pydec option"

record lifecycle_flags =
  flag_snapshot_ready :: bool
  flag_ready_to_emit :: bool
  flag_after_reconnect :: bool
  flag_sequence_continuous :: bool
  flag_market_status_known :: bool
  flag_market_status_mode :: string

record quality_result =
  q_is_valid :: bool
  q_errors :: "string list"
  q_warnings :: "string list"
  q_bid_count :: int
  q_ask_count :: int
  q_best_bid :: "pydec option"
  q_best_ask :: "pydec option"
  q_spread :: "pydec option"
  q_mid :: "pydec option"
  q_book_age_ms :: "pyfloat option"
  q_reported_bid :: "pydec option"
  q_reported_ask :: "pydec option"
  q_strict :: mismatch_details
  q_tolerant :: mismatch_details
  q_lifecycle_flags :: lifecycle_flags

fun reported_decimal :: "pyval \<Rightarrow> py_error + pydec option" where
  \<comment> \<open>\<open>_decimal_or_none\<close> of this module: \<open>None\<close> stays, a text that is no number raises\<close>
  "reported_decimal VNone = Inr None"
| "reported_decimal v = (case dec_of_val v of None \<Rightarrow> Inl InvalidOperation | Some d \<Rightarrow> Inr (Some d))"

definition price_diff :: "pydec option \<Rightarrow> pydec option \<Rightarrow> pydec option" where
  "price_diff computed reported = (case (computed, reported) of
     (Some c, Some r) \<Rightarrow> Some (dabs (dsub c r)) | _ \<Rightarrow> None)"

definition strict_mismatch :: "pydec option \<Rightarrow> bool" where
  "strict_mismatch diff = (case diff of None \<Rightarrow> False | Some d \<Rightarrow> d \<noteq> dzero)"

definition tolerant_mismatch :: "pydec \<Rightarrow> pydec option \<Rightarrow> bool" where
  "tolerant_mismatch tolerance diff = (case diff of None \<Rightarrow> False | Some d \<Rightarrow> tolerance < d)"

definition mismatch_of :: "(pydec option \<Rightarrow> bool) \<Rightarrow> pydec option \<Rightarrow> pydec option \<Rightarrow> mismatch_details"
  where
  "mismatch_of test bd ad = \<lparr>bid_mismatch = test bd, ask_mismatch = test ad,
     any_mismatch = test bd \<or> test ad, bid_diff = bd, ask_diff = ad\<rparr>"

definition mismatch_details_of ::
  "quality_validator \<Rightarrow> orderbook_snapshot \<Rightarrow> pyval \<Rightarrow> pyval
     \<Rightarrow> py_error + (pydec option \<times> pydec option \<times> mismatch_details \<times> mismatch_details)" where
  "mismatch_details_of v snapshot reported_best_bid reported_best_ask =
     (case (reported_decimal reported_best_bid, reported_decimal reported_best_ask) of
        (Inr rb, Inr ra) \<Rightarrow>
          let bd = price_diff (snap_best_bid snapshot) rb;
              ad = price_diff (snap_best_ask snapshot) ra
          in if bd = Some DNaN \<or> ad = Some DNaN then Inl InvalidOperation
             else Inr (rb, ra, mismatch_of strict_mismatch bd ad,
                       mismatch_of (tolerant_mismatch (price_tolerance v)) bd ad)
      | _ \<Rightarrow> Inl InvalidOperation)"

definition snapshot_structure_errors :: "orderbook_snapshot \<Rightarrow> string list" where
  "snapshot_structure_errors snapshot =
     (if snap_bid_count snapshot = 0 \<and> snap_ask_count snapshot = 0 then [''book_empty''] else [])
     @ (if snap_bid_count snapshot = 0 \<or> snap_ask_count snapshot = 0
        then [''one_side_missing''] else [])
     @ (if snap_best_bid snapshot = None then [''best_bid_missing''] else [])
     @ (if snap_best_ask snapshot = None then [''best_ask_missing''] else [])
     @ (case (snap_best_bid snapshot, snap_best_ask snapshot) of
          (Some b, Some a) \<Rightarrow> if b \<ge> a then [''crossed_book''] else [] | _ \<Rightarrow> [])"

definition top_level_errors :: "orderbook_snapshot \<Rightarrow> string list" where
  "top_level_errors snapshot =
     concat (map level_errors (snap_bids_top_n snapshot @ snap_asks_top_n snapshot))"

definition snapshot_age_ms :: "orderbook_snapshot \<Rightarrow> int option \<Rightarrow> pyfloat option" where
  "snapshot_age_ms snapshot now_ns =
     (case (now_ns, snap_last_book_update_monotonic_ns snapshot) of
        (Some n, Some t) \<Rightarrow> Some (ms_of_ns (n - t)) | _ \<Rightarrow> None)"

definition lifecycle_flags_of :: "orderbook_state option \<Rightarrow> lifecycle_flags" where
  "lifecycle_flags_of state =
     \<lparr>flag_snapshot_ready = (case state of None \<Rightarrow> False | Some s \<Rightarrow> snapshot_ready s),
      flag_ready_to_emit = (case state of None \<Rightarrow> False | Some s \<Rightarrow> ready_to_emit s),
      flag_after_reconnect = False,
      flag_sequence_continuous = (case state of None \<Rightarrow> False | Some s \<Rightarrow> sequence_continuous s),
      flag_market_status_known = False,
      flag_market_status_mode = ''not_applicable_for_binance_spot_orderbook''\<rparr>"

definition state_quality_errors :: "orderbook_state \<Rightarrow> string list \<times> orderbook_state" where
  "state_quality_errors s0 = (let (e, s) = validate s0 in
     (e @ (if \<not> snapshot_ready s \<or> \<not> ready_to_emit s then [''sample_before_book_ready''] else [])
        @ (if \<not> sequence_continuous s then [''sequence_gap_or_reset''] else []), s))"

definition exceeds :: "pyfloat option \<Rightarrow> pyfloat \<Rightarrow> bool" where
  "exceeds x limit = (case x of None \<Rightarrow> False | Some y \<Rightarrow> fless limit y)"

definition quality_validate ::
  "quality_validator \<Rightarrow> orderbook_snapshot \<Rightarrow> orderbook_state option \<Rightarrow> int option \<Rightarrow> pyval \<Rightarrow> pyval
     \<Rightarrow> pyfloat option \<Rightarrow> py_error + (quality_result \<times> orderbook_state option)" where
  "quality_validate v snapshot state0 now_ns reported_best_bid reported_best_ask queue_lag_ms =
     (let (e0, state) = (case state0 of
            Some s \<Rightarrow> (let (e, s1) = state_quality_errors s in (e, Some s1))
          | None \<Rightarrow> (snapshot_structure_errors snapshot, None));
          e1 = (if snap_snapshot_version snapshot \<noteq> snap_state_version snapshot
                then [''snapshot_inconsistent''] else []);
          e2 = top_level_errors snapshot;
          age = snapshot_age_ms snapshot now_ns;
          e3 = (if exceeds age (stale_after_ms v) then [''stale_book''] else []);
          e4 = (if exceeds queue_lag_ms (queue_lag_severe_ms v) then [''queue_lag_exceeded''] else []);
          warnings = (if \<not> exceeds queue_lag_ms (queue_lag_severe_ms v)
                         \<and> exceeds queue_lag_ms (queue_lag_warning_ms v)
                      then [''queue_lag_exceeded''] else [])
      in case mismatch_details_of v snapshot reported_best_bid reported_best_ask of
           Inl err \<Rightarrow> Inl err
         | Inr (rb, ra, strict, tolerant) \<Rightarrow>
             let e5 = (if bid_mismatch strict then [''reported_best_bid_mismatch''] else [])
                    @ (if ask_mismatch strict then [''reported_best_ask_mismatch''] else []);
                 errors = sorted_set (e0 @ e1 @ e2 @ e3 @ e4 @ e5)
             in Inr (\<lparr>q_is_valid = (errors = []), q_errors = errors,
                      q_warnings = sorted_set warnings,
                      q_bid_count = snap_bid_count snapshot, q_ask_count = snap_ask_count snapshot,
                      q_best_bid = snap_best_bid snapshot, q_best_ask = snap_best_ask snapshot,
                      q_spread = snap_spread snapshot, q_mid = snap_mid snapshot,
                      q_book_age_ms = age, q_reported_bid = rb, q_reported_ask = ra,
                      q_strict = strict, q_tolerant = tolerant,
                      q_lifecycle_flags = lifecycle_flags_of state\<rparr>, state))"

lemma sorted_set_append_Nil_iff: "sorted_set (xs @ ys) = [] \<longleftrightarrow> xs = [] \<and> ys = []"
  by simp

lemma state_quality_errors_Nil:
  assumes "book_inv s"
  shows "state_quality_errors s = (fst (state_quality_errors s), s)"
    and "fst (state_quality_errors s) = [] \<longleftrightarrow> ready_to_emit s"
proof -
  have so: "sides_ok s" and fl: "flags_ok s" using assms by (simp_all add: book_inv_def)
  obtain e where v: "validate s = (e, s)" "e = [] \<longleftrightarrow> uncrossed s"
    using validate_ok [OF so] by (cases "validate s") auto
  show "state_quality_errors s = (fst (state_quality_errors s), s)"
    by (simp add: state_quality_errors_def v)
  show "fst (state_quality_errors s) = [] \<longleftrightarrow> ready_to_emit s"
    using fl v(2) by (auto simp: state_quality_errors_def v(1) flags_ok_def)
qed

lemma quality_validate_valid:
  assumes "book_reach s"
    and "quality_validate v snap (Some s) now_ns rb ra lag = Inr (r, s')"
  shows "s' = Some s \<and> (q_is_valid r \<longleftrightarrow>
      ready_to_emit s \<and> snap_snapshot_version snap = snap_state_version snap
      \<and> (\<forall>(p, sz)\<in>set (snap_bids_top_n snap @ snap_asks_top_n snap). level_errors (p, sz) = [])
      \<and> \<not> exceeds (snapshot_age_ms snap now_ns) (stale_after_ms v)
      \<and> \<not> exceeds lag (queue_lag_severe_ms v)
      \<and> \<not> bid_mismatch (q_strict r) \<and> \<not> ask_mismatch (q_strict r))"
proof -
  note st = state_quality_errors_Nil [OF book_reach_inv [OF assms(1)]]
  obtain e where e: "state_quality_errors s = (e, s)" "e = [] \<longleftrightarrow> ready_to_emit s"
    using st by metis
  obtain mb ma strict tolerant where m: "mismatch_details_of v snap rb ra = Inr (mb, ma, strict, tolerant)"
    using assms(2) by (auto simp: quality_validate_def Let_def split: prod.splits sum.splits)
  show ?thesis
    using assms(2) e(2)
    by (auto simp: quality_validate_def Let_def e(1) m top_level_errors_def concat_eq_Nil_conv
        split: if_splits)
qed

lemma quality_without_reports:
  assumes "book_reach s"
  shows "\<exists>r. quality_validate v snap (Some s) now_ns VNone VNone lag = Inr (r, Some s)
    \<and> \<not> bid_mismatch (q_strict r) \<and> \<not> ask_mismatch (q_strict r)"
proof -
  obtain e where "state_quality_errors s = (e, s)"
    using state_quality_errors_Nil(1) [OF book_reach_inv [OF assms]] by metis
  then show ?thesis
    by (simp add: quality_validate_def mismatch_details_of_def price_diff_def mismatch_of_def
        strict_mismatch_def Let_def split: option.splits)
qed

subsection \<open>What the checks mean\<close>

text \<open>
  A difference of two decimals is rounded to zero only when it is smaller than anything the decimal
  context can express.
\<close>

definition least_decimal :: rat where
  "least_decimal = 10 powi (- 1000026)"

lemma rhe_zero_iff: "0 \<le> x \<Longrightarrow> rhe x = 0 \<longleftrightarrow> x \<le> 1 / 2"
proof
  assume "rhe x = 0"
  then show "x \<le> 1 / 2" using rhe_error [of x] by simp
next
  assume "0 \<le> x" and "x \<le> 1 / 2"
  then have "\<lfloor>x\<rfloor> = 0" by (intro floor_unique) simp_all
  then show "rhe x = 0" using \<open>x \<le> 1 / 2\<close> by (simp add: rhe_def Let_def)
qed

lemma r28_zero_iff: "r28 x = 0 \<longleftrightarrow> \<bar>x\<bar> \<le> least_decimal / 2"
proof -
  have main: "r28 x = 0 \<longleftrightarrow> x \<le> least_decimal / 2" if x: "0 < x" for x
  proof -
    define q u where "q = quantum_exp 10 28 (- 1000026) x" and "u = (10 :: rat) powi q"
    have u: "0 < u" by (simp add: u_def)
    have "r28 x = of_int (rhe (x / u)) * u" by (simp only: r28_def round_sig_pos [OF x] u_def q_def of_nat_numeral)
    then have zero: "r28 x = 0 \<longleftrightarrow> x / u \<le> 1 / 2" using u x by (simp add: rhe_zero_iff)
    have q: "q = max (- 1000026) (fexp 10 x - 27)" using x by (simp add: q_def quantum_exp_def)
    have f: "10 powi fexp 10 x \<le> x" "x < 10 powi (fexp 10 x + 1)" using fexp_bounds [of 10 x] x by simp_all
    show ?thesis
    proof (cases "q = - 1000026")
      case True
      then have "u = least_decimal" by (simp only: u_def least_decimal_def)
      then show ?thesis using zero u by (simp add: pos_divide_le_eq)
    next
      case False
      then have q27: "q = fexp 10 x - 27" "- 1000026 \<le> q" using q by (simp_all add: max_def split: if_splits)
      have "u \<le> 10 powi fexp 10 x" unfolding u_def using q27 by (intro power_int_increasing) simp_all
      then have "u \<le> x" using f by linarith
      moreover have "least_decimal \<le> u" unfolding least_decimal_def u_def using q27(2) by (intro power_int_increasing) simp_all
      ultimately show ?thesis using zero u by (simp add: pos_divide_le_eq)
    qed
  qed
  have "0 < least_decimal" unfolding least_decimal_def by (intro zero_less_power_int) simp
  then show ?thesis using main [of "\<bar>x\<bar>"] by (cases "x = 0") (simp_all add: decimal28.zero decimal28.abs_commute)
qed

definition reported_as :: "pyval \<Rightarrow> pydec \<Rightarrow> bool" where
  \<comment> \<open>nothing is reported, or a number that no decimal can tell from the price\<close>
  "reported_as v price \<longleftrightarrow> v = VNone
     \<or> (\<exists>x p. dec_of_val v = Some (DFin x) \<and> price = DFin p \<and> \<bar>p - x\<bar> \<le> least_decimal / 2)"

lemma reported_exactly: "dec_of_val v = Some (DFin x) \<Longrightarrow> reported_as v (DFin x)"
proof -
  have "0 \<le> least_decimal" unfolding least_decimal_def by (rule zero_le_power_int) simp
  then show "dec_of_val v = Some (DFin x) \<Longrightarrow> reported_as v (DFin x)" by (auto simp: reported_as_def)
qed

lemma strict_mismatch_reported:
  assumes "reported_decimal v = Inr d" and "price = DFin p" and "price_diff (Some price) d \<noteq> Some DNaN"
  shows "\<not> strict_mismatch (price_diff (Some price) d) \<longleftrightarrow> reported_as v price"
proof (cases "v = VNone")
  case True
  then show ?thesis using assms(1) by (auto simp: strict_mismatch_def price_diff_def reported_as_def)
next
  case False
  obtain r where r: "dec_of_val v = Some r" "d = Some r"
    using assms(1) False by (cases v; cases "dec_of_val v"; force)
  show ?thesis
  proof (cases r)
    case (DFin x)
    have "r28 \<bar>r28 (p - x)\<bar> = 0 \<longleftrightarrow> r28 (p - x) = 0"
      by (metis abs_eq_0 decimal28.abs_commute decimal28.idem)
    then show ?thesis using False r DFin
      by (simp add: strict_mismatch_def price_diff_def reported_as_def assms(2) r28_zero_iff)
  qed (use False r assms(3) in \<open>simp_all add: strict_mismatch_def price_diff_def reported_as_def assms(2)\<close>)
qed

lemma one_second: "fless (Fin 1000) (ms_of_ns d) \<longleftrightarrow> 1000000000 < d"
proof
  assume "fless (Fin 1000) (ms_of_ns d)"
  moreover have "ms_of_ns 1000000000 = Fin 1000" by code_simp
  ultimately show "1000000000 < d" using ms_of_ns_mono [of d 1000000000] fless_asym by fastforce
next
  assume "1000000000 < d"
  then have "fle (ms_of_ns 1000000001) (ms_of_ns d)" by (intro ms_of_ns_mono) simp
  moreover have "fless (Fin 1000) (ms_of_ns 1000000001)" by code_simp
  ultimately show "fless (Fin 1000) (ms_of_ns d)" by (rule fless_fle_trans [rotated])
qed

lemma best_price_number: "side_ok (book, prices) \<Longrightarrow> p \<in> fst ` set book \<Longrightarrow> \<exists>x. p = DFin x"
  using side_okD(5) [of book prices] by (cases p) fastforce+

text \<open>
  C8: a copy of a reachable book is valid for the default validator exactly when the book may be
  emitted, its last update is at most one second old (when both times are known), the update waited at
  most 250 ms in the queue, and a best bid or ask that is reported with it is the highest bid or the
  lowest ask of the book. The book itself is left as it is. Two prices count as the same only when
  they differ by less than the smallest number of the decimal context.
\<close>
theorem quality_valid_iff:
  assumes "book_reach s" and "0 < n" and "snap = fst (copy_snapshot now iso_now n t w s)"
    and "quality_validate default_validator snap (Some s) now_ns rb ra lag = Inr (r, s')"
  shows "s' = Some s \<and> (q_is_valid r \<longleftrightarrow> ready_to_emit s
      \<and> (\<forall>m u. now_ns = Some m \<and> last_book_update_monotonic_ns s = Some u \<longrightarrow> m - u \<le> 1000000000)
      \<and> (\<forall>l. lag = Some l \<longrightarrow> \<not> fless (Fin 250) l)
      \<and> reported_as rb (Max (fst ` set (bids s))) \<and> reported_as ra (Min (fst ` set (asks s))))"
proof -
  have inv: "sides_ok s" "flags_ok s" using book_reach_inv [OF assms(1)] by (simp_all add: book_inv_def)
  note valid = quality_validate_valid [OF assms(1,4)]
  obtain db da strict tolerant where m: "mismatch_details_of default_validator snap rb ra = Inr (db, da, strict, tolerant)"
    "q_strict r = strict"
    using assms(4) by (auto simp: quality_validate_def Let_def split: prod.splits sum.splits)
  have best: "reported_decimal rb = Inr db" "reported_decimal ra = Inr da"
    "price_diff (snap_best_bid snap) db \<noteq> Some DNaN" "price_diff (snap_best_ask snap) da \<noteq> Some DNaN"
    "strict = mismatch_of strict_mismatch (price_diff (snap_best_bid snap) db) (price_diff (snap_best_ask snap) da)"
    using m(1) by (auto simp: mismatch_details_of_def Let_def split: sum.splits if_splits)
  have copy: "snap_snapshot_version snap = snap_state_version snap"
    "snap_last_book_update_monotonic_ns snap = last_book_update_monotonic_ns s"
    using inv(1) by (simp_all add: assms(3) copy_snapshot_def Let_def)
  note top = copy_snapshot_top [OF assms(1-3)]
  have "level_errors l = []" if "l \<in> set (snap_bids_top_n snap @ snap_asks_top_n snap)" for l
    using that top side_okD(5) [OF sides_okD(1) [OF inv(1)]] side_okD(5) [OF sides_okD(2) [OF inv(1)]]
    by (auto intro!: level_errors_in_range)
  then have levels: "\<forall>(p, sz)\<in>set (snap_bids_top_n snap @ snap_asks_top_n snap). level_errors (p, sz) = []"
    by blast
  have age: "exceeds (snapshot_age_ms snap now_ns) (stale_after_ms default_validator) \<longleftrightarrow>
      (\<exists>m u. now_ns = Some m \<and> last_book_update_monotonic_ns s = Some u \<and> 1000000000 < m - u)"
    by (auto simp: exceeds_def snapshot_age_ms_def default_validator_def one_second copy(2) split: option.splits)
  have wait: "exceeds lag (queue_lag_severe_ms default_validator) \<longleftrightarrow> (\<exists>l. lag = Some l \<and> fless (Fin 250) l)"
    by (auto simp: exceeds_def default_validator_def split: option.splits)
  have reports: "\<not> bid_mismatch strict \<longleftrightarrow> reported_as rb (Max (fst ` set (bids s)))"
    "\<not> ask_mismatch strict \<longleftrightarrow> reported_as ra (Min (fst ` set (asks s)))" if "ready_to_emit s"
  proof -
    have ne: "bids s \<noteq> []" "asks s \<noteq> []" using inv(2) that by (simp_all add: flags_ok_def uncrossed_def)
    then have b: "snap_best_bid snap = Some (Max (fst ` set (bids s)))" "snap_best_ask snap = Some (Min (fst ` set (asks s)))"
      using top by simp_all
    obtain x where x: "Max (fst ` set (bids s)) = DFin x"
      using best_price_number [OF sides_okD(1) [OF inv(1)], of "Max (fst ` set (bids s))"] ne by auto
    obtain y where y: "Min (fst ` set (asks s)) = DFin y"
      using best_price_number [OF sides_okD(2) [OF inv(1)], of "Min (fst ` set (asks s))"] ne by auto
    show "\<not> bid_mismatch strict \<longleftrightarrow> reported_as rb (Max (fst ` set (bids s)))"
      using strict_mismatch_reported [OF best(1) x] best(3) by (simp add: best(5) mismatch_of_def b)
    show "\<not> ask_mismatch strict \<longleftrightarrow> reported_as ra (Min (fst ` set (asks s)))"
      using strict_mismatch_reported [OF best(2) y] best(4) by (simp add: best(5) mismatch_of_def b)
  qed
  show ?thesis using valid levels copy(1) age wait reports by (auto simp: m(2) not_less)
qed

theorem quality_valid_iff_witness:
  "\<exists>r s'. quality_validate default_validator (fst (copy_snapshot 1 ''t'' 20 None None example_book))
     (Some example_book) (Some 1000000101) (VStr ''0.6'') (VStr ''0.75'') (Some (Fin 250)) = Inr (r, s') \<and> q_is_valid r"
proof -
  let ?q = "quality_validate default_validator (fst (copy_snapshot 1 ''t'' 20 None None example_book))
     (Some example_book) (Some 1000000101) (VStr ''0.6'') (VStr ''0.75'') (Some (Fin 250))"
  have dec: "dec_of_val (VStr ''0.6'') = Some (DFin (3 / 5))" "dec_of_val (VStr ''0.75'') = Some (DFin (3 / 4))"
    by code_simp+
  have "\<not> isl ?q" unfolding example_book_value by code_simp
  then obtain r s' where q: "?q = Inr (r, s')" by (cases ?q) auto
  have "Max (fst ` set (bids example_book)) = DFin (3 / 5)" "Min (fst ` set (asks example_book)) = DFin (3 / 4)"
    "ready_to_emit example_book" "last_book_update_monotonic_ns example_book = Some 101"
    by (simp_all add: example_book_value max_def less_eq_pydec_def)
  moreover have "reported_as (VStr ''0.6'') (DFin (3 / 5))" "reported_as (VStr ''0.75'') (DFin (3 / 4))"
    by (rule reported_exactly [OF dec(1)], rule reported_exactly [OF dec(2)])
  ultimately have "q_is_valid r" using quality_valid_iff [OF example_reach(3) _ refl q] by simp
  then show ?thesis using q by blast
qed

text \<open>
  Every snapshot copied from a reachable book that may be emitted passes the validator when
  it is neither stale nor held up in the queue and no best prices are reported.
\<close>
theorem ready_copy_is_valid:
  assumes "book_reach s" and "ready_to_emit s" and "0 < n"
    and "snap = fst (copy_snapshot now iso_now n t w s)"
    and "\<not> exceeds (snapshot_age_ms snap now_ns) (stale_after_ms v)"
    and "\<not> exceeds lag (queue_lag_severe_ms v)"
  shows "\<exists>r. quality_validate v snap (Some s) now_ns VNone VNone lag = Inr (r, Some s)
    \<and> q_is_valid r \<and> q_best_bid r \<noteq> None \<and> q_best_ask r \<noteq> None"
proof -
  have inv: "sides_ok s" "flags_ok s" using book_reach_inv [OF assms(1)] by (simp_all add: book_inv_def)
  obtain r where r: "quality_validate v snap (Some s) now_ns VNone VNone lag = Inr (r, Some s)"
    and nm: "\<not> bid_mismatch (q_strict r)" "\<not> ask_mismatch (q_strict r)"
    using quality_without_reports [OF assms(1)] by blast
  note q = state_quality_errors_Nil [OF book_reach_inv [OF assms(1)]]
  have ne: "bids s \<noteq> []" "asks s \<noteq> []" using inv(2) assms(2) by (simp_all add: flags_ok_def uncrossed_def)
  have "map fst (copy_top_bid_levels n s) \<noteq> []" "map fst (copy_top_ask_levels n s) \<noteq> []"
    using ne assms(3) side_empty_iff [OF sides_okD(1) [OF inv(1)]] side_empty_iff [OF sides_okD(2) [OF inv(1)]]
    by (simp_all add: top_bids_ok(1) [OF inv(1) assms(3)] top_asks_ok(1) [OF inv(1) assms(3)])
  then have bids: "copy_top_bid_levels n s \<noteq> []" and asks: "copy_top_ask_levels n s \<noteq> []" by auto
  have snap: "snap_snapshot_version snap = snap_state_version snap"
    "snap_bids_top_n snap = copy_top_bid_levels n s" "snap_asks_top_n snap = copy_top_ask_levels n s"
    "snap_best_bid snap \<noteq> None" "snap_best_ask snap \<noteq> None"
    using inv(1) bids asks by (simp_all add: assms(4) copy_snapshot_def Let_def)
  have "level_errors l = []" if "l \<in> set (snap_bids_top_n snap @ snap_asks_top_n snap)" for l
    using that top_bids_ok(2) [OF inv(1) assms(3)] top_asks_ok(2) [OF inv(1) assms(3)]
      side_okD(5) [OF sides_okD(1) [OF inv(1)]] side_okD(5) [OF sides_okD(2) [OF inv(1)]]
    by (auto simp: snap intro!: level_errors_in_range)
  moreover have "q_best_bid r = snap_best_bid snap" "q_best_ask r = snap_best_ask snap"
    using r by (auto simp: quality_validate_def Let_def split: prod.splits sum.splits)
  ultimately show ?thesis
    using r nm snap assms(2,5,6) quality_validate_valid [OF assms(1) r] by auto
qed

theorem ready_copy_is_valid_witness:
  "\<exists>r. quality_validate default_validator (fst (copy_snapshot 1 ''t'' 20 None None example_book))
     (Some example_book) None VNone VNone None = Inr (r, Some example_book) \<and> q_is_valid r"
proof -
  have "ready_to_emit example_book" by (simp add: example_book_value)
  moreover have "\<not> exceeds (snapshot_age_ms snap None) lim" "\<not> exceeds None lim" for snap lim
    by (simp_all add: exceeds_def snapshot_age_ms_def)
  ultimately show ?thesis
    using ready_copy_is_valid [OF example_reach(3) _ _ refl, of 20 1 "''t''" None None None
        default_validator None] by auto
qed

end
