(* ===== verification/Events.thy ===== *)
theory Events
  imports PyVal
begin

text \<open>
  \<open>app/core/events.py\<close>: the events that pass between the modules, one record per class. The
  records of the market data extend \<open>realtime_event\<close> as the classes extend
  \<open>RealtimeMarketEvent\<close>; prefixes keep the fields of different classes apart. Pydantic's
  validation of types and the default factories (fresh ids, the clock) belong to the caller.
\<close>

datatype order_side = BUY | SELL
datatype order_type = LIMIT | MARKET
datatype time_in_force = IOC | GTC | FOK
datatype execution_status = ACCEPTED | REJECTED | FILLED | PARTIAL | CANCELED
datatype side_label = L_YES | L_NO | L_UP | L_DOWN | L_ABOVE | L_BELOW | L_HIGHER | L_LOWER | L_UNKNOWN
datatype gap_direction = G_UP | G_DOWN
datatype lifecycle_type = TickSizeChange | MarketResolved | NewMarket | Closed | Expired
datatype validation_mode = Strict | Tolerant | Diagnostic
datatype event_source = Binance | Polymarket | Replay

record book_level =
  level_price :: pyfloat
  level_size :: pyfloat

record realtime_event =
  event_id :: string
  ts_ns :: int
  exchange_event_ts :: "int option"
  local_received_ts :: "int option"
  parse_done_ts :: "int option"
  state_updated_ts :: "int option"
  recv_monotonic_ns :: "int option"
  parse_done_monotonic_ns :: "int option"
  state_updated_monotonic_ns :: "int option"
  socket_recv_monotonic_ns :: "int option"
  raw_ws_callback_monotonic_ns :: "int option"
  ws_message_received_monotonic_ns :: "int option"
  message_dispatch_start_monotonic_ns :: "int option"
  parse_start_monotonic_ns :: "int option"
  parse_end_monotonic_ns :: "int option"
  latency_ms :: "pyfloat option"
  exchange_ts_ns :: "int option"
  sequence_no :: "int option"

record market_tick = realtime_event +
  tick_source :: event_source
  tick_symbol :: string
  tick_price :: pyfloat
  tick_qty :: pyfloat

record order_book_top = realtime_event +
  top_source :: event_source
  top_symbol :: string
  top_bid_price :: pyfloat
  top_bid_size :: pyfloat
  top_ask_price :: pyfloat
  top_ask_size :: pyfloat

record depth_update = realtime_event +
  du_source :: event_source
  du_symbol :: string
  du_first_update_id :: int
  du_final_update_id :: int
  du_previous_final_update_id :: "int option"
  du_bids :: "book_level list"
  du_asks :: "book_level list"

datatype book_update_type = BookSnapshot | PriceChange | BestBidAsk

record polymarket_quote = realtime_event +
  pq_market_id :: string
  pq_condition_id :: "string option"
  pq_token_id :: string
  pq_side_label :: side_label
  pq_best_bid :: "pyfloat option"
  pq_best_bid_size :: "pyfloat option"
  pq_best_ask :: "pyfloat option"
  pq_best_ask_size :: "pyfloat option"
  pq_mid_price :: "pyfloat option"
  pq_spread :: "pyfloat option"
  pq_event_ts :: "int option"
  pq_received_ts :: "int option"
  pq_book_complete :: bool
  pq_book_stale :: bool
  pq_book_hash :: "string option"
  pq_validation_error :: "string option"
  pq_book_update_type :: "book_update_type option"
  pq_book_has_snapshot :: bool
  pq_book_structurally_complete :: bool
  pq_reported_best_validation_ok :: bool
  pq_validation_mode :: "validation_mode option"
  pq_validation_tolerance_ticks :: "int option"
  pq_market_mismatch_rate :: "pyfloat option"
  pq_token_mismatch_rate :: "pyfloat option"
  pq_market_quote_complete_rate :: "pyfloat option"
  pq_token_quote_complete_rate :: "pyfloat option"

definition float_or_zero :: "pyfloat option \<Rightarrow> pyfloat" where
  \<comment> \<open>\<open>x or 0.0\<close>\<close>
  "float_or_zero x = (case x of None \<Rightarrow> fzero | Some f \<Rightarrow> if f = fzero then fzero else f)"

definition sum_floats :: "pyfloat list \<Rightarrow> pyfloat" where
  \<comment> \<open>\<open>sum\<close> of at most two floats; for so few the compensated sum is the plain one\<close>
  "sum_floats xs = foldl fadd fzero xs"

definition available_liquidity_at_best :: "polymarket_quote \<Rightarrow> pyfloat option" where
  "available_liquidity_at_best q =
     (let known_sizes = [v. Some v \<leftarrow> [pq_best_bid_size q, pq_best_ask_size q]]
      in if known_sizes \<noteq> [] then Some (sum_floats known_sizes) else None)"

definition bid_probability :: "polymarket_quote \<Rightarrow> pyfloat" where
  "bid_probability q = (case pq_best_bid q of None \<Rightarrow> fzero | Some p \<Rightarrow> p)"

definition ask_probability :: "polymarket_quote \<Rightarrow> pyfloat" where
  "ask_probability q = (case pq_best_ask q of None \<Rightarrow> Fin 1 | Some p \<Rightarrow> p)"

definition quote_bid_size :: "polymarket_quote \<Rightarrow> pyfloat" where
  "quote_bid_size q = float_or_zero (pq_best_bid_size q)"

definition quote_ask_size :: "polymarket_quote \<Rightarrow> pyfloat" where
  "quote_ask_size q = float_or_zero (pq_best_ask_size q)"

record market_lifecycle_event = realtime_event +
  ml_market_id :: string
  ml_token_id :: "string option"
  ml_lifecycle_type :: lifecycle_type
  ml_old_tick_size :: "pyfloat option"
  ml_new_tick_size :: "pyfloat option"
  ml_raw_metadata :: "(string \<times> pyval) list"
  ml_event_ts :: "int option"
  ml_received_ts :: "int option"

record signal_event =
  sig_strategy_id :: string
  sig_market_id :: string
  sig_token_id :: string
  sig_side :: order_side
  sig_fair_probability :: pyfloat
  sig_quoted_probability :: pyfloat
  sig_edge_bps :: pyfloat
  sig_confidence :: pyfloat
  sig_features :: "(string \<times> pyval) list"

record order_intent =
  oi_strategy_id :: string
  oi_market_id :: string
  oi_token_id :: string
  oi_side :: order_side
  oi_order_type :: order_type
  oi_limit_price :: "pyfloat option"
  oi_size :: pyfloat
  oi_time_in_force :: time_in_force
  oi_reason :: string
  oi_client_order_id :: string

record execution_report =
  er_client_order_id :: string
  er_venue_order_id :: "string option"
  er_status :: execution_status
  er_filled_size :: pyfloat
  er_avg_fill_price :: "pyfloat option"
  er_reject_reason :: "string option"
  er_raw :: "(string \<times> pyval) list"

record latency_trace =
  lt_trace_id :: string
  lt_source_event_id :: "string option"
  lt_recv_ns :: int
  lt_normalized_ns :: "int option"
  lt_strategy_ns :: "int option"
  lt_risk_ns :: "int option"
  lt_execution_ns :: "int option"

definition total_ns :: "latency_trace \<Rightarrow> int option" where
  "total_ns t =
     (let endpoints = [lt_execution_ns t, lt_risk_ns t, lt_strategy_ns t, lt_normalized_ns t]
      in case [v. Some v \<leftarrow> endpoints] of [] \<Rightarrow> None | v # _ \<Rightarrow> Some (v - lt_recv_ns t))"

end
