(* ===== verification/QueueMonitor.thy ===== *)
theory QueueMonitor
  imports PyVal
begin

text \<open>
  \<open>app/marketdata/queue_monitor.py\<close>: what the ingestion queue reports about its own pressure.
  The monitor is a record of its limits, counters and bounded samples; each method is a function
  on it. A ratio that is not finite would make \<open>int(capacity * ratio)\<close> raise; it is a
  configuration constant.
\<close>

record 'a queue_envelope =
  env_payload :: 'a
  env_enqueue_monotonic_ns :: int
  env_queue_size_at_enqueue :: int
  env_queue_put_end_monotonic_ns :: "int option"

record queue_monitor =
  capacity :: "int option"
  backpressure_size_ratio :: pyfloat
  severe_lag_ms :: pyfloat
  processing_lag_severe_ms :: pyfloat
  snapshot_blocking_lag_ms :: pyfloat
  sample_capacity :: nat
  queue_current_size :: int
  queue_max_size :: int
  queue_dropped_messages :: int
  queue_backpressure_events :: int
  queue_size_backpressure_events :: int
  queue_lag_backpressure_events :: int
  processing_lag_backpressure_events :: int
  snapshot_blocking_lag_events :: int
  enqueue_to_dequeue_lag_ms_max :: pyfloat
  max_processing_lag_ms :: pyfloat
  lag_samples :: "pyfloat list"
  processing_lag_samples :: "pyfloat list"
  snapshot_request_duration_samples :: "pyfloat list"
  snapshot_apply_duration_samples :: "pyfloat list"
  queue_depth_samples :: "int list"
  queue_put_block_samples :: "pyfloat list"
  queue_put_block_count :: int

definition monitor_init ::
  "int option \<Rightarrow> pyfloat \<Rightarrow> pyfloat \<Rightarrow> pyfloat \<Rightarrow> pyfloat \<Rightarrow> nat \<Rightarrow> queue_monitor" where
  "monitor_init cap ratio severe processing snapshot_lag samples =
     \<lparr>capacity = cap, backpressure_size_ratio = ratio, severe_lag_ms = severe,
      processing_lag_severe_ms = processing, snapshot_blocking_lag_ms = snapshot_lag,
      sample_capacity = samples, queue_current_size = 0, queue_max_size = 0,
      queue_dropped_messages = 0, queue_backpressure_events = 0,
      queue_size_backpressure_events = 0, queue_lag_backpressure_events = 0,
      processing_lag_backpressure_events = 0, snapshot_blocking_lag_events = 0,
      enqueue_to_dequeue_lag_ms_max = fzero, max_processing_lag_ms = fzero, lag_samples = [],
      processing_lag_samples = [], snapshot_request_duration_samples = [],
      snapshot_apply_duration_samples = [], queue_depth_samples = [],
      queue_put_block_samples = [], queue_put_block_count = 0\<rparr>"

definition is_backpressured :: "int \<Rightarrow> queue_monitor \<Rightarrow> bool" where
  "is_backpressured queue_size m = (case capacity m of None \<Rightarrow> False
     | Some c \<Rightarrow> if c \<le> 0 then False
         else (case fint (fmul (float_of_int c) (backpressure_size_ratio m)) of
                 None \<Rightarrow> False | Some limit \<Rightarrow> queue_size \<ge> limit))"

definition refresh_backpressure_total :: "queue_monitor \<Rightarrow> queue_monitor" where
  "refresh_backpressure_total m = m\<lparr>queue_backpressure_events :=
     queue_size_backpressure_events m + queue_lag_backpressure_events m
     + processing_lag_backpressure_events m + snapshot_blocking_lag_events m\<rparr>"

definition record_enqueue ::
  "'a \<Rightarrow> int \<Rightarrow> int \<Rightarrow> queue_monitor \<Rightarrow> 'a queue_envelope \<times> queue_monitor" where
  "record_enqueue payload enqueue_ns queue_size m =
     (let m1 = m\<lparr>queue_current_size := queue_size,
                 queue_max_size := max (queue_max_size m) queue_size,
                 queue_depth_samples :=
                   push_bounded (sample_capacity m) queue_size (queue_depth_samples m)\<rparr>;
          m2 = (if is_backpressured queue_size m1
                then refresh_backpressure_total
                  (m1\<lparr>queue_size_backpressure_events := queue_size_backpressure_events m1 + 1\<rparr>)
                else m1)
      in (\<lparr>env_payload = payload, env_enqueue_monotonic_ns = enqueue_ns,
           env_queue_size_at_enqueue = queue_size, env_queue_put_end_monotonic_ns = None\<rparr>, m2))"

definition record_processing_done :: "int \<Rightarrow> int \<Rightarrow> queue_monitor \<Rightarrow> pyfloat \<times> queue_monitor" where
  "record_processing_done dequeue_ns done_ns m =
     (let lag = ms_of_ns (done_ns - dequeue_ns);
          m1 = m\<lparr>max_processing_lag_ms := pymax (max_processing_lag_ms m) lag,
                 processing_lag_samples :=
                   push_bounded (sample_capacity m) lag (processing_lag_samples m)\<rparr>;
          m2 = (if fless (processing_lag_severe_ms m1) lag
                then refresh_backpressure_total
                  (m1\<lparr>processing_lag_backpressure_events := processing_lag_backpressure_events m1 + 1\<rparr>)
                else m1)
      in (lag, m2))"

definition record_dequeue ::
  "'a queue_envelope \<Rightarrow> int \<Rightarrow> int option \<Rightarrow> int option \<Rightarrow> queue_monitor \<Rightarrow> pyfloat \<times> queue_monitor"
  where
  "record_dequeue envelope dequeue_ns done_ns queue_size m =
     (let m1 = (case queue_size of None \<Rightarrow> m | Some n \<Rightarrow> m\<lparr>queue_current_size := n\<rparr>);
          lag = ms_of_ns (dequeue_ns - env_enqueue_monotonic_ns envelope);
          m2 = m1\<lparr>enqueue_to_dequeue_lag_ms_max := pymax (enqueue_to_dequeue_lag_ms_max m1) lag,
                  lag_samples := push_bounded (sample_capacity m1) lag (lag_samples m1)\<rparr>;
          m3 = (case done_ns of None \<Rightarrow> m2 | Some d \<Rightarrow> snd (record_processing_done dequeue_ns d m2));
          m4 = (if fless (severe_lag_ms m3) lag
                then refresh_backpressure_total
                  (m3\<lparr>queue_lag_backpressure_events := queue_lag_backpressure_events m3 + 1\<rparr>)
                else m3)
      in (lag, m4))"

definition record_snapshot_request_duration :: "pyfloat \<Rightarrow> queue_monitor \<Rightarrow> queue_monitor" where
  "record_snapshot_request_duration d m =
     (let m1 = m\<lparr>snapshot_request_duration_samples :=
                   push_bounded (sample_capacity m) d (snapshot_request_duration_samples m)\<rparr>
      in if fless (snapshot_blocking_lag_ms m1) d
         then refresh_backpressure_total
           (m1\<lparr>snapshot_blocking_lag_events := snapshot_blocking_lag_events m1 + 1\<rparr>)
         else m1)"

definition record_snapshot_apply_duration :: "pyfloat \<Rightarrow> queue_monitor \<Rightarrow> queue_monitor" where
  "record_snapshot_apply_duration d m = m\<lparr>snapshot_apply_duration_samples :=
     push_bounded (sample_capacity m) d (snapshot_apply_duration_samples m)\<rparr>"

definition record_queue_put_duration :: "pyfloat \<Rightarrow> bool \<Rightarrow> queue_monitor \<Rightarrow> queue_monitor" where
  "record_queue_put_duration d blocked m =
     (let m1 = m\<lparr>queue_put_block_samples :=
                   push_bounded (sample_capacity m) (pymax fzero d) (queue_put_block_samples m)\<rparr>
      in if blocked then m1\<lparr>queue_put_block_count := queue_put_block_count m1 + 1\<rparr> else m1)"

definition record_snapshot_blocking_lag :: "int \<Rightarrow> queue_monitor \<Rightarrow> queue_monitor" where
  "record_snapshot_blocking_lag n m = refresh_backpressure_total
     (m\<lparr>snapshot_blocking_lag_events := snapshot_blocking_lag_events m + n\<rparr>)"

definition record_drop :: "int \<Rightarrow> queue_monitor \<Rightarrow> queue_monitor" where
  "record_drop n m = refresh_backpressure_total
     (m\<lparr>queue_dropped_messages := queue_dropped_messages m + n,
        queue_size_backpressure_events := queue_size_backpressure_events m + n\<rparr>)"

text \<open>The percentiles \<open>0.50\<close>, \<open>0.95\<close> and \<open>0.99\<close> are the floats nearest to them.\<close>

definition pct50 :: pyfloat where "pct50 = Fin (1 / 2)"
definition pct95 :: pyfloat where "pct95 = f64 (95 / 100)"
definition pct99 :: pyfloat where "pct99 = f64 (99 / 100)"

record percentiles =
  p50 :: pyfloat
  p95 :: pyfloat
  p99 :: pyfloat

definition percentiles_of :: "pyfloat list \<Rightarrow> percentiles" where
  "percentiles_of samples = (let s = sort samples in
     \<lparr>p50 = percentile s pct50, p95 = percentile s pct95, p99 = percentile s pct99\<rparr>)"

record queue_report =
  rep_queue_current_size :: int
  rep_queue_max_size :: int
  rep_queue_capacity :: "int option"
  rep_queue_dropped_messages :: int
  rep_queue_backpressure_events :: int
  rep_queue_size_backpressure_events :: int
  rep_queue_lag_backpressure_events :: int
  rep_processing_lag_backpressure_events :: int
  rep_snapshot_blocking_lag_events :: int
  rep_queue_depth :: percentiles
  rep_queue_put_block_count :: int
  rep_queue_put_block :: percentiles
  rep_enqueue_to_dequeue_lag_ms_max :: pyfloat
  rep_enqueue_to_dequeue_lag :: percentiles
  rep_max_processing_lag_ms :: pyfloat
  rep_processing_lag :: percentiles
  rep_snapshot_request_duration :: percentiles
  rep_snapshot_apply_duration :: percentiles

definition queue_report_of :: "queue_monitor \<Rightarrow> queue_report \<times> queue_monitor" where
  "queue_report_of m0 = (let m = refresh_backpressure_total m0 in
     (\<lparr>rep_queue_current_size = queue_current_size m, rep_queue_max_size = queue_max_size m,
       rep_queue_capacity = capacity m, rep_queue_dropped_messages = queue_dropped_messages m,
       rep_queue_backpressure_events = queue_backpressure_events m,
       rep_queue_size_backpressure_events = queue_size_backpressure_events m,
       rep_queue_lag_backpressure_events = queue_lag_backpressure_events m,
       rep_processing_lag_backpressure_events = processing_lag_backpressure_events m,
       rep_snapshot_blocking_lag_events = snapshot_blocking_lag_events m,
       rep_queue_depth = percentiles_of (map float_of_int (queue_depth_samples m)),
       rep_queue_put_block_count = queue_put_block_count m,
       rep_queue_put_block = percentiles_of (queue_put_block_samples m),
       rep_enqueue_to_dequeue_lag_ms_max = enqueue_to_dequeue_lag_ms_max m,
       rep_enqueue_to_dequeue_lag = percentiles_of (lag_samples m),
       rep_max_processing_lag_ms = max_processing_lag_ms m,
       rep_processing_lag = percentiles_of (processing_lag_samples m),
       rep_snapshot_request_duration = percentiles_of (snapshot_request_duration_samples m),
       rep_snapshot_apply_duration = percentiles_of (snapshot_apply_duration_samples m)\<rparr>, m))"

subsection \<open>Percentiles are ordered\<close>

lemma pct_order: "fle (Fin (1 / 2)) pct95" "fle pct95 pct99" "fle pct99 (Fin 1)"
proof -
  have half: "f64 (1 / 2) = Fin (1 / 2)" and one: "f64 1 = Fin 1" by code_simp+
  show "fle (Fin (1 / 2)) pct95" using f64_mono [of "1 / 2" "95 / 100"] by (simp add: pct95_def half)
  show "fle pct95 pct99" by (simp add: pct95_def pct99_def f64_mono)
  show "fle pct99 (Fin 1)" using f64_mono [of "99 / 100" 1] by (simp add: pct99_def one)
qed

lemma pct_values:
  obtains a b where "pct50 = Fin (1 / 2)" "pct95 = Fin a" "pct99 = Fin b" "1 / 2 \<le> a" "a \<le> b" "b \<le> 1"
proof -
  have fin: "\<exists>y. x = Fin y" if "fle (Fin a) x" "fle x (Fin b)" for x a b
    using that by (cases x) auto
  obtain a where a: "pct95 = Fin a"
    using fin [OF pct_order(1) fle_trans [OF pct_order(2,3)]] by blast
  obtain b where b: "pct99 = Fin b"
    using fin [OF fle_trans [OF pct_order(1,2)] pct_order(3)] by blast
  show thesis
  proof (rule that)
    show "pct50 = Fin (1 / 2)" by (rule pct50_def)
    show "1 / 2 \<le> a" using pct_order(1) by (simp only: a fle_simps)
    show "a \<le> b" using pct_order(2) by (simp only: a b fle_simps)
    show "b \<le> 1" using pct_order(3) by (simp only: b fle_simps)
  qed (rule a b)+
qed

lemma percentile_index_mono:
  assumes "0 \<le> p" and "p \<le> q" and "q \<le> 1"
  shows "percentile_index n (Fin p) \<le> percentile_index n (Fin q)"
proof (cases "float_of_int (int n - 1)")
  case (Fin x)
  show ?thesis
  proof (cases "0 \<le> x")
    case True
    have "fle (f64 (x * p)) (f64 (x * q))"
      using True assms by (intro f64_mono mult_left_mono)
    moreover have "fle (f64 (x * q)) (f64 x)"
      using True assms by (intro f64_mono mult_left_le) auto
    moreover have "f64 x = Fin x"
      using Fin by (simp add: float_of_int_def f64_Fin_is_f64 f64_exact)
    moreover have "fle fzero (f64 (x * p))"
      using True assms by (intro f64_nonneg) simp
    ultimately obtain u v where "f64 (x * p) = Fin u" "f64 (x * q) = Fin v" "u \<le> v"
      by (cases "f64 (x * p)"; cases "f64 (x * q)") auto
    moreover from this have "rhe u \<le> rhe v" by (simp add: rhe_mono)
    moreover have "min c (max 0 y) \<le> min c (max 0 z)" if "y \<le> z" for c y z :: int
      using that by linarith
    ultimately show ?thesis unfolding percentile_index_def Fin Let_def fmul.simps
      by (simp only: pyfloat.case)
  next
    case False
    have "n = 0"
    proof (rule ccontr)
      assume "n \<noteq> 0"
      then have "fle fzero (float_of_int (int n - 1))" by (simp add: float_of_int_def f64_nonneg)
      with False Fin show False by simp
    qed
    then show ?thesis by (simp add: percentile_index_def Let_def)
  qed
qed (use assms in \<open>auto simp: percentile_index_def Let_def inf_of_sign_def\<close>)

lemma percentile_mono:
  assumes "sorted vs" and "0 \<le> p" and "p \<le> q" and "q \<le> 1"
  shows "percentile vs (Fin p) \<le> percentile vs (Fin q)"
proof (cases "length vs \<le> 1")
  case True
  then show ?thesis by (cases vs) (auto simp: percentile_def)
next
  case False
  then have "0 < length vs" by auto
  note r = percentile_index_range [OF this]
  have "nat (percentile_index (length vs) (Fin p)) \<le> nat (percentile_index (length vs) (Fin q))"
    using percentile_index_mono [OF assms(2-4)] by (rule nat_mono)
  then show ?thesis
    using sorted_nth_mono [OF assms(1)] r [of "Fin q"] False by (auto simp: percentile_def nat_less_iff)
qed

lemma percentiles_ordered:
  "p50 (percentiles_of xs) \<le> p95 (percentiles_of xs) \<and> p95 (percentiles_of xs) \<le> p99 (percentiles_of xs)"
proof -
  obtain a b where v: "pct50 = Fin (1 / 2)" "pct95 = Fin a" "pct99 = Fin b"
    and ord: "1 / 2 \<le> a" "a \<le> b" "b \<le> 1"
    by (rule pct_values)
  have "percentile (sort xs) (Fin (1 / 2)) \<le> percentile (sort xs) (Fin a)"
    using ord by (intro percentile_mono) simp_all
  moreover have "percentile (sort xs) (Fin a) \<le> percentile (sort xs) (Fin b)"
    using ord by (intro percentile_mono) simp_all
  ultimately show ?thesis by (simp add: percentiles_of_def Let_def v)
qed

lemma percentiles_mem:
  "xs \<noteq> [] \<Longrightarrow> p50 (percentiles_of xs) \<in> set xs \<and> p95 (percentiles_of xs) \<in> set xs
     \<and> p99 (percentiles_of xs) \<in> set xs"
  using percentile_mem [of "sort xs"]
  by (simp add: percentiles_of_def Let_def flip: length_greater_0_conv)

subsection \<open>The monitor's invariant\<close>

datatype queue_event =
    Enqueue int int | Dequeue int int "int option" "int option" | ProcessingDone int int
  | SnapshotRequest pyfloat | SnapshotApply pyfloat | QueuePut pyfloat bool
  | SnapshotBlocking int | Drop int | Report

definition plain_envelope :: "int \<Rightarrow> unit queue_envelope" where
  "plain_envelope enqueue_ns = \<lparr>env_payload = (), env_enqueue_monotonic_ns = enqueue_ns,
     env_queue_size_at_enqueue = 0, env_queue_put_end_monotonic_ns = None\<rparr>"

fun queue_step :: "queue_event \<Rightarrow> queue_monitor \<Rightarrow> queue_monitor" where
  "queue_step (Enqueue t n) m = snd (record_enqueue () t n m)"
| "queue_step (Dequeue e t d n) m = snd (record_dequeue (plain_envelope e) t d n m)"
| "queue_step (ProcessingDone t d) m = snd (record_processing_done t d m)"
| "queue_step (SnapshotRequest d) m = record_snapshot_request_duration d m"
| "queue_step (SnapshotApply d) m = record_snapshot_apply_duration d m"
| "queue_step (QueuePut d b) m = record_queue_put_duration d b m"
| "queue_step (SnapshotBlocking n) m = record_snapshot_blocking_lag n m"
| "queue_step (Drop n) m = record_drop n m"
| "queue_step Report m = snd (queue_report_of m)"

definition below_max :: "pyfloat list \<Rightarrow> pyfloat \<Rightarrow> bool" where
  "below_max xs hi \<longleftrightarrow> hi \<noteq> NaN \<and> fle fzero hi \<and> (\<forall>x\<in>set xs. x \<noteq> NaN \<and> fle x hi)"

definition monitor_inv :: "queue_monitor \<Rightarrow> bool" where
  "monitor_inv m \<longleftrightarrow>
     queue_backpressure_events m = queue_size_backpressure_events m
       + queue_lag_backpressure_events m + processing_lag_backpressure_events m
       + snapshot_blocking_lag_events m
   \<and> length (lag_samples m) \<le> sample_capacity m
   \<and> length (processing_lag_samples m) \<le> sample_capacity m
   \<and> length (snapshot_request_duration_samples m) \<le> sample_capacity m
   \<and> length (snapshot_apply_duration_samples m) \<le> sample_capacity m
   \<and> length (queue_depth_samples m) \<le> sample_capacity m
   \<and> length (queue_put_block_samples m) \<le> sample_capacity m
   \<and> below_max (lag_samples m) (enqueue_to_dequeue_lag_ms_max m)
   \<and> below_max (processing_lag_samples m) (max_processing_lag_ms m)
   \<and> (\<forall>n\<in>set (queue_depth_samples m). n \<le> queue_max_size m)"

lemma below_max_push:
  assumes "below_max xs hi" and "x \<noteq> NaN"
  shows "below_max (push_bounded n x xs) (pymax hi x)"
proof -
  have a: "fle y (pymax hi x)" if "y \<noteq> NaN" "fle y hi" for y
    using that assms pymax_ge_left [of hi x] by (auto simp: below_max_def intro: fle_trans)
  have b: "fle x (pymax hi x)"
    using assms by (auto simp: pymax_def below_max_def not_fless_iff)
  show ?thesis using assms a b set_push_bounded [of n x xs] by (auto simp: below_max_def)
qed

lemma monitor_inv_step: "monitor_inv m \<Longrightarrow> monitor_inv (queue_step ev m)"
proof (cases ev)
  case (Enqueue t n)
  assume "monitor_inv m"
  moreover from this have "\<forall>k\<in>set (push_bounded (sample_capacity m) n (queue_depth_samples m)).
      k \<le> max (queue_max_size m) n"
    using set_push_bounded [of "sample_capacity m" n "queue_depth_samples m"]
    by (fastforce simp: monitor_inv_def)
  ultimately show ?thesis
    by (simp add: Enqueue record_enqueue_def Let_def monitor_inv_def refresh_backpressure_total_def
        length_push_bounded)
qed (auto simp: record_dequeue_def record_processing_done_def record_snapshot_request_duration_def
    record_snapshot_apply_duration_def record_queue_put_duration_def record_snapshot_blocking_lag_def
    record_drop_def queue_report_of_def refresh_backpressure_total_def Let_def monitor_inv_def
    length_push_bounded below_max_push split: option.splits)

lemma monitor_inv_init: "monitor_inv (monitor_init c r s p l n)"
  by (simp add: monitor_inv_def monitor_init_def below_max_def)

lemma monitor_inv_run: "monitor_inv (fold queue_step evs (monitor_init c r s p l n))"
  by (rule fold_invariant_set) (auto intro: monitor_inv_init monitor_inv_step)

lemma fle_sandwich: "below_max xs hi \<Longrightarrow> x \<in> insert fzero (set xs) \<Longrightarrow> fle x hi"
  by (auto simp: below_max_def)

lemma percentiles_insert:
  "p99 (percentiles_of xs) \<in> insert fzero (set xs)"
  using percentiles_mem [of xs] by (cases "xs = []") (auto simp: percentiles_of_def percentile_def)

text \<open>
  after any sequence of queue events the report is consistent: the total of back-pressure
  events is the sum of its four kinds, the percentiles of each lag are ordered and not above the
  reported maximum, and no sample list exceeds the sample capacity.
\<close>
theorem queue_report_is_consistent:
  "let m = fold queue_step evs (monitor_init c r s p l n); rep = fst (queue_report_of m)
   in rep_queue_backpressure_events rep = rep_queue_size_backpressure_events rep
        + rep_queue_lag_backpressure_events rep + rep_processing_lag_backpressure_events rep
        + rep_snapshot_blocking_lag_events rep
    \<and> p50 (rep_enqueue_to_dequeue_lag rep) \<le> p95 (rep_enqueue_to_dequeue_lag rep)
    \<and> p95 (rep_enqueue_to_dequeue_lag rep) \<le> p99 (rep_enqueue_to_dequeue_lag rep)
    \<and> fle (p99 (rep_enqueue_to_dequeue_lag rep)) (rep_enqueue_to_dequeue_lag_ms_max rep)
    \<and> fle (p99 (rep_processing_lag rep)) (rep_max_processing_lag_ms rep)
    \<and> length (lag_samples m) \<le> sample_capacity m
    \<and> length (processing_lag_samples m) \<le> sample_capacity m
    \<and> length (queue_depth_samples m) \<le> sample_capacity m"
  using monitor_inv_run [of evs c r s p l n] percentiles_ordered
    fle_sandwich [OF _ percentiles_insert]
  by (simp add: queue_report_of_def refresh_backpressure_total_def Let_def monitor_inv_def)

end
