(* ===== verification/QueuePurge.thy ===== *)
theory QueuePurge
  imports BookState Events QueueMonitor
begin

text \<open>
  The part of \<open>app/marketdata/orderbook_phase41.py\<close> that cleans the queue of depth updates after
  a REST snapshot: updates the snapshot already contains are dropped, and so are updates that
  leave a hole after it, until the one that bridges it; from there everything is kept.
  \<open>purge_step\<close> is one turn of the loop of \<open>purge_queued_depth_updates_after_snapshot\<close>.
\<close>

datatype queue_payload = Depth depth_update | OtherPayload pyval

type_synonym depth_envelope = "queue_payload queue_envelope"

record purge_result =
  pr_symbol :: string
  pr_snapshot_last_update_id :: int
  pr_queue_size_before :: int
  pr_old_events_dropped :: int
  pr_bridge_candidate_found :: bool
  pr_bridge_first_update_id :: "int option"
  pr_bridge_final_update_id :: "int option"
  pr_events_preserved_count :: int
  pr_queue_size_after :: int
  pr_bridge_missing_after_snapshot :: bool
  pr_future_events_dropped :: int

record purge_acc =
  preserved :: "depth_envelope list"
  old_events_dropped :: int
  future_events_dropped :: int
  bridge_candidate_found :: bool
  bridge_first_update_id :: "int option"
  bridge_final_update_id :: "int option"

definition purge_start :: purge_acc where
  "purge_start = \<lparr>preserved = [], old_events_dropped = 0, future_events_dropped = 0,
     bridge_candidate_found = False, bridge_first_update_id = None, bridge_final_update_id = None\<rparr>"

definition update_for :: "string \<Rightarrow> depth_envelope \<Rightarrow> depth_update option" where
  \<comment> \<open>the depth update of the envelope when it is one of the symbol\<close>
  "update_for symb e = (case env_payload e of
     Depth u \<Rightarrow> if upper (du_symbol u) = symb then Some u else None | OtherPayload _ \<Rightarrow> None)"

definition purge_step :: "int \<Rightarrow> string \<Rightarrow> depth_envelope \<Rightarrow> purge_acc \<Rightarrow> purge_acc" where
  "purge_step snapshot_id symb e acc =
     (let target = snapshot_id + 1 in
      case update_for symb e of
        None \<Rightarrow> acc\<lparr>preserved := preserved acc @ [e]\<rparr>
      | Some u \<Rightarrow>
          if du_final_update_id u \<le> snapshot_id then
            acc\<lparr>old_events_dropped := old_events_dropped acc + 1\<rparr>
          else if \<not> bridge_candidate_found acc then
            if du_first_update_id u \<le> target \<and> target \<le> du_final_update_id u then
              acc\<lparr>bridge_candidate_found := True,
                  bridge_first_update_id := Some (du_first_update_id u),
                  bridge_final_update_id := Some (du_final_update_id u),
                  preserved := preserved acc @ [e]\<rparr>
            else acc\<lparr>future_events_dropped := future_events_dropped acc + 1\<rparr>
          else acc\<lparr>preserved := preserved acc @ [e]\<rparr>)"

definition purge_queued_depth_updates_after_snapshot ::
  "depth_envelope list \<Rightarrow> int \<Rightarrow> string \<Rightarrow> purge_result \<times> depth_envelope list" where
  "purge_queued_depth_updates_after_snapshot drained snapshot_id symb0 =
     (let symb = upper symb0;
          acc = fold (purge_step snapshot_id symb) drained purge_start
      in (\<lparr>pr_symbol = symb, pr_snapshot_last_update_id = snapshot_id,
           pr_queue_size_before = int (length drained),
           pr_old_events_dropped = old_events_dropped acc,
           pr_bridge_candidate_found = bridge_candidate_found acc,
           pr_bridge_first_update_id = bridge_first_update_id acc,
           pr_bridge_final_update_id = bridge_final_update_id acc,
           pr_events_preserved_count = int (length (preserved acc)),
           pr_queue_size_after = int (length (preserved acc)),
           pr_bridge_missing_after_snapshot =
             (future_events_dropped acc \<noteq> 0 \<and> \<not> bridge_candidate_found acc),
           pr_future_events_dropped = future_events_dropped acc\<rparr>, preserved acc))"

subsection \<open>What is kept\<close>

definition bridges_id :: "int \<Rightarrow> depth_update \<Rightarrow> bool" where
  "bridges_id n u \<longleftrightarrow> du_first_update_id u \<le> n + 1 \<and> n + 1 \<le> du_final_update_id u"

definition updates_of :: "string \<Rightarrow> depth_envelope list \<Rightarrow> depth_update list" where
  "updates_of symb es = [u. Some u \<leftarrow> map (update_for symb) es]"

definition stale_update :: "int \<Rightarrow> depth_update \<Rightarrow> bool" where
  "stale_update n u \<longleftrightarrow> du_final_update_id u \<le> n"

lemma updates_of_simps [simp]:
  "updates_of symb [] = []"
  "updates_of symb (es @ fs) = updates_of symb es @ updates_of symb fs"
  "updates_of symb [e] = (case update_for symb e of None \<Rightarrow> [] | Some u \<Rightarrow> [u])"
  by (simp_all add: updates_of_def split: option.splits)

definition kept_updates :: "int \<Rightarrow> depth_update list \<Rightarrow> depth_update list" where
  \<comment> \<open>the specification: of the updates the snapshot does not contain, those from the first bridge on\<close>
  "kept_updates n us = dropWhile (\<lambda>u. \<not> bridges_id n u) [u \<leftarrow> us. \<not> stale_update n u]"

lemma kept_updates_Nil [simp]: "kept_updates n [] = []"
  by (simp add: kept_updates_def)

lemma kept_updates_snoc:
  "kept_updates n (us @ [u]) =
     (if stale_update n u then kept_updates n us
      else if kept_updates n us = [] then (if bridges_id n u then [u] else [])
      else kept_updates n us @ [u])"
  by (induction us) (auto simp: kept_updates_def)

lemma kept_updates_hd:
  assumes "kept_updates n us = u # r"
  shows "bridges_id n u" and "\<not> stale_update n u"
proof -
  have d: "dropWhile (\<lambda>u. \<not> bridges_id n u) [u \<leftarrow> us. \<not> stale_update n u] = u # r"
    using assms by (simp add: kept_updates_def)
  show "bridges_id n u" using hd_dropWhile [of "\<lambda>u. \<not> bridges_id n u"] d by (metis list.distinct(1) list.sel(1))
  have "u \<in> set [u \<leftarrow> us. \<not> stale_update n u]" using d by (metis list.set_intros(1) set_dropWhileD)
  then show "\<not> stale_update n u" by simp
qed

definition purge_inv :: "int \<Rightarrow> string \<Rightarrow> depth_envelope list \<Rightarrow> purge_acc \<Rightarrow> bool" where
  \<comment> \<open>after the envelopes \<open>es\<close>\<close>
  "purge_inv n symb es acc \<longleftrightarrow>
     subseq (preserved acc) es
   \<and> [e \<leftarrow> preserved acc. update_for symb e = None] = [e \<leftarrow> es. update_for symb e = None]
   \<and> old_events_dropped acc = int (length [u \<leftarrow> updates_of symb es. stale_update n u])
   \<and> int (length es) = int (length (preserved acc)) + old_events_dropped acc + future_events_dropped acc
   \<and> 0 \<le> future_events_dropped acc
   \<and> updates_of symb (preserved acc) = kept_updates n (updates_of symb es)
   \<and> (bridge_candidate_found acc \<longleftrightarrow> updates_of symb (preserved acc) \<noteq> [])
   \<and> (case updates_of symb (preserved acc) of [] \<Rightarrow> bridge_first_update_id acc = None
        | u # _ \<Rightarrow> bridge_first_update_id acc = Some (du_first_update_id u)
            \<and> bridge_final_update_id acc = Some (du_final_update_id u))"

lemma purge_inv_start: "purge_inv n symb [] purge_start"
  by (simp add: purge_inv_def purge_start_def)

lemma subseq_snoc:
  "subseq xs ys \<Longrightarrow> subseq xs (ys @ [y])" "subseq xs ys \<Longrightarrow> subseq (xs @ [y]) (ys @ [y])"
  using list_emb_append_mono [of "(=)" xs ys "[]" "[y]"] by auto

lemma purge_inv_step:
  assumes "purge_inv n symb es acc"
  shows "purge_inv n symb (es @ [e]) (purge_step n symb e acc)"
proof (cases "update_for symb e")
  case None
  with assms show ?thesis by (auto simp: purge_inv_def purge_step_def subseq_snoc split: list.splits)
next
  case (Some u)
  consider "stale_update n u" | "\<not> stale_update n u" "bridge_candidate_found acc"
    | "\<not> stale_update n u" "\<not> bridge_candidate_found acc" "bridges_id n u"
    | "\<not> stale_update n u" "\<not> bridge_candidate_found acc" "\<not> bridges_id n u" by blast
  then show ?thesis
    by cases (use assms Some in \<open>auto simp: purge_inv_def purge_step_def subseq_snoc kept_updates_snoc
        stale_update_def bridges_id_def Let_def split: list.splits\<close>)
qed

lemma purge_inv_run: "purge_inv n symb es (fold (purge_step n symb) es purge_start)"
  by (induction es rule: rev_induct) (auto intro: purge_inv_start purge_inv_step)

text \<open>
  C9: the purge keeps the order of the queue and everything that is not an update of the symbol;
  of its updates exactly those from the first that bridges the snapshot on, without those the
  snapshot contains; and every envelope is counted once, as preserved, old or future.
\<close>
theorem purge_keeps_from_bridge:
  "let (r, kept) = purge_queued_depth_updates_after_snapshot es n symb
   in subseq kept es
    \<and> [e \<leftarrow> kept. update_for (upper symb) e = None] = [e \<leftarrow> es. update_for (upper symb) e = None]
    \<and> updates_of (upper symb) kept = kept_updates n (updates_of (upper symb) es)
    \<and> pr_old_events_dropped r = int (length [u \<leftarrow> updates_of (upper symb) es. stale_update n u])
    \<and> pr_queue_size_before r
      = pr_events_preserved_count r + pr_old_events_dropped r + pr_future_events_dropped r
    \<and> (pr_bridge_candidate_found r \<longleftrightarrow> updates_of (upper symb) kept \<noteq> [])"
  using purge_inv_run [of n "upper symb" es]
  by (simp add: purge_queued_depth_updates_after_snapshot_def Let_def purge_inv_def)

definition level_rows :: "book_level list \<Rightarrow> level_row list" where
  \<comment> \<open>the price and size pairs the processor passes to the book\<close>
  "level_rows ls = map (\<lambda>l. RowVal (VList [VFloat (level_price l), VFloat (level_size l)])) ls"

text \<open>
  C10: the snapshot and the purged queue fit together. When a reachable book accepts a snapshot,
  the first update the purge keeps is accepted by the book, if its levels parse and its
  previous id, when given, is the snapshot's.
\<close>
theorem purged_queue_continues_snapshot:
  assumes "book_reach s" and "g = None \<or> g = Some (generation s)"
    and "\<forall>b. required_fresh_snapshot_after_update_id s = Some b \<longrightarrow> b < n"
    and "snapshot_parses br ar"
    and "s1 = snd (apply_snapshot now iso_now br ar n t w g s)"
    and "updates_of (upper symb) (snd (purge_queued_depth_updates_after_snapshot es n symb)) = u # rest"
    and "du_previous_final_update_id u \<in> {None, Some n}"
    and "delta_parses (level_rows (du_bids u)) (level_rows (du_asks u))"
  shows "res_accepted (fst (apply_delta now (du_first_update_id u) (du_final_update_id u)
    (level_rows (du_bids u)) (level_rows (du_asks u)) t2 (du_previous_final_update_id u) s1))"
proof -
  note sn = snapshot_accepted [OF assms(2-4), of now iso_now t w, folded assms(5)]
  have "kept_updates n (updates_of (upper symb) es) = u # rest"
    using assms(6) purge_inv_run [of n "upper symb" es]
    by (simp add: purge_queued_depth_updates_after_snapshot_def Let_def purge_inv_def)
  then have "bridges_id n u" by (rule kept_updates_hd)
  then show ?thesis
    unfolding delta_accepted_iff using sn assms(7,8)
    by (auto simp: delta_continues_def bridges_id_def bridges_snapshot_def)
qed

definition example_update :: depth_update where
  "example_update = \<lparr>event_id = ''e'', ts_ns = 1, exchange_event_ts = None, local_received_ts = None,
     parse_done_ts = None, state_updated_ts = None, recv_monotonic_ns = None,
     parse_done_monotonic_ns = None, state_updated_monotonic_ns = None,
     socket_recv_monotonic_ns = None, raw_ws_callback_monotonic_ns = None,
     ws_message_received_monotonic_ns = None, message_dispatch_start_monotonic_ns = None,
     parse_start_monotonic_ns = None, parse_end_monotonic_ns = None, latency_ms = None,
     exchange_ts_ns = None, sequence_no = None, du_source = Binance, du_symbol = ''btcusdt'',
     du_first_update_id = 15, du_final_update_id = 20, du_previous_final_update_id = None,
     du_bids = [], du_asks = []\<rparr>"

definition example_envelope :: depth_envelope where
  "example_envelope = \<lparr>env_payload = Depth example_update, env_enqueue_monotonic_ns = 1,
     env_queue_size_at_enqueue = 1, env_queue_put_end_monotonic_ns = None\<rparr>"

theorem purged_queue_continues_snapshot_witness:
  "res_accepted (fst (apply_delta 1 15 20 [] [] 107 None
     (snd (apply_snapshot 1 ''t'' [] [] 17 105 None (Some 1) example_gap))))"
proof -
  have "snapshot_parses [] []" "delta_parses (level_rows (du_bids example_update)) (level_rows (du_asks example_update))"
    by (simp_all add: snapshot_parses_def delta_parses_def example_update_def level_rows_def)
  moreover have "updates_of (upper ''btcusdt'')
      (snd (purge_queued_depth_updates_after_snapshot [example_envelope] 17 ''btcusdt'')) = example_update # []"
    by (simp add: purge_queued_depth_updates_after_snapshot_def purge_step_def purge_start_def Let_def
        update_for_def example_envelope_def) (simp add: example_update_def)
  moreover have "Some 1 = None \<or> Some 1 = Some (generation example_gap)"
    "\<forall>b. required_fresh_snapshot_after_update_id example_gap = Some b \<longrightarrow> b < 17"
    "du_previous_final_update_id example_update \<in> {None, Some 17}"
    by (simp_all add: example_gap_values example_update_def)
  ultimately show ?thesis
    using purged_queue_continues_snapshot [OF example_gap_reach, of "Some 1" 17 "[]" "[]" _ 1 "''t''"
        105 None "''btcusdt''" "[example_envelope]" example_update "[]" 107]
    by (simp add: example_update_def level_rows_def)
qed

end
