(* ===== verification/CleanSample.thy ===== *)
theory CleanSample
  imports BookQuality QueuePurge "HOL-Library.Multiset"
begin

text \<open>
  The samples of \<open>app/marketdata/orderbook_phase41.py\<close>: the clean sample built from a copied
  snapshot and its quality, the schema check every sample passes before it is written, the
  latency profile of a sample and the classification of an update for the trace. A sample is a
  record whose decimals are kept as numbers: the code writes them with \<open>format(d, "f")\<close>, whose
  text reads back as the same decimal, and the check reads them back.
\<close>

record clean_sample =
  cs_schema_version :: string
  cs_symbol :: string
  cs_source :: string
  cs_generation_id :: int
  cs_local_recv_monotonic_ns :: int
  cs_local_recv_wall_ts :: "string option"
  cs_exchange_event_ts :: "int option"
  cs_state_version :: int
  cs_snapshot_version :: int
  cs_last_update_id :: "int option"
  cs_depth_n :: int
  cs_bids :: book_side
  cs_asks :: book_side
  cs_best_bid :: "pydec option"
  cs_best_ask :: "pydec option"
  cs_spread :: "pydec option"
  cs_mid :: "pydec option"
  cs_bid_count :: int
  cs_ask_count :: int
  cs_book_age_ms :: "pyfloat option"
  cs_quality_is_valid :: bool
  cs_quality_errors :: "string list"
  cs_quality_warnings :: "string list"
  cs_lifecycle :: lifecycle_flags

definition clean_sample_from_snapshot ::
  "orderbook_snapshot \<Rightarrow> quality_result \<Rightarrow> int \<Rightarrow> int option \<Rightarrow> clean_sample" where
  "clean_sample_from_snapshot snapshot quality depth_n exchange_ts =
     \<lparr>cs_schema_version = ''phase_4_1_clean_orderbook_v1'', cs_symbol = snap_symbol snapshot,
      cs_source = ''binance_ws'', cs_generation_id = snap_generation_id snapshot,
      cs_local_recv_monotonic_ns = snap_local_recv_monotonic_ns snapshot,
      cs_local_recv_wall_ts = snap_local_recv_wall_ts snapshot,
      cs_exchange_event_ts = exchange_ts, cs_state_version = snap_state_version snapshot,
      cs_snapshot_version = snap_snapshot_version snapshot,
      cs_last_update_id = snap_last_update_id snapshot, cs_depth_n = depth_n,
      cs_bids = snap_bids_top_n snapshot, cs_asks = snap_asks_top_n snapshot,
      cs_best_bid = snap_best_bid snapshot, cs_best_ask = snap_best_ask snapshot,
      cs_spread = snap_spread snapshot, cs_mid = snap_mid snapshot,
      cs_bid_count = snap_bid_count snapshot, cs_ask_count = snap_ask_count snapshot,
      cs_book_age_ms = q_book_age_ms quality, cs_quality_is_valid = q_is_valid quality,
      cs_quality_errors = q_errors quality, cs_quality_warnings = q_warnings quality,
      cs_lifecycle = q_lifecycle_flags quality\<rparr>"

subsection \<open>The schema check\<close>

definition sample_decimal :: "pydec option \<Rightarrow> string \<Rightarrow> pydec option \<times> string list" where
  \<comment> \<open>\<open>_sample_decimal\<close> of a value that is a decimal or absent\<close>
  "sample_decimal value field = (case value of
     None \<Rightarrow> (None, [])
   | Some d \<Rightarrow> if dec_finite d then (Some d, [])
       else (None, [if field = ''price'' then ''non_finite_price''
                    else if field = ''size'' then ''non_finite_size''
                    else field @ ''_non_finite'']))"

fun validate_sample_levels :: "book_side \<Rightarrow> pydec list \<times> string list" where
  "validate_sample_levels [] = ([], [])"
| "validate_sample_levels ((p, sz) # rows) =
     (let (price, v1) = sample_decimal (Some p) ''price'';
          (amount, v2) = sample_decimal (Some sz) ''size'';
          (prices, v) = validate_sample_levels rows
      in if price = None \<or> amount = None then (prices, v1 @ v2 @ v)
         else (p # prices,
               v1 @ v2 @ (if p \<le> dzero then [''negative_price''] else [])
               @ (if sz < dzero then [''negative_size''] else [])
               @ (if sz = dzero then [''zero_size_level''] else []) @ v))"

definition null_violation :: "string \<Rightarrow> 'a option \<Rightarrow> string list" where
  "null_violation field v = (if v = None then [field @ ''_null''] else [])"

definition age_decimal :: "pyfloat option \<Rightarrow> pydec option" where
  \<comment> \<open>\<open>Decimal(str(age))\<close>\<close>
  "age_decimal age = (case age of None \<Rightarrow> None | Some x \<Rightarrow> dec_of_val (VFloat x))"

definition validate_clean_sample_schema :: "clean_sample \<Rightarrow> string list" where
  "validate_clean_sample_schema sample =
     (let v0 = null_violation ''last_update_id'' (cs_last_update_id sample)
             @ null_violation ''best_bid'' (cs_best_bid sample)
             @ null_violation ''best_ask'' (cs_best_ask sample)
             @ null_violation ''book_age_ms'' (cs_book_age_ms sample);
          v1 = (if or_str (cs_local_recv_wall_ts sample) None = None
                then [''wall_timestamp_missing''] else []);
          (bid_prices, v2) = (if cs_bids sample = [] then ([], [''bids_empty''])
                              else validate_sample_levels (cs_bids sample));
          (ask_prices, v3) = (if cs_asks sample = [] then ([], [''asks_empty''])
                              else validate_sample_levels (cs_asks sample));
          v4 = (if bid_prices \<noteq> rev (sort bid_prices) then [''bids_unsorted''] else []);
          v5 = (if ask_prices \<noteq> sort ask_prices then [''asks_unsorted''] else []);
          (bid, v6) = sample_decimal (cs_best_bid sample) ''best_bid'';
          (ask, v7) = sample_decimal (cs_best_ask sample) ''best_ask'';
          v8 = (case (bid, ask) of (Some b, Some a) \<Rightarrow> if b \<ge> a then [''crossed_book''] else []
                | _ \<Rightarrow> []);
          (age, v9) = sample_decimal (age_decimal (cs_book_age_ms sample)) ''book_age_ms'';
          v10 = (case age of Some a \<Rightarrow> if a < dzero then [''book_age_ms_negative''] else [] | None \<Rightarrow> []);
          v11 = (if cs_quality_errors sample \<noteq> [] then [''quality_errors_present''] else []);
          v12 = (if flag_snapshot_ready (cs_lifecycle sample) then [] else [''snapshot_not_ready'']);
          v13 = (if flag_ready_to_emit (cs_lifecycle sample) then [] else [''not_ready_to_emit'']);
          v14 = (if flag_sequence_continuous (cs_lifecycle sample) then []
                 else [''sequence_not_continuous''])
      in sorted_set (v0 @ v1 @ v2 @ v3 @ v4 @ v5 @ v6 @ v7 @ v8 @ v9 @ v10 @ v11 @ v12 @ v13 @ v14))"

subsection \<open>Traces\<close>

definition sequence_trace_classification :: "orderbook_apply_result \<Rightarrow> bool \<Rightarrow> string" where
  "sequence_trace_classification result awaiting_bridge_before =
     (if res_accepted result then
        (if awaiting_bridge_before then ''bridge_accepted'' else ''expected_accepted'')
      else if res_status result = ''duplicate_update'' then
        (case (res_previous_last_update_id result, res_final_update_id result) of
           (Some p, Some f) \<Rightarrow> if f < p then ''old_dropped'' else ''duplicate_skipped''
         | _ \<Rightarrow> ''duplicate_skipped'')
      else if res_status result \<in> {''sequence_gap_or_reset'', ''sequence_bridge_failed'',
            ''previous_final_update_id_mismatch''} then ''gap_detected''
      else if res_status result = ''invalid_delta_levels'' then ''invalid_fail_closed''
      else res_status result)"

subsection \<open>The latency profile\<close>

record sample_timing =
  tm_book_apply_start :: int
  tm_book_apply_end :: int
  tm_sample_build_start :: int
  tm_sample_build_end :: int
  tm_sample_emit :: int
  tm_queue_put :: "int option"
  tm_queue_put_end :: "int option"
  tm_queue_dequeue :: "int option"
  tm_queue_wait_ms :: "pyfloat option"
  tm_queue_size_at_enqueue :: "int option"
  tm_writer_enqueue :: "int option"
  tm_file_write_start :: "int option"
  tm_file_write_end :: "int option"
  tm_batch_writer_enabled :: bool

definition duration_ms :: "int option \<Rightarrow> int option \<Rightarrow> pyfloat option" where
  "duration_ms start_ns end_ns = (case (start_ns, end_ns) of
     (Some a, Some b) \<Rightarrow> Some (ms_of_ns (b - a)) | _ \<Rightarrow> None)"

definition earliest_available_stage :: "(string \<times> int option) list \<Rightarrow> string list \<Rightarrow> string option" where
  "earliest_available_stage stages order =
     (case [f \<leftarrow> order. case map_of stages f of Some (Some _) \<Rightarrow> True | _ \<Rightarrow> False] of
        [] \<Rightarrow> None | f # _ \<Rightarrow> Some f)"

record latency_profile =
  lp_schema_version :: string
  lp_symbol :: string
  lp_generation_id :: int
  lp_state_version :: int
  lp_snapshot_version :: int
  lp_last_update_id :: "int option"
  lp_first_update_id :: int
  lp_final_update_id :: int
  lp_exchange_event_ts :: "int option"
  lp_local_recv_monotonic_ns :: int
  lp_stages :: "(string \<times> int option) list"
  lp_metrics :: "(string \<times> pyfloat option) list"
  lp_stage_not_available :: "string list"
  lp_earliest_available_receive_stage :: "string option"
  lp_queue_size_at_enqueue :: "int option"
  lp_queue_dequeue_monotonic_ns :: "int option"
  lp_batch_writer_enabled :: bool

definition latency_stages :: "depth_update \<Rightarrow> sample_timing \<Rightarrow> (string \<times> int option) list" where
  "latency_stages ev tm =
     (let ws_received = or_int (ws_message_received_monotonic_ns ev) (recv_monotonic_ns ev);
          parse_start = parse_start_monotonic_ns ev;
          parse_end = or_int (parse_end_monotonic_ns ev) (parse_done_monotonic_ns ev);
          raw_callback = or_int (raw_ws_callback_monotonic_ns ev) ws_received;
          dispatch_start = or_int (message_dispatch_start_monotonic_ns ev) parse_start
      in [(''socket_recv_monotonic_ns'', socket_recv_monotonic_ns ev),
          (''raw_ws_callback_monotonic_ns'', raw_callback),
          (''ws_message_received_monotonic_ns'', ws_received),
          (''message_dispatch_start_monotonic_ns'', dispatch_start),
          (''parse_start_monotonic_ns'', parse_start), (''parse_end_monotonic_ns'', parse_end),
          (''book_apply_start_monotonic_ns'', Some (tm_book_apply_start tm)),
          (''book_apply_end_monotonic_ns'', Some (tm_book_apply_end tm)),
          (''sample_build_start_monotonic_ns'', Some (tm_sample_build_start tm)),
          (''sample_build_end_monotonic_ns'', Some (tm_sample_build_end tm)),
          (''sample_emit_monotonic_ns'', Some (tm_sample_emit tm)),
          (''queue_put_monotonic_ns'', tm_queue_put tm),
          (''input_queue_put_start_monotonic_ns'', tm_queue_put tm),
          (''input_queue_put_end_monotonic_ns'', tm_queue_put_end tm),
          (''writer_enqueue_monotonic_ns'', tm_writer_enqueue tm),
          (''file_write_start_monotonic_ns'', tm_file_write_start tm),
          (''file_write_end_monotonic_ns'', tm_file_write_end tm)])"

definition latency_metrics :: "depth_update \<Rightarrow> sample_timing \<Rightarrow> (string \<times> pyfloat option) list" where
  "latency_metrics ev tm =
     (let ws_received = or_int (ws_message_received_monotonic_ns ev) (recv_monotonic_ns ev);
          parse_start = parse_start_monotonic_ns ev;
          parse_end = or_int (parse_end_monotonic_ns ev) (parse_done_monotonic_ns ev);
          raw_callback = or_int (raw_ws_callback_monotonic_ns ev) ws_received;
          dispatch_start = or_int (message_dispatch_start_monotonic_ns ev) parse_start;
          earliest_receive = or_int (socket_recv_monotonic_ns ev) (or_int raw_callback ws_received);
          hot_path_end = (if tm_batch_writer_enabled tm then Some (tm_sample_emit tm)
                          else tm_file_write_end tm);
          apply_start = Some (tm_book_apply_start tm); apply_end = Some (tm_book_apply_end tm);
          emit = Some (tm_sample_emit tm)
      in [(''socket_to_parse_start_ms'', duration_ms (socket_recv_monotonic_ns ev) parse_start),
          (''callback_to_dispatch_ms'', duration_ms raw_callback dispatch_start),
          (''dispatch_to_parse_start_ms'', duration_ms dispatch_start parse_start),
          (''parse_duration_ms'', duration_ms parse_start parse_end),
          (''parse_to_apply_start_ms'', duration_ms parse_end apply_start),
          (''book_apply_duration_ms'', duration_ms apply_start apply_end),
          (''apply_to_sample_emit_ms'', duration_ms apply_end emit),
          (''apply_to_sample_build_ms'', duration_ms apply_end (Some (tm_sample_build_start tm))),
          (''sample_build_duration_ms'',
            duration_ms (Some (tm_sample_build_start tm)) (Some (tm_sample_build_end tm))),
          (''input_queue_put_to_sample_emit_ms'', duration_ms (tm_queue_put tm) emit),
          (''input_queue_put_duration_ms'', duration_ms (tm_queue_put tm) (tm_queue_put_end tm)),
          (''queue_wait_ms'', if tm_queue_wait_ms tm \<noteq> None then tm_queue_wait_ms tm
                            else duration_ms (tm_queue_put tm) (tm_queue_dequeue tm)),
          (''writer_wait_ms'', duration_ms (tm_writer_enqueue tm) (tm_file_write_start tm)),
          (''file_write_duration_ms'', duration_ms (tm_file_write_start tm) (tm_file_write_end tm)),
          (''end_to_end_local_hot_path_ms'', duration_ms earliest_receive hot_path_end)])"

definition build_latency_profile_sample ::
  "depth_update \<Rightarrow> orderbook_snapshot \<Rightarrow> sample_timing \<Rightarrow> latency_profile" where
  "build_latency_profile_sample ev snapshot tm =
     (let stages = latency_stages ev tm in
      \<lparr>lp_schema_version = (if tm_batch_writer_enabled tm
                            then ''phase_4_2h_latency_profile_sample_v1''
                            else ''phase_4_2fg_latency_profile_sample_v1''),
       lp_symbol = snap_symbol snapshot, lp_generation_id = snap_generation_id snapshot,
       lp_state_version = snap_state_version snapshot,
       lp_snapshot_version = snap_snapshot_version snapshot,
       lp_last_update_id = snap_last_update_id snapshot,
       lp_first_update_id = du_first_update_id ev, lp_final_update_id = du_final_update_id ev,
       lp_exchange_event_ts = exchange_event_ts ev,
       lp_local_recv_monotonic_ns = snap_local_recv_monotonic_ns snapshot,
       lp_stages = stages, lp_metrics = latency_metrics ev tm,
       lp_stage_not_available = [name. (name, None) \<leftarrow> stages],
       lp_earliest_available_receive_stage = earliest_available_stage stages
         [''socket_recv_monotonic_ns'', ''raw_ws_callback_monotonic_ns'',
          ''ws_message_received_monotonic_ns'', ''message_dispatch_start_monotonic_ns''],
       lp_queue_size_at_enqueue = tm_queue_size_at_enqueue tm,
       lp_queue_dequeue_monotonic_ns = tm_queue_dequeue tm,
       lp_batch_writer_enabled = tm_batch_writer_enabled tm\<rparr>)"

subsection \<open>A valid snapshot makes a valid sample\<close>

lemma short_at_nonneg: "0 \<le> x \<Longrightarrow> short_at n x = Some (m, e) \<Longrightarrow> 0 \<le> m"
proof -
  assume x: "0 \<le> x" and s: "short_at n x = Some (m, e)"
  have u: "0 \<le> x / 10 powi k" for k using x by simp
  have "0 \<le> \<lfloor>x / 10 powi k\<rfloor>" "0 \<le> rhe (x / 10 powi k)" for k
    using u [of k] rhe_mono [OF u [of k]] rhe_of_int [of 0] by simp_all
  then show "0 \<le> m" using s
    by (auto simp: short_at_def Let_def split: if_splits intro: add_nonneg_nonneg)
qed

lemma short_from_nonneg: "0 \<le> x \<Longrightarrow> short_from k n x = Some (m, e) \<Longrightarrow> 0 \<le> m"
  by (induction k n x rule: short_from.induct) (auto intro: short_at_nonneg split: option.splits)

lemma repr_value_nonneg: "0 \<le> x \<Longrightarrow> 0 \<le> repr_value x"
  by (auto simp: repr_value_def sgn_if split: option.splits intro!: mult_nonneg_nonneg
      dest: short_from_nonneg [rotated])

lemma sample_levels_ok:
  "\<forall>l\<in>set ls. level_in_range False l \<Longrightarrow> validate_sample_levels ls = (map fst ls, [])"
  by (induction ls rule: validate_sample_levels.induct)
    (auto simp: sample_decimal_def not_le not_less)

lemma sort_rev_sorted: "sorted ys \<Longrightarrow> sort (rev ys) = (ys :: 'a :: linorder list)"
  by (intro properties_for_sort) simp_all

lemma age_decimal_ok:
  assumes "0 \<le> k" and "\<not> fless (Fin limit) (ms_of_ns k)"
  shows "\<exists>a. age_decimal (Some (ms_of_ns k)) = Some (DFin a) \<and> 0 \<le> a"
proof -
  have "fle fzero (ms_of_ns k)" using assms(1) by (rule ms_of_ns_nonneg)
  with assms(2) obtain a where "ms_of_ns k = Fin a" "0 \<le> a" by (cases "ms_of_ns k") auto
  then show ?thesis by (simp add: age_decimal_def repr_value_nonneg)
qed

lemma top_bid_prices_sorted:
  assumes "sides_ok s" and "0 < n"
  shows "rev (sort (map fst (copy_top_bid_levels n s))) = map fst (copy_top_bid_levels n s)"
    and "sort (map fst (copy_top_ask_levels n s)) = map fst (copy_top_ask_levels n s)"
proof -
  have b: "sorted (bid_prices_asc s)" and a: "sorted (ask_prices_asc s)"
    using side_okD(2) sides_okD [OF assms(1)] by blast+
  show "rev (sort (map fst (copy_top_bid_levels n s))) = map fst (copy_top_bid_levels n s)"
    using b by (simp add: top_bids_ok(1) [OF assms] take_rev sort_rev_sorted sorted_wrt_drop)
  show "sort (map fst (copy_top_ask_levels n s)) = map fst (copy_top_ask_levels n s)"
    using a by (simp add: top_asks_ok(1) [OF assms] sorted_sort_id sorted_wrt_take)
qed

lemma copied_sides:
  assumes "book_inv s" and "ready_to_emit s" and "0 < n"
  shows "copy_top_bid_levels n s \<noteq> []" and "copy_top_ask_levels n s \<noteq> []"
    and "\<forall>l\<in>set (copy_top_bid_levels n s). level_in_range False l"
    and "\<forall>l\<in>set (copy_top_ask_levels n s). level_in_range False l"
    and "fst (hd (copy_top_bid_levels n s)) < fst (hd (copy_top_ask_levels n s))"
proof -
  have inv: "sides_ok s" "flags_ok s" using assms(1) by (simp_all add: book_inv_def)
  have u: "uncrossed s" using inv(2) assms(2) by (simp add: flags_ok_def)
  have "map fst (copy_top_bid_levels n s) \<noteq> []" "map fst (copy_top_ask_levels n s) \<noteq> []"
    using u assms(3) side_empty_iff [OF sides_okD(1) [OF inv(1)]] side_empty_iff [OF sides_okD(2) [OF inv(1)]]
    by (simp_all add: uncrossed_def top_bids_ok(1) [OF inv(1) assms(3)] top_asks_ok(1) [OF inv(1) assms(3)])
  then show ne: "copy_top_bid_levels n s \<noteq> []" "copy_top_ask_levels n s \<noteq> []" by auto
  have sub: "set (copy_top_bid_levels n s) \<subseteq> set (bids s)" "set (copy_top_ask_levels n s) \<subseteq> set (asks s)"
    using top_bids_ok(2) [OF inv(1) assms(3)] top_asks_ok(2) [OF inv(1) assms(3)] .
  then show "\<forall>l\<in>set (copy_top_bid_levels n s). level_in_range False l"
    "\<forall>l\<in>set (copy_top_ask_levels n s). level_in_range False l"
    using side_okD(5) [OF sides_okD(1) [OF inv(1)]] side_okD(5) [OF sides_okD(2) [OF inv(1)]] by blast+
  have "hd (copy_top_bid_levels n s) \<in> set (bids s)" "hd (copy_top_ask_levels n s) \<in> set (asks s)"
    using ne sub by auto
  then show "fst (hd (copy_top_bid_levels n s)) < fst (hd (copy_top_ask_levels n s))"
    using u by (auto simp: uncrossed_def)
qed

lemma valid_quality_passes_schema:
  assumes "book_reach s" and "0 < n" and "snap = fst (copy_snapshot now iso_now n t w s)"
    and "quality_validate v snap (Some s) (Some check_ns) VNone VNone lag = Inr (r, s')"
    and "q_is_valid r" and "stale_after_ms v = Fin limit"
    and "last_book_update_monotonic_ns s = Some upd" and "upd \<le> check_ns"
    and "or_str (snap_local_recv_wall_ts snap) None \<noteq> None"
  shows "validate_clean_sample_schema (clean_sample_from_snapshot snap r n exch) = []"
proof -
  have inv: "book_inv s" by (rule book_reach_inv [OF assms(1)])
  have so: "sides_ok s" and fl: "flags_ok s" using inv by (simp_all add: book_inv_def)
  note q = quality_validate_valid [OF assms(1,4)]
  then have ready: "ready_to_emit s" and fresh: "\<not> exceeds (snapshot_age_ms snap (Some check_ns)) (Fin limit)"
    using assms(5,6) by simp_all
  note c = copied_sides [OF inv ready assms(2)]
  have snap: "snap_bids_top_n snap = copy_top_bid_levels n s" "snap_asks_top_n snap = copy_top_ask_levels n s"
    "snap_best_bid snap = Some (fst (hd (copy_top_bid_levels n s)))"
    "snap_best_ask snap = Some (fst (hd (copy_top_ask_levels n s)))"
    "snap_last_update_id snap = last_update_id s"
    "snap_last_book_update_monotonic_ns snap = Some upd"
    using so c(1,2) assms(7) by (simp_all add: assms(3) copy_snapshot_def Let_def)
  have r: "q_book_age_ms r = Some (ms_of_ns (check_ns - upd))" "q_errors r = []"
    "flag_snapshot_ready (q_lifecycle_flags r)" "flag_ready_to_emit (q_lifecycle_flags r)"
    "flag_sequence_continuous (q_lifecycle_flags r)"
    using assms(4,5) q ready fl state_quality_errors_Nil(1) [OF inv]
    by (auto simp: quality_validate_def Let_def snapshot_age_ms_def snap lifecycle_flags_of_def
        flags_ok_def split: prod.splits sum.splits)
  obtain a where a: "age_decimal (Some (ms_of_ns (check_ns - upd))) = Some (DFin a)" "0 \<le> a"
    using age_decimal_ok [of "check_ns - upd" limit] fresh assms(8)
    by (auto simp: exceeds_def snapshot_age_ms_def snap)
  have best: "dec_finite (fst (hd (copy_top_bid_levels n s)))" "dec_finite (fst (hd (copy_top_ask_levels n s)))"
    using c(1-4) by (cases "copy_top_bid_levels n s"; cases "copy_top_ask_levels n s"; auto)+
  have id: "last_update_id s \<noteq> None" using fl ready by (auto simp: flags_ok_def)
  show ?thesis
    using c(1,2,5) best id a assms(9)
    by (simp add: validate_clean_sample_schema_def clean_sample_from_snapshot_def Let_def snap r
        sample_levels_ok [OF c(3)] sample_levels_ok [OF c(4)] top_bid_prices_sorted [OF so assms(2)]
        null_violation_def sample_decimal_def sorted_set_def)
qed

end
