(* ===== verification/WsLifecycle.thy ===== *)
theory WsLifecycle
  imports BookState
begin

text \<open>
  \<open>app/marketdata/ws_lifecycle.py\<close>: the counters of a WebSocket connection's life. The tracker
  is a record of a \<open>Counter\<close>, the longest not-ready time and the warnings already counted per
  symbol; \<open>lifecycle_step\<close> is one call of any of its methods.
\<close>

definition lifecycle_counter_fields :: "string list" where
  "lifecycle_counter_fields =
     [''connect_count'', ''disconnect_count'', ''reconnect_count'', ''resubscribe_count'',
      ''snapshot_loaded_count'', ''snapshot_refresh_count'', ''snapshot_failed_count'',
      ''delta_before_snapshot_count'', ''messages_before_ready_count'', ''state_reset_count'',
      ''sequence_gap_count'', ''duplicate_messages_detected'', ''duplicate_messages_skipped'',
      ''queue_backpressure_events'', ''queue_dropped_messages'',
      ''sample_blocked_by_ready_guard'', ''ready_to_emit_false_warning_count'']"

record ws_tracker =
  counters :: "string counter"
  tracker_false_duration_ms_max :: pyfloat
  symbol_ready_false_warnings :: "(string \<times> int) list"

definition tracker_init :: ws_tracker where
  \<comment> \<open>\<open>__post_init__\<close> adds 0 to every field\<close>
  "tracker_init = \<lparr>counters = fold (\<lambda>f. ctr_add f 0) lifecycle_counter_fields [],
     tracker_false_duration_ms_max = fzero, symbol_ready_false_warnings = []\<rparr>"

definition count_event :: "string \<Rightarrow> int \<Rightarrow> ws_tracker \<Rightarrow> ws_tracker" where
  "count_event field n t = t\<lparr>counters := ctr_add field n (counters t)\<rparr>"

definition on_connect :: "ws_tracker \<Rightarrow> ws_tracker" where
  "on_connect = count_event ''connect_count'' 1"

definition on_disconnect :: "ws_tracker \<Rightarrow> ws_tracker" where
  "on_disconnect = count_event ''disconnect_count'' 1"

definition reset_state ::
  "int \<Rightarrow> string \<Rightarrow> ws_tracker \<times> orderbook_state option \<Rightarrow> ws_tracker \<times> orderbook_state option" where
  "reset_state now reason ts = (case ts of
     (t, None) \<Rightarrow> (t, None)
   | (t, Some s) \<Rightarrow> (count_event ''state_reset_count'' 1 t,
                   Some (mark_not_ready now reason None True None s)))"

definition on_reconnect ::
  "int \<Rightarrow> orderbook_state option \<Rightarrow> ws_tracker \<Rightarrow> ws_tracker \<times> orderbook_state option" where
  "on_reconnect now state t = reset_state now ''reconnect'' (count_event ''reconnect_count'' 1 t, state)"

definition on_resubscribe ::
  "int \<Rightarrow> orderbook_state option \<Rightarrow> ws_tracker \<Rightarrow> ws_tracker \<times> orderbook_state option" where
  "on_resubscribe now state t =
     reset_state now ''resubscribe'' (count_event ''resubscribe_count'' 1 t, state)"

definition on_snapshot_loaded :: "ws_tracker \<Rightarrow> ws_tracker" where
  "on_snapshot_loaded = count_event ''snapshot_loaded_count'' 1"

definition on_snapshot_refresh :: "ws_tracker \<Rightarrow> ws_tracker" where
  "on_snapshot_refresh = count_event ''snapshot_refresh_count'' 1"

definition on_snapshot_failed :: "ws_tracker \<Rightarrow> ws_tracker" where
  "on_snapshot_failed = count_event ''snapshot_failed_count'' 1"

definition on_delta_before_snapshot :: "ws_tracker \<Rightarrow> ws_tracker" where
  "on_delta_before_snapshot t =
     count_event ''messages_before_ready_count'' 1 (count_event ''delta_before_snapshot_count'' 1 t)"

definition on_message_before_ready :: "ws_tracker \<Rightarrow> ws_tracker" where
  "on_message_before_ready = count_event ''messages_before_ready_count'' 1"

definition on_sequence_gap :: "ws_tracker \<Rightarrow> ws_tracker" where
  "on_sequence_gap t = count_event ''state_reset_count'' 1 (count_event ''sequence_gap_count'' 1 t)"

definition on_duplicate :: "ws_tracker \<Rightarrow> ws_tracker" where
  "on_duplicate t = count_event ''duplicate_messages_skipped'' 1
     (count_event ''duplicate_messages_detected'' 1 t)"

definition on_queue_backpressure :: "int \<Rightarrow> ws_tracker \<Rightarrow> ws_tracker" where
  "on_queue_backpressure n = count_event ''queue_backpressure_events'' n"

definition on_queue_dropped :: "int \<Rightarrow> ws_tracker \<Rightarrow> ws_tracker" where
  "on_queue_dropped n = count_event ''queue_dropped_messages'' n"

definition on_sample_blocked_by_ready_guard :: "ws_tracker \<Rightarrow> ws_tracker" where
  "on_sample_blocked_by_ready_guard = count_event ''sample_blocked_by_ready_guard'' 1"

definition observe_ready_false :: "orderbook_state \<Rightarrow> ws_tracker \<Rightarrow> ws_tracker" where
  "observe_ready_false s t0 =
     (let t = (if fless (tracker_false_duration_ms_max t0) (ready_to_emit_false_duration_ms_max s)
               then t0\<lparr>tracker_false_duration_ms_max := ready_to_emit_false_duration_ms_max s\<rparr>
               else t0);
          previous = ctr (symbol_ready_false_warnings t) (symbol s)
      in if ready_to_emit_false_warning_count s > previous then
           let delta = ready_to_emit_false_warning_count s - previous;
               t1 = count_event ''ready_to_emit_false_warning_count'' delta t
           in t1\<lparr>symbol_ready_false_warnings :=
                AList.update (symbol s) (ready_to_emit_false_warning_count s)
                  (symbol_ready_false_warnings t1)\<rparr>
         else t)"

record lifecycle_report =
  rep_counters :: "(string \<times> int) list"
  rep_false_duration_ms_max :: pyfloat
  rep_market_status_known :: bool
  rep_market_status_mode :: string
  rep_market_paused_count :: int
  rep_market_unpaused_count :: int
  rep_market_resolved_count :: int

definition tracker_report :: "ws_tracker \<Rightarrow> lifecycle_report" where
  "tracker_report t =
     \<lparr>rep_counters = map (\<lambda>f. (f, ctr (counters t) f)) lifecycle_counter_fields,
      rep_false_duration_ms_max = tracker_false_duration_ms_max t,
      rep_market_status_known = False,
      rep_market_status_mode = ''not_applicable_for_binance_spot_orderbook'',
      rep_market_paused_count = 0, rep_market_unpaused_count = 0, rep_market_resolved_count = 0\<rparr>"

datatype lifecycle_event =
    Connect | Disconnect | Reconnect "orderbook_state option" | Resubscribe "orderbook_state option"
  | SnapshotLoaded | SnapshotRefresh | SnapshotFailed | DeltaBeforeSnapshot | MessageBeforeReady
  | SequenceGap | Duplicate | Backpressure int | Dropped int | BlockedSample
  | ObserveReadyFalse orderbook_state

fun lifecycle_step :: "int \<Rightarrow> lifecycle_event \<Rightarrow> ws_tracker \<Rightarrow> ws_tracker" where
  "lifecycle_step now Connect t = on_connect t"
| "lifecycle_step now Disconnect t = on_disconnect t"
| "lifecycle_step now (Reconnect s) t = fst (on_reconnect now s t)"
| "lifecycle_step now (Resubscribe s) t = fst (on_resubscribe now s t)"
| "lifecycle_step now SnapshotLoaded t = on_snapshot_loaded t"
| "lifecycle_step now SnapshotRefresh t = on_snapshot_refresh t"
| "lifecycle_step now SnapshotFailed t = on_snapshot_failed t"
| "lifecycle_step now DeltaBeforeSnapshot t = on_delta_before_snapshot t"
| "lifecycle_step now MessageBeforeReady t = on_message_before_ready t"
| "lifecycle_step now SequenceGap t = on_sequence_gap t"
| "lifecycle_step now Duplicate t = on_duplicate t"
| "lifecycle_step now (Backpressure n) t = on_queue_backpressure n t"
| "lifecycle_step now (Dropped n) t = on_queue_dropped n t"
| "lifecycle_step now BlockedSample t = on_sample_blocked_by_ready_guard t"
| "lifecycle_step now (ObserveReadyFalse s) t = observe_ready_false s t"

subsection \<open>The counters agree with each other\<close>

definition warning_total :: "(string \<times> int) list \<Rightarrow> int" where
  "warning_total d = sum_list (map snd d)"

lemma warning_total_update:
  "distinct (map fst d) \<Longrightarrow> warning_total (AList.update k v d) = warning_total d + (v - ctr d k)"
proof (induction d)
  case (Cons e d)
  obtain a b where e: "e = (a, b)" by (cases e)
  have "map_of d a = None" using Cons.prems by (simp add: e map_of_eq_None_iff)
  then show ?case using Cons by (auto simp: e warning_total_def ctr_def)
qed (simp add: warning_total_def ctr_def)

definition tracker_inv :: "ws_tracker \<Rightarrow> bool" where
  "tracker_inv t \<longleftrightarrow>
     ctr (counters t) ''duplicate_messages_skipped'' = ctr (counters t) ''duplicate_messages_detected''
   \<and> ctr (counters t) ''delta_before_snapshot_count'' \<le> ctr (counters t) ''messages_before_ready_count''
   \<and> ctr (counters t) ''sequence_gap_count'' \<le> ctr (counters t) ''state_reset_count''
   \<and> ctr (counters t) ''state_reset_count'' \<le> ctr (counters t) ''sequence_gap_count''
       + ctr (counters t) ''reconnect_count'' + ctr (counters t) ''resubscribe_count''
   \<and> distinct (map fst (symbol_ready_false_warnings t))
   \<and> ctr (counters t) ''ready_to_emit_false_warning_count''
       = warning_total (symbol_ready_false_warnings t)"

lemma ctr_count_event [simp]:
  "ctr (counters (count_event f n t)) g = (if g = f then ctr (counters t) f + n else ctr (counters t) g)"
  "symbol_ready_false_warnings (count_event f n t) = symbol_ready_false_warnings t"
  by (simp_all add: count_event_def)

lemmas lifecycle_ops = on_connect_def on_disconnect_def on_reconnect_def on_resubscribe_def
  on_snapshot_loaded_def on_snapshot_refresh_def on_snapshot_failed_def
  on_delta_before_snapshot_def on_message_before_ready_def on_sequence_gap_def on_duplicate_def
  on_queue_backpressure_def on_queue_dropped_def on_sample_blocked_by_ready_guard_def
  reset_state_def

lemma observe_counters [simp]:
  "ctr (counters (observe_ready_false s t)) f =
     ctr (counters t) f + (if f = ''ready_to_emit_false_warning_count''
       then max 0 (ready_to_emit_false_warning_count s - ctr (symbol_ready_false_warnings t) (symbol s))
       else 0)"
  by (auto simp: observe_ready_false_def Let_def)

lemma observe_warnings:
  "symbol_ready_false_warnings (observe_ready_false s t) =
     (if ready_to_emit_false_warning_count s > ctr (symbol_ready_false_warnings t) (symbol s)
      then AList.update (symbol s) (ready_to_emit_false_warning_count s) (symbol_ready_false_warnings t)
      else symbol_ready_false_warnings t)"
  by (auto simp: observe_ready_false_def Let_def)

lemma tracker_inv_step: "tracker_inv t \<Longrightarrow> tracker_inv (lifecycle_step now ev t)"
  by (cases ev)
    (auto simp: tracker_inv_def lifecycle_ops warning_total_update observe_warnings
      split: option.splits)

lemma tracker_inv_init: "tracker_inv tracker_init"
proof -
  have "ctr (fold (\<lambda>f. ctr_add f 0) fs c) g = ctr c g" for fs c and g :: string
    by (induction fs arbitrary: c) auto
  then show ?thesis by (simp add: tracker_inv_def tracker_init_def warning_total_def)
qed

lemma tracker_inv_run: "tracker_inv (fold (lifecycle_step now) evs tracker_init)"
  by (rule fold_invariant_set) (auto intro: tracker_inv_init tracker_inv_step)

text \<open>
  After any sequence of lifecycle events the reported counters agree: every detected
  duplicate is skipped, state resets are the gaps plus at most one per reconnect and
  resubscribe, and the not-ready warnings are the sum of those recorded per symbol.
\<close>
theorem lifecycle_counters_agree:
  "let t = fold (lifecycle_step now) evs tracker_init; reported = ctr (rep_counters (tracker_report t))
   in reported ''duplicate_messages_skipped'' = reported ''duplicate_messages_detected''
    \<and> reported ''sequence_gap_count'' \<le> reported ''state_reset_count''
    \<and> reported ''state_reset_count'' \<le> reported ''sequence_gap_count''
        + reported ''reconnect_count'' + reported ''resubscribe_count''
    \<and> reported ''ready_to_emit_false_warning_count''
      = sum_list (map snd (symbol_ready_false_warnings t))"
proof -
  have rep: "ctr (rep_counters (tracker_report t)) f = ctr (counters t) f"
    if "f \<in> set lifecycle_counter_fields" for f t
    using that by (simp add: tracker_report_def ctr_def [of "map _ _"] map_of_map_restrict)
  show ?thesis
    using tracker_inv_run [of now evs]
    by (simp add: rep lifecycle_counter_fields_def tracker_inv_def warning_total_def)
qed

end
