(* ===== verification/Phase41.thy ===== *)
theory Phase41
  imports CleanSample WsLifecycle
begin

text \<open>
  The processor of \<open>app/marketdata/orderbook_phase41.py\<close>: it owns the books of its symbols, the
  lifecycle tracker and the queue monitor, applies depth updates and snapshots, watches for stale
  feeds and decides which samples are emitted.

  What the object reads from outside during a call is an argument: the monotonic clock and the
  wall clock at each reading (\<open>update_inputs\<close>) and the writer's timestamps. The recorder's rows
  are records, and a \<open>case_log\<close> holds the bounded \<open>recent\<close> rows and all that were handed to the
  writer. Stale periods are Python dictionaries shared between
  the open periods, the history and the recorder, so they live in a store and are named by
  number.
\<close>

subsection \<open>The recorder\<close>

record 'a case_log =
  recent :: "'a list"
  submitted :: "'a list"

definition empty_log :: "'a case_log" where
  "empty_log = \<lparr>recent = [], submitted = []\<rparr>"

definition log_case :: "nat \<Rightarrow> 'a \<Rightarrow> 'a case_log \<Rightarrow> 'a case_log" where
  "log_case max_cases x l = \<lparr>recent = push_bounded max_cases x (recent l), submitted = submitted l @ [x]\<rparr>"

record stale_period =
  sp_symbol :: string
  sp_stale_threshold_ms :: pyfloat
  sp_started_monotonic_ns :: int
  sp_ended_monotonic_ns :: "int option"
  sp_max_age_ms :: pyfloat
  sp_snapshot_ready :: bool
  sp_ready_to_emit :: bool
  sp_last_book_update_monotonic_ns :: "int option"
  sp_last_message_recv_monotonic_ns :: "int option"
  sp_last_ws_message_recv_monotonic_ns :: "int option"
  sp_generation_id :: int

record apply_stale_warning =
  aw_symbol :: string
  aw_stale_threshold_ms :: pyfloat
  aw_observed_monotonic_ns :: int
  aw_apply_age_ms :: pyfloat
  aw_max_apply_age_ms :: pyfloat
  aw_feed_receive_age_ms :: "pyfloat option"
  aw_queue_size :: int
  aw_consecutive_checks :: int
  aw_snapshot_ready :: bool
  aw_ready_to_emit :: bool
  aw_generation_id :: int

record age_warning =
  pw_symbol :: string
  pw_stale_threshold_ms :: pyfloat
  pw_observed_monotonic_ns :: int
  pw_age_ms :: pyfloat
  pw_snapshot_ready :: bool
  pw_ready_to_emit :: bool
  pw_last_book_update_monotonic_ns :: "int option"
  pw_last_message_recv_monotonic_ns :: "int option"
  pw_generation_id :: int

datatype trace_event =
    SnapshotRequestedTrace bool string int int int
    \<comment> \<open>recovery, symbol, generation, request time, queue size\<close>
  | SnapshotLoadedTrace bool string int int "int option" "int option" int int int bool bool
    \<comment> \<open>recovery, symbol, generation, update id, request, response, apply, queue sizes, ready, loaded\<close>
  | UpdateRangeTrace string int int int int "int option" string bool bool bool bool int int int
    \<comment> \<open>symbol, generation, index, U, u, previous id, classification, ready and loaded before and
       after, queue size, receive and apply time\<close>
  | GapTrace string int "int option" "int option" int int "int option" int bool bool bool bool
      "int option" int int
    \<comment> \<open>symbol, generation, previous and expected id, U, u, gap size, queue size, ready and loaded
       before and after, last snapshot id, updates since the snapshot, receive time\<close>
  | ReadyRestoredTrace string int "int option" bool bool int int
  | PurgeTrace purge_result int int

record quality_row =
  qr_symbol :: string
  qr_state_version :: int
  qr_snapshot_version :: int
  qr_last_update_id :: "int option"
  qr_bid_count :: int
  qr_ask_count :: int
  qr_best_bid :: "pydec option"
  qr_best_ask :: "pydec option"
  qr_book_age_ms :: "pyfloat option"
  qr_errors :: "string list"
  qr_warnings :: "string list"
  qr_is_valid :: bool

record mismatch_row =
  mr_case_type :: string
  mr_symbol :: string
  mr_local_recv_monotonic_ns :: int
  mr_local_recv_wall_ts :: "string option"
  mr_exchange_event_ts :: "int option"
  mr_state_version :: int
  mr_snapshot_version :: int
  mr_last_update_id :: "int option"
  mr_first_update_id :: "int option"
  mr_final_update_id :: "int option"
  mr_computed_best_bid :: "pydec option"
  mr_computed_best_ask :: "pydec option"
  mr_reported_best_bid :: "pydec option"
  mr_reported_best_ask :: "pydec option"
  mr_bid_diff :: "pydec option"
  mr_ask_diff :: "pydec option"
  mr_strict_mismatch :: bool
  mr_tolerant_mismatch :: bool
  mr_top_bids :: book_side
  mr_top_asks :: book_side
  mr_bid_count :: int
  mr_ask_count :: int
  mr_book_age_ms :: "pyfloat option"
  mr_queue_lag_ms :: "pyfloat option"
  mr_lifecycle_flags :: lifecycle_flags
  mr_raw_message_excerpt :: "string option"

record incomplete_row =
  ir_reason :: string
  ir_symbol :: string
  ir_bid_count :: int
  ir_ask_count :: int
  ir_best_bid :: "pydec option"
  ir_best_ask :: "pydec option"
  ir_snapshot_ready :: bool
  ir_ready_to_emit :: bool
  ir_book_age_ms :: "pyfloat option"
  ir_state_version :: int
  ir_snapshot_version :: int
  ir_last_update_id :: "int option"

record gap_row =
  gr_symbol :: string
  gr_previous_last_update_id :: "int option"
  gr_expected_next_update_id :: "int option"
  gr_received_first_update_id :: "int option"
  gr_received_final_update_id :: "int option"
  gr_snapshot_ready_before :: bool
  gr_snapshot_ready_after :: bool
  gr_ready_to_emit_after :: bool
  gr_state_version_before :: int
  gr_state_version_after :: int

record duplicate_row =
  dr_symbol :: string
  dr_previous_last_update_id :: "int option"
  dr_received_first_update_id :: "int option"
  dr_received_final_update_id :: "int option"
  dr_state_version_before :: int
  dr_state_version_after :: int

record invalid_delta_row =
  vr_symbol :: string
  vr_local_recv_monotonic_ns :: int
  vr_first_update_id :: "int option"
  vr_final_update_id :: "int option"
  vr_previous_last_update_id :: "int option"
  vr_snapshot_ready_before :: bool
  vr_snapshot_ready_after :: bool
  vr_ready_to_emit_after :: bool
  vr_rejection_reason :: "string list"
  vr_raw_message_excerpt :: "string option"
  vr_top_bids :: book_side
  vr_top_asks :: book_side
  vr_state_version_before :: int
  vr_state_version_after :: int
  vr_generation_id :: int

record violation_row =
  wr_symbol :: string
  wr_generation_id :: int
  wr_last_update_id :: "int option"
  wr_violations :: "string list"
  wr_schema_version :: string
  wr_monotonic_ts_ns :: int

record debug_recorder =
  max_cases :: nat
  quality_samples :: "quality_row case_log"
  mismatch_cases :: "mismatch_row case_log"
  book_incomplete_cases :: "incomplete_row case_log"
  sequence_gap_cases :: "gap_row case_log"
  duplicate_cases :: "duplicate_row case_log"
  invalid_delta_cases :: "invalid_delta_row case_log"
  stale_period_cases :: "int case_log"
  sequence_recovery_trace :: "trace_event case_log"
  schema_violation_cases :: "violation_row case_log"
  clean_samples :: "clean_sample list"
  latency_samples :: "latency_profile list"

definition recorder_init :: "nat \<Rightarrow> debug_recorder" where
  "recorder_init n = \<lparr>max_cases = n, quality_samples = empty_log, mismatch_cases = empty_log,
     book_incomplete_cases = empty_log, sequence_gap_cases = empty_log, duplicate_cases = empty_log,
     invalid_delta_cases = empty_log, stale_period_cases = empty_log,
     sequence_recovery_trace = empty_log, schema_violation_cases = empty_log, clean_samples = [],
     latency_samples = []\<rparr>"

definition record_quality_sample ::
  "orderbook_snapshot \<Rightarrow> quality_result \<Rightarrow> debug_recorder \<Rightarrow> debug_recorder" where
  "record_quality_sample snap q d =
     (let row = \<lparr>qr_symbol = snap_symbol snap, qr_state_version = snap_state_version snap,
        qr_snapshot_version = snap_snapshot_version snap,
        qr_last_update_id = snap_last_update_id snap, qr_bid_count = snap_bid_count snap,
        qr_ask_count = snap_ask_count snap, qr_best_bid = snap_best_bid snap,
        qr_best_ask = snap_best_ask snap, qr_book_age_ms = q_book_age_ms q,
        qr_errors = q_errors q, qr_warnings = q_warnings q, qr_is_valid = q_is_valid q\<rparr>
      in d\<lparr>quality_samples := log_case (max_cases d) row (quality_samples d)\<rparr>)"

definition record_mismatch_case ::
  "orderbook_snapshot \<Rightarrow> quality_result \<Rightarrow> int option \<Rightarrow> int option \<Rightarrow> int option \<Rightarrow> string option
     \<Rightarrow> pyfloat option \<Rightarrow> debug_recorder \<Rightarrow> debug_recorder" where
  "record_mismatch_case snap q first_id final_id exchange_ts excerpt lag d =
     (let strict = q_strict q;
          row = \<lparr>mr_case_type = (if bid_mismatch strict then ''reported_best_bid_mismatch''
                                else ''reported_best_ask_mismatch''),
        mr_symbol = snap_symbol snap,
        mr_local_recv_monotonic_ns = snap_local_recv_monotonic_ns snap,
        mr_local_recv_wall_ts = snap_local_recv_wall_ts snap, mr_exchange_event_ts = exchange_ts,
        mr_state_version = snap_state_version snap,
        mr_snapshot_version = snap_snapshot_version snap,
        mr_last_update_id = snap_last_update_id snap, mr_first_update_id = first_id,
        mr_final_update_id = final_id, mr_computed_best_bid = snap_best_bid snap,
        mr_computed_best_ask = snap_best_ask snap, mr_reported_best_bid = q_reported_bid q,
        mr_reported_best_ask = q_reported_ask q, mr_bid_diff = bid_diff strict,
        mr_ask_diff = ask_diff strict, mr_strict_mismatch = any_mismatch strict,
        mr_tolerant_mismatch = any_mismatch (q_tolerant q), mr_top_bids = snap_bids_top_n snap,
        mr_top_asks = snap_asks_top_n snap, mr_bid_count = snap_bid_count snap,
        mr_ask_count = snap_ask_count snap, mr_book_age_ms = q_book_age_ms q,
        mr_queue_lag_ms = lag, mr_lifecycle_flags = q_lifecycle_flags q,
        mr_raw_message_excerpt = excerpt\<rparr>
      in d\<lparr>mismatch_cases := log_case (max_cases d) row (mismatch_cases d)\<rparr>)"

definition record_book_incomplete_case ::
  "orderbook_snapshot \<Rightarrow> quality_result \<Rightarrow> string \<Rightarrow> debug_recorder \<Rightarrow> debug_recorder" where
  "record_book_incomplete_case snap q reason d =
     (let row = \<lparr>ir_reason = reason, ir_symbol = snap_symbol snap,
        ir_bid_count = snap_bid_count snap, ir_ask_count = snap_ask_count snap,
        ir_best_bid = snap_best_bid snap, ir_best_ask = snap_best_ask snap,
        ir_snapshot_ready = flag_snapshot_ready (q_lifecycle_flags q), ir_ready_to_emit = False,
        ir_book_age_ms = q_book_age_ms q, ir_state_version = snap_state_version snap,
        ir_snapshot_version = snap_snapshot_version snap,
        ir_last_update_id = snap_last_update_id snap\<rparr>
      in d\<lparr>book_incomplete_cases := log_case (max_cases d) row (book_incomplete_cases d)\<rparr>)"

definition record_sequence_gap_case ::
  "orderbook_apply_result \<Rightarrow> string \<Rightarrow> debug_recorder \<Rightarrow> debug_recorder" where
  "record_sequence_gap_case res symb d =
     (let row = \<lparr>gr_symbol = symb, gr_previous_last_update_id = res_previous_last_update_id res,
        gr_expected_next_update_id = res_expected_next_update_id res,
        gr_received_first_update_id = res_first_update_id res,
        gr_received_final_update_id = res_final_update_id res,
        gr_snapshot_ready_before = res_snapshot_ready_before res,
        gr_snapshot_ready_after = res_snapshot_ready_after res,
        gr_ready_to_emit_after = res_ready_to_emit_after res,
        gr_state_version_before = res_state_version_before res,
        gr_state_version_after = res_state_version_after res\<rparr>
      in d\<lparr>sequence_gap_cases := log_case (max_cases d) row (sequence_gap_cases d)\<rparr>)"

definition record_duplicate_case ::
  "orderbook_apply_result \<Rightarrow> string \<Rightarrow> debug_recorder \<Rightarrow> debug_recorder" where
  "record_duplicate_case res symb d =
     (let row = \<lparr>dr_symbol = symb, dr_previous_last_update_id = res_previous_last_update_id res,
        dr_received_first_update_id = res_first_update_id res,
        dr_received_final_update_id = res_final_update_id res,
        dr_state_version_before = res_state_version_before res,
        dr_state_version_after = res_state_version_after res\<rparr>
      in d\<lparr>duplicate_cases := log_case (max_cases d) row (duplicate_cases d)\<rparr>)"

definition record_invalid_delta_case ::
  "orderbook_apply_result \<Rightarrow> string \<Rightarrow> orderbook_snapshot \<Rightarrow> int \<Rightarrow> string option
     \<Rightarrow> debug_recorder \<Rightarrow> debug_recorder" where
  "record_invalid_delta_case res symb snap recv_ns excerpt d =
     (let row = \<lparr>vr_symbol = symb, vr_local_recv_monotonic_ns = recv_ns,
        vr_first_update_id = res_first_update_id res, vr_final_update_id = res_final_update_id res,
        vr_previous_last_update_id = res_previous_last_update_id res,
        vr_snapshot_ready_before = res_snapshot_ready_before res,
        vr_snapshot_ready_after = res_snapshot_ready_after res,
        vr_ready_to_emit_after = res_ready_to_emit_after res,
        vr_rejection_reason = res_errors res, vr_raw_message_excerpt = excerpt,
        vr_top_bids = take 5 (snap_bids_top_n snap), vr_top_asks = take 5 (snap_asks_top_n snap),
        vr_state_version_before = res_state_version_before res,
        vr_state_version_after = res_state_version_after res,
        vr_generation_id = res_generation_after res\<rparr>
      in d\<lparr>invalid_delta_cases := log_case (max_cases d) row (invalid_delta_cases d)\<rparr>)"

definition record_stale_period_case :: "int \<Rightarrow> debug_recorder \<Rightarrow> debug_recorder" where
  "record_stale_period_case period d =
     d\<lparr>stale_period_cases := log_case (max_cases d) period (stale_period_cases d)\<rparr>"

definition record_sequence_trace_event :: "trace_event \<Rightarrow> debug_recorder \<Rightarrow> debug_recorder" where
  "record_sequence_trace_event ev d =
     d\<lparr>sequence_recovery_trace := log_case (max_cases d) ev (sequence_recovery_trace d)\<rparr>"

definition record_schema_violation_case ::
  "violation_row \<Rightarrow> debug_recorder \<Rightarrow> debug_recorder" where
  "record_schema_violation_case row d =
     d\<lparr>schema_violation_cases := log_case (max_cases d) row (schema_violation_cases d)\<rparr>"

definition record_clean_sample :: "clean_sample \<Rightarrow> debug_recorder \<Rightarrow> debug_recorder" where
  "record_clean_sample sample d = d\<lparr>clean_samples := clean_samples d @ [sample]\<rparr>"

definition record_latency_profile_sample :: "latency_profile \<Rightarrow> debug_recorder \<Rightarrow> debug_recorder" where
  "record_latency_profile_sample row d = d\<lparr>latency_samples := latency_samples d @ [row]\<rparr>"

subsection \<open>The processor\<close>

record processor =
  states :: "(string \<times> orderbook_state) list"
  depth_n :: int
  stale_threshold_ms :: pyfloat
  feed_receive_stale_threshold_ms :: pyfloat
  validator :: quality_validator
  lifecycle :: ws_tracker
  monitor :: queue_monitor
  batch_writer_enabled :: bool
  debug :: debug_recorder
  p_counters :: "string counter"
  blocked_by_quality_error :: "string counter"
  snapshot_copy_us_samples :: "pyfloat list"
  copied_bid_level_counts :: "int list"
  copied_ask_level_counts :: "int list"
  period_store :: "(int \<times> stale_period) list"
  stale_periods :: "int list"
  open_stale_periods :: "(string \<times> int) list"
  apply_stale_warnings :: "apply_stale_warning list"
  post_capture_age_warnings :: "age_warning list"
  post_capture_warning_symbols :: "string list"
  post_snapshot_trace_counts :: "string counter"
  updates_since_snapshot :: "string counter"
  last_snapshot_ids :: "(string \<times> int) list"
  last_ws_message_recv :: "(string \<times> int) list"
  last_delta_dequeued :: "(string \<times> int) list"
  open_apply_stale_symbols :: "string list"
  apply_stale_checks :: "string counter"
  recovery_active_symbols :: "string list"
  snapshot_load_start :: "(string \<times> int) list"
  snapshot_load_end :: "(string \<times> int) list"
  capture_active :: bool
  shutdown_started :: bool
  max_book_age_ms :: pyfloat
  last_age_at_report :: "pyfloat option"

definition new_state :: "int \<Rightarrow> string \<Rightarrow> orderbook_state" where
  \<comment> \<open>\<open>OrderbookState(symbol)\<close> with its default of 300 seconds\<close>
  "new_state now symb = the (orderbook_init symb (Fin 300) now)"

definition processor_init ::
  "int \<Rightarrow> string list \<Rightarrow> int \<Rightarrow> pyfloat \<Rightarrow> pyfloat option \<Rightarrow> pyfloat \<Rightarrow> pyfloat \<Rightarrow> nat \<Rightarrow> bool
     \<Rightarrow> processor" where
  "processor_init now symbols depth stale_after feed_after lag_warning lag_severe debug_max batch =
     \<lparr>states = fold (\<lambda>s. AList.update (upper s) (new_state now s)) symbols [],
      depth_n = depth, stale_threshold_ms = stale_after,
      feed_receive_stale_threshold_ms = (case feed_after of None \<Rightarrow> stale_after | Some f \<Rightarrow> f),
      validator = default_validator\<lparr>stale_after_ms := stale_after,
        queue_lag_warning_ms := lag_warning, queue_lag_severe_ms := lag_severe\<rparr>,
      lifecycle = tracker_init,
      monitor = monitor_init (Some 1024) (f64 (80 / 100)) lag_severe (Fin 50) (Fin 250) 4096,
      batch_writer_enabled = batch, debug = recorder_init debug_max, p_counters = [],
      blocked_by_quality_error = [], snapshot_copy_us_samples = [], copied_bid_level_counts = [],
      copied_ask_level_counts = [], period_store = [], stale_periods = [], open_stale_periods = [],
      apply_stale_warnings = [], post_capture_age_warnings = [], post_capture_warning_symbols = [],
      post_snapshot_trace_counts = [], updates_since_snapshot = [], last_snapshot_ids = [],
      last_ws_message_recv = [], last_delta_dequeued = [], open_apply_stale_symbols = [],
      apply_stale_checks = [], recovery_active_symbols = [], snapshot_load_start = [],
      snapshot_load_end = [], capture_active = True, shutdown_started = False,
      max_book_age_ms = fzero, last_age_at_report = None\<rparr>"

definition put_state :: "string \<Rightarrow> orderbook_state \<Rightarrow> processor \<Rightarrow> processor" where
  \<comment> \<open>the book of a key, mutated in place\<close>
  "put_state key s p = p\<lparr>states := AList.update key s (states p)\<rparr>"

definition count :: "string \<Rightarrow> processor \<Rightarrow> processor" where
  "count field p = p\<lparr>p_counters := ctr_inc field (p_counters p)\<rparr>"

definition state_for :: "int \<Rightarrow> string \<Rightarrow> processor \<Rightarrow> orderbook_state \<times> processor" where
  "state_for now symb p = (let key = upper symb in
     case map_of (states p) key of
       Some s \<Rightarrow> (s, p)
     | None \<Rightarrow> (let s = new_state now key in (s, put_state key s p)))"

definition with_lifecycle :: "(ws_tracker \<Rightarrow> ws_tracker) \<Rightarrow> processor \<Rightarrow> processor" where
  "with_lifecycle f p = p\<lparr>lifecycle := f (lifecycle p)\<rparr>"

definition with_debug :: "(debug_recorder \<Rightarrow> debug_recorder) \<Rightarrow> processor \<Rightarrow> processor" where
  "with_debug f p = p\<lparr>debug := f (debug p)\<rparr>"

definition with_monitor :: "(queue_monitor \<Rightarrow> queue_monitor) \<Rightarrow> processor \<Rightarrow> processor" where
  "with_monitor f p = p\<lparr>monitor := f (monitor p)\<rparr>"

definition record_ws_message_recv :: "string \<Rightarrow> int \<Rightarrow> processor \<Rightarrow> processor" where
  "record_ws_message_recv symb t p =
     p\<lparr>last_ws_message_recv := AList.update (upper symb) t (last_ws_message_recv p)\<rparr>"

definition record_delta_dequeued :: "string \<Rightarrow> int \<Rightarrow> processor \<Rightarrow> processor" where
  "record_delta_dequeued symb t p =
     p\<lparr>last_delta_dequeued := AList.update (upper symb) t (last_delta_dequeued p)\<rparr>"

definition mark_snapshot_recovery_active :: "string \<Rightarrow> bool \<Rightarrow> int \<Rightarrow> processor \<Rightarrow> processor" where
  "mark_snapshot_recovery_active symb active t p = (let key = upper symb in
     if active then
       p\<lparr>recovery_active_symbols := List.insert key (recovery_active_symbols p),
         snapshot_load_start := AList.update key t (snapshot_load_start p)\<rparr>
     else
       p\<lparr>recovery_active_symbols := removeAll key (recovery_active_symbols p),
         snapshot_load_end := AList.update key t (snapshot_load_end p)\<rparr>)"

definition set_capture_active :: "bool \<Rightarrow> processor \<Rightarrow> processor" where
  "set_capture_active active p =
     (let p1 = p\<lparr>capture_active := active\<rparr> in if \<not> active then p1\<lparr>shutdown_started := True\<rparr> else p1)"

definition cleanup_symbol :: "string \<Rightarrow> processor \<Rightarrow> processor" where
  \<comment> \<open>the removed book is cleaned and unreachable afterwards\<close>
  "cleanup_symbol symb p =
     p\<lparr>states := AList.delete (upper symb) (states p),
       open_stale_periods := AList.delete (upper symb) (open_stale_periods p)\<rparr>"

definition close_stale_period :: "string \<Rightarrow> int option \<Rightarrow> processor \<Rightarrow> processor" where
  "close_stale_period symb now_ns p =
     (case map_of (open_stale_periods p) (upper symb) of
        None \<Rightarrow> p
      | Some i \<Rightarrow>
          let p1 = p\<lparr>open_stale_periods := AList.delete (upper symb) (open_stale_periods p)\<rparr> in
          case (now_ns, map_of (period_store p) i) of
            (Some t, Some period) \<Rightarrow>
              with_debug (record_stale_period_case i)
                (p1\<lparr>period_store := AList.update i (period\<lparr>sp_ended_monotonic_ns := Some t\<rparr>)
                     (period_store p)\<rparr>)
          | _ \<Rightarrow> p1)"

definition processor_copy_snapshot ::
  "int \<Rightarrow> int \<Rightarrow> string \<Rightarrow> string option \<Rightarrow> orderbook_state \<Rightarrow> processor
     \<Rightarrow> orderbook_snapshot \<times> orderbook_state \<times> processor" where
  "processor_copy_snapshot now elapsed_ns iso_now wall_ts s p =
     (let now_ns = (case last_local_recv_monotonic_ns s of None \<Rightarrow> now | Some t \<Rightarrow> max now t);
          wall = or_str wall_ts (Some iso_now);
          (snap, s1) = copy_snapshot now iso_now (depth_n p) (Some now_ns) wall s
      in (snap, s1,
          p\<lparr>snapshot_copy_us_samples := push_bounded 4096
            (fdiv (float_of_int elapsed_ns) (Fin 1000)) (snapshot_copy_us_samples p),
            copied_bid_level_counts :=
              push_bounded 4096 (int (length (snap_bids_top_n snap))) (copied_bid_level_counts p),
            copied_ask_level_counts :=
              push_bounded 4096 (int (length (snap_asks_top_n snap))) (copied_ask_level_counts p)\<rparr>))"

subsection \<open>Stale feeds\<close>

definition feed_receive_age_ms :: "string \<Rightarrow> int \<Rightarrow> processor \<Rightarrow> pyfloat option" where
  "feed_receive_age_ms symb now_ns p =
     map_option (\<lambda>t. ms_of_ns (now_ns - t)) (map_of (last_ws_message_recv p) (upper symb))"

definition record_feed_receive_stale ::
  "string \<Rightarrow> orderbook_state \<Rightarrow> int \<Rightarrow> pyfloat \<Rightarrow> processor \<Rightarrow> int \<times> processor" where
  \<comment> \<open>returns the number of the symbol's open period; a threshold that is not finite would make
     \<open>int(...)\<close> raise, but no age exceeds an infinite one\<close>
  "record_feed_receive_stale symb s now_ns feed_age p =
     (case map_of (open_stale_periods p) symb of
        None \<Rightarrow>
          let since = int_or (map_of (last_ws_message_recv p) symb) now_ns;
              started = (case fint (fadd (float_of_int since)
                           (fmul (feed_receive_stale_threshold_ms p) (Fin 1000000))) of
                           None \<Rightarrow> 0 | Some k \<Rightarrow> k);
              s1 = mark_not_ready now_ns ''feed_receive_stale'' (Some now_ns) True None s;
              period = \<lparr>sp_symbol = symb,
                sp_stale_threshold_ms = feed_receive_stale_threshold_ms p,
                sp_started_monotonic_ns = started, sp_ended_monotonic_ns = None,
                sp_max_age_ms = feed_age, sp_snapshot_ready = snapshot_ready s1,
                sp_ready_to_emit = ready_to_emit s1,
                sp_last_book_update_monotonic_ns = last_book_update_monotonic_ns s,
                sp_last_message_recv_monotonic_ns = last_message_recv_monotonic_ns s,
                sp_last_ws_message_recv_monotonic_ns = map_of (last_ws_message_recv p) symb,
                sp_generation_id = generation s1\<rparr>;
              i = int (length (period_store p));
              p1 = p\<lparr>period_store := period_store p @ [(i, period)],
                     open_stale_periods := AList.update symb i (open_stale_periods p),
                     stale_periods := push_bounded 256 i (stale_periods p)\<rparr>;
              p2 = count ''stale_reset_count'' (count ''stale_book_count''
                     (count ''active_feed_stale_count'' (count ''feed_receive_stale_count'' p1)));
              p3 = with_lifecycle (observe_ready_false s1) (put_state symb s1 p2)
          in (i, with_debug (record_stale_period_case i) p3)
      | Some i \<Rightarrow>
          (i, p\<lparr>period_store := map (\<lambda>(j, period). (j, if j = i then
                 period\<lparr>sp_max_age_ms := pymax (sp_max_age_ms period) feed_age,
                        sp_snapshot_ready := snapshot_ready s, sp_ready_to_emit := ready_to_emit s,
                        sp_last_message_recv_monotonic_ns := last_message_recv_monotonic_ns s,
                        sp_last_ws_message_recv_monotonic_ns := map_of (last_ws_message_recv p) symb,
                        sp_generation_id := generation s\<rparr> else period)) (period_store p)\<rparr>))"

definition raise_last_apply_age :: "pyfloat \<Rightarrow> apply_stale_warning list \<Rightarrow> apply_stale_warning list" where
  \<comment> \<open>\<open>warnings[-1]["max_apply_age_ms"] = max(...)\<close>\<close>
  "raise_last_apply_age age ws = (if ws = [] then []
     else butlast ws @ [(last ws)\<lparr>aw_max_apply_age_ms := pymax (aw_max_apply_age_ms (last ws)) age\<rparr>])"

definition record_processor_apply_stale ::
  "string \<Rightarrow> orderbook_state \<Rightarrow> int \<Rightarrow> pyfloat \<Rightarrow> pyfloat option \<Rightarrow> int \<Rightarrow> processor \<Rightarrow> processor" where
  "record_processor_apply_stale symb s now_ns apply_age feed_age queue_size p0 =
     (let p = p0\<lparr>apply_stale_checks := ctr_inc symb (apply_stale_checks p0)\<rparr> in
      if symb \<in> set (open_apply_stale_symbols p) then
        p\<lparr>apply_stale_warnings := raise_last_apply_age apply_age (apply_stale_warnings p)\<rparr>
      else
        let p1 = count ''processor_apply_stale_count''
                   (p\<lparr>open_apply_stale_symbols := List.insert symb (open_apply_stale_symbols p)\<rparr>);
            warning = \<lparr>aw_symbol = symb, aw_stale_threshold_ms = stale_threshold_ms p,
              aw_observed_monotonic_ns = now_ns, aw_apply_age_ms = apply_age,
              aw_max_apply_age_ms = apply_age, aw_feed_receive_age_ms = feed_age,
              aw_queue_size = queue_size, aw_consecutive_checks = ctr (apply_stale_checks p) symb,
              aw_snapshot_ready = snapshot_ready s, aw_ready_to_emit = ready_to_emit s,
              aw_generation_id = generation s\<rparr>
        in p1\<lparr>apply_stale_warnings := push_bounded 256 warning (apply_stale_warnings p1)\<rparr>)"

definition record_post_capture_age_warning ::
  "string \<Rightarrow> orderbook_state \<Rightarrow> int \<Rightarrow> pyfloat \<Rightarrow> processor \<Rightarrow> processor" where
  "record_post_capture_age_warning symb s now_ns age p =
     (if symb \<in> set (post_capture_warning_symbols p) then
        p\<lparr>post_capture_age_warnings := map (\<lambda>w. if pw_symbol w = symb
             then w\<lparr>pw_age_ms := age, pw_observed_monotonic_ns := now_ns\<rparr> else w)
           (post_capture_age_warnings p)\<rparr>
      else
        let warning = \<lparr>pw_symbol = symb, pw_stale_threshold_ms = stale_threshold_ms p,
              pw_observed_monotonic_ns = now_ns, pw_age_ms = age,
              pw_snapshot_ready = snapshot_ready s, pw_ready_to_emit = ready_to_emit s,
              pw_last_book_update_monotonic_ns = last_book_update_monotonic_ns s,
              pw_last_message_recv_monotonic_ns = last_message_recv_monotonic_ns s,
              pw_generation_id = generation s\<rparr>
        in p\<lparr>post_capture_warning_symbols := List.insert symb (post_capture_warning_symbols p),
             post_capture_age_warnings := push_bounded 256 warning (post_capture_age_warnings p)\<rparr>)"

definition feed_stale :: "processor \<Rightarrow> pyfloat option \<Rightarrow> int \<Rightarrow> bool" where
  "feed_stale p feed_age queue_size \<longleftrightarrow>
     exceeds feed_age (feed_receive_stale_threshold_ms p) \<and> queue_size = 0"

definition processor_apply_stale :: "processor \<Rightarrow> pyfloat option \<Rightarrow> pyfloat option \<Rightarrow> int \<Rightarrow> bool" where
  "processor_apply_stale p apply_age feed_age queue_size \<longleftrightarrow>
     exceeds apply_age (stale_threshold_ms p)
     \<and> (queue_size > 0
        \<or> (case feed_age of None \<Rightarrow> False | Some f \<Rightarrow> fle f (stale_threshold_ms p)))"

definition check_symbol ::
  "int \<Rightarrow> bool \<Rightarrow> int \<Rightarrow> string \<Rightarrow> int list \<times> processor \<Rightarrow> int list \<times> processor" where
  \<comment> \<open>one turn of the loop of \<open>check_stale_periods\<close>\<close>
  "check_symbol now_ns active queue_size symb lp = (case lp of (periods, p0) \<Rightarrow>
     (case map_of (states p0) symb of
        None \<Rightarrow> (periods, p0)
      | Some s0 \<Rightarrow>
          let (apply_age, s) = book_age_ms now_ns s0;
              p1 = put_state symb s p0;
              feed_age = feed_receive_age_ms symb now_ns p1;
              p2 = (case apply_age of None \<Rightarrow> p1
                    | Some a \<Rightarrow> p1\<lparr>max_book_age_ms := pymax (max_book_age_ms p1) a,
                                  last_age_at_report := Some a\<rparr>)
          in if \<not> active then
               (case apply_age of
                  Some a \<Rightarrow> if fless (stale_threshold_ms p2) a
                               \<and> map_of (open_stale_periods p2) symb = None
                            then (periods, record_post_capture_age_warning symb s now_ns a p2)
                            else (periods, p2)
                | None \<Rightarrow> (periods, p2))
             else if symb \<in> set (recovery_active_symbols p2) then
               (periods, if queue_size > 0 then with_monitor (record_snapshot_blocking_lag 1) p2 else p2)
             else if feed_stale p2 feed_age queue_size then
               let (i, p3) = record_feed_receive_stale symb s now_ns (the feed_age) p2
               in (periods @ [i], p3)
             else
               let p3 = close_stale_period symb (Some now_ns) p2 in
               if processor_apply_stale p3 apply_age feed_age queue_size then
                 (periods, record_processor_apply_stale symb s now_ns (the apply_age) feed_age queue_size p3)
               else
                 (periods,
                  p3\<lparr>open_apply_stale_symbols := removeAll symb (open_apply_stale_symbols p3),
                     apply_stale_checks := AList.update symb 0 (apply_stale_checks p3)\<rparr>)))"

definition check_stale_periods ::
  "int \<Rightarrow> string list option \<Rightarrow> bool option \<Rightarrow> int \<Rightarrow> processor \<Rightarrow> int list \<times> processor" where
  "check_stale_periods now_ns symbols feed_active queue_size p =
     (let active = (case feed_active of None \<Rightarrow> capture_active p | Some b \<Rightarrow> b);
          selected = (case symbols of
            Some (x # xs) \<Rightarrow> map upper (x # xs) | _ \<Rightarrow> map fst (states p))
      in fold (check_symbol now_ns active queue_size) selected ([], p))"

subsection \<open>Snapshots and updates\<close>

record load_inputs =
  li_now :: int                       \<comment> \<open>\<open>monotonic_now_ns()\<close>\<close>
  li_clock :: int                     \<comment> \<open>\<open>self.monotonic_clock()\<close>, read when no time is given\<close>
  li_iso_now :: string                \<comment> \<open>\<open>_utc_iso_now()\<close>\<close>
  li_local_recv :: "int option"
  li_apply :: "int option"
  li_request :: "int option"
  li_response :: "int option"
  li_queue_before :: int
  li_queue_after :: int

definition load_snapshot ::
  "load_inputs \<Rightarrow> string \<Rightarrow> level_row list \<Rightarrow> level_row list \<Rightarrow> int \<Rightarrow> int option \<Rightarrow> bool \<Rightarrow> processor
     \<Rightarrow> orderbook_apply_result \<times> processor" where
  "load_snapshot inp symb bid_rows ask_rows last_id gen recovery p0 =
     (let (s0, p1) = state_for (li_now inp) symb p0; key = upper symb;
          apply_ns = (case li_apply inp of Some t \<Rightarrow> t
            | None \<Rightarrow> (case li_local_recv inp of Some t \<Rightarrow> t | None \<Rightarrow> li_clock inp));
          (result, s) = apply_snapshot (li_now inp) (li_iso_now inp) bid_rows ask_rows last_id apply_ns
            (Some (li_iso_now inp)) gen s0;
          p2 = put_state key s p1;
          p3 = (if res_accepted result then
              let q1 = close_stale_period key (last_book_update_monotonic_ns s)
                         (with_lifecycle on_snapshot_loaded p2);
                  q2 = q1\<lparr>post_snapshot_trace_counts := AList.update key 0 (post_snapshot_trace_counts q1),
                          updates_since_snapshot := AList.update key 0 (updates_since_snapshot q1),
                          last_snapshot_ids := AList.update key last_id (last_snapshot_ids q1)\<rparr>
              in with_debug (record_sequence_trace_event (SnapshotLoadedTrace recovery key
                   (generation s) last_id (li_request inp) (li_response inp) apply_ns
                   (li_queue_before inp) (li_queue_after inp) (ready_to_emit s) (snapshot_ready s))) q2
            else with_lifecycle on_snapshot_failed p2)
      in (result, with_lifecycle (observe_ready_false s) p3))"

record update_inputs =
  ui_now :: int                     \<comment> \<open>\<open>monotonic_now_ns()\<close>\<close>
  ui_iso_now :: string              \<comment> \<open>\<open>_utc_iso_now()\<close>\<close>
  ui_iso_event :: "string option"   \<comment> \<open>\<open>_utc_iso_from_ns(event.local_received_ts)\<close>\<close>
  ui_recv_clock :: int              \<comment> \<open>\<open>self.monotonic_clock()\<close> at each reading, in order\<close>
  ui_apply_start :: int
  ui_apply_end :: int
  ui_copy_clock :: int
  ui_copy_elapsed :: int
  ui_validate_clock :: int
  ui_build_start :: int
  ui_build_end :: int
  ui_emit :: int
  ui_trace_clock :: int
  ui_writer_enqueue :: "int option" \<comment> \<open>the writer's answer\<close>
  ui_write_start :: "int option"
  ui_write_end :: "int option"
  ui_queue_lag_ms :: "pyfloat option"
  ui_queue_put :: "int option"
  ui_queue_put_end :: "int option"
  ui_queue_dequeue :: "int option"
  ui_queue_size_at_enqueue :: "int option"
  ui_raw_excerpt :: "string option"

definition count_if :: "bool \<Rightarrow> string \<Rightarrow> processor \<Rightarrow> processor" where
  "count_if b field p = (if b then count field p else p)"

definition block_sample :: "orderbook_snapshot \<Rightarrow> quality_result \<Rightarrow> processor \<Rightarrow> processor" where
  "block_sample snap q p =
     (let p1 = with_lifecycle on_sample_blocked_by_ready_guard (count ''samples_blocked'' p);
          p2 = p1\<lparr>blocked_by_quality_error :=
                 fold (\<lambda>e. ctr_inc e) (q_errors q) (blocked_by_quality_error p1)\<rparr>
      in if ''one_side_missing'' \<in> set (q_errors q) then
           with_debug (record_book_incomplete_case snap q
             (if snap_bid_count snap = 0 then ''bid_side_missing_after_delta''
              else ''ask_side_missing_after_delta'')) p2
         else p2)"

definition maybe_emit_or_block_sample ::
  "update_inputs \<Rightarrow> depth_update \<Rightarrow> orderbook_snapshot \<Rightarrow> quality_result \<Rightarrow> processor \<Rightarrow> processor" where
  "maybe_emit_or_block_sample inp ev snap q p0 =
     (let p = count_if (''stale_book'' \<in> set (q_errors q)) ''stale_book_count''
                (count_if (''crossed_book'' \<in> set (q_errors q)) ''crossed_book_count''
                  (count_if (any_mismatch (q_tolerant q)) ''tolerant_mismatch_count''
                    (count_if (any_mismatch (q_strict q)) ''strict_mismatch_count'' p0)))
      in if \<not> q_is_valid q then block_sample snap q p
         else
           let sample = clean_sample_from_snapshot snap q (depth_n p) (exchange_event_ts ev);
               violations = validate_clean_sample_schema sample
           in if violations \<noteq> [] then
                with_debug (record_schema_violation_case \<lparr>wr_symbol = cs_symbol sample,
                    wr_generation_id = cs_generation_id sample,
                    wr_last_update_id = cs_last_update_id sample, wr_violations = violations,
                    wr_schema_version = cs_schema_version sample,
                    wr_monotonic_ts_ns = cs_local_recv_monotonic_ns sample\<rparr>)
                  (count ''clean_sample_schema_violation_count'' (count ''samples_blocked'' p))
              else
                let profile = build_latency_profile_sample ev snap
                      \<lparr>tm_book_apply_start = ui_apply_start inp, tm_book_apply_end = ui_apply_end inp,
                       tm_sample_build_start = ui_build_start inp,
                       tm_sample_build_end = ui_build_end inp, tm_sample_emit = ui_emit inp,
                       tm_queue_put = ui_queue_put inp, tm_queue_put_end = ui_queue_put_end inp,
                       tm_queue_dequeue = ui_queue_dequeue inp,
                       tm_queue_wait_ms = ui_queue_lag_ms inp,
                       tm_queue_size_at_enqueue = ui_queue_size_at_enqueue inp,
                       tm_writer_enqueue = ui_writer_enqueue inp,
                       tm_file_write_start = ui_write_start inp,
                       tm_file_write_end = ui_write_end inp,
                       tm_batch_writer_enabled = batch_writer_enabled p\<rparr>
                in count ''samples_emitted''
                     (with_debug (record_latency_profile_sample profile)
                       (with_debug (record_clean_sample sample) p)))"

definition record_post_snapshot_update_range ::
  "depth_update \<Rightarrow> orderbook_apply_result \<Rightarrow> int \<Rightarrow> string \<Rightarrow> bool \<Rightarrow> bool \<Rightarrow> int \<Rightarrow> int \<Rightarrow> int
     \<Rightarrow> orderbook_state \<Rightarrow> processor \<Rightarrow> processor" where
  "record_post_snapshot_update_range ev result gen classification ready_before loaded_before qsize
      recv_ns apply_ns s p =
     (let symb = upper (du_symbol ev); index = ctr (post_snapshot_trace_counts p) symb + 1
      in if index > 20 then p
         else with_debug (record_sequence_trace_event (UpdateRangeTrace symb gen index
                (du_first_update_id ev) (du_final_update_id ev) (res_previous_last_update_id result)
                classification ready_before (ready_to_emit s) loaded_before (snapshot_ready s)
                qsize recv_ns apply_ns))
              (p\<lparr>post_snapshot_trace_counts := AList.update symb index (post_snapshot_trace_counts p)\<rparr>))"

definition record_sequence_gap_trace ::
  "depth_update \<Rightarrow> orderbook_apply_result \<Rightarrow> int \<Rightarrow> bool \<Rightarrow> bool \<Rightarrow> int \<Rightarrow> int \<Rightarrow> int
     \<Rightarrow> orderbook_state \<Rightarrow> processor \<Rightarrow> processor" where
  "record_sequence_gap_trace ev result gen ready_before loaded_before qsize updates recv_ns s p =
     (let symb = upper (du_symbol ev); expected = res_expected_next_update_id result;
          gap_size = map_option (\<lambda>e. max 0 (du_first_update_id ev - e)) expected
      in with_debug (record_sequence_trace_event (GapTrace symb gen
           (res_previous_last_update_id result) expected (du_first_update_id ev)
           (du_final_update_id ev) gap_size qsize ready_before (ready_to_emit s) loaded_before
           (snapshot_ready s) (map_of (last_snapshot_ids p) symb) updates recv_ns)) p)"

definition after_accepted ::
  "update_inputs \<Rightarrow> depth_update \<Rightarrow> int \<Rightarrow> orderbook_state \<Rightarrow> processor
     \<Rightarrow> py_error + (orderbook_state \<times> processor)" where
  \<comment> \<open>the branch of an accepted update: copy, validate, emit or block\<close>
  "after_accepted inp ev recv_ns s p0 =
     (let p1 = close_stale_period (du_symbol ev) (Some recv_ns) (count ''deltas_accepted'' p0);
          wall = or_str (ui_iso_event inp) (Some (ui_iso_now inp));
          (snap, s1, p2) = processor_copy_snapshot (ui_copy_clock inp) (ui_copy_elapsed inp)
            (ui_iso_now inp) wall s p1;
          check_ns = max (ui_validate_clock inp) recv_ns
      in case quality_validate (validator p2) snap (Some s1) (Some check_ns) VNone VNone
                (ui_queue_lag_ms inp) of
           Inl e \<Rightarrow> Inl e
         | Inr (q, s2) \<Rightarrow>
             let s3 = (case s2 of None \<Rightarrow> s1 | Some x \<Rightarrow> x);
                 p3 = with_debug (record_quality_sample snap q) p2
             in Inr (s3, maybe_emit_or_block_sample inp ev snap q p3))"

definition after_rejected ::
  "update_inputs \<Rightarrow> depth_update \<Rightarrow> orderbook_apply_result \<Rightarrow> int \<Rightarrow> orderbook_state \<Rightarrow> processor
     \<Rightarrow> orderbook_state \<times> processor" where
  "after_rejected inp ev result recv_ns s p0 =
     (let p = count ''deltas_rejected'' p0; status = res_status result in
      if status = ''delta_before_snapshot'' then (s, with_lifecycle on_delta_before_snapshot p)
      else if status = ''duplicate_update'' then
        (s, with_debug (record_duplicate_case result (du_symbol ev)) (with_lifecycle on_duplicate p))
      else if status = ''sequence_gap_or_reset'' \<or> status = ''sequence_bridge_failed'' then
        (s, with_debug (record_sequence_gap_case result (du_symbol ev))
              (with_lifecycle on_sequence_gap
                (count_if (status = ''sequence_bridge_failed'') ''first_delta_bridge_failed_count'' p)))
      else if status = ''previous_final_update_id_mismatch'' then
        (s, with_debug (record_sequence_gap_case result (du_symbol ev))
              (count ''ready_to_emit_disabled_count''
                (count ''previous_final_update_id_mismatch_count'' p)))
      else if status = ''invalid_delta_levels'' then
        (let p1 = count ''ready_to_emit_disabled_count'' (count ''invalid_delta_count'' p);
             wall = or_str (ui_iso_event inp) (Some (ui_iso_now inp));
             (snap, s1, p2) = processor_copy_snapshot (ui_copy_clock inp) (ui_copy_elapsed inp)
               (ui_iso_now inp) wall s p1
         in (s1, with_debug (record_invalid_delta_case result (du_symbol ev) snap recv_ns
                    (ui_raw_excerpt inp)) p2))
      else (s, with_lifecycle on_message_before_ready p))"

definition is_gap_status :: "string \<Rightarrow> bool" where
  "is_gap_status status \<longleftrightarrow> status \<in> {''sequence_gap_or_reset'', ''sequence_bridge_failed'',
     ''previous_final_update_id_mismatch''}"

definition process_depth_update ::
  "update_inputs \<Rightarrow> depth_update \<Rightarrow> processor \<Rightarrow> py_error + (orderbook_apply_result \<times> processor)" where
  "process_depth_update inp ev p0 =
     (let p1 = count ''messages_parsed'' (count ''messages_received'' p0);
          (s0, p2) = state_for (ui_now inp) (du_symbol ev) p1; key = upper (du_symbol ev);
          recv_ns = int_or (recv_monotonic_ns ev) (ui_recv_clock inp);
          p3 = put_state key (record_message_recv recv_ns s0)
                 (record_ws_message_recv (du_symbol ev) recv_ns p2);
          p4 = snd (check_stale_periods recv_ns (Some [du_symbol ev]) (Some True) 0 p3);
          s4 = the (map_of (states p4) key);
          updates = ctr (updates_since_snapshot p4) key;
          qsize = (if ui_queue_lag_ms inp \<noteq> None then queue_current_size (monitor p4) else 0);
          (result, s5) = apply_delta (ui_now inp) (du_first_update_id ev) (du_final_update_id ev)
            (level_rows (du_bids ev)) (level_rows (du_asks ev)) recv_ns
            (du_previous_final_update_id ev) s4
      in case (if res_accepted result then after_accepted inp ev recv_ns s5 p4
               else Inr (after_rejected inp ev result recv_ns s5 p4)) of
           Inl e \<Rightarrow> Inl e
         | Inr (s, p5) \<Rightarrow>
             let p6 = record_post_snapshot_update_range ev result (generation s4)
                   (sequence_trace_classification result (awaiting_first_delta_after_snapshot s4))
                   (ready_to_emit s4) (snapshot_ready s4) qsize recv_ns (ui_trace_clock inp) s
                   (put_state key s p5);
                 p7 = (if is_gap_status (res_status result) then
                     record_sequence_gap_trace ev result (generation s4) (ready_to_emit s4)
                       (snapshot_ready s4) qsize updates recv_ns s p6 else p6);
                 p8 = (if res_accepted result \<and> \<not> ready_to_emit s4 \<and> ready_to_emit s then
                     with_debug (record_sequence_trace_event (ReadyRestoredTrace key (generation s)
                       (last_update_id s) (ready_to_emit s) (snapshot_ready s)
                       (ctr (updates_since_snapshot p7) key) recv_ns)) p7 else p7);
                 p9 = p8\<lparr>updates_since_snapshot := ctr_inc key (updates_since_snapshot p8)\<rparr>
             in Inr (result, if ready_to_emit s then p9 else with_lifecycle (observe_ready_false s) p9))"

definition validate_reported_best ::
  "update_inputs \<Rightarrow> string \<Rightarrow> pyval \<Rightarrow> pyval \<Rightarrow> int option \<Rightarrow> int option \<Rightarrow> int option \<Rightarrow> processor
     \<Rightarrow> py_error + (quality_result \<times> processor)" where
  "validate_reported_best inp symb reported_bid reported_ask first_id final_id exchange_ts p0 =
     (let (s0, p1) = state_for (ui_now inp) symb p0;
          (snap, s1, p2) = processor_copy_snapshot (ui_copy_clock inp) (ui_copy_elapsed inp)
            (ui_iso_now inp) None s0 p1
      in case quality_validate (validator p2) snap (Some s1) (Some (ui_validate_clock inp))
                reported_bid reported_ask None of
           Inl e \<Rightarrow> Inl e
         | Inr (q, s2) \<Rightarrow>
             let p3 = put_state (upper symb) (case s2 of None \<Rightarrow> s1 | Some x \<Rightarrow> x) p2
             in Inr (q, if any_mismatch (q_strict q)
                   then with_debug (record_mismatch_case snap q first_id final_id exchange_ts
                          (ui_raw_excerpt inp) None) p3
                   else p3))"

definition put_nowait ::
  "nat \<Rightarrow> depth_envelope \<Rightarrow> depth_envelope list \<times> int \<times> processor
     \<Rightarrow> depth_envelope list \<times> int \<times> processor" where
  \<comment> \<open>an \<open>asyncio.Queue(maxsize)\<close>; 0 is unbounded\<close>
  "put_nowait maxsize e st = (case st of (queue, dropped, p) \<Rightarrow>
     if maxsize = 0 \<or> length queue < maxsize then (queue @ [e], dropped, p)
     else (queue, dropped + 1, with_lifecycle (on_queue_dropped 1) (with_monitor (record_drop 1) p)))"

definition purge_queue_after_snapshot ::
  "int \<Rightarrow> int \<Rightarrow> nat \<Rightarrow> string \<Rightarrow> int \<Rightarrow> depth_envelope list \<Rightarrow> processor
     \<Rightarrow> purge_result \<times> depth_envelope list \<times> processor" where
  "purge_queue_after_snapshot now clock maxsize symb snapshot_id queue0 p0 =
     (let (r0, kept) = purge_queued_depth_updates_after_snapshot queue0 snapshot_id symb;
          (queue, dropped, p1) = fold (put_nowait maxsize) kept ([], 0, p0);
          r = (if dropped \<noteq> 0
               then r0\<lparr>pr_events_preserved_count := max 0 (pr_events_preserved_count r0 - dropped),
                       pr_queue_size_after := max 0 (pr_queue_size_after r0 - dropped)\<rparr>
               else r0);
          (s, p2) = state_for now symb p1;
          p3 = with_debug (record_sequence_trace_event (PurgeTrace r (generation s) clock)) p2
      in if pr_bridge_missing_after_snapshot r then
           let s1 = mark_not_ready now ''bridge_missing_after_snapshot'' (Some clock) True None s
           in (r, queue, with_lifecycle (observe_ready_false s1)
                 (put_state (upper symb) s1 (count ''bridge_missing_after_snapshot_count'' p3)))
         else (r, queue, p3))"

end
