(* ===== verification/Phase41Emission.thy ===== *)
theory Phase41Emission
  imports Phase41
begin

text \<open>
  What the operations of the processor keep: every book they hold is reachable (\<open>books_ok\<close>), and
  the counters of updates and samples account for each other (\<open>emission_inv\<close>). The invariant
  speaks of the \<open>emission_view\<close> of the processor only, so an operation that leaves the view alone
  keeps it.
\<close>

subsection \<open>What each step leaves alone\<close>

definition emission_view ::
  "processor \<Rightarrow> int list \<times> clean_sample list \<times> latency_profile list \<times> quality_validator \<times> int" where
  \<comment> \<open>the part of the processor the emission of samples depends on and writes\<close>
  "emission_view p =
     (map (ctr (p_counters p)) [''messages_received'', ''deltas_accepted'', ''deltas_rejected'',
        ''samples_emitted'', ''samples_blocked'', ''clean_sample_schema_violation_count''],
      clean_samples (debug p), latency_samples (debug p), validator p, depth_n p)"

definition books_ok :: "processor \<Rightarrow> bool" where
  "books_ok p \<longleftrightarrow> (\<forall>k s. map_of (states p) k = Some s \<longrightarrow> book_reach s)"

lemma emission_view_frames [frame_simps]:
  "emission_view (put_state k s p) = emission_view p"
  "emission_view (with_lifecycle f p) = emission_view p"
  "emission_view (with_monitor g p) = emission_view p"
  "emission_view (record_ws_message_recv symb t p) = emission_view p"
  "emission_view (record_delta_dequeued symb t p) = emission_view p"
  "emission_view (set_capture_active b p) = emission_view p"
  "emission_view (cleanup_symbol symb p) = emission_view p"
  "emission_view (mark_snapshot_recovery_active symb b t p) = emission_view p"
  by (simp_all add: emission_view_def put_state_def with_lifecycle_def with_monitor_def
      record_ws_message_recv_def record_delta_dequeued_def set_capture_active_def cleanup_symbol_def
      mark_snapshot_recovery_active_def Let_def)

lemma emission_view_records [frame_simps]:
  "emission_view (with_debug (record_stale_period_case i) p) = emission_view p"
  "emission_view (with_debug (record_sequence_trace_event ev) p) = emission_view p"
  "emission_view (with_debug (record_quality_sample snap q) p) = emission_view p"
  "emission_view (with_debug (record_mismatch_case snap q a b c e l) p) = emission_view p"
  "emission_view (with_debug (record_book_incomplete_case snap q r) p) = emission_view p"
  "emission_view (with_debug (record_sequence_gap_case res symb) p) = emission_view p"
  "emission_view (with_debug (record_duplicate_case res symb) p) = emission_view p"
  "emission_view (with_debug (record_invalid_delta_case res symb snap t e) p) = emission_view p"
  "emission_view (with_debug (record_schema_violation_case v) p) = emission_view p"
  by (simp_all add: emission_view_def with_debug_def record_stale_period_case_def
      record_sequence_trace_event_def record_quality_sample_def record_mismatch_case_def
      record_book_incomplete_case_def record_sequence_gap_case_def record_duplicate_case_def
      record_invalid_delta_case_def record_schema_violation_case_def Let_def)

lemma states_frames [frame_simps]:
  "states (with_lifecycle f p) = states p" "states (with_monitor g p) = states p"
  "states (with_debug h p) = states p" "states (count f1 p) = states p"
  "states (count_if b f1 p) = states p"
  "states (record_ws_message_recv symb t p) = states p"
  "states (record_delta_dequeued symb t p) = states p"
  "states (set_capture_active b p) = states p"
  "states (mark_snapshot_recovery_active symb b t p) = states p"
  "states (close_stale_period symb now p) = states p"
  by (simp_all add: with_lifecycle_def with_monitor_def with_debug_def count_def count_if_def
      record_ws_message_recv_def record_delta_dequeued_def set_capture_active_def
      mark_snapshot_recovery_active_def close_stale_period_def Let_def split: option.splits)

lemma states_put [frame_simps]: "map_of (states (put_state k s p)) j = (if j = k then Some s else map_of (states p) j)"
  by (simp add: put_state_def)

lemma books_ok_put [inv_intros]: "books_ok p \<Longrightarrow> book_reach s \<Longrightarrow> books_ok (put_state k s p)"
  by (simp add: books_ok_def frame_simps)

lemma books_ok_states: "states p' = states p \<Longrightarrow> books_ok p \<Longrightarrow> books_ok p'"
  by (simp add: books_ok_def)

lemma books_ok_frames [simp]:
  "books_ok (with_lifecycle f p) = books_ok p" "books_ok (with_monitor g p) = books_ok p"
  "books_ok (with_debug h p) = books_ok p" "books_ok (count f1 p) = books_ok p"
  "books_ok (count_if b f1 p) = books_ok p"
  "books_ok (record_ws_message_recv symb t p) = books_ok p"
  "books_ok (close_stale_period symb now p) = books_ok p"
  by (simp_all add: books_ok_def frame_simps)

lemma reach_ops [inv_intros]:
  "book_reach s \<Longrightarrow> book_reach (mark_not_ready now r t g b s)"
  "book_reach s \<Longrightarrow> book_reach (record_message_recv n s)"
  "book_reach s \<Longrightarrow> book_reach (snd (book_age_ms n s))"
  "book_reach s \<Longrightarrow> book_reach (snd (copy_snapshot now i k t w s))"
  "book_reach s \<Longrightarrow> book_reach (snd (apply_snapshot now i br ar k n w gen s))"
  "book_reach s \<Longrightarrow> book_reach (snd (apply_delta now f l br ar n b s))"
  using book_reach.step [of s now "''''" "OpNotReady r t g b"] book_reach.step [of s 0 "''''" "OpRecv n"]
    book_reach.step [of s 0 "''''" "OpAge n"] book_reach.step [of s now i "OpCopy k t w"]
    book_reach.step [of s now i "OpSnapshot br ar k n w gen"]
    book_reach.step [of s now "''''" "OpDelta f l br ar n b"]
  by simp_all

lemma new_state_reach [inv_intros]: "book_reach (new_state now symb)"
proof -
  have "fint (fmul (Fin 300) (Fin 1000000000)) \<noteq> None" by code_simp
  then have "orderbook_init symb (Fin 300) now = Some (new_state now symb)"
    by (auto simp: new_state_def orderbook_init_def)
  then show ?thesis by (rule book_reach.start)
qed

lemma state_for_ok:
  assumes "books_ok p" and "state_for now symb p = (s, p')"
  shows "book_reach s" and "books_ok p'" and "emission_view p' = emission_view p"
    and "map_of (states p') (upper symb) = Some s"
  using assms
  by (auto simp: state_for_def Let_def frame_simps books_ok_def new_state_reach split: option.splits if_splits)

lemma close_stale_view [frame_simps]: "emission_view (close_stale_period symb t p) = emission_view p"
  by (simp add: close_stale_period_def Let_def with_debug_def record_stale_period_case_def
      emission_view_def split: option.splits)

lemma count_view_other:
  "f \<notin> {''messages_received'', ''deltas_accepted'', ''deltas_rejected'', ''samples_emitted'',
     ''samples_blocked'', ''clean_sample_schema_violation_count''} \<Longrightarrow>
   emission_view (count f p) = emission_view p"
  by (auto simp: count_def emission_view_def)

lemma apply_stale_frames [frame_simps]:
  "states (record_processor_apply_stale symb s now a f q p) = states p"
  "emission_view (record_processor_apply_stale symb s now a f q p) = emission_view p"
  "states (record_post_capture_age_warning symb s now a p) = states p"
  "emission_view (record_post_capture_age_warning symb s now a p) = emission_view p"
  by (simp_all add: record_processor_apply_stale_def record_post_capture_age_warning_def Let_def
      count_def emission_view_def)

lemma feed_stale_states:
  "states (snd (record_feed_receive_stale symb s now f p)) =
     (if map_of (open_stale_periods p) symb = None
      then AList.update symb (mark_not_ready now ''feed_receive_stale'' (Some now) True None s) (states p)
      else states p)"
  by (simp add: record_feed_receive_stale_def Let_def frame_simps put_state_def split: option.splits)

lemma feed_stale_view [frame_simps]:
  "emission_view (snd (record_feed_receive_stale symb s now f p)) = emission_view p"
proof (cases "map_of (open_stale_periods p) symb")
  case None
  then show ?thesis
    by (simp add: record_feed_receive_stale_def Let_def frame_simps count_view_other)
      (simp add: emission_view_def)
qed (simp add: record_feed_receive_stale_def emission_view_def)

lemma misc_update_frames [frame_simps]:
  "states (p\<lparr>open_apply_stale_symbols := x, apply_stale_checks := y\<rparr>) = states p"
  "emission_view (p\<lparr>open_apply_stale_symbols := x, apply_stale_checks := y\<rparr>) = emission_view p"
  "states (p\<lparr>max_book_age_ms := m, last_age_at_report := l\<rparr>) = states p"
  "emission_view (p\<lparr>max_book_age_ms := m, last_age_at_report := l\<rparr>) = emission_view p"
  by (simp_all add: emission_view_def)

definition check_keeps :: "processor \<Rightarrow> processor \<Rightarrow> bool" where
  "check_keeps p p' \<longleftrightarrow> (books_ok p \<longrightarrow> books_ok p') \<and> emission_view p' = emission_view p
     \<and> (\<forall>k. map_of (states p) k \<noteq> None \<longrightarrow> map_of (states p') k \<noteq> None)"

lemma check_keeps_same:
  "states p' = states p \<Longrightarrow> emission_view p' = emission_view p \<Longrightarrow> check_keeps p p'"
  by (simp add: check_keeps_def books_ok_def)

lemma check_keeps_trans: "check_keeps p q \<Longrightarrow> check_keeps q r \<Longrightarrow> check_keeps p r"
  by (simp add: check_keeps_def)

lemma check_keeps_put:
  "(books_ok p \<Longrightarrow> book_reach s) \<Longrightarrow> check_keeps p (put_state k s p)"
  by (simp add: check_keeps_def frame_simps books_ok_put)

lemma check_keeps_feed_stale:
  "(books_ok p \<Longrightarrow> book_reach s) \<Longrightarrow> check_keeps p (snd (record_feed_receive_stale symb s now f p))"
  by (simp add: check_keeps_def frame_simps books_ok_def feed_stale_states reach_ops)

lemma check_symbol_keeps: "check_keeps p (snd (check_symbol now a q symb (periods, p)))"
proof (cases "map_of (states p) symb")
  case None
  then show ?thesis by (simp add: check_symbol_def check_keeps_same)
next
  case (Some s0)
  define s where "s = snd (book_age_ms now s0)"
  define age where "age = fst (book_age_ms now s0)"
  define p2 where "p2 = (case age of None \<Rightarrow> put_state symb s p
    | Some x \<Rightarrow> (put_state symb s p)\<lparr>max_book_age_ms := pymax (max_book_age_ms (put_state symb s p)) x,
        last_age_at_report := Some x\<rparr>)"
  have r: "books_ok p \<Longrightarrow> book_reach s" using Some by (auto simp: books_ok_def s_def intro: reach_ops)
  have p2: "check_keeps p p2"
    by (rule check_keeps_trans [OF check_keeps_put [of p s symb, OF r]])
      (auto simp: p2_def frame_simps intro!: check_keeps_same split: option.splits)
  have "map_of (states p2) symb = Some s" by (simp add: p2_def frame_simps split: option.splits)
  then have r2: "books_ok p2 \<Longrightarrow> book_reach s" by (auto simp: books_ok_def)
  let ?p3 = "close_stale_period symb (Some now) p2"
  have p3: "check_keeps p2 ?p3" by (rule check_keeps_same) (simp_all add: frame_simps)
  have st: "map_of (states p) symb = Some s0" by (rule Some)
  have eq: "snd (check_symbol now a q symb (periods, p)) =
     (if \<not> a then (case age of
          Some x \<Rightarrow> if fless (stale_threshold_ms p2) x \<and> map_of (open_stale_periods p2) symb = None
             then record_post_capture_age_warning symb s now x p2 else p2
        | None \<Rightarrow> p2)
      else if symb \<in> set (recovery_active_symbols p2) then
        (if q > 0 then with_monitor (record_snapshot_blocking_lag 1) p2 else p2)
      else if feed_stale p2 (feed_receive_age_ms symb now (put_state symb s p)) q then
        snd (record_feed_receive_stale symb s now
          (the (feed_receive_age_ms symb now (put_state symb s p))) p2)
      else if processor_apply_stale ?p3 age (feed_receive_age_ms symb now (put_state symb s p)) q then
        record_processor_apply_stale symb s now (the age) (feed_receive_age_ms symb now (put_state symb s p)) q ?p3
      else ?p3\<lparr>open_apply_stale_symbols := removeAll symb (open_apply_stale_symbols ?p3),
               apply_stale_checks := AList.update symb 0 (apply_stale_checks ?p3)\<rparr>)"
    by (cases age) (simp_all add: check_symbol_def st Let_def split_beta p2_def flip: s_def age_def)
  have "check_keeps p2 (snd (check_symbol now a q symb (periods, p)))"
    unfolding eq
    by (cases age) (auto simp: frame_simps intro!: check_keeps_same check_keeps_feed_stale [OF r2])
  with p2 show ?thesis by (rule check_keeps_trans)
qed

lemma check_stale_keeps: "check_keeps p (snd (check_stale_periods now sy fa q p))"
proof -
  have "check_keeps p (snd (fold (check_symbol now a q) xs (l, p)))" for a xs l
  proof (induction xs arbitrary: l p)
    case (Cons x xs)
    show ?case
      using check_keeps_trans [OF check_symbol_keeps [of p now a q x l] Cons.IH]
      by (cases "check_symbol now a q x (l, p)") simp
  qed (simp add: check_keeps_same)
  then show ?thesis by (simp add: check_stale_periods_def Let_def)
qed

subsection \<open>Emission\<close>

definition emission_inv :: "int \<Rightarrow> int \<Rightarrow> processor \<Rightarrow> bool" where
  \<comment> \<open>\<open>r\<close> updates received and not yet decided, \<open>b\<close> accepted and not yet emitted or blocked\<close>
  "emission_inv r b p \<longleftrightarrow> (case emission_view p of (counts, clean, latency, v, n) \<Rightarrow>
     counts ! 0 = counts ! 1 + counts ! 2 + r \<and> counts ! 1 = counts ! 3 + counts ! 4 + b
     \<and> counts ! 5 = 0 \<and> counts ! 3 = int (length clean) \<and> length latency = length clean
     \<and> (\<forall>x\<in>set clean. validate_clean_sample_schema x = [])
     \<and> 0 < n \<and> (\<exists>limit. stale_after_ms v = Fin limit))"

lemma emission_inv_cong:
  "emission_view p' = emission_view p \<Longrightarrow> emission_inv r b p' = emission_inv r b p"
  by (simp add: emission_inv_def)

lemma emission_inv_fields:
  "emission_inv r b p \<longleftrightarrow>
     ctr (p_counters p) ''messages_received'' = ctr (p_counters p) ''deltas_accepted''
       + ctr (p_counters p) ''deltas_rejected'' + r
     \<and> ctr (p_counters p) ''deltas_accepted'' = ctr (p_counters p) ''samples_emitted''
       + ctr (p_counters p) ''samples_blocked'' + b
     \<and> ctr (p_counters p) ''clean_sample_schema_violation_count'' = 0
     \<and> ctr (p_counters p) ''samples_emitted'' = int (length (clean_samples (debug p)))
     \<and> length (latency_samples (debug p)) = length (clean_samples (debug p))
     \<and> (\<forall>x\<in>set (clean_samples (debug p)). validate_clean_sample_schema x = [])
     \<and> 0 < depth_n p \<and> (\<exists>limit. stale_after_ms (validator p) = Fin limit)"
  by (simp add: emission_inv_def emission_view_def)

lemma ctr_count [simp]:
  "ctr (p_counters (count f p)) g = (if g = f then ctr (p_counters p) f + 1 else ctr (p_counters p) g)"
  "debug (count f p) = debug p" "depth_n (count f p) = depth_n p" "validator (count f p) = validator p"
  by (simp_all add: count_def)

lemma emission_inv_count:
  "emission_inv r b p \<Longrightarrow> emission_inv (r + 1) b (count ''messages_received'' p)"
  "emission_inv r b p \<Longrightarrow> emission_inv (r - 1) (b + 1) (count ''deltas_accepted'' p)"
  "emission_inv r b p \<Longrightarrow> emission_inv (r - 1) b (count ''deltas_rejected'' p)"
  "emission_inv r b p \<Longrightarrow> emission_inv r (b - 1) (count ''samples_blocked'' p)"
  by (simp_all add: emission_inv_fields)

lemma emission_inv_frames:
  "emission_view p' = emission_view p \<Longrightarrow> emission_inv r b p \<Longrightarrow> emission_inv r b p'"
  by (simp add: emission_inv_def)

lemma block_sample_inv:
  "emission_inv r b p \<Longrightarrow> emission_inv r (b - 1) (block_sample snap q p)"
proof -
  assume a: "emission_inv r b p"
  have "emission_view (block_sample snap q p) = emission_view (count ''samples_blocked'' p)"
    by (simp add: block_sample_def Let_def frame_simps with_lifecycle_def with_debug_def
        record_book_incomplete_case_def emission_view_def)
  then show ?thesis using emission_inv_count(4) [OF a] by (rule emission_inv_frames)
qed

lemma block_sample_states: "states (block_sample snap q p) = states p"
  by (simp add: block_sample_def Let_def with_lifecycle_def with_debug_def count_def)

lemma maybe_emit_states: "states (maybe_emit_or_block_sample inp ev snap q p) = states p"
  by (simp add: maybe_emit_or_block_sample_def Let_def block_sample_states frame_simps)

lemma maybe_emit_inv:
  assumes "emission_inv r b p"
    and "q_is_valid q \<Longrightarrow>
      validate_clean_sample_schema (clean_sample_from_snapshot snap q (depth_n p) (exchange_event_ts ev)) = []"
  shows "emission_inv r (b - 1) (maybe_emit_or_block_sample inp ev snap q p)"
proof -
  define p1 where "p1 = count_if (''stale_book'' \<in> set (q_errors q)) ''stale_book_count''
                (count_if (''crossed_book'' \<in> set (q_errors q)) ''crossed_book_count''
                  (count_if (any_mismatch (q_tolerant q)) ''tolerant_mismatch_count''
                    (count_if (any_mismatch (q_strict q)) ''strict_mismatch_count'' p)))"
  have view: "emission_view p1 = emission_view p"
    by (simp add: p1_def count_if_def count_view_other)
  then have v: "depth_n p1 = depth_n p" "emission_inv r b p1"
    using emission_inv_frames [OF view assms(1)] by (simp_all add: emission_view_def)
  show ?thesis
  proof (cases "q_is_valid q")
    case False
    then show ?thesis using block_sample_inv [OF v(2)]
      by (simp add: maybe_emit_or_block_sample_def Let_def flip: p1_def)
  next
    case True
    then show ?thesis using v assms(2)
      by (simp add: maybe_emit_or_block_sample_def Let_def emission_inv_fields with_debug_def count_def
          record_latency_profile_sample_def record_clean_sample_def flip: p1_def)
  qed
qed

lemma processor_copy_ok:
  assumes "processor_copy_snapshot now el i w s p = (snap, s1, p')" and "book_reach s"
  shows "s1 = s" and "states p' = states p" and "emission_view p' = emission_view p"
    and "depth_n p' = depth_n p" and "validator p' = validator p"
    and "\<exists>t. snap = fst (copy_snapshot now i (depth_n p) (Some t) (or_str w (Some i)) s)"
proof -
  have so: "sides_ok s" using book_reach_inv [OF assms(2)] by (simp add: book_inv_def)
  have "snd (copy_snapshot now i k t x s) = s" for k t x
    using so by (simp add: copy_snapshot_def Let_def)
  then have c: "copy_snapshot now i k t x s = (a, b) \<Longrightarrow> b = s \<and> a = fst (copy_snapshot now i k t x s)"
    for k t x a b
    by (metis fst_conv snd_conv)
  show "s1 = s" "states p' = states p" "emission_view p' = emission_view p"
    "depth_n p' = depth_n p" "validator p' = validator p"
    "\<exists>t. snap = fst (copy_snapshot now i (depth_n p) (Some t) (or_str w (Some i)) s)"
    using assms(1)
    by (auto simp: processor_copy_snapshot_def Let_def emission_view_def dest!: c split: prod.splits)
qed

lemma after_accepted_ok:
  assumes "book_reach s" and "last_book_update_monotonic_ns s = Some recv_ns"
    and "emission_inv 1 0 p" and "ui_iso_now inp \<noteq> []"
  shows "\<exists>p'. after_accepted inp ev recv_ns s p = Inr (s, p') \<and> emission_inv 0 0 p' \<and> states p' = states p"
proof -
  define p1 where "p1 = close_stale_period (du_symbol ev) (Some recv_ns) (count ''deltas_accepted'' p)"
  define wall where "wall = or_str (ui_iso_event inp) (Some (ui_iso_now inp))"
  define check_ns where "check_ns = max (ui_validate_clock inp) recv_ns"
  obtain snap s1 p2 where c: "processor_copy_snapshot (ui_copy_clock inp) (ui_copy_elapsed inp)
      (ui_iso_now inp) wall s p1 = (snap, s1, p2)" by (metis prod_cases3)
  note cp = processor_copy_ok [OF c assms(1)]
  have "emission_inv 0 1 (count ''deltas_accepted'' p)" using emission_inv_count(2) [OF assms(3)] by simp
  then have e1: "emission_inv 0 1 p1" unfolding p1_def by (rule emission_inv_frames [rotated]) (simp add: frame_simps)
  have e2: "emission_inv 0 1 p2" by (rule emission_inv_frames [OF cp(3) e1])
  obtain q where q: "quality_validate (validator p2) snap (Some s) (Some check_ns) VNone VNone
      (ui_queue_lag_ms inp) = Inr (q, Some s)"
    using quality_without_reports [OF assms(1)] by blast
  define p3 where "p3 = with_debug (record_quality_sample snap q) p2"
  have e3: "emission_inv 0 1 p3" unfolding p3_def by (rule emission_inv_frames [OF _ e2]) (simp add: frame_simps)
  have "validate_clean_sample_schema (clean_sample_from_snapshot snap q (depth_n p3) (exchange_event_ts ev)) = []"
    if valid: "q_is_valid q"
  proof -
    obtain t where snap: "snap = fst (copy_snapshot (ui_copy_clock inp) (ui_iso_now inp) (depth_n p1)
        (Some t) (or_str wall (Some (ui_iso_now inp))) s)" using cp(6) by blast
    have n: "0 < depth_n p1" using e1 by (simp add: emission_inv_fields)
    obtain limit where lim: "stale_after_ms (validator p2) = Fin limit"
      using e2 by (auto simp: emission_inv_fields)
    have wall: "or_str (snap_local_recv_wall_ts snap) None \<noteq> None"
      using assms(4) by (auto simp: snap copy_snapshot_def Let_def wall_def or_str_def)
    have "depth_n p3 = depth_n p1" using cp(4) by (simp add: p3_def with_debug_def)
    then show ?thesis
      using valid_quality_passes_schema [OF assms(1) n snap q valid lim assms(2) _ wall]
      by (simp add: check_ns_def)
  qed
  from maybe_emit_inv [OF e3 this]
  have e4: "emission_inv 0 0 (maybe_emit_or_block_sample inp ev snap q p3)" by simp
  have "after_accepted inp ev recv_ns s p = Inr (s, maybe_emit_or_block_sample inp ev snap q p3)"
    using q c cp(1) by (simp add: after_accepted_def Let_def p1_def [symmetric] wall_def [symmetric]
        check_ns_def [symmetric] p3_def)
  moreover have "states (maybe_emit_or_block_sample inp ev snap q p3) = states p"
    using cp(2) by (simp add: maybe_emit_states p3_def frame_simps p1_def)
  ultimately show ?thesis using e4 by blast
qed

lemma after_rejected_ok:
  assumes "book_reach s" and "emission_inv 1 0 p"
  shows "fst (after_rejected inp ev res recv_ns s p) = s
    \<and> emission_inv 0 0 (snd (after_rejected inp ev res recv_ns s p))
    \<and> states (snd (after_rejected inp ev res recv_ns s p)) = states p"
proof -
  have e: "emission_inv 0 0 (count ''deltas_rejected'' p)" using emission_inv_count(3) [OF assms(2)] by simp
  obtain snap s1 p2 where c: "processor_copy_snapshot (ui_copy_clock inp) (ui_copy_elapsed inp)
      (ui_iso_now inp) (or_str (ui_iso_event inp) (Some (ui_iso_now inp))) s
      (count ''ready_to_emit_disabled_count'' (count ''invalid_delta_count'' (count ''deltas_rejected'' p)))
      = (snap, s1, p2)" by (metis prod_cases3)
  note cp = processor_copy_ok [OF c assms(1)]
  have view: "emission_view (snd (after_rejected inp ev res recv_ns s p))
      = emission_view (count ''deltas_rejected'' p)"
    using c cp by (simp add: after_rejected_def Let_def frame_simps count_if_def count_view_other)
  have "fst (after_rejected inp ev res recv_ns s p) = s"
    "states (snd (after_rejected inp ev res recv_ns s p)) = states p"
    using c cp by (simp_all add: after_rejected_def Let_def frame_simps)
  with emission_inv_frames [OF view e] show ?thesis by simp
qed

subsection \<open>One update\<close>

lemma delta_sets_book_update:
  assumes "book_reach s" and "res_accepted (fst (apply_delta now a b br ar t pf s))"
  shows "last_book_update_monotonic_ns (snd (apply_delta now a b br ar t pf s)) = Some t"
proof -
  have acc: "delta_continues a b pf s" "delta_parses br ar" using assms(2) by (simp_all add: delta_accepted_iff)
  have "sides_ok (record_message_recv t s)"
    using book_reach_inv [OF reach_ops(2) [OF assms(1)]] by (simp add: book_inv_def)
  note so = delta_state_sides [OF this]
  show ?thesis using delta_accepted [OF acc]
    by (simp add: refresh_frame [OF so]) (simp add: delta_state_def Let_def)
qed

lemma trace_frames [frame_simps]:
  "states (record_post_snapshot_update_range ev r g c rb lb q rn an s p) = states p"
  "emission_view (record_post_snapshot_update_range ev r g c rb lb q rn an s p) = emission_view p"
  "states (record_sequence_gap_trace ev r g rb lb q u rn s p) = states p"
  "emission_view (record_sequence_gap_trace ev r g rb lb q u rn s p) = emission_view p"
  by (simp_all add: record_post_snapshot_update_range_def record_sequence_gap_trace_def Let_def
      frame_simps) (simp add: emission_view_def with_debug_def record_sequence_trace_event_def)

lemma updates_since_frames [frame_simps]:
  "states (p\<lparr>updates_since_snapshot := u\<rparr>) = states p"
  "emission_view (p\<lparr>updates_since_snapshot := u\<rparr>) = emission_view p"
  by (simp_all add: emission_view_def)

definition finish_update ::
  "update_inputs \<Rightarrow> depth_update \<Rightarrow> orderbook_apply_result \<Rightarrow> orderbook_state \<Rightarrow> int \<Rightarrow> int \<Rightarrow> int
     \<Rightarrow> orderbook_state \<Rightarrow> processor \<Rightarrow> processor" where
  \<comment> \<open>the traces after the decision\<close>
  "finish_update inp ev result s4 updates qsize recv_ns s p5 =
     (let key = upper (du_symbol ev);
          p6 = record_post_snapshot_update_range ev result (generation s4)
                   (sequence_trace_classification result (awaiting_first_delta_after_snapshot s4))
                   (ready_to_emit s4) (snapshot_ready s4) qsize recv_ns (ui_trace_clock inp) s
                   (put_state key s p5);
          p7 = (if is_gap_status (res_status result) then
                     record_sequence_gap_trace ev result (generation s4) (ready_to_emit s4)
                       (snapshot_ready s4) qsize updates recv_ns s p6 else p6);
          p8 = (if res_accepted result \<and> \<not> ready_to_emit s4 \<and> ready_to_emit s then
                     with_debug (record_sequence_trace_event (ReadyRestoredTrace key (generation s)
                       (last_update_id s) (ready_to_emit s) (snapshot_ready s)
                       (ctr (updates_since_snapshot p7) key) recv_ns)) p7 else p7);
          p9 = p8\<lparr>updates_since_snapshot := ctr_inc key (updates_since_snapshot p8)\<rparr>
      in if ready_to_emit s then p9 else with_lifecycle (observe_ready_false s) p9)"

lemma finish_update_frames:
  "emission_view (finish_update inp ev r s4 u q n s p) = emission_view p"
  "states (finish_update inp ev r s4 u q n s p) = states (put_state (upper (du_symbol ev)) s p)"
  by (simp_all add: finish_update_def Let_def frame_simps)

lemma process_depth_update_finish:
  "process_depth_update inp ev p0 =
     (let p1 = count ''messages_parsed'' (count ''messages_received'' p0);
          (s0, p2) = state_for (ui_now inp) (du_symbol ev) p1; key = upper (du_symbol ev);
          recv_ns = int_or (recv_monotonic_ns ev) (ui_recv_clock inp);
          p3 = put_state key (record_message_recv recv_ns s0)
                 (record_ws_message_recv (du_symbol ev) recv_ns p2);
          p4 = snd (check_stale_periods recv_ns (Some [du_symbol ev]) (Some True) 0 p3);
          s4 = the (map_of (states p4) key);
          updates = ctr (updates_since_snapshot p4) key;
          qsize = (if ui_queue_lag_ms inp \<noteq> None then queue_current_size (monitor p4) else 0);
          (result, s5) = apply_delta (ui_now inp) (du_first_update_id ev) (du_final_update_id ev)
            (level_rows (du_bids ev)) (level_rows (du_asks ev)) recv_ns
            (du_previous_final_update_id ev) s4
      in map_sum id (\<lambda>(s, p5). (result, finish_update inp ev result s4 updates qsize recv_ns s p5))
           (if res_accepted result then after_accepted inp ev recv_ns s5 p4
            else Inr (after_rejected inp ev result recv_ns s5 p4)))"
  unfolding process_depth_update_def finish_update_def Let_def
  by (auto split: prod.splits sum.splits)

lemma update_start_ok:
  assumes "books_ok p" and "emission_inv 0 0 p"
    and "state_for now symb (count ''messages_parsed'' (count ''messages_received'' p)) = (s0, p2)"
    and "p4 = snd (check_stale_periods t (Some [symb]) (Some True) 0
                 (put_state (upper symb) (record_message_recv t s0) (record_ws_message_recv symb t p2)))"
  shows "books_ok p4" and "emission_inv 1 0 p4"
    and "\<exists>s4. map_of (states p4) (upper symb) = Some s4 \<and> book_reach s4"
proof -
  let ?p1 = "count ''messages_parsed'' (count ''messages_received'' p)"
  have b1: "books_ok ?p1" using assms(1) by simp
  have e0: "emission_inv 1 0 (count ''messages_received'' p)" using emission_inv_count(1) [OF assms(2)] by simp
  have e1: "emission_inv 1 0 ?p1" by (rule emission_inv_frames [OF _ e0]) (simp add: count_view_other)
  note sf = state_for_ok [OF b1 assms(3)]
  define p3 where "p3 = put_state (upper symb) (record_message_recv t s0) (record_ws_message_recv symb t p2)"
  have b3: "books_ok p3" using sf(1,2) by (simp add: p3_def books_ok_put reach_ops)
  have e3: "emission_inv 1 0 p3"
    by (rule emission_inv_frames [OF _ e1]) (simp add: p3_def frame_simps sf(3))
  have k: "check_keeps p3 p4" unfolding assms(4) p3_def by (rule check_stale_keeps)
  show b4: "books_ok p4" using k b3 by (simp add: check_keeps_def)
  have v4: "emission_view p4 = emission_view p3" using k by (simp add: check_keeps_def)
  show "emission_inv 1 0 p4" by (rule emission_inv_frames [OF v4 e3])
  have "map_of (states p3) (upper symb) \<noteq> None" by (simp add: p3_def frame_simps)
  then have "map_of (states p4) (upper symb) \<noteq> None" using k unfolding check_keeps_def by blast
  then show "\<exists>s4. map_of (states p4) (upper symb) = Some s4 \<and> book_reach s4"
    using b4 by (auto simp: books_ok_def)
qed

lemma process_depth_update_ok:
  assumes "books_ok p" and "emission_inv 0 0 p" and "ui_iso_now inp \<noteq> []"
  shows "\<exists>res p'. process_depth_update inp ev p = Inr (res, p') \<and> books_ok p' \<and> emission_inv 0 0 p'"
proof -
  define t where "t = int_or (recv_monotonic_ns ev) (ui_recv_clock inp)"
  obtain s0 p2 where sf: "state_for (ui_now inp) (du_symbol ev)
      (count ''messages_parsed'' (count ''messages_received'' p)) = (s0, p2)" by fastforce
  define p4 where "p4 = snd (check_stale_periods t (Some [du_symbol ev]) (Some True) 0
      (put_state (upper (du_symbol ev)) (record_message_recv t s0)
        (record_ws_message_recv (du_symbol ev) t p2)))"
  note st = update_start_ok [OF assms(1,2) sf p4_def]
  obtain s4 where s4: "map_of (states p4) (upper (du_symbol ev)) = Some s4" "book_reach s4"
    using st(3) by blast
  obtain result s5 where ad: "apply_delta (ui_now inp) (du_first_update_id ev) (du_final_update_id ev)
      (level_rows (du_bids ev)) (level_rows (du_asks ev)) t (du_previous_final_update_id ev) s4
      = (result, s5)" by fastforce
  have r5: "book_reach s5"
    using reach_ops(6) [OF s4(2)] ad by (metis snd_conv)
  have "\<exists>p5. (if res_accepted result then after_accepted inp ev t s5 p4
            else Inr (after_rejected inp ev result t s5 p4)) = Inr (s5, p5)
          \<and> emission_inv 0 0 p5 \<and> states p5 = states p4"
  proof (cases "res_accepted result")
    case True
    then have "last_book_update_monotonic_ns s5 = Some t"
      using delta_sets_book_update [OF s4(2)] ad by (metis fst_conv snd_conv)
    from after_accepted_ok [OF r5 this st(2) assms(3)] True show ?thesis by simp
  next
    case False
    then show ?thesis using after_rejected_ok [OF r5 st(2), of inp ev result t]
      by (cases "after_rejected inp ev result t s5 p4") simp
  qed
  then obtain p5 where p5: "(if res_accepted result then after_accepted inp ev t s5 p4
            else Inr (after_rejected inp ev result t s5 p4)) = Inr (s5, p5)"
      "emission_inv 0 0 p5" "states p5 = states p4" by blast
  define u where "u = ctr (updates_since_snapshot p4) (upper (du_symbol ev))"
  define q where "q = (if ui_queue_lag_ms inp \<noteq> None then queue_current_size (monitor p4) else 0)"
  let ?p' = "finish_update inp ev result s4 u q t s5 p5"
  have eq: "process_depth_update inp ev p = Inr (result, ?p')"
    unfolding process_depth_update_finish Let_def sf prod.case t_def [symmetric] p4_def [symmetric]
      s4(1) option.sel u_def [symmetric] q_def [symmetric] ad p5(1) by simp
  have "books_ok p5" using st(1) p5(3) by (rule books_ok_states [rotated])
  then have "books_ok (put_state (upper (du_symbol ev)) s5 p5)" by (rule books_ok_put [OF _ r5])
  then have "books_ok ?p'" by (rule books_ok_states [OF finish_update_frames(2)])
  moreover have "emission_inv 0 0 ?p'" by (rule emission_inv_frames [OF finish_update_frames(1) p5(2)])
  ultimately show ?thesis using eq by blast
qed

subsection \<open>The other operations\<close>

lemma load_snapshot_ok:
  assumes "books_ok p" and "emission_inv r b p"
  shows "books_ok (snd (load_snapshot inp symb br ar n g rc p))"
    and "emission_inv r b (snd (load_snapshot inp symb br ar n g rc p))"
proof -
  obtain s0 p1 where sf: "state_for (li_now inp) symb p = (s0, p1)" by fastforce
  note st = state_for_ok [OF assms(1) sf]
  define apply_ns where "apply_ns = (case li_apply inp of Some t \<Rightarrow> t
            | None \<Rightarrow> (case li_local_recv inp of Some t \<Rightarrow> t | None \<Rightarrow> li_clock inp))"
  obtain result s where as: "apply_snapshot (li_now inp) (li_iso_now inp) br ar n apply_ns
      (Some (li_iso_now inp)) g s0 = (result, s)" by fastforce
  have r: "book_reach s" using reach_ops(5) [OF st(1)] as by (metis snd_conv)
  have b2: "books_ok (put_state (upper symb) s p1)" by (rule books_ok_put [OF st(2) r])
  have misc: "states (q\<lparr>post_snapshot_trace_counts := a, updates_since_snapshot := b, last_snapshot_ids := c\<rparr>)
      = states q" "emission_view (q\<lparr>post_snapshot_trace_counts := a, updates_since_snapshot := b,
        last_snapshot_ids := c\<rparr>) = emission_view q" for q a b c
    by (simp_all add: emission_view_def)
  let ?p' = "snd (load_snapshot inp symb br ar n g rc p)"
  have fr: "states ?p' = states (put_state (upper symb) s p1)" "emission_view ?p' = emission_view p"
    by (simp_all add: load_snapshot_def Let_def sf as apply_ns_def [symmetric] frame_simps misc st(3))
  show "books_ok ?p'" by (rule books_ok_states [OF fr(1) b2])
  show "emission_inv r b ?p'" by (rule emission_inv_frames [OF fr(2) assms(2)])
qed

lemma validate_reported_best_ok:
  assumes "books_ok p" and "emission_inv r b p"
    and "validate_reported_best inp symb rb ra fi la ts p = Inr (q, p')"
  shows "books_ok p'" and "emission_inv r b p'"
proof -
  obtain s0 p1 where sf: "state_for (ui_now inp) symb p = (s0, p1)" by fastforce
  note st = state_for_ok [OF assms(1) sf]
  obtain snap s1 p2 where c: "processor_copy_snapshot (ui_copy_clock inp) (ui_copy_elapsed inp)
      (ui_iso_now inp) None s0 p1 = (snap, s1, p2)" by (metis prod_cases3)
  note cp = processor_copy_ok [OF c st(1)]
  obtain s2 where v: "quality_validate (validator p2) snap (Some s0) (Some (ui_validate_clock inp)) rb ra
      None = Inr (q, s2)"
    and p': "p' = (let p3 = put_state (upper symb) (case s2 of None \<Rightarrow> s1 | Some x \<Rightarrow> x) p2
       in if any_mismatch (q_strict q) then with_debug (record_mismatch_case snap q fi la ts
            (ui_raw_excerpt inp) None) p3 else p3)"
    using assms(3) cp(1)
    by (auto simp: validate_reported_best_def Let_def sf c split: sum.splits prod.splits if_splits)
  have "s2 = Some s0" using quality_validate_valid [OF st(1) v] by simp
  then have "states p' = states (put_state (upper symb) s0 p2)" "emission_view p' = emission_view p"
    using cp(3) st(3) by (simp_all add: p' Let_def frame_simps)
  moreover have "books_ok (put_state (upper symb) s0 p2)"
    using books_ok_put [OF books_ok_states [OF cp(2) st(2)] st(1)] .
  ultimately show "books_ok p'" "emission_inv r b p'"
    by (auto intro: books_ok_states emission_inv_frames [OF _ assms(2)])
qed

lemma put_nowait_frames:
  "states (snd (snd (fold (put_nowait n) es (q, d, p)))) = states p
   \<and> emission_view (snd (snd (fold (put_nowait n) es (q, d, p)))) = emission_view p"
  by (induction es arbitrary: q d p) (simp_all add: put_nowait_def frame_simps)

lemma purge_queue_ok:
  assumes "books_ok p" and "emission_inv r b p"
  shows "books_ok (snd (snd (purge_queue_after_snapshot now clk n symb i q p)))"
    and "emission_inv r b (snd (snd (purge_queue_after_snapshot now clk n symb i q p)))"
proof -
  obtain r0 kept where pq: "purge_queued_depth_updates_after_snapshot q i symb = (r0, kept)" by fastforce
  obtain q1 d p1 where f: "fold (put_nowait n) kept ([], 0, p) = (q1, d, p1)" by (metis prod_cases3)
  have p1: "states p1 = states p" "emission_view p1 = emission_view p"
    using put_nowait_frames [of n kept "[]" 0 p] by (simp_all add: f)
  obtain s p2 where sf: "state_for now symb p1 = (s, p2)" by fastforce
  note st = state_for_ok [OF books_ok_states [OF p1(1) assms(1)] sf]
  let ?p' = "snd (snd (purge_queue_after_snapshot now clk n symb i q p))"
  have "emission_view ?p' = emission_view p"
    by (simp add: purge_queue_after_snapshot_def Let_def pq f sf frame_simps st(3) p1 count_view_other)
  then show "emission_inv r b ?p'" by (rule emission_inv_frames [OF _ assms(2)])
  have "states ?p' = states p2 \<or> (\<exists>reason. states ?p' =
      states (put_state (upper symb) (mark_not_ready now reason (Some clk) True None s) p2))"
    by (auto simp: purge_queue_after_snapshot_def Let_def pq f sf frame_simps put_state_def)
  then show "books_ok ?p'"
    by (auto intro: books_ok_states [OF _ st(2)]
        books_ok_states [OF _ books_ok_put [OF st(2) reach_ops(1) [OF st(1)]]])
qed

lemma books_ok_delete: "books_ok p \<Longrightarrow> books_ok (cleanup_symbol symb p)"
  by (auto simp: books_ok_def cleanup_symbol_def delete_conv' split: if_splits)

lemma processor_init_ok:
  assumes "0 < depth" and "stale = Fin limit"
  shows "books_ok (processor_init now symbols depth stale feed w sv n batch)"
    and "emission_inv 0 0 (processor_init now symbols depth stale feed w sv n batch)"
proof -
  have st: "\<forall>k s. map_of (fold (\<lambda>x. AList.update (upper x) (new_state now x)) symbols d) k = Some s \<longrightarrow> book_reach s"
    if "\<forall>k s. map_of d k = Some s \<longrightarrow> book_reach s" for d
    using that
  proof (induction symbols arbitrary: d)
    case (Cons a symbols)
    have "\<forall>k s. map_of (AList.update (upper a) (new_state now a) d) k = Some s \<longrightarrow> book_reach s"
      using Cons.prems by (simp add: update_conv' new_state_reach)
    from Cons.IH [OF this] show ?case by simp
  qed simp
  show "books_ok (processor_init now symbols depth stale feed w sv n batch)"
    using st [of "[]"] by (simp add: books_ok_def processor_init_def)
  show "emission_inv 0 0 (processor_init now symbols depth stale feed w sv n batch)"
    using assms by (simp add: emission_inv_fields processor_init_def recorder_init_def ctr_def)
qed

end
