(* ===== verification/Phase41Flow.thy ===== *)
theory Phase41Flow
  imports Phase41Emission
begin

text \<open>
  Where the updates go: the \<open>transport_view\<close> of the processor counts the updates it received, the
  ones the queue dropped and the ones a purge removed. An update that is processed counts once,
  and a purge moves the envelopes it removes from the queue to its count.
\<close>

subsection \<open>Messages received, dropped and purged\<close>

fun purged_by :: "trace_event \<Rightarrow> int" where
  "purged_by (PurgeTrace r g t) = pr_old_events_dropped r + pr_future_events_dropped r"
| "purged_by _ = 0"

definition transport_view :: "processor \<Rightarrow> int \<times> int \<times> int" where
  \<comment> \<open>updates received, updates dropped at the queue, updates removed by a purge\<close>
  "transport_view p = (ctr (p_counters p) ''messages_received'', queue_dropped_messages (monitor p),
     sum_list (map purged_by (submitted (sequence_recovery_trace (debug p)))))"

lemma log_case_submitted [simp]: "submitted (log_case n x l) = submitted l @ [x]"
  by (simp add: log_case_def)

lemma transport_frames [frame_simps]:
  "transport_view (put_state k s p) = transport_view p"
  "transport_view (with_lifecycle f p) = transport_view p"
  "transport_view (record_ws_message_recv symb t p) = transport_view p"
  "transport_view (record_delta_dequeued symb t p) = transport_view p"
  "transport_view (set_capture_active b p) = transport_view p"
  "transport_view (cleanup_symbol symb p) = transport_view p"
  "transport_view (mark_snapshot_recovery_active symb b t p) = transport_view p"
  "transport_view (p\<lparr>updates_since_snapshot := u\<rparr>) = transport_view p"
  "transport_view (p\<lparr>open_apply_stale_symbols := x, apply_stale_checks := y\<rparr>) = transport_view p"
  "transport_view (p\<lparr>max_book_age_ms := m, last_age_at_report := l\<rparr>) = transport_view p"
  "transport_view (p\<lparr>post_snapshot_trace_counts := a, updates_since_snapshot := b', last_snapshot_ids := c\<rparr>)
     = transport_view p"
  by (simp_all add: transport_view_def put_state_def with_lifecycle_def record_ws_message_recv_def
      record_delta_dequeued_def set_capture_active_def cleanup_symbol_def
      mark_snapshot_recovery_active_def Let_def)

lemma transport_records [frame_simps]:
  "transport_view (with_debug (record_stale_period_case i) p) = transport_view p"
  "transport_view (with_debug (record_quality_sample snap q) p) = transport_view p"
  "transport_view (with_debug (record_mismatch_case snap q a b c e l) p) = transport_view p"
  "transport_view (with_debug (record_book_incomplete_case snap q r) p) = transport_view p"
  "transport_view (with_debug (record_sequence_gap_case res symb) p) = transport_view p"
  "transport_view (with_debug (record_duplicate_case res symb) p) = transport_view p"
  "transport_view (with_debug (record_invalid_delta_case res symb snap t e) p) = transport_view p"
  "transport_view (with_debug (record_schema_violation_case v) p) = transport_view p"
  "transport_view (with_debug (record_clean_sample cs) p) = transport_view p"
  "transport_view (with_debug (record_latency_profile_sample row) p) = transport_view p"
  by (simp_all add: transport_view_def with_debug_def record_stale_period_case_def
      record_quality_sample_def record_mismatch_case_def record_clean_sample_def
      record_book_incomplete_case_def record_sequence_gap_case_def record_duplicate_case_def
      record_invalid_delta_case_def record_schema_violation_case_def
      record_latency_profile_sample_def Let_def)

lemma transport_trace:
  "transport_view (with_debug (record_sequence_trace_event ev) p)
     = (case transport_view p of (m, d, n) \<Rightarrow> (m, d, n + purged_by ev))"
  by (simp add: transport_view_def with_debug_def record_sequence_trace_event_def)

lemma transport_monitor:
  "queue_dropped_messages (g (monitor p)) = queue_dropped_messages (monitor p)
     \<Longrightarrow> transport_view (with_monitor g p) = transport_view p"
  by (simp add: transport_view_def with_monitor_def)

lemma dropped_frames [simp]:
  "queue_dropped_messages (refresh_backpressure_total m) = queue_dropped_messages m"
  "queue_dropped_messages (record_snapshot_blocking_lag n m) = queue_dropped_messages m"
  "queue_dropped_messages (record_snapshot_request_duration d m) = queue_dropped_messages m"
  "queue_dropped_messages (record_snapshot_apply_duration d m) = queue_dropped_messages m"
  "queue_dropped_messages (record_queue_put_duration d b m) = queue_dropped_messages m"
  "queue_dropped_messages (snd (record_processing_done t1 t2 m)) = queue_dropped_messages m"
  "queue_dropped_messages (snd (record_dequeue env t1 t3 k m)) = queue_dropped_messages m"
  "queue_dropped_messages (snd (record_enqueue x t1 j m)) = queue_dropped_messages m"
  "queue_dropped_messages (record_drop n m) = queue_dropped_messages m + n"
  by (simp_all add: refresh_backpressure_total_def record_snapshot_blocking_lag_def
      record_snapshot_request_duration_def record_snapshot_apply_duration_def
      record_queue_put_duration_def record_processing_done_def record_dequeue_def record_enqueue_def
      record_drop_def Let_def split: option.splits)

lemma transport_count:
  "transport_view (count f p) = (case transport_view p of (m, d, n) \<Rightarrow>
     (if f = ''messages_received'' then m + 1 else m, d, n))"
  by (simp add: transport_view_def count_def)

lemma transport_count_other [frame_simps]:
  "f \<noteq> ''messages_received'' \<Longrightarrow> transport_view (count f p) = transport_view p"
  "f \<noteq> ''messages_received'' \<Longrightarrow> transport_view (count_if b f p) = transport_view p"
  by (simp_all add: transport_count count_if_def split: prod.splits)

lemma transport_trace_other [frame_simps]:
  "purged_by ev = 0 \<Longrightarrow> transport_view (with_debug (record_sequence_trace_event ev) p) = transport_view p"
  by (simp add: transport_trace split: prod.splits)

lemma transport_steps [frame_simps]:
  "transport_view (close_stale_period symb t p) = transport_view p"
  "transport_view (snd (state_for now symb p)) = transport_view p"
  "transport_view (record_processor_apply_stale symb s now a f q p) = transport_view p"
  "transport_view (record_post_capture_age_warning symb s now a p) = transport_view p"
  "transport_view (snd (record_feed_receive_stale symb s now f' p)) = transport_view p"
proof -
  show "transport_view (close_stale_period symb t p) = transport_view p"
    by (simp add: close_stale_period_def Let_def frame_simps split: option.splits)
      (simp add: transport_view_def)
  show "transport_view (snd (state_for now symb p)) = transport_view p"
    by (simp add: state_for_def Let_def frame_simps split: option.splits)
  show "transport_view (record_processor_apply_stale symb s now a f q p) = transport_view p"
    "transport_view (record_post_capture_age_warning symb s now a p) = transport_view p"
    by (simp_all add: record_processor_apply_stale_def record_post_capture_age_warning_def Let_def
        count_def transport_view_def)
  show "transport_view (snd (record_feed_receive_stale symb s now f' p)) = transport_view p"
  proof (cases "map_of (open_stale_periods p) symb")
    case None
    then show ?thesis
      by (simp add: record_feed_receive_stale_def Let_def frame_simps) (simp add: transport_view_def)
  qed (simp add: record_feed_receive_stale_def transport_view_def)
qed

lemma transport_check_symbol:
  "transport_view (snd (check_symbol now a q symb lp)) = transport_view (snd lp)"
  by (auto simp: check_symbol_def Let_def frame_simps transport_monitor split_beta split: option.splits)

lemma transport_check [frame_simps]:
  "transport_view (snd (check_stale_periods now sy fa q p)) = transport_view p"
proof -
  have "transport_view (snd (fold (check_symbol now a q) xs lp)) = transport_view (snd lp)" for a xs lp
    by (induction xs arbitrary: lp) (simp_all add: transport_check_symbol)
  then show ?thesis by (simp add: check_stale_periods_def Let_def)
qed

lemma transport_copy [frame_simps]:
  "transport_view (snd (snd (processor_copy_snapshot now el i w s p))) = transport_view p"
  by (simp add: processor_copy_snapshot_def Let_def split_beta transport_view_def)

lemma transport_emit [frame_simps]:
  "transport_view (maybe_emit_or_block_sample inp ev snap q p) = transport_view p"
proof -
  have "transport_view (p\<lparr>blocked_by_quality_error := x\<rparr>) = transport_view p" for x p
    by (simp add: transport_view_def)
  then show ?thesis
    by (simp add: maybe_emit_or_block_sample_def block_sample_def Let_def frame_simps)
qed

lemma transport_decided:
  "after_accepted inp ev t s p = Inr (s', p') \<Longrightarrow> transport_view p' = transport_view p"
  "transport_view (snd (after_rejected inp ev res t s p)) = transport_view p"
  by (auto simp: after_accepted_def after_rejected_def Let_def split_beta frame_simps
      split: sum.splits prod.splits)

lemma transport_finish [frame_simps]:
  "transport_view (finish_update inp ev r s4 u q n s p) = transport_view p"
proof -
  have "transport_view (p\<lparr>post_snapshot_trace_counts := x\<rparr>) = transport_view p" for x p
    by (simp add: transport_view_def)
  then show ?thesis
    by (simp add: finish_update_def Let_def frame_simps record_post_snapshot_update_range_def
        record_sequence_gap_trace_def)
qed

lemma map_sum_eq_Inr: "map_sum f g x = Inr y \<longleftrightarrow> (\<exists>z. x = Inr z \<and> y = g z)"
  by (cases x) auto

lemma transport_process:
  assumes "process_depth_update inp ev p = Inr (res, p')"
  shows "transport_view p' = transport_view (count ''messages_received'' p)"
proof -
  obtain s0 p2 where sf: "state_for (ui_now inp) (du_symbol ev)
      (count ''messages_parsed'' (count ''messages_received'' p)) = (s0, p2)" by fastforce
  define t where "t = int_or (recv_monotonic_ns ev) (ui_recv_clock inp)"
  define p4 where "p4 = snd (check_stale_periods t (Some [du_symbol ev]) (Some True) 0
      (put_state (upper (du_symbol ev)) (record_message_recv t s0)
        (record_ws_message_recv (du_symbol ev) t p2)))"
  define s4 where "s4 = the (map_of (states p4) (upper (du_symbol ev)))"
  obtain result s5 where ad: "apply_delta (ui_now inp) (du_first_update_id ev) (du_final_update_id ev)
      (level_rows (du_bids ev)) (level_rows (du_asks ev)) t (du_previous_final_update_id ev) s4
      = (result, s5)" by fastforce
  have "transport_view p2 = transport_view (count ''messages_received'' p)"
    using transport_steps(2) [of "ui_now inp" "du_symbol ev"
        "count ''messages_parsed'' (count ''messages_received'' p)"] sf
    by (simp add: frame_simps)
  then have v4: "transport_view p4 = transport_view (count ''messages_received'' p)"
    by (simp add: p4_def frame_simps)
  from assms obtain s p5 where p5: "(if res_accepted result then after_accepted inp ev t s5 p4
            else Inr (after_rejected inp ev result t s5 p4)) = Inr (s, p5)"
    and v: "transport_view p' = transport_view p5"
    unfolding process_depth_update_finish Let_def sf prod.case t_def [symmetric] p4_def [symmetric]
      s4_def [symmetric] ad map_sum_eq_Inr
    by (auto simp: frame_simps)
  have "transport_view p5 = transport_view p4"
    using p5 transport_decided by (metis Inr_inject snd_conv)
  with v v4 show ?thesis by simp
qed

lemma transport_load [frame_simps]:
  "transport_view (snd (load_snapshot inp symb br ar n g rc p)) = transport_view p"
  by (simp add: load_snapshot_def Let_def split_beta frame_simps)

lemma put_nowait_fits:
  "length q + length es \<le> n \<Longrightarrow> fold (put_nowait n) es (q, d, p) = (q @ es, d, p)"
  by (induction es arbitrary: q) (simp_all add: put_nowait_def)

lemma transport_purge:
  assumes "length q \<le> n" and "purge_queue_after_snapshot now clk n symb i q p = (r, q', p')"
  shows "transport_view p' = (case transport_view p of (a, b, c) \<Rightarrow> (a, b, c + int (length q) - int (length q')))"
    and "length q' \<le> length q" and "set q' \<subseteq> set q"
proof -
  obtain r0 kept where pq: "purge_queued_depth_updates_after_snapshot q i symb = (r0, kept)" by fastforce
  have inv: "purge_inv i (upper symb) q (fold (purge_step i (upper symb)) q purge_start)"
    by (rule purge_inv_run)
  have k: "subseq kept q" "int (length q) = int (length kept) + pr_old_events_dropped r0
      + pr_future_events_dropped r0"
    using inv pq by (auto simp: purge_queued_depth_updates_after_snapshot_def Let_def purge_inv_def)
  have len: "length kept \<le> length q" using k(1) by (rule list_emb_length)
  have f: "fold (put_nowait n) kept ([], 0, p) = (kept, 0, p)"
    using put_nowait_fits [of "[]" kept n 0 p] len assms(1) by simp
  show "transport_view p' = (case transport_view p of (a, b, c) \<Rightarrow> (a, b, c + int (length q) - int (length q')))"
    using assms(2) transport_steps(2) [of now symb p] k(2)
    by (cases "state_for now symb p"; cases "transport_view p")
      (auto simp: purge_queue_after_snapshot_def Let_def pq f frame_simps transport_trace split: if_splits)
  have "q' = kept" using assms(2)
    by (cases "state_for now symb p") (auto simp: purge_queue_after_snapshot_def Let_def pq f split: if_splits)
  then show "length q' \<le> length q" "set q' \<subseteq> set q" using len k(1) by (auto dest: list_emb_set)
qed

end
