(* ===== verification/Phase41Capture.thy ===== *)
theory Phase41Capture
  imports Phase41Flow
begin

text \<open>
  The capture loop of \<open>app/marketdata/orderbook_phase41.py\<close>
  (\<open>run_orderbook_phase41_capture\<close>): a reader task puts depth updates into a bounded queue, the
  consumer takes them out, and after a gap it loads a fresh snapshot, at most three times until
  a queued update continues it. The tasks switch only where the code awaits, so one step of
  \<open>capture_step\<close> is the code between two awaits; the exchange, the clocks and the writer are
  inputs of the steps. However the loop ends, the session is closed first, and then the \<open>finally\<close> block
  cancels the reader and waits for it: an exception of the reader is raised again there, before the
  processor hears of the disconnect. The files are assumed to take what is written: with the batch
  writer a write only puts a record into a queue, without it a failing write would end the loop too.
\<close>

subsection \<open>State\<close>

datatype capture_mode =
    Starting                                  \<comment> \<open>\<open>_wait_for_initial_depth_buffer\<close>\<close>
  | Requesting nat bool int int               \<comment> \<open>attempt, recovery, request time, queue size before\<close>
  | RetrySleep nat bool                       \<comment> \<open>\<open>asyncio.sleep(0.05)\<close> after a failed bridge\<close>
  | Consuming
  | Leaving "py_error option"                 \<comment> \<open>the session is being closed, for this exception\<close>
  | Joining "py_error option"                 \<comment> \<open>\<open>await reader_task\<close> in the \<open>finally\<close> block\<close>
  | Finished
  | Crashed py_error                          \<comment> \<open>an exception left the function\<close>

record capture =
  cap_processor :: processor
  cap_queue :: "depth_envelope list"
  cap_mode :: capture_mode
  cap_reader :: "py_error option option"
    \<comment> \<open>\<open>None\<close> while the reader task runs, then the exception it ended with, if any but its cancellation\<close>

definition queue_capacity :: nat where "queue_capacity = 4096"

definition max_attempts :: nat where "max_attempts = 3"

definition capture_init :: "int \<Rightarrow> string \<Rightarrow> int \<Rightarrow> nat \<Rightarrow> bool \<Rightarrow> capture" where
  "capture_init now symb depth debug_max batch =
     \<lparr>cap_processor = with_lifecycle on_connect (processor_init now [upper symb] depth (Fin 1000)
        (Some (Fin 60000)) (Fin 50) (Fin 250) debug_max batch),
      cap_queue = [], cap_mode = Starting, cap_reader = None\<rparr>"

definition on_processor :: "(processor \<Rightarrow> processor) \<Rightarrow> capture \<Rightarrow> capture" where
  "on_processor f c = c\<lparr>cap_processor := f (cap_processor c)\<rparr>"

subsection \<open>The reader task\<close>

record reader_inputs =
  ri_put :: int          \<comment> \<open>\<open>monotonic_now_ns()\<close> before and after the put\<close>
  ri_put_end :: int

definition reader_step :: "reader_inputs \<Rightarrow> queue_payload \<Rightarrow> capture \<Rightarrow> capture" where
  "reader_step inp payload c = (case payload of
     OtherPayload v \<Rightarrow> c
   | Depth ev \<Rightarrow>
       let p = cap_processor c;
           (env, m) = record_enqueue payload (ri_put inp) (int (length (cap_queue c)) + 1) (monitor p);
           p1 = p\<lparr>monitor := m\<rparr>
       in if length (cap_queue c) < queue_capacity then
            c\<lparr>cap_queue := cap_queue c @ [env\<lparr>env_queue_put_end_monotonic_ns := Some (ri_put_end inp)\<rparr>],
              cap_processor := with_monitor
                (record_queue_put_duration (ms_of_ns (ri_put_end inp - ri_put inp)) False) p1\<rparr>
          else
            c\<lparr>cap_processor := with_lifecycle (on_queue_dropped 1) (with_monitor (record_drop 1) p1)\<rparr>)"

subsection \<open>Loading a snapshot\<close>

record request_inputs =
  qi_now :: int
  qi_start :: int

definition request_snapshot :: "request_inputs \<Rightarrow> string \<Rightarrow> bool \<Rightarrow> nat \<Rightarrow> capture \<Rightarrow> capture" where
  \<comment> \<open>\<open>_load_fresh_snapshot\<close> up to the request\<close>
  "request_snapshot inp symb recovery attempt c =
     (let p1 = with_lifecycle on_snapshot_refresh (cap_processor c);
          before = int (length (cap_queue c));
          flag = (recovery \<or> attempt > 0);
          p2 = mark_snapshot_recovery_active symb True (qi_start inp) p1;
          (s, p3) = state_for (qi_now inp) symb p2;
          p4 = with_debug (record_sequence_trace_event (SnapshotRequestedTrace flag (upper symb)
                 (generation s) (qi_start inp) before)) p3
      in c\<lparr>cap_processor := p4, cap_mode := Requesting attempt recovery (qi_start inp) before\<rparr>)"

record response_inputs =
  pi_now :: int
  pi_clock :: int
  pi_iso_now :: string
  pi_response :: int
  pi_apply_start :: int
  pi_apply_end :: int
  pi_purge_now :: int
  pi_purge_clock :: int
  pi_done :: int

record exchange_snapshot =
  ex_bids :: "level_row list"
  ex_asks :: "level_row list"
  ex_last_update_id :: int

definition apply_response ::
  "response_inputs \<Rightarrow> string \<Rightarrow> bool \<Rightarrow> int \<Rightarrow> int \<Rightarrow> exchange_snapshot \<Rightarrow> depth_envelope list \<Rightarrow> processor
     \<Rightarrow> purge_result \<times> depth_envelope list \<times> processor" where
  \<comment> \<open>\<open>_load_fresh_snapshot\<close> after the response\<close>
  "apply_response inp symb flag start before snap queue p0 =
     (let p1 = with_monitor (record_snapshot_request_duration (ms_of_ns (pi_response inp - start))) p0;
          li = \<lparr>li_now = pi_now inp, li_clock = pi_clock inp, li_iso_now = pi_iso_now inp,
                li_local_recv = Some (pi_apply_start inp), li_apply = Some (pi_apply_start inp),
                li_request = Some start, li_response = Some (pi_response inp),
                li_queue_before = before, li_queue_after = int (length queue)\<rparr>;
          (_, p2) = load_snapshot li symb (ex_bids snap) (ex_asks snap) (ex_last_update_id snap) None flag p1;
          p3 = with_monitor (record_snapshot_apply_duration
                 (ms_of_ns (pi_apply_end inp - pi_apply_start inp))) p2;
          (r, queue1, p4) = purge_queue_after_snapshot (pi_purge_now inp) (pi_purge_clock inp)
            queue_capacity symb (ex_last_update_id snap) queue p3
      in (r, queue1, mark_snapshot_recovery_active symb False (pi_done inp) p4))"

definition respond ::
  "response_inputs \<Rightarrow> string \<Rightarrow> exchange_snapshot \<Rightarrow> nat \<Rightarrow> bool \<Rightarrow> int \<Rightarrow> int \<Rightarrow> capture \<Rightarrow> capture" where
  \<comment> \<open>one turn of \<open>_load_fresh_snapshot_with_bridge_retry\<close>\<close>
  "respond inp symb snap attempt recovery start before c =
     (let (r, queue, p) = apply_response inp symb (recovery \<or> attempt > 0) start before snap
            (cap_queue c) (cap_processor c)
      in c\<lparr>cap_processor := p, cap_queue := queue,
           cap_mode := if pr_bridge_missing_after_snapshot r then RetrySleep attempt recovery
                       else Consuming\<rparr>)"

subsection \<open>The consumer\<close>

definition reload_status :: "string \<Rightarrow> bool" where
  "reload_status status \<longleftrightarrow> status \<in> {''sequence_gap_or_reset'', ''sequence_bridge_failed'',
     ''previous_final_update_id_mismatch'', ''invalid_delta_levels'', ''delta_before_snapshot''}"

record consume_inputs =
  ci_dequeue :: int
  ci_done :: int
  ci_update :: update_inputs      \<comment> \<open>what \<open>process_depth_update\<close> reads\<close>

definition shut_down :: "processor \<Rightarrow> processor" where
  \<comment> \<open>the \<open>finally\<close> block after the reader has ended\<close>
  "shut_down p = set_capture_active False (with_lifecycle on_disconnect p)"

definition leave :: "py_error \<Rightarrow> capture \<Rightarrow> capture" where
  \<comment> \<open>an exception leaves the loop\<close>
  "leave e c = c\<lparr>cap_mode := Leaving (Some e)\<rparr>"

definition consume :: "consume_inputs \<Rightarrow> string \<Rightarrow> depth_envelope \<Rightarrow> depth_envelope list \<Rightarrow> capture
    \<Rightarrow> orderbook_apply_result option \<times> capture" where
  \<comment> \<open>one turn of the loop with an update; the result is absent after an exception\<close>
  "consume inp symb env rest c =
     (let p1 = record_delta_dequeued symb (ci_dequeue inp) (cap_processor c);
          backpressure_before = queue_backpressure_events (monitor p1);
          (lag, m) = record_dequeue env (ci_dequeue inp) None (Some (int (length rest))) (monitor p1);
          p2 = p1\<lparr>monitor := m\<rparr>;
          ui = (ci_update inp)\<lparr>ui_queue_lag_ms := Some lag,
                 ui_queue_put := Some (env_enqueue_monotonic_ns env),
                 ui_queue_put_end := env_queue_put_end_monotonic_ns env,
                 ui_queue_dequeue := Some (ci_dequeue inp),
                 ui_queue_size_at_enqueue := Some (env_queue_size_at_enqueue env)\<rparr>
      in case env_payload env of
           OtherPayload v \<Rightarrow> (None, leave AttributeError (c\<lparr>cap_queue := rest, cap_processor := p2\<rparr>))
         | Depth ev \<Rightarrow>
             (case process_depth_update ui ev p2 of
                Inl e \<Rightarrow> (None, leave e (c\<lparr>cap_queue := rest, cap_processor := p2\<rparr>))
              | Inr (result, p3) \<Rightarrow>
                  let p4 = with_monitor (\<lambda>m. snd (record_processing_done (ci_dequeue inp) (ci_done inp) m)) p3;
                      delta = queue_backpressure_events (monitor p4) - backpressure_before;
                      p5 = (if delta > 0 then with_lifecycle (on_queue_backpressure delta) p4 else p4)
                  in (Some result, c\<lparr>cap_queue := rest, cap_processor := p5\<rparr>)))"

definition time_out :: "int \<Rightarrow> capture \<Rightarrow> capture" where
  \<comment> \<open>no update within the timeout\<close>
  "time_out now = (\<lambda>c. on_processor (\<lambda>p. snd (check_stale_periods now None None
     (int (length (cap_queue c))) p)) c)"

definition reader_cancelled :: "capture \<Rightarrow> capture" where
  \<comment> \<open>\<open>await reader_task\<close> returns or raises\<close>
  "reader_cancelled c = (case (cap_mode c, cap_reader c) of
     (Joining _, Some (Some e)) \<Rightarrow> c\<lparr>cap_mode := Crashed e\<rparr>
   | (Joining failure, Some None) \<Rightarrow> (on_processor shut_down c)\<lparr>cap_mode :=
       (case failure of None \<Rightarrow> Finished | Some e \<Rightarrow> Crashed e)\<rparr>
   | _ \<Rightarrow> c)"

subsection \<open>The step relation\<close>

datatype capture_label =
    Read queue_payload | ReaderEnds "py_error option" | Request | Response | RequestFails py_error
  | BadAnswer py_error | Wake | Update | Timeout | Deadline | SessionClosed "py_error option" | Joined

definition collecting :: "capture_mode \<Rightarrow> bool" where
  \<comment> \<open>before the \<open>finally\<close> block sets \<open>stop\<close>\<close>
  "collecting m = (case m of Joining _ \<Rightarrow> False | Finished \<Rightarrow> False | Crashed _ \<Rightarrow> False | _ \<Rightarrow> True)"

definition live :: "capture_mode \<Rightarrow> bool" where
  "live m \<longleftrightarrow> m \<noteq> Finished \<and> (\<forall>e. m \<noteq> Crashed e)"

inductive capture_step :: "string \<Rightarrow> capture_label \<Rightarrow> capture \<Rightarrow> capture \<Rightarrow> bool" for symb where
  read: "cap_reader c = None \<Longrightarrow> collecting (cap_mode c)
     \<Longrightarrow> capture_step symb (Read payload) c (reader_step ri payload c)"
| reader_ends: "cap_reader c = None \<Longrightarrow> live (cap_mode c)
     \<Longrightarrow> capture_step symb (ReaderEnds out) c (c\<lparr>cap_reader := Some out\<rparr>)"
| first: "cap_mode c = Starting \<Longrightarrow> capture_step symb Request c (request_snapshot qi symb False 0 c)"
| response: "cap_mode c = Requesting k rc start before
     \<Longrightarrow> capture_step symb Response c (respond ans symb snap k rc start before c)"
| fails: "cap_mode c = Requesting k rc start before \<Longrightarrow> capture_step symb (RequestFails e) c (leave e c)"
| bad_answer: "cap_mode c = Requesting k rc start before
     \<Longrightarrow> capture_step symb (BadAnswer e) c
       (leave e (on_processor (with_monitor (record_snapshot_request_duration (ms_of_ns (t - start)))) c))"
  \<comment> \<open>an answer without bids, asks or a numeric id\<close>
| wake: "cap_mode c = RetrySleep k rc \<Longrightarrow> k + 1 < max_attempts
     \<Longrightarrow> capture_step symb Wake c (request_snapshot qi symb rc (k + 1) c)"
| give_up: "cap_mode c = RetrySleep k rc \<Longrightarrow> k + 1 \<ge> max_attempts
     \<Longrightarrow> capture_step symb Wake c (c\<lparr>cap_mode := Consuming\<rparr>)"
| stale: "cap_mode c = Consuming \<Longrightarrow> capture_step symb Timeout c (time_out now c)"
| update: "cap_mode c = Consuming \<Longrightarrow> cap_queue c = env # rest
     \<Longrightarrow> ui_iso_now (ci_update ci) \<noteq> [] \<Longrightarrow> consume ci symb env rest c = (r, c')
     \<Longrightarrow> (\<forall>res. r = Some res \<longrightarrow> \<not> reload_status (res_status res))
     \<Longrightarrow> capture_step symb Update c c'"
| reload: "cap_mode c = Consuming \<Longrightarrow> cap_queue c = env # rest
     \<Longrightarrow> ui_iso_now (ci_update ci) \<noteq> [] \<Longrightarrow> consume ci symb env rest c = (Some res, c')
     \<Longrightarrow> reload_status (res_status res)
     \<Longrightarrow> capture_step symb Update c (request_snapshot qi symb True 0 c')"
| deadline: "cap_mode c = Consuming \<Longrightarrow> capture_step symb Deadline c (c\<lparr>cap_mode := Leaving None\<rparr>)"
| closed: "cap_mode c = Leaving failure
     \<Longrightarrow> capture_step symb (SessionClosed None) c (c\<lparr>cap_mode := Joining failure\<rparr>)"
| close_fails: "cap_mode c = Leaving failure
     \<Longrightarrow> capture_step symb (SessionClosed (Some e)) c (c\<lparr>cap_mode := Joining (Some e)\<rparr>)"
| joined: "cap_mode c = Joining failure \<Longrightarrow> cap_reader c = Some out
     \<Longrightarrow> capture_step symb Joined c (reader_cancelled c)"

inductive capture_run :: "string \<Rightarrow> capture \<Rightarrow> capture_label list \<Rightarrow> capture \<Rightarrow> bool" for symb c0 where
  start: "capture_run symb c0 [] c0"
| step: "capture_run symb c0 ls c \<Longrightarrow> capture_step symb l c c' \<Longrightarrow> capture_run symb c0 (ls @ [l]) c'"

subsection \<open>What every step keeps\<close>

definition attempt_ok :: "capture_mode \<Rightarrow> bool" where
  "attempt_ok m = (case m of Requesting k _ _ _ \<Rightarrow> k < max_attempts
     | RetrySleep k _ \<Rightarrow> k < max_attempts | _ \<Rightarrow> True)"

definition is_depth :: "queue_payload \<Rightarrow> bool" where
  "is_depth x = (case x of Depth _ \<Rightarrow> True | OtherPayload _ \<Rightarrow> False)"

definition received :: "capture_label list \<Rightarrow> int" where
  \<comment> \<open>the depth updates the reader took from the stream\<close>
  "received ls = int (length [l \<leftarrow> ls. case l of Read x \<Rightarrow> is_depth x | _ \<Rightarrow> False])"

definition accounted :: "capture \<Rightarrow> int" where
  \<comment> \<open>updates processed, dropped, purged or waiting\<close>
  "accounted c = (case transport_view (cap_processor c) of (m, d, n) \<Rightarrow>
     m + d + n + int (length (cap_queue c)))"

definition capture_ok :: "capture \<Rightarrow> bool" where
  "capture_ok c \<longleftrightarrow> books_ok (cap_processor c) \<and> emission_inv 0 0 (cap_processor c)
     \<and> length (cap_queue c) \<le> queue_capacity
     \<and> (\<forall>env\<in>set (cap_queue c). is_depth (env_payload env)) \<and> attempt_ok (cap_mode c)"

lemma monitor_update_frames [frame_simps]:
  "states (p\<lparr>monitor := m\<rparr>) = states p" "emission_view (p\<lparr>monitor := m\<rparr>) = emission_view p"
  by (simp_all add: emission_view_def)

lemma capture_okI:
  assumes "capture_ok c" and "states (cap_processor c') = states (cap_processor c)"
    and "emission_view (cap_processor c') = emission_view (cap_processor c)"
    and "length (cap_queue c') \<le> queue_capacity" and "\<forall>env\<in>set (cap_queue c'). is_depth (env_payload env)"
    and "attempt_ok (cap_mode c')"
  shows "capture_ok c'"
  using assms books_ok_states [OF assms(2)] emission_inv_frames [OF assms(3)] by (simp add: capture_ok_def)

lemma record_enqueue_env: "env_payload (fst (record_enqueue x t n m)) = x"
  by (simp add: record_enqueue_def Let_def)

lemma reader_ok:
  assumes "capture_ok c"
  shows "capture_ok (reader_step inp payload c)"
    and "accounted (reader_step inp payload c) = accounted c + (if is_depth payload then 1 else 0)"
proof -
  show "capture_ok (reader_step inp payload c)"
    by (rule capture_okI [OF assms]; cases payload; use assms in \<open>auto simp: reader_step_def Let_def
        split_beta frame_simps capture_ok_def record_enqueue_env is_depth_def\<close>)
  have m: "transport_view (p\<lparr>monitor := snd (record_enqueue x t n (monitor p))\<rparr>) = transport_view p"
    for p x t n by (simp add: transport_view_def)
  show "accounted (reader_step inp payload c) = accounted c + (if is_depth payload then 1 else 0)"
    by (cases payload; cases "transport_view (cap_processor c)")
      (auto simp: reader_step_def Let_def split_beta accounted_def is_depth_def frame_simps m
        transport_monitor, simp add: transport_view_def with_monitor_def)
qed

lemma request_ok:
  assumes "capture_ok c" and "k < max_attempts"
  shows "capture_ok (request_snapshot inp symb rc k c)"
    and "accounted (request_snapshot inp symb rc k c) = accounted c"
proof -
  let ?p1 = "mark_snapshot_recovery_active symb True (qi_start inp)
      (with_lifecycle on_snapshot_refresh (cap_processor c))"
  obtain s p3 where sf: "state_for (qi_now inp) symb ?p1 = (s, p3)" by fastforce
  have b: "books_ok ?p1" using assms(1) by (simp add: capture_ok_def books_ok_def frame_simps)
  note st = state_for_ok [OF b sf]
  let ?p' = "cap_processor (request_snapshot inp symb rc k c)"
  have fr: "states ?p' = states p3" "emission_view ?p' = emission_view p3"
    "cap_queue (request_snapshot inp symb rc k c) = cap_queue c"
    "attempt_ok (cap_mode (request_snapshot inp symb rc k c))"
    using assms(2) by (simp_all add: request_snapshot_def Let_def sf frame_simps attempt_ok_def)
  have "emission_view ?p' = emission_view (cap_processor c)" using fr(2) st(3) by (simp add: frame_simps)
  then have "emission_inv 0 0 ?p'"
    by (rule emission_inv_frames) (use assms(1) in \<open>simp add: capture_ok_def\<close>)
  then show "capture_ok (request_snapshot inp symb rc k c)"
    using assms(1) fr books_ok_states [OF fr(1) st(2)] by (simp add: capture_ok_def)
  have "transport_view p3 = transport_view (cap_processor c)"
    using transport_steps(2) [of "qi_now inp" symb ?p1] sf by (simp add: frame_simps)
  then show "accounted (request_snapshot inp symb rc k c) = accounted c"
    by (simp add: request_snapshot_def Let_def sf accounted_def frame_simps)
qed

lemma respond_ok:
  assumes "capture_ok c" and "k < max_attempts"
  shows "capture_ok (respond inp symb snap k rc st bf c)"
    and "accounted (respond inp symb snap k rc st bf c) = accounted c"
    and "live (cap_mode (respond inp symb snap k rc st bf c))"
proof -
  define p1 where "p1 = with_monitor (record_snapshot_request_duration (ms_of_ns (pi_response inp - st)))
      (cap_processor c)"
  define li where "li = \<lparr>li_now = pi_now inp, li_clock = pi_clock inp, li_iso_now = pi_iso_now inp,
                li_local_recv = Some (pi_apply_start inp), li_apply = Some (pi_apply_start inp),
                li_request = Some st, li_response = Some (pi_response inp),
                li_queue_before = bf, li_queue_after = int (length (cap_queue c))\<rparr>"
  define p2 where "p2 = snd (load_snapshot li symb (ex_bids snap) (ex_asks snap) (ex_last_update_id snap)
      None (rc \<or> k > 0) p1)"
  define p3 where "p3 = with_monitor (record_snapshot_apply_duration
                 (ms_of_ns (pi_apply_end inp - pi_apply_start inp))) p2"
  obtain r q p4 where pq: "purge_queue_after_snapshot (pi_purge_now inp) (pi_purge_clock inp)
      queue_capacity symb (ex_last_update_id snap) (cap_queue c) p3 = (r, q, p4)" by (metis prod_cases3)
  have eq: "respond inp symb snap k rc st bf c = c\<lparr>cap_processor :=
      mark_snapshot_recovery_active symb False (pi_done inp) p4, cap_queue := q,
      cap_mode := if pr_bridge_missing_after_snapshot r then RetrySleep k rc else Consuming\<rparr>"
    by (simp add: respond_def apply_response_def Let_def split_beta flip: p1_def li_def p2_def p3_def)
      (simp add: pq)
  have ok1: "books_ok p1" "emission_inv 0 0 p1"
    using assms(1) by (simp_all add: p1_def capture_ok_def emission_inv_def frame_simps)
  note ok2 = load_snapshot_ok [OF ok1, of li symb "ex_bids snap" "ex_asks snap" "ex_last_update_id snap"
      None "rc \<or> k > 0", folded p2_def]
  have ok3: "books_ok p3" "emission_inv 0 0 p3"
    using ok2 by (simp_all add: p3_def emission_inv_def frame_simps)
  have ok4: "books_ok p4" "emission_inv 0 0 p4"
    using purge_queue_ok [OF ok3, of "pi_purge_now inp" "pi_purge_clock inp" queue_capacity symb
        "ex_last_update_id snap" "cap_queue c"] pq by simp_all
  have fits: "length (cap_queue c) \<le> queue_capacity" using assms(1) by (simp add: capture_ok_def)
  note tp = transport_purge [OF fits pq]
  show "capture_ok (respond inp symb snap k rc st bf c)"
    using assms ok4 tp(2,3)
    by (auto simp: eq capture_ok_def books_ok_def frame_simps emission_inv_def attempt_ok_def)
  have "transport_view p3 = transport_view (cap_processor c)"
    by (simp add: p3_def p2_def p1_def frame_simps transport_monitor)
  then show "accounted (respond inp symb snap k rc st bf c) = accounted c"
    using tp(1) by (cases "transport_view (cap_processor c)") (simp add: eq accounted_def frame_simps)
  show "live (cap_mode (respond inp symb snap k rc st bf c))" by (simp add: eq live_def)
qed

lemma shut_down_frames [frame_simps]:
  "states (shut_down p) = states p" "emission_view (shut_down p) = emission_view p"
  "transport_view (shut_down p) = transport_view p"
  by (simp_all add: shut_down_def frame_simps)

lemma mode_ok:
  "capture_ok c \<Longrightarrow> attempt_ok m \<Longrightarrow> capture_ok (c\<lparr>cap_mode := m\<rparr>) \<and> accounted (c\<lparr>cap_mode := m\<rparr>) = accounted c"
  "capture_ok c \<Longrightarrow> capture_ok (c\<lparr>cap_reader := r\<rparr>) \<and> accounted (c\<lparr>cap_reader := r\<rparr>) = accounted c"
  by (simp_all add: capture_ok_def accounted_def)

lemma on_processor_ok:
  assumes "capture_ok c" and "\<And>p. states (f p) = states p" "\<And>p. emission_view (f p) = emission_view p"
    "\<And>p. transport_view (f p) = transport_view p"
  shows "capture_ok (on_processor f c) \<and> accounted (on_processor f c) = accounted c"
  using assms(1) by (auto simp: on_processor_def accounted_def assms(2-4) capture_ok_def
      intro: books_ok_states [OF assms(2)] emission_inv_frames [OF assms(3)])

lemma shut_down_ok:
  "capture_ok c \<Longrightarrow> capture_ok (on_processor shut_down c) \<and> accounted (on_processor shut_down c) = accounted c"
  by (rule on_processor_ok) (simp_all add: frame_simps)

lemma attempt_ok_ends [simp]:
  "attempt_ok Finished" "attempt_ok (Crashed e)" "attempt_ok (Leaving x)" "attempt_ok (Joining x)" "attempt_ok Consuming"
  by (simp_all add: attempt_ok_def)

lemma reader_cancelled_ok:
  "capture_ok c \<Longrightarrow> capture_ok (reader_cancelled c) \<and> accounted (reader_cancelled c) = accounted c"
  using shut_down_ok [of c] mode_ok(1)
  by (auto simp: reader_cancelled_def split: capture_mode.split option.split)

lemma time_out_ok:
  assumes "capture_ok c"
  shows "capture_ok (time_out now c)" and "accounted (time_out now c) = accounted c"
    and "cap_mode (time_out now c) = cap_mode c"
proof -
  have k: "check_keeps (cap_processor c) (snd (check_stale_periods now None None
      (int (length (cap_queue c))) (cap_processor c)))" by (rule check_stale_keeps)
  then show "capture_ok (time_out now c)" using assms emission_inv_frames
    by (auto simp: check_keeps_def capture_ok_def time_out_def on_processor_def)
  show "accounted (time_out now c) = accounted c" "cap_mode (time_out now c) = cap_mode c"
    by (simp_all add: time_out_def on_processor_def accounted_def frame_simps)
qed

lemma consume_ok:
  assumes "capture_ok c" and "cap_queue c = env # rest" and "ui_iso_now (ci_update inp) \<noteq> []"
    and "consume inp symb env rest c = (r, c')"
  shows "r \<noteq> None" and "capture_ok c'" and "accounted c' = accounted c" and "cap_mode c' = cap_mode c"
proof -
  define p1 where "p1 = record_delta_dequeued symb (ci_dequeue inp) (cap_processor c)"
  define m where "m = snd (record_dequeue env (ci_dequeue inp) None (Some (int (length rest))) (monitor p1))"
  define lag where "lag = fst (record_dequeue env (ci_dequeue inp) None (Some (int (length rest))) (monitor p1))"
  define ui where "ui = (ci_update inp)\<lparr>ui_queue_lag_ms := Some lag,
                 ui_queue_put := Some (env_enqueue_monotonic_ns env),
                 ui_queue_put_end := env_queue_put_end_monotonic_ns env,
                 ui_queue_dequeue := Some (ci_dequeue inp),
                 ui_queue_size_at_enqueue := Some (env_queue_size_at_enqueue env)\<rparr>"
  obtain ev where ev: "env_payload env = Depth ev"
    using assms(1,2) by (cases "env_payload env") (auto simp: capture_ok_def is_depth_def)
  let ?p2 = "p1\<lparr>monitor := m\<rparr>"
  have ok: "books_ok ?p2" "emission_inv 0 0 ?p2"
    using assms(1) by (simp_all add: capture_ok_def books_ok_def emission_inv_def p1_def frame_simps)
  have "ui_iso_now ui \<noteq> []" using assms(3) by (simp add: ui_def)
  from process_depth_update_ok [OF ok this, of ev]
  obtain res p3 where pd: "process_depth_update ui ev ?p2 = Inr (res, p3)" "books_ok p3" "emission_inv 0 0 p3"
    by blast
  have tv: "transport_view ?p2 = transport_view (cap_processor c)"
    by (simp add: m_def p1_def transport_view_def record_delta_dequeued_def)
  have tv3: "transport_view p3 = transport_view (count ''messages_received'' ?p2)"
    by (rule transport_process [OF pd(1)])
  define p4 where "p4 = with_monitor (\<lambda>m. snd (record_processing_done (ci_dequeue inp) (ci_done inp) m)) p3"
  define delta where "delta = queue_backpressure_events (monitor p4) - queue_backpressure_events (monitor p1)"
  define p5 where "p5 = (if delta > 0 then with_lifecycle (on_queue_backpressure delta) p4 else p4)"
  have "consume inp symb env rest c = (Some res, c\<lparr>cap_queue := rest, cap_processor := p5\<rparr>)"
    unfolding consume_def Let_def split_beta ev queue_payload.case p1_def [symmetric] m_def [symmetric]
      lag_def [symmetric] ui_def [symmetric] pd(1) sum.case fst_conv snd_conv p4_def [symmetric]
      delta_def [symmetric] p5_def [symmetric] ..
  then have eq: "r = Some res" "c' = c\<lparr>cap_queue := rest, cap_processor := p5\<rparr>"
    using assms(4) by simp_all
  have fr: "states p5 = states p3" "emission_view p5 = emission_view p3" "transport_view p5 = transport_view p3"
    by (simp_all add: p5_def p4_def frame_simps transport_monitor)
  show "r \<noteq> None" "cap_mode c' = cap_mode c" by (simp_all add: eq)
  show "capture_ok c'" using assms(1,2) books_ok_states [OF fr(1) pd(2)] emission_inv_frames [OF fr(2) pd(3)]
    by (simp add: eq capture_ok_def)
  show "accounted c' = accounted c" using fr(3) tv3 tv assms(2)
    by (cases "transport_view (cap_processor c)") (simp add: eq accounted_def transport_count)
qed

subsection \<open>Runs\<close>

lemma mode_frames [simp]:
  "cap_mode (reader_step inp payload c) = cap_mode c"
  "cap_mode (request_snapshot qi symb rc k c) = Requesting k rc (qi_start qi) (int (length (cap_queue c)))"
  "cap_mode (leave e c) = Leaving (Some e)" "cap_mode (on_processor f c) = cap_mode c"
  "cap_reader (reader_step inp payload c) = cap_reader c"
  "cap_reader (request_snapshot qi symb rc k c) = cap_reader c"
  "cap_reader (leave e c) = cap_reader c" "cap_reader (on_processor f c) = cap_reader c"
  "cap_reader (respond ans symb snap k rc st bf c) = cap_reader c" "cap_reader (time_out now c) = cap_reader c"
  by (auto simp: reader_step_def request_snapshot_def leave_def on_processor_def respond_def time_out_def Let_def
      split_beta split: queue_payload.split)

lemma received_label [simp]:
  "received (ls @ [l]) = received ls + (case l of Read x \<Rightarrow> if is_depth x then 1 else 0 | _ \<Rightarrow> 0)"
  "received [] = 0"
  by (auto simp: received_def split: capture_label.split)

lemma capture_step_ok:
  assumes "capture_step symb l c c'" and "capture_ok c"
  shows "capture_ok c' \<and> accounted c' = accounted c + received [l]"
  using assms
proof (cases rule: capture_step.cases)
  case (read payload ri)
  then show ?thesis using reader_ok [OF assms(2)] by (simp add: received_def)
next
  case (reader_ends out)
  then show ?thesis using mode_ok(2) [OF assms(2)] by (simp add: received_def)
next
  case (first qi)
  then show ?thesis using request_ok [OF assms(2), of 0] by (simp add: received_def max_attempts_def)
next
  case (response k rc start before ans snap)
  then have "k < max_attempts" using assms(2) by (simp add: capture_ok_def attempt_ok_def)
  from respond_ok [OF assms(2) this] response show ?thesis by (simp add: received_def)
next
  case (fails k rc start before e)
  then show ?thesis using mode_ok(1) [OF assms(2)] by (simp add: received_def leave_def)
next
  case (bad_answer k rc start before e t)
  have "capture_ok (on_processor (with_monitor (record_snapshot_request_duration d)) c)
      \<and> accounted (on_processor (with_monitor (record_snapshot_request_duration d)) c) = accounted c" for d
    by (rule on_processor_ok [OF assms(2)]) (simp_all add: frame_simps transport_monitor)
  then show ?thesis using bad_answer mode_ok(1) by (simp add: received_def leave_def)
next
  case (wake k rc qi)
  then show ?thesis using request_ok [OF assms(2) wake(4)] by (simp add: received_def)
next
  case (stale now)
  then show ?thesis using time_out_ok [OF assms(2)] by (simp add: received_def)
next
  case (update env rest ci r)
  then show ?thesis using consume_ok [OF assms(2) update(3,4,5)] by (simp add: received_def)
next
  case (reload env rest ci res c1 qi)
  note co = consume_ok [OF assms(2) reload(4,5,6)]
  show ?thesis using request_ok [OF co(2), of 0] co reload(1,2)
    by (simp add: received_def max_attempts_def)
next
  case (joined failure out)
  then show ?thesis using reader_cancelled_ok [OF assms(2)] by (simp add: received_def)
qed (use mode_ok(1) [OF assms(2)] in \<open>simp_all add: received_def\<close>)

lemma capture_init_ok:
  assumes "0 < depth"
  shows "capture_ok (capture_init now symb depth n batch)"
    and "accounted (capture_init now symb depth n batch) = 0"
  using processor_init_ok [OF assms refl, of now "[upper symb]" 1000 "Some (Fin 60000)" "Fin 50" "Fin 250" n batch]
  by (simp_all add: capture_init_def capture_ok_def emission_inv_def frame_simps attempt_ok_def
      accounted_def) (simp add: transport_view_def processor_init_def recorder_init_def ctr_def
      empty_log_def monitor_init_def)

lemma capture_run_ok:
  assumes "capture_run symb (capture_init now symb depth n batch) ls c" and "0 < depth"
  shows "capture_ok c \<and> accounted c = received ls"
  using assms(1)
proof (induction rule: capture_run.induct)
  case start
  show ?case using capture_init_ok [OF assms(2)] by simp
next
  case (step ls c l c')
  show ?case using capture_step_ok [OF step.hyps(2)] step.IH by (auto simp: received_def)
qed

subsection \<open>How a capture ends\<close>

definition failure_label :: "py_error \<Rightarrow> capture_label \<Rightarrow> bool" where
  \<comment> \<open>what the outside raises into the consumer\<close>
  "failure_label e l = (case l of RequestFails x \<Rightarrow> x = e | BadAnswer x \<Rightarrow> x = e | SessionClosed (Some x) \<Rightarrow> x = e
     | _ \<Rightarrow> False)"

definition ending_ok :: "capture_label list \<Rightarrow> capture \<Rightarrow> bool" where
  \<comment> \<open>the exceptions so far, and what they have made of the loop and of the reader\<close>
  "ending_ok ls c \<longleftrightarrow>
     (\<forall>e. ReaderEnds (Some e) \<in> set ls \<longleftrightarrow> cap_reader c = Some (Some e))
   \<and> (case cap_mode c of
        Leaving (Some e) \<Rightarrow> list_ex (failure_label e) ls
      | Joining (Some e) \<Rightarrow> list_ex (failure_label e) ls
      | Crashed e \<Rightarrow> list_ex (failure_label e) ls \<or> cap_reader c = Some (Some e)
      | Finished \<Rightarrow> (\<forall>e. \<not> list_ex (failure_label e) ls) \<and> cap_reader c = Some None
      | _ \<Rightarrow> \<forall>e. \<not> list_ex (failure_label e) ls)"

lemma failed_with:
  "list_ex (failure_label e) ls \<longleftrightarrow> RequestFails e \<in> set ls \<or> BadAnswer e \<in> set ls \<or> SessionClosed (Some e) \<in> set ls"
proof -
  have "failure_label e l \<longleftrightarrow> l \<in> {RequestFails e, BadAnswer e, SessionClosed (Some e)}" for l
    by (auto simp: failure_label_def split: capture_label.split option.split)
  then show ?thesis by (auto simp: list_ex_iff)
qed

lemma ending_step:
  assumes "capture_step symb l c c'" and "capture_ok c" and "ending_ok ls c"
  shows "ending_ok (ls @ [l]) c'"
  using assms(1)
proof (cases rule: capture_step.cases)
  case (read payload ri)
  then show ?thesis using assms(3)
    by (cases "cap_mode c") (auto simp: ending_ok_def failure_label_def collecting_def split: option.splits)
next
  case (reader_ends out)
  then show ?thesis using assms(3)
    by (cases "cap_mode c") (auto simp: ending_ok_def failure_label_def live_def split: option.splits)
next
  case (response k rc start before ans snap)
  have "cap_mode (respond ans symb snap k rc start before c) \<in> {RetrySleep k rc, Consuming}"
    by (auto simp: respond_def Let_def split: prod.splits)
  then show ?thesis using response assms(3) by (auto simp: ending_ok_def failure_label_def)
next
  case (stale now)
  then show ?thesis using assms(3) time_out_ok(3) [OF assms(2)] by (simp add: ending_ok_def failure_label_def)
next
  case (update env rest ci r)
  have "cap_reader c' = cap_reader c" using update(5) unfolding consume_def leave_def
    by (auto simp: Let_def split_beta split: queue_payload.splits sum.splits)
  then show ?thesis using update assms(3) consume_ok(4) [OF assms(2) update(3,4,5)]
    by (simp add: ending_ok_def failure_label_def)
next
  case (reload env rest ci res c1 qi)
  have "cap_reader c1 = cap_reader c" using reload(6) unfolding consume_def leave_def
    by (auto simp: Let_def split_beta split: queue_payload.splits sum.splits)
  then show ?thesis using reload assms(3) by (simp add: ending_ok_def failure_label_def)
next
  case (joined failure out)
  then show ?thesis using assms(3)
    by (cases failure; cases out) (auto simp: ending_ok_def failure_label_def reader_cancelled_def)
qed (use assms(3) in \<open>auto simp: ending_ok_def failure_label_def split: option.splits\<close>)

lemma ending_run:
  assumes "capture_run symb (capture_init now symb depth n batch) ls c" and "0 < depth"
  shows "ending_ok ls c"
  using assms(1)
proof (induction rule: capture_run.induct)
  case start
  show ?case by (simp add: ending_ok_def capture_init_def)
next
  case (step ls c l c')
  show ?case using ending_step [OF step.hyps(2) _ step.IH] capture_run_ok [OF step.hyps(1) assms(2)] by simp
qed

text \<open>
  C11: whatever the interleaving of the reader, the consumer and the snapshot requests, no update
  is lost without a count: the depth updates read from the stream are the updates processed,
  dropped at the full queue, removed by a purge, and still waiting; every update processed was
  accepted or rejected, and every accepted one was emitted or blocked.
\<close>
theorem capture_accounts_for_updates:
  assumes "capture_run symb (capture_init now symb depth n batch) ls c" and "0 < depth"
  shows "case transport_view (cap_processor c) of (processed, dropped, purged) \<Rightarrow>
    received ls = processed + dropped + purged + int (length (cap_queue c))
    \<and> processed = ctr (p_counters (cap_processor c)) ''deltas_accepted''
        + ctr (p_counters (cap_processor c)) ''deltas_rejected''
    \<and> ctr (p_counters (cap_processor c)) ''deltas_accepted''
      = ctr (p_counters (cap_processor c)) ''samples_emitted''
        + ctr (p_counters (cap_processor c)) ''samples_blocked''"
  using capture_run_ok [OF assms]
  by (simp add: capture_ok_def emission_inv_fields accounted_def transport_view_def)

text \<open>
  C12: at every moment of a capture each sample handed to the writer passes the schema check, with
  one latency row for it, the schema check never blocked a valid sample, every book is reachable
  and the queue holds at most 4096 updates.
\<close>
theorem capture_emits_clean_samples:
  assumes "capture_run symb (capture_init now symb depth n batch) ls c" and "0 < depth"
  shows "(\<forall>x\<in>set (clean_samples (debug (cap_processor c))). validate_clean_sample_schema x = [])
    \<and> ctr (p_counters (cap_processor c)) ''samples_emitted''
      = int (length (clean_samples (debug (cap_processor c))))
    \<and> length (latency_samples (debug (cap_processor c))) = length (clean_samples (debug (cap_processor c)))
    \<and> ctr (p_counters (cap_processor c)) ''clean_sample_schema_violation_count'' = 0
    \<and> (\<forall>k s. map_of (states (cap_processor c)) k = Some s \<longrightarrow> book_reach s)
    \<and> length (cap_queue c) \<le> 4096"
  using capture_run_ok [OF assms]
  by (simp add: capture_ok_def emission_inv_fields books_ok_def queue_capacity_def)

text \<open>
  C13: an exception that ends a capture comes from outside: a snapshot request fails or has an
  unusable answer, the session cannot be closed, or the reader task has failed. No update, whatever its
  levels, ids and times, makes the processor raise. The other way round no such exception is lost: a
  capture that finishes has seen none of them, the reader's included. (The files are taken to be
  writable, as above.)
\<close>
theorem capture_exceptions_come_from_outside:
  assumes "capture_run symb (capture_init now symb depth n batch) ls c" and "0 < depth"
  shows "(cap_mode c = Crashed e \<longrightarrow> RequestFails e \<in> set ls \<or> BadAnswer e \<in> set ls
      \<or> SessionClosed (Some e) \<in> set ls \<or> ReaderEnds (Some e) \<in> set ls)
    \<and> (cap_mode c = Finished \<longrightarrow> RequestFails e \<notin> set ls \<and> BadAnswer e \<notin> set ls
      \<and> SessionClosed (Some e) \<notin> set ls \<and> ReaderEnds (Some e) \<notin> set ls)"
proof -
  have inv: "ending_ok ls c" by (rule ending_run [OF assms])
  then have "list_ex (failure_label e) ls \<or> cap_reader c = Some (Some e)" if "cap_mode c = Crashed e"
    by (simp add: ending_ok_def that)
  moreover have "\<not> list_ex (failure_label e) ls \<and> cap_reader c \<noteq> Some (Some e)" if "cap_mode c = Finished"
    using inv by (simp add: ending_ok_def that)
  moreover have "ReaderEnds (Some e) \<in> set ls \<longleftrightarrow> cap_reader c = Some (Some e)" using inv by (simp add: ending_ok_def)
  ultimately show ?thesis unfolding failed_with by blast
qed

subsection \<open>The retry loop\<close>

definition retry_label :: "capture_label \<Rightarrow> bool" where
  "retry_label l = (case l of Response \<Rightarrow> True | Wake \<Rightarrow> True | RequestFails _ \<Rightarrow> True | BadAnswer _ \<Rightarrow> True
     | Read _ \<Rightarrow> True | ReaderEnds _ \<Rightarrow> True | _ \<Rightarrow> False)"

definition retrying :: "capture_mode \<Rightarrow> bool" where
  "retrying m = (case m of Requesting _ _ _ _ \<Rightarrow> True | RetrySleep _ _ \<Rightarrow> True | _ \<Rightarrow> False)"

lemma respond_mode:
  "cap_mode (respond ans symb snap k rc st bf c) \<in> {RetrySleep k rc, Consuming}"
  by (auto simp: respond_def Let_def split: prod.splits)

definition retry_inv :: "bool \<Rightarrow> capture_label list \<Rightarrow> capture_mode \<Rightarrow> bool" where
  "retry_inv rc ls m = (case m of
      Requesting k rc' _ _ \<Rightarrow> rc' = rc \<and> k < max_attempts \<and> count_list ls Response = k \<and> count_list ls Wake = k
    | RetrySleep k rc' \<Rightarrow> rc' = rc \<and> k < max_attempts \<and> count_list ls Response = k + 1 \<and> count_list ls Wake = k
    | Consuming \<Rightarrow> count_list ls Response \<le> max_attempts \<and> count_list ls Wake \<le> max_attempts
    | Leaving (Some e) \<Rightarrow> count_list ls Response < max_attempts \<and> count_list ls Wake < max_attempts
        \<and> (RequestFails e \<in> set ls \<or> BadAnswer e \<in> set ls)
    | _ \<Rightarrow> False)"

lemma retry_run:
  assumes "capture_run symb c0 ls c" and "cap_mode c0 = Requesting 0 rc t b" and "\<forall>l\<in>set ls. retry_label l"
  shows "retry_inv rc ls (cap_mode c)"
  using assms(1,3)
proof (induction rule: capture_run.induct)
  case start
  show ?case using assms(2) by (simp add: max_attempts_def retry_inv_def)
next
  case (step ls c l c')
  have IH: "retry_inv rc ls (cap_mode c)" using step by simp
  have l: "retry_label l" using step.prems by simp
  show ?case using step.hyps(2)
  proof (cases rule: capture_step.cases)
    case (response k rc' start before ans snap)
    then show ?thesis using IH respond_mode [of ans symb snap k rc' start before c] by (auto simp: retry_inv_def)
  next
    case (read payload ri)
    then show ?thesis using IH by (simp add: retry_inv_def split: capture_mode.splits option.splits)
  next
    case (reader_ends out)
    then show ?thesis using IH by (simp add: retry_inv_def split: capture_mode.splits option.splits)
  qed (use IH l in \<open>auto simp: retry_label_def retry_inv_def\<close>)
qed

lemma retry_enabled:
  assumes "retrying (cap_mode c)"
  shows "\<exists>l c'. l \<in> {Response, Wake} \<and> capture_step symb l c c'"
proof (cases "cap_mode c")
  case (Requesting k rc t b)
  from capture_step.response [OF this] show ?thesis by (meson insertI1)
next
  case (RetrySleep k rc)
  show ?thesis
  proof (cases "k + 1 < max_attempts")
    case True
    from capture_step.wake [OF RetrySleep this] show ?thesis by (meson insertCI)
  next
    case False
    from capture_step.give_up [OF RetrySleep] False show ?thesis by (meson insertCI not_less)
  qed
qed (use assms in \<open>simp_all add: retrying_def\<close>)

lemma retry_only:
  assumes "capture_step symb l c c'" and "retrying (cap_mode c)"
  shows "retry_label l"
  using assms(1)
  by (cases rule: capture_step.cases) (use assms(2) in \<open>simp_all add: retrying_def retry_label_def\<close>)

text \<open>
  C14: loading a snapshot ends. While it goes on, only its own steps and those of the reader are
  possible, and one of its own always is. After any number of them there have been at most three
  responses, and the loop is over after the third wake-up: the consumer is back in its loop. It can also
  end early, when a request fails or its answer is unusable; then that exception leaves the capture.
\<close>
theorem snapshot_retry_ends:
  assumes "capture_run symb c0 ls c" and "cap_mode c0 = Requesting 0 rc t b" and "\<forall>l\<in>set ls. retry_label l"
  shows "count_list ls Response \<le> 3 \<and> count_list ls Wake \<le> 3 \<and> (count_list ls Wake = 3 \<longrightarrow> cap_mode c = Consuming)
    \<and> (cap_mode c = Consuming
       \<or> (\<exists>e. cap_mode c = Leaving (Some e) \<and> (RequestFails e \<in> set ls \<or> BadAnswer e \<in> set ls))
       \<or> (\<exists>l c'. l \<in> {Response, Wake} \<and> capture_step symb l c c')
         \<and> (\<forall>l c'. capture_step symb l c c' \<longrightarrow> retry_label l))"
proof -
  have inv: "retry_inv rc ls (cap_mode c)" by (rule retry_run [OF assms])
  then consider "retrying (cap_mode c)" | "cap_mode c = Consuming" | e where "cap_mode c = Leaving (Some e)"
    by (cases "cap_mode c") (auto simp: retry_inv_def retrying_def split: option.splits)
  then show ?thesis
  proof cases
    case 1
    then show ?thesis using inv retry_enabled [OF 1] retry_only [OF _ 1]
      by (cases "cap_mode c") (auto simp: retry_inv_def max_attempts_def retrying_def)
  next
    case 3
    then show ?thesis using inv by (simp add: retry_inv_def max_attempts_def)
  qed (use inv in \<open>simp add: retry_inv_def max_attempts_def\<close>)
qed

subsection \<open>A run\<close>

lemma respond_mode_eq:
  "cap_mode (respond ans symb snap k rc st bf c) =
     (if pr_bridge_missing_after_snapshot (fst (purge_queued_depth_updates_after_snapshot (cap_queue c)
           (ex_last_update_id snap) symb))
      then RetrySleep k rc else Consuming)"
  by (simp add: respond_def apply_response_def purge_queue_after_snapshot_def Let_def split_beta)

definition example_start_capture :: capture where
  "example_start_capture = capture_init 100 ''btcusdt'' 20 4 False"

definition example_read :: capture where
  "example_read = reader_step \<lparr>ri_put = 110, ri_put_end = 111\<rparr> (Depth example_update) example_start_capture"

definition example_requested :: capture where
  "example_requested = request_snapshot \<lparr>qi_now = 112, qi_start = 113\<rparr> ''btcusdt'' False 0 example_read"

definition example_answer :: response_inputs where
  "example_answer = \<lparr>pi_now = 114, pi_clock = 115, pi_iso_now = ''t'', pi_response = 116,
     pi_apply_start = 117, pi_apply_end = 118, pi_purge_now = 119, pi_purge_clock = 120, pi_done = 121\<rparr>"

definition example_exchange :: exchange_snapshot where
  "example_exchange = \<lparr>ex_bids = [str_row ''0.5'' ''3''], ex_asks = [str_row ''0.75'' ''1''],
     ex_last_update_id = 17\<rparr>"

definition example_ready :: capture where
  "example_ready = respond example_answer ''btcusdt'' example_exchange 0 False 113 1 example_requested"

lemma example_modes:
  "cap_mode example_start_capture = Starting" "cap_mode example_read = Starting"
  "cap_mode example_requested = Requesting 0 False 113 1" "cap_mode example_ready = Consuming"
proof -
  show s: "cap_mode example_start_capture = Starting" by (simp add: example_start_capture_def capture_init_def)
  then show "cap_mode example_read = Starting" by (simp add: example_read_def)
  have q: "\<exists>env. cap_queue example_read = [env] \<and> env_payload env = Depth example_update"
    by (simp add: example_read_def reader_step_def Let_def split_beta queue_capacity_def
        example_start_capture_def capture_init_def record_enqueue_env)
  then show "cap_mode example_requested = Requesting 0 False 113 1" by (auto simp: example_requested_def)
  obtain env where "cap_queue example_requested = [env]" "env_payload env = Depth example_update"
    using q by (auto simp: example_requested_def request_snapshot_def Let_def split_beta)
  then show "cap_mode example_ready = Consuming"
    by (simp add: example_ready_def respond_mode_eq purge_queued_depth_updates_after_snapshot_def
        purge_step_def purge_start_def update_for_def Let_def)
      (simp add: example_exchange_def example_update_def)
qed

lemma example_retry_run: "capture_run ''btcusdt'' example_requested [Response] example_ready"
  using capture_run.step [OF capture_run.start, OF capture_step.response [OF example_modes(3)]]
  by (simp add: example_ready_def)

lemma example_run:
  "capture_run ''btcusdt'' (capture_init 100 ''btcusdt'' 20 4 False)
     [Read (Depth example_update), Request] example_requested"
  "capture_run ''btcusdt'' (capture_init 100 ''btcusdt'' 20 4 False)
     [Read (Depth example_update), Request, Response] example_ready"
proof -
  let ?c = "capture_init 100 ''btcusdt'' 20 4 False"
  have "capture_step ''btcusdt'' (Read (Depth example_update)) ?c example_read"
    unfolding example_read_def example_start_capture_def
    by (rule capture_step.read)
      (use example_modes(1) in \<open>simp_all add: example_start_capture_def collecting_def capture_init_def\<close>)
  from capture_run.step [OF capture_run.start this]
  have r1: "capture_run ''btcusdt'' ?c [Read (Depth example_update)] example_read" by simp
  have "capture_step ''btcusdt'' Request example_read example_requested"
    unfolding example_requested_def by (rule capture_step.first [OF example_modes(2)])
  from capture_run.step [OF r1 this]
  show r2: "capture_run ''btcusdt'' ?c [Read (Depth example_update), Request] example_requested" by simp
  have "capture_step ''btcusdt'' Response example_requested example_ready"
    unfolding example_ready_def by (rule capture_step.response [OF example_modes(3)])
  from capture_run.step [OF r2 this]
  show "capture_run ''btcusdt'' ?c [Read (Depth example_update), Request, Response] example_ready" by simp
qed

theorem capture_accounts_for_updates_witness:
  "case transport_view (cap_processor example_ready) of (processed, dropped, purged) \<Rightarrow>
     1 = processed + dropped + purged + int (length (cap_queue example_ready))"
  using capture_accounts_for_updates [OF example_run(2)]
  by (simp add: received_def is_depth_def split_beta)

theorem capture_emits_clean_samples_witness:
  "[x \<leftarrow> clean_samples (debug (cap_processor example_ready)). validate_clean_sample_schema x \<noteq> []] = []
   \<and> length (cap_queue example_ready) \<le> 4096"
  using capture_emits_clean_samples [OF example_run(2)] by (simp add: filter_empty_conv)

lemma example_reader_fails:
  obtains c where "capture_run ''btcusdt'' (capture_init 100 ''btcusdt'' 20 4 False)
    [Read (Depth example_update), Request, Response, Deadline, SessionClosed None,
     ReaderEnds (Some OverflowError), Joined] c" and "cap_mode c = Crashed OverflowError"
proof -
  define c1 where "c1 = example_ready\<lparr>cap_mode := Leaving None\<rparr>"
  define c2 where "c2 = c1\<lparr>cap_mode := Joining None\<rparr>"
  define c3 where "c3 = c2\<lparr>cap_reader := Some (Some OverflowError)\<rparr>"
  have r0: "cap_reader example_ready = None"
    by (simp add: example_ready_def example_requested_def example_read_def example_start_capture_def capture_init_def)
  have "capture_step ''btcusdt'' Deadline example_ready c1"
    unfolding c1_def by (rule capture_step.deadline [OF example_modes(4)])
  from capture_run.step [OF example_run(2) this]
  have 1: "capture_run ''btcusdt'' (capture_init 100 ''btcusdt'' 20 4 False)
    [Read (Depth example_update), Request, Response, Deadline] c1" by simp
  have "capture_step ''btcusdt'' (SessionClosed None) c1 c2"
    unfolding c2_def by (rule capture_step.closed) (simp add: c1_def)
  from capture_run.step [OF 1 this]
  have 2: "capture_run ''btcusdt'' (capture_init 100 ''btcusdt'' 20 4 False)
    [Read (Depth example_update), Request, Response, Deadline, SessionClosed None] c2" by simp
  have "capture_step ''btcusdt'' (ReaderEnds (Some OverflowError)) c2 c3"
    unfolding c3_def by (rule capture_step.reader_ends) (simp_all add: c2_def c1_def r0 live_def)
  from capture_run.step [OF 2 this]
  have 3: "capture_run ''btcusdt'' (capture_init 100 ''btcusdt'' 20 4 False)
    [Read (Depth example_update), Request, Response, Deadline, SessionClosed None, ReaderEnds (Some OverflowError)] c3"
    by simp
  have "capture_step ''btcusdt'' Joined c3 (reader_cancelled c3)"
    by (rule capture_step.joined) (simp_all add: c3_def c2_def)
  from capture_run.step [OF 3 this] show ?thesis
    by (intro that [of "reader_cancelled c3"]) (simp_all add: reader_cancelled_def c3_def c2_def)
qed

theorem capture_exceptions_come_from_outside_witness:
  "\<exists>ls c. capture_run ''btcusdt'' (capture_init 100 ''btcusdt'' 20 4 False) ls c
     \<and> cap_mode c = Crashed OverflowError \<and> RequestFails OverflowError \<notin> set ls
     \<and> (RequestFails OverflowError \<in> set ls \<or> BadAnswer OverflowError \<in> set ls
         \<or> SessionClosed (Some OverflowError) \<in> set ls \<or> ReaderEnds (Some OverflowError) \<in> set ls)"
proof -
  obtain c where c: "capture_run ''btcusdt'' (capture_init 100 ''btcusdt'' 20 4 False)
    [Read (Depth example_update), Request, Response, Deadline, SessionClosed None,
     ReaderEnds (Some OverflowError), Joined] c" "cap_mode c = Crashed OverflowError" by (rule example_reader_fails)
  note from_outside = conjunct1 [OF capture_exceptions_come_from_outside [OF c(1), of OverflowError], THEN mp, OF _ c(2)]
  show ?thesis by (intro exI conjI, rule c(1), rule c(2)) (simp, rule from_outside, simp)
qed

theorem snapshot_retry_ends_witness:
  "count_list [Response] Response \<le> 3
   \<and> (cap_mode example_ready = Consuming
      \<or> (\<exists>e. cap_mode example_ready = Leaving (Some e))
      \<or> (\<exists>l c'. l \<in> {Response, Wake} \<and> capture_step ''btcusdt'' l example_ready c'))"
  using snapshot_retry_ends [OF example_retry_run example_modes(3)] by (auto simp: retry_label_def)

end
