(* ===== verification/Phase41Summary.thy ===== *)
theory Phase41Summary
  imports Phase41Capture
begin

text \<open>
  The report of a capture in \<open>app/marketdata/orderbook_phase41.py\<close>: \<open>summary\<close> reads the processor
  after one more stale check, and \<open>evaluate_phase_4_1_pass\<close> decides from the report whether the
  phase passed. Reports are Python dictionaries and stay so here: association lists of values.
\<close>

subsection \<open>Dictionaries of the records\<close>

definition vopt :: "('a \<Rightarrow> pyval) \<Rightarrow> 'a option \<Rightarrow> pyval" where
  "vopt f x = (case x of None \<Rightarrow> VNone | Some y \<Rightarrow> f y)"

definition stale_period_dict :: "stale_period \<Rightarrow> (string \<times> pyval) list" where
  "stale_period_dict r =
    [(''case_type'', VStr ''feed_receive_stale''), (''symbol'', VStr (sp_symbol r)),
     (''stale_threshold_ms'', VFloat (sp_stale_threshold_ms r)),
     (''feed_receive_stale_threshold_ms'', VFloat (sp_stale_threshold_ms r)),
     (''started_monotonic_ns'', VInt (sp_started_monotonic_ns r)),
     (''ended_monotonic_ns'', vopt VInt (sp_ended_monotonic_ns r)),
     (''max_age_ms'', VFloat (sp_max_age_ms r)),
     (''reason'', VStr ''no_websocket_message_received''),
     (''snapshot_ready'', VBool (sp_snapshot_ready r)),
     (''ready_to_emit'', VBool (sp_ready_to_emit r)),
     (''last_book_update_monotonic_ns'', vopt VInt (sp_last_book_update_monotonic_ns r)),
     (''last_message_recv_monotonic_ns'', vopt VInt (sp_last_message_recv_monotonic_ns r)),
     (''last_ws_message_recv_monotonic_ns'', vopt VInt (sp_last_ws_message_recv_monotonic_ns r)),
     (''generation_id'', VInt (sp_generation_id r))]"

definition apply_stale_dict :: "apply_stale_warning \<Rightarrow> (string \<times> pyval) list" where
  "apply_stale_dict r =
    [(''case_type'', VStr ''processor_apply_stale''), (''symbol'', VStr (aw_symbol r)),
     (''stale_threshold_ms'', VFloat (aw_stale_threshold_ms r)),
     (''observed_monotonic_ns'', VInt (aw_observed_monotonic_ns r)),
     (''apply_age_ms'', VFloat (aw_apply_age_ms r)),
     (''max_apply_age_ms'', VFloat (aw_max_apply_age_ms r)),
     (''feed_receive_age_ms'', vopt VFloat (aw_feed_receive_age_ms r)),
     (''queue_size'', VInt (aw_queue_size r)),
     (''consecutive_checks'', VInt (aw_consecutive_checks r)),
     (''reason'', VStr ''websocket_messages_arriving_but_no_successful_apply''),
     (''snapshot_ready'', VBool (aw_snapshot_ready r)),
     (''ready_to_emit'', VBool (aw_ready_to_emit r)),
     (''generation_id'', VInt (aw_generation_id r))]"

definition age_warning_dict :: "age_warning \<Rightarrow> (string \<times> pyval) list" where
  "age_warning_dict r =
    [(''event'', VStr ''post_capture_age_warning''), (''symbol'', VStr (pw_symbol r)),
     (''stale_threshold_ms'', VFloat (pw_stale_threshold_ms r)),
     (''observed_monotonic_ns'', VInt (pw_observed_monotonic_ns r)),
     (''age_ms'', VFloat (pw_age_ms r)),
     (''reason'', VStr ''book_age_exceeded_threshold_after_capture_end''),
     (''snapshot_ready'', VBool (pw_snapshot_ready r)),
     (''ready_to_emit'', VBool (pw_ready_to_emit r)),
     (''last_book_update_monotonic_ns'', vopt VInt (pw_last_book_update_monotonic_ns r)),
     (''last_message_recv_monotonic_ns'', vopt VInt (pw_last_message_recv_monotonic_ns r)),
     (''generation_id'', VInt (pw_generation_id r))]"

definition queue_dict :: "queue_report \<Rightarrow> (string \<times> pyval) list" where
  "queue_dict r =
    [(''queue_current_size'', VInt (rep_queue_current_size r)),
     (''queue_max_size'', VInt (rep_queue_max_size r)),
     (''queue_capacity'', vopt VInt (rep_queue_capacity r)),
     (''queue_dropped_messages'', VInt (rep_queue_dropped_messages r)),
     (''queue_backpressure_events'', VInt (rep_queue_backpressure_events r)),
     (''queue_size_backpressure_events'', VInt (rep_queue_size_backpressure_events r)),
     (''queue_lag_backpressure_events'', VInt (rep_queue_lag_backpressure_events r)),
     (''processing_lag_backpressure_events'', VInt (rep_processing_lag_backpressure_events r)),
     (''snapshot_blocking_lag_events'', VInt (rep_snapshot_blocking_lag_events r)),
     (''queue_depth_p50'', VFloat (p50 (rep_queue_depth r))),
     (''queue_depth_p95'', VFloat (p95 (rep_queue_depth r))),
     (''queue_depth_p99'', VFloat (p99 (rep_queue_depth r))),
     (''queue_put_block_count'', VInt (rep_queue_put_block_count r)),
     (''queue_put_block_p50_ms'', VFloat (p50 (rep_queue_put_block r))),
     (''queue_put_block_p95_ms'', VFloat (p95 (rep_queue_put_block r))),
     (''queue_put_block_p99_ms'', VFloat (p99 (rep_queue_put_block r))),
     (''enqueue_to_dequeue_lag_ms_max'', VFloat (rep_enqueue_to_dequeue_lag_ms_max r)),
     (''enqueue_to_dequeue_lag_ms_p50'', VFloat (p50 (rep_enqueue_to_dequeue_lag r))),
     (''enqueue_to_dequeue_lag_ms_p95'', VFloat (p95 (rep_enqueue_to_dequeue_lag r))),
     (''enqueue_to_dequeue_lag_ms_p99'', VFloat (p99 (rep_enqueue_to_dequeue_lag r))),
     (''enqueue_to_dequeue_lag_p50_ms'', VFloat (p50 (rep_enqueue_to_dequeue_lag r))),
     (''enqueue_to_dequeue_lag_p95_ms'', VFloat (p95 (rep_enqueue_to_dequeue_lag r))),
     (''enqueue_to_dequeue_lag_p99_ms'', VFloat (p99 (rep_enqueue_to_dequeue_lag r))),
     (''max_processing_lag_ms'', VFloat (rep_max_processing_lag_ms r)),
     (''processing_lag_p50_ms'', VFloat (p50 (rep_processing_lag r))),
     (''processing_lag_p95_ms'', VFloat (p95 (rep_processing_lag r))),
     (''processing_lag_p99_ms'', VFloat (p99 (rep_processing_lag r))),
     (''snapshot_request_duration_p50_ms'', VFloat (p50 (rep_snapshot_request_duration r))),
     (''snapshot_request_duration_p95_ms'', VFloat (p95 (rep_snapshot_request_duration r))),
     (''snapshot_request_duration_p99_ms'', VFloat (p99 (rep_snapshot_request_duration r))),
     (''snapshot_apply_duration_p50_ms'', VFloat (p50 (rep_snapshot_apply_duration r))),
     (''snapshot_apply_duration_p95_ms'', VFloat (p95 (rep_snapshot_apply_duration r))),
     (''snapshot_apply_duration_p99_ms'', VFloat (p99 (rep_snapshot_apply_duration r)))]"

definition lifecycle_dict :: "lifecycle_report \<Rightarrow> (string \<times> pyval) list" where
  "lifecycle_dict r = map (\<lambda>(f, n). (f, VInt n)) (rep_counters r) @
    [(''ready_to_emit_false_duration_ms_max'', VFloat (rep_false_duration_ms_max r)),
     (''market_status_known'', VBool (rep_market_status_known r)),
     (''market_status_mode'', VStr (rep_market_status_mode r)),
     (''market_paused_count'', VInt (rep_market_paused_count r)),
     (''market_unpaused_count'', VInt (rep_market_unpaused_count r)),
     (''market_resolved_count'', VInt (rep_market_resolved_count r))]"

definition sync_writer_report :: "(string \<times> pyval) list" where
  \<comment> \<open>\<open>writer_report\<close> of a processor without a batch writer\<close>
  "sync_writer_report =
    [(''writer_mode'', VStr ''synchronous_jsonl_writer''), (''writer_batch_size'', VInt 1),
     (''writer_flush_interval_ms'', VFloat fzero), (''writer_queue_max_size'', VInt 0),
     (''writer_thread_or_task_count'', VInt 0), (''writer_shutdown_flush_completed'', VBool True),
     (''writer_dropped_records'', VInt 0), (''writer_error_count'', VInt 0),
     (''writer_records_enqueued'', VInt 0), (''writer_records_written'', VInt 0),
     (''writer_flush_count'', VInt 0), (''writer_flush_p50_ms'', VFloat fzero),
     (''writer_flush_p95_ms'', VFloat fzero), (''writer_flush_p99_ms'', VFloat fzero),
     (''writer_flush_max_ms'', VFloat fzero)]"

definition writer_report :: "(string \<times> pyval) list option \<Rightarrow> (string \<times> pyval) list" where
  \<comment> \<open>the argument is the batch writer's own report, when there is a batch writer\<close>
  "writer_report r = (case r of None \<Rightarrow> sync_writer_report | Some d \<Rightarrow> d)"

subsection \<open>Whether the phase passed\<close>

definition numeric_value :: "pyval \<Rightarrow> pyfloat" where
  \<comment> \<open>\<open>_numeric_value\<close>: what \<open>float\<close> refuses is 0\<close>
  "numeric_value v = (case float_from v of Inl e \<Rightarrow> fzero | Inr x \<Rightarrow> x)"

definition above_zero :: "pyval \<Rightarrow> bool" where
  "above_zero v \<longleftrightarrow> fless fzero (numeric_value v)"

definition blocker_fields :: "string list" where
  "blocker_fields = [''crossed_book_count'', ''book_empty_count'', ''one_side_missing_count'',
     ''sample_before_ready_count'', ''invalid_delta_count'',
     ''previous_final_update_id_mismatch_count'', ''ready_to_emit_violation_count'',
     ''clean_sample_schema_violation_count'']"

definition bridge_fields :: "string list" where
  "bridge_fields = [''bridge_missing_after_snapshot_count'', ''first_delta_bridge_failed_count'']"

definition reasons_of :: "(string \<times> pyval) list \<Rightarrow> string list \<Rightarrow> string list" where
  "reasons_of report names = map (\<lambda>f. f @ '' > 0'') [f \<leftarrow> names. above_zero (vget report f)]"

definition stale_check :: "(string \<times> pyval) list \<Rightarrow> pyval \<times> string" where
  "stale_check report =
     (let active = vget report ''active_feed_stale_count'';
          feed = vget report ''feed_receive_stale_count''
      in if feed \<noteq> VNone then (feed, ''feed_receive_stale_count > 0'')
         else if active = VNone then (vget report ''stale_book_count'', ''stale_book_count > 0'')
         else (active, ''active_feed_stale_count > 0''))"

definition evaluate_phase_4_1_pass :: "(string \<times> pyval) list \<Rightarrow> bool \<times> string list" where
  "evaluate_phase_4_1_pass report =
     (let r1 = (if above_zero (vget report ''sequence_gap_count'') then [''sequence_gap_count > 0'']
                else if above_zero (vget report ''sequence_gap_or_reset_count'')
                then [''sequence_gap_or_reset_count > 0''] else []);
          r2 = r1 @ reasons_of report blocker_fields;
          (stale, stale_reason) = stale_check report;
          r3 = r2 @ (if above_zero stale then [stale_reason] else []);
          r4 = r3 @ reasons_of report bridge_fields;
          r5 = r4 @ (case vget report ''queue'' of
             VDict q \<Rightarrow> if above_zero (vget q ''queue_dropped_messages'')
                         then [''queue_dropped_messages > 0''] else []
           | _ \<Rightarrow> []);
          budget = (case map_of report ''snapshot_copy_budget_met'' of None \<Rightarrow> True | Some v \<Rightarrow> truthy v);
          r6 = r5 @ (if \<not> budget then [''snapshot_copy_p99_us > snapshot_copy_budget_us''] else [])
      in (r6 = [], r6))"

definition phase411_warning_reasons :: "(string \<times> pyval) list \<Rightarrow> string list" where
  "phase411_warning_reasons report =
     (if above_zero (vget report ''post_capture_age_warning_count'')
      then [''post_capture_age_warning_count > 0''] else [])
     @ (if py_str (vget report ''market_status_mode'') = ''not_applicable_for_binance_spot_orderbook''
        then [''market_status_not_applicable_for_binance_spot_orderbook''] else [])
     @ (if above_zero (vget report ''processor_apply_stale_count'')
        then [''processor_apply_stale_count > 0''] else [])"

subsection \<open>The summary\<close>

definition snapshot_copy_budget_us :: pyfloat where "snapshot_copy_budget_us = Fin 200"

definition max_int_or_zero :: "int list \<Rightarrow> int" where
  \<comment> \<open>\<open>max(xs) if xs else 0\<close>\<close>
  "max_int_or_zero xs = (case xs of [] \<Rightarrow> 0 | y # ys \<Rightarrow> fold max ys y)"

definition max_float_or_zero :: "pyfloat list \<Rightarrow> pyfloat" where
  "max_float_or_zero xs = (case xs of [] \<Rightarrow> fzero | y # ys \<Rightarrow> fold (\<lambda>x m. pymax m x) ys y)"

definition join_commas :: "string list \<Rightarrow> string" where
  "join_commas xs = concat (case xs of [] \<Rightarrow> [] | y # ys \<Rightarrow> y # map (\<lambda>x. CHR '','' # x) ys)"

definition counter_value :: "processor \<Rightarrow> string \<Rightarrow> pyval" where
  "counter_value p f = VInt (ctr (p_counters p) f)"

definition dict_update :: "(string \<times> pyval) list \<Rightarrow> (string \<times> pyval) list \<Rightarrow> (string \<times> pyval) list" where
  "dict_update d new = fold (\<lambda>(k, v). AList.update k v) new d"

definition summary_lifecycle :: "processor \<Rightarrow> (string \<times> pyval) list" where
  "summary_lifecycle p = dict_update (lifecycle_dict (tracker_report (lifecycle p)))
     [(''feed_receive_stale_count'', counter_value p ''feed_receive_stale_count''),
      (''processor_apply_stale_count'', counter_value p ''processor_apply_stale_count''),
      (''post_capture_age_warning_count'', VInt (int (length (post_capture_age_warnings p)))),
      (''stale_reset_count'', counter_value p ''stale_reset_count'')]"

definition summary_report ::
  "pyfloat option \<Rightarrow> (string \<times> pyval) list option \<Rightarrow> processor \<Rightarrow> (string \<times> pyval) list" where
  \<comment> \<open>the dictionary of \<open>summary\<close> before the verdict; \<open>p\<close> after the stale check\<close>
  "summary_report duration writer p =
     (let copies = snapshot_copy_us_samples p; pc = percentiles_of copies;
          life = summary_lifecycle p; q = fst (queue_report_of (monitor p))
      in [(''phase'', VStr ''4.1.1''), (''duration_sec'', vopt VFloat duration),
          (''symbol'', VStr (join_commas (sort (map fst (states p))))),
          (''messages_received'', counter_value p ''messages_received''),
          (''messages_parsed'', counter_value p ''messages_parsed''),
          (''deltas_accepted'', counter_value p ''deltas_accepted''),
          (''deltas_rejected'', counter_value p ''deltas_rejected''),
          (''sequence_gap_count'', vget life ''sequence_gap_count''),
          (''sequence_gap_or_reset_count'', vget life ''sequence_gap_count''),
          (''first_delta_bridge_failed_count'', counter_value p ''first_delta_bridge_failed_count''),
          (''bridge_missing_after_snapshot_count'', counter_value p ''bridge_missing_after_snapshot_count''),
          (''duplicates_skipped'', vget life ''duplicate_messages_skipped''),
          (''samples_emitted'', counter_value p ''samples_emitted''),
          (''samples_blocked'', counter_value p ''samples_blocked''),
          (''sample_before_ready_count'', vget life ''delta_before_snapshot_count''),
          (''invalid_delta_count'', counter_value p ''invalid_delta_count''),
          (''previous_final_update_id_mismatch_count'',
             counter_value p ''previous_final_update_id_mismatch_count''),
          (''ready_to_emit_disabled_count'', counter_value p ''ready_to_emit_disabled_count''),
          (''ready_to_emit_violation_count'', counter_value p ''ready_to_emit_violation_count''),
          (''clean_sample_schema_violation_count'', counter_value p ''clean_sample_schema_violation_count''),
          (''strict_mismatch_count'', counter_value p ''strict_mismatch_count''),
          (''tolerant_mismatch_count'', counter_value p ''tolerant_mismatch_count''),
          (''crossed_book_count'', counter_value p ''crossed_book_count''),
          (''book_empty_count'', VInt (ctr (blocked_by_quality_error p) ''book_empty'')),
          (''one_side_missing_count'', VInt (ctr (blocked_by_quality_error p) ''one_side_missing'')),
          (''stale_book_count'', counter_value p ''stale_book_count''),
          (''active_feed_stale_count'', counter_value p ''active_feed_stale_count''),
          (''feed_receive_stale_count'', counter_value p ''feed_receive_stale_count''),
          (''processor_apply_stale_count'', counter_value p ''processor_apply_stale_count''),
          (''stale_reset_count'', counter_value p ''stale_reset_count''),
          (''post_capture_age_warning_count'', VInt (int (length (post_capture_age_warnings p)))),
          (''stale_periods'', VList (map (\<lambda>i. VDict (case map_of (period_store p) i of
             None \<Rightarrow> [] | Some r \<Rightarrow> stale_period_dict r)) (stale_periods p))),
          (''processor_apply_stale_warnings'',
             VList (map (VDict \<circ> apply_stale_dict) (apply_stale_warnings p))),
          (''post_capture_age_warnings'',
             VList (map (VDict \<circ> age_warning_dict) (post_capture_age_warnings p))),
          (''max_book_age_ms'', VFloat (max_book_age_ms p)),
          (''last_book_update_age_ms_at_report'', vopt VFloat (last_age_at_report p)),
          (''stale_threshold_ms'', VFloat (stale_threshold_ms p)),
          (''feed_receive_stale_threshold_ms'', VFloat (feed_receive_stale_threshold_ms p)),
          (''queue_backpressure_events'', VInt (rep_queue_backpressure_events q)),
          (''max_queue_lag_ms'', VFloat (rep_enqueue_to_dequeue_lag_ms_max q)),
          (''queue_lag_p50_ms'', VFloat (p50 (rep_enqueue_to_dequeue_lag q))),
          (''queue_lag_p95_ms'', VFloat (p95 (rep_enqueue_to_dequeue_lag q))),
          (''queue_lag_p99_ms'', VFloat (p99 (rep_enqueue_to_dequeue_lag q))),
          (''queue_depth_p50'', VFloat (p50 (rep_queue_depth q))),
          (''queue_depth_p95'', VFloat (p95 (rep_queue_depth q))),
          (''queue_depth_p99'', VFloat (p99 (rep_queue_depth q))),
          (''queue_put_block_count'', VInt (rep_queue_put_block_count q)),
          (''queue_put_block_p95_ms'', VFloat (p95 (rep_queue_put_block q))),
          (''processing_lag_p50_ms'', VFloat (p50 (rep_processing_lag q))),
          (''processing_lag_p95_ms'', VFloat (p95 (rep_processing_lag q))),
          (''processing_lag_p99_ms'', VFloat (p99 (rep_processing_lag q))),
          (''queue_size_backpressure_events'', VInt (rep_queue_size_backpressure_events q)),
          (''queue_lag_backpressure_events'', VInt (rep_queue_lag_backpressure_events q)),
          (''processing_lag_backpressure_events'', VInt (rep_processing_lag_backpressure_events q)),
          (''snapshot_blocking_lag_events'', VInt (rep_snapshot_blocking_lag_events q)),
          (''snapshot_copy_p50_us'', VFloat (p50 pc)), (''snapshot_copy_p95_us'', VFloat (p95 pc)),
          (''snapshot_copy_p99_us'', VFloat (p99 pc)),
          (''snapshot_copy_max_us'', VFloat (max_float_or_zero copies)),
          (''snapshot_copy_sample_count'', VInt (int (length copies))),
          (''snapshot_copy_budget_us'', VFloat snapshot_copy_budget_us),
          (''snapshot_copy_budget_met'', VBool (fle (p99 pc) snapshot_copy_budget_us)),
          (''copied_bid_level_count'', VInt (max_int_or_zero (copied_bid_level_counts p))),
          (''copied_ask_level_count'', VInt (max_int_or_zero (copied_ask_level_counts p))),
          (''snapshot_copy_strategy'', VStr ''top_n_index_slice_immutable_tuples_no_full_book_copy''),
          (''blocked_by_quality_error'',
             VDict (map (\<lambda>k. (k, VInt (ctr (blocked_by_quality_error p) k)))
               (sort (map fst (blocked_by_quality_error p))))),
          (''queue'', VDict (queue_dict q)), (''writer_batch_report'', VDict (writer_report writer)),
          (''disk_write_on_hot_path'', VBool (\<not> batch_writer_enabled p)),
          (''debug_logging_on_hot_path'', VBool (\<not> batch_writer_enabled p)),
          (''batch_writer_enabled'', VBool (batch_writer_enabled p)),
          (''lifecycle'', VDict life),
          (''clean_sample_schema_version'', VStr ''phase_4_1_clean_orderbook_v1''),
          (''reported_best_validation_enabled'', VBool False), (''market_status_known'', VBool False),
          (''market_status_mode'', VStr ''not_applicable_for_binance_spot_orderbook'')])"

definition summary ::
  "int \<Rightarrow> pyfloat option \<Rightarrow> (string \<times> pyval) list option \<Rightarrow> processor
     \<Rightarrow> (string \<times> pyval) list \<times> processor" where
  "summary now duration writer p0 =
     (let p1 = snd (check_stale_periods now None (Some (capture_active p0)) 0 p0);
          p = with_monitor (\<lambda>m. snd (queue_report_of m)) p1;
          d = summary_report duration writer p1;
          (pass, reasons) = evaluate_phase_4_1_pass d;
          status = VStr (if pass then ''pass'' else ''fail'');
          d1 = d @ [(''phase_4_1_pass'', VBool pass), (''phase_4_1_status'', status),
                    (''phase_4_1_failure_reasons'', VList (map VStr reasons)),
                    (''status'', status), (''hard_fail_reasons'', VList (map VStr reasons))]
      in (d1 @ [(''warning_reasons'', VList (map VStr (phase411_warning_reasons d1)))], p))"

lemma fless_float_of_int: "fless fzero (float_of_int n) \<longleftrightarrow> 0 < n"
proof
  assume n: "0 < n"
  have one: "f64 1 = Fin 1" by code_simp
  have "fle (Fin 1) (float_of_int n)" using f64_mono [of 1 "of_int n"] n
    by (simp add: float_of_int_def one)
  then show "fless fzero (float_of_int n)" by (rule fless_fle_trans [rotated]) simp
next
  assume "fless fzero (float_of_int n)"
  moreover have "fle (float_of_int n) (f64 0)" if "n \<le> 0" unfolding float_of_int_def
    by (rule f64_mono) (use that in simp)
  ultimately show "0 < n" by (metis f64_0 fless_asym not_less)
qed

lemma above_zero_simps [simp]:
  "above_zero (VInt n) \<longleftrightarrow> 0 < n" "above_zero (counter_value p f) \<longleftrightarrow> 0 < ctr (p_counters p) f"
  "\<not> above_zero VNone"
  by (simp_all add: above_zero_def numeric_value_def counter_value_def fless_float_of_int)

lemma vget_dict_update: "f \<notin> fst ` set new \<Longrightarrow> vget (dict_update d new) f = vget d f"
  unfolding dict_update_def by (induction new arbitrary: d) (auto simp: vget_def update_conv')

lemma summary_lifecycle_get:
  assumes "f \<in> set lifecycle_counter_fields"
  shows "vget (summary_lifecycle p) f = VInt (ctr (counters (lifecycle p)) f)"
proof -
  have "f \<notin> {''feed_receive_stale_count'', ''processor_apply_stale_count'',
      ''post_capture_age_warning_count'', ''stale_reset_count''}"
    using assms unfolding lifecycle_counter_fields_def by force
  then have "vget (summary_lifecycle p) f = vget (lifecycle_dict (tracker_report (lifecycle p))) f"
    unfolding summary_lifecycle_def by (intro vget_dict_update) simp
  moreover have "map_of (map (\<lambda>(f, n). (f, VInt n)) (map (\<lambda>g. (g, h g)) fs) @ r) f = Some (VInt (h f))"
    if "f \<in> set fs" for fs h r
    using that by (induction fs) auto
  from this [OF assms] have "vget (lifecycle_dict (tracker_report (lifecycle p))) f
      = VInt (ctr (counters (lifecycle p)) f)"
    unfolding lifecycle_dict_def tracker_report_def vget_def by (simp del: map_of_append map_map)
  ultimately show ?thesis by simp
qed

definition phase_clean :: "processor \<Rightarrow> bool" where
  \<comment> \<open>what has to hold of the processor for the phase to pass\<close>
  "phase_clean p \<longleftrightarrow>
     ctr (counters (lifecycle p)) ''sequence_gap_count'' \<le> 0
   \<and> ctr (counters (lifecycle p)) ''delta_before_snapshot_count'' \<le> 0
   \<and> (\<forall>f\<in>{''crossed_book_count'', ''invalid_delta_count'', ''previous_final_update_id_mismatch_count'',
         ''ready_to_emit_violation_count'', ''clean_sample_schema_violation_count'',
         ''feed_receive_stale_count'', ''bridge_missing_after_snapshot_count'',
         ''first_delta_bridge_failed_count''}. ctr (p_counters p) f \<le> 0)
   \<and> ctr (blocked_by_quality_error p) ''book_empty'' \<le> 0
   \<and> ctr (blocked_by_quality_error p) ''one_side_missing'' \<le> 0
   \<and> queue_dropped_messages (monitor p) \<le> 0
   \<and> fle (p99 (percentiles_of (snapshot_copy_us_samples p))) snapshot_copy_budget_us"

lemma summary_gets:
  fixes d w p
  defines "r \<equiv> summary_report d w p"
  shows "vget r ''sequence_gap_count'' = VInt (ctr (counters (lifecycle p)) ''sequence_gap_count'')"
    and "vget r ''sequence_gap_or_reset_count'' = VInt (ctr (counters (lifecycle p)) ''sequence_gap_count'')"
    and "vget r ''sample_before_ready_count'' = VInt (ctr (counters (lifecycle p)) ''delta_before_snapshot_count'')"
    and "vget r ''crossed_book_count'' = counter_value p ''crossed_book_count''"
    and "vget r ''invalid_delta_count'' = counter_value p ''invalid_delta_count''"
    and "vget r ''previous_final_update_id_mismatch_count'' = counter_value p ''previous_final_update_id_mismatch_count''"
    and "vget r ''ready_to_emit_violation_count'' = counter_value p ''ready_to_emit_violation_count''"
    and "vget r ''clean_sample_schema_violation_count'' = counter_value p ''clean_sample_schema_violation_count''"
    and "vget r ''feed_receive_stale_count'' = counter_value p ''feed_receive_stale_count''"
    and "vget r ''bridge_missing_after_snapshot_count'' = counter_value p ''bridge_missing_after_snapshot_count''"
    and "vget r ''first_delta_bridge_failed_count'' = counter_value p ''first_delta_bridge_failed_count''"
    and "vget r ''book_empty_count'' = VInt (ctr (blocked_by_quality_error p) ''book_empty'')"
    and "vget r ''one_side_missing_count'' = VInt (ctr (blocked_by_quality_error p) ''one_side_missing'')"
    and "vget r ''queue'' = VDict (queue_dict (fst (queue_report_of (monitor p))))"
    and "map_of r ''snapshot_copy_budget_met'' =
      Some (VBool (fle (p99 (percentiles_of (snapshot_copy_us_samples p))) snapshot_copy_budget_us))"
  by (simp_all add: r_def summary_report_def Let_def vget_def)
    (simp_all add: summary_lifecycle_get [unfolded vget_def] lifecycle_counter_fields_def)

lemma queue_dropped_get:
  "vget (queue_dict (fst (queue_report_of m))) ''queue_dropped_messages'' = VInt (queue_dropped_messages m)"
  by (simp add: queue_dict_def queue_report_of_def Let_def vget_def)

lemma evaluate_summary:
  "fst (evaluate_phase_4_1_pass (summary_report d w p)) \<longleftrightarrow> phase_clean p"
  by (auto simp: evaluate_phase_4_1_pass_def Let_def reasons_of_def blocker_fields_def bridge_fields_def
      stale_check_def summary_gets queue_dropped_get phase_clean_def counter_value_def)

lemma evaluate_reasons: "fst (evaluate_phase_4_1_pass r) \<longleftrightarrow> snd (evaluate_phase_4_1_pass r) = []"
  by (simp add: evaluate_phase_4_1_pass_def Let_def split_beta)

lemma summary_report_keys:
  "map_of (summary_report d w p) ''phase_4_1_pass'' = None"
  "map_of (summary_report d w p) ''hard_fail_reasons'' = None"
  by (simp_all add: summary_report_def Let_def)

text \<open>
  The verdict of the summary. The report passes exactly when, after one last stale check, no
  gap, no update before the snapshot, no crossed, empty or one-sided book, no invalid or
  mismatching update, no stale feed, no missing bridge and no dropped message was counted and
  the copies met their time budget; and it passes exactly when it lists no reason to fail.
\<close>
theorem summary_verdict:
  "let rep = fst (summary now d w p);
       p1 = snd (check_stale_periods now None (Some (capture_active p)) 0 p)
   in vget rep ''phase_4_1_pass'' = VBool (phase_clean p1)
    \<and> (vget rep ''hard_fail_reasons'' = VList [] \<longleftrightarrow> phase_clean p1)"
  using evaluate_summary [of d w "snd (check_stale_periods now None (Some (capture_active p)) 0 p)"]
    evaluate_reasons [of "summary_report d w (snd (check_stale_periods now None (Some (capture_active p)) 0 p))"]
  by (simp add: summary_def Let_def split_beta vget_def summary_report_keys map_add_def)

end
