(* ===== verification/Ticks.thy ===== *)
theory Ticks
  imports ShortDecimal
begin

text \<open>
  The tick arithmetic of \<open>app/core/tick_math.py\<close>: prices are floats, the grid is computed in
  decimals of 28 digits. A division by a decimal infinity is zero, so a rounding to an infinite
  tick multiplies zero by infinity and raises InvalidOperation.
\<close>

definition dec_of_float :: "pyfloat \<Rightarrow> pydec" where
  \<comment> \<open>\<open>Decimal(str(value))\<close>\<close>
  "dec_of_float x = (case x of Fin r \<Rightarrow> DFin (repr_value r) | PInf \<Rightarrow> DPosInf | NInf \<Rightarrow> DNegInf | NaN \<Rightarrow> DNaN)"

definition float_of_dec :: "pydec \<Rightarrow> pyfloat" where
  "float_of_dec d = (case d of DFin r \<Rightarrow> f64 r | DPosInf \<Rightarrow> PInf | DNegInf \<Rightarrow> NInf | DNaN \<Rightarrow> NaN)"

fun ddiv :: "pydec \<Rightarrow> pydec \<Rightarrow> py_error + pydec" where
  \<comment> \<open>by a positive number, by positive infinity, or with a NaN\<close>
  "ddiv DNaN _ = Inr DNaN"
| "ddiv _ DNaN = Inr DNaN"
| "ddiv (DFin a) (DFin b) = (if b = 0 then Inl ZeroDivisionError else Inr (DFin (r28 (a / b))))"
| "ddiv (DFin a) _ = Inr dzero"
| "ddiv DPosInf (DFin b) = Inr (if b < 0 then DNegInf else DPosInf)"
| "ddiv DNegInf (DFin b) = Inr (if b < 0 then DPosInf else DNegInf)"
| "ddiv _ _ = Inl InvalidOperation"

fun dmul :: "pydec \<Rightarrow> pydec \<Rightarrow> py_error + pydec" where
  "dmul DNaN _ = Inr DNaN"
| "dmul _ DNaN = Inr DNaN"
| "dmul (DFin a) (DFin b) = Inr (DFin (r28 (a * b)))"
| "dmul (DFin a) DPosInf = (if a = 0 then Inl InvalidOperation else Inr (if a < 0 then DNegInf else DPosInf))"
| "dmul (DFin a) DNegInf = (if a = 0 then Inl InvalidOperation else Inr (if a < 0 then DPosInf else DNegInf))"
| "dmul DPosInf (DFin b) = (if b = 0 then Inl InvalidOperation else Inr (if b < 0 then DNegInf else DPosInf))"
| "dmul DNegInf (DFin b) = (if b = 0 then Inl InvalidOperation else Inr (if b < 0 then DPosInf else DNegInf))"
| "dmul DPosInf d = Inr d"
| "dmul DNegInf DPosInf = Inr DNegInf"
| "dmul DNegInf DNegInf = Inr DPosInf"

datatype tick_side = Buy | Sell

definition half_up :: "rat \<Rightarrow> int" where
  \<comment> \<open>\<open>ROUND_HALF_UP\<close>: to the nearest integer, a tie away from zero\<close>
  "half_up x = (if x < 0 then - \<lfloor>\<bar>x\<bar> + 1 / 2\<rfloor> else \<lfloor>x + 1 / 2\<rfloor>)"

definition ticks_rounded :: "tick_side option \<Rightarrow> rat \<Rightarrow> int" where
  "ticks_rounded side x = (case side of Some Buy \<Rightarrow> \<lfloor>x\<rfloor> | Some Sell \<Rightarrow> \<lceil>x\<rceil> | None \<Rightarrow> half_up x)"

definition to_integral :: "tick_side option \<Rightarrow> pydec \<Rightarrow> pydec" where
  "to_integral side d = (case d of DFin x \<Rightarrow> DFin (of_int (ticks_rounded side x)) | _ \<Rightarrow> d)"

definition check_tick_size :: "pyfloat \<Rightarrow> py_error + unit" where
  "check_tick_size t = (if fle t fzero then Inl ValueError else Inr ())"

definition price_to_ticks :: "pyfloat \<Rightarrow> pyfloat \<Rightarrow> py_error + pyfloat" where
  "price_to_ticks price tick_size = (case check_tick_size tick_size of Inl e \<Rightarrow> Inl e
     | Inr _ \<Rightarrow> map_sum id float_of_dec (ddiv (dec_of_float price) (dec_of_float tick_size)))"

definition diff_to_ticks :: "pyfloat \<Rightarrow> pyfloat \<Rightarrow> py_error + pyfloat" where
  "diff_to_ticks diff tick_size = (case check_tick_size tick_size of Inl e \<Rightarrow> Inl e
     | Inr _ \<Rightarrow> map_sum id float_of_dec (ddiv (dec_of_float diff) (dec_of_float tick_size)))"

definition round_price_to_tick :: "pyfloat \<Rightarrow> pyfloat \<Rightarrow> tick_side option \<Rightarrow> py_error + pyfloat" where
  "round_price_to_tick price tick_size side =
     (case check_tick_size tick_size of Inl e \<Rightarrow> Inl e
      | Inr _ \<Rightarrow>
          (case ddiv (dec_of_float price) (dec_of_float tick_size) of Inl e \<Rightarrow> Inl e
           | Inr ticks \<Rightarrow>
               map_sum id float_of_dec (dmul (to_integral side ticks) (dec_of_float tick_size))))"

definition is_price_on_tick :: "pyfloat \<Rightarrow> pyfloat \<Rightarrow> pyfloat \<Rightarrow> py_error + bool" where
  "is_price_on_tick price tick_size tolerance =
     (case check_tick_size tick_size of Inl e \<Rightarrow> Inl e
      | Inr _ \<Rightarrow> map_sum id (\<lambda>rounded. fle (fabs (fsub rounded price)) tolerance)
                   (round_price_to_tick price tick_size None))"

subsection \<open>Rounding on the grid\<close>

lemma repr_value_sign: assumes "is_f64 x" shows "0 < repr_value x \<longleftrightarrow> 0 < x"
proof (cases "x = 0")
  case False
  have "r64 (repr_value x) = x" using assms by (intro r64_repr_value) (simp add: is_f64_def)
  then show ?thesis
    using False binary64.nonneg [of "repr_value x"] binary64.nonpos [of "repr_value x"] by linarith
qed (simp add: repr_value_def)

definition grid_float :: "tick_side option \<Rightarrow> rat \<Rightarrow> rat \<Rightarrow> pyfloat" where
  \<comment> \<open>the float of the grid point next to the decimal \<open>p\<close> on the grid of \<open>t\<close>\<close>
  "grid_float side p t = f64 (r28 (of_int (ticks_rounded side (r28 (p / t))) * t))"

lemma round_price_grid:
  assumes "is_f64 t" and "0 < t"
  shows "round_price_to_tick (Fin p) (Fin t) side = Inr (grid_float side (repr_value p) (repr_value t))"
proof -
  have "0 < repr_value t" using repr_value_sign [OF assms(1)] assms(2) by simp
  then show ?thesis using assms(2)
    by (simp add: round_price_to_tick_def check_tick_size_def dec_of_float_def to_integral_def
        float_of_dec_def grid_float_def)
qed

lemma half_up_between: "\<lfloor>x\<rfloor> \<le> half_up x" "half_up x \<le> \<lceil>x\<rceil>"
  by (auto simp: half_up_def abs_if) linarith+

lemma half_up_of_int [simp]: "half_up (of_int n) = n"
  by (auto simp: half_up_def abs_if) linarith+

lemma ticks_rounded_of_int [simp]: "ticks_rounded side (of_int n) = n"
  by (auto simp: ticks_rounded_def split: option.splits tick_side.splits)

lemma grid_float_mono:
  "0 \<le> t \<Longrightarrow> m \<le> n \<Longrightarrow> fle (f64 (r28 (of_int m * t))) (f64 (r28 (of_int n * t)))"
  by (intro f64_mono decimal28.mono mult_right_mono) simp_all

text \<open>
  The quotient is rounded to 28 digits before it is taken to a whole number of ticks. Two decimals of
  17 digits whose quotient is at most \<open>10 ^ 10\<close> are far enough from the grid, or on it, that this first
  rounding never crosses a whole number.
\<close>

lemma decimal_gap:
  fixes c d :: rat
  assumes "c = of_int a * 10 powi i" and "d = of_int b * 10 powi j" and "c < d"
  shows "10 powi min i j \<le> d - c"
proof -
  define m where "m = min i j"
  have "c = of_int (a * 10 ^ nat (i - m)) * 10 powi m" "d = of_int (b * 10 ^ nat (j - m)) * 10 powi m"
    using on_grid [of 10 m i] on_grid [of 10 m j] by (simp_all add: assms(1,2) m_def field_simps)
  then obtain k l where kl: "c = of_int k * 10 powi m" "d = of_int l * 10 powi m" by blast
  then have "of_int k * 10 powi m < of_int l * (10 powi m :: rat)" using assms(3) by simp
  then have "k < l" by (simp add: mult_less_cancel_right)
  then have "of_int 1 \<le> (of_int (l - k) :: rat)" by (simp only: of_int_le_iff)
  then have "1 * 10 powi m \<le> of_int (l - k) * (10 powi m :: rat)" by (intro mult_right_mono) simp_all
  then show ?thesis by (simp add: kl m_def left_diff_distrib)
qed

definition least_quotient :: rat where
  "least_quotient = 10 powi (- 900)"

definition tick_pair :: "rat \<Rightarrow> rat \<Rightarrow> bool" where
  \<comment> \<open>a price and a tick of at most 17 digits whose quotient is in range\<close>
  "tick_pair p t \<longleftrightarrow> 0 < t \<and> \<bar>p\<bar> \<le> 10 ^ 10 * t \<and> (p \<noteq> 0 \<longrightarrow> least_quotient \<le> \<bar>p / t\<bar>)
     \<and> (\<exists>a i. p = of_int a * 10 powi i \<and> \<bar>a\<bar> \<le> 10 ^ 17) \<and> (\<exists>b j. t = of_int b * 10 powi j \<and> \<bar>b\<bar> \<le> 10 ^ 17)"

lemma r28_error:
  assumes "least_quotient \<le> \<bar>x\<bar>"
  shows "\<bar>r28 x - x\<bar> \<le> \<bar>x\<bar> / 2000000000000000000000000000"
proof -
  have pos: "0 < least_quotient" unfolding least_quotient_def by (intro zero_less_power_int) simp
  have exps: "- 1000026 + int 28 - 1 = (- 999999 :: int)" "(1 :: int) - int 28 = - 27" by simp_all
  have "(10 :: rat) powi (- 999999) \<le> least_quotient"
    unfolding least_quotient_def by (intro power_int_increasing) simp_all
  then have "(10 :: rat) powi (- 999999) \<le> \<bar>x\<bar>" using assms by (rule order_trans)
  then have low: "of_nat 10 powi (- 1000026 + int 28 - 1) \<le> \<bar>x\<bar>"
    unfolding exps by (simp only: of_nat_numeral)
  have "0 < \<bar>x\<bar>" using pos assms by linarith
  from round_sig_error_pos [OF _ this low] have "\<bar>r28 \<bar>x\<bar> - \<bar>x\<bar>\<bar> \<le> \<bar>x\<bar> * of_nat 10 powi (1 - int 28) / 2"
    unfolding r28_def by simp
  also have "\<dots> = \<bar>x\<bar> / 2000000000000000000000000000" unfolding exps by simp
  also have "\<bar>r28 \<bar>x\<bar> - \<bar>x\<bar>\<bar> = \<bar>r28 x - x\<bar>" by (simp add: decimal28.minus abs_if)
  finally show ?thesis .
qed

lemma rounded_quotient_below:
  assumes tp: "tick_pair p t" and n: "of_int n \<le> r28 (p / t)"
  shows "of_int n * t \<le> p"
proof (rule ccontr)
  assume "\<not> ?thesis"
  then have lt: "p < of_int n * t" by simp
  have t: "0 < t" "\<bar>p\<bar> \<le> 10 ^ 10 * t" using tp by (simp_all add: tick_pair_def)
  obtain a i b j where p: "p = of_int a * 10 powi i" "\<bar>a\<bar> \<le> 10 ^ 17"
    and tb: "t = of_int b * 10 powi j" "\<bar>b\<bar> \<le> 10 ^ 17"
    using tp by (auto simp: tick_pair_def)
  have big: "\<bar>of_int k * 10 powi l\<bar> \<le> 100000000000000000 * (10 powi l :: rat)" if "\<bar>k\<bar> \<le> 10 ^ 17" for k l
  proof -
    have "of_int \<bar>k\<bar> \<le> (of_int (10 ^ 17) :: rat)" using that by (simp only: of_int_le_iff)
    then show ?thesis by (simp add: abs_mult)
  qed
  have "10 powi min i j \<le> of_int n * t - p"
    by (rule decimal_gap [OF p(1) _ lt, of "n * b"]) (simp add: tb(1))
  moreover have "of_int n * t - p \<le> \<bar>p\<bar> / 2000000000000000000000000000"
  proof (cases "p = 0")
    case True
    then have "n \<le> 0" using n by (simp add: decimal28.zero)
    then show ?thesis using True t(1) by (simp add: mult_nonpos_nonneg)
  next
    case False
    then have "least_quotient \<le> \<bar>p / t\<bar>" using tp unfolding tick_pair_def by blast
    from abs_le_D1 [OF r28_error [OF this]] n have "of_int n \<le> p / t + \<bar>p / t\<bar> / 2000000000000000000000000000" by linarith
    then have "of_int n * t \<le> (p / t + \<bar>p / t\<bar> / 2000000000000000000000000000) * t"
      using t(1) by (intro mult_right_mono) simp_all
    then show ?thesis using t(1) by (simp add: distrib_right abs_divide)
  qed
  ultimately have le: "10 powi min i j \<le> \<bar>p\<bar> / 2000000000000000000000000000" by linarith
  show False
  proof (cases "i \<le> j")
    case True
    have "\<bar>p\<bar> \<le> 100000000000000000 * 10 powi i" unfolding p(1) by (rule big [OF p(2)])
    moreover have "10 powi i \<le> \<bar>p\<bar> / 2000000000000000000000000000" using le True by (simp only: min_absorb1)
    moreover have "0 < (10 :: rat) powi i" by (rule zero_less_power_int) simp
    ultimately show ?thesis by linarith
  next
    case False
    moreover have "\<bar>t\<bar> \<le> 100000000000000000 * 10 powi j" unfolding tb(1) by (rule big [OF tb(2)])
    moreover have "0 < (10 :: rat) powi j" by simp
    ultimately show ?thesis using le t by simp
  qed
qed

lemma tick_pair_minus: "tick_pair p t \<Longrightarrow> tick_pair (- p) t"
proof -
  assume tp: "tick_pair p t"
  then obtain a i where "p = of_int a * 10 powi i" "\<bar>a\<bar> \<le> 10 ^ 17" unfolding tick_pair_def by blast
  then have "- p = of_int (- a) * 10 powi i" "\<bar>- a\<bar> \<le> 10 ^ 17" by simp_all
  then have "\<exists>a i. - p = of_int a * 10 powi i \<and> \<bar>a\<bar> \<le> 10 ^ 17" by blast
  then show "tick_pair (- p) t" using tp
    unfolding tick_pair_def minus_divide_left [symmetric] abs_minus_cancel neg_equal_0_iff_equal by blast
qed

lemma rounded_quotient_above:
  assumes "tick_pair p t" and "r28 (p / t) \<le> of_int n"
  shows "p \<le> of_int n * t"
  using rounded_quotient_below [OF tick_pair_minus [OF assms(1)], of "- n"] assms(2)
  by (simp add: decimal28.minus)

lemma tick_pair_repr:
  assumes "is_f64 p" and "is_f64 t" and "0 < t" and "\<bar>repr_value p\<bar> \<le> 10 ^ 10 * repr_value t"
  shows "tick_pair (repr_value p) (repr_value t)"
proof -
  have t: "0 < repr_value t" using repr_value_sign [OF assms(2)] assms(3) by simp
  have f: "r64 p = p" "r64 t = t" using assms(1,2) by (simp_all add: is_f64_def)
  have "least_quotient \<le> \<bar>repr_value p / repr_value t\<bar>" if "repr_value p \<noteq> 0"
  proof -
    have p: "p \<noteq> 0" using that by (auto simp: repr_value_def)
    have "least_quotient * repr_value t \<le> least_quotient * 10 powi 400"
      using repr_value_range(2) [OF assms(2)] assms(3) t unfolding least_quotient_def
      by (intro mult_left_mono) (simp_all only: abs_of_pos zero_le_power_int zero_le_numeral less_irrefl)
    also have "\<dots> = 10 powi (- 900 + 400)"
      unfolding least_quotient_def by (rule power_int_add [symmetric]) simp
    also have "\<dots> \<le> (10 :: rat) powi (- 400)" by (intro power_int_increasing) simp_all
    also have "\<dots> \<le> \<bar>repr_value p\<bar>" by (rule repr_value_range(1) [OF assms(1) p])
    finally show ?thesis using t by (simp add: pos_le_divide_eq)
  qed
  with t assms(4) repr_value_decimal [OF f(1)] repr_value_decimal [OF f(2)] show ?thesis
    unfolding tick_pair_def by metis
qed

lemma r28_repr_value:
  assumes "is_f64 p"
  shows "r28 (repr_value p) = repr_value p"
proof (cases "p = 0")
  case True
  then show ?thesis by (simp add: repr_value_def decimal28.zero)
next
  case False
  have "r64 p = p" using assms by (simp add: is_f64_def)
  then obtain a i where p: "repr_value p = of_int a * 10 powi i" "\<bar>a\<bar> \<le> 10 ^ 17" by (rule repr_value_decimal)
  have a: "of_int \<bar>a\<bar> \<le> (of_int (10 ^ 17) :: rat)" using p(2) by (simp only: of_int_le_iff)
  have "10 powi (- 400) \<le> 10 ^ 17 * (10 powi i :: rat)"
  proof -
    have "10 powi (- 400) \<le> \<bar>of_int a\<bar> * (10 powi i :: rat)"
      using repr_value_range(1) [OF assms False] unfolding p(1) abs_mult by simp
    also have "\<dots> \<le> 10 ^ 17 * 10 powi i" using a by (intro mult_right_mono) simp_all
    finally show ?thesis .
  qed
  also have "\<dots> = 10 powi (i + 17)" by (simp add: power_int_add)
  finally have "(10 :: rat) powi (- 400) < 10 powi (i + 18)"
    by (rule le_less_trans) (intro power_int_strict_increasing, simp_all)
  then have "- 400 < i + 18" by (rule powi_less_cancel) simp
  moreover have "\<bar>a\<bar> \<le> int 10 ^ 28" using p(2) by simp
  ultimately show ?thesis using round_sig_digits [of 10 a 28 "- 1000026" i] by (simp add: r28_def p(1))
qed

lemma f64_repr_value: "is_f64 p \<Longrightarrow> f64 (repr_value p) = Fin p"
  using r64_repr_value [of p] by (simp add: f64_def Let_def is_f64_def abs_less_iff not_le)

lemma grid_float_bounds:
  assumes "is_f64 p" and "is_f64 t" and "0 < t" and "\<bar>repr_value p\<bar> \<le> 10 ^ 10 * repr_value t"
  shows "fle (grid_float (Some Buy) (repr_value p) (repr_value t)) (Fin p)"
    and "fle (Fin p) (grid_float (Some Sell) (repr_value p) (repr_value t))"
proof -
  note tp = tick_pair_repr [OF assms]
  let ?q = "r28 (repr_value p / repr_value t)"
  have "of_int \<lfloor>?q\<rfloor> * repr_value t \<le> repr_value p" by (rule rounded_quotient_below [OF tp]) simp
  then have "r28 (of_int \<lfloor>?q\<rfloor> * repr_value t) \<le> repr_value p" by (rule decimal28.below [OF r28_repr_value [OF assms(1)]])
  from f64_mono [OF this] show "fle (grid_float (Some Buy) (repr_value p) (repr_value t)) (Fin p)"
    by (simp add: grid_float_def ticks_rounded_def f64_repr_value [OF assms(1)])
  have "repr_value p \<le> of_int \<lceil>?q\<rceil> * repr_value t" by (rule rounded_quotient_above [OF tp]) simp
  then have "repr_value p \<le> r28 (of_int \<lceil>?q\<rceil> * repr_value t)" by (rule decimal28.above [OF r28_repr_value [OF assms(1)]])
  from f64_mono [OF this] show "fle (Fin p) (grid_float (Some Sell) (repr_value p) (repr_value t))"
    by (simp add: grid_float_def ticks_rounded_def f64_repr_value [OF assms(1)])
qed

text \<open>
  C17: rounding to the tick never raises for a finite price and a positive finite tick, and a
  non-positive tick is refused. The buy side never rounds above the nearest tick nor the sell side
  below it. When the price is at most \<open>10 ^ 10\<close> ticks, the price rounded for a buy never exceeds the
  price itself, and the price rounded for a sell is never below it, in spite of the roundings of the
  decimal and of the float arithmetic in between.
\<close>
theorem tick_rounding_is_ordered:
  assumes "is_f64 p" and "is_f64 t"
  shows "if 0 < t then
      (\<exists>lo mid hi. round_price_to_tick (Fin p) (Fin t) (Some Buy) = Inr lo
        \<and> round_price_to_tick (Fin p) (Fin t) None = Inr mid
        \<and> round_price_to_tick (Fin p) (Fin t) (Some Sell) = Inr hi \<and> fle lo mid \<and> fle mid hi
        \<and> (\<bar>repr_value p\<bar> \<le> 10 ^ 10 * repr_value t \<longrightarrow> fle lo (Fin p) \<and> fle (Fin p) hi))
    else round_price_to_tick (Fin p) (Fin t) side = Inl ValueError"
proof (cases "0 < t")
  case True
  have "0 < repr_value t" using repr_value_sign [OF assms(2)] True by simp
  then have "fle (grid_float (Some Buy) (repr_value p) (repr_value t)) (grid_float None (repr_value p) (repr_value t))"
    "fle (grid_float None (repr_value p) (repr_value t)) (grid_float (Some Sell) (repr_value p) (repr_value t))"
    using half_up_between by (simp_all add: grid_float_def ticks_rounded_def grid_float_mono)
  then show ?thesis using True grid_float_bounds [OF assms True] by (simp add: round_price_grid [OF assms(2) True])
next
  case False
  then show ?thesis by (simp add: round_price_to_tick_def check_tick_size_def)
qed

theorem tick_rounding_is_ordered_witness:
  "\<exists>lo hi. round_price_to_tick (Fin (7 / 8)) (Fin (1 / 4)) (Some Buy) = Inr lo
     \<and> round_price_to_tick (Fin (7 / 8)) (Fin (1 / 4)) (Some Sell) = Inr hi
     \<and> fle lo (Fin (7 / 8)) \<and> fle (Fin (7 / 8)) hi"
proof -
  have f: "is_f64 (7 / 8)" "is_f64 (1 / 4)" by (simp_all add: is_f64_def f64_limit_def) code_simp+
  have "\<bar>repr_value (7 / 8)\<bar> \<le> 10 ^ 10 * repr_value (1 / 4)" by code_simp
  with tick_rounding_is_ordered [OF f, of None] show ?thesis by auto
qed

text \<open>
  A price on the grid stays where it is: if the price's decimal is a whole number of ticks,
  and that number fits 28 digits, rounding to any side gives the price back, and
  the price counts as on the tick.
\<close>
theorem on_grid_price_is_fixed:
  assumes "is_f64 p" and "is_f64 t" and "0 < t" and "repr_value p = of_int n * repr_value t"
    and "r28 (of_int n) = of_int n"
  shows "round_price_to_tick (Fin p) (Fin t) side = Inr (Fin p)
    \<and> is_price_on_tick (Fin p) (Fin t) (Fin 0) = Inr True
    \<and> price_to_ticks (Fin p) (Fin t) = Inr (float_of_int n)"
proof -
  have t: "0 < repr_value t" using repr_value_sign [OF assms(2)] assms(3) by simp
  then have q: "repr_value p / repr_value t = of_int n" using assms(4) by simp
  have "f64 (repr_value p) = Fin p" by (rule f64_repr_value [OF assms(1)])
  then have round: "round_price_to_tick (Fin p) (Fin t) s = Inr (Fin p)" for s
    using assms(4,5) q r28_repr_value [OF assms(1)] by (simp add: round_price_grid [OF assms(2,3)] grid_float_def)
  moreover have "is_price_on_tick (Fin p) (Fin t) (Fin 0) = Inr True"
    using round [of None] assms(3) by (simp add: is_price_on_tick_def check_tick_size_def fsub_def)
  moreover have "price_to_ticks (Fin p) (Fin t) = Inr (float_of_int n)"
    using t assms(3,5) q
    by (simp add: price_to_ticks_def check_tick_size_def dec_of_float_def float_of_dec_def float_of_int_def)
  ultimately show ?thesis by blast
qed

theorem on_grid_price_is_fixed_witness:
  "round_price_to_tick (Fin (3 / 4)) (Fin (1 / 4)) (Some Buy) = Inr (Fin (3 / 4))"
proof -
  have f: "is_f64 (3 / 4)" "is_f64 (1 / 4)" by (simp_all add: is_f64_def f64_limit_def) code_simp+
  have "repr_value (3 / 4) = of_int 3 * repr_value (1 / 4)" "r28 (of_int 3) = of_int 3"
    by code_simp+
  from on_grid_price_is_fixed [OF f _ this] show ?thesis by simp
qed

end
