(* ===== verification/PolyBook.thy ===== *)
theory PolyBook
  imports Events
begin

text \<open>
  The local order book of \<open>app/marketdata/polymarket_orderbook.py\<close>: per token a book of price
  levels, fed by book snapshots, price changes and reported best prices, from which quotes are
  made; next to it the readiness statistics of the token. Payloads are the decoded JSON values.
  An operation returns its quote or its exception together with the state it leaves, since the
  code mutates books before it raises. The sample file is the list of rows written to it.
\<close>

subsection \<open>State\<close>

record token_metadata =
  tm_condition_id :: "string option"
  tm_market_id :: string
  tm_side_label :: side_label
  tm_market_slug :: "string option"
  tm_base_asset :: "string option"
  tm_duration_minutes :: "int option"
  tm_token_outcome :: "string option"
  tm_tick_size :: pyfloat

type_synonym float_levels = "(pyfloat \<times> pyfloat) list"

record token_book =
  tb_token_id :: string
  tb_metadata :: token_metadata
  tb_bids :: float_levels
  tb_asks :: float_levels
  tb_last_hash :: "string option"
  tb_last_event_ts :: "int option"
  tb_last_received_ts :: "int option"
  tb_update_count :: int
  tb_has_snapshot :: bool
  tb_incomplete :: bool
  tb_invalid :: bool
  tb_validation_error :: "string option"
  tb_reported_best_ok :: bool
  tb_bid_override :: "pyfloat option"
  tb_ask_override :: "pyfloat option"
  tb_last_snapshot_hash :: "string option"
  tb_last_book_hash :: "string option"

definition new_token_book :: "string \<Rightarrow> token_metadata \<Rightarrow> token_book" where
  "new_token_book token metadata = \<lparr>tb_token_id = token, tb_metadata = metadata, tb_bids = [],
     tb_asks = [], tb_last_hash = None, tb_last_event_ts = None, tb_last_received_ts = None,
     tb_update_count = 0, tb_has_snapshot = False, tb_incomplete = True, tb_invalid = False,
     tb_validation_error = None, tb_reported_best_ok = True, tb_bid_override = None,
     tb_ask_override = None, tb_last_snapshot_hash = None, tb_last_book_hash = None\<rparr>"

record token_readiness =
  rd_token_id :: string
  rd_market_id :: string
  rd_first_ws_message :: "int option"
  rd_first_book_snapshot :: "int option"
  rd_first_complete_quote :: "int option"
  rd_complete_true :: int
  rd_complete_false :: int
  rd_errors_by_reason :: "string counter"
  rd_errors_by_update_type :: "string counter"
  rd_quote_stale :: int
  rd_price_change_before_snapshot :: int
  rd_best_bid_ask_before_snapshot :: int
  rd_snapshot_count :: int
  rd_delta_count :: int
  rd_reconnect_count :: int
  rd_last_validation_error :: "string option"

definition new_readiness :: "string \<Rightarrow> string \<Rightarrow> token_readiness" where
  "new_readiness token market = \<lparr>rd_token_id = token, rd_market_id = market,
     rd_first_ws_message = None, rd_first_book_snapshot = None, rd_first_complete_quote = None,
     rd_complete_true = 0, rd_complete_false = 0, rd_errors_by_reason = [],
     rd_errors_by_update_type = [], rd_quote_stale = 0, rd_price_change_before_snapshot = 0,
     rd_best_bid_ask_before_snapshot = 0, rd_snapshot_count = 0, rd_delta_count = 0,
     rd_reconnect_count = 0, rd_last_validation_error = None\<rparr>"

record mismatch_sample =
  ms_market_id :: string
  ms_market_slug :: "string option"
  ms_base_asset :: "string option"
  ms_duration_minutes :: "int option"
  ms_token_id :: string
  ms_token_outcome :: "string option"
  ms_update_type :: string
  ms_local_bid :: "pyfloat option"
  ms_local_ask :: "pyfloat option"
  ms_local_bid_size :: "pyfloat option"
  ms_local_ask_size :: "pyfloat option"
  ms_reported_bid :: "pyfloat option"
  ms_reported_ask :: "pyfloat option"
  ms_reported_bid_size :: "pyfloat option"
  ms_reported_ask_size :: "pyfloat option"
  ms_tick_size :: pyfloat
  ms_bid_tick_diff :: "pyfloat option"
  ms_ask_tick_diff :: "pyfloat option"
  ms_tick_diff :: "pyfloat option"
  ms_error_type :: "string option"
  ms_payload_hash :: pyval
  ms_last_snapshot_hash :: "string option"
  ms_last_book_hash :: "string option"
  ms_local_sequence :: int
  ms_recv_monotonic_ns :: int
  ms_raw_payload :: "(string \<times> pyval) list"

record poly_book =
  pb_metadata :: "(string \<times> token_metadata) list"
  pb_stale_after_ms :: pyfloat
  pb_mode :: validation_mode
  pb_tolerance_ticks :: int
  pb_sample_path :: "string option"
  pb_samples_per_min :: int
  pb_degraded_threshold :: pyfloat
  pb_sample_counts :: "((string \<times> int) \<times> int) list"
  pb_books :: "(string \<times> token_book) list"
  pb_tick_diffs :: "pyfloat list"
  pb_mismatch_by_update_type :: "string counter"
  pb_readiness :: "(string \<times> token_readiness) list"
  pb_market_invalid :: "string list"
  pb_samples :: "mismatch_sample list"

definition poly_book_init ::
  "(string \<times> token_metadata) list \<Rightarrow> pyfloat \<Rightarrow> validation_mode \<Rightarrow> int \<Rightarrow> string option \<Rightarrow> int \<Rightarrow> pyfloat
     \<Rightarrow> poly_book" where
  "poly_book_init metadata stale_after mode tolerance path per_min degraded =
     \<lparr>pb_metadata = metadata, pb_stale_after_ms = stale_after, pb_mode = mode,
      pb_tolerance_ticks = tolerance, pb_sample_path = path, pb_samples_per_min = per_min,
      pb_degraded_threshold = degraded, pb_sample_counts = [], pb_books = [], pb_tick_diffs = [],
      pb_mismatch_by_update_type = [],
      pb_readiness = map (\<lambda>(t, m). (t, new_readiness t (tm_market_id m))) metadata,
      pb_market_invalid = [], pb_samples = []\<rparr>"

subsection \<open>Price levels\<close>

text \<open>
  A dictionary with float keys. A NaN read from a payload equals no key, so it is never found nor
  replaced; \<open>max\<close> and \<open>min\<close> return a NaN only when it is the first key, and then find its size.
\<close>

definition put_level :: "pyfloat \<Rightarrow> pyfloat \<Rightarrow> float_levels \<Rightarrow> float_levels" where
  "put_level price qty levels =
     (if price = NaN then levels @ [(price, qty)] else AList.update price qty levels)"

definition set_level :: "pyfloat \<Rightarrow> pyfloat \<Rightarrow> float_levels \<Rightarrow> float_levels" where
  "set_level price qty levels =
     (if fle qty fzero then (if price = NaN then levels else AList.delete price levels)
      else put_level price qty levels)"

definition best_of :: "(pyfloat \<Rightarrow> pyfloat \<Rightarrow> pyfloat) \<Rightarrow> float_levels \<Rightarrow> (pyfloat \<times> pyfloat) option" where
  "best_of pick levels = (case map fst levels of [] \<Rightarrow> None
     | p # ps \<Rightarrow> (let price = foldl pick p ps in
         map_option (\<lambda>qty. (price, qty)) (map_of levels price)))"

definition best_bid_level :: "float_levels \<Rightarrow> (pyfloat \<times> pyfloat) option" where
  "best_bid_level = best_of pymax"

definition best_ask_level :: "float_levels \<Rightarrow> (pyfloat \<times> pyfloat) option" where
  "best_ask_level = best_of pymin"

definition optional_float :: "pyval \<Rightarrow> py_error + pyfloat option" where
  "optional_float v = (if v = VNone \<or> v = VStr [] then Inr None else map_sum id Some (float_from v))"

fun dict_item :: "(string \<times> pyval) list \<Rightarrow> string \<Rightarrow> py_error + pyval" where
  \<comment> \<open>\<open>d[k]\<close>\<close>
  "dict_item d k = (case map_of d k of None \<Rightarrow> Inl KeyError | Some v \<Rightarrow> Inr v)"

definition float_item :: "(string \<times> pyval) list \<Rightarrow> string \<Rightarrow> py_error + pyfloat" where
  "float_item d k = (case dict_item d k of Inl e \<Rightarrow> Inl e | Inr v \<Rightarrow> float_from v)"

fun levels_from_rows :: "pyval list \<Rightarrow> float_levels \<Rightarrow> py_error + float_levels" where
  "levels_from_rows [] levels = Inr levels"
| "levels_from_rows (VDict row # rows) levels =
     (case float_item row ''price'' of Inl e \<Rightarrow> Inl e
      | Inr price \<Rightarrow> (case float_item row ''size'' of Inl e \<Rightarrow> Inl e
          | Inr qty \<Rightarrow> levels_from_rows rows
              (if fless fzero qty then put_level price qty levels else levels)))"
| "levels_from_rows (_ # rows) levels = levels_from_rows rows levels"

definition levels_to_dict :: "pyval \<Rightarrow> py_error + float_levels" where
  "levels_to_dict rows = (case rows of VList xs \<Rightarrow> levels_from_rows xs [] | _ \<Rightarrow> Inr [])"

subsection \<open>Books and readiness of a token\<close>

definition payload_text :: "(string \<times> pyval) list \<Rightarrow> string \<Rightarrow> string" where
  \<comment> \<open>\<open>str(payload.get(key) or "")\<close>\<close>
  "payload_text payload key = py_str (val_or (vget payload key) (VStr []))"

definition put_book :: "token_book \<Rightarrow> poly_book \<Rightarrow> poly_book" where
  "put_book b pb = pb\<lparr>pb_books := AList.update (tb_token_id b) b (pb_books pb)\<rparr>"

definition default_metadata :: "(string \<times> pyval) list \<Rightarrow> token_metadata" where
  "default_metadata payload = \<lparr>tm_condition_id = None, tm_market_id = payload_text payload ''market'',
     tm_side_label = L_UNKNOWN, tm_market_slug = None, tm_base_asset = None,
     tm_duration_minutes = None, tm_token_outcome = None, tm_tick_size = f64 (1 / 100)\<rparr>"

definition book_for :: "string \<Rightarrow> (string \<times> pyval) list \<Rightarrow> poly_book \<Rightarrow> token_book \<times> poly_book" where
  "book_for token payload pb = (case map_of (pb_books pb) token of
     Some b \<Rightarrow> (b, pb)
   | None \<Rightarrow> let metadata = (case map_of (pb_metadata pb) token of
                Some m \<Rightarrow> m | None \<Rightarrow> default_metadata payload);
               b = new_token_book token metadata
            in (b, put_book b pb))"

definition sequence_text :: "pyval \<Rightarrow> string option" where
  \<comment> \<open>\<open>None if sequence is None else str(sequence)\<close>\<close>
  "sequence_text v = (if v = VNone then None else Some (py_str v))"

definition touch :: "int option \<Rightarrow> int \<Rightarrow> pyval \<Rightarrow> token_book \<Rightarrow> token_book" where
  "touch event_ts received_ts sequence b =
     b\<lparr>tb_last_event_ts := event_ts, tb_last_received_ts := Some received_ts,
       tb_last_hash := sequence_text sequence, tb_last_book_hash := sequence_text sequence,
       tb_update_count := tb_update_count b + 1\<rparr>"

definition readiness_for :: "string \<Rightarrow> string \<Rightarrow> poly_book \<Rightarrow> token_readiness \<times> poly_book" where
  "readiness_for token market pb = (case map_of (pb_readiness pb) token of
     Some r \<Rightarrow> (r, pb)
   | None \<Rightarrow> let r = new_readiness token market
            in (r, pb\<lparr>pb_readiness := AList.update token r (pb_readiness pb)\<rparr>))"

definition is_stale :: "pyfloat \<Rightarrow> token_book \<Rightarrow> int \<Rightarrow> bool" where
  "is_stale stale_after b now_ts = (case tb_last_received_ts b of None \<Rightarrow> True
     | Some t \<Rightarrow> fless stale_after (ms_of_ns (now_ts - t)))"

definition reported_reason :: "string \<Rightarrow> bool" where
  \<comment> \<open>\<open>reason.startswith("reported_best_")\<close>\<close>
  "reported_reason r \<longleftrightarrow> take 14 r = ''reported_best_''"

definition mismatch_total :: "string counter \<Rightarrow> int" where
  "mismatch_total c = sum_list [n. (r, n) \<leftarrow> c, reported_reason r]"

definition quality_rates :: "token_readiness \<Rightarrow> pyfloat option \<times> pyfloat option" where
  "quality_rates r = (let total = rd_complete_true r + rd_complete_false r in
     if total = 0 then (None, None)
     else (Some (int_truediv (mismatch_total (rd_errors_by_reason r)) total),
           Some (int_truediv (rd_complete_true r) total)))"

definition quality_rates_for_token :: "string \<Rightarrow> poly_book \<Rightarrow> pyfloat option \<times> pyfloat option" where
  "quality_rates_for_token token pb = (case map_of (pb_readiness pb) token of
     None \<Rightarrow> (None, None) | Some r \<Rightarrow> quality_rates r)"

definition quality_rates_for_market :: "string \<Rightarrow> poly_book \<Rightarrow> pyfloat option \<times> pyfloat option" where
  "quality_rates_for_market market pb =
     (let stats = [r. (_, r) \<leftarrow> pb_readiness pb, rd_market_id r = market];
          trues = sum_list (map rd_complete_true stats);
          falses = sum_list (map rd_complete_false stats); total = trues + falses
      in if stats = [] \<or> total = 0 then (None, None)
         else (Some (int_truediv (sum_list (map (mismatch_total \<circ> rd_errors_by_reason) stats)) total),
               Some (int_truediv trues total)))"

subsection \<open>Quotes\<close>

definition structural_error ::
  "bool \<Rightarrow> pyfloat option \<Rightarrow> pyfloat option \<Rightarrow> pyfloat option \<Rightarrow> pyfloat option \<Rightarrow> string option" where
  "structural_error has_snapshot bid ask bid_size ask_size =
     (if \<not> has_snapshot then None
      else if bid = None \<and> ask = None then Some ''empty_book''
      else if (case (bid, ask) of (Some b, Some a) \<Rightarrow> fle a b | _ \<Rightarrow> False) then Some ''crossed_book''
      else if bid = None \<or> ask = None \<or> bid_size = None \<or> ask_size = None
           then Some ''book_structurally_incomplete''
      else None)"

record quote_inputs =
  qin_event_id :: string       \<comment> \<open>the default factories of the event model\<close>
  qin_ts_ns :: int
  qin_received :: int
  qin_parse_done :: int
  qin_recv_monotonic :: int
  qin_parse_done_monotonic :: int
  qin_event_ts :: "int option"
  qin_sequence :: pyval

fun update_type_text :: "book_update_type \<Rightarrow> string" where
  "update_type_text BookSnapshot = ''book''"
| "update_type_text PriceChange = ''price_change''"
| "update_type_text BestBidAsk = ''best_bid_ask''"

definition both :: "(pyfloat \<Rightarrow> pyfloat \<Rightarrow> pyfloat) \<Rightarrow> pyfloat option \<Rightarrow> pyfloat option \<Rightarrow> pyfloat option" where
  "both f a b = (case (a, b) of (Some x, Some y) \<Rightarrow> Some (f x y) | _ \<Rightarrow> None)"

definition structurally_complete :: "token_book \<Rightarrow> bool" where
  "structurally_complete b \<longleftrightarrow> tb_has_snapshot b \<and> \<not> tb_invalid b
     \<and> (case (best_bid_level (tb_bids b), best_ask_level (tb_asks b)) of
          (Some (bid, _), Some (ask, _)) \<Rightarrow> fless bid ask | _ \<Rightarrow> False)"

definition make_quote :: "quote_inputs \<Rightarrow> token_book \<Rightarrow> book_update_type \<Rightarrow> poly_book \<Rightarrow> polymarket_quote" where
  "make_quote inp b update_type pb =
     (let local_bid = map_option fst (best_bid_level (tb_bids b));
          local_bid_size = map_option snd (best_bid_level (tb_bids b));
          local_ask = map_option fst (best_ask_level (tb_asks b));
          local_ask_size = map_option snd (best_ask_level (tb_asks b));
          best_bid = (case tb_bid_override b of Some x \<Rightarrow> Some x | None \<Rightarrow> local_bid);
          best_ask = (case tb_ask_override b of Some x \<Rightarrow> Some x | None \<Rightarrow> local_ask);
          bid_size = (if tb_bid_override b \<noteq> None then None else local_bid_size);
          ask_size = (if tb_ask_override b \<noteq> None then None else local_ask_size);
          error = or_str (tb_validation_error b) (structural_error (tb_has_snapshot b) local_bid
                    local_ask local_bid_size local_ask_size);
          (token_mismatch, token_complete) = quality_rates_for_token (tb_token_id b) pb;
          (market_mismatch, market_complete) =
            quality_rates_for_market (tm_market_id (tb_metadata b)) pb;
          complete = structurally_complete b;
          incomplete = (tb_incomplete b \<or> tb_invalid b \<or> \<not> complete)
      in \<lparr>event_id = qin_event_id inp, ts_ns = qin_ts_ns inp, exchange_event_ts = qin_event_ts inp,
          local_received_ts = Some (qin_received inp), parse_done_ts = Some (qin_parse_done inp),
          state_updated_ts = None, recv_monotonic_ns = Some (qin_recv_monotonic inp),
          parse_done_monotonic_ns = Some (qin_parse_done_monotonic inp),
          state_updated_monotonic_ns = None, socket_recv_monotonic_ns = None,
          raw_ws_callback_monotonic_ns = None, ws_message_received_monotonic_ns = None,
          message_dispatch_start_monotonic_ns = None, parse_start_monotonic_ns = None,
          parse_end_monotonic_ns = None,
          latency_ms = Some (ms_of_ns (qin_parse_done_monotonic inp - qin_recv_monotonic inp)),
          exchange_ts_ns = qin_event_ts inp, sequence_no = Some (tb_update_count b),
          pq_market_id = tm_market_id (tb_metadata b),
          pq_condition_id = tm_condition_id (tb_metadata b), pq_token_id = tb_token_id b,
          pq_side_label = tm_side_label (tb_metadata b), pq_best_bid = best_bid,
          pq_best_bid_size = bid_size, pq_best_ask = best_ask, pq_best_ask_size = ask_size,
          pq_mid_price = both (\<lambda>x y. fdiv (fadd x y) (Fin 2)) best_bid best_ask,
          pq_spread = both (\<lambda>x y. pymax fzero (fsub y x)) best_bid best_ask,
          pq_event_ts = qin_event_ts inp, pq_received_ts = Some (qin_received inp),
          pq_book_complete = (\<not> incomplete),
          pq_book_stale = is_stale (pb_stale_after_ms pb) b (qin_received inp),
          pq_book_hash = tb_last_hash b, pq_validation_error = error,
          pq_book_update_type = Some update_type, pq_book_has_snapshot = tb_has_snapshot b,
          pq_book_structurally_complete = complete,
          pq_reported_best_validation_ok = tb_reported_best_ok b,
          pq_validation_mode = Some (pb_mode pb),
          pq_validation_tolerance_ticks = Some (pb_tolerance_ticks pb),
          pq_market_mismatch_rate = market_mismatch, pq_token_mismatch_rate = token_mismatch,
          pq_market_quote_complete_rate = market_complete,
          pq_token_quote_complete_rate = token_complete\<rparr>)"

subsection \<open>Readiness\<close>

definition increment_error :: "string \<Rightarrow> string \<Rightarrow> token_readiness \<Rightarrow> token_readiness" where
  "increment_error reason update_type r =
     r\<lparr>rd_errors_by_reason := ctr_inc reason (rd_errors_by_reason r),
       rd_errors_by_update_type := ctr_inc update_type (rd_errors_by_update_type r)\<rparr>"

definition set_once :: "int \<Rightarrow> int option \<Rightarrow> int option" where
  "set_once t old = (case old of None \<Rightarrow> Some t | Some x \<Rightarrow> Some x)"

definition count_update ::
  "book_update_type \<Rightarrow> bool \<Rightarrow> int \<Rightarrow> token_readiness \<Rightarrow> token_readiness" where
  "count_update update_type before_snapshot received r = (case update_type of
     BookSnapshot \<Rightarrow> r\<lparr>rd_snapshot_count := rd_snapshot_count r + 1,
       rd_first_book_snapshot := set_once received (rd_first_book_snapshot r)\<rparr>
   | PriceChange \<Rightarrow>
       (let r1 = r\<lparr>rd_delta_count := rd_delta_count r + 1\<rparr> in
        if before_snapshot then increment_error ''price_change_before_snapshot'' ''price_change''
          (r1\<lparr>rd_price_change_before_snapshot := rd_price_change_before_snapshot r1 + 1\<rparr>)
        else r1)
   | BestBidAsk \<Rightarrow>
       (if before_snapshot then increment_error ''best_bid_ask_before_snapshot'' ''best_bid_ask''
          (r\<lparr>rd_best_bid_ask_before_snapshot := rd_best_bid_ask_before_snapshot r + 1\<rparr>)
        else r))"

definition count_quote :: "polymarket_quote \<Rightarrow> int \<Rightarrow> string \<Rightarrow> token_readiness \<Rightarrow> token_readiness" where
  "count_quote q received update_type r0 =
     (let r1 = (if pq_book_complete q
                then r0\<lparr>rd_complete_true := rd_complete_true r0 + 1,
                        rd_first_complete_quote := set_once received (rd_first_complete_quote r0)\<rparr>
                else r0\<lparr>rd_complete_false := rd_complete_false r0 + 1\<rparr>);
          r2 = (if pq_book_stale q then r1\<lparr>rd_quote_stale := rd_quote_stale r1 + 1\<rparr> else r1);
          r3 = (if pq_best_bid q \<noteq> None \<and> pq_best_bid_size q = None
                then increment_error ''best_bid_size_unknown'' update_type r2 else r2);
          r4 = (if pq_best_ask q \<noteq> None \<and> pq_best_ask_size q = None
                then increment_error ''best_ask_size_unknown'' update_type r3 else r3)
      in case pq_validation_error q of None \<Rightarrow> r4
         | Some e \<Rightarrow> increment_error e update_type (r4\<lparr>rd_last_validation_error := Some e\<rparr>))"

definition record_readiness ::
  "token_book \<Rightarrow> polymarket_quote \<Rightarrow> int \<Rightarrow> book_update_type \<Rightarrow> bool \<Rightarrow> poly_book \<Rightarrow> poly_book" where
  "record_readiness b q received update_type before_snapshot pb0 =
     (let (r0, pb) = readiness_for (tb_token_id b) (tm_market_id (tb_metadata b)) pb0;
          r1 = r0\<lparr>rd_first_ws_message := set_once received (rd_first_ws_message r0)\<rparr>;
          r = count_quote q received (update_type_text update_type)
                (count_update update_type before_snapshot received r1)
      in pb\<lparr>pb_readiness := AList.update (tb_token_id b) r (pb_readiness pb)\<rparr>)"

subsection \<open>Reported best prices\<close>

definition price_epsilon :: pyfloat where "price_epsilon = f64 (1 / 1000000000000)"

definition prices_equal :: "pyfloat \<Rightarrow> pyfloat \<Rightarrow> bool" where
  "prices_equal l r = fle (fabs (fsub l r)) price_epsilon"

definition within_best_tolerance :: "pyfloat \<Rightarrow> pyfloat \<Rightarrow> pyfloat \<Rightarrow> poly_book \<Rightarrow> bool" where
  "within_best_tolerance local reported tick_size pb =
     (let tolerance = pymax fzero (fmul (float_of_int (pb_tolerance_ticks pb)) tick_size)
      in fle (fabs (fsub local reported)) (fadd tolerance price_epsilon))"

datatype quote_side = BidSide | AskSide

fun side_text :: "quote_side \<Rightarrow> string" where
  "side_text BidSide = ''bid''"
| "side_text AskSide = ''ask''"

definition set_override :: "quote_side \<Rightarrow> pyfloat option \<Rightarrow> token_book \<Rightarrow> token_book" where
  "set_override side x b = (case side of BidSide \<Rightarrow> b\<lparr>tb_bid_override := x\<rparr> | AskSide \<Rightarrow> b\<lparr>tb_ask_override := x\<rparr>)"

definition tick_distance :: "pyfloat \<Rightarrow> pyfloat \<Rightarrow> pyfloat \<Rightarrow> pyfloat option" where
  "tick_distance local reported tick_size =
     (if fless fzero tick_size then Some (fdiv (fabs (fsub local reported)) tick_size) else None)"

definition apply_one_reported_best ::
  "quote_side \<Rightarrow> pyfloat \<Rightarrow> string \<Rightarrow> token_book \<times> poly_book \<Rightarrow> token_book \<times> poly_book" where
  "apply_one_reported_best side reported update_type st = (case st of (b, pb) \<Rightarrow>
     (case (case side of BidSide \<Rightarrow> best_bid_level (tb_bids b) | AskSide \<Rightarrow> best_ask_level (tb_asks b)) of
        None \<Rightarrow>
          let reason = (if \<not> tb_has_snapshot b then ''missing_snapshot''
                        else ''best_'' @ side_text side @ ''_size_unknown'')
          in (set_override side (Some reported) (b\<lparr>tb_validation_error := Some reason,
                tb_reported_best_ok := False, tb_incomplete := True\<rparr>), pb)
      | Some (local, _) \<Rightarrow>
          if prices_equal local reported then (set_override side None b, pb)
          else
            let tick = tm_tick_size (tb_metadata b);
                b1 = b\<lparr>tb_validation_error := Some (''reported_best_'' @ side_text side @ ''_mismatch'')\<rparr>;
                pb1 = pb\<lparr>pb_tick_diffs := pb_tick_diffs pb
                          @ (case tick_distance local reported tick of None \<Rightarrow> [] | Some d \<Rightarrow> [d]),
                        pb_mismatch_by_update_type := ctr_inc update_type (pb_mismatch_by_update_type pb)\<rparr>
            in if pb_mode pb = Diagnostic then (b1\<lparr>tb_reported_best_ok := False\<rparr>, pb1)
               else if pb_mode pb = Tolerant \<and> within_best_tolerance local reported tick pb
               then (b1\<lparr>tb_reported_best_ok := True\<rparr>, pb1)
               else (set_override side (Some reported)
                       (b1\<lparr>tb_reported_best_ok := False, tb_incomplete := True\<rparr>), pb1)))"

definition sample_validation_errors :: "string list" where
  "sample_validation_errors = [''reported_best_bid_mismatch'', ''reported_best_ask_mismatch'',
     ''best_bid_size_unknown'', ''best_ask_size_unknown'', ''missing_snapshot'',
     ''price_change_before_snapshot'', ''best_bid_ask_before_snapshot'',
     ''book_structurally_incomplete'', ''crossed_book'', ''empty_book'']"

definition compact_keys :: "string list" where
  "compact_keys = [''event_type'', ''asset_id'', ''token_id'', ''market'', ''side'', ''price'', ''size'',
     ''best_bid'', ''best_ask'', ''best_bid_size'', ''best_ask_size'', ''timestamp'', ''hash'']"

fun is_scalar :: "pyval \<Rightarrow> bool" where
  "is_scalar (VList _) = False"
| "is_scalar (VDict _) = False"
| "is_scalar _ = True"

definition compact_payload :: "(string \<times> pyval) list \<Rightarrow> (string \<times> pyval) list" where
  "compact_payload payload = [(k, vget payload k). k \<leftarrow> compact_keys, is_scalar (vget payload k)]"

definition max_tick_diff :: "pyfloat option \<Rightarrow> pyfloat option \<Rightarrow> pyfloat option" where
  "max_tick_diff a b = (case (a, b) of (None, _) \<Rightarrow> b | (_, None) \<Rightarrow> a | (Some x, Some y) \<Rightarrow> Some (pymax x y))"

definition distance_if_known :: "pyfloat option \<Rightarrow> pyfloat option \<Rightarrow> pyfloat \<Rightarrow> pyfloat option" where
  "distance_if_known local reported tick = (case (local, reported) of
     (Some l, Some r) \<Rightarrow> tick_distance l r tick | _ \<Rightarrow> None)"

definition sample_validation_error ::
  "(string \<times> pyval) list \<Rightarrow> int \<Rightarrow> int \<Rightarrow> string \<Rightarrow> token_book \<Rightarrow> poly_book
     \<Rightarrow> (py_error + unit) \<times> poly_book" where
  \<comment> \<open>at most \<open>pb_samples_per_min\<close> rows per token and minute of reception\<close>
  "sample_validation_error payload received recv_mono update_type b pb =
     (let key = (tb_token_id b, received div 60000000000);
          n = ctr (pb_sample_counts pb) key
      in if pb_sample_path pb = None \<or> pb_samples_per_min pb \<le> 0 \<or> n \<ge> pb_samples_per_min pb
         then (Inr (), pb)
         else
           let pb1 = pb\<lparr>pb_sample_counts := AList.update key (n + 1) (pb_sample_counts pb)\<rparr>;
               num = (\<lambda>k. optional_float (vget payload k))
           in case (num ''best_bid'', num ''best_ask'', num ''best_bid_size'', num ''best_ask_size'') of
                (Inr rb, Inr ra, Inr rbs, Inr ras) \<Rightarrow>
                  let meta = tb_metadata b; bid = best_bid_level (tb_bids b);
                      ask = best_ask_level (tb_asks b);
                      bd = distance_if_known (map_option fst bid) rb (tm_tick_size meta);
                      ad = distance_if_known (map_option fst ask) ra (tm_tick_size meta)
                  in (Inr (), pb1\<lparr>pb_samples := pb_samples pb1 @
                       [\<lparr>ms_market_id = tm_market_id meta, ms_market_slug = tm_market_slug meta,
                         ms_base_asset = tm_base_asset meta,
                         ms_duration_minutes = tm_duration_minutes meta,
                         ms_token_id = tb_token_id b, ms_token_outcome = tm_token_outcome meta,
                         ms_update_type = update_type, ms_local_bid = map_option fst bid,
                         ms_local_ask = map_option fst ask, ms_local_bid_size = map_option snd bid,
                         ms_local_ask_size = map_option snd ask, ms_reported_bid = rb,
                         ms_reported_ask = ra, ms_reported_bid_size = rbs,
                         ms_reported_ask_size = ras, ms_tick_size = tm_tick_size meta,
                         ms_bid_tick_diff = bd, ms_ask_tick_diff = ad,
                         ms_tick_diff = max_tick_diff bd ad, ms_error_type = tb_validation_error b,
                         ms_payload_hash = vget payload ''hash'',
                         ms_last_snapshot_hash = tb_last_snapshot_hash b,
                         ms_last_book_hash = tb_last_book_hash b,
                         ms_local_sequence = tb_update_count b + 1, ms_recv_monotonic_ns = recv_mono,
                         ms_raw_payload = compact_payload payload\<rparr>]\<rparr>)
              | _ \<Rightarrow> (Inl ValueError, pb1))"

definition apply_reported_best ::
  "pyfloat option \<Rightarrow> pyfloat option \<Rightarrow> (string \<times> pyval) list \<Rightarrow> int \<Rightarrow> int \<Rightarrow> book_update_type
     \<Rightarrow> token_book \<Rightarrow> poly_book \<Rightarrow> (py_error + unit) \<times> token_book \<times> poly_book" where
  "apply_reported_best bid ask payload received recv_mono update_type b0 pb0 =
     (let text = update_type_text update_type in
      if \<not> tb_has_snapshot b0 then
        let b1 = b0\<lparr>tb_validation_error := Some ''missing_snapshot'', tb_reported_best_ok := False,
                   tb_incomplete := True\<rparr>;
            b2 = (if update_type = BestBidAsk then b1\<lparr>tb_bid_override := bid, tb_ask_override := ask\<rparr>
                  else b1);
            (e, pb) = sample_validation_error payload received recv_mono text b2 pb0
        in (e, b2, pb)
      else
        let st1 = (case bid of None \<Rightarrow> (b0, pb0)
                   | Some x \<Rightarrow> apply_one_reported_best BidSide x text (b0, pb0));
            (b, pb) = (case ask of None \<Rightarrow> st1
                       | Some x \<Rightarrow> apply_one_reported_best AskSide x text st1)
        in if (case tb_validation_error b of None \<Rightarrow> False | Some e \<Rightarrow> e \<in> set sample_validation_errors)
           then let (e, pb1) = sample_validation_error payload received recv_mono text b pb
                in (e, b, pb1)
           else (Inr (), b, pb))"

definition clear_resolved_overrides :: "token_book \<Rightarrow> token_book" where
  "clear_resolved_overrides b0 =
     (let same = (\<lambda>x y. case (x, y) of (Some u, Some v) \<Rightarrow> feq u v | _ \<Rightarrow> False);
          b = (if same (tb_bid_override b0) (map_option fst (best_bid_level (tb_bids b0)))
               then b0\<lparr>tb_bid_override := None\<rparr> else b0)
      in if same (tb_ask_override b) (map_option fst (best_ask_level (tb_asks b)))
         then b\<lparr>tb_ask_override := None\<rparr> else b)"

subsection \<open>Operations\<close>

type_synonym 'a outcome = "(py_error + 'a) \<times> poly_book"

definition market_is_invalid :: "token_book \<Rightarrow> poly_book \<Rightarrow> bool" where
  "market_is_invalid b pb \<longleftrightarrow> tm_market_id (tb_metadata b) \<in> set (pb_market_invalid pb)"

definition publish ::
  "quote_inputs \<Rightarrow> book_update_type \<Rightarrow> bool \<Rightarrow> token_book \<Rightarrow> poly_book \<Rightarrow> polymarket_quote outcome" where
  \<comment> \<open>\<open>_touch\<close>, \<open>_quote\<close> and \<open>_record_readiness\<close>, as every update ends\<close>
  "publish inp update_type before_snapshot b0 pb =
     (let b = touch (qin_event_ts inp) (qin_received inp) (qin_sequence inp) b0;
          q = make_quote inp b update_type pb
      in (Inr q, record_readiness b q (qin_received inp) update_type before_snapshot (put_book b pb)))"

definition apply_book :: "(string \<times> pyval) list \<Rightarrow> quote_inputs \<Rightarrow> poly_book \<Rightarrow> polymarket_quote outcome" where
  "apply_book payload inp pb0 =
     (case dict_item payload ''asset_id'' of Inl e \<Rightarrow> (Inl e, pb0)
      | Inr v \<Rightarrow>
          let (b0, pb) = book_for (py_str v) payload pb0;
              rows = (\<lambda>k. case map_of payload k of None \<Rightarrow> VList [] | Some x \<Rightarrow> x)
          in case levels_to_dict (rows ''bids'') of Inl e \<Rightarrow> (Inl e, pb)
             | Inr bid_levels \<Rightarrow>
                 let b1 = b0\<lparr>tb_bids := bid_levels\<rparr> in
                 (case levels_to_dict (rows ''asks'') of Inl e \<Rightarrow> (Inl e, put_book b1 pb)
                  | Inr ask_levels \<Rightarrow>
                      publish inp BookSnapshot False
                        (b1\<lparr>tb_asks := ask_levels, tb_has_snapshot := True, tb_incomplete := False,
                           tb_invalid := market_is_invalid b1 pb, tb_bid_override := None,
                           tb_ask_override := None, tb_validation_error := None,
                           tb_reported_best_ok := True,
                           tb_last_snapshot_hash := sequence_text (qin_sequence inp)\<rparr>) pb))"

definition with_reported_best ::
  "(string \<times> pyval) list \<Rightarrow> quote_inputs \<Rightarrow> book_update_type \<Rightarrow> token_book \<Rightarrow> poly_book
     \<Rightarrow> (py_error + unit) \<times> token_book \<times> poly_book" where
  \<comment> \<open>\<open>_validate_reported_best\<close>\<close>
  "with_reported_best row inp update_type b pb =
     (case (optional_float (vget row ''best_bid''), optional_float (vget row ''best_ask'')) of
        (Inr bid, Inr ask) \<Rightarrow>
          apply_reported_best bid ask row (qin_received inp) (qin_recv_monotonic inp) update_type b pb
      | _ \<Rightarrow> (Inl ValueError, b, pb))"

definition change_level :: "string \<Rightarrow> pyfloat \<Rightarrow> pyfloat \<Rightarrow> token_book \<Rightarrow> token_book" where
  "change_level side price qty b =
     (if side = ''BUY'' then b\<lparr>tb_bids := set_level price qty (tb_bids b)\<rparr>
      else if side = ''SELL'' then b\<lparr>tb_asks := set_level price qty (tb_asks b)\<rparr>
      else b\<lparr>tb_validation_error := Some (''unsupported_price_change_side:'' @ side)\<rparr>)"

definition after_change :: "poly_book \<Rightarrow> token_book \<Rightarrow> token_book" where
  "after_change pb b1 =
     (let b2 = b1\<lparr>tb_reported_best_ok := True\<rparr>;
          b3 = (if \<not> tb_has_snapshot b2
                then b2\<lparr>tb_incomplete := True, tb_validation_error :=
                       (case tb_validation_error b2 of None \<Rightarrow> Some ''missing_snapshot'' | Some e \<Rightarrow> Some e)\<rparr>
                else b2)
      in clear_resolved_overrides (b3\<lparr>tb_invalid := market_is_invalid b3 pb\<rparr>))"

definition apply_price_change ::
  "(string \<times> pyval) list \<Rightarrow> (string \<times> pyval) list \<Rightarrow> quote_inputs \<Rightarrow> poly_book
     \<Rightarrow> polymarket_quote outcome" where
  "apply_price_change row parent inp pb0 =
     (let token = py_str (val_or (vget row ''asset_id'') (vget parent ''asset_id''));
          (b0, pb) = book_for token parent pb0;
          side = upper (py_str (case map_of row ''side'' of None \<Rightarrow> VStr [] | Some v \<Rightarrow> v))
      in case float_item row ''price'' of Inl e \<Rightarrow> (Inl e, pb)
         | Inr price \<Rightarrow>
             (case (case map_of row ''size'' of None \<Rightarrow> Inr fzero | Some v \<Rightarrow> float_from v) of
                Inl e \<Rightarrow> (Inl e, pb)
              | Inr qty \<Rightarrow>
                  let b = after_change pb (change_level side price qty b0) in
                  (case with_reported_best row inp PriceChange b pb of
                     (Inl e, b1, pb1) \<Rightarrow> (Inl e, put_book b1 pb1)
                   | (Inr _, b1, pb1) \<Rightarrow> publish inp PriceChange (\<not> tb_has_snapshot b0) b1 pb1)))"

definition apply_best_bid_ask ::
  "(string \<times> pyval) list \<Rightarrow> quote_inputs \<Rightarrow> poly_book \<Rightarrow> polymarket_quote outcome" where
  "apply_best_bid_ask payload inp pb0 =
     (let token = py_str (val_or (vget payload ''asset_id'') (val_or (vget payload ''token_id'') (VStr [])));
          (b0, pb) = book_for token payload pb0
      in case (optional_float (vget payload ''best_bid''), optional_float (vget payload ''best_ask'')) of
           (Inr bid, Inr ask) \<Rightarrow>
             let b = b0\<lparr>tb_incomplete := \<not> tb_has_snapshot b0, tb_reported_best_ok := True,
                       tb_validation_error := if tb_has_snapshot b0 then None else Some ''missing_snapshot''\<rparr>
             in (case apply_reported_best bid ask payload (qin_received inp) (qin_recv_monotonic inp)
                        BestBidAsk b pb of
                   (Inl e, b1, pb1) \<Rightarrow> (Inl e, put_book b1 pb1)
                 | (Inr _, b1, pb1) \<Rightarrow>
                     let b2 = (if \<not> tb_has_snapshot b1 then b1\<lparr>tb_incomplete := True\<rparr> else b1)
                     in publish inp BestBidAsk (\<not> tb_has_snapshot b0)
                          (b2\<lparr>tb_invalid := market_is_invalid b2 pb1\<rparr>) pb1)
         | _ \<Rightarrow> (Inl ValueError, pb))"

definition mark_market_invalid :: "string \<Rightarrow> poly_book \<Rightarrow> poly_book" where
  "mark_market_invalid market pb =
     pb\<lparr>pb_market_invalid := List.insert market (pb_market_invalid pb),
        pb_books := map (\<lambda>(t, b). (t, if tm_market_id (tb_metadata b) = market
          then b\<lparr>tb_invalid := True, tb_incomplete := True,
                 tb_validation_error := Some ''market_invalidated''\<rparr> else b)) (pb_books pb)\<rparr>"

definition set_tick_size :: "pyfloat \<Rightarrow> string \<Rightarrow> poly_book \<Rightarrow> poly_book" where
  "set_tick_size tick token pb = (case map_of (pb_metadata pb) token of None \<Rightarrow> pb
     | Some m \<Rightarrow>
         let m1 = m\<lparr>tm_tick_size := tick\<rparr>;
             pb1 = pb\<lparr>pb_metadata := AList.update token m1 (pb_metadata pb)\<rparr>
         in (case map_of (pb_books pb1) token of None \<Rightarrow> pb1
             | Some b \<Rightarrow> pb1\<lparr>pb_books := AList.update token (b\<lparr>tb_metadata := m1\<rparr>) (pb_books pb1)\<rparr>))"

definition update_tick_size :: "string \<Rightarrow> string option \<Rightarrow> pyfloat \<Rightarrow> poly_book \<Rightarrow> poly_book" where
  "update_tick_size market token tick pb =
     (if fle tick fzero then pb
      else fold (set_tick_size tick)
        (case token of Some t \<Rightarrow> [t]
         | None \<Rightarrow> [t. (t, m) \<leftarrow> pb_metadata pb, tm_market_id m = market]) pb)"

definition record_reconnect :: "poly_book \<Rightarrow> poly_book" where
  "record_reconnect pb = pb\<lparr>pb_readiness :=
     map (\<lambda>(t, r). (t, r\<lparr>rd_reconnect_count := rd_reconnect_count r + 1\<rparr>)) (pb_readiness pb)\<rparr>"

definition adopt_metadata :: "string \<times> token_metadata \<Rightarrow> poly_book \<Rightarrow> poly_book" where
  "adopt_metadata tm pb = (case tm of (t, m) \<Rightarrow>
     (let pb1 = snd (readiness_for t (tm_market_id m) pb) in
      case map_of (pb_books pb1) t of None \<Rightarrow> pb1
      | Some b \<Rightarrow> pb1\<lparr>pb_books := AList.update t (b\<lparr>tb_metadata := m\<rparr>) (pb_books pb1)\<rparr>))"

definition update_token_metadata ::
  "(string \<times> token_metadata) list \<Rightarrow> string list \<Rightarrow> poly_book \<Rightarrow> poly_book" where
  "update_token_metadata metadata active pb =
     (let kept = [(t, m) \<leftarrow> metadata. t \<in> set active]
      in fold adopt_metadata kept (pb\<lparr>pb_metadata := kept\<rparr>))"

definition ensure_readiness :: "string \<times> token_book \<Rightarrow> poly_book \<Rightarrow> poly_book" where
  "ensure_readiness tb pb = snd (readiness_for (fst tb) (tm_market_id (tb_metadata (snd tb))) pb)"

definition token_readiness_snapshot :: "poly_book \<Rightarrow> (string \<times> token_readiness) list \<times> poly_book" where
  "token_readiness_snapshot pb =
     (let pb1 = fold ensure_readiness (pb_books pb) pb
      in (sort_key fst (pb_readiness pb1), pb1))"

end
