(* ===== verification/PolyInvariant.thy ===== *)
theory PolyInvariant
  imports PolyBook
begin

text \<open>
  What every operation on the token books keeps: the levels of a book have sizes that are not zero
  or negative and are keyed by distinct prices, a book without a snapshot is incomplete, every
  update of a token is counted as exactly one quote, and the sampling limit is respected.
\<close>

subsection \<open>Levels\<close>

definition levels_ok :: "float_levels \<Rightarrow> bool" where
  "levels_ok d \<longleftrightarrow> (\<forall>(p, s)\<in>set d. \<not> fle s fzero) \<and> distinct [p \<leftarrow> map fst d. p \<noteq> NaN]"

lemma levels_ok_Nil [simp]: "levels_ok []"
  by (simp add: levels_ok_def)

lemma levels_ok_put:
  assumes "levels_ok d" and "\<not> fle q fzero"
  shows "levels_ok (put_level p q d)"
proof (cases "p = NaN")
  case True
  then show ?thesis using assms by (auto simp: levels_ok_def put_level_def)
next
  case False
  have "distinct [x \<leftarrow> map fst (AList.update p q d). x \<noteq> NaN]" if "distinct [x \<leftarrow> map fst d. x \<noteq> NaN]"
    using that False
  proof (induction d)
    case (Cons e d)
    have "set [x \<leftarrow> map fst (AList.update p q d). x \<noteq> NaN] = insert p (set [x \<leftarrow> map fst d. x \<noteq> NaN])"
      using False keys_update [of p q d] by (auto simp: image_iff)
    with Cons show ?case by (cases e) (auto split: if_splits)
  qed simp
  moreover have "\<forall>(x, s)\<in>set (AList.update p q d). \<not> fle s fzero"
    using assms set_update [of p q d] by (fastforce simp: levels_ok_def)
  ultimately show ?thesis using assms False by (simp add: levels_ok_def put_level_def)
qed

lemma levels_ok_Cons:
  "levels_ok ((a, s) # d) \<longleftrightarrow> \<not> fle s fzero \<and> (a = NaN \<or> a \<notin> fst ` set d) \<and> levels_ok d"
  by (auto simp: levels_ok_def)

lemma levels_ok_delete: "levels_ok d \<Longrightarrow> levels_ok (AList.delete p d)"
proof (induction d)
  case (Cons e d)
  obtain a s where e: "e = (a, s)" by (cases e)
  have "a \<notin> fst ` set (AList.delete p d)" if "a \<notin> fst ` set d" using that by (auto simp: AList.delete_eq)
  then show ?case using Cons by (auto simp: e levels_ok_Cons)
qed simp

lemma levels_ok_set: "levels_ok d \<Longrightarrow> levels_ok (set_level p q d)"
  by (simp add: set_level_def levels_ok_put levels_ok_delete)

lemma levels_from_rows_ok: "levels_from_rows rows d = Inr d' \<Longrightarrow> levels_ok d \<Longrightarrow> levels_ok d'"
proof (induction rows arbitrary: d)
  case (Cons v rows)
  have put: "levels_ok (if fless fzero q then put_level p q d else d)" for p q
    using Cons.prems(2) levels_ok_put [of d q p] fless_asym [of fzero q] by auto
  show ?case
    using Cons.prems by (cases v) (auto intro: Cons.IH split: sum.splits dest!: Cons.IH [OF _ put])
qed simp

lemma levels_to_dict_ok: "levels_to_dict v = Inr d \<Longrightarrow> levels_ok d"
  by (auto simp: levels_to_dict_def levels_from_rows_ok split: pyval.splits)

lemma foldl_pymax: "p \<noteq> NaN \<Longrightarrow> NaN \<notin> set ps \<Longrightarrow>
    foldl pymax p ps \<in> set (p # ps) \<and> (\<forall>x\<in>set (p # ps). fle x (foldl pymax p ps))"
proof (induction ps arbitrary: p)
  case (Cons a ps)
  have "pymax p a \<noteq> NaN" "pymax p a \<in> {p, a}" "fle p (pymax p a)" "fle a (pymax p a)"
    using Cons.prems by (auto simp: pymax_def fless_imp_fle not_fless_iff)
  with Cons.IH [of "pymax p a"] Cons.prems show ?case by (auto intro: fle_trans)
qed simp

lemma foldl_pymin: "p \<noteq> NaN \<Longrightarrow> NaN \<notin> set ps \<Longrightarrow>
    foldl pymin p ps \<in> set (p # ps) \<and> (\<forall>x\<in>set (p # ps). fle (foldl pymin p ps) x)"
proof (induction ps arbitrary: p)
  case (Cons a ps)
  have "pymin p a \<noteq> NaN" "pymin p a \<in> {p, a}" "fle (pymin p a) p" "fle (pymin p a) a"
    using Cons.prems by (auto simp: pymin_def fless_imp_fle not_fless_iff)
  with Cons.IH [of "pymin p a"] Cons.prems show ?case by (auto intro: fle_trans)
qed simp

lemma best_of_some:
  assumes "map fst d = p # ps" and "foldl f p ps \<in> set (p # ps)"
  shows "\<exists>q. best_of f d = Some (foldl f p ps, q) \<and> (foldl f p ps, q) \<in> set d"
proof -
  have "foldl f p ps \<in> fst ` set d" using assms by (metis set_map)
  then obtain q where "map_of d (foldl f p ps) = Some q" by (metis map_of_eq_None_iff not_Some_eq)
  then show ?thesis using assms(1) by (simp add: best_of_def Let_def map_of_SomeD)
qed

lemma best_bid_max:
  assumes "NaN \<notin> fst ` set d" and "d \<noteq> []"
  shows "\<exists>p q. best_bid_level d = Some (p, q) \<and> (p, q) \<in> set d \<and> (\<forall>x\<in>fst ` set d. fle x p)"
proof -
  obtain p ps where d: "map fst d = p # ps" using assms(2) by (cases d) auto
  have k: "insert p (set ps) = fst ` set d" by (metis d set_map list.simps(15))
  have n: "p \<noteq> NaN" "NaN \<notin> set ps" using assms(1) by (auto simp: k [symmetric])
  obtain q where "best_of pymax d = Some (foldl pymax p ps, q)" "(foldl pymax p ps, q) \<in> set d"
    using best_of_some [OF d, of pymax] foldl_pymax [OF n] by auto
  then show ?thesis using foldl_pymax [OF n] by (simp add: best_bid_level_def k [symmetric])
qed

lemma best_ask_min:
  assumes "NaN \<notin> fst ` set d" and "d \<noteq> []"
  shows "\<exists>p q. best_ask_level d = Some (p, q) \<and> (p, q) \<in> set d \<and> (\<forall>x\<in>fst ` set d. fle p x)"
proof -
  obtain p ps where d: "map fst d = p # ps" using assms(2) by (cases d) auto
  have k: "insert p (set ps) = fst ` set d" by (metis d set_map list.simps(15))
  have n: "p \<noteq> NaN" "NaN \<notin> set ps" using assms(1) by (auto simp: k [symmetric])
  obtain q where "best_of pymin d = Some (foldl pymin p ps, q)" "(foldl pymin p ps, q) \<in> set d"
    using best_of_some [OF d, of pymin] foldl_pymin [OF n] by auto
  then show ?thesis using foldl_pymin [OF n] by (simp add: best_ask_level_def k [symmetric])
qed

lemma best_level_mem: "best_of f d = Some (p, q) \<Longrightarrow> (p, q) \<in> set d"
  by (auto simp: best_of_def Let_def split: list.splits dest: map_of_SomeD)

subsection \<open>Books\<close>

definition book_ok :: "token_book \<Rightarrow> bool" where
  "book_ok b \<longleftrightarrow> levels_ok (tb_bids b) \<and> levels_ok (tb_asks b) \<and> (\<not> tb_has_snapshot b \<longrightarrow> tb_incomplete b)"

definition updates :: "poly_book \<Rightarrow> string \<Rightarrow> int" where
  "updates pb t = (case map_of (pb_books pb) t of None \<Rightarrow> 0 | Some b \<Rightarrow> tb_update_count b)"

definition quotes :: "poly_book \<Rightarrow> string \<Rightarrow> int" where
  "quotes pb t = (case map_of (pb_readiness pb) t of None \<Rightarrow> 0
     | Some r \<Rightarrow> rd_complete_true r + rd_complete_false r)"

definition samples_ok :: "poly_book \<Rightarrow> bool" where
  "samples_ok pb \<longleftrightarrow> (\<forall>(k, n)\<in>set (pb_sample_counts pb). 0 < n \<and> n \<le> pb_samples_per_min pb)
     \<and> distinct (map fst (pb_sample_counts pb))
     \<and> int (length (pb_samples pb)) \<le> sum_list (map snd (pb_sample_counts pb))"

definition poly_ok :: "poly_book \<Rightarrow> bool" where
  "poly_ok pb \<longleftrightarrow> (\<forall>t b. map_of (pb_books pb) t = Some b \<longrightarrow> tb_token_id b = t \<and> book_ok b)
     \<and> (\<forall>t. updates pb t = quotes pb t) \<and> samples_ok pb"

definition same_core :: "poly_book \<Rightarrow> poly_book \<Rightarrow> bool" where
  \<comment> \<open>the parts an update of a book does not touch before it publishes\<close>
  "same_core pb pb' \<longleftrightarrow> pb_books pb' = pb_books pb \<and> pb_readiness pb' = pb_readiness pb
     \<and> pb_market_invalid pb' = pb_market_invalid pb \<and> pb_stale_after_ms pb' = pb_stale_after_ms pb
     \<and> pb_metadata pb' = pb_metadata pb"

definition same_identity :: "token_book \<Rightarrow> token_book \<Rightarrow> bool" where
  "same_identity b b' \<longleftrightarrow> tb_token_id b' = tb_token_id b \<and> tb_metadata b' = tb_metadata b
     \<and> tb_update_count b' = tb_update_count b \<and> tb_bids b' = tb_bids b \<and> tb_asks b' = tb_asks b
     \<and> tb_has_snapshot b' = tb_has_snapshot b \<and> tb_invalid b' = tb_invalid b
     \<and> (tb_incomplete b \<longrightarrow> tb_incomplete b')"

lemma same_refl [simp]: "same_core pb pb" "same_identity b b"
  by (simp_all add: same_core_def same_identity_def)

lemma poly_ok_core:
  "same_core pb pb' \<Longrightarrow> poly_ok pb \<Longrightarrow> samples_ok pb' \<Longrightarrow> poly_ok pb'"
  by (simp add: same_core_def poly_ok_def updates_def quotes_def)

lemma sum_list_update:
  "distinct (map fst d) \<Longrightarrow>
     sum_list (map snd (AList.update k v d)) = sum_list (map snd d) + (v - ctr d k)"
proof (induction d)
  case (Cons e d)
  obtain a b where e: "e = (a, b)" by (cases e)
  have "map_of d a = None" using Cons.prems by (simp add: e map_of_eq_None_iff)
  then show ?case using Cons by (auto simp: e ctr_def)
qed (simp add: ctr_def)

lemma sample_ok:
  assumes "sample_validation_error p rt rm ut b pb = (e, pb')" and "samples_ok pb"
  shows "same_core pb pb' \<and> samples_ok pb'"
proof -
  define key where "key = (tb_token_id b, rt div 60000000000)"
  define n where "n = ctr (pb_sample_counts pb) key"
  define pb1 where "pb1 = pb\<lparr>pb_sample_counts := AList.update key (n + 1) (pb_sample_counts pb)\<rparr>"
  have nn: "0 \<le> n" using assms(2)
    by (auto simp: n_def ctr_def samples_ok_def split: option.splits dest!: map_of_SomeD)
  have pb1: "samples_ok pb1 \<and> int (length (pb_samples pb)) + 1 \<le> sum_list (map snd (pb_sample_counts pb1))"
    if "n < pb_samples_per_min pb"
    using assms(2) that nn set_update [of key "n + 1" "pb_sample_counts pb"]
    by (auto simp: samples_ok_def pb1_def sum_list_update n_def)
  have "pb' = pb \<or> n < pb_samples_per_min pb \<and> (pb' = pb1 \<or> (\<exists>x. pb' = pb1\<lparr>pb_samples := pb_samples pb1 @ [x]\<rparr>))"
    using assms(1)
    by (auto simp: sample_validation_error_def Let_def key_def [symmetric] n_def [symmetric]
        pb1_def [symmetric] not_le split: if_splits sum.splits)
  then show ?thesis
  proof (elim disjE conjE exE)
    assume "pb' = pb"
    then show ?thesis using assms(2) by simp
  next
    assume "n < pb_samples_per_min pb" "pb' = pb1"
    then show ?thesis using pb1 by (simp add: same_core_def pb1_def)
  next
    fix x assume "n < pb_samples_per_min pb" "pb' = pb1\<lparr>pb_samples := pb_samples pb1 @ [x]\<rparr>"
    then show ?thesis using pb1 by (simp add: same_core_def pb1_def samples_ok_def)
  qed
qed

lemma samples_ok_stats:
  "samples_ok (pb\<lparr>pb_tick_diffs := x, pb_mismatch_by_update_type := y\<rparr>) = samples_ok pb"
  by (simp add: samples_ok_def)

lemma override_ok [simp]:
  "tb_token_id (set_override side x b) = tb_token_id b" "tb_metadata (set_override side x b) = tb_metadata b"
  "tb_update_count (set_override side x b) = tb_update_count b" "tb_bids (set_override side x b) = tb_bids b"
  "tb_asks (set_override side x b) = tb_asks b" "tb_has_snapshot (set_override side x b) = tb_has_snapshot b"
  "tb_invalid (set_override side x b) = tb_invalid b" "tb_incomplete (set_override side x b) = tb_incomplete b"
  by (cases side; simp add: set_override_def)+

lemma apply_one_ok:
  assumes "apply_one_reported_best side x ut (b, pb) = (b', pb')" and "samples_ok pb"
  shows "same_identity b b' \<and> same_core pb pb' \<and> samples_ok pb'"
proof -
  define pb1 where "pb1 = (\<lambda>l. pb\<lparr>pb_tick_diffs := pb_tick_diffs pb
        @ (case tick_distance l x (tm_tick_size (tb_metadata b)) of None \<Rightarrow> [] | Some d \<Rightarrow> [d]),
      pb_mismatch_by_update_type := ctr_inc ut (pb_mismatch_by_update_type pb)\<rparr>)"
  have "samples_ok (pb1 l)" "same_core pb (pb1 l)" for l
    using assms(2) by (simp_all add: pb1_def same_core_def samples_ok_def)
  moreover have "same_identity b b' \<and> (pb' = pb \<or> (\<exists>l. pb' = pb1 l))"
    using assms(1) unfolding apply_one_reported_best_def Let_def prod.case pb1_def [symmetric]
    by (cases "case side of BidSide \<Rightarrow> best_bid_level (tb_bids b) | AskSide \<Rightarrow> best_ask_level (tb_asks b)")
      (auto simp: same_identity_def pb1_def split: if_splits)
  ultimately show ?thesis using assms(2) by auto
qed

lemma same_trans:
  "same_core a b \<Longrightarrow> same_core b c \<Longrightarrow> same_core a c"
  "same_identity x y \<Longrightarrow> same_identity y z \<Longrightarrow> same_identity x z"
  by (simp_all add: same_core_def same_identity_def)

lemma reported_best_ok:
  assumes "apply_reported_best bid ask p rt rm ut b pb = (e, b', pb')" and "samples_ok pb"
  shows "same_identity b b' \<and> same_core pb pb' \<and> samples_ok pb'"
proof (cases "tb_has_snapshot b")
  case False
  then show ?thesis using assms
    by (auto simp: apply_reported_best_def Let_def same_identity_def split: prod.splits if_splits
        dest!: sample_ok)
next
  case True
  define st1 where "st1 = (case bid of None \<Rightarrow> (b, pb)
                   | Some x \<Rightarrow> apply_one_reported_best BidSide x (update_type_text ut) (b, pb))"
  obtain b1 pb1 where st1: "st1 = (b1, pb1)" by fastforce
  have r1: "same_identity b b1 \<and> same_core pb pb1 \<and> samples_ok pb1"
    using st1 assms(2) by (auto simp: st1_def split: option.splits dest!: apply_one_ok)
  obtain b2 pb2 where st2: "(case ask of None \<Rightarrow> st1
                       | Some x \<Rightarrow> apply_one_reported_best AskSide x (update_type_text ut) st1) = (b2, pb2)"
    by fastforce
  have r2: "same_identity b1 b2 \<and> same_core pb1 pb2 \<and> samples_ok pb2"
    using st2 st1 r1 by (auto split: option.splits dest!: apply_one_ok)
  have "b' = b2 \<and> (pb' = pb2 \<or> (\<exists>e. sample_validation_error p rt rm (update_type_text ut) b2 pb2 = (e, pb')))"
    using assms(1) True unfolding apply_reported_best_def Let_def st1_def [symmetric] st2 prod.case
    by (cases "sample_validation_error p rt rm (update_type_text ut) b2 pb2") (simp split: if_splits)
  then show ?thesis using r1 r2 by (auto dest!: sample_ok intro: same_trans)
qed

end
