(* ===== verification/PolyRun.thy ===== *)
theory PolyRun
  imports PolyInvariant
begin

text \<open>
  The operations of the token books as one step function, the runs of it, and what holds along
  every run: the invariant of the books and of the readiness statistics, what a complete quote
  says, what an invalidated market can no longer say, and the limits of samples and rates.
\<close>

subsection \<open>Publishing a quote\<close>

definition rd_ok :: "token_readiness \<Rightarrow> bool" where
  "rd_ok r \<longleftrightarrow> 0 \<le> rd_complete_true r \<and> 0 \<le> rd_complete_false r
     \<and> distinct (map fst (rd_errors_by_reason r))
     \<and> 0 \<le> mismatch_total (rd_errors_by_reason r)
     \<and> mismatch_total (rd_errors_by_reason r) \<le> rd_complete_true r + rd_complete_false r"

definition rates_ok :: "poly_book \<Rightarrow> bool" where
  "rates_ok pb \<longleftrightarrow> (\<forall>(t, r)\<in>set (pb_readiness pb). rd_ok r)"

lemma rd_ok_new [simp]: "rd_ok (new_readiness t m)"
  by (simp add: rd_ok_def new_readiness_def mismatch_total_def)

lemma mismatch_total_inc:
  "distinct (map fst c) \<Longrightarrow>
     mismatch_total (ctr_inc k c) = mismatch_total c + (if reported_reason k then 1 else 0)"
proof (induction c)
  case (Cons e c)
  obtain a n where e: "e = (a, n)" by (cases e)
  have "map_of c a = None" using Cons.prems by (simp add: e map_of_eq_None_iff)
  then show ?case using Cons by (auto simp: e ctr_add_def ctr_def mismatch_total_def)
qed (simp add: ctr_add_def ctr_def mismatch_total_def)

lemma ctr_inc_distinct: "distinct (map fst c) \<Longrightarrow> distinct (map fst (ctr_inc k c))"
  by (simp add: ctr_add_def distinct_update)

lemma reported_reason_simps [simp]:
  "\<not> reported_reason ''price_change_before_snapshot''" "\<not> reported_reason ''best_bid_ask_before_snapshot''"
  "\<not> reported_reason ''best_bid_size_unknown''" "\<not> reported_reason ''best_ask_size_unknown''"
  by (simp_all add: reported_reason_def)

definition rd_counts :: "token_readiness \<Rightarrow> int \<times> int" where
  "rd_counts r = (rd_complete_true r + rd_complete_false r, mismatch_total (rd_errors_by_reason r))"

lemma increment_error_ok:
  assumes "rd_ok r"
  shows "rd_complete_true (increment_error e u r) = rd_complete_true r"
    "rd_complete_false (increment_error e u r) = rd_complete_false r"
    "\<not> reported_reason e \<Longrightarrow> rd_ok (increment_error e u r)"
    "mismatch_total (rd_errors_by_reason r) < rd_complete_true r + rd_complete_false r
       \<Longrightarrow> rd_ok (increment_error e u r)"
  using assms by (auto simp: rd_ok_def increment_error_def mismatch_total_inc ctr_inc_distinct)

lemma count_update_ok:
  assumes "rd_ok r"
  shows "rd_ok (count_update ut bs t r)
    \<and> rd_complete_true (count_update ut bs t r) = rd_complete_true r
    \<and> rd_complete_false (count_update ut bs t r) = rd_complete_false r"
proof -
  have "rd_ok (r\<lparr>rd_snapshot_count := a, rd_first_book_snapshot := b\<rparr>)"
    "rd_ok (r\<lparr>rd_delta_count := a\<rparr>)" "rd_ok (r\<lparr>rd_delta_count := a, rd_price_change_before_snapshot := c\<rparr>)"
    "rd_ok (r\<lparr>rd_best_bid_ask_before_snapshot := a\<rparr>)" for a b c
    using assms by (simp_all add: rd_ok_def)
  then show ?thesis
    using assms by (cases ut) (auto simp: count_update_def Let_def increment_error_ok)
qed

lemma count_quote_ok:
  assumes "rd_ok r"
  shows "rd_ok (count_quote q t ut r)
    \<and> rd_complete_true (count_quote q t ut r) + rd_complete_false (count_quote q t ut r)
        = rd_complete_true r + rd_complete_false r + 1"
proof -
  define room where "room = (\<lambda>s. rd_ok s \<and> mismatch_total (rd_errors_by_reason s)
     < rd_complete_true s + rd_complete_false s \<and> rd_complete_true s + rd_complete_false s
        = rd_complete_true r + rd_complete_false r + 1)"
  define r1 where "r1 = (if pq_book_complete q
                then r\<lparr>rd_complete_true := rd_complete_true r + 1,
                        rd_first_complete_quote := set_once t (rd_first_complete_quote r)\<rparr>
                else r\<lparr>rd_complete_false := rd_complete_false r + 1\<rparr>)"
  define r2 where "r2 = (if pq_book_stale q then r1\<lparr>rd_quote_stale := rd_quote_stale r1 + 1\<rparr> else r1)"
  define r3 where "r3 = (if pq_best_bid q \<noteq> None \<and> pq_best_bid_size q = None
                then increment_error ''best_bid_size_unknown'' ut r2 else r2)"
  define r4 where "r4 = (if pq_best_ask q \<noteq> None \<and> pq_best_ask_size q = None
                then increment_error ''best_ask_size_unknown'' ut r3 else r3)"
  have inc: "room (increment_error e ut s)" if "room s" "\<not> reported_reason e" for e s
    using that increment_error_ok [of s e ut] 
    by (simp add: room_def increment_error_def mismatch_total_inc rd_ok_def)
  have "room r1" using assms by (simp add: room_def r1_def rd_ok_def)
  then have "room r2" by (simp add: r2_def room_def rd_ok_def)
  then have "room r3" by (simp add: r3_def inc)
  then have "room r4" by (simp add: r4_def inc)
  then have l: "room (r4\<lparr>rd_last_validation_error := x\<rparr>)" for x by (simp add: room_def rd_ok_def)
  have "count_quote q t ut r = (case pq_validation_error q of None \<Rightarrow> r4
         | Some e \<Rightarrow> increment_error e ut (r4\<lparr>rd_last_validation_error := Some e\<rparr>))"
    unfolding count_quote_def Let_def r1_def [symmetric] r2_def [symmetric] r3_def [symmetric]
      r4_def [symmetric] by simp
  then show ?thesis
    using \<open>room r4\<close> l increment_error_ok [of "r4\<lparr>rd_last_validation_error := x\<rparr>" for x]
    by (auto simp: room_def increment_error_ok split: option.splits)
qed

definition poly_inv :: "poly_book \<Rightarrow> bool" where
  "poly_inv pb \<longleftrightarrow> poly_ok pb \<and> rates_ok pb"

lemma quotes_eq: "quotes pb t = (case map_of (pb_readiness pb) t of None \<Rightarrow> 0
    | Some r \<Rightarrow> fst (rd_counts r))"
  by (simp add: quotes_def rd_counts_def cong: option.case_cong)

lemma rd_counts_new [simp]: "rd_counts (new_readiness t m) = (0, 0)"
  by (simp add: rd_counts_def new_readiness_def mismatch_total_def)

lemma readiness_for_facts:
  assumes "readiness_for t m pb = (r, pb')" and "rates_ok pb"
  shows "rates_ok pb' \<and> rd_ok r \<and> map_of (pb_readiness pb') t = Some r \<and> quotes pb' = quotes pb
    \<and> fst (rd_counts r) = quotes pb t \<and> samples_ok pb' = samples_ok pb
    \<and> pb_books pb' = pb_books pb \<and> pb_market_invalid pb' = pb_market_invalid pb
    \<and> pb_metadata pb' = pb_metadata pb \<and> pb_stale_after_ms pb' = pb_stale_after_ms pb"
proof (cases "map_of (pb_readiness pb) t")
  case None
  have "rates_ok pb'" using assms None set_update [of t "new_readiness t m" "pb_readiness pb"]
    by (auto simp: readiness_for_def Let_def rates_ok_def)
  then show ?thesis using assms None
    by (auto simp: readiness_for_def Let_def samples_ok_def quotes_eq fun_eq_iff)
next
  case (Some x)
  then show ?thesis using assms by (auto simp: readiness_for_def quotes_eq rates_ok_def dest!: map_of_SomeD)
qed

lemma readiness_for_inv:
  "readiness_for t m pb = (r, pb') \<Longrightarrow> poly_inv pb \<Longrightarrow> poly_inv pb'"
  using readiness_for_facts [of t m pb r pb'] by (auto simp: poly_inv_def poly_ok_def updates_def)

lemma samples_ok_frame [simp]:
  "samples_ok (put_book b pb) = samples_ok pb" "samples_ok (pb\<lparr>pb_readiness := x\<rparr>) = samples_ok pb"
  by (simp_all add: samples_ok_def put_book_def)

lemma poly_ok_parts:
  assumes "poly_ok pb"
  shows "\<And>t b. map_of (pb_books pb) t = Some b \<Longrightarrow> tb_token_id b = t \<and> book_ok b"
    "updates pb t = quotes pb t" "samples_ok pb"
  using assms by (simp_all add: poly_ok_def)

definition like_stored :: "token_book \<Rightarrow> poly_book \<Rightarrow> bool" where
  \<comment> \<open>the book is a later state of the stored book of its token, before the update is counted\<close>
  "like_stored b pb \<longleftrightarrow> book_ok b
     \<and> (\<exists>c. map_of (pb_books pb) (tb_token_id b) = Some c \<and> tb_update_count c = tb_update_count b)"

lemma put_book_inv:
  assumes "poly_inv pb" and "like_stored b pb"
  shows "poly_inv (put_book b pb)"
proof -
  have "updates (put_book b pb) = updates pb"
    using assms(2) by (auto simp: updates_def put_book_def like_stored_def fun_eq_iff)
  then show ?thesis using assms
    by (auto simp: poly_inv_def poly_ok_def put_book_def quotes_def samples_ok_def rates_ok_def
        like_stored_def)
qed

lemma record_readiness_inv:
  assumes "poly_ok (put_book (b\<lparr>tb_update_count := tb_update_count b - 1\<rparr>) pb)" and "rates_ok pb"
    and "book_ok b"
  shows "poly_inv (record_readiness b q rt ut bs (put_book b pb))"
proof -
  define pb0 where "pb0 = put_book b pb"
  define t where "t = tb_token_id b"
  obtain r0 pb1 where r0: "readiness_for t (tm_market_id (tb_metadata b)) pb0 = (r0, pb1)" by fastforce
  have "rates_ok pb0" using assms(2) by (simp add: rates_ok_def pb0_def put_book_def)
  then have rd: "rd_ok r0" "rates_ok pb1" "pb_books pb1 = pb_books pb0" "samples_ok pb1 = samples_ok pb0"
    "quotes pb1 = quotes pb0" "fst (rd_counts r0) = quotes pb0 t"
    using readiness_for_facts [OF r0] by simp_all
  define r1 where "r1 = r0\<lparr>rd_first_ws_message := set_once rt (rd_first_ws_message r0)\<rparr>"
  define r where "r = count_quote q rt (update_type_text ut) (count_update ut bs rt r1)"
  have "rd_ok r1" "rd_counts r1 = rd_counts r0" using rd(1) by (simp_all add: r1_def rd_ok_def rd_counts_def)
  then have r: "rd_ok r" "fst (rd_counts r) = quotes pb0 t + 1"
    using count_update_ok [of r1 ut bs rt] count_quote_ok [of "count_update ut bs rt r1" q rt "update_type_text ut"] rd(6)
    by (simp_all add: r_def rd_counts_def)
  have e: "record_readiness b q rt ut bs pb0 = pb1\<lparr>pb_readiness := AList.update t r (pb_readiness pb1)\<rparr>"
    using r0 by (simp add: record_readiness_def Let_def t_def r_def r1_def)
  define before where "before = put_book (b\<lparr>tb_update_count := tb_update_count b - 1\<rparr>) pb"
  have "updates pb0 t' = updates before t' + (if t' = t then 1 else 0)" "quotes pb0 t' = quotes before t'" for t'
    by (simp_all add: updates_def quotes_def put_book_def pb0_def t_def before_def)
  then have u: "updates pb0 t' = quotes pb0 t' + (if t' = t then 1 else 0)" for t'
    using assms(1) by (simp add: poly_ok_def before_def [symmetric])
  have "rates_ok (record_readiness b q rt ut bs pb0)"
    using rd(2) r(1) set_update [of t r "pb_readiness pb1"] by (auto simp: e rates_ok_def)
  moreover have "updates (record_readiness b q rt ut bs pb0) t' = quotes (record_readiness b q rt ut bs pb0) t'" for t'
    using u [of t'] r(2) fun_cong [OF rd(5), of t'] rd(3)
    by (auto simp: e updates_def quotes_eq)
  moreover have "samples_ok pb0" using poly_ok_parts(3) [OF assms(1)] by (simp add: pb0_def)
  moreover have "tb_token_id b' = t' \<and> book_ok b'" if "map_of (pb_books pb0) t' = Some b'" for t' b'
    using that poly_ok_parts(1) [OF assms(1), of t' b'] assms(3)
    by (simp add: put_book_def pb0_def split: if_splits)
  ultimately show ?thesis using rd(3,4) unfolding pb0_def [symmetric]
    by (simp add: poly_inv_def poly_ok_def e)
qed

subsection \<open>The operations\<close>

definition published :: "polymarket_quote \<Rightarrow> poly_book \<Rightarrow> bool" where
  \<comment> \<open>the quote was made from the book that the state now holds for its token\<close>
  "published q pb \<longleftrightarrow> (\<exists>inp b ut pb1. q = make_quote inp b ut pb1
     \<and> map_of (pb_books pb) (tb_token_id b) = Some b \<and> book_ok b
     \<and> tb_last_received_ts b = Some (qin_received inp)
     \<and> tb_invalid b = market_is_invalid b pb \<and> pb_stale_after_ms pb1 = pb_stale_after_ms pb
     \<and> rates_ok pb1)"

definition step_ok :: "poly_book \<Rightarrow> (py_error + polymarket_quote) \<times> poly_book \<Rightarrow> bool" where
  "step_ok pb res \<longleftrightarrow> poly_inv (snd res) \<and> pb_market_invalid (snd res) = pb_market_invalid pb
     \<and> pb_stale_after_ms (snd res) = pb_stale_after_ms pb
     \<and> (\<forall>q. fst res = Inr q \<longrightarrow> published q (snd res))"

lemma publish_ok:
  assumes "poly_inv pb" and "like_stored b pb" and "tb_invalid b = market_is_invalid b pb"
  shows "step_ok pb (publish inp ut bs b pb)"
proof -
  define b1 where "b1 = touch (qin_event_ts inp) (qin_received inp) (qin_sequence inp) b"
  define pb0 where "pb0 = put_book b1 pb"
  define q where "q = make_quote inp b1 ut pb"
  define pb' where "pb' = record_readiness b1 q (qin_received inp) ut bs pb0"
  have b1: "book_ok b1" "tb_token_id b1 = tb_token_id b" "tb_invalid b1 = tb_invalid b" "tb_metadata b1 = tb_metadata b"
    "tb_last_received_ts b1 = Some (qin_received inp)"
    using assms(2) by (simp_all add: b1_def touch_def book_ok_def like_stored_def)
  have "like_stored (b1\<lparr>tb_update_count := tb_update_count b1 - 1\<rparr>) pb"
    using assms(2) by (simp add: like_stored_def b1_def touch_def book_ok_def)
  from put_book_inv [OF assms(1) this] have inv: "poly_inv pb'"
    using record_readiness_inv [of b1 pb] b1(1) assms(1) by (simp add: pb'_def pb0_def poly_inv_def)
  have r: "rates_ok pb0" using assms(1) by (simp add: pb0_def poly_inv_def rates_ok_def put_book_def)
  obtain r0 pb1 where "readiness_for (tb_token_id b1) (tm_market_id (tb_metadata b1)) pb0 = (r0, pb1)" by fastforce
  from this readiness_for_facts [OF this r]
  have f: "pb_books pb' = pb_books pb0" "pb_market_invalid pb' = pb_market_invalid pb"
    "pb_stale_after_ms pb' = pb_stale_after_ms pb"
    by (simp_all add: pb'_def record_readiness_def Let_def pb0_def put_book_def)
  have "published q pb'" unfolding published_def
    using q_def f b1 assms(1,3) by (intro exI [of _ inp] exI [of _ b1] exI [of _ ut] exI [of _ pb])
      (simp add: pb0_def put_book_def market_is_invalid_def poly_inv_def)
  moreover have "publish inp ut bs b pb = (Inr q, pb')"
    by (simp add: publish_def Let_def b1_def pb0_def q_def pb'_def)
  ultimately show ?thesis using inv f by (simp add: step_ok_def)
qed

lemma failed_ok:
  "poly_inv pb' \<Longrightarrow> pb_market_invalid pb' = pb_market_invalid pb
     \<Longrightarrow> pb_stale_after_ms pb' = pb_stale_after_ms pb \<Longrightarrow> step_ok pb (Inl e, pb')"
  by (simp add: step_ok_def)

lemma step_ok_from:
  "step_ok pb1 res \<Longrightarrow> pb_market_invalid pb1 = pb_market_invalid pb
     \<Longrightarrow> pb_stale_after_ms pb1 = pb_stale_after_ms pb \<Longrightarrow> step_ok pb res"
  by (simp add: step_ok_def)

lemma book_for_ok:
  assumes "book_for t payload pb = (b, pb')" and "poly_inv pb"
  shows "poly_inv pb' \<and> like_stored b pb' \<and> tb_token_id b = t
    \<and> pb_market_invalid pb' = pb_market_invalid pb \<and> pb_stale_after_ms pb' = pb_stale_after_ms pb"
proof (cases "map_of (pb_books pb) t")
  case None
  then obtain m where b: "b = new_token_book t m" "pb' = put_book b pb"
    using assms(1) by (auto simp: book_for_def Let_def)
  have ok: "book_ok b" "tb_token_id b = t" "tb_update_count b = 0"
    by (simp_all add: b(1) book_ok_def new_token_book_def)
  have "updates pb' = updates pb" using None ok by (auto simp: updates_def b(2) put_book_def fun_eq_iff)
  then have "poly_inv pb'" using assms(2) ok
    by (auto simp: poly_inv_def poly_ok_def b(2) put_book_def quotes_def samples_ok_def rates_ok_def)
  then show ?thesis using ok by (simp add: like_stored_def b(2) put_book_def)
next
  case (Some x)
  then show ?thesis using assms
    by (auto simp: book_for_def like_stored_def poly_inv_def dest: poly_ok_parts(1))
qed

lemma like_stored_put [simp]:
  "tb_token_id b1 = tb_token_id b \<Longrightarrow> tb_update_count b1 = tb_update_count b \<Longrightarrow> book_ok b
     \<Longrightarrow> like_stored b (put_book b1 pb)"
  by (simp add: like_stored_def put_book_def)

lemma like_stored_core:
  "same_core pb pb' \<Longrightarrow> like_stored b pb \<Longrightarrow> like_stored b pb'"
  by (simp add: like_stored_def same_core_def)

lemma poly_inv_core: "same_core pb pb' \<Longrightarrow> poly_inv pb \<Longrightarrow> samples_ok pb' \<Longrightarrow> poly_inv pb'"
  using poly_ok_core [of pb pb'] by (simp add: poly_inv_def rates_ok_def same_core_def)

lemma book_ok_same: "same_identity b b' \<Longrightarrow> book_ok b \<Longrightarrow> book_ok b'"
  by (auto simp: same_identity_def book_ok_def)

lemma like_stored_later:
  "like_stored b0 pb \<Longrightarrow> tb_token_id b = tb_token_id b0 \<Longrightarrow> tb_update_count b = tb_update_count b0
     \<Longrightarrow> book_ok b \<Longrightarrow> like_stored b pb"
  by (simp add: like_stored_def)

lemma like_stored_book_ok: "like_stored b pb \<Longrightarrow> book_ok b"
  by (simp add: like_stored_def)

lemma apply_book_ok:
  assumes "poly_inv pb"
  shows "step_ok pb (apply_book payload inp pb)"
proof (cases "dict_item payload ''asset_id''")
  case (Inl e)
  then show ?thesis using assms by (simp add: apply_book_def failed_ok)
next
  case (Inr v)
  obtain b0 pb1 where bf: "book_for (py_str v) payload pb = (b0, pb1)" by fastforce
  note f = book_for_ok [OF bf assms]
  define rows where "rows = (\<lambda>k. case map_of payload k of None \<Rightarrow> VList [] | Some x \<Rightarrow> x)"
  show ?thesis
  proof (cases "levels_to_dict (rows ''bids'')")
    case (Inl e)
    then show ?thesis using Inr bf f by (simp add: apply_book_def Let_def rows_def failed_ok)
  next
    case bids: (Inr bids)
    have "book_ok (b0\<lparr>tb_bids := bids\<rparr>)" using f levels_to_dict_ok [OF bids]
      by (simp add: like_stored_def book_ok_def)
    then have ls: "like_stored (b0\<lparr>tb_bids := bids\<rparr>) pb1" using f by (auto intro: like_stored_later)
    show ?thesis
    proof (cases "levels_to_dict (rows ''asks'')")
      case (Inl e)
      then show ?thesis using Inr bf f bids put_book_inv [OF _ ls]
        by (auto simp: apply_book_def Let_def rows_def put_book_def intro!: failed_ok)
    next
      case asks: (Inr asks)
      define b where "b = b0\<lparr>tb_bids := bids, tb_asks := asks, tb_has_snapshot := True, tb_incomplete := False,
                           tb_invalid := market_is_invalid (b0\<lparr>tb_bids := bids\<rparr>) pb1, tb_bid_override := None,
                           tb_ask_override := None, tb_validation_error := None,
                           tb_reported_best_ok := True,
                           tb_last_snapshot_hash := sequence_text (qin_sequence inp)\<rparr>"
      have "book_ok b" "tb_invalid b = market_is_invalid b pb1"
        using levels_to_dict_ok [OF bids] levels_to_dict_ok [OF asks]
        by (simp_all add: b_def book_ok_def market_is_invalid_def)
      moreover have "like_stored b pb1" using f \<open>book_ok b\<close>
        by (auto intro: like_stored_later [of b0] simp: b_def)
      ultimately have "like_stored b pb1" "tb_invalid b = market_is_invalid b pb1" by simp_all
      from publish_ok [OF _ this] have "step_ok pb1 (publish inp BookSnapshot False b pb1)" using f by simp
      then have "step_ok pb (publish inp BookSnapshot False b pb1)" using f by (auto intro: step_ok_from)
      then show ?thesis using Inr bf bids asks by (simp add: apply_book_def Let_def rows_def b_def)
    qed
  qed
qed

lemma change_level_ok:
  assumes "book_ok b"
  shows "book_ok (change_level side p q b)
    \<and> tb_token_id (change_level side p q b) = tb_token_id b
    \<and> tb_metadata (change_level side p q b) = tb_metadata b
    \<and> tb_update_count (change_level side p q b) = tb_update_count b"
  using assms by (simp add: change_level_def book_ok_def levels_ok_set)

lemma clear_resolved_ok [simp]:
  "book_ok (clear_resolved_overrides b) = book_ok b"
  "tb_token_id (clear_resolved_overrides b) = tb_token_id b"
  "tb_metadata (clear_resolved_overrides b) = tb_metadata b"
  "tb_update_count (clear_resolved_overrides b) = tb_update_count b"
  "tb_invalid (clear_resolved_overrides b) = tb_invalid b" "tb_bids (clear_resolved_overrides b) = tb_bids b"
  "tb_asks (clear_resolved_overrides b) = tb_asks b" "tb_has_snapshot (clear_resolved_overrides b) = tb_has_snapshot b"
  "tb_incomplete (clear_resolved_overrides b) = tb_incomplete b"
  by (simp_all add: clear_resolved_overrides_def Let_def book_ok_def)

lemma after_change_ok:
  "book_ok b \<Longrightarrow> book_ok (after_change pb b)
    \<and> tb_token_id (after_change pb b) = tb_token_id b
    \<and> tb_metadata (after_change pb b) = tb_metadata b
    \<and> tb_update_count (after_change pb b) = tb_update_count b
    \<and> tb_invalid (after_change pb b) = market_is_invalid b pb"
  by (simp add: after_change_def Let_def book_ok_def market_is_invalid_def)

text \<open>How a book and its state look after the reported best prices were compared.\<close>

lemma compared_ok:
  assumes "same_identity b b1" and "same_core pb pb1 \<and> samples_ok pb1"
    and "poly_inv pb" and "like_stored b pb"
  shows "poly_inv pb1 \<and> like_stored b1 pb1 \<and> poly_inv (put_book b1 pb1)
    \<and> pb_market_invalid pb1 = pb_market_invalid pb \<and> pb_stale_after_ms pb1 = pb_stale_after_ms pb
    \<and> pb_market_invalid (put_book b1 pb1) = pb_market_invalid pb
    \<and> pb_stale_after_ms (put_book b1 pb1) = pb_stale_after_ms pb
    \<and> tb_invalid b1 = tb_invalid b \<and> market_is_invalid b1 pb1 = market_is_invalid b pb"
proof -
  have "poly_inv pb1" "like_stored b1 pb1"
    using assms book_ok_same [of b b1] poly_inv_core [of pb pb1]
    by (auto simp: like_stored_def same_core_def same_identity_def)
  then show ?thesis using assms put_book_inv [of pb1 b1]
    by (simp add: same_core_def same_identity_def put_book_def market_is_invalid_def)
qed

lemma with_reported_ok:
  assumes "with_reported_best row inp ut b pb = (e, b', pb')" and "samples_ok pb"
  shows "same_identity b b' \<and> same_core pb pb' \<and> samples_ok pb'"
  using assms reported_best_ok [of _ _ row "qin_received inp" "qin_recv_monotonic inp" ut b pb e b' pb']
  by (auto simp: with_reported_best_def split: sum.splits)

lemma apply_price_change_ok:
  assumes "poly_inv pb"
  shows "step_ok pb (apply_price_change row parent inp pb)"
proof -
  define t where "t = py_str (val_or (vget row ''asset_id'') (vget parent ''asset_id''))"
  define side where "side = upper (py_str (case map_of row ''side'' of None \<Rightarrow> VStr [] | Some v \<Rightarrow> v))"
  define qty where "qty = (case map_of row ''size'' of None \<Rightarrow> Inr fzero | Some v \<Rightarrow> float_from v)"
  obtain b0 pb1 where bf: "book_for t parent pb = (b0, pb1)" by fastforce
  note f = book_for_ok [OF bf assms]
  note d = apply_price_change_def t_def [symmetric] side_def [symmetric] qty_def [symmetric] Let_def bf prod.case
  show ?thesis
  proof (cases "float_item row ''price''")
    case (Inl e)
    then show ?thesis using f by (simp add: d failed_ok)
  next
    case price: (Inr p)
    show ?thesis
    proof (cases qty)
      case (Inl e)
      then show ?thesis using f price by (simp add: d failed_ok)
    next
      case (Inr q)
      define b where "b = after_change pb1 (change_level side p q b0)"
      have b: "like_stored b pb1" "tb_invalid b = market_is_invalid b pb1"
        using f change_level_ok [of b0 side p q] after_change_ok [of "change_level side p q b0" pb1]
        by (auto simp: b_def like_stored_def market_is_invalid_def)
      obtain e b1 pb2 where w: "with_reported_best row inp PriceChange b pb1 = (e, b1, pb2)" by (metis prod.exhaust)
      have "samples_ok pb1" using f poly_ok_parts(3) by (auto simp: poly_inv_def)
      from with_reported_ok [OF w this] compared_ok [of b b1 pb1 pb2] f b
      have c: "poly_inv pb2" "like_stored b1 pb2" "poly_inv (put_book b1 pb2)"
        "pb_market_invalid pb2 = pb_market_invalid pb" "pb_stale_after_ms pb2 = pb_stale_after_ms pb"
        "pb_market_invalid (put_book b1 pb2) = pb_market_invalid pb"
        "pb_stale_after_ms (put_book b1 pb2) = pb_stale_after_ms pb"
        "tb_invalid b1 = market_is_invalid b1 pb2" by simp_all
      have "step_ok pb (publish inp PriceChange (\<not> tb_has_snapshot b0) b1 pb2)"
        using publish_ok [OF c(1,2,8)] c(4,5) by (rule step_ok_from)
      then show ?thesis using price Inr w c by (cases e) (simp_all add: d b_def [symmetric] failed_ok)
    qed
  qed
qed

lemma apply_best_bid_ask_ok:
  assumes "poly_inv pb"
  shows "step_ok pb (apply_best_bid_ask payload inp pb)"
proof -
  define t where "t = py_str (val_or (vget payload ''asset_id'') (val_or (vget payload ''token_id'') (VStr [])))"
  obtain b0 pb1 where bf: "book_for t payload pb = (b0, pb1)" by fastforce
  note f = book_for_ok [OF bf assms]
  define b where "b = b0\<lparr>tb_incomplete := \<not> tb_has_snapshot b0, tb_reported_best_ok := True,
                       tb_validation_error := if tb_has_snapshot b0 then None else Some ''missing_snapshot''\<rparr>"
  note d = apply_best_bid_ask_def t_def [symmetric] b_def [symmetric] Let_def bf prod.case
  have "book_ok b" using f like_stored_book_ok [of b0 pb1] by (simp add: b_def book_ok_def)
  then have b: "like_stored b pb1" using f by (auto intro: like_stored_later [of b0] simp: b_def)
  show ?thesis
  proof (cases "optional_float (vget payload ''best_bid'')")
    case (Inl e)
    then show ?thesis using f by (simp add: d failed_ok)
  next
    case bid: (Inr bid)
    show ?thesis
    proof (cases "optional_float (vget payload ''best_ask'')")
      case (Inl e)
      then show ?thesis using f bid by (simp add: d failed_ok)
    next
      case (Inr ask)
      obtain e b1 pb2 where w: "apply_reported_best bid ask payload (qin_received inp) (qin_recv_monotonic inp)
                        BestBidAsk b pb1 = (e, b1, pb2)" by (metis prod.exhaust)
      have "samples_ok pb1" using f poly_ok_parts(3) by (auto simp: poly_inv_def)
      from reported_best_ok [OF w this] compared_ok [of b b1 pb1 pb2] f b
      have c: "poly_inv pb2" "like_stored b1 pb2" "poly_inv (put_book b1 pb2)"
        "pb_market_invalid pb2 = pb_market_invalid pb" "pb_stale_after_ms pb2 = pb_stale_after_ms pb"
        "pb_market_invalid (put_book b1 pb2) = pb_market_invalid pb"
        "pb_stale_after_ms (put_book b1 pb2) = pb_stale_after_ms pb" by simp_all
      define b2 where "b2 = (if \<not> tb_has_snapshot b1 then b1\<lparr>tb_incomplete := True\<rparr> else b1)"
      define b3 where "b3 = b2\<lparr>tb_invalid := market_is_invalid b2 pb2\<rparr>"
      have "like_stored b3 pb2" "tb_invalid b3 = market_is_invalid b3 pb2"
        using c(2) by (simp_all add: b3_def b2_def like_stored_def book_ok_def market_is_invalid_def)
      from publish_ok [OF c(1) this]
      have "step_ok pb (publish inp BestBidAsk (\<not> tb_has_snapshot b0) b3 pb2)"
        using c(4,5) by (rule step_ok_from)
      moreover have "apply_best_bid_ask payload inp pb = (case e of Inl x \<Rightarrow> (Inl x, put_book b1 pb2)
          | Inr _ \<Rightarrow> publish inp BestBidAsk (\<not> tb_has_snapshot b0) b3 pb2)"
        unfolding apply_best_bid_ask_def t_def [symmetric] b_def [symmetric] Let_def bf prod.case bid Inr
          sum.case w b2_def [symmetric] b3_def [symmetric] by (rule refl)
      ultimately show ?thesis using c(3,6,7) by (cases e) (simp_all add: failed_ok)
    qed
  qed
qed

subsection \<open>The other operations\<close>

lemma map_of_map_snd: "map_of (map (\<lambda>(t, b). (t, f b)) d) t = map_option f (map_of d t)"
  by (induction d) auto

lemma poly_inv_books:
  assumes "poly_inv pb" and "pb_readiness pb' = pb_readiness pb"
    and "\<And>t. map_of (pb_books pb') t = map_option (f t) (map_of (pb_books pb) t)"
    and "\<And>t b. map_of (pb_books pb) t = Some b \<Longrightarrow> tb_token_id (f t b) = tb_token_id b
          \<and> tb_update_count (f t b) = tb_update_count b \<and> (book_ok b \<longrightarrow> book_ok (f t b))"
    and "samples_ok pb' = samples_ok pb"
  shows "poly_inv pb'"
proof -
  have ok: "poly_ok pb" using assms(1) by (simp add: poly_inv_def)
  have "updates pb' t = quotes pb' t" for t
    using assms(3) [of t] assms(4) [of t] poly_ok_parts(2) [OF ok, of t]
    by (cases "map_of (pb_books pb) t") (simp_all add: updates_def quotes_def assms(2))
  moreover have "tb_token_id b = t \<and> book_ok b" if b: "map_of (pb_books pb') t = Some b" for t b
  proof -
    obtain c where c: "map_of (pb_books pb) t = Some c" "b = f t c"
      using b assms(3) [of t] by (cases "map_of (pb_books pb) t") simp_all
    then show ?thesis using assms(4) [OF c(1)] poly_ok_parts(1) [OF ok c(1)] by simp
  qed
  moreover have "samples_ok pb'" using assms(5) poly_ok_parts(3) [OF ok] by simp
  moreover have "rates_ok pb'" using assms(1,2) by (simp add: poly_inv_def rates_ok_def)
  ultimately show ?thesis unfolding poly_inv_def poly_ok_def by blast
qed

lemma mark_market_invalid_ok: "poly_inv pb \<Longrightarrow> poly_inv (mark_market_invalid m pb)"
  by (rule poly_inv_books [where f = "\<lambda>_ b. if tm_market_id (tb_metadata b) = m
      then b\<lparr>tb_invalid := True, tb_incomplete := True,
             tb_validation_error := Some ''market_invalidated''\<rparr> else b"])
    (simp_all add: mark_market_invalid_def map_of_map_snd book_ok_def samples_ok_def)

lemma put_metadata_ok:
  assumes "poly_inv pb" and "map_of (pb_books pb) t = Some b"
  shows "poly_inv (pb\<lparr>pb_books := AList.update t (b\<lparr>tb_metadata := m\<rparr>) (pb_books pb)\<rparr>)"
  using assms(1)
  by (rule poly_inv_books [where f = "\<lambda>t' c. if t' = t then c\<lparr>tb_metadata := m\<rparr> else c"])
    (simp_all add: assms(2) book_ok_def samples_ok_def option.map_ident)

lemma poly_inv_metadata [simp]: "poly_inv (pb\<lparr>pb_metadata := m\<rparr>) = poly_inv pb"
  by (simp add: poly_inv_def poly_ok_def updates_def quotes_def samples_ok_def rates_ok_def)

definition same_marks :: "poly_book \<Rightarrow> poly_book \<Rightarrow> bool" where
  "same_marks pb pb' \<longleftrightarrow> pb_market_invalid pb' = pb_market_invalid pb
     \<and> pb_stale_after_ms pb' = pb_stale_after_ms pb"

lemma set_tick_size_ok:
  "poly_inv pb \<Longrightarrow> poly_inv (set_tick_size tick t pb) \<and> same_marks pb (set_tick_size tick t pb)"
proof (cases "map_of (pb_metadata pb) t")
  case (Some m)
  assume inv: "poly_inv pb"
  define m1 where "m1 = m\<lparr>tm_tick_size := tick\<rparr>"
  define pb1 where "pb1 = pb\<lparr>pb_metadata := AList.update t m1 (pb_metadata pb)\<rparr>"
  have i: "poly_inv pb1" using inv by (simp add: pb1_def)
  have "same_marks pb pb1" by (simp add: pb1_def same_marks_def)
  moreover have "set_tick_size tick t pb = (case map_of (pb_books pb1) t of None \<Rightarrow> pb1
      | Some b \<Rightarrow> pb1\<lparr>pb_books := AList.update t (b\<lparr>tb_metadata := m1\<rparr>) (pb_books pb1)\<rparr>)"
    by (cases "map_of (pb_books pb) t") (simp_all add: set_tick_size_def Some Let_def m1_def pb1_def)
  ultimately show ?thesis using i put_metadata_ok [OF i, of t _ m1]
    by (cases "map_of (pb_books pb1) t") (simp_all add: same_marks_def)
qed (simp add: set_tick_size_def same_marks_def)

lemma adopt_metadata_ok:
  assumes "poly_inv pb"
  shows "poly_inv (adopt_metadata tm pb) \<and> same_marks pb (adopt_metadata tm pb)"
proof -
  obtain t m where tm: "tm = (t, m)" by (cases tm)
  obtain r pb1 where r: "readiness_for t (tm_market_id m) pb = (r, pb1)" by fastforce
  have "poly_inv pb1" "same_marks pb pb1"
    using readiness_for_inv [OF r assms] readiness_for_facts [OF r] assms
    by (simp_all add: poly_inv_def same_marks_def)
  then show ?thesis using put_metadata_ok [of pb1 t _ m]
    by (cases "map_of (pb_books pb1) t") (simp_all add: adopt_metadata_def tm r same_marks_def)
qed

lemma fold_ok:
  assumes "\<And>x pb. poly_inv pb \<Longrightarrow> poly_inv (f x pb) \<and> same_marks pb (f x pb)"
  shows "poly_inv pb \<Longrightarrow> poly_inv (fold f xs pb) \<and> same_marks pb (fold f xs pb)"
proof (induction xs arbitrary: pb)
  case (Cons x xs)
  then show ?case using assms [of pb x] by (simp add: same_marks_def)
qed (simp add: same_marks_def)

lemma update_tick_size_ok:
  "poly_inv pb \<Longrightarrow> poly_inv (update_tick_size m t tick pb) \<and> same_marks pb (update_tick_size m t tick pb)"
  using fold_ok [of "set_tick_size tick"] set_tick_size_ok
  by (simp add: update_tick_size_def same_marks_def)

lemma update_token_metadata_ok:
  "poly_inv pb \<Longrightarrow> poly_inv (update_token_metadata md act pb) \<and> same_marks pb (update_token_metadata md act pb)"
  using fold_ok [of adopt_metadata "pb\<lparr>pb_metadata := [(t, m) \<leftarrow> md. t \<in> set act]\<rparr>"] adopt_metadata_ok
  by (simp add: update_token_metadata_def Let_def same_marks_def)

lemma ensure_readiness_ok:
  assumes "poly_inv pb"
  shows "poly_inv (ensure_readiness tb pb) \<and> same_marks pb (ensure_readiness tb pb)"
proof -
  obtain r pb1 where r: "readiness_for (fst tb) (tm_market_id (tb_metadata (snd tb))) pb = (r, pb1)" by fastforce
  have "poly_inv pb1" using readiness_for_inv [OF r assms] .
  moreover have "same_marks pb pb1" using readiness_for_facts [OF r] assms
    by (simp add: poly_inv_def same_marks_def)
  ultimately show ?thesis by (simp add: ensure_readiness_def r)
qed

lemma token_readiness_snapshot_ok:
  "poly_inv pb \<Longrightarrow> poly_inv (snd (token_readiness_snapshot pb)) \<and> same_marks pb (snd (token_readiness_snapshot pb))"
  using fold_ok [of ensure_readiness] ensure_readiness_ok
  by (simp add: token_readiness_snapshot_def Let_def)

lemma record_reconnect_ok:
  assumes "poly_inv pb"
  shows "poly_inv (record_reconnect pb)"
proof -
  define pb' where "pb' = record_reconnect pb"
  have b: "pb_books pb' = pb_books pb" "samples_ok pb' = samples_ok pb"
    unfolding pb'_def record_reconnect_def by simp_all
  have "quotes pb' t = quotes pb t" for t
    by (cases "map_of (pb_readiness pb) t") (simp_all add: quotes_def record_reconnect_def map_of_map_snd pb'_def)
  moreover have "rd_ok (r\<lparr>rd_reconnect_count := n\<rparr>) = rd_ok r" for r n by (simp add: rd_ok_def)
  then have "rates_ok pb' = rates_ok pb"
    unfolding rates_ok_def pb'_def record_reconnect_def by (simp add: split_beta)
  ultimately have "poly_inv pb'" using assms b unfolding poly_inv_def poly_ok_def updates_def by simp
  then show ?thesis by (simp add: pb'_def)
qed

subsection \<open>Runs\<close>

datatype poly_op =
    Op_book "(string \<times> pyval) list" quote_inputs
  | Op_price_change "(string \<times> pyval) list" "(string \<times> pyval) list" quote_inputs
  | Op_best_bid_ask "(string \<times> pyval) list" quote_inputs
  | Op_market_invalid string
  | Op_tick_size string "string option" pyfloat
  | Op_metadata "(string \<times> token_metadata) list" "string list"
  | Op_reconnect
  | Op_readiness

fun poly_step :: "poly_op \<Rightarrow> poly_book \<Rightarrow> (py_error + polymarket_quote) list \<times> poly_book" where
  \<comment> \<open>the answer of an update of a book, if the operation is one, and the state it leaves\<close>
  "poly_step (Op_book p inp) pb = map_prod (\<lambda>r. [r]) id (apply_book p inp pb)"
| "poly_step (Op_price_change row p inp) pb = map_prod (\<lambda>r. [r]) id (apply_price_change row p inp pb)"
| "poly_step (Op_best_bid_ask p inp) pb = map_prod (\<lambda>r. [r]) id (apply_best_bid_ask p inp pb)"
| "poly_step (Op_market_invalid m) pb = ([], mark_market_invalid m pb)"
| "poly_step (Op_tick_size m t tick) pb = ([], update_tick_size m t tick pb)"
| "poly_step (Op_metadata md act) pb = ([], update_token_metadata md act pb)"
| "poly_step Op_reconnect pb = ([], record_reconnect pb)"
| "poly_step Op_readiness pb = ([], snd (token_readiness_snapshot pb))"

fun poly_run :: "poly_op list \<Rightarrow> poly_book \<Rightarrow> (py_error + polymarket_quote) list \<times> poly_book" where
  "poly_run [] pb = ([], pb)"
| "poly_run (op # ops) pb = (let (rs, pb1) = poly_step op pb; (rs', pb2) = poly_run ops pb1
     in (rs @ rs', pb2))"

lemma poly_step_ok:
  assumes "poly_inv pb" and "poly_step op pb = (rs, pb')"
  shows "poly_inv pb' \<and> set (pb_market_invalid pb) \<subseteq> set (pb_market_invalid pb')
    \<and> pb_stale_after_ms pb' = pb_stale_after_ms pb \<and> (\<forall>q. Inr q \<in> set rs \<longrightarrow> published q pb')"
proof -
  have s: ?thesis if "step_ok pb res" "(rs, pb') = map_prod (\<lambda>r. [r]) id res" for res
    using that by (cases res) (auto simp: step_ok_def)
  have n: ?thesis if "poly_inv pb' \<and> same_marks pb pb'" "rs = []"
    using that by (simp add: same_marks_def)
  show ?thesis
  proof (cases op)
    case (Op_book p inp)
    then show ?thesis using assms(2) by (intro s [OF apply_book_ok [OF assms(1), of p inp]]) simp
  next
    case (Op_price_change row p inp)
    then show ?thesis using assms(2) by (intro s [OF apply_price_change_ok [OF assms(1), of row p inp]]) simp
  next
    case (Op_best_bid_ask p inp)
    then show ?thesis using assms(2) by (intro s [OF apply_best_bid_ask_ok [OF assms(1), of p inp]]) simp
  next
    case Op_market_invalid
    then show ?thesis using assms mark_market_invalid_ok [OF assms(1)] by (auto simp: mark_market_invalid_def)
  next
    case Op_reconnect
    then show ?thesis using assms record_reconnect_ok [OF assms(1)] by (auto simp: record_reconnect_def)
  next
    case (Op_tick_size m t tick)
    then show ?thesis using assms(2) update_tick_size_ok [OF assms(1), of m t tick] by (intro n) simp_all
  next
    case (Op_metadata md act)
    then show ?thesis using assms(2) update_token_metadata_ok [OF assms(1), of md act] by (intro n) simp_all
  next
    case Op_readiness
    then show ?thesis using assms(2) token_readiness_snapshot_ok [OF assms(1)] by (intro n) simp_all
  qed
qed

lemma poly_run_ok:
  assumes "poly_inv pb" and "poly_run ops pb = (rs, pb')"
  shows "poly_inv pb' \<and> set (pb_market_invalid pb) \<subseteq> set (pb_market_invalid pb')
    \<and> pb_stale_after_ms pb' = pb_stale_after_ms pb
    \<and> (\<forall>q. Inr q \<in> set rs \<longrightarrow> (\<exists>pb1. published q pb1 \<and> set (pb_market_invalid pb) \<subseteq> set (pb_market_invalid pb1)
         \<and> pb_stale_after_ms pb1 = pb_stale_after_ms pb))"
  using assms
proof (induction ops arbitrary: pb rs)
  case (Cons op ops)
  obtain rs1 pb1 where 1: "poly_step op pb = (rs1, pb1)" by fastforce
  obtain rs2 pb2 where 2: "poly_run ops pb1 = (rs2, pb2)" by fastforce
  have e: "rs = rs1 @ rs2" "pb2 = pb'" using Cons.prems(2) 1 2 by simp_all
  note s = poly_step_ok [OF Cons.prems(1) 1]
  have r: "poly_inv pb' \<and> set (pb_market_invalid pb1) \<subseteq> set (pb_market_invalid pb')
    \<and> pb_stale_after_ms pb' = pb_stale_after_ms pb1
    \<and> (\<forall>q. Inr q \<in> set rs2 \<longrightarrow> (\<exists>pb2. published q pb2 \<and> set (pb_market_invalid pb1) \<subseteq> set (pb_market_invalid pb2)
         \<and> pb_stale_after_ms pb2 = pb_stale_after_ms pb1))"
    using s 2 e(2) by (intro Cons.IH) simp_all
  have "\<exists>pb2. published q pb2 \<and> set (pb_market_invalid pb) \<subseteq> set (pb_market_invalid pb2)
         \<and> pb_stale_after_ms pb2 = pb_stale_after_ms pb" if "Inr q \<in> set rs" for q
    using that s r by (auto simp: e(1)) (meson subset_trans)
  then show ?case using s r by auto
qed simp

lemma poly_book_init_inv: "distinct (map fst md) \<Longrightarrow> poly_inv (poly_book_init md sa mode tol path n th)"
proof -
  have "quotes (poly_book_init md sa mode tol path n th) t = 0" for t
    by (induction md) (auto simp: quotes_def poly_book_init_def new_readiness_def)
  then show ?thesis
    by (auto simp: poly_inv_def poly_ok_def updates_def samples_ok_def rates_ok_def poly_book_init_def)
qed

end
