(* ===== verification/PolyQuotes.thy ===== *)
theory PolyQuotes
  imports PolyRun
begin

text \<open>
  What the quotes of the token books say: a complete quote is the top of a valid book, rates are
  fractions, an invalidated market quotes nothing complete, and two behaviours of the code that
  its counters and marks hide: the stale flag can never be raised, and an outdated reported price
  outlives the mark that it is wrong.
\<close>


subsection \<open>What a quote says of its book\<close>

lemma run_from_start:
  assumes "distinct (map fst md)" and "poly_run ops (poly_book_init md sa mode tol path n th) = (rs, pb)"
  shows "poly_inv pb" "pb_stale_after_ms pb = sa"
  using poly_run_ok [OF poly_book_init_inv [OF assms(1)] assms(2)] by (auto simp: poly_book_init_def)

lemma foldl_pymax_bound: "p \<noteq> NaN \<Longrightarrow> foldl pymax p ps \<noteq> NaN
    \<and> (\<forall>x\<in>set (p # ps). x = NaN \<or> fle x (foldl pymax p ps))"
proof (induction ps arbitrary: p)
  case (Cons a ps)
  have "pymax p a \<noteq> NaN" "fle p (pymax p a)" "a = NaN \<or> fle a (pymax p a)"
    using Cons.prems not_fless_iff [of p a] by (auto simp: pymax_def fless_imp_fle)
  with Cons.IH [of "pymax p a"] show ?case by (auto intro: fle_trans)
qed simp

lemma foldl_pymin_bound: "p \<noteq> NaN \<Longrightarrow> foldl pymin p ps \<noteq> NaN
    \<and> (\<forall>x\<in>set (p # ps). x = NaN \<or> fle (foldl pymin p ps) x)"
proof (induction ps arbitrary: p)
  case (Cons a ps)
  have "pymin p a \<noteq> NaN" "fle (pymin p a) p" "a = NaN \<or> fle (pymin p a) a"
    using Cons.prems not_fless_iff [of a p] by (auto simp: pymin_def fless_imp_fle)
  with Cons.IH [of "pymin p a"] show ?case by (auto intro: fle_trans)
qed simp

lemma foldl_pick_NaN: "foldl pymax NaN ps = NaN" "foldl pymin NaN ps = NaN"
  by (induction ps) (auto simp: pymax_def pymin_def)

lemma best_bid_bound:
  assumes "best_bid_level d = Some (p, q)" and "p \<noteq> NaN"
  shows "(p, q) \<in> set d \<and> (\<forall>(x, s)\<in>set d. x = NaN \<or> fle x p)"
proof -
  obtain a ps where d: "map fst d = a # ps" using assms(1) by (cases d) (auto simp: best_bid_level_def best_of_def)
  have p: "p = foldl pymax a ps" using assms(1) by (auto simp: best_bid_level_def best_of_def d Let_def)
  have "a \<noteq> NaN" using p assms(2) foldl_pick_NaN by auto
  then have "\<forall>x\<in>set (map fst d). x = NaN \<or> fle x p" using foldl_pymax_bound [of a ps] by (simp add: d p)
  then show ?thesis using best_level_mem assms(1) by (fastforce simp: best_bid_level_def)
qed

lemma best_ask_bound:
  assumes "best_ask_level d = Some (p, q)" and "p \<noteq> NaN"
  shows "(p, q) \<in> set d \<and> (\<forall>(x, s)\<in>set d. x = NaN \<or> fle p x)"
proof -
  obtain a ps where d: "map fst d = a # ps" using assms(1) by (cases d) (auto simp: best_ask_level_def best_of_def)
  have p: "p = foldl pymin a ps" using assms(1) by (auto simp: best_ask_level_def best_of_def d Let_def)
  have "a \<noteq> NaN" using p assms(2) foldl_pick_NaN by auto
  then have "\<forall>x\<in>set (map fst d). x = NaN \<or> fle p x" using foldl_pymin_bound [of a ps] by (simp add: d p)
  then show ?thesis using best_level_mem assms(1) by (fastforce simp: best_ask_level_def)
qed

lemma make_quote_fields:
  "pq_book_complete (make_quote inp b ut pb) \<longleftrightarrow> \<not> tb_incomplete b \<and> \<not> tb_invalid b \<and> structurally_complete b"
  "pq_book_stale (make_quote inp b ut pb) = is_stale (pb_stale_after_ms pb) b (qin_received inp)"
  "pq_market_id (make_quote inp b ut pb) = tm_market_id (tb_metadata b)"
  "pq_token_id (make_quote inp b ut pb) = tb_token_id b"
  "pq_best_bid (make_quote inp b ut pb) = (case tb_bid_override b of Some x \<Rightarrow> Some x
     | None \<Rightarrow> map_option fst (best_bid_level (tb_bids b)))"
  "pq_best_ask (make_quote inp b ut pb) = (case tb_ask_override b of Some x \<Rightarrow> Some x
     | None \<Rightarrow> map_option fst (best_ask_level (tb_asks b)))"
  "pq_best_bid_size (make_quote inp b ut pb) = (if tb_bid_override b \<noteq> None then None
     else map_option snd (best_bid_level (tb_bids b)))"
  "pq_best_ask_size (make_quote inp b ut pb) = (if tb_ask_override b \<noteq> None then None
     else map_option snd (best_ask_level (tb_asks b)))"
  "pq_token_mismatch_rate (make_quote inp b ut pb) = fst (quality_rates_for_token (tb_token_id b) pb)"
  "pq_token_quote_complete_rate (make_quote inp b ut pb) = snd (quality_rates_for_token (tb_token_id b) pb)"
  "pq_market_mismatch_rate (make_quote inp b ut pb) = fst (quality_rates_for_market (tm_market_id (tb_metadata b)) pb)"
  "pq_market_quote_complete_rate (make_quote inp b ut pb) = snd (quality_rates_for_market (tm_market_id (tb_metadata b)) pb)"
  by (auto simp: make_quote_def Let_def split: prod.splits)

lemma complete_quote_levels:
  assumes "structurally_complete b" and "book_ok b" and "tb_bid_override b = None" and "tb_ask_override b = None"
  shows "\<exists>bid ask s s'. best_bid_level (tb_bids b) = Some (bid, s) \<and> best_ask_level (tb_asks b) = Some (ask, s')
    \<and> fless bid ask \<and> \<not> fle s fzero \<and> \<not> fle s' fzero \<and> (bid, s) \<in> set (tb_bids b) \<and> (ask, s') \<in> set (tb_asks b)
    \<and> (\<forall>(x, s)\<in>set (tb_bids b). x = NaN \<or> fle x bid) \<and> (\<forall>(x, s)\<in>set (tb_asks b). x = NaN \<or> fle ask x)"
proof -
  obtain bid s ask s' where l: "best_bid_level (tb_bids b) = Some (bid, s)"
    "best_ask_level (tb_asks b) = Some (ask, s')" "fless bid ask"
    using assms(1) by (auto simp: structurally_complete_def split: option.splits)
  have "bid \<noteq> NaN" "ask \<noteq> NaN" using l(3) by (auto dest: fless_asym) 
  note bid = best_bid_bound [OF l(1) this(1)] and ask = best_ask_bound [OF l(2) this(2)]
  have "\<not> fle s fzero" "\<not> fle s' fzero"
    using bid ask assms(2) by (auto simp: book_ok_def levels_ok_def)
  then show ?thesis using l bid ask by blast
qed

lemma mismatch_sums:
  "(\<And>r. r \<in> set rs \<Longrightarrow> rd_ok r) \<Longrightarrow> 0 \<le> sum_list (map rd_complete_true rs)
    \<and> 0 \<le> sum_list (map rd_complete_false rs)
    \<and> 0 \<le> sum_list (map (mismatch_total \<circ> rd_errors_by_reason) rs)
    \<and> sum_list (map (mismatch_total \<circ> rd_errors_by_reason) rs)
        \<le> sum_list (map rd_complete_true rs) + sum_list (map rd_complete_false rs)"
proof (induction rs)
  case (Cons r rs)
  have "rd_ok r" using Cons.prems by simp
  moreover have "0 \<le> sum_list (map rd_complete_true rs)
    \<and> 0 \<le> sum_list (map rd_complete_false rs)
    \<and> 0 \<le> sum_list (map (mismatch_total \<circ> rd_errors_by_reason) rs)
    \<and> sum_list (map (mismatch_total \<circ> rd_errors_by_reason) rs)
        \<le> sum_list (map rd_complete_true rs) + sum_list (map rd_complete_false rs)"
    using Cons.prems by (intro Cons.IH) simp
  ultimately show ?case by (simp add: rd_ok_def comp_def)
qed simp

definition fraction :: "pyfloat option \<Rightarrow> bool" where
  "fraction x = (case x of None \<Rightarrow> True | Some f \<Rightarrow> fle fzero f \<and> fle f (Fin 1))"

lemma fraction_truediv: "0 \<le> m \<Longrightarrow> m \<le> n \<Longrightarrow> n \<noteq> 0 \<Longrightarrow> fraction (Some (int_truediv m n))"
proof -
  assume a: "0 \<le> m" "m \<le> n" "n \<noteq> 0"
  have "f64 0 = Fin 0" "f64 1 = Fin 1" by code_simp+
  moreover have "fle (f64 0) (int_truediv m n)" "fle (int_truediv m n) (f64 1)"
    unfolding int_truediv_def using a by (intro f64_mono; simp add: divide_le_eq)+
  ultimately show ?thesis by (simp add: fraction_def)
qed

lemma token_rates: "rates_ok pb \<Longrightarrow> fraction (fst (quality_rates_for_token t pb)) \<and> fraction (snd (quality_rates_for_token t pb))"
  by (auto simp: quality_rates_for_token_def quality_rates_def Let_def rates_ok_def rd_ok_def
      intro!: fraction_truediv split: option.splits dest!: map_of_SomeD)
    (auto simp: fraction_def)

lemma market_rates:
  assumes "rates_ok pb"
  shows "fraction (fst (quality_rates_for_market m pb)) \<and> fraction (snd (quality_rates_for_market m pb))"
proof -
  define rs where "rs = [r. (_, r) \<leftarrow> pb_readiness pb, rd_market_id r = m]"
  have "rd_ok r" if "r \<in> set rs" for r using that assms by (auto simp: rs_def rates_ok_def)
  from mismatch_sums [OF this] show ?thesis
    unfolding quality_rates_for_market_def rs_def [symmetric] Let_def
    by (auto intro!: fraction_truediv) (auto simp: fraction_def)
qed

lemma quote_from_run:
  assumes "distinct (map fst md)" and "poly_run ops (poly_book_init md sa mode tol path n th) = (rs, pb)"
    and "Inr q \<in> set rs"
  shows "\<exists>pb1. published q pb1 \<and> pb_stale_after_ms pb1 = sa"
  using poly_run_ok [OF poly_book_init_inv [OF assms(1)] assms(2)] assms(3) by (auto simp: poly_book_init_def)

lemma step_from_run:
  assumes "distinct (map fst md)" and "poly_run ops (poly_book_init md sa mode tol path n th) = (rs, pb)"
    and "poly_step op pb = ([Inr q], pb')"
  shows "published q pb'"
  using poly_step_ok [OF run_from_start(1) [OF assms(1,2)] assms(3)] by simp



subsection \<open>An example\<close>

definition ex_meta :: token_metadata where
  "ex_meta = \<lparr>tm_condition_id = None, tm_market_id = ''M'', tm_side_label = L_UNKNOWN,
     tm_market_slug = None, tm_base_asset = None, tm_duration_minutes = None,
     tm_token_outcome = None, tm_tick_size = Fin (1 / 4)\<rparr>"

definition ex_quote_inputs :: quote_inputs where
  "ex_quote_inputs = \<lparr>qin_event_id = ''e'', qin_ts_ns = 0, qin_received = 0, qin_parse_done = 0,
     qin_recv_monotonic = 0, qin_parse_done_monotonic = 0, qin_event_ts = None, qin_sequence = VNone\<rparr>"

definition ex_row :: "rat \<Rightarrow> rat \<Rightarrow> pyval" where
  "ex_row p s = VDict [(''price'', VFloat (Fin p)), (''size'', VFloat (Fin s))]"

definition ex_book_op :: poly_op where
  "ex_book_op = Op_book [(''asset_id'', VStr ''T''), (''bids'', VList [ex_row (1 / 4) 8, ex_row (1 / 2) 4]),
     (''asks'', VList [ex_row (3 / 4) 2])] ex_quote_inputs"

definition ex_change_op :: poly_op where
  "ex_change_op = Op_price_change [(''side'', VStr ''BUY''), (''price'', VFloat (Fin (1 / 4))),
     (''size'', VFloat (Fin 16)), (''best_bid'', VFloat (Fin (1 / 4)))] [(''asset_id'', VStr ''T'')] ex_quote_inputs"

definition ex_start :: poly_book where
  "ex_start = poly_book_init [(''T'', ex_meta)] (Fin 1000) Strict 1 None 20 (Fin (1 / 16))"

definition ex_one :: "(py_error + polymarket_quote) list \<times> poly_book" where
  "ex_one = poly_run [ex_book_op] ex_start"

definition ex_two :: "(py_error + polymarket_quote) list \<times> poly_book" where
  "ex_two = poly_run [ex_change_op] (snd ex_one)"

definition quote_of :: "(py_error + polymarket_quote) list \<Rightarrow> polymarket_quote option" where
  "quote_of rs = (case rs of [Inr q] \<Rightarrow> Some q | _ \<Rightarrow> None)"

lemma quote_ofD: "quote_of rs = Some q \<Longrightarrow> rs = [Inr q]"
  by (simp add: quote_of_def split: list.splits sum.splits)

lemma ex_one_quote: "map_option (\<lambda>q. (pq_book_complete q, pq_best_bid_size q, pq_best_ask_size q))
    (quote_of (fst ex_one)) = Some (True, Some (Fin 4), Some (Fin 2))"
  by code_simp

lemma ex_one_book: "map_option tb_update_count (map_of (pb_books (snd ex_one)) ''T'') = Some 1"
  by code_simp

lemma ex_invalid_quote: "map_option pq_market_id
    (quote_of (fst (poly_run [ex_book_op] (mark_market_invalid ''M'' ex_start)))) = Some ''M''"
  by code_simp

lemma ex_two_quote: "map_option pq_token_quote_complete_rate (quote_of (fst ex_two)) = Some (Some (Fin 1))"
  by code_simp

lemma ex_two_book: "map_option (\<lambda>b. (tb_token_id b, tb_has_snapshot b, tb_bid_override b,
      best_bid_level (tb_bids b), best_ask_level (tb_asks b), tm_market_id (tb_metadata b)))
    (map_of (pb_books (snd ex_two)) ''T'')
      = Some (''T'', True, Some (Fin (1 / 4)), Some (Fin (1 / 2), Fin 4), Some (Fin (3 / 4), Fin 2), ''M'')"
  by code_simp

lemma ex_distinct: "distinct (map fst [(''T'', ex_meta)])"
  by simp

lemma ex_run_none: "poly_run [] (poly_book_init [(''T'', ex_meta)] (Fin 1000) Strict 1 None 20 (Fin (1 / 16))) = ([], ex_start)"
  by (simp add: ex_start_def)

lemma ex_one_step: "poly_step ex_book_op ex_start = ex_one"
  by (cases "poly_step ex_book_op ex_start") (simp add: ex_one_def)

lemma ex_run_one: "poly_run [ex_book_op] (poly_book_init [(''T'', ex_meta)] (Fin 1000) Strict 1 None 20 (Fin (1 / 16)))
    = (fst ex_one, snd ex_one)"
  by (simp add: ex_one_def ex_start_def del: poly_run.simps)

lemma ex_run_two: "poly_run [ex_book_op, ex_change_op]
      (poly_book_init [(''T'', ex_meta)] (Fin 1000) Strict 1 None 20 (Fin (1 / 16)))
    = (fst ex_one @ fst ex_two, snd ex_two)"
proof -
  have "poly_run [ex_book_op, ex_change_op] ex_start = (fst ex_one @ fst ex_two, snd ex_two)"
    by (simp add: ex_two_def ex_one_step split_beta)
  then show ?thesis by (simp add: ex_start_def del: poly_run.simps)
qed

lemma ex_valid: "pb_market_invalid (snd ex_two) = []"
  by code_simp

subsection \<open>Properties\<close>

text \<open>
  C16: along every sequence of updates, invalidations, tick changes, metadata changes and
  reconnects, no price level of any token book has a size of zero or less, no price occurs twice,
  a book that has seen no snapshot is incomplete, and the updates a token has received are exactly
  the complete and the incomplete quotes its readiness statistics have counted.
\<close>

theorem token_books_stay_wellformed:
  assumes "distinct (map fst md)"
    and "poly_run ops (poly_book_init md sa mode tol path n th) = (rs, pb)"
    and "map_of (pb_books pb) t = Some b"
  shows "(\<forall>(p, s)\<in>set (tb_bids b) \<union> set (tb_asks b). \<not> fle s fzero)
    \<and> distinct [p \<leftarrow> map fst (tb_bids b). p \<noteq> NaN] \<and> distinct [p \<leftarrow> map fst (tb_asks b). p \<noteq> NaN]
    \<and> (\<not> tb_has_snapshot b \<longrightarrow> tb_incomplete b)
    \<and> tb_update_count b = (case map_of (pb_readiness pb) t of None \<Rightarrow> 0
        | Some r \<Rightarrow> rd_complete_true r + rd_complete_false r)"
proof -
  have ok: "poly_ok pb" using run_from_start(1) [OF assms(1,2)] by (simp add: poly_inv_def)
  have "book_ok b" using poly_ok_parts(1) [OF ok assms(3)] by simp
  moreover have "updates pb t = quotes pb t" by (rule poly_ok_parts(2) [OF ok])
  ultimately show ?thesis using assms(3)
    by (auto simp: book_ok_def levels_ok_def updates_def quotes_def)
qed

theorem token_books_stay_wellformed_witness:
  "\<exists>b. map_of (pb_books (snd ex_one)) ''T'' = Some b
     \<and> tb_update_count b = (case map_of (pb_readiness (snd ex_one)) ''T'' of None \<Rightarrow> 0
        | Some r \<Rightarrow> rd_complete_true r + rd_complete_false r)"
proof -
  obtain b where "map_of (pb_books (snd ex_one)) ''T'' = Some b" using ex_one_book by auto
  then show ?thesis
    using token_books_stay_wellformed [OF ex_distinct ex_run_one] by blast
qed


text \<open>
  C15: a quote that claims to be complete was made from a book with a snapshot of a market that is
  not invalidated; when it has both sizes, its prices are the best of all levels of the stored
  book, with the sizes found there, which are not zero or negative, and the bid is below the ask.
\<close>

theorem complete_quote_is_top_of_book:
  assumes "distinct (map fst md)"
    and "poly_run ops (poly_book_init md sa mode tol path n th) = (rs, pb)"
    and "poly_step op pb = ([Inr q], pb')" and "pq_book_complete q"
    and "pq_best_bid_size q = Some s" and "pq_best_ask_size q = Some s'"
  shows "\<exists>b bid ask. map_of (pb_books pb') (pq_token_id q) = Some b
    \<and> tb_has_snapshot b \<and> \<not> tb_incomplete b \<and> pq_market_id q \<notin> set (pb_market_invalid pb')
    \<and> pq_best_bid q = Some bid \<and> pq_best_ask q = Some ask
    \<and> fless bid ask \<and> \<not> fle s fzero \<and> \<not> fle s' fzero
    \<and> (bid, s) \<in> set (tb_bids b) \<and> (ask, s') \<in> set (tb_asks b)
    \<and> (\<forall>(x, _)\<in>set (tb_bids b). x = NaN \<or> fle x bid) \<and> (\<forall>(x, _)\<in>set (tb_asks b). x = NaN \<or> fle ask x)"
proof -
  obtain inp b ut pb1 where q: "q = make_quote inp b ut pb1"
    "map_of (pb_books pb') (tb_token_id b) = Some b" "book_ok b" "tb_invalid b = market_is_invalid b pb'"
    using step_from_run [OF assms(1-3)] by (auto simp: published_def)
  have c: "structurally_complete b" "\<not> tb_incomplete b" "\<not> tb_invalid b" "tb_has_snapshot b"
    using assms(4) by (simp_all add: q(1) make_quote_fields structurally_complete_def)
  have "tb_bid_override b = None" "tb_ask_override b = None"
    using assms(5,6) by (simp_all add: q(1) make_quote_fields split: if_splits)
  note none = this
  obtain bid ask u u' where l: "best_bid_level (tb_bids b) = Some (bid, u)" "best_ask_level (tb_asks b) = Some (ask, u')"
    "fless bid ask" "\<not> fle u fzero" "\<not> fle u' fzero" "(bid, u) \<in> set (tb_bids b)" "(ask, u') \<in> set (tb_asks b)"
    "\<forall>(x, _)\<in>set (tb_bids b). x = NaN \<or> fle x bid" "\<forall>(x, _)\<in>set (tb_asks b). x = NaN \<or> fle ask x"
    using complete_quote_levels [OF c(1) q(3) none] by blast
  have "u = s" "u' = s'" using assms(5,6) l(1,2) none by (simp_all add: q(1) make_quote_fields)
  moreover have "pq_best_bid q = Some bid" "pq_best_ask q = Some ask" "pq_token_id q = tb_token_id b"
    "pq_market_id q \<notin> set (pb_market_invalid pb')"
    using l(1,2) none q(4) c(3) by (simp_all add: q(1) make_quote_fields market_is_invalid_def)
  ultimately show ?thesis using l c(2,4) q(2)
    by (intro exI [of _ b] exI [of _ bid] exI [of _ ask] conjI) simp_all
qed

theorem complete_quote_is_top_of_book_witness:
  "\<exists>q b bid ask. poly_step ex_book_op ex_start = ([Inr q], snd ex_one)
     \<and> map_of (pb_books (snd ex_one)) (pq_token_id q) = Some b \<and> tb_has_snapshot b
     \<and> pq_best_bid q = Some bid \<and> pq_best_ask q = Some ask \<and> fless bid ask \<and> \<not> fle (Fin 4) fzero
     \<and> (bid, Fin 4) \<in> set (tb_bids b) \<and> (ask, Fin 2) \<in> set (tb_asks b)"
proof -
  obtain q where q: "quote_of (fst ex_one) = Some q" "pq_book_complete q"
    "pq_best_bid_size q = Some (Fin 4)" "pq_best_ask_size q = Some (Fin 2)"
    using ex_one_quote by auto
  have "poly_step ex_book_op ex_start = ([Inr q], snd ex_one)"
    using quote_ofD [OF q(1)] by (simp add: ex_one_step prod_eq_iff)
  from this complete_quote_is_top_of_book [OF ex_distinct ex_run_none this q(2-4)] show ?thesis by blast
qed


text \<open>
  Once a market is marked invalid, no later update, whatever it brings, yields a complete quote
  for it.
\<close>

theorem invalidated_market_stays_incomplete:
  assumes "distinct (map fst md)"
    and "poly_run ops (poly_book_init md sa mode tol path n th) = (rs, pb)"
    and "poly_run later (mark_market_invalid m pb) = (rs', pb')"
    and "Inr q \<in> set rs'" and "pq_market_id q = m"
  shows "\<not> pq_book_complete q"
proof -
  have "poly_inv (mark_market_invalid m pb)"
    using mark_market_invalid_ok run_from_start(1) [OF assms(1,2)] by blast
  from poly_run_ok [OF this assms(3)] assms(4) obtain pb1 where
    "published q pb1" "m \<in> set (pb_market_invalid pb1)" by (fastforce simp: mark_market_invalid_def)
  then show ?thesis using assms(5)
    by (auto simp: published_def make_quote_fields market_is_invalid_def)
qed

theorem invalidated_market_stays_incomplete_witness:
  "\<exists>q. fst (poly_run [ex_book_op] (mark_market_invalid ''M'' ex_start)) = [Inr q] \<and> \<not> pq_book_complete q"
proof -
  obtain rs' pb' where r: "poly_run [ex_book_op] (mark_market_invalid ''M'' ex_start) = (rs', pb')" by fastforce
  then obtain q where q: "quote_of rs' = Some q" "pq_market_id q = ''M''" using ex_invalid_quote by auto
  have "Inr q \<in> set rs'" using quote_ofD [OF q(1)] by simp
  from invalidated_market_stays_incomplete [OF ex_distinct ex_run_none r this q(2)] quote_ofD [OF q(1)] r
  show ?thesis by simp
qed


text \<open>
  The mismatch and completeness rates that a quote carries, of its token and of its market, are
  fractions: when present they lie between 0 and 1.
\<close>

theorem quote_rates_are_fractions:
  assumes "distinct (map fst md)"
    and "poly_run ops (poly_book_init md sa mode tol path n th) = (rs, pb)"
    and "Inr q \<in> set rs"
    and "Some x \<in> {pq_token_mismatch_rate q, pq_token_quote_complete_rate q,
           pq_market_mismatch_rate q, pq_market_quote_complete_rate q}"
  shows "fle fzero x \<and> fle x (Fin 1)"
proof -
  obtain inp b ut pb1 where q: "q = make_quote inp b ut pb1" "rates_ok pb1"
    using quote_from_run [OF assms(1-3)] by (auto simp: published_def)
  then have "fraction (Some x)"
    using assms(4) token_rates [OF q(2), of "tb_token_id b"] market_rates [OF q(2), of "tm_market_id (tb_metadata b)"]
    by (auto simp: make_quote_fields)
  then show ?thesis by (simp add: fraction_def)
qed

theorem quote_rates_are_fractions_witness:
  "\<exists>q. fst ex_two = [Inr q] \<and> pq_token_quote_complete_rate q = Some (Fin 1)
     \<and> fle fzero (Fin 1) \<and> fle (Fin 1) (Fin 1)"
proof -
  obtain q where q: "quote_of (fst ex_two) = Some q" "pq_token_quote_complete_rate q = Some (Fin 1)"
    using ex_two_quote by auto
  have "Inr q \<in> set (fst ex_one @ fst ex_two)" using quote_ofD [OF q(1)] by simp
  from quote_rates_are_fractions [OF ex_distinct ex_run_two this, of "Fin 1"] q quote_ofD [OF q(1)]
  show ?thesis by simp
qed


text \<open>
  No quote is ever stale: every update stores its own time of reception in the book right
  before the quote compares the two, so with a threshold that is not negative the flag and its
  counter can never be raised.
\<close>

theorem quote_is_never_stale:
  assumes "distinct (map fst md)"
    and "poly_run ops (poly_book_init md sa mode tol path n th) = (rs, pb)"
    and "Inr q \<in> set rs" and "\<not> fless sa fzero"
  shows "\<not> pq_book_stale q"
proof -
  obtain inp b ut pb1 where q: "q = make_quote inp b ut pb1" "pb_stale_after_ms pb1 = sa"
    "tb_last_received_ts b = Some (qin_received inp)"
    using quote_from_run [OF assms(1-3)] by (auto simp: published_def)
  have "ms_of_ns 0 = Fin 0" by code_simp
  then show ?thesis using assms(4) q by (simp add: make_quote_fields is_stale_def)
qed

theorem quote_is_never_stale_witness: "\<exists>q. fst ex_one = [Inr q] \<and> \<not> pq_book_stale q"
proof -
  obtain q where q: "quote_of (fst ex_one) = Some q" using ex_one_quote by auto
  have "Inr q \<in> set (fst ex_one)" using quote_ofD [OF q] by simp
  from quote_is_never_stale [OF ex_distinct ex_run_one this] quote_ofD [OF q] show ?thesis by simp
qed


text \<open>
  A best-bid-ask message without a bid and an ask price erases the incomplete mark that an
  earlier mismatch left, but not the price that the mismatch put in the place of the book's own:
  the quote is complete and carries the outdated bid, with no size.
\<close>

theorem outdated_override_is_quoted_complete:
  assumes "map_of (pb_books pb) t = Some b" and "tb_token_id b = t"
    and "payload = [(''asset_id'', VStr t)]" and "t \<noteq> []"
    and "tb_has_snapshot b" and "tb_bid_override b = Some x"
    and "best_bid_level (tb_bids b) = Some (bid, s)" and "best_ask_level (tb_asks b) = Some (ask, s')"
    and "fless bid ask" and "tm_market_id (tb_metadata b) \<notin> set (pb_market_invalid pb)"
  shows "\<exists>q. fst (apply_best_bid_ask payload inp pb) = Inr q \<and> pq_book_complete q
    \<and> pq_best_bid q = Some x \<and> pq_best_bid_size q = None"
  using assms
  by (simp add: apply_best_bid_ask_def Let_def vget_def val_or_def book_for_def optional_float_def
      apply_reported_best_def publish_def make_quote_fields touch_def structurally_complete_def
      market_is_invalid_def)

theorem outdated_override_is_quoted_complete_witness:
  "\<exists>q. fst (apply_best_bid_ask [(''asset_id'', VStr ''T'')] ex_quote_inputs (snd ex_two)) = Inr q
     \<and> pq_book_complete q \<and> pq_best_bid q = Some (Fin (1 / 4)) \<and> pq_best_bid_size q = None"
proof -
  obtain b where b: "map_of (pb_books (snd ex_two)) ''T'' = Some b" "tb_token_id b = ''T''" "tb_has_snapshot b"
    "tb_bid_override b = Some (Fin (1 / 4))" "best_bid_level (tb_bids b) = Some (Fin (1 / 2), Fin 4)"
    "best_ask_level (tb_asks b) = Some (Fin (3 / 4), Fin 2)" "tm_market_id (tb_metadata b) = ''M''"
    using ex_two_book by auto
  show ?thesis
    by (rule outdated_override_is_quoted_complete [OF b(1,2) refl _ b(3,4,5,6)]) (simp_all add: b(7) ex_valid)
qed

end
