(* ===== verification/MarketState.thy ===== *)
theory MarketState
  imports Events
begin

text \<open>
  \<open>app/state/market_state.py\<close>: the in-memory state of the market. Per symbol it keeps the latest
  prices, the times of the last event, the price history of thirty seconds with the returns and
  the volatility computed from it; per token the last quote; and the markets that a lifecycle
  event has made invalid. The two clocks that \<open>apply\<close> reads are its arguments. \<open>math.sqrt\<close> and
  the square of a float are correctly rounded, \<open>sum\<close> is the compensated sum of Python 3.12.
\<close>

subsection \<open>Arithmetic of the standard library\<close>

fun isqrt_from :: "nat \<Rightarrow> nat \<Rightarrow> nat \<Rightarrow> nat" where
  "isqrt_from 0 n r = r"
| "isqrt_from (Suc k) n r = (let r' = r + 2 ^ k in isqrt_from k n (if r' * r' \<le> n then r' else r))"

fun bit_length :: "nat \<Rightarrow> nat \<Rightarrow> nat" where
  \<comment> \<open>at most the given number of bits\<close>
  "bit_length 0 n = 0"
| "bit_length (Suc k) n = (if n = 0 then 0 else Suc (bit_length k (n div 2)))"

definition isqrt :: "nat \<Rightarrow> nat" where
  "isqrt n = isqrt_from (Suc (bit_length n n div 2)) n 0"

fun fsqrt :: "pyfloat \<Rightarrow> py_error + pyfloat" where
  \<comment> \<open>the integer root of \<open>x * 4 ^ 1200\<close> has far more bits than a float, and one more bit tells
     whether it is exact, so rounding it rounds the root\<close>
  "fsqrt (Fin x) = (if x < 0 then Inl ValueError else
     let n = nat \<lfloor>x * 4 ^ 1200\<rfloor>; r = isqrt n
     in Inr (f64 ((2 * of_nat r + (if r * r = n then 0 else 1)) / 2 ^ 1201)))"
| "fsqrt NInf = Inl ValueError"
| "fsqrt x = Inr x"

fun neumaier :: "pyfloat \<Rightarrow> pyfloat \<Rightarrow> pyfloat list \<Rightarrow> pyfloat" where
  "neumaier s c [] = (case c of Fin x \<Rightarrow> if x = 0 then s else fadd s c | _ \<Rightarrow> s)"
| "neumaier s c (x # xs) =
     (let t = fadd s x;
          d = (if fle (fabs x) (fabs s) then fadd (fsub s t) x else fadd (fsub x t) s)
      in neumaier t (fadd c d) xs)"

definition float_sum :: "pyfloat list \<Rightarrow> pyfloat" where
  \<comment> \<open>\<open>sum\<close> of a list of floats\<close>
  "float_sum xs = (case xs of [] \<Rightarrow> fzero | x # xs \<Rightarrow> neumaier x fzero xs)"

subsection \<open>State\<close>

type_synonym price_history = "(int \<times> pyfloat) list"

record symbol_state =
  ss_symbol :: string
  ss_latest_price :: "pyfloat option"
  ss_best_bid :: "pyfloat option"
  ss_best_bid_size :: "pyfloat option"
  ss_best_ask :: "pyfloat option"
  ss_best_ask_size :: "pyfloat option"
  ss_rolling_returns :: "(string \<times> pyfloat option) list"
  ss_volatility_30s :: "pyfloat option"
  ss_bid_ask_spread :: "pyfloat option"
  ss_last_event_timestamp :: "int option"
  ss_local_receive_timestamp :: "int option"
  ss_parse_done_timestamp :: "int option"
  ss_state_updated_timestamp :: "int option"
  ss_recv_monotonic_ns :: "int option"
  ss_parse_done_monotonic_ns :: "int option"
  ss_state_updated_monotonic_ns :: "int option"
  ss_latency_ms :: "pyfloat option"
  ss_last_depth_update_id :: "int option"
  ss_price_history :: price_history

definition return_windows :: "(string \<times> int) list" where
  "return_windows = [(''1s'', 1), (''5s'', 5), (''15s'', 15), (''30s'', 30)]"

definition max_return_window_ns :: int where
  "max_return_window_ns = 30 * 1000000000"

definition new_symbol_state :: "string \<Rightarrow> symbol_state" where
  "new_symbol_state symbol = \<lparr>ss_symbol = symbol, ss_latest_price = None, ss_best_bid = None,
     ss_best_bid_size = None, ss_best_ask = None, ss_best_ask_size = None,
     ss_rolling_returns = map (\<lambda>(k, _). (k, None)) return_windows, ss_volatility_30s = None,
     ss_bid_ask_spread = None, ss_last_event_timestamp = None, ss_local_receive_timestamp = None,
     ss_parse_done_timestamp = None, ss_state_updated_timestamp = None, ss_recv_monotonic_ns = None,
     ss_parse_done_monotonic_ns = None, ss_state_updated_monotonic_ns = None, ss_latency_ms = None,
     ss_last_depth_update_id = None, ss_price_history = []\<rparr>"

record market_state =
  ms_ticks :: "(string \<times> market_tick) list"
  ms_book_tops :: "(string \<times> order_book_top) list"
  ms_depth_updates :: "(string \<times> depth_update) list"
  ms_polymarket_quotes :: "(string \<times> polymarket_quote) list"
  ms_lifecycle_events :: "market_lifecycle_event list"
  ms_lifecycle_by_market :: "(string \<times> market_lifecycle_event) list"
  ms_market_invalid :: "string list"
  ms_symbols :: "(string \<times> symbol_state) list"
  ms_max_quote_age_ms :: pyfloat

definition market_state_init :: "pyfloat \<Rightarrow> market_state" where
  "market_state_init max_age = \<lparr>ms_ticks = [], ms_book_tops = [], ms_depth_updates = [],
     ms_polymarket_quotes = [], ms_lifecycle_events = [], ms_lifecycle_by_market = [],
     ms_market_invalid = [], ms_symbols = [], ms_max_quote_age_ms = max_age\<rparr>"

datatype market_event = E_tick market_tick | E_top order_book_top | E_depth depth_update
  | E_quote polymarket_quote | E_lifecycle market_lifecycle_event

subsection \<open>Prices, returns and volatility\<close>

definition price_at_or_before :: "price_history \<Rightarrow> int \<Rightarrow> pyfloat option" where
  "price_at_or_before history target =
     (case rev (takeWhile (\<lambda>(ts, _). ts \<le> target) history) of [] \<Rightarrow> None | (_, p) # _ \<Rightarrow> Some p)"

definition window_return :: "price_history \<Rightarrow> int \<Rightarrow> pyfloat \<Rightarrow> int \<Rightarrow> pyfloat option" where
  "window_return history now price window_sec =
     (case price_at_or_before history (now - window_sec * 1000000000) of None \<Rightarrow> None
      | Some baseline \<Rightarrow> if feq baseline fzero then None
          else Some (fsub (fdiv price baseline) (Fin 1)))"

definition recompute_returns :: "int \<Rightarrow> pyfloat \<Rightarrow> symbol_state \<Rightarrow> symbol_state" where
  "recompute_returns now price s = s\<lparr>ss_rolling_returns :=
     fold (\<lambda>(k, w). AList.update k (window_return (ss_price_history s) now price w)) return_windows
       (ss_rolling_returns s)\<rparr>"

fun step_returns :: "pyfloat \<Rightarrow> pyfloat list \<Rightarrow> pyfloat list" where
  "step_returns previous [] = []"
| "step_returns previous (p # ps) =
     (if fless fzero previous then [fsub (fdiv p previous) (Fin 1)] else []) @ step_returns p ps"

definition fsquare :: "pyfloat \<Rightarrow> py_error + pyfloat" where
  \<comment> \<open>\<open>x ** 2\<close> raises when a finite number overflows\<close>
  "fsquare x = (case (x, fmul x x) of (Fin _, PInf) \<Rightarrow> Inl OverflowError | (_, y) \<Rightarrow> Inr y)"

fun square_all :: "pyfloat list \<Rightarrow> py_error + pyfloat list" where
  "square_all [] = Inr []"
| "square_all (x # xs) = (case fsquare x of Inl e \<Rightarrow> Inl e
     | Inr y \<Rightarrow> map_sum id ((#) y) (square_all xs))"

definition volatility :: "pyfloat list \<Rightarrow> py_error + pyfloat" where
  "volatility returns =
     (let n = float_of_int (int (length returns)); mean = fdiv (float_sum returns) n
      in case square_all (map (\<lambda>v. fsub v mean) returns) of Inl e \<Rightarrow> Inl e
         | Inr squares \<Rightarrow> fsqrt (fdiv (float_sum squares) n))"

definition recompute_volatility :: "symbol_state \<Rightarrow> (py_error + unit) \<times> symbol_state" where
  "recompute_volatility s =
     (let keep = (\<lambda>v. (Inr (), s\<lparr>ss_volatility_30s := v\<rparr>)) in
      case map snd (ss_price_history s) of
        p # ps \<Rightarrow>
          (if length ps < 2 \<or> length (step_returns p ps) < 2 then keep None
           else (case volatility (step_returns p ps) of Inl e \<Rightarrow> (Inl e, s) | Inr v \<Rightarrow> keep (Some v)))
      | [] \<Rightarrow> keep None)"

definition append_price :: "int \<Rightarrow> pyfloat \<Rightarrow> symbol_state \<Rightarrow> (py_error + unit) \<times> symbol_state" where
  "append_price timestamp price s =
     (let cutoff = timestamp - max_return_window_ns;
          s1 = s\<lparr>ss_price_history :=
                 dropWhile (\<lambda>(ts, _). ts < cutoff) (ss_price_history s @ [(timestamp, price)])\<rparr>
      in recompute_volatility (recompute_returns timestamp price s1))"

subsection \<open>Applying an event\<close>

definition is_stale_quote :: "polymarket_quote \<Rightarrow> int option \<Rightarrow> int option \<Rightarrow> int \<Rightarrow> market_state \<Rightarrow> bool" where
  \<comment> \<open>the clock is read only when \<open>now_ts\<close> is not given\<close>
  "is_stale_quote q now_ts now_mono clock ms = (case (recv_monotonic_ns q, now_mono) of
     (Some t, Some now) \<Rightarrow> fless (ms_max_quote_age_ms ms) (ms_of_ns (now - t))
   | _ \<Rightarrow> (case or_int (pq_event_ts q) (or_int (pq_received_ts q) (exchange_event_ts q)) of
       None \<Rightarrow> False
     | Some ref \<Rightarrow> fless (ms_max_quote_age_ms ms) (ms_of_ns (int_or now_ts clock - ref))))"

definition with_state_latency :: "int \<Rightarrow> int \<Rightarrow> 'a realtime_event_scheme \<Rightarrow> 'a realtime_event_scheme" where
  "with_state_latency updated_ts updated_mono e =
     e\<lparr>state_updated_ts := Some updated_ts, state_updated_monotonic_ns := Some updated_mono,
       latency_ms := map_option (\<lambda>t. ms_of_ns (updated_mono - t)) (recv_monotonic_ns e)\<rparr>"

definition event_timestamp :: "'a realtime_event_scheme \<Rightarrow> int" where
  "event_timestamp e = int_or (or_int (exchange_event_ts e) (local_received_ts e)) (ts_ns e)"

definition update_common_timestamps :: "'a realtime_event_scheme \<Rightarrow> int \<Rightarrow> symbol_state \<Rightarrow> symbol_state" where
  "update_common_timestamps e updated_ts s = s\<lparr>
     ss_last_event_timestamp := Some (int_or (exchange_event_ts e) (ts_ns e)),
     ss_local_receive_timestamp := local_received_ts e, ss_parse_done_timestamp := parse_done_ts e,
     ss_state_updated_timestamp := Some updated_ts, ss_recv_monotonic_ns := recv_monotonic_ns e,
     ss_parse_done_monotonic_ns := parse_done_monotonic_ns e,
     ss_state_updated_monotonic_ns := state_updated_monotonic_ns e, ss_latency_ms := latency_ms e\<rparr>"

definition symbol_state_of :: "string \<Rightarrow> market_state \<Rightarrow> symbol_state" where
  "symbol_state_of symbol ms = (case map_of (ms_symbols ms) symbol of Some s \<Rightarrow> s
     | None \<Rightarrow> new_symbol_state symbol)"

definition put_symbol :: "string \<Rightarrow> symbol_state \<Rightarrow> market_state \<Rightarrow> market_state" where
  "put_symbol symbol s ms = ms\<lparr>ms_symbols := AList.update symbol s (ms_symbols ms)\<rparr>"

definition reject_quote :: "string \<Rightarrow> polymarket_quote \<Rightarrow> polymarket_quote" where
  "reject_quote reason q = q\<lparr>pq_book_complete := False,
     pq_validation_error := Some (str_or (pq_validation_error q) reason)\<rparr>"

definition check_quote :: "polymarket_quote \<Rightarrow> int \<Rightarrow> int \<Rightarrow> market_state \<Rightarrow> polymarket_quote" where
  \<comment> \<open>quotes of invalid markets and stale quotes are marked incomplete\<close>
  "check_quote q now now_mono ms =
     (let q1 = (if pq_market_id q \<in> set (ms_market_invalid ms) then reject_quote ''market_invalidated'' q else q)
      in if is_stale_quote q1 (Some now) (Some now_mono) now ms
         then (reject_quote ''quote_stale'' q1)\<lparr>pq_book_stale := True\<rparr> else q1)"

definition invalidate_quotes :: "string \<Rightarrow> market_state \<Rightarrow> market_state" where
  "invalidate_quotes market ms = ms\<lparr>ms_polymarket_quotes :=
     map (\<lambda>(t, q). (t, if pq_market_id q \<noteq> market then q else reject_quote ''market_invalidated'' q))
       (ms_polymarket_quotes ms)\<rparr>"

definition apply_event :: "market_event \<Rightarrow> int \<Rightarrow> int \<Rightarrow> market_state \<Rightarrow> (py_error + market_event) \<times> market_state" where
  \<comment> \<open>\<open>MarketState.apply\<close>\<close>
  "apply_event event now now_mono ms = (case event of
     E_tick t0 \<Rightarrow>
       (let t = with_state_latency now now_mono t0; symbol = tick_symbol t;
            ms1 = ms\<lparr>ms_ticks := AList.update symbol t (ms_ticks ms)\<rparr>;
            s = (symbol_state_of symbol ms1)\<lparr>ss_latest_price := Some (tick_price t)\<rparr>
        in case append_price (event_timestamp t) (tick_price t) s of
             (Inl e, s1) \<Rightarrow> (Inl e, put_symbol symbol s1 ms1)
           | (Inr _, s1) \<Rightarrow> (Inr (E_tick t), put_symbol symbol (update_common_timestamps t now s1) ms1))
   | E_top t0 \<Rightarrow>
       (let t = with_state_latency now now_mono t0; symbol = top_symbol t;
            ms1 = ms\<lparr>ms_book_tops := AList.update symbol t (ms_book_tops ms)\<rparr>;
            s = (symbol_state_of symbol ms1)\<lparr>ss_best_bid := Some (top_bid_price t),
                   ss_best_bid_size := Some (top_bid_size t), ss_best_ask := Some (top_ask_price t),
                   ss_best_ask_size := Some (top_ask_size t),
                   ss_bid_ask_spread := Some (pymax fzero (fsub (top_ask_price t) (top_bid_price t)))\<rparr>
        in (Inr (E_top t), put_symbol symbol (update_common_timestamps t now s) ms1))
   | E_depth d0 \<Rightarrow>
       (let d = with_state_latency now now_mono d0; symbol = du_symbol d;
            ms1 = ms\<lparr>ms_depth_updates := AList.update symbol d (ms_depth_updates ms)\<rparr>;
            s = (symbol_state_of symbol ms1)\<lparr>ss_last_depth_update_id := Some (du_final_update_id d)\<rparr>
        in (Inr (E_depth d), put_symbol symbol (update_common_timestamps d now s) ms1))
   | E_quote q0 \<Rightarrow>
       (let q = with_state_latency now now_mono (check_quote q0 now now_mono ms)
        in (Inr (E_quote q),
            ms\<lparr>ms_polymarket_quotes := AList.update (pq_token_id q) q (ms_polymarket_quotes ms)\<rparr>))
   | E_lifecycle l0 \<Rightarrow>
       (let l = with_state_latency now now_mono l0;
            ms1 = ms\<lparr>ms_lifecycle_events := ms_lifecycle_events ms @ [l],
                     ms_lifecycle_by_market := AList.update (ml_market_id l) l (ms_lifecycle_by_market ms)\<rparr>;
            ms2 = (if ml_lifecycle_type l \<in> {MarketResolved, Closed, Expired}
                   then invalidate_quotes (ml_market_id l)
                          (ms1\<lparr>ms_market_invalid := List.insert (ml_market_id l) (ms_market_invalid ms1)\<rparr>)
                   else ms1)
        in (Inr (E_lifecycle l), ms2)))"

definition is_market_invalid :: "string \<Rightarrow> market_state \<Rightarrow> bool" where
  "is_market_invalid market ms \<longleftrightarrow> market \<in> set (ms_market_invalid ms)"

fun apply_events :: "(market_event \<times> int \<times> int) list \<Rightarrow> market_state \<Rightarrow> market_state" where
  "apply_events [] ms = ms"
| "apply_events ((e, now, mn) # es) ms = apply_events es (snd (apply_event e now mn ms))"

lemma apply_events_append: "apply_events (es @ es') ms = apply_events es' (apply_events es ms)"
  by (induction es ms rule: apply_events.induct) simp_all

subsection \<open>Invalid markets\<close>

definition quotes_ok :: "market_state \<Rightarrow> bool" where
  "quotes_ok ms \<longleftrightarrow> (\<forall>t q. map_of (ms_polymarket_quotes ms) t = Some q \<longrightarrow> pq_token_id q = t
     \<and> (pq_market_id q \<in> set (ms_market_invalid ms) \<longrightarrow> \<not> pq_book_complete q \<and> pq_validation_error q \<noteq> None))"

lemma latency_fields [simp]:
  "pq_token_id (with_state_latency a b q) = pq_token_id q"
  "pq_market_id (with_state_latency a b q) = pq_market_id q"
  "pq_book_complete (with_state_latency a b q) = pq_book_complete q"
  "pq_validation_error (with_state_latency a b q) = pq_validation_error q"
  "event_timestamp (with_state_latency a b e) = event_timestamp e"
  by (simp_all add: with_state_latency_def event_timestamp_def)

lemma reject_fields [simp]:
  "pq_token_id (reject_quote r q) = pq_token_id q" "pq_market_id (reject_quote r q) = pq_market_id q"
  "\<not> pq_book_complete (reject_quote r q)" "\<exists>y. pq_validation_error (reject_quote r q) = Some y"
  by (simp_all add: reject_quote_def)

lemma check_quote_fields:
  "pq_token_id (check_quote q now mn ms) = pq_token_id q"
  "pq_market_id (check_quote q now mn ms) = pq_market_id q"
  "pq_market_id q \<in> set (ms_market_invalid ms) \<Longrightarrow> \<not> pq_book_complete (check_quote q now mn ms)
     \<and> (\<exists>y. pq_validation_error (check_quote q now mn ms) = Some y)"
  by (simp_all add: check_quote_def Let_def)

lemma quotes_ok_frame:
  "ms_polymarket_quotes ms' = ms_polymarket_quotes ms \<Longrightarrow> ms_market_invalid ms' = ms_market_invalid ms
     \<Longrightarrow> quotes_ok ms \<Longrightarrow> quotes_ok ms'"
  by (simp add: quotes_ok_def)

lemma map_of_map_values: "map_of (map (\<lambda>(t, q). (t, f q)) d) t = map_option f (map_of d t)"
  by (induction d) auto

lemma apply_event_quotes_ok:
  assumes "quotes_ok ms"
  shows "quotes_ok (snd (apply_event e now mn ms))
    \<and> set (ms_market_invalid ms) \<subseteq> set (ms_market_invalid (snd (apply_event e now mn ms)))"
proof (cases e)
  case (E_tick t)
  then show ?thesis using assms
    by (auto simp: apply_event_def Let_def put_symbol_def split: prod.splits sum.splits intro: quotes_ok_frame)
next
  case (E_top t)
  then show ?thesis using assms by (auto simp: apply_event_def Let_def put_symbol_def intro: quotes_ok_frame)
next
  case (E_depth t)
  then show ?thesis using assms by (auto simp: apply_event_def Let_def put_symbol_def intro: quotes_ok_frame)
next
  case (E_quote q)
  then show ?thesis using assms
    by (auto simp: apply_event_def Let_def quotes_ok_def check_quote_fields)
next
  case (E_lifecycle l)
  define m where "m = ml_market_id l"
  have "ml_market_id (with_state_latency now mn l) = m" "ml_lifecycle_type (with_state_latency now mn l) = ml_lifecycle_type l"
    by (simp_all add: m_def with_state_latency_def)
  moreover have "quotes_ok (invalidate_quotes m (ms'\<lparr>ms_market_invalid := List.insert m (ms_market_invalid ms)\<rparr>))"
    if eq: "ms_polymarket_quotes ms' = ms_polymarket_quotes ms" for ms'
    unfolding quotes_ok_def
  proof (intro allI impI)
    fix t q
    let ?ms = "invalidate_quotes m (ms'\<lparr>ms_market_invalid := List.insert m (ms_market_invalid ms)\<rparr>)"
    assume "map_of (ms_polymarket_quotes ?ms) t = Some q"
    then obtain q0 where q0: "map_of (ms_polymarket_quotes ms) t = Some q0"
      "q = (if pq_market_id q0 \<noteq> m then q0 else reject_quote ''market_invalidated'' q0)"
      using eq by (auto simp: invalidate_quotes_def map_of_map_values)
    then show "pq_token_id q = t \<and> (pq_market_id q \<in> set (ms_market_invalid ?ms)
        \<longrightarrow> \<not> pq_book_complete q \<and> pq_validation_error q \<noteq> None)"
      using assms by (cases "pq_market_id q0 = m") (auto simp: quotes_ok_def invalidate_quotes_def)
  qed
  ultimately show ?thesis using E_lifecycle assms
    by (auto simp: apply_event_def Let_def invalidate_quotes_def intro: quotes_ok_frame)
qed

lemma apply_events_quotes_ok: "quotes_ok ms \<Longrightarrow> quotes_ok (apply_events es ms)"
  by (induction es ms rule: apply_events.induct) (simp_all add: apply_event_quotes_ok)

definition market_ending :: "market_lifecycle_event \<Rightarrow> bool" where
  \<comment> \<open>the lifecycle types that end a market\<close>
  "market_ending l \<longleftrightarrow> ml_lifecycle_type l = MarketResolved \<or> ml_lifecycle_type l = Closed \<or> ml_lifecycle_type l = Expired"

lemma apply_ending_invalidates:
  "market_ending l \<Longrightarrow> ml_market_id l \<in> set (ms_market_invalid (snd (apply_event (E_lifecycle l) now mn ms)))"
  by (auto simp: apply_event_def Let_def market_ending_def with_state_latency_def invalidate_quotes_def)

lemma apply_events_invalid_mono:
  "quotes_ok ms \<Longrightarrow> set (ms_market_invalid ms) \<subseteq> set (ms_market_invalid (apply_events es ms))"
  by (induction es ms rule: apply_events.induct) (use apply_event_quotes_ok in fastforce)+

lemma quotes_ok_init: "quotes_ok (market_state_init max_age)"
  by (simp add: quotes_ok_def market_state_init_def)

lemma ended_market_stays_invalid:
  assumes "(E_lifecycle l, now, mn) \<in> set es" and "market_ending l" and "quotes_ok ms"
  shows "ml_market_id l \<in> set (ms_market_invalid (apply_events es ms))"
proof -
  obtain es1 es2 where es: "es = es1 @ (E_lifecycle l, now, mn) # es2"
    using split_list [OF assms(1)] by blast
  let ?ms = "snd (apply_event (E_lifecycle l) now mn (apply_events es1 ms))"
  have "quotes_ok ?ms" using apply_event_quotes_ok [OF apply_events_quotes_ok [OF assms(3)]] by blast
  from apply_events_invalid_mono [OF this, of es2] apply_ending_invalidates [OF assms(2)]
  show ?thesis by (auto simp: es apply_events_append)
qed

text \<open>
  C23: once an event has said that a market is resolved, closed or expired, the market state never
  holds a complete quote of it, whatever events came before and come after, in whatever order: a
  quote stored before the end is marked incomplete, one that arrives later is never taken as
  complete, and both carry an error. Each quote is kept under its own token.
\<close>

theorem ended_market_has_no_complete_quote:
  assumes "(E_lifecycle l, now, now_mono) \<in> set es"
    and "ml_lifecycle_type l \<in> {MarketResolved, Closed, Expired}"
    and "map_of (ms_polymarket_quotes (apply_events es (market_state_init max_age))) t = Some q"
    and "pq_market_id q = ml_market_id l"
  shows "\<not> pq_book_complete q \<and> pq_validation_error q \<noteq> None \<and> pq_token_id q = t"
proof -
  have "market_ending l" using assms(2) by (auto simp: market_ending_def)
  from ended_market_stays_invalid [OF assms(1) this quotes_ok_init] assms(3,4)
    apply_events_quotes_ok [OF quotes_ok_init, of es max_age]
  show ?thesis by (simp add: quotes_ok_def)
qed

definition ex_quote :: polymarket_quote where
  "ex_quote = \<lparr>event_id = ''q'', ts_ns = 1, exchange_event_ts = None, local_received_ts = None,
     parse_done_ts = None, state_updated_ts = None, recv_monotonic_ns = Some 1, parse_done_monotonic_ns = None,
     state_updated_monotonic_ns = None, socket_recv_monotonic_ns = None, raw_ws_callback_monotonic_ns = None,
     ws_message_received_monotonic_ns = None, message_dispatch_start_monotonic_ns = None,
     parse_start_monotonic_ns = None, parse_end_monotonic_ns = None, latency_ms = None,
     exchange_ts_ns = None, sequence_no = None, pq_market_id = ''m'', pq_condition_id = None,
     pq_token_id = ''up'', pq_side_label = L_UP, pq_best_bid = Some (Fin (1 / 4)),
     pq_best_bid_size = Some (Fin 8), pq_best_ask = Some (Fin (1 / 2)), pq_best_ask_size = Some (Fin 8),
     pq_mid_price = Some (Fin (3 / 8)), pq_spread = Some (Fin (1 / 4)), pq_event_ts = None,
     pq_received_ts = Some 1, pq_book_complete = True, pq_book_stale = False, pq_book_hash = None,
     pq_validation_error = None, pq_book_update_type = Some BookSnapshot, pq_book_has_snapshot = True,
     pq_book_structurally_complete = True, pq_reported_best_validation_ok = True,
     pq_validation_mode = Some Strict, pq_validation_tolerance_ticks = Some 1,
     pq_market_mismatch_rate = None, pq_token_mismatch_rate = None,
     pq_market_quote_complete_rate = None, pq_token_quote_complete_rate = None\<rparr>"

definition ex_closing :: market_lifecycle_event where
  "ex_closing = \<lparr>event_id = ''l'', ts_ns = 2, exchange_event_ts = None, local_received_ts = None,
     parse_done_ts = None, state_updated_ts = None, recv_monotonic_ns = Some 2, parse_done_monotonic_ns = None,
     state_updated_monotonic_ns = None, socket_recv_monotonic_ns = None, raw_ws_callback_monotonic_ns = None,
     ws_message_received_monotonic_ns = None, message_dispatch_start_monotonic_ns = None,
     parse_start_monotonic_ns = None, parse_end_monotonic_ns = None, latency_ms = None,
     exchange_ts_ns = None, sequence_no = None, ml_market_id = ''m'', ml_token_id = None,
     ml_lifecycle_type = Closed, ml_old_tick_size = None, ml_new_tick_size = None, ml_raw_metadata = [],
     ml_event_ts = None, ml_received_ts = Some 2\<rparr>"

theorem ended_market_has_no_complete_quote_witness:
  "\<exists>up down. map (\<lambda>t. map_of (ms_polymarket_quotes (apply_events [(E_quote ex_quote, 1, 1),
          (E_lifecycle (ex_closing\<lparr>ml_lifecycle_type := Expired\<rparr>), 2, 2),
          (E_quote (ex_quote\<lparr>pq_token_id := ''down''\<rparr>), 3, 3)] (market_state_init (Fin 5000)))) t)
        [''up'', ''down''] = [Some up, Some down]
      \<and> \<not> pq_book_complete up \<and> pq_validation_error up \<noteq> None
      \<and> \<not> pq_book_complete down \<and> pq_validation_error down \<noteq> None"
proof -
  let ?l = "ex_closing\<lparr>ml_lifecycle_type := Expired\<rparr>"
  let ?es = "[(E_quote ex_quote, 1, 1), (E_lifecycle ?l, 2, 2), (E_quote (ex_quote\<lparr>pq_token_id := ''down''\<rparr>), 3, 3)]"
  let ?qs = "ms_polymarket_quotes (apply_events ?es (market_state_init (Fin 5000)))"
  have "map (\<lambda>t. map_option pq_market_id (map_of ?qs t)) [''up'', ''down''] = [Some ''m'', Some ''m'']" by code_simp
  then obtain up down where q: "map_of ?qs ''up'' = Some up" "pq_market_id up = ''m''"
    "map_of ?qs ''down'' = Some down" "pq_market_id down = ''m''" by auto
  have l: "(E_lifecycle ?l, 2, 2) \<in> set ?es" "ml_lifecycle_type ?l \<in> {MarketResolved, Closed, Expired}"
    "ml_market_id ?l = ''m''" by (simp_all add: ex_closing_def)
  show ?thesis
    using ended_market_has_no_complete_quote [OF l(1,2) q(1)] ended_market_has_no_complete_quote [OF l(1,2) q(3)] q l(3)
    by simp
qed

subsection \<open>Rolling returns\<close>

text \<open>
  The reference: over the whole sequence of ticks of the symbol, the price of the last tick that
  is at least the window old, unless that tick is older than thirty seconds.
\<close>

definition reference_return :: "price_history \<Rightarrow> int \<Rightarrow> pyfloat \<Rightarrow> int \<Rightarrow> pyfloat option" where
  "reference_return ticks now price window_sec =
     (case rev [(t, p) \<leftarrow> ticks. now - max_return_window_ns \<le> t \<and> t \<le> now - window_sec * 1000000000] of
        [] \<Rightarrow> None
      | (_, baseline) # _ \<Rightarrow> if feq baseline fzero then None else Some (fsub (fdiv price baseline) (Fin 1)))"

fun ticks_of :: "string \<Rightarrow> (market_event \<times> int \<times> int) list \<Rightarrow> price_history" where
  "ticks_of symbol [] = []"
| "ticks_of symbol ((E_tick t, _, _) # es) =
     (if tick_symbol t = symbol then [(event_timestamp t, tick_price t)] else []) @ ticks_of symbol es"
| "ticks_of symbol (_ # es) = ticks_of symbol es"

lemma ticks_of_append: "ticks_of symbol (es @ es') = ticks_of symbol es @ ticks_of symbol es'"
  by (induction symbol es rule: ticks_of.induct) simp_all

lemma drop_take_filter:
  assumes "sorted (map fst (h :: price_history))"
  shows "dropWhile (\<lambda>(ts, _). ts < c) h = [(t, p) \<leftarrow> h. c \<le> t]"
    and "takeWhile (\<lambda>(ts, _). ts \<le> c) h = [(t, p) \<leftarrow> h. t \<le> c]"
proof -
  show "dropWhile (\<lambda>(ts, _). ts < c) h = [(t, p) \<leftarrow> h. c \<le> t]"
    using assms
  proof (induction h)
    case (Cons x h)
    have "[(t, p) \<leftarrow> h. c \<le> t] = h" if "c \<le> fst x" using that Cons.prems by (induction h) auto
    then show ?case using Cons by (cases x) auto
  qed simp
  show "takeWhile (\<lambda>(ts, _). ts \<le> c) h = [(t, p) \<leftarrow> h. t \<le> c]"
    using assms
  proof (induction h)
    case (Cons x h)
    have "[(t, p) \<leftarrow> h. t \<le> c] = []" if "c < fst x" using that Cons.prems by (induction h) auto
    then show ?case using Cons by (cases x) auto
  qed simp
qed

definition tracks :: "price_history \<Rightarrow> symbol_state \<Rightarrow> bool" where
  \<comment> \<open>the state of a symbol after the ticks\<close>
  "tracks ticks s \<longleftrightarrow> (case rev ticks of [] \<Rightarrow> ss_price_history s = []
     | (now, price) # _ \<Rightarrow> ss_price_history s = [(t, p) \<leftarrow> ticks. now - max_return_window_ns \<le> t]
         \<and> (\<forall>(k, w)\<in>set return_windows. map_of (ss_rolling_returns s) k = Some (reference_return ticks now price w)))"

lemma recompute_volatility_frame [simp]:
  "ss_price_history (snd (recompute_volatility s)) = ss_price_history s"
  "ss_rolling_returns (snd (recompute_volatility s)) = ss_rolling_returns s"
  by (auto simp: recompute_volatility_def Let_def split: list.splits sum.splits)

lemma recompute_returns_eq:
  "ss_price_history (recompute_returns now price s) = ss_price_history s"
  "(k, w) \<in> set return_windows \<Longrightarrow> map_of (ss_rolling_returns (recompute_returns now price s)) k
     = Some (window_return (ss_price_history s) now price w)"
  by (auto simp: recompute_returns_def return_windows_def)

lemma append_price_tracks:
  assumes "tracks ticks s" and "sorted (map fst (ticks @ [(now, price)]))"
  shows "tracks (ticks @ [(now, price)]) (snd (append_price now price s))"
proof -
  define h where "h = ss_price_history s"
  define c where "c = now - max_return_window_ns"
  define all where "all = ticks @ [(now, price)]"
  have before: "[(t, p) \<leftarrow> h. c \<le> t] = [(t, p) \<leftarrow> ticks. c \<le> t]" "sorted (map fst (h @ [(now, price)]))"
  proof -
    obtain c' where c': "h = [(t, p) \<leftarrow> ticks. c' \<le> t]" "ticks = [] \<or> c' \<le> c"
    proof (cases "rev ticks")
      case Nil
      then show ?thesis using assms(1) that [of c] by (simp add: tracks_def h_def)
    next
      case (Cons x r)
      then have "fst x \<le> now" using assms(2) by (cases ticks rule: rev_cases) (auto simp: sorted_append)
      then show ?thesis using assms(1) that [of "fst x - max_return_window_ns"] Cons
        by (cases x) (simp add: tracks_def h_def c_def)
    qed
    show "[(t, p) \<leftarrow> h. c \<le> t] = [(t, p) \<leftarrow> ticks. c \<le> t]"
      using c'(2) by (auto simp: c'(1) intro!: filter_cong)
    have "sorted (map fst h)" "\<forall>x\<in>set h. fst x \<le> now"
      using assms(2) by (auto simp: c'(1) sorted_append intro: sorted_filter)
    then show "sorted (map fst (h @ [(now, price)]))" by (simp add: sorted_append)
  qed
  have h1: "dropWhile (\<lambda>(ts, _). ts < c) (h @ [(now, price)]) = [(t, p) \<leftarrow> all. c \<le> t]"
    unfolding drop_take_filter(1) [OF before(2)] by (simp add: before(1) all_def)
  define s1 where "s1 = s\<lparr>ss_price_history := dropWhile (\<lambda>(ts, _). ts < c) (h @ [(now, price)])\<rparr>"
  have a: "snd (append_price now price s) = snd (recompute_volatility (recompute_returns now price s1))"
    by (simp add: append_price_def Let_def s1_def c_def h_def)
  have hist: "ss_price_history s1 = [(t, p) \<leftarrow> all. now - max_return_window_ns \<le> t]"
    unfolding s1_def c_def [symmetric] by (simp add: h1)
  have "window_return (ss_price_history s1) now price w = reference_return all now price w" for w
  proof -
    have "sorted (map fst [(t, p) \<leftarrow> all. now - max_return_window_ns \<le> t])"
      using assms(2) unfolding all_def [symmetric] by (rule sorted_filter)
    from drop_take_filter(2) [OF this] have "takeWhile (\<lambda>(ts, _). ts \<le> now - w * 1000000000) (ss_price_history s1)
        = [(t, p) \<leftarrow> all. now - max_return_window_ns \<le> t \<and> t \<le> now - w * 1000000000]"
      by (simp add: hist case_prod_unfold)
    then show ?thesis
      by (simp add: window_return_def reference_return_def price_at_or_before_def split: list.split)
  qed
  then have "\<forall>(k, w)\<in>set return_windows.
      map_of (ss_rolling_returns (recompute_returns now price s1)) k = Some (reference_return all now price w)"
    by (auto simp: recompute_returns_eq)
  moreover have "rev all = (now, price) # rev ticks" by (simp add: all_def)
  ultimately show ?thesis unfolding tracks_def a all_def [symmetric]
    by (simp add: recompute_returns_eq hist)
qed

lemma tracks_frame:
  "ss_price_history s' = ss_price_history s \<Longrightarrow> ss_rolling_returns s' = ss_rolling_returns s
     \<Longrightarrow> tracks ticks s \<Longrightarrow> tracks ticks s'"
  by (simp add: tracks_def split: list.splits prod.splits)

lemma update_common_frame [simp]:
  "ss_price_history (update_common_timestamps e ts s) = ss_price_history s"
  "ss_rolling_returns (update_common_timestamps e ts s) = ss_rolling_returns s"
  by (simp_all add: update_common_timestamps_def)

lemma tick_latency [simp]:
  "tick_symbol (with_state_latency a b t) = tick_symbol t" "tick_price (with_state_latency a b t) = tick_price t"
  by (simp_all add: with_state_latency_def)

definition symbol_tracks :: "string \<Rightarrow> price_history \<Rightarrow> market_state \<Rightarrow> bool" where
  "symbol_tracks symbol ticks ms \<longleftrightarrow> tracks ticks (symbol_state_of symbol ms)"

lemma symbol_state_of_put [simp]:
  "symbol_state_of symbol (put_symbol symbol' s ms) = (if symbol = symbol' then s else symbol_state_of symbol ms)"
  by (simp add: symbol_state_of_def put_symbol_def)

lemma symbol_state_of_frame: "ms_symbols ms' = ms_symbols ms \<Longrightarrow> symbol_state_of symbol ms' = symbol_state_of symbol ms"
  by (simp add: symbol_state_of_def)

lemma symbol_tracks_frame:
  "ms_symbols ms' = ms_symbols ms \<Longrightarrow> symbol_tracks symbol ticks ms \<Longrightarrow> symbol_tracks symbol ticks ms'"
  by (simp add: symbol_tracks_def symbol_state_of_def)

lemma put_symbol_tracks:
  assumes "ms_symbols ms1 = ms_symbols ms"
    and "ss_price_history s = ss_price_history (symbol_state_of symbol' ms)"
    and "ss_rolling_returns s = ss_rolling_returns (symbol_state_of symbol' ms)"
    and "symbol_tracks symbol ticks ms"
  shows "symbol_tracks symbol ticks (put_symbol symbol' s ms1)"
  using assms(4) tracks_frame [OF assms(2,3), of ticks] symbol_state_of_frame [OF assms(1)]
  by (cases "symbol = symbol'") (simp_all add: symbol_tracks_def)

lemma apply_event_tracks:
  assumes "symbol_tracks symbol ticks ms" and "sorted (map fst (ticks @ ticks_of symbol [(e, now, mn)]))"
  shows "symbol_tracks symbol (ticks @ ticks_of symbol [(e, now, mn)]) (snd (apply_event e now mn ms))"
proof (cases e)
  case (E_tick t0)
  define t where "t = with_state_latency now mn t0"
  define ms1 where "ms1 = ms\<lparr>ms_ticks := AList.update (tick_symbol t) t (ms_ticks ms)\<rparr>"
  define s where "s = (symbol_state_of (tick_symbol t) ms1)\<lparr>ss_latest_price := Some (tick_price t)\<rparr>"
  obtain r s1 where a: "append_price (event_timestamp t) (tick_price t) s = (r, s1)" by fastforce
  obtain s2 where s2: "snd (apply_event e now mn ms) = put_symbol (tick_symbol t) s2 ms1"
    "ss_price_history s2 = ss_price_history s1" "ss_rolling_returns s2 = ss_rolling_returns s1"
    using a unfolding E_tick apply_event_def market_event.case Let_def t_def [symmetric] ms1_def [symmetric] s_def [symmetric]
    by (cases r) simp_all
  have same: "symbol_state_of symbol ms1 = symbol_state_of symbol ms" by (simp add: ms1_def symbol_state_of_def)
  show ?thesis
  proof (cases "tick_symbol t0 = symbol")
    case True
    have "tracks ticks s" using assms(1) True same
      by (auto simp: s_def symbol_tracks_def t_def intro: tracks_frame)
    from append_price_tracks [OF this, of "event_timestamp t" "tick_price t"] assms(2) a
    have "tracks (ticks @ [(event_timestamp t0, tick_price t0)]) s1" by (simp add: E_tick True t_def)
    then have "tracks (ticks @ [(event_timestamp t0, tick_price t0)]) s2" by (rule tracks_frame [OF s2(2,3)])
    then show ?thesis using s2(1) by (simp add: symbol_tracks_def E_tick True t_def)
  next
    case False
    then show ?thesis using assms(1) same s2(1) by (simp add: symbol_tracks_def E_tick t_def)
  qed
next
  case (E_top t)
  have "symbol_tracks symbol ticks (snd (apply_event (E_top t) now mn ms))"
    unfolding apply_event_def market_event.case Let_def snd_conv
    by (rule put_symbol_tracks [OF _ _ _ assms(1)]) (simp_all add: symbol_state_of_def)
  then show ?thesis by (simp add: E_top)
next
  case (E_depth t)
  have "symbol_tracks symbol ticks (snd (apply_event (E_depth t) now mn ms))"
    unfolding apply_event_def market_event.case Let_def snd_conv
    by (rule put_symbol_tracks [OF _ _ _ assms(1)]) (simp_all add: symbol_state_of_def)
  then show ?thesis by (simp add: E_depth)
next
  case (E_quote q)
  have "ms_symbols (snd (apply_event (E_quote q) now mn ms)) = ms_symbols ms"
    unfolding apply_event_def market_event.case Let_def snd_conv by simp
  from symbol_tracks_frame [OF this assms(1)] show ?thesis by (simp add: E_quote)
next
  case (E_lifecycle l)
  have inv: "ms_symbols (invalidate_quotes m ms') = ms_symbols ms'" for m ms' by (simp add: invalidate_quotes_def)
  have "ms_symbols (snd (apply_event (E_lifecycle l) now mn ms)) = ms_symbols ms"
    unfolding apply_event_def market_event.case Let_def snd_conv if_distrib [of ms_symbols] inv by simp
  from symbol_tracks_frame [OF this assms(1)] show ?thesis by (simp add: E_lifecycle)
qed

lemma ticks_of_Cons: "ticks_of symbol ((e, now, mn) # es) = ticks_of symbol [(e, now, mn)] @ ticks_of symbol es"
  by (cases e) simp_all

lemma apply_events_tracks:
  "symbol_tracks symbol ticks ms \<Longrightarrow> sorted (map fst (ticks @ ticks_of symbol es))
     \<Longrightarrow> symbol_tracks symbol (ticks @ ticks_of symbol es) (apply_events es ms)"
proof (induction es ms arbitrary: ticks rule: apply_events.induct)
  case (2 e now mn es ms)
  define new where "new = ticks_of symbol [(e, now, mn)]"
  have split: "ticks_of symbol ((e, now, mn) # es) = new @ ticks_of symbol es"
    unfolding new_def by (rule ticks_of_Cons)
  have "sorted (map fst (ticks @ new))" using 2(3) by (simp add: split sorted_append)
  then have "symbol_tracks symbol (ticks @ new) (snd (apply_event e now mn ms))"
    using apply_event_tracks [OF 2(2), of e now mn] by (simp add: new_def)
  from 2(1) [OF this] 2(3) show ?case by (simp add: split)
qed simp

lemma returns_reference:
  assumes "sorted (map fst (ticks_of symbol es))" and "ticks_of symbol es = older @ [(now, price)]"
    and "map_of (ms_symbols (apply_events es (market_state_init max_age))) symbol = Some s"
    and "(key, window_sec) \<in> set return_windows"
  shows "map_of (ss_rolling_returns s) key = Some (reference_return (older @ [(now, price)]) now price window_sec)"
proof -
  have "symbol_tracks symbol [] (market_state_init max_age)"
    by (simp add: symbol_tracks_def symbol_state_of_def market_state_init_def new_symbol_state_def tracks_def)
  from apply_events_tracks [OF this, of es] assms(1,3) have "tracks (ticks_of symbol es) s"
    by (simp add: symbol_tracks_def symbol_state_of_def)
  then show ?thesis using assms(2,4) by (auto simp: tracks_def)
qed

text \<open>
  C24: the incremental returns are those of a reference that sees the whole tick history: when the
  ticks of a symbol arrive in the order of their times, the return of each window compares the last
  price with the price of the last tick at least that old, if that tick is at most thirty seconds
  old, whatever other events come in between.
\<close>

theorem rolling_returns_match_reference:
  assumes "sorted (map fst (ticks_of symbol es))" and "ticks_of symbol es = older @ [(now, price)]"
    and "map_of (ms_symbols (apply_events es (market_state_init max_age))) symbol = Some s"
    and "(key, window_sec) \<in> set return_windows"
  shows "map_of (ss_rolling_returns s) key = Some (reference_return (ticks_of symbol es) now price window_sec)"
  using returns_reference [OF assms] assms(2) by simp

definition ex_tick :: "int \<Rightarrow> rat \<Rightarrow> market_event \<times> int \<times> int" where
  "ex_tick ts price = (E_tick \<lparr>event_id = ''t'', ts_ns = ts, exchange_event_ts = None, local_received_ts = None,
     parse_done_ts = None, state_updated_ts = None, recv_monotonic_ns = None, parse_done_monotonic_ns = None,
     state_updated_monotonic_ns = None, socket_recv_monotonic_ns = None, raw_ws_callback_monotonic_ns = None,
     ws_message_received_monotonic_ns = None, message_dispatch_start_monotonic_ns = None,
     parse_start_monotonic_ns = None, parse_end_monotonic_ns = None, latency_ms = None,
     exchange_ts_ns = None, sequence_no = None, tick_source = Binance, tick_symbol = ''BTCUSDT'',
     tick_price = Fin price, tick_qty = Fin 1\<rparr>, ts, ts)"

definition ex_ticks :: "(market_event \<times> int \<times> int) list" where
  "ex_ticks = [ex_tick 5 64, (E_quote ex_quote, 7, 7), ex_tick 1000000005 65]"

lemma ex_ticks_history: "ticks_of ''BTCUSDT'' ex_ticks = [(5, Fin 64)] @ [(1000000005, Fin 65)]"
  by code_simp

lemma ex_ticks_state:
  "\<exists>s. map_of (ms_symbols (apply_events ex_ticks (market_state_init (Fin 5000)))) ''BTCUSDT'' = Some s"
proof -
  have "map_option (\<lambda>_. True) (map_of (ms_symbols (apply_events ex_ticks (market_state_init (Fin 5000)))) ''BTCUSDT'')
      = Some True" by code_simp
  then show ?thesis by auto
qed

theorem rolling_returns_match_reference_witness:
  "\<exists>s. map_of (ms_symbols (apply_events ex_ticks (market_state_init (Fin 5000)))) ''BTCUSDT'' = Some s
     \<and> map_of (ss_rolling_returns s) ''1s'' = Some (Some (Fin (1 / 64)))"
proof -
  obtain s where s: "map_of (ms_symbols (apply_events ex_ticks (market_state_init (Fin 5000)))) ''BTCUSDT'' = Some s"
    using ex_ticks_state by auto
  have "reference_return (ticks_of ''BTCUSDT'' ex_ticks) 1000000005 (Fin 65) 1 = Some (Fin (1 / 64))" by code_simp
  with rolling_returns_match_reference [OF _ ex_ticks_history s, of "''1s''" 1] s show ?thesis
    by (simp add: ex_ticks_history return_windows_def)
qed

text \<open>
  The thirty-second return is lost: the history keeps only ticks of the last thirty seconds and
  the return wants a tick at least thirty seconds old, so it is missing unless some tick is exactly
  thirty seconds old, to the nanosecond.
\<close>

theorem thirty_second_return_is_missing:
  assumes "sorted (map fst (ticks_of symbol es))" and "ticks_of symbol es = older @ [(now, price)]"
    and "map_of (ms_symbols (apply_events es (market_state_init max_age))) symbol = Some s"
    and "now - 30000000000 \<notin> fst ` set (ticks_of symbol es)"
  shows "map_of (ss_rolling_returns s) ''30s'' = Some None"
proof -
  have "[(t, p) \<leftarrow> older @ [(now, price)]. now - max_return_window_ns \<le> t \<and> t \<le> now - 30 * 1000000000] = []"
    using assms(2,4) by (force simp: max_return_window_ns_def filter_empty_conv)
  then show ?thesis
    using returns_reference [OF assms(1-3), of "''30s''" 30] by (simp add: return_windows_def reference_return_def)
qed

theorem thirty_second_return_is_missing_witness:
  "\<exists>s. map_of (ms_symbols (apply_events ex_ticks (market_state_init (Fin 5000)))) ''BTCUSDT'' = Some s
     \<and> map_of (ss_rolling_returns s) ''30s'' = Some None"
proof -
  obtain s where s: "map_of (ms_symbols (apply_events ex_ticks (market_state_init (Fin 5000)))) ''BTCUSDT'' = Some s"
    using ex_ticks_state by auto
  from thirty_second_return_is_missing [OF _ ex_ticks_history this] this show ?thesis
    by (simp add: ex_ticks_history)
qed

end
