(* ===== verification/IsoTime.thy ===== *)
theory IsoTime
  imports PyVal
begin

text \<open>
  Reading a time of the market data: \<open>_parse_datetime\<close> and \<open>_unix_seconds\<close> of
  \<open>app/marketdata/polymarket_discovery.py\<close>, with the part of the standard library they call.
  \<open>datetime.fromisoformat\<close> is modelled after CPython's implementation: calendar and week dates,
  with or without dashes, any separator before the time, a fraction after hours, minutes or
  seconds, an offset, and the one stray character it tolerates before an offset. An instant is a
  number of microseconds since 1970. A time whose instant in UTC lies outside the years 1 to 9999
  (where \<open>astimezone\<close> overflows) is outside the model.
\<close>

subsection \<open>Dates\<close>

definition take_digits :: "nat \<Rightarrow> string \<Rightarrow> (int \<times> string) option" where
  "take_digits n s = (if n \<le> length s \<and> list_all is_digit (take n s)
     then Some (digits_val (take n s), drop n s) else None)"

definition leap_year :: "int \<Rightarrow> bool" where
  "leap_year y \<longleftrightarrow> 4 dvd y \<and> (\<not> 100 dvd y \<or> 400 dvd y)"

definition days_before_year :: "int \<Rightarrow> int" where
  "days_before_year y = (y - 1) * 365 + (y - 1) div 4 - (y - 1) div 100 + (y - 1) div 400"

definition month_days :: "int \<Rightarrow> int list" where
  "month_days y = [31, if leap_year y then 29 else 28, 31, 30, 31, 30, 31, 31, 30, 31, 30, 31]"

definition day_ordinal :: "int \<Rightarrow> int \<Rightarrow> int \<Rightarrow> int option" where
  \<comment> \<open>the proleptic Gregorian ordinal, 1 for the first day of year 1\<close>
  "day_ordinal y m d = (if 1 \<le> y \<and> y \<le> 9999 \<and> 1 \<le> m \<and> m \<le> 12
        \<and> 1 \<le> d \<and> d \<le> month_days y ! nat (m - 1)
     then Some (days_before_year y + sum_list (take (nat (m - 1)) (month_days y)) + d) else None)"

definition week_ordinal :: "int \<Rightarrow> int \<Rightarrow> int \<Rightarrow> int option" where
  "week_ordinal y w d =
     (let first = days_before_year y + 1; weekday = (first + 6) mod 7;
          long_year = (first mod 7 = 4 \<or> first mod 7 = 3 \<and> leap_year y);
          day = first - weekday + (if weekday > 3 then 7 else 0) + (w - 1) * 7 + d - 1
      in if 1 \<le> y \<and> y \<le> 9999 \<and> 1 \<le> w \<and> (w \<le> 52 \<or> w = 53 \<and> long_year) \<and> 1 \<le> d \<and> d \<le> 7
            \<and> 1 \<le> day \<and> day \<le> 3652059
         then Some day else None)"

definition date_length :: "string \<Rightarrow> nat option" where
  \<comment> \<open>where the date ends, for a text of at least seven characters\<close>
  "date_length s =
     (let n = length s; digit_at = (\<lambda>k. k < n \<and> is_digit (s ! k)); dash_at = (\<lambda>k. k < n \<and> s ! k = CHR ''-'')
      in if n = 7 then Some 7
         else if dash_at 4 then
           (if s ! 5 = CHR ''W'' then
              (if dash_at 8 then (if n = 9 then None else if digit_at 10 then Some 8 else Some 10)
               else Some 8)
            else Some 10)
         else if s ! 4 = CHR ''W'' then
           (let stop = 7 + length (takeWhile is_digit (drop 7 s))
            in if stop < 9 then Some stop else if even stop then Some 7 else Some 8)
         else Some 8)"

definition skip_dash :: "bool \<Rightarrow> string \<Rightarrow> string option" where
  "skip_dash dashed s = (if \<not> dashed then Some s
     else case s of c # r \<Rightarrow> if c = CHR ''-'' then Some r else None | [] \<Rightarrow> None)"

definition parse_date :: "string \<Rightarrow> nat \<Rightarrow> int option" where
  \<comment> \<open>the ordinal of the date in the first \<open>n\<close> characters\<close>
  "parse_date s n = (case take_digits 4 s of None \<Rightarrow> None
     | Some (year, p0) \<Rightarrow>
         let dashed = (take 1 p0 = ''-''); p = (if dashed then drop 1 p0 else p0)
         in if take 1 p = ''W'' then
              (case take_digits 2 (drop 1 p) of None \<Rightarrow> None
               | Some (week, p1) \<Rightarrow>
                   if length s - length p1 < n then
                     (case skip_dash dashed p1 of None \<Rightarrow> None
                      | Some p2 \<Rightarrow> (case take_digits 1 p2 of None \<Rightarrow> None
                          | Some (day, _) \<Rightarrow> week_ordinal year week day))
                   else week_ordinal year week 1)
            else
              (case take_digits 2 p of None \<Rightarrow> None
               | Some (month, p1) \<Rightarrow> (case skip_dash dashed p1 of None \<Rightarrow> None
                   | Some p2 \<Rightarrow> (case take_digits 2 p2 of None \<Rightarrow> None
                       | Some (day, p3) \<Rightarrow>
                           if length s - length p3 = n then day_ordinal year month day else None))))"

subsection \<open>Times of day and offsets\<close>

definition parse_fraction :: "string \<Rightarrow> bool \<Rightarrow> (int \<times> bool) option" where
  \<comment> \<open>microseconds from up to six digits; further digits are skipped, and the flag says that
     something else follows\<close>
  "parse_fraction t more = (let digits = take 6 t in
     if list_all is_digit digits
     then Some (digits_val (digits @ replicate (6 - length digits) CHR ''0''),
                dropWhile is_digit (drop 6 t) \<noteq> [] \<or> more)
     else None)"

fun parse_fields :: "nat \<Rightarrow> bool \<Rightarrow> int list \<Rightarrow> string \<Rightarrow> bool \<Rightarrow> (int list \<times> int \<times> bool) option" where
  \<comment> \<open>hours, minutes and seconds: \<open>k\<close> fields may follow the one that is read next, \<open>colons\<close> says
     whether colons separate them, \<open>more\<close> whether text follows the part to be read\<close>
  "parse_fields k colons vals t more = (case take_digits 2 t of None \<Rightarrow> None
     | Some (v, []) \<Rightarrow> Some (vals @ [v], 0, more)
     | Some (v, [_]) \<Rightarrow> Some (vals @ [v], 0, True)
     | Some (v, c # rest) \<Rightarrow>
         let colons = (if vals = [] then c = CHR '':'' else colons);
             fraction = (\<lambda>u. map_option (\<lambda>(f, more). (vals @ [v], f, more)) (parse_fraction u more));
             next_field = (\<lambda>u. case k of 0 \<Rightarrow> fraction u | Suc k \<Rightarrow> parse_fields k colons (vals @ [v]) u more)
         in if colons \<and> c = CHR '':'' then next_field rest
            else if c = CHR ''.'' \<or> c = CHR '','' then fraction rest
            else if \<not> colons then next_field (c # rest)
            else None)"

definition parse_clock :: "string \<Rightarrow> bool \<Rightarrow> (int \<times> int \<times> int \<times> int \<times> bool) option" where
  "parse_clock t more = (case parse_fields 2 True [] t more of None \<Rightarrow> None
     | Some (vals, micro, flag) \<Rightarrow> (case vals @ [0, 0] of h # m # s # _ \<Rightarrow> Some (h, m, s, micro, flag)
         | _ \<Rightarrow> None))"

definition parse_offset :: "string \<Rightarrow> int option" where
  \<comment> \<open>microseconds; an offset of no whole second is UTC\<close>
  "parse_offset z = (case z of [] \<Rightarrow> Some 0
     | c # rest \<Rightarrow>
         if c = CHR ''Z'' then (if rest = [] then Some 0 else None)
         else (case parse_clock rest False of
             Some (h, m, s, micro, False) \<Rightarrow>
               let secs = (h * 60 + m) * 60 + s;
                   off = (if secs = 0 then 0 else secs * 1000000 + micro)
               in if off < 86400000000 then Some (if c = CHR ''-'' then - off else off) else None
           | _ \<Rightarrow> None))"

definition from_isoformat :: "string \<Rightarrow> int option" where
  \<comment> \<open>\<open>datetime.fromisoformat\<close> as an instant; a time without offset is taken in UTC\<close>
  "from_isoformat s = (if length s < 7 then None else case date_length s of None \<Rightarrow> None
     | Some n \<Rightarrow> (case parse_date s n of None \<Rightarrow> None
         | Some day \<Rightarrow>
             let midnight = (day - 719163) * 86400000000
             in if length s \<le> n then Some midnight
                else let t = drop (Suc n) s; is_zone = (\<lambda>c. c \<in> set ''+-Z'');
                         clock = takeWhile (Not \<circ> is_zone) t; zone = dropWhile (Not \<circ> is_zone) t
                     in (case (parse_clock clock (zone \<noteq> []), parse_offset zone) of
                           (Some (h, m, s, micro, flag), Some off) \<Rightarrow>
                             if h < 24 \<and> m < 60 \<and> s < 60 \<and> (zone \<noteq> [] \<or> \<not> flag)
                             then Some (midnight + ((h * 60 + m) * 60 + s) * 1000000 + micro - off)
                             else None
                         | _ \<Rightarrow> None)))"

subsection \<open>The program's functions\<close>

definition replace_z :: "string \<Rightarrow> string" where
  \<comment> \<open>\<open>value.replace("Z", "+00:00")\<close>\<close>
  "replace_z s = concat (map (\<lambda>c. if c = CHR ''Z'' then ''+00:00'' else [c]) s)"

definition parse_datetime :: "string option \<Rightarrow> int option" where
  "parse_datetime v = (case v of None \<Rightarrow> None
     | Some s \<Rightarrow> if s = [] then None else from_isoformat (replace_z s))"

definition unix_seconds :: "string option \<Rightarrow> int option" where
  \<comment> \<open>\<open>timestamp()\<close> divides the microseconds as a float, and \<open>int\<close> truncates\<close>
  "unix_seconds v = Option.bind (parse_datetime v) (\<lambda>us. fint (int_truediv us 1000000))"

lemma unix_seconds_examples:
  "unix_seconds (Some ''2024-01-15T12:30:45Z'') = Some 1705321845"
  "unix_seconds (Some ''2024-01-15'') = Some 1705276800"
  "unix_seconds (Some ''2024-W03-1T12:30+05:30'') = Some 1705302000"
  "unix_seconds (Some ''2024-02-30T00:00:00Z'') = None"
  "unix_seconds (Some ''1969-12-31T23:59:59.5Z'') = Some 0"
  by code_simp+

end
