(* ===== verification/MarketWindow.thy ===== *)
theory MarketWindow
  imports IsoTime Events
begin

text \<open>
  The markets of \<open>app/marketdata/polymarket_discovery.py\<close> and their windows: the slugs of the
  rolling up/down markets, whether a market may be traded at a time, the classification of its
  window, and the selection of the markets to subscribe with their roles.
\<close>

subsection \<open>Rolling windows and their slugs\<close>

definition floor_to_window :: "int \<Rightarrow> int \<Rightarrow> py_error + int" where
  "floor_to_window ts window_seconds =
     (if window_seconds \<le> 0 then Inl ValueError else Inr (ts div window_seconds * window_seconds))"

definition rolling_horizon_seconds :: "(string \<times> int) list" where
  "rolling_horizon_seconds = [(''5m'', 300), (''15m'', 900)]"

definition rolling_slug :: "string \<Rightarrow> string \<Rightarrow> int \<Rightarrow> string" where
  "rolling_slug asset horizon start = asset @ ''-updown-'' @ horizon @ ''-'' @ int_digits start"

definition slugs_around :: "int \<Rightarrow> string \<Rightarrow> string \<Rightarrow> int \<Rightarrow> int \<Rightarrow> py_error + string list" where
  \<comment> \<open>the windows of one asset and horizon\<close>
  "slugs_around now asset horizon lookback lookahead =
     (case map_of rolling_horizon_seconds horizon of None \<Rightarrow> Inl ValueError
      | Some seconds \<Rightarrow> (case floor_to_window now seconds of Inl e \<Rightarrow> Inl e
          | Inr current \<Rightarrow> Inr (map (\<lambda>offset. rolling_slug asset horizon (current + offset * seconds))
              [- lookback..lookahead])))"

fun collect_slugs :: "int \<Rightarrow> (string \<times> string) list \<Rightarrow> int \<Rightarrow> int \<Rightarrow> string list \<Rightarrow> py_error + string list" where
  "collect_slugs now [] lookback lookahead slugs = Inr slugs"
| "collect_slugs now ((asset, horizon) # rest) lookback lookahead slugs =
     (case slugs_around now asset horizon lookback lookahead of Inl e \<Rightarrow> Inl e
      | Inr new \<Rightarrow> collect_slugs now rest lookback lookahead
          (fold (\<lambda>s acc. if s \<in> set acc then acc else acc @ [s]) new slugs))"

definition generate_crypto_updown_slugs ::
  "int \<Rightarrow> string list \<Rightarrow> string list \<Rightarrow> int \<Rightarrow> int \<Rightarrow> py_error + string list" where
  "generate_crypto_updown_slugs now assets horizons lookback lookahead =
     collect_slugs now [(lower a, h). a \<leftarrow> assets, h \<leftarrow> horizons] lookback lookahead []"

definition is_word :: "char \<Rightarrow> bool" where
  \<comment> \<open>what \<open>\b\<close> of a regular expression separates\<close>
  "is_word c \<longleftrightarrow> is_digit c \<or> c = CHR ''_'' \<or> (let n = of_char (lower_char c) :: int in 97 \<le> n \<and> n \<le> 122)"

definition strip_prefix :: "string \<Rightarrow> string \<Rightarrow> string option" where
  "strip_prefix p s = (if take (length p) s = p then Some (drop (length p) s) else None)"

definition one_of :: "string list \<Rightarrow> string \<Rightarrow> (string \<times> string) option" where
  "one_of ps s = (case [(p, r). p \<leftarrow> ps, Some r \<leftarrow> [strip_prefix p s]] of [] \<Rightarrow> None | x # _ \<Rightarrow> Some x)"

definition slug_at :: "string \<Rightarrow> (string \<times> string \<times> int) option" where
  \<comment> \<open>\<open>(btc|eth)-updown-(5m|15m)-(\d+)\b\<close> at the start of the text\<close>
  "slug_at s = (case one_of [''btc'', ''eth''] s of None \<Rightarrow> None
     | Some (asset, s1) \<Rightarrow> (case strip_prefix ''-updown-'' s1 of None \<Rightarrow> None
         | Some s2 \<Rightarrow> (case one_of [''5m'', ''15m''] s2 of None \<Rightarrow> None
             | Some (horizon, s3) \<Rightarrow> (case strip_prefix ''-'' s3 of None \<Rightarrow> None
                 | Some s4 \<Rightarrow>
                     let digits = takeWhile is_digit s4; rest = dropWhile is_digit s4
                     in if digits = [] \<or> (case rest of [] \<Rightarrow> False | c # _ \<Rightarrow> is_word c) then None
                        else Some (asset, horizon, digits_val digits)))))"

fun find_slug :: "bool \<Rightarrow> string \<Rightarrow> (string \<times> string \<times> int) option" where
  \<comment> \<open>the first match; the flag says that the character before is a word character\<close>
  "find_slug inside [] = None"
| "find_slug inside (c # s) = (case if inside then None else slug_at (c # s) of
     Some r \<Rightarrow> Some r | None \<Rightarrow> find_slug (is_word c) s)"

definition rolling_slug_parts :: "string \<Rightarrow> (string \<times> string \<times> int) option" where
  "rolling_slug_parts text = find_slug False (lower text)"

definition rolling_slug_start_ts :: "string \<Rightarrow> int option" where
  "rolling_slug_start_ts slug = map_option (snd \<circ> snd) (rolling_slug_parts slug)"

subsection \<open>Markets\<close>

datatype window_class = W_runtime_tradable | W_current_signal | W_next_warmup | W_future_tracked
  | W_expired | W_closed | W_active_but_not_accepting_orders | W_missing_orderbook
  | W_missing_tokens | W_not_found | W_unknown | W_current | W_next | W_future | W_not_accepting

fun window_text :: "window_class \<Rightarrow> string" where
  "window_text W_runtime_tradable = ''runtime_tradable''"
| "window_text W_current_signal = ''current_signal''"
| "window_text W_next_warmup = ''next_warmup''"
| "window_text W_future_tracked = ''future_tracked''"
| "window_text W_expired = ''expired''"
| "window_text W_closed = ''closed''"
| "window_text W_active_but_not_accepting_orders = ''active_but_not_accepting_orders''"
| "window_text W_missing_orderbook = ''missing_orderbook''"
| "window_text W_missing_tokens = ''missing_tokens''"
| "window_text W_not_found = ''not_found''"
| "window_text W_unknown = ''unknown''"
| "window_text W_current = ''current''"
| "window_text W_next = ''next''"
| "window_text W_future = ''future''"
| "window_text W_not_accepting = ''not_accepting''"

datatype discovery_source = D_direct_slug | D_active_events | D_cache

record market_metadata =
  mm_condition_id :: string
  mm_market_id :: string
  mm_market_slug :: string
  mm_question :: string
  mm_end_time :: string
  mm_tick_size :: pyfloat
  mm_min_order_size :: pyfloat
  mm_rewards_min_size :: "pyfloat option"
  mm_start_time :: "string option"
  mm_event_start_time :: "string option"
  mm_active :: "bool option"
  mm_closed :: "bool option"
  mm_accepting_orders :: "bool option"
  mm_enable_order_book :: "bool option"
  mm_classification :: "window_class option"
  mm_selected_for_runtime :: bool
  mm_signal_enabled :: bool
  mm_runtime_selection_reason :: "string option"
  mm_discovery_source :: "discovery_source option"
  mm_up_token_id :: "string option"
  mm_down_token_id :: "string option"
  mm_yes_token_id :: "string option"
  mm_no_token_id :: "string option"
  mm_token_outcomes :: "(string \<times> string) list"
  mm_base_asset :: "string option"
  mm_duration_minutes :: "int option"

definition token_ids :: "market_metadata \<Rightarrow> string list" where
  "token_ids m = (if mm_token_outcomes m \<noteq> [] then map fst (mm_token_outcomes m)
     else [t. Some t \<leftarrow> [mm_up_token_id m, mm_down_token_id m, mm_yes_token_id m, mm_no_token_id m]])"

definition token_for_direction :: "gap_direction \<Rightarrow> market_metadata \<Rightarrow> string option" where
  "token_for_direction d m = (case d of G_UP \<Rightarrow> mm_up_token_id m | G_DOWN \<Rightarrow> mm_down_token_id m)"

definition market_start :: "market_metadata \<Rightarrow> int" where
  \<comment> \<open>\<open>_market_start_sort_key\<close>\<close>
  "market_start m = int_or (or_int (unix_seconds (mm_event_start_time m))
     (or_int (unix_seconds (mm_start_time m)) (rolling_slug_start_ts (mm_market_slug m)))) 0"

definition market_end :: "market_metadata \<Rightarrow> int option" where
  "market_end m = unix_seconds (Some (mm_end_time m))"

definition market_duration_seconds :: "market_metadata \<Rightarrow> int option" where
  "market_duration_seconds m = map_option (\<lambda>d. d * 60) (mm_duration_minutes m)"

definition has_both_tokens :: "market_metadata \<Rightarrow> bool" where
  "has_both_tokens m \<longleftrightarrow> mm_up_token_id m \<noteq> None \<and> mm_down_token_id m \<noteq> None \<and> 2 \<le> length (token_ids m)"

definition is_runtime_tradable_market :: "market_metadata \<Rightarrow> int \<Rightarrow> bool" where
  "is_runtime_tradable_market m now \<longleftrightarrow>
     (if mm_active m \<noteq> Some True then False
      else if mm_closed m \<noteq> Some False then False
      else if mm_accepting_orders m \<noteq> Some True then False
      else if mm_enable_order_book m \<noteq> Some True then False
      else if \<not> has_both_tokens m then False
      else (case market_end m of None \<Rightarrow> False | Some end_ts \<Rightarrow> end_ts > now))"

definition is_current_window :: "market_metadata \<Rightarrow> int \<Rightarrow> bool" where
  "is_current_window m now = (case market_end m of None \<Rightarrow> False
     | Some end_ts \<Rightarrow> market_start m \<le> now \<and> now < end_ts)"

definition classify_market_window :: "market_metadata \<Rightarrow> int \<Rightarrow> window_class" where
  "classify_market_window m now =
     (let open_now = (mm_active m = Some True \<and> mm_closed m = Some False) in
      if mm_closed m = Some True then W_closed
      else if open_now \<and> mm_accepting_orders m \<noteq> Some True then W_active_but_not_accepting_orders
      else if open_now \<and> mm_enable_order_book m \<noteq> Some True then W_missing_orderbook
      else if \<not> has_both_tokens m then W_missing_tokens
      else if \<not> open_now then W_unknown
      else (case market_end m of None \<Rightarrow> W_runtime_tradable
        | Some end_ts \<Rightarrow>
            if end_ts \<le> now then W_expired
            else
              let start_ts = market_start m in
              if start_ts \<le> now \<and> now < end_ts then W_current_signal
              else if start_ts > now then
                (case market_duration_seconds m of
                   Some d \<Rightarrow> if start_ts - now \<le> d then W_next_warmup else W_future_tracked
                 | None \<Rightarrow> W_future_tracked)
              else W_expired))"

definition is_rolling_window_compatible :: "market_metadata \<Rightarrow> int \<Rightarrow> int \<Rightarrow> bool" where
  "is_rolling_window_compatible m now lookahead =
     (if mm_base_asset m \<notin> {Some ''BTC'', Some ''ETH''} then False
      else (case market_duration_seconds m of None \<Rightarrow> False
        | Some d \<Rightarrow>
            if d \<notin> {300, 900} then False
            else (case market_end m of None \<Rightarrow> False
              | Some end_ts \<Rightarrow>
                  if end_ts \<le> now then False
                  else let start_ts = market_start m; window = now div d * d in
                       window - d \<le> start_ts \<and> start_ts \<le> window + max 1 lookahead * d)))"

subsection \<open>Selection\<close>

type_synonym market_key = "string \<times> string list"

definition market_key :: "market_metadata \<Rightarrow> market_key" where
  "market_key m = (mm_market_id m, token_ids m)"

definition market_group :: "market_metadata \<Rightarrow> string option \<times> int option" where
  "market_group m = (mm_base_asset m, mm_duration_minutes m)"

definition market_groups :: "market_metadata list \<Rightarrow> int \<Rightarrow> market_metadata list list" where
  \<comment> \<open>the tradable markets per asset and duration, in order of first appearance\<close>
  "market_groups ms now =
     map snd (fold (\<lambda>m d. AList.update (market_group m)
         ((case map_of d (market_group m) of None \<Rightarrow> [] | Some g \<Rightarrow> g) @ [m]) d)
       [m \<leftarrow> ms. is_runtime_tradable_market m now] [])"

definition group_roles :: "market_metadata list \<Rightarrow> int \<Rightarrow> int \<Rightarrow> (market_metadata \<times> window_class) list" where
  "group_roles g now lookahead =
     (let current = sort_key market_start [m \<leftarrow> g. is_current_window m now];
          futures = sort_key market_start [m \<leftarrow> g. market_start m > now]
      in map (\<lambda>m. (m, W_current_signal)) current
         @ map (\<lambda>(i, m). (m, if i = 0 then W_next_warmup else W_future_tracked))
             (enumerate 0 (take (nat (max 1 lookahead)) futures)))"

definition runtime_key_roles :: "market_metadata list \<Rightarrow> int \<Rightarrow> int \<Rightarrow> (market_key \<times> window_class) list" where
  \<comment> \<open>\<open>_select_runtime_market_key_role_order\<close>\<close>
  "runtime_key_roles ms now lookahead =
     map (\<lambda>(m, r). (market_key m, r)) (concat (map (\<lambda>g. group_roles g now lookahead) (market_groups ms now)))"

definition runtime_roles :: "market_metadata list \<Rightarrow> int \<Rightarrow> int \<Rightarrow> (market_key \<times> window_class) list" where
  \<comment> \<open>a later role of the same key replaces an earlier one\<close>
  "runtime_roles ms now lookahead =
     fold (\<lambda>(k, r). AList.update k r) (runtime_key_roles ms now lookahead) []"

definition runtime_selection_reason :: "window_class \<Rightarrow> window_class option \<Rightarrow> bool \<Rightarrow> window_class" where
  "runtime_selection_reason classification role enabled =
     (if enabled then W_current_signal else case role of Some r \<Rightarrow> r | None \<Rightarrow> classification)"

definition annotate_runtime_market_roles :: "market_metadata list \<Rightarrow> int \<Rightarrow> int \<Rightarrow> market_metadata list" where
  "annotate_runtime_market_roles ms now lookahead =
     map (\<lambda>m. let classification = classify_market_window m now;
                role = map_of (runtime_roles ms now lookahead) (market_key m);
                enabled = (role = Some W_current_signal)
            in m\<lparr>mm_classification := Some classification, mm_selected_for_runtime := role \<noteq> None,
                 mm_signal_enabled := enabled,
                 mm_runtime_selection_reason :=
                   Some (window_text (runtime_selection_reason classification role enabled))\<rparr>) ms"

definition select_runtime_markets :: "market_metadata list \<Rightarrow> int \<Rightarrow> int \<Rightarrow> market_metadata list" where
  "select_runtime_markets ms now lookahead =
     (let annotated = annotate_runtime_market_roles ms now lookahead;
          by_key = fold (\<lambda>m. AList.update (market_key m) m) annotated []
      in [m. (k, _) \<leftarrow> runtime_key_roles ms now lookahead, Some m \<leftarrow> [map_of by_key k]])"

subsection \<open>Reading slugs back\<close>

lemma digit_code: "0 \<le> d \<Longrightarrow> d < 10 \<Longrightarrow> (of_char (char_of (48 + d :: int)) :: int) = 48 + d"
  by (simp add: of_char_of mod_pos_pos_trivial)

lemma digits_val_snoc: "digits_val (s @ [c]) = 10 * digits_val s + (of_char c - 48)"
  by (simp add: digits_val_def)

lemma pos_digits_props:
  "0 \<le> n \<Longrightarrow> pos_digits n \<noteq> [] \<and> list_all is_digit (pos_digits n) \<and> digits_val (pos_digits n) = n"
proof (induction n rule: pos_digits.induct)
  case (1 n)
  show ?case
  proof (cases "n < 10")
    case True
    then show ?thesis using 1(2) by (simp add: pos_digits.simps [of n] is_digit_def digit_code digits_val_def)
  next
    case False
    have "0 \<le> n mod 10" "n mod 10 < 10" by simp_all
    then have c: "(of_char (char_of (48 + n mod 10)) :: int) = 48 + n mod 10" by (rule digit_code)
    have "digits_val (pos_digits (n div 10)) = n div 10" "list_all is_digit (pos_digits (n div 10))"
      using 1 False by simp_all
    moreover have "is_digit (char_of (48 + n mod 10))"
      unfolding is_digit_def c using \<open>n mod 10 < 10\<close> by simp
    ultimately show ?thesis using False
      by (simp add: pos_digits.simps [of n] digits_val_snoc c)
  qed
qed

lemma is_digit_lower: "is_digit c \<Longrightarrow> lower_char c = c"
  by (simp add: is_digit_def lower_char_def Let_def)

lemma takeWhile_all: "list_all P xs \<Longrightarrow> takeWhile P xs = xs" "list_all P xs \<Longrightarrow> dropWhile P xs = []"
  by (induction xs) auto

lemma slug_parts:
  assumes "asset \<in> {''btc'', ''eth''}" and "(horizon, seconds) \<in> set rolling_horizon_seconds" and "0 \<le> start"
  shows "rolling_slug_parts (rolling_slug asset horizon start) = Some (asset, horizon, start)"
proof -
  define ds where "ds = int_digits start"
  have ds: "ds \<noteq> []" "list_all is_digit ds" "digits_val ds = start"
    using pos_digits_props [OF assms(3)] assms(3) by (simp_all add: ds_def int_digits_def)
  have "lower ds = ds" using ds(2) by (induction ds) (simp_all add: lower_def is_digit_lower)
  moreover have "asset = ''btc'' \<or> asset = ''eth''" "horizon = ''5m'' \<or> horizon = ''15m''"
    using assms(1,2) by (auto simp: rolling_horizon_seconds_def)
  ultimately have "lower (rolling_slug asset horizon start) = asset @ ''-updown-'' @ horizon @ ''-'' @ ds"
    unfolding rolling_slug_def ds_def [symmetric] by (auto simp: lower_def lower_char_def)
  moreover have "slug_at (asset @ ''-updown-'' @ horizon @ ''-'' @ ds) = Some (asset, horizon, start)"
    using \<open>asset = _ \<or> _\<close> \<open>horizon = _ \<or> _\<close> ds
    by (elim disjE) (simp_all add: slug_at_def one_of_def strip_prefix_def takeWhile_all)
  moreover have "asset \<noteq> []" using assms(1) by auto
  ultimately show ?thesis by (cases asset) (simp_all add: rolling_slug_parts_def)
qed

lemma fold_append_new:
  "set (fold (\<lambda>s acc. if s \<in> set acc then acc else acc @ [s]) new acc) = set acc \<union> set new"
  by (induction new arbitrary: acc) auto

lemma collect_slugs_mem:
  "collect_slugs now pairs lookback lookahead acc = Inr slugs \<Longrightarrow> s \<in> set slugs
     \<Longrightarrow> s \<in> set acc \<or> (\<exists>(a, h)\<in>set pairs. \<exists>new. slugs_around now a h lookback lookahead = Inr new \<and> s \<in> set new)"
  by (induction now pairs lookback lookahead acc rule: collect_slugs.induct)
    (auto split: sum.splits simp: fold_append_new)

text \<open>
  C25: every generated slug can be read back: it names one of the assets and horizons asked for,
  and the start that is parsed from it is a boundary of the horizon's windows, no further from the
  current window than the lookback and the lookahead.
\<close>

theorem generated_slugs_parse_back:
  assumes "generate_crypto_updown_slugs now [''btc'', ''eth''] horizons lookback lookahead = Inr slugs"
    and "s \<in> set slugs" and "900 * (lookback + 1) \<le> now" and "0 \<le> lookback"
  shows "\<exists>asset horizon seconds k. rolling_slug_parts s = Some (asset, horizon, (now div seconds + k) * seconds)
    \<and> asset \<in> {''btc'', ''eth''} \<and> horizon \<in> set horizons
    \<and> map_of rolling_horizon_seconds horizon = Some seconds \<and> - lookback \<le> k \<and> k \<le> lookahead"
proof -
  define pairs where "pairs = [(lower a, h). a \<leftarrow> [''btc'', ''eth''], h \<leftarrow> horizons]"
  have "lower ''btc'' = ''btc''" "lower ''eth'' = ''eth''" by code_simp+
  then have pairs: "a \<in> {''btc'', ''eth''} \<and> h \<in> set horizons" if "(a, h) \<in> set pairs" for a h
    using that by (auto simp: pairs_def)
  have "collect_slugs now pairs lookback lookahead [] = Inr slugs"
    using assms(1) unfolding generate_crypto_updown_slugs_def pairs_def .
  from collect_slugs_mem [OF this assms(2)] obtain a h new where a: "(a, h) \<in> set pairs"
    "slugs_around now a h lookback lookahead = Inr new" "s \<in> set new" by auto
  note a = pairs [OF a(1), THEN conjunct1] pairs [OF a(1), THEN conjunct2] a(2,3)
  then obtain secs k where k: "map_of rolling_horizon_seconds h = Some secs" "- lookback \<le> k" "k \<le> lookahead"
    "s = rolling_slug a h (now div secs * secs + k * secs)"
    by (auto simp: slugs_around_def floor_to_window_def split: option.splits sum.splits if_splits)
  have mem: "(h, secs) \<in> set rolling_horizon_seconds" using k(1) by (rule map_of_SomeD)
  then have secs: "0 < secs" "secs \<le> 900" by (auto simp: rolling_horizon_seconds_def)
  have "lookback \<le> now div secs"
  proof -
    have "lookback * secs \<le> lookback * 900" using secs assms(4) by (intro mult_left_mono) simp_all
    then have "(lookback * secs) div secs \<le> now div secs" using assms(3) secs(1) by (intro zdiv_mono1) simp_all
    then show ?thesis using secs(1) by simp
  qed
  then have "0 \<le> (now div secs + k) * secs" using k(2) secs(1) by simp
  then have "rolling_slug_parts s = Some (a, h, (now div secs + k) * secs)"
    using slug_parts [OF a(1) mem] k(4) by (simp add: distrib_right)
  then show ?thesis using a k by blast
qed

theorem generated_slugs_parse_back_witness:
  "\<exists>asset horizon seconds k. rolling_slug_parts ''btc-updown-5m-1699999800'' = Some (asset, horizon, (1700000000 div seconds + k) * seconds)
    \<and> asset \<in> {''btc'', ''eth''} \<and> horizon \<in> set [''5m''] \<and> - 0 \<le> k \<and> k \<le> 0"
proof -
  have "generate_crypto_updown_slugs 1700000000 [''btc'', ''eth''] [''5m''] 0 0
     = Inr [''btc-updown-5m-1699999800'', ''eth-updown-5m-1699999800'']"
    by code_simp
  from generated_slugs_parse_back [OF this, of "''btc-updown-5m-1699999800''"]
  obtain asset horizon seconds k where "rolling_slug_parts ''btc-updown-5m-1699999800'' = Some (asset, horizon, (1700000000 div seconds + k) * seconds)"
    "asset \<in> {''btc'', ''eth''}" "horizon \<in> set [''5m'']" "- 0 \<le> k" "k \<le> 0" by auto
  then show ?thesis by blast
qed

subsection \<open>Windows and roles\<close>

lemma current_signal_iff:
  "classify_market_window m now = W_current_signal \<longleftrightarrow> is_runtime_tradable_market m now \<and> is_current_window m now"
  by (auto simp: classify_market_window_def is_runtime_tradable_market_def is_current_window_def Let_def
      split: option.splits if_splits)

lemma fold_update_last:
  "map_of (fold (\<lambda>(k, r). AList.update k r) xs d) k = (case map_of (rev xs) k of Some r \<Rightarrow> Some r | None \<Rightarrow> map_of d k)"
  by (induction xs arbitrary: d) (auto simp: map_add_def split: option.splits)

lemma market_groups_set:
  "(\<exists>g\<in>set (market_groups ms now). m \<in> set g) \<longleftrightarrow> m \<in> set ms \<and> is_runtime_tradable_market m now"
proof -
  define add where "add = (\<lambda>m d. AList.update (market_group m)
         ((case map_of d (market_group m) of None \<Rightarrow> [] | Some g \<Rightarrow> g) @ [m]) d)"
  define found where "found = (\<lambda>(d :: ((string option \<times> int option) \<times> market_metadata list) list) k. case map_of d k of None \<Rightarrow> [] | Some g \<Rightarrow> g)"
  have add: "found (add x d) k = found d k @ (if k = market_group x then [x] else [])" for x d k
    by (simp add: found_def add_def)
  have fold_add: "(\<exists>k. m \<in> set (found (fold add xs d) k)) \<longleftrightarrow> m \<in> set xs \<or> (\<exists>k. m \<in> set (found d k))" for xs d
  proof (induction xs arbitrary: d)
    case (Cons x xs)
    have "(\<exists>k. m \<in> set (found (add x d) k)) \<longleftrightarrow> m = x \<or> (\<exists>k. m \<in> set (found d k))"
      by (cases "market_group x") (auto simp: add)
    then show ?case using Cons.IH [of "add x d"] by auto
  qed simp
  define d where "d = fold add [m \<leftarrow> ms. is_runtime_tradable_market m now] []"
  have dist: "distinct (map fst (fold add xs d))" if "distinct (map fst d)" for xs d
    using that by (induction xs arbitrary: d) (simp_all add: add_def)
  have "distinct (map fst d)" using dist by (simp add: d_def)
  then have "(\<exists>g\<in>snd ` set d. m \<in> set g) \<longleftrightarrow> (\<exists>k. m \<in> set (found d k))"
    by (force simp: found_def split: option.splits dest: map_of_SomeD)
  also have "\<dots> \<longleftrightarrow> m \<in> set ms \<and> is_runtime_tradable_market m now"
    unfolding d_def fold_add by (simp add: found_def)
  finally show ?thesis by (simp add: market_groups_def add_def [symmetric] d_def)
qed

lemma group_roles_mem:
  assumes "(m, r) \<in> set (group_roles g now la)"
  shows "m \<in> set g \<and> (r = W_current_signal \<longleftrightarrow> is_current_window m now)
    \<and> (r = W_current_signal \<or> market_start m > now \<and> (r = W_next_warmup \<or> r = W_future_tracked))"
proof -
  have "m \<in> set (sort_key market_start [m \<leftarrow> g. market_start m > now])"
    if "(i, m) \<in> set (enumerate 0 (take k (sort_key market_start [m \<leftarrow> g. market_start m > now])))" for i k
    using that by (auto simp: enumerate_eq_zip simp del: set_sort dest!: set_zip_rightD in_set_takeD)
  then show ?thesis using assms
    by (auto simp: group_roles_def Let_def is_current_window_def split: option.splits if_splits)
qed

lemma group_roles_current:
  "m \<in> set g \<Longrightarrow> is_current_window m now \<Longrightarrow> (m, W_current_signal) \<in> set (group_roles g now la)"
  by (auto simp: group_roles_def Let_def)

lemma key_roles_mem:
  assumes "distinct (map market_key ms)" and "m \<in> set ms" and "(market_key m, r) \<in> set (runtime_key_roles ms now la)"
  shows "is_runtime_tradable_market m now \<and> (r = W_current_signal \<longleftrightarrow> is_current_window m now)
    \<and> (r = W_current_signal \<or> market_start m > now \<and> (r = W_next_warmup \<or> r = W_future_tracked))"
proof -
  obtain g m' where g: "g \<in> set (market_groups ms now)" "(m', r) \<in> set (group_roles g now la)"
    "market_key m' = market_key m"
    using assms(3) by (auto simp: runtime_key_roles_def)
  have "m' \<in> set ms" "is_runtime_tradable_market m' now"
    using market_groups_set [of ms now m'] group_roles_mem [OF g(2)] g(1) by auto
  moreover have "m' = m" using assms(1,2) \<open>m' \<in> set ms\<close> g(3) by (auto simp: distinct_map dest: inj_onD)
  ultimately show ?thesis using group_roles_mem [OF g(2)] by blast
qed

lemma key_roles_current:
  assumes "m \<in> set ms" and "is_runtime_tradable_market m now" and "is_current_window m now"
  shows "(market_key m, W_current_signal) \<in> set (runtime_key_roles ms now la)"
proof -
  obtain g where "g \<in> set (market_groups ms now)" "m \<in> set g"
    using assms(1,2) market_groups_set [of ms now m] by auto
  then show ?thesis using group_roles_current [OF _ assms(3), of g la]
    by (force simp: runtime_key_roles_def image_iff)
qed

lemma runtime_roles_mem: "map_of (runtime_roles ms now la) k = map_of (rev (runtime_key_roles ms now la)) k"
  by (simp add: runtime_roles_def fold_update_last split: option.splits)

lemma runtime_role:
  assumes "distinct (map market_key ms)" and "m \<in> set ms"
  shows "(map_of (runtime_roles ms now la) (market_key m) = Some W_current_signal
        \<longleftrightarrow> classify_market_window m now = W_current_signal)
    \<and> (\<forall>r. map_of (runtime_roles ms now la) (market_key m) = Some r \<longrightarrow> is_runtime_tradable_market m now)"
proof -
  have mem: "(market_key m, r) \<in> set (runtime_key_roles ms now la)"
    if "map_of (runtime_roles ms now la) (market_key m) = Some r" for r
    using that by (auto simp: runtime_roles_mem dest: map_of_SomeD)
  have "map_of (runtime_roles ms now la) (market_key m) = Some W_current_signal"
    if "is_runtime_tradable_market m now" "is_current_window m now"
  proof -
    have "market_key m \<in> fst ` set (runtime_key_roles ms now la)"
      using key_roles_current [OF assms(2) that] by force
    then obtain r where "map_of (runtime_roles ms now la) (market_key m) = Some r"
      by (metis runtime_roles_mem map_of_eq_None_iff not_Some_eq set_rev)
    then show ?thesis using key_roles_mem [OF assms mem] that by simp
  qed
  then show ?thesis using key_roles_mem [OF assms mem] by (auto simp: current_signal_iff)
qed

text \<open>
  C26: the runtime roles agree with the classification: when no two markets share their key, a
  market is annotated as signal-enabled exactly when its window is classified as the current one,
  and only tradable markets are selected.
\<close>

theorem signal_role_agrees_with_classification:
  assumes "distinct (map market_key ms)" and "m \<in> set (annotate_runtime_market_roles ms now lookahead)"
  shows "(mm_signal_enabled m \<longleftrightarrow> mm_classification m = Some W_current_signal)
    \<and> (mm_selected_for_runtime m \<longrightarrow> is_runtime_tradable_market m now)
    \<and> (mm_signal_enabled m \<longrightarrow> mm_selected_for_runtime m \<and> is_current_window m now)"
proof -
  obtain m0 where m0: "m0 \<in> set ms" "m = m0\<lparr>mm_classification := Some (classify_market_window m0 now),
      mm_selected_for_runtime := map_of (runtime_roles ms now lookahead) (market_key m0) \<noteq> None,
      mm_signal_enabled := map_of (runtime_roles ms now lookahead) (market_key m0) = Some W_current_signal,
      mm_runtime_selection_reason := Some (window_text (runtime_selection_reason (classify_market_window m0 now)
        (map_of (runtime_roles ms now lookahead) (market_key m0))
        (map_of (runtime_roles ms now lookahead) (market_key m0) = Some W_current_signal)))\<rparr>"
    using assms(2) unfolding annotate_runtime_market_roles_def Let_def by auto
  have eq: "market_start m = market_start m0" "market_end m = market_end m0" "has_both_tokens m = has_both_tokens m0"
    "mm_active m = mm_active m0" "mm_closed m = mm_closed m0" "mm_accepting_orders m = mm_accepting_orders m0"
    "mm_enable_order_book m = mm_enable_order_book m0"
    by (simp_all add: m0(2) market_start_def market_end_def has_both_tokens_def token_ids_def)
  have same: "is_runtime_tradable_market m now = is_runtime_tradable_market m0 now"
    "is_current_window m now = is_current_window m0 now"
    by (simp_all add: is_runtime_tradable_market_def is_current_window_def eq cong: option.case_cong)
  show ?thesis using runtime_role [OF assms(1) m0(1), of now lookahead]
    by (auto simp: same) (auto simp: m0(2) current_signal_iff)
qed

definition ex_market :: market_metadata where
  "ex_market = \<lparr>mm_condition_id = ''c'', mm_market_id = ''m'', mm_market_slug = ''btc-updown-5m-1700000100'',
     mm_question = ''Bitcoin up or down?'', mm_end_time = ''2023-11-14T22:20:00Z'', mm_tick_size = Fin (1 / 4),
     mm_min_order_size = Fin 5, mm_rewards_min_size = None, mm_start_time = None, mm_event_start_time = None,
     mm_active = Some True, mm_closed = Some False, mm_accepting_orders = Some True,
     mm_enable_order_book = Some True, mm_classification = None, mm_selected_for_runtime = False,
     mm_signal_enabled = False, mm_runtime_selection_reason = None, mm_discovery_source = None,
     mm_up_token_id = Some ''up'', mm_down_token_id = Some ''down'', mm_yes_token_id = None,
     mm_no_token_id = None, mm_token_outcomes = [], mm_base_asset = Some ''BTC'',
     mm_duration_minutes = Some 5\<rparr>"

theorem signal_role_agrees_with_classification_witness:
  "\<exists>m. annotate_runtime_market_roles [ex_market] 1700000200 1 = [m] \<and> mm_signal_enabled m
     \<and> mm_classification m = Some W_current_signal \<and> mm_selected_for_runtime m \<and> is_current_window m 1700000200"
proof -
  obtain m where m: "annotate_runtime_market_roles [ex_market] 1700000200 1 = [m]"
    by (simp add: annotate_runtime_market_roles_def)
  have "map mm_classification (annotate_runtime_market_roles [ex_market] 1700000200 1) = [Some W_current_signal]"
    by code_simp
  then have "mm_classification m = Some W_current_signal" by (simp add: m)
  then show ?thesis
    using signal_role_agrees_with_classification [of "[ex_market]" m 1700000200 1] m by simp
qed

end
