(* ===== verification/GapTypes.thy ===== *)
theory GapTypes
  imports MarketState MarketWindow Ticks
begin

text \<open>
  The data of \<open>app/strategy/gap_detector.py\<close>: the observation it reports
  (\<open>TradableGapObservation\<close> of \<open>app/core/events.py\<close>), the gap it is still watching, the gate of
  the token books, the diagnostics of stale feeds, the move of the reference market, and the
  detector with its configuration, its pending gaps and its counters.
\<close>

datatype reject_stage = RS_pre_entry | RS_window | RS_exit | RS_lifecycle | RS_timeout | RS_none
datatype stale_source = SS_binance | SS_polymarket | SS_both | SS_unknown
datatype quality_tier = Tier_A | Tier_B | Tier_C | Tier_D

fun direction_text :: "gap_direction \<Rightarrow> string" where
  "direction_text G_UP = ''UP''"
| "direction_text G_DOWN = ''DOWN''"

record move_snapshot =
  mv_return_1s :: "pyfloat option"
  mv_return_5s :: "pyfloat option"
  mv_return_15s :: "pyfloat option"
  mv_return_30s :: "pyfloat option"
  mv_volatility_30s :: "pyfloat option"
  mv_bid_ask_spread :: "pyfloat option"

record book_gate =
  bg_suppress :: bool
  bg_warmup_ms :: "pyfloat option"
  bg_warmup_timeout :: bool
  bg_book_complete :: bool
  bg_book_has_snapshot :: bool
  bg_book_structurally_complete :: bool
  bg_reported_best_validation_ok :: bool
  bg_validation_error :: "string option"
  bg_market_classification :: "string option"
  bg_signal_enabled :: bool
  bg_market_mismatch_rate :: "pyfloat option"
  bg_token_mismatch_rate :: "pyfloat option"
  bg_market_quote_complete_rate :: "pyfloat option"
  bg_token_quote_complete_rate :: "pyfloat option"

record stale_diagnostics =
  sd_stale_source :: "stale_source option"
  sd_binance_quote_age_ms :: "pyfloat option"
  sd_polymarket_quote_age_ms :: "pyfloat option"
  sd_now_monotonic_ns :: "int option"
  sd_last_binance_update_monotonic_ns :: "int option"
  sd_last_polymarket_update_monotonic_ns :: "int option"
  sd_binance_local_received_ts_ns :: "int option"
  sd_polymarket_event_ts_ns :: "int option"
  sd_polymarket_local_received_ts_ns :: "int option"
  sd_state_updated_monotonic_ns :: "int option"
  sd_detector_processed_monotonic_ns :: "int option"

record move_episode =
  me_id :: string
  me_window_ms :: pyfloat
  me_start_ts_ns :: int
  me_end_ts_ns :: int
  me_bucket :: int

record gap_observation =
  go_symbol :: string
  go_market_id :: string
  go_market_slug :: "string option"
  go_base_asset :: "string option"
  go_duration_minutes :: "int option"
  go_token_id :: string
  go_direction :: gap_direction
  go_binance_move_pct :: pyfloat
  go_move_episode_id :: "string option"
  go_source_move_window_ms :: "pyfloat option"
  go_source_move_start_ts_ns :: "int option"
  go_source_move_end_ts_ns :: "int option"
  go_detected_ts_ns :: int
  go_binance_event_ts_ns :: "int option"
  go_poly_quote_ts_ns :: "int option"
  go_before_best_bid :: "pyfloat option"
  go_before_best_ask :: "pyfloat option"
  go_before_best_bid_size :: "pyfloat option"
  go_before_best_ask_size :: "pyfloat option"
  go_before_mid :: "pyfloat option"
  go_after_best_bid :: "pyfloat option"
  go_after_best_ask :: "pyfloat option"
  go_after_mid :: "pyfloat option"
  go_spread_before :: "pyfloat option"
  go_spread_after :: "pyfloat option"
  go_mid_repricing_delay_ms :: "pyfloat option"
  go_executable_repricing_delay_ms :: "pyfloat option"
  go_first_mid_repriced_ts_ns :: "int option"
  go_first_executable_repriced_ts_ns :: "int option"
  go_executable_exit_bid :: "pyfloat option"
  go_entry_ask :: "pyfloat option"
  go_entry_ask_size :: "pyfloat option"
  go_exit_edge_after_spread :: "pyfloat option"
  go_tick_size_at_detection :: "pyfloat option"
  go_spread_at_detection :: "pyfloat option"
  go_spread_ticks_at_detection :: "pyfloat option"
  go_entry_ask_ticks :: "pyfloat option"
  go_exit_edge_ticks :: "pyfloat option"
  go_estimated_edge_ticks :: "pyfloat option"
  go_reprice_threshold_ticks :: "pyfloat option"
  go_effective_reprice_threshold :: "pyfloat option"
  go_effective_reprice_threshold_ticks :: "pyfloat option"
  go_repricing_delay_ms :: "pyfloat option"
  go_tradable_window_ms :: "pyfloat option"
  go_hypothetical_entry_price :: "pyfloat option"
  go_hypothetical_exit_price :: "pyfloat option"
  go_quote_was_fillable :: bool
  go_estimated_edge_raw :: "pyfloat option"
  go_estimated_edge_after_spread :: "pyfloat option"
  go_market_classification :: "string option"
  go_signal_enabled :: "bool option"
  go_book_complete :: "bool option"
  go_book_has_snapshot :: "bool option"
  go_book_structurally_complete :: "bool option"
  go_reported_best_validation_ok :: "bool option"
  go_book_validation_error :: "string option"
  go_book_warmup_ms :: "pyfloat option"
  go_book_warmup_timeout :: bool
  go_stale :: stale_diagnostics  \<comment> \<open>the eleven fields that the class repeats\<close>
  go_validation_mode :: "validation_mode option"
  go_validation_tolerance_ticks :: "int option"
  go_market_mismatch_rate :: "pyfloat option"
  go_token_mismatch_rate :: "pyfloat option"
  go_market_quote_complete_rate :: "pyfloat option"
  go_token_quote_complete_rate :: "pyfloat option"
  go_data_quality_tier :: "quality_tier option"
  go_data_quality_reason :: "string option"
  go_pre_entry_reject_reason :: "string option"
  go_window_end_reason :: "string option"
  go_exit_reject_reason :: "string option"
  go_reject_stage :: reject_stage
  go_reject_reason :: "string option"

definition gap_duration_ms :: "gap_observation \<Rightarrow> pyfloat option" where
  "gap_duration_ms o' = go_repricing_delay_ms o'"

record pending_gap =
  pd_symbol :: string
  pd_market :: market_metadata
  pd_direction :: gap_direction
  pd_token_id :: string
  pd_binance_move_pct :: pyfloat
  pd_first_detected_ts_ns :: int
  pd_first_detected_monotonic_ns :: int
  pd_binance_event_ts_ns :: "int option"
  pd_poly_quote_ts_ns :: "int option"
  pd_before_best_bid :: "pyfloat option"
  pd_before_best_ask :: pyfloat
  pd_before_best_bid_size :: "pyfloat option"
  pd_before_best_ask_size :: pyfloat
  pd_before_mid :: "pyfloat option"
  pd_spread_before :: "pyfloat option"
  pd_tick_size :: "pyfloat option"
  pd_spread_at_detection :: "pyfloat option"
  pd_entry_ask :: pyfloat
  pd_entry_ask_size :: pyfloat
  pd_last_tradable_ts_ns :: int
  pd_last_tradable_monotonic_ns :: int
  pd_first_non_tradable_ts_ns :: "int option"
  pd_first_non_tradable_monotonic_ns :: "int option"
  pd_first_mid_repriced_ts_ns :: "int option"
  pd_first_mid_repriced_monotonic_ns :: "int option"
  pd_first_executable_repriced_ts_ns :: "int option"
  pd_first_executable_repriced_monotonic_ns :: "int option"
  pd_executable_exit_bid :: "pyfloat option"
  pd_current_best_bid :: "pyfloat option"
  pd_current_best_ask :: "pyfloat option"
  pd_current_best_bid_size :: "pyfloat option"
  pd_current_best_ask_size :: "pyfloat option"
  pd_current_mid :: "pyfloat option"
  pd_current_spread :: "pyfloat option"
  pd_current_quote_ts_ns :: "int option"
  pd_current_quote_monotonic_ns :: "int option"
  pd_market_classification :: "string option"
  pd_signal_enabled :: "bool option"
  pd_book_complete :: "bool option"
  pd_book_has_snapshot :: "bool option"
  pd_book_structurally_complete :: "bool option"
  pd_reported_best_validation_ok :: "bool option"
  pd_book_validation_error :: "string option"
  pd_book_warmup_ms :: "pyfloat option"
  pd_book_warmup_timeout :: bool
  pd_validation_mode :: "validation_mode option"
  pd_validation_tolerance_ticks :: "int option"
  pd_market_mismatch_rate :: "pyfloat option"
  pd_token_mismatch_rate :: "pyfloat option"
  pd_market_quote_complete_rate :: "pyfloat option"
  pd_token_quote_complete_rate :: "pyfloat option"
  pd_stale :: stale_diagnostics
  pd_pre_entry_reject_reason :: "string option"
  pd_window_end_reason :: "string option"
  pd_exit_reject_reason :: "string option"
  pd_lifecycle_reason :: "string option"
  pd_timeout_reason :: "string option"
  pd_close_reason :: "string option"
  pd_reject_stage :: reject_stage
  pd_episode :: move_episode  \<comment> \<open>its id, window, start and end are copied\<close>

record gap_config =
  gc_min_move_pct :: pyfloat
  gc_reprice_threshold :: pyfloat
  gc_min_exit_edge :: pyfloat
  gc_max_entry_spread :: pyfloat
  gc_max_entry_price_move :: pyfloat
  gc_max_pending_gap_ms :: pyfloat
  gc_binance_stale_ms :: pyfloat
  gc_polymarket_stale_ms :: pyfloat
  gc_measurement_stale_ms :: pyfloat
  gc_pre_entry_log_cooldown_ms :: pyfloat
  gc_require_book_ready :: bool
  gc_book_warmup_max_ms :: pyfloat
  gc_validation_mode :: validation_mode
  gc_validation_tolerance_ticks :: int
  gc_close_pending_on_tick_size_change :: bool

type_synonym gap_key = "string \<times> string \<times> gap_direction"

record gap_detector =
  gd_config :: gap_config
  gd_markets :: "market_metadata list"
  gd_started_ns :: int
  gd_markets_by_symbol :: "(string \<times> market_metadata list) list"
  gd_markets_by_token :: "(string \<times> market_metadata) list"
  gd_tick_size_by_market :: "(string \<times> pyfloat) list"
  gd_pending :: "(gap_key \<times> pending_gap) list"
  gd_completed :: "gap_observation list"
  gd_invalid_markets :: "string list"
  gd_last_pre_entry_log :: "((string \<times> string \<times> gap_direction \<times> string) \<times> int) list"
  gd_reject_by_reason :: "string counter"
  gd_reject_by_stage :: "reject_stage counter"
  gd_moves_by_symbol :: "string counter"
  gd_candidates_by_symbol :: "string counter"
  gd_pre_entry_rejects_by_symbol :: "string counter"
  gd_window_rejects_by_symbol :: "string counter"
  gd_timeout_rejects_by_symbol :: "string counter"
  gd_suppressed_by_symbol :: "string counter"
  gd_non_fillable_by_symbol :: "string counter"
  gd_reject_reasons_by_symbol :: "(string \<times> string counter) list"
  gd_market_update_observations :: "gap_observation list"
  gd_duplicate_suppressed :: int
  gd_candidates_per_minute :: "string counter"
  gd_candidates_per_window :: "string counter"
  gd_detected_gaps :: int
  gd_fillable :: int
  gd_non_fillable :: int
  gd_pre_entry_written :: int
  gd_pre_entry_suppressed :: int
  gd_warmup_quotes :: int
  gd_book_warmup_suppressed :: int

end
