(* ===== verification/GapDetector.thy ===== *)
theory GapDetector
  imports GapTypes
begin

text \<open>
  The gap detector of \<open>app/strategy/gap_detector.py\<close>. A move of the reference market opens a
  pending gap per market whose quote can be bought; quotes, lifecycle events, the lifetime limit
  and the loss of the market close it, and each closed or rejected gap becomes an observation. The
  wall clock and the monotonic clock are arguments. An operation returns its observations or the
  exception it raises (from the decimal tick arithmetic) with the state it leaves.
\<close>

subsection \<open>Times, ages and rates\<close>

definition elapsed_ms :: "int \<Rightarrow> int \<Rightarrow> pyfloat" where
  "elapsed_ms start_ns end_ns = pymax fzero (ms_of_ns (end_ns - start_ns))"

definition optional_elapsed_ms :: "int option \<Rightarrow> int option \<Rightarrow> pyfloat option" where
  "optional_elapsed_ms start_ns end_ns = (case (start_ns, end_ns) of
     (Some a, Some b) \<Rightarrow> Some (elapsed_ms a b) | _ \<Rightarrow> None)"

definition float_diff :: "pyfloat option \<Rightarrow> pyfloat option \<Rightarrow> pyfloat option" where
  "float_diff after before = (case (after, before) of (Some a, Some b) \<Rightarrow> Some (fsub a b) | _ \<Rightarrow> None)"

definition spread_of :: "pyfloat option \<Rightarrow> pyfloat option \<Rightarrow> pyfloat option" where
  "spread_of bid ask = (case (bid, ask) of (Some b, Some a) \<Rightarrow> Some (pymax fzero (fsub a b)) | _ \<Rightarrow> None)"

definition coalesce :: "'a option \<Rightarrow> 'a option \<Rightarrow> 'a option" where
  "coalesce l r = (case l of Some x \<Rightarrow> Some x | None \<Rightarrow> r)"

definition optional_ticks :: "(pyfloat \<Rightarrow> pyfloat \<Rightarrow> py_error + pyfloat) \<Rightarrow> pyfloat option \<Rightarrow> pyfloat option
    \<Rightarrow> py_error + pyfloat option" where
  \<comment> \<open>\<open>_ticks\<close> with \<open>diff_to_ticks\<close>, \<open>_price_ticks\<close> with \<open>price_to_ticks\<close>\<close>
  "optional_ticks f v tick = (case (v, tick) of
     (Some x, Some t) \<Rightarrow> map_sum id Some (f x t) | _ \<Rightarrow> Inr None)"

definition quote_timestamp :: "polymarket_quote \<Rightarrow> int option" where
  "quote_timestamp q = or_int (pq_received_ts q) (or_int (local_received_ts q)
     (or_int (pq_event_ts q) (exchange_event_ts q)))"

definition stale_wall :: "int option \<Rightarrow> int \<Rightarrow> pyfloat \<Rightarrow> bool" where
  \<comment> \<open>\<open>_is_stale_wall\<close> and \<open>_is_stale_monotonic\<close>\<close>
  "stale_wall timestamp now stale_ms = (case timestamp of None \<Rightarrow> True
     | Some t \<Rightarrow> fless stale_ms (ms_of_ns (now - t)))"

definition stale_quote :: "polymarket_quote \<Rightarrow> int \<Rightarrow> int option \<Rightarrow> pyfloat \<Rightarrow> bool" where
  \<comment> \<open>\<open>_is_stale_quote\<close>\<close>
  "stale_quote q now_ts now_mono stale_ms = (case (recv_monotonic_ns q, now_mono) of
     (Some t, Some now) \<Rightarrow> stale_wall (Some t) now stale_ms
   | _ \<Rightarrow> stale_wall (quote_timestamp q) now_ts stale_ms)"

definition quote_has_initial_snapshot :: "polymarket_quote \<Rightarrow> bool" where
  "quote_has_initial_snapshot q \<longleftrightarrow> pq_book_has_snapshot q
     \<or> (pq_book_update_type q = None \<and> pq_book_complete q)"

definition min_quote_timestamp :: "polymarket_quote list \<Rightarrow> int option" where
  "min_quote_timestamp qs = (case [t. q \<leftarrow> qs, Some t \<leftarrow> [quote_timestamp q]] of [] \<Rightarrow> None
     | t # ts \<Rightarrow> Some (foldl min t ts))"

definition first_some :: "('q \<Rightarrow> 'a option) \<Rightarrow> 'q list \<Rightarrow> 'a option" where
  \<comment> \<open>\<open>_first_validation_error\<close> and \<open>_first_rate\<close>\<close>
  "first_some f qs = (case [x. q \<leftarrow> qs, Some x \<leftarrow> [f q]] of [] \<Rightarrow> None | x # _ \<Rightarrow> Some x)"

definition event_monotonic :: "market_event \<Rightarrow> int" where
  \<comment> \<open>the value of \<open>_event_monotonic(event)\<close>; the event's own timestamp is never missing\<close>
  "event_monotonic e = (case e of
     E_quote q \<Rightarrow> int_or (or_int (recv_monotonic_ns q) (or_int (pq_received_ts q) (local_received_ts q))) (ts_ns q)
   | E_lifecycle l \<Rightarrow> int_or (or_int (recv_monotonic_ns l) (or_int (ml_received_ts l) (local_received_ts l))) (ts_ns l)
   | E_tick t \<Rightarrow> int_or (or_int (recv_monotonic_ns t) (local_received_ts t)) (ts_ns t)
   | E_top t \<Rightarrow> int_or (or_int (recv_monotonic_ns t) (local_received_ts t)) (ts_ns t)
   | E_depth t \<Rightarrow> int_or (or_int (recv_monotonic_ns t) (local_received_ts t)) (ts_ns t))"

subsection \<open>Markets of a symbol\<close>

definition has_infix :: "string \<Rightarrow> string \<Rightarrow> bool" where
  \<comment> \<open>\<open>word in text\<close>\<close>
  "has_infix word text \<longleftrightarrow> sublist word text"

definition symbol_for_market :: "market_metadata \<Rightarrow> string option" where
  "symbol_for_market m =
     (if mm_base_asset m = Some ''BTC'' then Some ''BTCUSDT''
      else if mm_base_asset m = Some ''ETH'' then Some ''ETHUSDT''
      else let text = lower (mm_market_slug m @ '' '' @ mm_question m) in
        if has_infix ''btc'' text \<or> has_infix ''bitcoin'' text then Some ''BTCUSDT''
        else if has_infix ''eth'' text \<or> has_infix ''ethereum'' text then Some ''ETHUSDT''
        else None)"

definition group_markets :: "market_metadata list \<Rightarrow> (string \<times> market_metadata list) list" where
  \<comment> \<open>\<open>_markets_by_symbol\<close>\<close>
  "group_markets ms = fold (\<lambda>m d. case symbol_for_market m of None \<Rightarrow> d
     | Some s \<Rightarrow> AList.update s ((case map_of d s of None \<Rightarrow> [] | Some g \<Rightarrow> g) @ [m]) d) ms []"

definition markets_by_token :: "market_metadata list \<Rightarrow> (string \<times> market_metadata) list" where
  "markets_by_token ms = fold (\<lambda>(t, m). AList.update t m) [(t, m). m \<leftarrow> ms, t \<leftarrow> token_ids m] []"

definition tick_sizes :: "market_metadata list \<Rightarrow> (string \<times> pyfloat) list" where
  "tick_sizes ms = fold (\<lambda>m. AList.update (mm_market_id m) (mm_tick_size m))
     [m \<leftarrow> ms. fless fzero (mm_tick_size m)] []"

definition gap_detector_init :: "gap_config \<Rightarrow> market_metadata list \<Rightarrow> int \<Rightarrow> gap_detector" where
  "gap_detector_init cfg ms now = \<lparr>gd_config = cfg, gd_markets = ms, gd_started_ns = now,
     gd_markets_by_symbol = group_markets ms, gd_markets_by_token = markets_by_token ms,
     gd_tick_size_by_market = tick_sizes ms, gd_pending = [], gd_completed = [],
     gd_invalid_markets = [], gd_last_pre_entry_log = [], gd_reject_by_reason = [],
     gd_reject_by_stage = [], gd_moves_by_symbol = [], gd_candidates_by_symbol = [],
     gd_pre_entry_rejects_by_symbol = [], gd_window_rejects_by_symbol = [],
     gd_timeout_rejects_by_symbol = [], gd_suppressed_by_symbol = [], gd_non_fillable_by_symbol = [],
     gd_reject_reasons_by_symbol = [], gd_market_update_observations = [],
     gd_duplicate_suppressed = 0, gd_candidates_per_minute = [], gd_candidates_per_window = [],
     gd_detected_gaps = 0, gd_fillable = 0, gd_non_fillable = 0, gd_pre_entry_written = 0,
     gd_pre_entry_suppressed = 0, gd_warmup_quotes = 0, gd_book_warmup_suppressed = 0\<rparr>"

subsection \<open>Moves of the reference market\<close>

definition build_move_snapshot :: "symbol_state \<Rightarrow> move_snapshot" where
  "build_move_snapshot s = (let ret = (\<lambda>k. Option.bind (map_of (ss_rolling_returns s) k) id) in
     \<lparr>mv_return_1s = ret ''1s'', mv_return_5s = ret ''5s'', mv_return_15s = ret ''15s'',
      mv_return_30s = ret ''30s'', mv_volatility_30s = ss_volatility_30s s,
      mv_bid_ask_spread = ss_bid_ask_spread s\<rparr>)"

definition keyed_returns :: "move_snapshot \<Rightarrow> (string \<times> pyfloat) list" where
  "keyed_returns mv = [(k, v). (k, Some v) \<leftarrow> [(''1s'', mv_return_1s mv), (''5s'', mv_return_5s mv),
     (''15s'', mv_return_15s mv), (''30s'', mv_return_30s mv)]]"

definition strongest :: "move_snapshot \<Rightarrow> (string \<times> pyfloat) option" where
  \<comment> \<open>\<open>max(..., key=abs)\<close> keeps the first of equals; \<open>strongest_return\<close> and its key pick alike\<close>
  "strongest mv = (case keyed_returns mv of [] \<Rightarrow> None
     | x # xs \<Rightarrow> Some (foldl (\<lambda>m v. if fless (fabs (snd m)) (fabs (snd v)) then v else m) x xs))"

definition window_key_ms :: "string option \<Rightarrow> int" where
  \<comment> \<open>whole milliseconds, as all five constants are\<close>
  "window_key_ms key = (if key = Some ''1s'' then 1000 else if key = Some ''5s'' then 5000
     else if key = Some ''15s'' then 15000 else if key = Some ''30s'' then 30000 else 0)"

definition move_episode_of :: "string \<Rightarrow> gap_direction \<Rightarrow> string option \<Rightarrow> int \<Rightarrow> move_episode" where
  "move_episode_of symbol direction key event_ts_ns =
     (let window_ms = window_key_ms key; window_ns = window_ms * 1000000;
          bucket = event_ts_ns div max 1 window_ns; start_ts = bucket * window_ns
      in \<lparr>me_id = symbol @ '':'' @ direction_text direction @ '':'' @ int_digits window_ms @ '':'' @ int_digits bucket,
          me_window_ms = float_of_int window_ms, me_start_ts_ns = start_ts,
          me_end_ts_ns = start_ts + window_ns, me_bucket = bucket\<rparr>)"

subsection \<open>Gates and diagnostics\<close>

definition seconds_of :: "int \<Rightarrow> int" where
  "seconds_of now_ts = now_ts div 1000000000"

definition market_signal_enabled :: "market_metadata \<Rightarrow> int \<Rightarrow> bool" where
  "market_signal_enabled m now_ts \<longleftrightarrow> is_runtime_tradable_market m (seconds_of now_ts)
     \<and> classify_market_window m (seconds_of now_ts) = W_current_signal"

definition gap_classification_label :: "window_class \<Rightarrow> string" where
  "gap_classification_label c = (case c of W_current_signal \<Rightarrow> ''current'' | W_next_warmup \<Rightarrow> ''next''
     | W_future_tracked \<Rightarrow> ''future'' | W_active_but_not_accepting_orders \<Rightarrow> ''not_accepting''
     | _ \<Rightarrow> window_text c)"

definition book_readiness_gate :: "gap_detector \<Rightarrow> market_metadata \<Rightarrow> market_state \<Rightarrow> int \<Rightarrow> book_gate" where
  "book_readiness_gate d m st now_ts =
     (let quotes = [map_of (ms_polymarket_quotes st) t. Some t \<leftarrow> [mm_up_token_id m, mm_down_token_id m]];
          known = [q. Some q \<leftarrow> quotes];
          every = (\<lambda>f. list_all (\<lambda>q. case q of None \<Rightarrow> False | Some q \<Rightarrow> f q) quotes);
          has_snapshot = (2 \<le> length quotes \<and> every quote_has_initial_snapshot);
          legacy_ready = (known \<noteq> [] \<and> list_all (\<lambda>q. pq_book_update_type q = None \<and> pq_book_complete q) known);
          both_ready = (has_snapshot \<or> legacy_ready);
          warmup_ms = elapsed_ms (int_or (min_quote_timestamp known) (gd_started_ns d)) now_ts;
          timeout = (\<not> both_ready \<and> fle (gc_book_warmup_max_ms (gd_config d)) warmup_ms)
      in \<lparr>bg_suppress = (gc_require_book_ready (gd_config d) \<and> \<not> both_ready \<and> \<not> timeout),
          bg_warmup_ms = Some warmup_ms, bg_warmup_timeout = timeout, bg_book_complete = both_ready,
          bg_book_has_snapshot = has_snapshot,
          bg_book_structurally_complete = (2 \<le> length quotes \<and> every pq_book_structurally_complete),
          bg_reported_best_validation_ok = (known \<noteq> [] \<and> list_all pq_reported_best_validation_ok known),
          bg_validation_error = first_some pq_validation_error known,
          bg_market_classification = Some (gap_classification_label (classify_market_window m (seconds_of now_ts))),
          bg_signal_enabled = market_signal_enabled m now_ts,
          bg_market_mismatch_rate = first_some pq_market_mismatch_rate known,
          bg_token_mismatch_rate = first_some pq_token_mismatch_rate known,
          bg_market_quote_complete_rate = first_some pq_market_quote_complete_rate known,
          bg_token_quote_complete_rate = first_some pq_token_quote_complete_rate known\<rparr>)"

definition tick_size_for_market :: "gap_detector \<Rightarrow> market_metadata \<Rightarrow> pyfloat option" where
  "tick_size_for_market d m =
     (let t = (case map_of (gd_tick_size_by_market d) (mm_market_id m) of Some t \<Rightarrow> t | None \<Rightarrow> mm_tick_size m)
      in if fless fzero t then Some t else None)"

definition effective_reprice_threshold :: "gap_detector \<Rightarrow> market_metadata \<Rightarrow> pyfloat" where
  "effective_reprice_threshold d m = (case tick_size_for_market d m of
     None \<Rightarrow> gc_reprice_threshold (gd_config d)
   | Some t \<Rightarrow> pymax (gc_reprice_threshold (gd_config d)) t)"

definition stale_diagnostics_of ::
  "gap_detector \<Rightarrow> string \<Rightarrow> polymarket_quote option \<Rightarrow> market_state \<Rightarrow> int \<Rightarrow> int \<Rightarrow> stale_diagnostics" where
  "stale_diagnostics_of d symbol quote st now_ts now_mono =
     (let cfg = gd_config d; ss = map_of (ms_symbols st) symbol;
          last_binance = Option.bind ss (\<lambda>s. or_int (ss_recv_monotonic_ns s) (ss_parse_done_monotonic_ns s));
          last_poly = Option.bind quote (\<lambda>q. or_int (recv_monotonic_ns q) (parse_done_monotonic_ns q));
          has_now = (now_mono \<noteq> now_ts);
          binance_age = (if has_now then optional_elapsed_ms last_binance (Some now_mono) else None);
          poly_age = (if has_now then optional_elapsed_ms last_poly (Some now_mono) else None);
          book_stale = (case quote of None \<Rightarrow> False | Some q \<Rightarrow> pq_book_stale q);
          has_quote_mono = (case quote of None \<Rightarrow> False
            | Some q \<Rightarrow> recv_monotonic_ns q \<noteq> None \<or> parse_done_monotonic_ns q \<noteq> None);
          source = (if book_stale \<and> \<not> has_quote_mono \<and> last_binance = None then SS_unknown
            else case (binance_age, poly_age) of
              (Some b, Some p) \<Rightarrow>
                let binance_stale = fless (gc_binance_stale_ms cfg) b;
                    poly_stale = (fless (gc_polymarket_stale_ms cfg) p \<or> book_stale)
                in if binance_stale \<and> poly_stale then SS_both else if binance_stale then SS_binance
                   else if poly_stale then SS_polymarket else SS_unknown
            | _ \<Rightarrow> SS_unknown)
      in \<lparr>sd_stale_source = Some source, sd_binance_quote_age_ms = binance_age,
          sd_polymarket_quote_age_ms = poly_age, sd_now_monotonic_ns = Some now_mono,
          sd_last_binance_update_monotonic_ns = last_binance,
          sd_last_polymarket_update_monotonic_ns = last_poly,
          sd_binance_local_received_ts_ns = Option.bind ss ss_local_receive_timestamp,
          sd_polymarket_event_ts_ns = Option.bind quote (\<lambda>q. or_int (exchange_event_ts q) (pq_event_ts q)),
          sd_polymarket_local_received_ts_ns = Option.bind quote local_received_ts,
          sd_state_updated_monotonic_ns = Option.bind quote (\<lambda>q. or_int (state_updated_monotonic_ns q)
            (or_int (parse_done_monotonic_ns q) (recv_monotonic_ns q))),
          sd_detector_processed_monotonic_ns = Some now_mono\<rparr>)"

definition no_stale_diagnostics :: stale_diagnostics where
  "no_stale_diagnostics = \<lparr>sd_stale_source = None, sd_binance_quote_age_ms = None,
     sd_polymarket_quote_age_ms = None, sd_now_monotonic_ns = None,
     sd_last_binance_update_monotonic_ns = None, sd_last_polymarket_update_monotonic_ns = None,
     sd_binance_local_received_ts_ns = None, sd_polymarket_event_ts_ns = None,
     sd_polymarket_local_received_ts_ns = None, sd_state_updated_monotonic_ns = None,
     sd_detector_processed_monotonic_ns = None\<rparr>"

definition data_quality ::
  "bool \<Rightarrow> bool option \<Rightarrow> bool option \<Rightarrow> bool option \<Rightarrow> string option \<Rightarrow> validation_mode option
     \<Rightarrow> pyfloat option \<Rightarrow> pyfloat option \<Rightarrow> pyfloat option \<Rightarrow> pyfloat option \<Rightarrow> quality_tier \<times> string" where
  "data_quality was_fillable has_snapshot structurally_complete reported_ok error mode complete_rate
       best_ask_size best_bid_size tick_size =
     (let reported = (case error of None \<Rightarrow> False | Some e \<Rightarrow> take 14 e = ''reported_best_'') in
      if tick_size = None then (Tier_D, ''missing_tick_size'')
      else if error \<in> {Some ''quote_stale'', Some ''book_stale''} then (Tier_D, ''quote_stale'')
      else if error \<in> {Some ''missing_best_ask_size'', Some ''best_ask_size_unknown'', Some ''best_bid_size_unknown''}
        then (Tier_D, ''size_unknown'')
      else if was_fillable \<and> best_ask_size = None then (Tier_D, ''size_unknown'')
      else if has_snapshot \<noteq> Some True then (Tier_D, ''missing_snapshot'')
      else if structurally_complete \<noteq> Some True then (Tier_D, ''structurally_incomplete'')
      else if mode = Some Diagnostic then (Tier_C, ''diagnostic_mode_only'')
      else if (case complete_rate of None \<Rightarrow> False | Some r \<Rightarrow> fless r (f64 (85 / 100)))
        then (Tier_C, ''low_quote_complete_rate'')
      else if mode = Some Tolerant \<and> reported then (Tier_B, ''tolerated_one_tick_mismatch'')
      else if reported_ok = Some True
            \<and> (case complete_rate of None \<Rightarrow> True | Some r \<Rightarrow> fle (f64 (95 / 100)) r) then
        (if best_bid_size = None \<and> error \<in> {None, Some []} then (Tier_B, ''size_unknown'')
         else (Tier_A, ''clean_validated''))
      else if reported_ok = Some True then (Tier_B, ''clean_validated'')
      else (Tier_C, str_or error ''weaker_validation_quality''))"

end
