(* ===== verification/GapOps.thy ===== *)
theory GapOps
  imports GapDetector
begin

text \<open>
  The observations of the gap detector and its handlers: opening gaps on a move of the reference
  market, closing them on quotes, lifecycle events, timeouts and changes of the market list.
\<close>

type_synonym 'a gap_result = "(py_error + 'a) \<times> gap_detector"

subsection \<open>Reasons\<close>

definition has_executable_repriced :: "gap_detector \<Rightarrow> pending_gap \<Rightarrow> polymarket_quote \<Rightarrow> bool" where
  "has_executable_repriced d p q = (case pq_best_bid q of None \<Rightarrow> False
     | Some bid \<Rightarrow> fless (fadd (pd_entry_ask p) (gc_min_exit_edge (gd_config d))) bid)"

definition structural_window_end_reason ::
  "gap_detector \<Rightarrow> pending_gap \<Rightarrow> polymarket_quote \<Rightarrow> market_state \<Rightarrow> int \<Rightarrow> int \<Rightarrow> string option" where
  "structural_window_end_reason d p q st now_ts now_mono =
     (let diag = stale_diagnostics_of d (pd_symbol p) (Some q) st now_ts now_mono in
      if pq_book_stale q \<or> stale_quote q now_ts (Some now_mono) (gc_polymarket_stale_ms (gd_config d))
         \<or> sd_stale_source diag \<in> {Some SS_binance, Some SS_both} then Some ''quote_stale''
      else if mm_market_id (pd_market p) \<in> set (gd_invalid_markets d) then Some ''market_invalidated''
      else if \<not> pq_book_complete q then Some ''book_incomplete''
      else None)"

definition entry_window_end_reason :: "gap_detector \<Rightarrow> pending_gap \<Rightarrow> polymarket_quote \<Rightarrow> string option" where
  "entry_window_end_reason d p q = (case pq_best_ask q of None \<Rightarrow> Some ''missing_best_ask''
     | Some ask \<Rightarrow> (case pq_best_ask_size q of None \<Rightarrow> Some ''missing_best_ask_size''
         | Some ask_size \<Rightarrow>
             if fless ask_size (mm_min_order_size (pd_market p)) then Some ''insufficient_best_ask_size''
             else (case pq_spread q of None \<Rightarrow> Some ''missing_spread''
               | Some spread \<Rightarrow>
                   if fless (gc_max_entry_spread (gd_config d)) spread then Some ''spread_too_wide''
                   else if fless (fadd (pd_entry_ask p) (gc_max_entry_price_move (gd_config d))) ask
                   then Some ''entry_price_moved'' else None)))"

definition timeout_reason :: "gap_detector \<Rightarrow> pending_gap \<Rightarrow> int \<Rightarrow> string option" where
  "timeout_reason d p now_mono =
     (if fless (gc_max_pending_gap_ms (gd_config d)) (elapsed_ms (pd_first_detected_monotonic_ns p) now_mono)
      then Some ''max_observation_lifetime_reached'' else None)"

definition fillable_before_repricing :: "gap_detector \<Rightarrow> market_metadata \<Rightarrow> polymarket_quote \<Rightarrow> string option" where
  \<comment> \<open>\<open>None\<close> when the quote can be bought, otherwise the reason\<close>
  "fillable_before_repricing d m q =
     (if \<not> pq_book_complete q then Some ''book_incomplete''
      else if pq_book_stale q then Some ''book_stale''
      else (case pq_best_ask q of None \<Rightarrow> Some ''missing_best_ask''
        | Some _ \<Rightarrow> (case pq_best_ask_size q of None \<Rightarrow> Some ''missing_best_ask_size''
            | Some ask_size \<Rightarrow>
                if fless ask_size (mm_min_order_size m) then Some ''insufficient_best_ask_size''
                else (case pq_spread q of None \<Rightarrow> Some ''missing_spread''
                  | Some spread \<Rightarrow> if fless (gc_max_entry_spread (gd_config d)) spread
                      then Some ''spread_too_wide'' else None))))"

definition exit_reject_reason :: "pending_gap \<Rightarrow> string option" where
  "exit_reject_reason p = (case pd_reject_stage p of
     RS_timeout \<Rightarrow>
       (if pd_first_mid_repriced_ts_ns p = None then Some ''no_mid_repricing_before_timeout''
        else if pd_first_executable_repriced_ts_ns p = None
        then Some ''no_executable_repricing_before_timeout'' else None)
   | RS_exit \<Rightarrow> pd_exit_reject_reason p
   | _ \<Rightarrow> None)"

definition final_reject_reason :: "pending_gap \<Rightarrow> string option \<Rightarrow> string option" where
  "final_reject_reason p exit_reason = (case pd_reject_stage p of
     RS_none \<Rightarrow> None
   | RS_window \<Rightarrow> pd_window_end_reason p
   | RS_exit \<Rightarrow> exit_reason
   | _ \<Rightarrow> pd_close_reason p)"

definition tradable_window_ms :: "pending_gap \<Rightarrow> pyfloat" where
  "tradable_window_ms p =
     elapsed_ms (pd_first_detected_monotonic_ns p)
       (int_or (or_int (pd_first_non_tradable_monotonic_ns p)
          (or_int (pd_first_executable_repriced_monotonic_ns p) (pd_current_quote_monotonic_ns p)))
        (pd_last_tradable_monotonic_ns p))"

subsection \<open>Observations\<close>

definition ticks_of_values ::
  "pyfloat option \<Rightarrow> (pyfloat \<Rightarrow> pyfloat \<Rightarrow> py_error + pyfloat) list \<Rightarrow> pyfloat option list
     \<Rightarrow> py_error + pyfloat option list" where
  \<comment> \<open>the conversions of an observation in their order, up to the first that raises\<close>
  "ticks_of_values tick fs vs = foldl (\<lambda>acc (f, v). case acc of Inl e \<Rightarrow> Inl e
     | Inr xs \<Rightarrow> map_sum id (\<lambda>x. xs @ [x]) (optional_ticks f v tick)) (Inr []) (zip fs vs)"

definition observation_from_pending :: "gap_detector \<Rightarrow> pending_gap \<Rightarrow> py_error + gap_observation" where
  "observation_from_pending d p =
     (let m = pd_market p; tick = pd_tick_size p;
          exec_delay = optional_elapsed_ms (Some (pd_first_detected_monotonic_ns p)) (pd_first_executable_repriced_monotonic_ns p);
          exit_edge = float_diff (pd_executable_exit_bid p) (Some (pd_entry_ask p));
          raw_edge = float_diff (pd_current_mid p) (pd_before_mid p);
          exit_reason = exit_reject_reason p;
          spread = or_float (pd_spread_at_detection p) (pd_spread_before p);
          threshold = effective_reprice_threshold d m;
          (tier, tier_reason) = data_quality True (pd_book_has_snapshot p)
            (pd_book_structurally_complete p) (pd_reported_best_validation_ok p)
            (pd_book_validation_error p) (pd_validation_mode p) (pd_market_quote_complete_rate p)
            (Some (pd_before_best_ask_size p)) (pd_current_best_bid_size p) tick
      in case ticks_of_values tick
            [diff_to_ticks, price_to_ticks, diff_to_ticks, diff_to_ticks, diff_to_ticks, diff_to_ticks]
            [spread, Some (pd_entry_ask p), exit_edge, raw_edge,
             Some (gc_reprice_threshold (gd_config d)), Some threshold] of
         Inl e \<Rightarrow> Inl e
       | Inr ts \<Rightarrow> Inr \<lparr>go_symbol = pd_symbol p, go_market_id = mm_market_id m,
           go_market_slug = Some (mm_market_slug m), go_base_asset = mm_base_asset m,
           go_duration_minutes = mm_duration_minutes m, go_token_id = pd_token_id p,
           go_direction = pd_direction p, go_binance_move_pct = pd_binance_move_pct p,
           go_move_episode_id = Some (me_id (pd_episode p)),
           go_source_move_window_ms = Some (me_window_ms (pd_episode p)),
           go_source_move_start_ts_ns = Some (me_start_ts_ns (pd_episode p)),
           go_source_move_end_ts_ns = Some (me_end_ts_ns (pd_episode p)),
           go_detected_ts_ns = pd_first_detected_ts_ns p,
           go_binance_event_ts_ns = pd_binance_event_ts_ns p,
           go_poly_quote_ts_ns = or_int (pd_current_quote_ts_ns p) (pd_poly_quote_ts_ns p),
           go_before_best_bid = pd_before_best_bid p, go_before_best_ask = Some (pd_before_best_ask p),
           go_before_best_bid_size = pd_before_best_bid_size p,
           go_before_best_ask_size = Some (pd_before_best_ask_size p), go_before_mid = pd_before_mid p,
           go_after_best_bid = pd_current_best_bid p, go_after_best_ask = pd_current_best_ask p,
           go_after_mid = pd_current_mid p, go_spread_before = pd_spread_before p,
           go_spread_after = pd_current_spread p,
           go_mid_repricing_delay_ms = optional_elapsed_ms (Some (pd_first_detected_monotonic_ns p))
             (pd_first_mid_repriced_monotonic_ns p),
           go_executable_repricing_delay_ms = exec_delay,
           go_first_mid_repriced_ts_ns = pd_first_mid_repriced_ts_ns p,
           go_first_executable_repriced_ts_ns = pd_first_executable_repriced_ts_ns p,
           go_executable_exit_bid = pd_executable_exit_bid p, go_entry_ask = Some (pd_entry_ask p),
           go_entry_ask_size = Some (pd_entry_ask_size p), go_exit_edge_after_spread = exit_edge,
           go_tick_size_at_detection = tick, go_spread_at_detection = spread,
           go_spread_ticks_at_detection = ts ! 0, go_entry_ask_ticks = ts ! 1,
           go_exit_edge_ticks = ts ! 2, go_estimated_edge_ticks = ts ! 3,
           go_reprice_threshold_ticks = ts ! 4, go_effective_reprice_threshold = Some threshold,
           go_effective_reprice_threshold_ticks = ts ! 5, go_repricing_delay_ms = exec_delay,
           go_tradable_window_ms = Some (tradable_window_ms p),
           go_hypothetical_entry_price = Some (pd_entry_ask p),
           go_hypothetical_exit_price = or_float (pd_executable_exit_bid p) (pd_current_best_bid p),
           go_quote_was_fillable = True, go_estimated_edge_raw = raw_edge,
           go_estimated_edge_after_spread = (if pd_reject_stage p = RS_none then exit_edge else None),
           go_market_classification = pd_market_classification p,
           go_signal_enabled = pd_signal_enabled p, go_book_complete = pd_book_complete p,
           go_book_has_snapshot = pd_book_has_snapshot p,
           go_book_structurally_complete = pd_book_structurally_complete p,
           go_reported_best_validation_ok = pd_reported_best_validation_ok p,
           go_book_validation_error = pd_book_validation_error p,
           go_book_warmup_ms = pd_book_warmup_ms p, go_book_warmup_timeout = pd_book_warmup_timeout p,
           go_stale = pd_stale p, go_validation_mode = pd_validation_mode p,
           go_validation_tolerance_ticks = pd_validation_tolerance_ticks p,
           go_market_mismatch_rate = pd_market_mismatch_rate p,
           go_token_mismatch_rate = pd_token_mismatch_rate p,
           go_market_quote_complete_rate = pd_market_quote_complete_rate p,
           go_token_quote_complete_rate = pd_token_quote_complete_rate p,
           go_data_quality_tier = Some tier, go_data_quality_reason = Some tier_reason,
           go_pre_entry_reject_reason = pd_pre_entry_reject_reason p,
           go_window_end_reason = pd_window_end_reason p, go_exit_reject_reason = exit_reason,
           go_reject_stage = pd_reject_stage p,
           go_reject_reason = final_reject_reason p exit_reason\<rparr>)"

record price_move =
  \<comment> \<open>a move of the reference market while its markets are examined\<close>
  mo_symbol :: string
  mo_direction :: gap_direction
  mo_pct :: pyfloat
  mo_now_ts :: int
  mo_now_mono :: int
  mo_event_ts :: "int option"
  mo_episode :: move_episode

record candidate =
  ca_move :: price_move
  ca_market :: market_metadata
  ca_gate :: book_gate

definition pre_entry_observation ::
  "gap_detector \<Rightarrow> market_state \<Rightarrow> candidate \<Rightarrow> string \<Rightarrow> polymarket_quote option \<Rightarrow> string
     \<Rightarrow> py_error + gap_observation" where
  "pre_entry_observation d st c token_id quote reason =
     (let m = ca_market c; gate = ca_gate c; tick = tick_size_for_market d m;
          flag = (\<lambda>f g. Some (case quote of None \<Rightarrow> g gate | Some q \<Rightarrow> f q));
          rate = (\<lambda>f g. coalesce (Option.bind quote f) (g gate));
          entry_ask = Option.bind quote pq_best_ask; entry_ask_size = Option.bind quote pq_best_ask_size;
          spread = Option.bind quote (\<lambda>q. spread_of (pq_best_bid q) (pq_best_ask q));
          threshold = effective_reprice_threshold d m;
          error = (case quote of None \<Rightarrow> bg_validation_error gate | Some q \<Rightarrow> pq_validation_error q);
          has_snapshot = flag pq_book_has_snapshot bg_book_has_snapshot;
          structurally_complete = flag pq_book_structurally_complete bg_book_structurally_complete;
          reported_ok = flag pq_reported_best_validation_ok bg_reported_best_validation_ok;
          complete_rate = rate pq_market_quote_complete_rate bg_market_quote_complete_rate;
          (tier, tier_reason) = data_quality False has_snapshot structurally_complete reported_ok
            (Some (str_or error reason)) (Some (gc_validation_mode (gd_config d))) complete_rate
            entry_ask_size (Option.bind quote pq_best_bid_size) tick
      in case ticks_of_values tick [diff_to_ticks, price_to_ticks, diff_to_ticks, diff_to_ticks, diff_to_ticks]
            [spread, entry_ask, None, Some (gc_reprice_threshold (gd_config d)), Some threshold] of
         Inl e \<Rightarrow> Inl e
       | Inr ts \<Rightarrow> Inr \<lparr>go_symbol = mo_symbol (ca_move c), go_market_id = mm_market_id m,
           go_market_slug = Some (mm_market_slug m), go_base_asset = mm_base_asset m,
           go_duration_minutes = mm_duration_minutes m, go_token_id = token_id,
           go_direction = mo_direction (ca_move c), go_binance_move_pct = mo_pct (ca_move c),
           go_move_episode_id = Some (me_id (mo_episode (ca_move c))),
           go_source_move_window_ms = Some (me_window_ms (mo_episode (ca_move c))),
           go_source_move_start_ts_ns = Some (me_start_ts_ns (mo_episode (ca_move c))),
           go_source_move_end_ts_ns = Some (me_end_ts_ns (mo_episode (ca_move c))),
           go_detected_ts_ns = mo_now_ts (ca_move c), go_binance_event_ts_ns = mo_event_ts (ca_move c),
           go_poly_quote_ts_ns = Option.bind quote quote_timestamp,
           go_before_best_bid = Option.bind quote pq_best_bid, go_before_best_ask = Option.bind quote pq_best_ask,
           go_before_best_bid_size = Option.bind quote pq_best_bid_size,
           go_before_best_ask_size = Option.bind quote pq_best_ask_size, go_before_mid = Option.bind quote pq_mid_price,
           go_after_best_bid = Option.bind quote pq_best_bid, go_after_best_ask = Option.bind quote pq_best_ask,
           go_after_mid = Option.bind quote pq_mid_price, go_spread_before = Option.bind quote pq_spread,
           go_spread_after = Option.bind quote pq_spread, go_mid_repricing_delay_ms = None,
           go_executable_repricing_delay_ms = None, go_first_mid_repriced_ts_ns = None,
           go_first_executable_repriced_ts_ns = None, go_executable_exit_bid = None,
           go_entry_ask = entry_ask, go_entry_ask_size = entry_ask_size,
           go_exit_edge_after_spread = None, go_tick_size_at_detection = tick,
           go_spread_at_detection = spread, go_spread_ticks_at_detection = ts ! 0,
           go_entry_ask_ticks = ts ! 1, go_exit_edge_ticks = None, go_estimated_edge_ticks = ts ! 2,
           go_reprice_threshold_ticks = ts ! 3, go_effective_reprice_threshold = Some threshold,
           go_effective_reprice_threshold_ticks = ts ! 4, go_repricing_delay_ms = None,
           go_tradable_window_ms = Some fzero, go_hypothetical_entry_price = entry_ask,
           go_hypothetical_exit_price = None, go_quote_was_fillable = False,
           go_estimated_edge_raw = None, go_estimated_edge_after_spread = None,
           go_market_classification = bg_market_classification gate,
           go_signal_enabled = Some (bg_signal_enabled gate),
           go_book_complete = flag pq_book_complete bg_book_complete,
           go_book_has_snapshot = has_snapshot, go_book_structurally_complete = structurally_complete,
           go_reported_best_validation_ok = reported_ok, go_book_validation_error = error,
           go_book_warmup_ms = bg_warmup_ms gate, go_book_warmup_timeout = bg_warmup_timeout gate,
           go_stale = stale_diagnostics_of d (mo_symbol (ca_move c)) quote st (mo_now_ts (ca_move c)) (mo_now_mono (ca_move c)),
           go_validation_mode = Some (gc_validation_mode (gd_config d)),
           go_validation_tolerance_ticks = Some (gc_validation_tolerance_ticks (gd_config d)),
           go_market_mismatch_rate = rate pq_market_mismatch_rate bg_market_mismatch_rate,
           go_token_mismatch_rate = rate pq_token_mismatch_rate bg_token_mismatch_rate,
           go_market_quote_complete_rate = complete_rate,
           go_token_quote_complete_rate = rate pq_token_quote_complete_rate bg_token_quote_complete_rate,
           go_data_quality_tier = Some tier, go_data_quality_reason = Some tier_reason,
           go_pre_entry_reject_reason = Some reason, go_window_end_reason = None,
           go_exit_reject_reason = None, go_reject_stage = RS_pre_entry,
           go_reject_reason = Some reason\<rparr>)"

end
