(* ===== verification/GapFlow.thy ===== *)
theory GapFlow
  imports GapOps
begin

text \<open>
  The handlers of the gap detector: what a reject and an observation record, opening gaps on a move
  of the reference market, closing them on quotes, lifecycle events, timeouts and changes of the
  market list, and the dispatch of \<open>on_market_event\<close>. A pending gap is an object that its handler
  mutates in place: it is put back under its key, also when an exception ends the handler.
\<close>

subsection \<open>Recording\<close>

definition record_reject :: "string \<Rightarrow> reject_stage \<Rightarrow> gap_detector \<Rightarrow> gap_detector" where
  "record_reject reason stage d = d\<lparr>gd_reject_by_reason := ctr_inc reason (gd_reject_by_reason d),
     gd_reject_by_stage := ctr_inc stage (gd_reject_by_stage d)\<rparr>"

definition record_observation_diagnostics :: "gap_observation \<Rightarrow> gap_detector \<Rightarrow> gap_detector" where
  "record_observation_diagnostics ob d =
     (let symbol = go_symbol ob;
          d1 = (case go_reject_stage ob of
              RS_pre_entry \<Rightarrow> d\<lparr>gd_pre_entry_rejects_by_symbol := ctr_inc symbol (gd_pre_entry_rejects_by_symbol d)\<rparr>
            | RS_window \<Rightarrow> d\<lparr>gd_window_rejects_by_symbol := ctr_inc symbol (gd_window_rejects_by_symbol d)\<rparr>
            | RS_timeout \<Rightarrow> d\<lparr>gd_timeout_rejects_by_symbol := ctr_inc symbol (gd_timeout_rejects_by_symbol d)\<rparr>
            | _ \<Rightarrow> d)
      in case go_reject_reason ob of None \<Rightarrow> d1
       | Some reason \<Rightarrow> d1\<lparr>gd_reject_reasons_by_symbol := AList.update symbol
           (ctr_inc reason (case map_of (gd_reject_reasons_by_symbol d1) symbol of None \<Rightarrow> [] | Some c \<Rightarrow> c))
           (gd_reject_reasons_by_symbol d1)\<rparr>)"

definition complete_observation :: "gap_observation \<Rightarrow> reject_stage \<Rightarrow> gap_detector \<Rightarrow> gap_detector" where
  \<comment> \<open>the common end of \<open>_close_pending\<close> and \<open>_record_pre_entry_observation\<close>\<close>
  "complete_observation ob stage d =
     (let d1 = (case go_reject_reason ob of None \<Rightarrow> d | Some reason \<Rightarrow> record_reject reason stage d);
          d2 = record_observation_diagnostics ob d1
      in d2\<lparr>gd_completed := gd_completed d2 @ [ob]\<rparr>)"

definition record_pre_entry_observation ::
  "gap_observation \<Rightarrow> gap_detector \<Rightarrow> gap_observation option \<times> gap_detector" where
  "record_pre_entry_observation ob d =
     (let d1 = d\<lparr>gd_non_fillable := gd_non_fillable d + 1,
                 gd_non_fillable_by_symbol := ctr_inc (go_symbol ob) (gd_non_fillable_by_symbol d)\<rparr>;
          key = (go_symbol ob, go_market_id ob, go_direction ob,
                 str_or (or_str (go_pre_entry_reject_reason ob) (go_reject_reason ob)) '''');
          cooling = (case map_of (gd_last_pre_entry_log d1) key of None \<Rightarrow> False
            | Some t \<Rightarrow> fless (elapsed_ms t (go_detected_ts_ns ob)) (gc_pre_entry_log_cooldown_ms (gd_config d1)))
      in if cooling
         then (None, d1\<lparr>gd_pre_entry_suppressed := gd_pre_entry_suppressed d1 + 1,
                  gd_suppressed_by_symbol := ctr_inc (go_symbol ob) (gd_suppressed_by_symbol d1)\<rparr>)
         else (Some ob, complete_observation ob RS_pre_entry
                (d1\<lparr>gd_last_pre_entry_log := AList.update key (go_detected_ts_ns ob) (gd_last_pre_entry_log d1),
                    gd_pre_entry_written := gd_pre_entry_written d1 + 1\<rparr>)))"

definition reject_candidate ::
  "market_state \<Rightarrow> candidate \<Rightarrow> string \<Rightarrow> polymarket_quote option \<Rightarrow> string \<Rightarrow> gap_detector
     \<Rightarrow> gap_observation option gap_result" where
  \<comment> \<open>\<open>_append_pre_entry_observation\<close> of the candidate's observation\<close>
  "reject_candidate st c token_id quote reason d =
     (case pre_entry_observation d st c token_id quote reason of Inl e \<Rightarrow> (Inl e, d)
      | Inr ob \<Rightarrow> map_prod Inr id (record_pre_entry_observation ob d))"

definition put_pending :: "gap_key \<Rightarrow> pending_gap \<Rightarrow> gap_detector \<Rightarrow> gap_detector" where
  "put_pending key p d = d\<lparr>gd_pending := AList.update key p (gd_pending d)\<rparr>"

definition close_pending :: "gap_key \<Rightarrow> pending_gap \<Rightarrow> gap_detector \<Rightarrow> gap_observation gap_result" where
  "close_pending key p d =
     (case observation_from_pending d p of Inl e \<Rightarrow> (Inl e, put_pending key p d)
      | Inr ob \<Rightarrow> (let d1 = complete_observation ob (go_reject_stage ob) d
          in (Inr ob, d1\<lparr>gd_pending := AList.delete key (gd_pending d1)\<rparr>)))"

fun gap_loop :: "('x \<Rightarrow> gap_detector \<Rightarrow> gap_observation option gap_result) \<Rightarrow> 'x list \<Rightarrow> gap_detector
    \<Rightarrow> gap_observation list gap_result" where
  \<comment> \<open>a loop that collects the observations of its steps until one raises\<close>
  "gap_loop f [] d = (Inr [], d)"
| "gap_loop f (x # xs) d = (case f x d of (Inl e, d1) \<Rightarrow> (Inl e, d1)
     | (Inr ob, d1) \<Rightarrow> (case gap_loop f xs d1 of (Inl e, d2) \<Rightarrow> (Inl e, d2)
         | (Inr obs, d2) \<Rightarrow> (Inr ((case ob of None \<Rightarrow> [] | Some ob \<Rightarrow> [ob]) @ obs), d2)))"

abbreviation closing :: "gap_observation gap_result \<Rightarrow> gap_observation option gap_result" where
  "closing r \<equiv> map_prod (map_sum id Some) id r"

subsection \<open>A move of the reference market\<close>

definition format_g :: "pyfloat \<Rightarrow> string" where
  \<comment> \<open>the format \<open>g\<close> of a whole number below a million; the window lengths are such\<close>
  "format_g x = (case x of Fin r \<Rightarrow> int_digits \<lfloor>r\<rfloor> | _ \<Rightarrow> [])"

definition pending_of_quote ::
  "gap_detector \<Rightarrow> market_state \<Rightarrow> candidate \<Rightarrow> string \<Rightarrow> polymarket_quote \<Rightarrow> pyfloat \<Rightarrow> pyfloat \<Rightarrow> pending_gap" where
  "pending_of_quote d st c token_id q ask ask_size =
     (let quote_ts = quote_timestamp q; gate = ca_gate c in
      \<lparr>pd_symbol = mo_symbol (ca_move c), pd_market = ca_market c, pd_direction = mo_direction (ca_move c),
       pd_token_id = token_id, pd_binance_move_pct = mo_pct (ca_move c),
       pd_first_detected_ts_ns = mo_now_ts (ca_move c), pd_first_detected_monotonic_ns = mo_now_mono (ca_move c),
       pd_binance_event_ts_ns = mo_event_ts (ca_move c), pd_poly_quote_ts_ns = quote_ts,
       pd_before_best_bid = pq_best_bid q, pd_before_best_ask = ask,
       pd_before_best_bid_size = pq_best_bid_size q, pd_before_best_ask_size = ask_size,
       pd_before_mid = pq_mid_price q, pd_spread_before = pq_spread q,
       pd_tick_size = tick_size_for_market d (ca_market c),
       pd_spread_at_detection = spread_of (pq_best_bid q) (pq_best_ask q),
       pd_entry_ask = ask, pd_entry_ask_size = ask_size, pd_last_tradable_ts_ns = mo_now_ts (ca_move c),
       pd_last_tradable_monotonic_ns = mo_now_mono (ca_move c), pd_first_non_tradable_ts_ns = None,
       pd_first_non_tradable_monotonic_ns = None, pd_first_mid_repriced_ts_ns = None,
       pd_first_mid_repriced_monotonic_ns = None, pd_first_executable_repriced_ts_ns = None,
       pd_first_executable_repriced_monotonic_ns = None, pd_executable_exit_bid = None,
       pd_current_best_bid = pq_best_bid q, pd_current_best_ask = pq_best_ask q,
       pd_current_best_bid_size = pq_best_bid_size q, pd_current_best_ask_size = pq_best_ask_size q,
       pd_current_mid = pq_mid_price q, pd_current_spread = pq_spread q,
       pd_current_quote_ts_ns = quote_ts,
       pd_current_quote_monotonic_ns = Some (int_or (recv_monotonic_ns q) (mo_now_mono (ca_move c))),
       pd_market_classification = bg_market_classification gate,
       pd_signal_enabled = Some (bg_signal_enabled gate), pd_book_complete = Some (pq_book_complete q),
       pd_book_has_snapshot = Some (pq_book_has_snapshot q),
       pd_book_structurally_complete = Some (pq_book_structurally_complete q),
       pd_reported_best_validation_ok = Some (pq_reported_best_validation_ok q),
       pd_book_validation_error = pq_validation_error q, pd_book_warmup_ms = bg_warmup_ms gate,
       pd_book_warmup_timeout = bg_warmup_timeout gate,
       pd_validation_mode = Some (gc_validation_mode (gd_config d)),
       pd_validation_tolerance_ticks = Some (gc_validation_tolerance_ticks (gd_config d)),
       pd_market_mismatch_rate = or_float (pq_market_mismatch_rate q) (bg_market_mismatch_rate gate),
       pd_token_mismatch_rate = or_float (pq_token_mismatch_rate q) (bg_token_mismatch_rate gate),
       pd_market_quote_complete_rate = or_float (pq_market_quote_complete_rate q) (bg_market_quote_complete_rate gate),
       pd_token_quote_complete_rate = or_float (pq_token_quote_complete_rate q) (bg_token_quote_complete_rate gate),
       pd_stale = stale_diagnostics_of d (mo_symbol (ca_move c)) (Some q) st (mo_now_ts (ca_move c)) (mo_now_mono (ca_move c)),
       pd_pre_entry_reject_reason = None, pd_window_end_reason = None, pd_exit_reject_reason = None,
       pd_lifecycle_reason = None, pd_timeout_reason = None, pd_close_reason = None,
       pd_reject_stage = RS_none, pd_episode = mo_episode (ca_move c)\<rparr>)"

definition open_pending ::
  "market_state \<Rightarrow> candidate \<Rightarrow> string \<Rightarrow> polymarket_quote \<Rightarrow> gap_key \<Rightarrow> gap_detector
     \<Rightarrow> gap_observation option gap_result" where
  \<comment> \<open>the end of the loop's body, from the two assertions\<close>
  "open_pending st c token_id q key d = (case (pq_best_ask q, pq_best_ask_size q) of
     (Some ask, Some ask_size) \<Rightarrow>
       (let minute = mo_symbol (ca_move c) @ '':'' @ direction_text (mo_direction (ca_move c)) @ '':''
              @ int_digits (mo_now_ts (ca_move c) div 60000000000);
            d1 = d\<lparr>gd_candidates_per_minute := ctr_inc minute (gd_candidates_per_minute d)\<rparr>;
            d2 = put_pending key (pending_of_quote d1 st c token_id q ask ask_size) d1
        in (Inr None, d2\<lparr>gd_fillable := gd_fillable d2 + 1\<rparr>))
   | _ \<Rightarrow> (Inl AssertionError, d))"

definition examine_quote ::
  "market_state \<Rightarrow> candidate \<Rightarrow> string \<Rightarrow> gap_key \<Rightarrow> gap_detector \<Rightarrow> gap_observation option gap_result" where
  \<comment> \<open>the loop's body from the lookup of the quote\<close>
  "examine_quote st c token_id key d = (case map_of (ms_polymarket_quotes st) token_id of
     None \<Rightarrow> reject_candidate st c token_id None ''missing_quote'' d
   | Some q \<Rightarrow>
       if stale_quote q (mo_now_ts (ca_move c)) (Some (mo_now_mono (ca_move c))) (gc_polymarket_stale_ms (gd_config d))
       then reject_candidate st c token_id (Some q) ''quote_stale'' d
       else (case fillable_before_repricing d (ca_market c) q of
           Some reason \<Rightarrow> reject_candidate st c token_id (Some q) reason d
         | None \<Rightarrow> open_pending st c token_id q key d))"

definition consider_market ::
  "market_state \<Rightarrow> price_move \<Rightarrow> market_metadata \<Rightarrow> gap_detector \<Rightarrow> gap_observation option gap_result" where
  \<comment> \<open>one pass of the loop of \<open>_detect_binance_move\<close>\<close>
  "consider_market st mv m d =
     (let gate = book_readiness_gate d m st (mo_now_ts mv);
          c = \<lparr>ca_move = mv, ca_market = m, ca_gate = gate\<rparr>; symbol = mo_symbol mv;
          token = token_for_direction (mo_direction mv) m;
          window = mm_market_id m @ '':'' @ format_g (me_window_ms (mo_episode mv)) @ '':''
            @ int_digits (me_bucket (mo_episode mv));
          key = (symbol, mm_market_id m, mo_direction mv);
          d1 = d\<lparr>gd_detected_gaps := gd_detected_gaps d + 1,
                  gd_candidates_by_symbol := ctr_inc symbol (gd_candidates_by_symbol d),
                  gd_candidates_per_window := ctr_inc window (gd_candidates_per_window d)\<rparr>
      in if \<not> market_signal_enabled m (mo_now_ts mv) then (Inr None, d)
         else if bg_suppress gate
         then (Inr None, d\<lparr>gd_book_warmup_suppressed := gd_book_warmup_suppressed d + 1\<rparr>)
         else if mm_market_id m \<in> set (gd_invalid_markets d1) \<or> is_market_invalid (mm_market_id m) st
         then reject_candidate st c (str_or token []) None ''market_invalidated'' d1
         else (case token of
             None \<Rightarrow> reject_candidate st c [] None ''direction_token_unmapped'' d1
           | Some t \<Rightarrow>
               if key \<in> fst ` set (gd_pending d1)
               then (Inr None, d1\<lparr>gd_duplicate_suppressed := gd_duplicate_suppressed d1 + 1,
                       gd_suppressed_by_symbol := ctr_inc symbol (gd_suppressed_by_symbol d1)\<rparr>)
               else examine_quote st c t key d1))"

definition detect_binance_move ::
  "string \<Rightarrow> market_state \<Rightarrow> int \<Rightarrow> int \<Rightarrow> int option \<Rightarrow> gap_detector \<Rightarrow> gap_observation list gap_result" where
  "detect_binance_move symbol st now_ts now_mono event_ts d =
     (case map_of (ms_symbols st) symbol of
        None \<Rightarrow> (Inr [], record_reject ''binance_stale'' RS_pre_entry d)
      | Some ss \<Rightarrow>
          if stale_wall (or_int (ss_local_receive_timestamp ss) (ss_last_event_timestamp ss)) now_ts
               (gc_binance_stale_ms (gd_config d))
          then (Inr [], record_reject ''binance_stale'' RS_pre_entry d)
          else (case strongest (build_move_snapshot ss) of None \<Rightarrow> (Inr [], d)
            | Some (key, ret) \<Rightarrow>
                (let pct = fmul ret (Fin 100) in
                 if fless (fabs pct) (gc_min_move_pct (gd_config d)) then (Inr [], d)
                 else
                   (let d1 = d\<lparr>gd_moves_by_symbol := ctr_inc symbol (gd_moves_by_symbol d)\<rparr>;
                        markets = (case map_of (gd_markets_by_symbol d1) symbol of None \<Rightarrow> [] | Some ms \<Rightarrow> ms);
                        direction = (if fless fzero pct then G_UP else G_DOWN);
                        mv = \<lparr>mo_symbol = symbol, mo_direction = direction, mo_pct = pct, mo_now_ts = now_ts,
                              mo_now_mono = now_mono, mo_event_ts = event_ts,
                              mo_episode = move_episode_of symbol direction (Some key) (int_or event_ts now_ts)\<rparr>
                    in gap_loop (consider_market st mv) markets d1))))"

subsection \<open>Quotes\<close>

definition copy_current_quote :: "polymarket_quote \<Rightarrow> int \<Rightarrow> int \<Rightarrow> pending_gap \<Rightarrow> pending_gap" where
  "copy_current_quote q quote_ts quote_mono p = p\<lparr>pd_current_best_bid := pq_best_bid q,
     pd_current_best_ask := pq_best_ask q, pd_current_best_bid_size := pq_best_bid_size q,
     pd_current_best_ask_size := pq_best_ask_size q, pd_current_mid := pq_mid_price q,
     pd_current_spread := pq_spread q, pd_current_quote_ts_ns := Some quote_ts,
     pd_current_quote_monotonic_ns := Some quote_mono\<rparr>"

definition mark_mid_repricing :: "gap_detector \<Rightarrow> polymarket_quote \<Rightarrow> int \<Rightarrow> int \<Rightarrow> pending_gap \<Rightarrow> pending_gap" where
  "mark_mid_repricing d q quote_ts quote_mono p =
     (case (pd_first_mid_repriced_ts_ns p, pd_before_mid p, pq_mid_price q) of
        (None, Some before, Some mid') \<Rightarrow>
          if fle (fadd before (effective_reprice_threshold d (pd_market p))) mid'
          then p\<lparr>pd_first_mid_repriced_ts_ns := Some quote_ts, pd_first_mid_repriced_monotonic_ns := Some quote_mono\<rparr>
          else p
      | _ \<Rightarrow> p)"

definition mark_non_tradable :: "int \<Rightarrow> int \<Rightarrow> pending_gap \<Rightarrow> pending_gap" where
  "mark_non_tradable ts mn p = p\<lparr>
     pd_first_non_tradable_ts_ns := Some (int_or (pd_first_non_tradable_ts_ns p) ts),
     pd_first_non_tradable_monotonic_ns := Some (int_or (pd_first_non_tradable_monotonic_ns p) mn)\<rparr>"

definition end_window :: "string \<Rightarrow> int \<Rightarrow> int \<Rightarrow> pending_gap \<Rightarrow> pending_gap" where
  "end_window reason ts mn p = (mark_non_tradable ts mn p)\<lparr>pd_window_end_reason := Some reason,
     pd_close_reason := Some reason, pd_reject_stage := RS_window\<rparr>"

definition expire_gap :: "string \<Rightarrow> pending_gap \<Rightarrow> pending_gap" where
  "expire_gap reason p = p\<lparr>pd_timeout_reason := Some reason, pd_close_reason := Some reason,
     pd_reject_stage := RS_timeout\<rparr>"

definition quote_step ::
  "polymarket_quote \<Rightarrow> market_state \<Rightarrow> int \<Rightarrow> int \<Rightarrow> gap_key \<times> pending_gap \<Rightarrow> gap_detector
     \<Rightarrow> gap_observation option gap_result" where
  \<comment> \<open>one pass of the loop of \<open>_handle_polymarket_quote\<close>\<close>
  "quote_step q st now_ts now_mono entry d =
     (let (key, p0) = entry;
          ts = int_or (quote_timestamp q) now_ts; mn = int_or (recv_monotonic_ns q) now_mono;
          diag = stale_diagnostics_of d (pd_symbol p0) (Some q) st now_ts now_mono;
          p = mark_mid_repricing d q ts mn ((copy_current_quote q ts mn p0)\<lparr>pd_stale := diag\<rparr>)
      in if pd_token_id p0 \<noteq> pq_token_id q then (Inr None, d)
         else (case timeout_reason d p mn of
             Some reason \<Rightarrow> closing (close_pending key (expire_gap reason p) d)
           | None \<Rightarrow> (case structural_window_end_reason d p q st now_ts now_mono of
                 Some reason \<Rightarrow> closing (close_pending key (end_window reason ts mn p) d)
               | None \<Rightarrow>
                   if has_executable_repriced d p q
                   then closing (close_pending key (p\<lparr>pd_first_executable_repriced_ts_ns := Some ts,
                          pd_first_executable_repriced_monotonic_ns := Some mn,
                          pd_executable_exit_bid := pq_best_bid q, pd_reject_stage := RS_none\<rparr>) d)
                   else (case entry_window_end_reason d p q of
                       Some reason \<Rightarrow> closing (close_pending key (end_window reason ts mn p) d)
                     | None \<Rightarrow> (Inr None, put_pending key
                         (p\<lparr>pd_last_tradable_ts_ns := ts, pd_last_tradable_monotonic_ns := mn\<rparr>) d)))))"

definition handle_polymarket_quote ::
  "polymarket_quote \<Rightarrow> market_state \<Rightarrow> int \<Rightarrow> int \<Rightarrow> gap_detector \<Rightarrow> gap_observation list gap_result" where
  "handle_polymarket_quote q st now_ts now_mono d =
     gap_loop (quote_step q st now_ts now_mono) (gd_pending d) d"

subsection \<open>Lifecycle events, timeouts and the market list\<close>

fun lifecycle_text :: "lifecycle_type \<Rightarrow> string" where
  "lifecycle_text TickSizeChange = ''tick_size_change''"
| "lifecycle_text MarketResolved = ''market_resolved''"
| "lifecycle_text NewMarket = ''new_market''"
| "lifecycle_text Closed = ''closed''"
| "lifecycle_text Expired = ''expired''"

definition refresh_from_state ::
  "market_state \<Rightarrow> int \<Rightarrow> int \<Rightarrow> pending_gap \<Rightarrow> pending_gap" where
  \<comment> \<open>the last quote of the token, when there is one\<close>
  "refresh_from_state st ts mn p = (case map_of (ms_polymarket_quotes st) (pd_token_id p) of
     None \<Rightarrow> p
   | Some q \<Rightarrow> copy_current_quote q (int_or (quote_timestamp q) ts) (int_or (recv_monotonic_ns q) mn) p)"

definition market_end_step ::
  "market_lifecycle_event \<Rightarrow> market_state \<Rightarrow> int \<Rightarrow> int \<Rightarrow> gap_key \<times> pending_gap \<Rightarrow> gap_detector
     \<Rightarrow> gap_observation option gap_result" where
  "market_end_step e st now_ts now_mono entry d =
     (let (key, p0) = entry;
          ts = int_or (or_int (ml_received_ts e) (local_received_ts e)) now_ts;
          mn = int_or (recv_monotonic_ns e) now_mono;
          quote = map_of (ms_polymarket_quotes st) (pd_token_id p0);
          p1 = refresh_from_state st ts mn p0;
          p2 = (if quote = None then p1
                else p1\<lparr>pd_stale := stale_diagnostics_of d (pd_symbol p1) quote st now_ts now_mono\<rparr>);
          reason = Some (lifecycle_text (ml_lifecycle_type e))
      in if mm_market_id (pd_market p0) \<noteq> ml_market_id e then (Inr None, d)
         else closing (close_pending key ((mark_non_tradable ts mn p2)\<lparr>pd_window_end_reason := reason,
                pd_lifecycle_reason := reason, pd_close_reason := reason, pd_reject_stage := RS_lifecycle\<rparr>) d))"

definition handle_lifecycle ::
  "market_lifecycle_event \<Rightarrow> market_state \<Rightarrow> int \<Rightarrow> int \<Rightarrow> gap_detector \<Rightarrow> gap_observation list gap_result" where
  "handle_lifecycle e st now_ts now_mono d =
     (let tick_change = (ml_lifecycle_type e = TickSizeChange \<and> or_float (ml_new_tick_size e) None \<noteq> None);
          d1 = (if tick_change
                then d\<lparr>gd_tick_size_by_market := AList.update (ml_market_id e)
                       (case ml_new_tick_size e of Some t \<Rightarrow> t | None \<Rightarrow> fzero) (gd_tick_size_by_market d)\<rparr>
                else d\<lparr>gd_invalid_markets := List.insert (ml_market_id e) (gd_invalid_markets d)\<rparr>)
      in if ml_lifecycle_type e = NewMarket then (Inr [], d)
         else if tick_change \<and> \<not> gc_close_pending_on_tick_size_change (gd_config d1) then (Inr [], d1)
         else gap_loop (market_end_step e st now_ts now_mono) (gd_pending d1) d1)"

definition expire_step ::
  "market_state \<Rightarrow> int \<Rightarrow> int \<Rightarrow> gap_key \<times> pending_gap \<Rightarrow> gap_detector \<Rightarrow> gap_observation option gap_result" where
  "expire_step st now_ts now_mono entry d =
     (let (key, p0) = entry in
      case timeout_reason d p0 now_mono of None \<Rightarrow> (Inr None, d)
      | Some reason \<Rightarrow>
          (let p = (refresh_from_state st now_ts now_mono p0)\<lparr>pd_stale := stale_diagnostics_of d (pd_symbol p0)
                 (map_of (ms_polymarket_quotes st) (pd_token_id p0)) st now_ts now_mono\<rparr>
           in closing (close_pending key (expire_gap reason p) d)))"

definition close_expired_pending ::
  "market_state \<Rightarrow> int \<Rightarrow> int \<Rightarrow> gap_detector \<Rightarrow> gap_observation list gap_result" where
  "close_expired_pending st now_ts now_mono d = gap_loop (expire_step st now_ts now_mono) (gd_pending d) d"

definition record_warmup_quote :: "polymarket_quote \<Rightarrow> int \<Rightarrow> gap_detector \<Rightarrow> gap_detector" where
  "record_warmup_quote q now_ts d = (case map_of (gd_markets_by_token d) (pq_token_id q) of None \<Rightarrow> d
     | Some m \<Rightarrow>
         if mm_selected_for_runtime m \<and> \<not> market_signal_enabled m now_ts
            \<and> classify_market_window m (seconds_of now_ts) = W_next_warmup
         then d\<lparr>gd_warmup_quotes := gd_warmup_quotes d + 1\<rparr> else d)"

definition then_expire ::
  "market_state \<Rightarrow> int \<Rightarrow> int \<Rightarrow> gap_observation list gap_result \<Rightarrow> gap_observation list gap_result" where
  "then_expire st now_ts now_mono r = (case r of (Inl e, d) \<Rightarrow> (Inl e, d)
     | (Inr obs, d) \<Rightarrow> map_prod (map_sum id ((@) obs)) id (close_expired_pending st now_ts now_mono d))"

definition on_market_event ::
  "market_event \<Rightarrow> market_state \<Rightarrow> int option \<Rightarrow> int \<Rightarrow> gap_detector \<Rightarrow> gap_observation list gap_result" where
  "on_market_event event st now clock d =
     (let now_ts = int_or now clock; now_mono = int_or (Some (event_monotonic event)) now_ts;
          expire = then_expire st now_ts now_mono
      in case event of
        E_tick t \<Rightarrow> expire (if tick_source t = Binance
          then detect_binance_move (tick_symbol t) st now_ts now_mono
                 (or_int (exchange_event_ts t) (local_received_ts t)) d
          else (Inr [], d))
      | E_top t \<Rightarrow> expire (if top_source t = Binance
          then detect_binance_move (top_symbol t) st now_ts now_mono
                 (or_int (exchange_event_ts t) (local_received_ts t)) d
          else (Inr [], d))
      | E_depth t \<Rightarrow> expire (Inr [], d)
      | E_quote q \<Rightarrow> expire (handle_polymarket_quote q st now_ts now_mono (record_warmup_quote q now_ts d))
      | E_lifecycle l \<Rightarrow> handle_lifecycle l st now_ts now_mono d)"

end
