(* ===== verification/GapMarkets.thy ===== *)
theory GapMarkets
  imports GapFlow
begin

text \<open>
  The rest of the gap detector's interface: replacing the runtime markets, handing over the
  observations that the replacement closed, and the statistics of the monitor.
\<close>

definition update_market_step ::
  "market_metadata list \<Rightarrow> int \<Rightarrow> int \<Rightarrow> gap_key \<times> pending_gap \<Rightarrow> gap_detector
     \<Rightarrow> gap_observation option gap_result" where
  \<comment> \<open>the last of two markets with one id counts, as in the dict of the code\<close>
  "update_market_step markets now_ts now_mono entry d =
     (let (key, p) = entry in
      case map_of (rev (map (\<lambda>m. (mm_market_id m, m)) markets)) (mm_market_id (pd_market p)) of
        Some m \<Rightarrow> (Inr None, put_pending key (p\<lparr>pd_market := m\<rparr>) d)
      | None \<Rightarrow>
          (let p1 = (mark_non_tradable now_ts now_mono p)\<lparr>pd_window_end_reason := Some ''market_expired'',
                 pd_lifecycle_reason := Some ''market_expired'', pd_close_reason := Some ''market_expired'',
                 pd_reject_stage := RS_lifecycle,
                 pd_stale := no_stale_diagnostics\<lparr>sd_stale_source := Some SS_unknown,
                   sd_now_monotonic_ns := Some now_mono, sd_detector_processed_monotonic_ns := Some now_mono\<rparr>\<rparr>
           in case close_pending key p1 d of (Inl e, d1) \<Rightarrow> (Inl e, d1)
              | (Inr ob, d1) \<Rightarrow> (Inr (Some ob),
                  d1\<lparr>gd_market_update_observations := gd_market_update_observations d1 @ [ob]\<rparr>)))"

definition update_markets :: "market_metadata list \<Rightarrow> int \<Rightarrow> int \<Rightarrow> gap_detector \<Rightarrow> unit gap_result" where
  "update_markets markets now_ts now_mono d =
     (case gap_loop (update_market_step markets now_ts now_mono) (gd_pending d) d of
        (Inl e, d1) \<Rightarrow> (Inl e, d1)
      | (Inr _, d1) \<Rightarrow> (Inr (), d1\<lparr>gd_markets := markets, gd_markets_by_symbol := group_markets markets,
          gd_markets_by_token := markets_by_token markets, gd_tick_size_by_market := tick_sizes markets,
          gd_invalid_markets := [i \<leftarrow> gd_invalid_markets d1. i \<in> mm_market_id ` set markets]\<rparr>))"

definition drain_market_update_observations :: "gap_detector \<Rightarrow> gap_observation list \<times> gap_detector" where
  "drain_market_update_observations d =
     (gd_market_update_observations d, d\<lparr>gd_market_update_observations := []\<rparr>)"

definition pending_max_age_ms :: "int \<Rightarrow> gap_detector \<Rightarrow> pyfloat option" where
  "pending_max_age_ms now_mono d =
     (case map (\<lambda>(_, p). elapsed_ms (pd_first_detected_monotonic_ns p) now_mono) (gd_pending d) of
        [] \<Rightarrow> None | a # ages \<Rightarrow> Some (foldl pymax a ages))"

definition stale_feed_count :: "market_state \<Rightarrow> int \<Rightarrow> gap_detector \<Rightarrow> int" where
  "stale_feed_count st now_ts d =
     (let limit = gc_measurement_stale_ms (gd_config d);
          symbol_stale = (\<lambda>s. case map_of (ms_symbols st) s of None \<Rightarrow> True
            | Some ss \<Rightarrow> stale_wall (or_int (ss_local_receive_timestamp ss) (ss_last_event_timestamp ss)) now_ts limit);
          quote_is_stale = (\<lambda>t. case map_of (ms_polymarket_quotes st) t of None \<Rightarrow> True
            | Some q \<Rightarrow> stale_quote q now_ts None limit)
      in int (length [s \<leftarrow> map fst (gd_markets_by_symbol d). symbol_stale s])
         + int (length [t. m \<leftarrow> gd_markets d, t \<leftarrow> token_ids m, quote_is_stale t]))"

subsection \<open>Statistics\<close>

definition median_of :: "pyfloat list \<Rightarrow> pyfloat option" where
  \<comment> \<open>\<open>statistics.median\<close> where there is a value\<close>
  "median_of xs = (let s = sort xs; n = length s in
     if n = 0 then None
     else if odd n then Some (s ! (n div 2))
     else Some (fdiv (fadd (s ! (n div 2 - 1)) (s ! (n div 2))) (Fin 2)))"

definition p95_of :: "pyfloat list \<Rightarrow> pyfloat option" where
  "p95_of xs = (if xs = [] then None
     else Some (sort xs ! nat (percentile_index (length xs) (f64 (95 / 100)))))"

definition count_strings :: "'a list \<Rightarrow> 'a counter" where
  "count_strings xs = fold ctr_inc xs []"

definition top_reasons :: "string counter \<Rightarrow> string counter" where
  \<comment> \<open>the five most frequent, ties by name\<close>
  "top_reasons reasons = take 5 (sort_key (\<lambda>(k, n). - n) (sort_key fst reasons))"

record gap_stats =
  gs_detected_gaps :: int
  gs_completed_gaps :: int
  gs_fillable :: int
  gs_non_fillable :: int
  gs_median_mid_delay :: "pyfloat option"
  gs_p95_mid_delay :: "pyfloat option"
  gs_median_executable_delay :: "pyfloat option"
  gs_p95_executable_delay :: "pyfloat option"
  gs_median_window :: "pyfloat option"
  gs_p95_window :: "pyfloat option"
  gs_average_edge :: "pyfloat option"
  gs_reject_by_reason :: "string counter"
  gs_reject_by_stage :: "reject_stage counter"
  gs_stale_feed_count :: int
  gs_pre_entry_written :: int
  gs_pre_entry_suppressed :: int
  gs_warmup_quotes :: int
  gs_signal_enabled_markets :: int
  gs_warmup_only_markets :: int
  gs_book_warmup_suppressed :: int
  gs_moves_by_symbol :: "string counter"
  gs_candidates_by_symbol :: "string counter"
  gs_pre_entry_rejects_by_symbol :: "string counter"
  gs_window_rejects_by_symbol :: "string counter"
  gs_timeout_rejects_by_symbol :: "string counter"
  gs_suppressed_by_symbol :: "string counter"
  gs_non_fillable_by_symbol :: "string counter"
  gs_top_reasons_by_symbol :: "(string \<times> string counter) list"
  gs_pending_count :: int
  gs_pending_max_age_ms :: "pyfloat option"
  gs_max_pending_gap_ms :: pyfloat
  gs_duplicate_suppressed :: int
  gs_candidates_per_minute :: "string counter"
  gs_candidates_per_window :: "string counter"

definition gap_monitor_stats :: "market_state \<Rightarrow> int \<Rightarrow> int \<Rightarrow> gap_detector \<Rightarrow> gap_stats" where
  "gap_monitor_stats st now_ts now_mono d =
     (let done = gd_completed d; present = (\<lambda>f. [x. ob \<leftarrow> done, Some x \<leftarrow> [f ob]]);
          mids = present go_mid_repricing_delay_ms; execs = present go_executable_repricing_delay_ms;
          windows = present go_tradable_window_ms;
          edges = [x. ob \<leftarrow> done, go_reject_stage ob = RS_none, Some x \<leftarrow> [go_estimated_edge_after_spread ob]];
          enabled = (\<lambda>m. market_signal_enabled m now_ts)
      in \<lparr>gs_detected_gaps = gd_detected_gaps d, gs_completed_gaps = int (length done),
          gs_fillable = gd_fillable d, gs_non_fillable = gd_non_fillable d,
          gs_median_mid_delay = median_of mids, gs_p95_mid_delay = p95_of mids,
          gs_median_executable_delay = median_of execs, gs_p95_executable_delay = p95_of execs,
          gs_median_window = median_of windows, gs_p95_window = p95_of windows,
          gs_average_edge = (if edges = [] then None
            else Some (fdiv (float_sum edges) (float_of_int (int (length edges))))),
          gs_reject_by_reason = count_strings [r. ob \<leftarrow> done, Some r \<leftarrow> [go_reject_reason ob]],
          gs_reject_by_stage = count_strings [go_reject_stage ob. ob \<leftarrow> done, go_reject_stage ob \<noteq> RS_none],
          gs_stale_feed_count = stale_feed_count st now_ts d,
          gs_pre_entry_written = gd_pre_entry_written d, gs_pre_entry_suppressed = gd_pre_entry_suppressed d,
          gs_warmup_quotes = gd_warmup_quotes d,
          gs_signal_enabled_markets = int (length (List.filter enabled (gd_markets d))),
          gs_warmup_only_markets = int (length [m \<leftarrow> gd_markets d. mm_selected_for_runtime m \<and> \<not> enabled m
            \<and> classify_market_window m (seconds_of now_ts) = W_next_warmup]),
          gs_book_warmup_suppressed = gd_book_warmup_suppressed d,
          gs_moves_by_symbol = gd_moves_by_symbol d, gs_candidates_by_symbol = gd_candidates_by_symbol d,
          gs_pre_entry_rejects_by_symbol = gd_pre_entry_rejects_by_symbol d,
          gs_window_rejects_by_symbol = gd_window_rejects_by_symbol d,
          gs_timeout_rejects_by_symbol = gd_timeout_rejects_by_symbol d,
          gs_suppressed_by_symbol = gd_suppressed_by_symbol d,
          gs_non_fillable_by_symbol = gd_non_fillable_by_symbol d,
          gs_top_reasons_by_symbol = map (\<lambda>(s, c). (s, top_reasons c)) (sort_key fst (gd_reject_reasons_by_symbol d)),
          gs_pending_count = int (length (gd_pending d)),
          gs_pending_max_age_ms = pending_max_age_ms now_mono d,
          gs_max_pending_gap_ms = gc_max_pending_gap_ms (gd_config d),
          gs_duplicate_suppressed = gd_duplicate_suppressed d,
          gs_candidates_per_minute = gd_candidates_per_minute d,
          gs_candidates_per_window = gd_candidates_per_window d\<rparr>)"

end
