(* ===== verification/GapInvariant.thy ===== *)
theory GapInvariant
  imports GapMarkets "HOL-Library.Multiset"
begin

text \<open>
  What the gap detector keeps: its counters add up, its pending gaps carry their own key and were
  opened on a quote within the spread limit, every observation says the truth about its edge, no
  gap of a market that has ended and no gap past its lifetime stays pending, and every observation
  is handed out once. The four loops over the pending gaps share one contract, \<open>entry_step\<close>.
\<close>

subsection \<open>Sequences of operations\<close>

datatype gap_op = Op_event market_event market_state "int option" int
  | Op_markets "market_metadata list" int int | Op_drain

fun gap_op_step :: "gap_op \<Rightarrow> gap_detector \<Rightarrow> gap_observation list gap_result" where
  "gap_op_step (Op_event e st now clock) d = on_market_event e st now clock d"
| "gap_op_step (Op_markets ms now_ts now_mono) d =
     map_prod (map_sum id (\<lambda>_. [])) id (update_markets ms now_ts now_mono d)"
| "gap_op_step Op_drain d = map_prod Inr id (drain_market_update_observations d)"

fun gap_after :: "gap_op list \<Rightarrow> gap_detector \<Rightarrow> gap_detector" where
  \<comment> \<open>the state after the operations, whether they raise or not\<close>
  "gap_after [] d = d"
| "gap_after (p # ps) d = gap_after ps (snd (gap_op_step p d))"

fun gap_run :: "gap_op list \<Rightarrow> gap_detector \<Rightarrow> gap_observation list gap_result" where
  \<comment> \<open>everything handed out, up to the first exception\<close>
  "gap_run [] d = (Inr [], d)"
| "gap_run (p # ps) d = (case gap_op_step p d of (Inl e, d1) \<Rightarrow> (Inl e, d1)
     | (Inr obs, d1) \<Rightarrow> map_prod (map_sum id ((@) obs)) id (gap_run ps d1))"

subsection \<open>The invariant\<close>

definition pending_ok :: "gap_config \<Rightarrow> gap_key \<Rightarrow> pending_gap \<Rightarrow> bool" where
  "pending_ok cfg key p \<longleftrightarrow> key = (pd_symbol p, mm_market_id (pd_market p), pd_direction p)
     \<and> (\<exists>s. pd_spread_before p = Some s \<and> \<not> fless (gc_max_entry_spread cfg) s)"

definition observation_ok :: "gap_config \<Rightarrow> gap_observation \<Rightarrow> bool" where
  "observation_ok cfg ob \<longleftrightarrow> (case go_reject_stage ob of
     RS_none \<Rightarrow> go_reject_reason ob = None \<and> go_quote_was_fillable ob
       \<and> (\<exists>bid ask. go_executable_exit_bid ob = Some bid \<and> go_entry_ask ob = Some ask
            \<and> fless (fadd ask (gc_min_exit_edge cfg)) bid
            \<and> go_estimated_edge_after_spread ob = Some (fsub bid ask))
   | RS_pre_entry \<Rightarrow> \<not> go_quote_was_fillable ob \<and> go_estimated_edge_after_spread ob = None
       \<and> go_reject_reason ob \<noteq> None
   | RS_exit \<Rightarrow> False
   | _ \<Rightarrow> go_quote_was_fillable ob \<and> go_estimated_edge_after_spread ob = None \<and> go_reject_reason ob \<noteq> None)"

definition open_candidates :: "gap_detector \<Rightarrow> int" where
  \<comment> \<open>candidates counted as detected whose fate was never recorded\<close>
  "open_candidates d = gd_detected_gaps d - (gd_fillable d + gd_non_fillable d + gd_duplicate_suppressed d)"

definition gap_inv :: "gap_config \<Rightarrow> gap_detector \<Rightarrow> bool" where
  "gap_inv cfg d \<longleftrightarrow> gd_config d = cfg \<and> distinct (map fst (gd_pending d))
     \<and> (\<forall>(key, p)\<in>set (gd_pending d). pending_ok cfg key p)
     \<and> (\<forall>ob\<in>set (gd_completed d). observation_ok cfg ob)
     \<and> gd_non_fillable d = gd_pre_entry_written d + gd_pre_entry_suppressed d
     \<and> int (length (gd_completed d)) + int (length (gd_pending d)) = gd_pre_entry_written d + gd_fillable d"

abbreviation pending_keys :: "gap_detector \<Rightarrow> gap_key set" where
  "pending_keys d \<equiv> fst ` set (gd_pending d)"

lemma complete_observation_fields [simp]:
  "gd_config (complete_observation ob stage d) = gd_config d"
  "gd_pending (complete_observation ob stage d) = gd_pending d"
  "gd_completed (complete_observation ob stage d) = gd_completed d @ [ob]"
  "gd_invalid_markets (complete_observation ob stage d) = gd_invalid_markets d"
  "gd_market_update_observations (complete_observation ob stage d) = gd_market_update_observations d"
  "gd_detected_gaps (complete_observation ob stage d) = gd_detected_gaps d"
  "gd_fillable (complete_observation ob stage d) = gd_fillable d"
  "gd_non_fillable (complete_observation ob stage d) = gd_non_fillable d"
  "gd_duplicate_suppressed (complete_observation ob stage d) = gd_duplicate_suppressed d"
  "gd_pre_entry_written (complete_observation ob stage d) = gd_pre_entry_written d"
  "gd_pre_entry_suppressed (complete_observation ob stage d) = gd_pre_entry_suppressed d"
  by (cases "go_reject_stage ob"; cases "go_reject_reason ob";
      simp add: complete_observation_def record_observation_diagnostics_def record_reject_def Let_def)+

subsection \<open>Observations\<close>

definition closable :: "gap_config \<Rightarrow> pending_gap \<Rightarrow> bool" where
  \<comment> \<open>what the handlers have recorded when they close a gap\<close>
  "closable cfg p \<longleftrightarrow> (case pd_reject_stage p of
     RS_none \<Rightarrow> (\<exists>bid. pd_executable_exit_bid p = Some bid \<and> fless (fadd (pd_entry_ask p) (gc_min_exit_edge cfg)) bid)
   | RS_window \<Rightarrow> pd_window_end_reason p \<noteq> None
   | RS_lifecycle \<Rightarrow> pd_close_reason p \<noteq> None
   | RS_timeout \<Rightarrow> pd_close_reason p \<noteq> None
   | _ \<Rightarrow> False)"

lemma observation_from_pending_fields:
  assumes "observation_from_pending d p = Inr ob"
  shows "go_reject_stage ob = pd_reject_stage p" and "go_quote_was_fillable ob"
    and "go_executable_exit_bid ob = pd_executable_exit_bid p" and "go_entry_ask ob = Some (pd_entry_ask p)"
    and "go_estimated_edge_after_spread ob = (if pd_reject_stage p = RS_none
       then float_diff (pd_executable_exit_bid p) (Some (pd_entry_ask p)) else None)"
    and "go_reject_reason ob = final_reject_reason p (exit_reject_reason p)"
  using assms by (auto simp: observation_from_pending_def Let_def split: sum.splits prod.splits)

lemma closable_observation:
  assumes "observation_from_pending d p = Inr ob" and "closable cfg p"
  shows "observation_ok cfg ob"
  using assms(2) observation_from_pending_fields [OF assms(1)]
  by (cases "pd_reject_stage p")
    (auto simp: observation_ok_def closable_def final_reject_reason_def float_diff_def)

lemma pre_entry_observation_fields:
  assumes "pre_entry_observation d st c token quote reason = Inr ob"
  shows "go_reject_stage ob = RS_pre_entry" and "\<not> go_quote_was_fillable ob"
    and "go_estimated_edge_after_spread ob = None" and "go_reject_reason ob = Some reason"
  using assms by (auto simp: pre_entry_observation_def Let_def split: sum.splits prod.splits)

subsection \<open>The loops over pending gaps\<close>

text \<open>
  What a pass may do to its gap: leave it, put it back with the data that identify it unchanged, or
  close it with its reasons recorded. Nothing else in the detector changes, but for the list of
  the observations that a market update collects.
\<close>

definition same_gap :: "pending_gap \<Rightarrow> pending_gap \<Rightarrow> bool" where
  "same_gap p p' \<longleftrightarrow> pd_symbol p' = pd_symbol p \<and> mm_market_id (pd_market p') = mm_market_id (pd_market p)
     \<and> pd_direction p' = pd_direction p \<and> pd_spread_before p' = pd_spread_before p
     \<and> pd_token_id p' = pd_token_id p
     \<and> pd_first_detected_monotonic_ns p' = pd_first_detected_monotonic_ns p"

definition entry_outcome ::
  "gap_key \<Rightarrow> pending_gap \<Rightarrow> gap_detector \<Rightarrow> gap_observation option gap_result \<Rightarrow> bool" where
  "entry_outcome key p d r \<longleftrightarrow> r = (Inr None, d)
     \<or> (\<exists>p'. same_gap p p' \<and> r = (Inr None, put_pending key p' d))
     \<or> (\<exists>p' mu. same_gap p p' \<and> closable (gd_config d) p' \<and> fst r = fst (closing (close_pending key p' d))
          \<and> snd r = (snd (close_pending key p' d))\<lparr>gd_market_update_observations := mu\<rparr>)"

lemma entry_outcome_keep: "entry_outcome key p d (Inr None, d)"
  by (simp add: entry_outcome_def)

lemma entry_outcome_put: "same_gap p p' \<Longrightarrow> entry_outcome key p d (Inr None, put_pending key p' d)"
  by (auto simp: entry_outcome_def)

lemma entry_outcome_close:
  assumes "same_gap p p'" and "closable (gd_config d) p'"
  shows "entry_outcome key p d (closing (close_pending key p' d))"
proof -
  have "snd (closing (close_pending key p' d)) = (snd (close_pending key p' d))\<lparr>gd_market_update_observations :=
      gd_market_update_observations (snd (close_pending key p' d))\<rparr>"
    by (cases "close_pending key p' d") simp
  then show ?thesis using assms unfolding entry_outcome_def by blast
qed

lemma put_pending_fields [simp]:
  "gd_config (put_pending key p d) = gd_config d" "gd_completed (put_pending key p d) = gd_completed d"
  "gd_pending (put_pending key p d) = AList.update key p (gd_pending d)"
  "gd_invalid_markets (put_pending key p d) = gd_invalid_markets d"
  "gd_market_update_observations (put_pending key p d) = gd_market_update_observations d"
  "gd_detected_gaps (put_pending key p d) = gd_detected_gaps d" "gd_fillable (put_pending key p d) = gd_fillable d"
  "gd_non_fillable (put_pending key p d) = gd_non_fillable d"
  "gd_duplicate_suppressed (put_pending key p d) = gd_duplicate_suppressed d"
  "gd_pre_entry_written (put_pending key p d) = gd_pre_entry_written d"
  "gd_pre_entry_suppressed (put_pending key p d) = gd_pre_entry_suppressed d"
  by (simp_all add: put_pending_def)

lemma gap_inv_frame:
  assumes "gap_inv cfg d" and "gd_config d' = gd_config d" and "gd_completed d' = gd_completed d @ obs"
    and "list_all (observation_ok cfg) obs" and "distinct (map fst (gd_pending d'))"
    and "\<forall>(key, p)\<in>set (gd_pending d'). pending_ok cfg key p"
    and "gd_non_fillable d' = gd_pre_entry_written d' + gd_pre_entry_suppressed d'"
    and "int (length obs) + int (length (gd_pending d')) - int (length (gd_pending d))
      = gd_pre_entry_written d' + gd_fillable d' - (gd_pre_entry_written d + gd_fillable d)"
  shows "gap_inv cfg d'"
  using assms by (auto simp: gap_inv_def list_all_iff)

lemma pending_ok_same: "pending_ok cfg key p \<Longrightarrow> same_gap p p' \<Longrightarrow> pending_ok cfg key p'"
  by (simp add: pending_ok_def same_gap_def)

lemma put_pending_inv:
  assumes "gap_inv cfg d" and "key \<in> pending_keys d" and "pending_ok cfg key p"
  shows "gap_inv cfg (put_pending key p d)"
proof (rule gap_inv_frame [OF assms(1), where obs = "[]"])
  show "\<forall>(k, p)\<in>set (gd_pending (put_pending key p d)). pending_ok cfg k p"
    using assms(1,3) set_update [of key p "gd_pending d"] by (auto simp: gap_inv_def)
qed (use assms(1,2) in \<open>simp_all add: gap_inv_def distinct_update length_update_old\<close>)

lemma close_pending_cases:
  obtains e where "observation_from_pending d p = Inl e" "close_pending key p d = (Inl e, put_pending key p d)"
  | ob where "observation_from_pending d p = Inr ob"
    "close_pending key p d = (Inr ob, (complete_observation ob (go_reject_stage ob) d)\<lparr>gd_pending :=
       AList.delete key (gd_pending d)\<rparr>)"
  by (cases "observation_from_pending d p") (simp_all add: close_pending_def Let_def)

lemma close_pending_inv:
  assumes "gap_inv cfg d" and "key \<in> pending_keys d" and "pending_ok cfg key p" and "closable cfg p"
  shows "gap_inv cfg (snd (close_pending key p d))"
proof (cases rule: close_pending_cases [of d p key])
  case (1 e)
  then show ?thesis using put_pending_inv [OF assms(1-3)] by simp
next
  case (2 ob)
  have len: "int (length (AList.delete key (gd_pending d))) = int (length (gd_pending d)) - 1"
    using assms(1,2) length_delete_present [of "gd_pending d" key] by (simp add: gap_inv_def)
  have "observation_ok cfg ob" by (rule closable_observation [OF 2(1) assms(4)])
  then show ?thesis using assms(1) len 2(2) set_delete [of key "gd_pending d"]
    by (auto simp: gap_inv_def distinct_delete)
qed

lemma snd_gap_loop_Cons:
  "snd (gap_loop f (x # xs) d) = (if isl (fst (f x d)) then snd (f x d) else snd (gap_loop f xs (snd (f x d))))"
  by (auto split: prod.splits sum.splits)

locale entry_step =
  fixes step :: "gap_key \<times> pending_gap \<Rightarrow> gap_detector \<Rightarrow> gap_observation option gap_result"
  assumes outcome: "entry_outcome key p d (step (key, p) d)"
begin

lemma step_cases:
  obtains (keep) "step (key, p) d = (Inr None, d)"
  | (put) p' where "same_gap p p'" "step (key, p) d = (Inr None, put_pending key p' d)"
  | (raise) p' mu e where "same_gap p p'" "step (key, p) d = (Inl e, (put_pending key p' d)\<lparr>gd_market_update_observations := mu\<rparr>)"
  | (close) p' mu ob where "same_gap p p'" "closable (gd_config d) p'" "observation_from_pending d p' = Inr ob"
    "step (key, p) d = (Inr (Some ob), (complete_observation ob (go_reject_stage ob) d)\<lparr>gd_pending :=
       AList.delete key (gd_pending d), gd_market_update_observations := mu\<rparr>)"
proof -
  consider "step (key, p) d = (Inr None, d)"
    | p' where "same_gap p p'" "step (key, p) d = (Inr None, put_pending key p' d)"
    | p' mu where "same_gap p p'" "closable (gd_config d) p'"
      "fst (step (key, p) d) = fst (closing (close_pending key p' d))"
      "snd (step (key, p) d) = (snd (close_pending key p' d))\<lparr>gd_market_update_observations := mu\<rparr>"
    using outcome [of key p d] unfolding entry_outcome_def by blast
  then show ?thesis
  proof cases
    case (3 p' mu)
    note r = 3
    show ?thesis
    proof (cases rule: close_pending_cases [of d p' key])
      case (1 e)
      have "step (key, p) d = (Inl e, (put_pending key p' d)\<lparr>gd_market_update_observations := mu\<rparr>)"
        by (rule prod_eqI) (simp_all add: r(3,4) 1(2))
      with raise r(1) show ?thesis by blast
    next
      case (2 ob)
      have "step (key, p) d = (Inr (Some ob), (complete_observation ob (go_reject_stage ob) d)\<lparr>gd_pending :=
         AList.delete key (gd_pending d), gd_market_update_observations := mu\<rparr>)"
        by (rule prod_eqI) (simp_all add: r(3,4) 2(2))
      with close r(1,2) 2(1) show ?thesis by blast
    qed
  qed (use keep put in blast)+
qed

lemma step_inv:
  assumes "gap_inv cfg d" and "key \<in> pending_keys d" and "pending_ok cfg key p"
  shows "gap_inv cfg (snd (step (key, p) d)) \<and> pending_keys d - {key} \<subseteq> pending_keys (snd (step (key, p) d))"
proof -
  have mu: "gap_inv cfg (d'\<lparr>gd_market_update_observations := mu\<rparr>) = gap_inv cfg d'" for d' mu
    by (simp add: gap_inv_def)
  have cfg: "gd_config d = cfg" using assms(1) by (simp add: gap_inv_def)
  show ?thesis
  proof (cases rule: step_cases [of key p d])
    case keep
    then show ?thesis using assms by auto
  next
    case (put p')
    then show ?thesis using put_pending_inv [OF assms(1,2) pending_ok_same [OF assms(3)]]
      by (auto simp: keys_update)
  next
    case (raise p' mu e)
    then show ?thesis using put_pending_inv [OF assms(1,2) pending_ok_same [OF assms(3)]]
      by (auto simp: keys_update mu)
  next
    case (close p' mu ob)
    have "snd (close_pending key p' d) = (complete_observation ob (go_reject_stage ob) d)\<lparr>gd_pending :=
       AList.delete key (gd_pending d)\<rparr>" using close(3) by (simp add: close_pending_def Let_def)
    then show ?thesis
      using close_pending_inv [OF assms(1,2) pending_ok_same [OF assms(3) close(1)]] close(2,4) mu
      by (simp add: cfg)
  qed
qed

lemma entries_inv:
  assumes "gap_inv cfg d" and "distinct (map fst xs)" and "fst ` set xs \<subseteq> pending_keys d"
    and "\<forall>(key, p)\<in>set xs. pending_ok cfg key p"
  shows "gap_inv cfg (snd (gap_loop step xs d))"
  using assms
proof (induction xs arbitrary: d)
  case (Cons x xs)
  obtain key p where x: "x = (key, p)" by (cases x)
  from step_inv [of cfg d key p] Cons.prems have s: "gap_inv cfg (snd (step x d))"
    "pending_keys d - {key} \<subseteq> pending_keys (snd (step x d))" by (auto simp: x)
  have "fst ` set xs \<subseteq> pending_keys (snd (step x d))"
    using Cons.prems(2,3) s(2) by (force simp: x)
  with Cons.IH [OF s(1)] Cons.prems s(1) show ?case
    by (auto split: prod.splits sum.splits)
qed simp

lemma step_keys: "pending_keys (snd (step (key, p) d)) \<subseteq> insert key (pending_keys d)"
  by (cases rule: step_cases [of key p d]) (auto simp: keys_update)

lemma entries_keys: "pending_keys (snd (gap_loop step xs d)) \<subseteq> fst ` set xs \<union> pending_keys d"
proof (induction xs arbitrary: d)
  case (Cons x xs)
  define K where "K = pending_keys d"
  define K1 where "K1 = pending_keys (snd (step x d))"
  define K2 where "K2 = pending_keys (snd (gap_loop step xs (snd (step x d))))"
  have "K1 \<subseteq> insert (fst x) K" using step_keys [of "fst x" "snd x" d] by (simp add: K_def K1_def)
  moreover have "K2 \<subseteq> fst ` set xs \<union> K1" unfolding K1_def K2_def by (rule Cons.IH)
  moreover have "pending_keys (snd (gap_loop step (x # xs) d)) \<in> {K1, K2}"
    by (simp add: snd_gap_loop_Cons K1_def K2_def del: gap_loop.simps)
  ultimately have "pending_keys (snd (gap_loop step (x # xs) d)) \<subseteq> insert (fst x) (fst ` set xs) \<union> K" by blast
  then show ?case by (simp add: K_def)
qed simp

lemma loop_keys: "pending_keys (snd (gap_loop step (gd_pending d) d)) \<subseteq> pending_keys d"
  using entries_keys [of "gd_pending d" d] by simp

lemma loop_inv: "gap_inv cfg d \<Longrightarrow> gap_inv cfg (snd (gap_loop step (gd_pending d) d))"
  by (rule entries_inv) (auto simp: gap_inv_def)

lemma step_frame:
  "open_candidates (snd (step x d)) = open_candidates d \<and> gd_config (snd (step x d)) = gd_config d
     \<and> gd_invalid_markets (snd (step x d)) = gd_invalid_markets d"
  by (cases x, rule step_cases [of "fst x" "snd x" d]) (simp_all add: open_candidates_def)

lemma loop_frame:
  "open_candidates (snd (gap_loop step xs d)) = open_candidates d \<and> gd_config (snd (gap_loop step xs d)) = gd_config d
     \<and> gd_invalid_markets (snd (gap_loop step xs d)) = gd_invalid_markets d"
proof (induction xs arbitrary: d)
  case (Cons x xs)
  show ?case using step_frame [of x d] Cons.IH [of "snd (step x d)"]
    by (auto split: prod.splits sum.splits)
qed simp

lemma step_delivers:
  "fst (step x d) = Inr r \<Longrightarrow> gd_completed (snd (step x d)) = gd_completed d @ (case r of None \<Rightarrow> [] | Some ob \<Rightarrow> [ob])"
  by (cases x, rule step_cases [of "fst x" "snd x" d]) auto

lemma loop_delivers:
  "gap_loop step xs d = (Inr obs, d') \<Longrightarrow> gd_completed d' = gd_completed d @ obs"
proof (induction xs arbitrary: d obs)
  case (Cons x xs)
  from Cons.prems obtain r d1 obs' where s: "step x d = (Inr r, d1)" "gap_loop step xs d1 = (Inr obs', d')"
    "obs = (case r of None \<Rightarrow> [] | Some ob \<Rightarrow> [ob]) @ obs'"
    by (auto split: prod.splits sum.splits)
  then show ?case using step_delivers [of x d r] Cons.IH [OF s(2)] by simp
qed simp

end

subsection \<open>The passes keep the contract\<close>

lemma same_gap_updates [simp]:
  "same_gap p p"
  "same_gap p (p'\<lparr>pd_stale := diag\<rparr>) = same_gap p p'"
  "same_gap p (copy_current_quote q ts mn p') = same_gap p p'"
  "same_gap p (mark_mid_repricing d q ts mn p') = same_gap p p'"
  "same_gap p (mark_non_tradable ts mn p') = same_gap p p'"
  "same_gap p (end_window reason ts mn p') = same_gap p p'"
  "same_gap p (expire_gap reason p') = same_gap p p'"
  "same_gap p (refresh_from_state st ts mn p') = same_gap p p'"
  by (simp_all add: same_gap_def copy_current_quote_def mark_mid_repricing_def mark_non_tradable_def
      end_window_def expire_gap_def refresh_from_state_def split: option.split)

lemma closable_expire_gap: "closable cfg (expire_gap reason p)"
  by (simp add: closable_def expire_gap_def)

lemma closable_end_window: "closable cfg (end_window reason ts mn p)"
  by (simp add: closable_def end_window_def)

lemma quote_step_outcome: "entry_outcome key p0 d (quote_step q st now_ts now_mono (key, p0) d)"
proof -
  define ts where "ts = int_or (quote_timestamp q) now_ts"
  define mn where "mn = int_or (recv_monotonic_ns q) now_mono"
  define p where "p = mark_mid_repricing d q ts mn ((copy_current_quote q ts mn p0)
    \<lparr>pd_stale := stale_diagnostics_of d (pd_symbol p0) (Some q) st now_ts now_mono\<rparr>)"
  have same: "same_gap p0 p" by (simp add: p_def)
  have step: "quote_step q st now_ts now_mono (key, p0) d =
     (if pd_token_id p0 \<noteq> pq_token_id q then (Inr None, d)
      else (case timeout_reason d p mn of
          Some reason \<Rightarrow> closing (close_pending key (expire_gap reason p) d)
        | None \<Rightarrow> (case structural_window_end_reason d p q st now_ts now_mono of
              Some reason \<Rightarrow> closing (close_pending key (end_window reason ts mn p) d)
            | None \<Rightarrow>
                if has_executable_repriced d p q
                then closing (close_pending key (p\<lparr>pd_first_executable_repriced_ts_ns := Some ts,
                       pd_first_executable_repriced_monotonic_ns := Some mn,
                       pd_executable_exit_bid := pq_best_bid q, pd_reject_stage := RS_none\<rparr>) d)
                else (case entry_window_end_reason d p q of
                    Some reason \<Rightarrow> closing (close_pending key (end_window reason ts mn p) d)
                  | None \<Rightarrow> (Inr None, put_pending key
                      (p\<lparr>pd_last_tradable_ts_ns := ts, pd_last_tradable_monotonic_ns := mn\<rparr>) d)))))"
    unfolding quote_step_def Let_def prod.case ts_def [symmetric] mn_def [symmetric] p_def [symmetric]
    by (rule refl)
  have exec: "has_executable_repriced d p q \<Longrightarrow> closable (gd_config d) (p\<lparr>pd_first_executable_repriced_ts_ns := Some ts,
       pd_first_executable_repriced_monotonic_ns := Some mn, pd_executable_exit_bid := pq_best_bid q,
       pd_reject_stage := RS_none\<rparr>)"
    by (auto simp: has_executable_repriced_def closable_def split: option.splits)
  have frame: "same_gap p0 (p\<lparr>pd_first_executable_repriced_ts_ns := Some ts,
       pd_first_executable_repriced_monotonic_ns := Some mn, pd_executable_exit_bid := pq_best_bid q,
       pd_reject_stage := RS_none\<rparr>)"
    "same_gap p0 (p\<lparr>pd_last_tradable_ts_ns := ts, pd_last_tradable_monotonic_ns := mn\<rparr>)"
    using same by (simp_all add: same_gap_def)
  show ?thesis unfolding step
    by (simp add: entry_outcome_keep entry_outcome_put [OF frame(2)] entry_outcome_close [OF frame(1) exec]
        entry_outcome_close same closable_expire_gap closable_end_window split: option.split)
qed

text \<open>Passes that leave the list of the market updates alone.\<close>

locale quiet_step = entry_step +
  assumes quiet: "gd_market_update_observations (snd (step (key, p) d)) = gd_market_update_observations d"
begin

lemma loop_quiet:
  "gd_market_update_observations (snd (gap_loop step xs d)) = gd_market_update_observations d"
proof (induction xs arbitrary: d)
  case (Cons x xs)
  show ?case using quiet [of "fst x" "snd x" d] Cons.IH [of "snd (step x d)"]
    by (auto split: prod.splits sum.splits)
qed simp

end

lemma close_pending_quiet [simp]:
  "gd_market_update_observations (snd (close_pending key p d)) = gd_market_update_observations d"
  by (cases rule: close_pending_cases [of d p key]) simp_all

interpretation quote: quiet_step "quote_step q st now_ts now_mono" for q st now_ts now_mono
proof unfold_locales
  show "entry_outcome key p d (quote_step q st now_ts now_mono (key, p) d)" for key p d
    by (rule quote_step_outcome)
  show "gd_market_update_observations (snd (quote_step q st now_ts now_mono (key, p) d))
      = gd_market_update_observations d" for key p d
    by (simp add: quote_step_def Let_def split: option.split)
qed

lemma update_market_step_outcome: "entry_outcome key p d (update_market_step markets now_ts now_mono (key, p) d)"
proof (cases "map_of (rev (map (\<lambda>m. (mm_market_id m, m)) markets)) (mm_market_id (pd_market p))")
  case None
  define p1 where "p1 = (mark_non_tradable now_ts now_mono p)\<lparr>pd_window_end_reason := Some ''market_expired'',
     pd_lifecycle_reason := Some ''market_expired'', pd_close_reason := Some ''market_expired'',
     pd_reject_stage := RS_lifecycle,
     pd_stale := no_stale_diagnostics\<lparr>sd_stale_source := Some SS_unknown,
       sd_now_monotonic_ns := Some now_mono, sd_detector_processed_monotonic_ns := Some now_mono\<rparr>\<rparr>"
  have p1: "same_gap p p1" "closable (gd_config d) p1"
    by (simp_all add: p1_def same_gap_def closable_def mark_non_tradable_def)
  define r where "r = update_market_step markets now_ts now_mono (key, p) d"
  have "r = (case close_pending key p1 d of (Inl e, d1) \<Rightarrow> (Inl e, d1)
     | (Inr ob, d1) \<Rightarrow> (Inr (Some ob),
         d1\<lparr>gd_market_update_observations := gd_market_update_observations d1 @ [ob]\<rparr>))"
    by (simp add: r_def update_market_step_def None p1_def Let_def)
  then have r: "r = (case close_pending key p1 d of (Inl e, d1) \<Rightarrow> (Inl e, d1) | (Inr ob, d1) \<Rightarrow> (Inr (Some ob),
         d1\<lparr>gd_market_update_observations := gd_market_update_observations d1 @ [ob]\<rparr>))" .
  have "\<exists>mu. fst r = fst (closing (close_pending key p1 d))
      \<and> snd r = (snd (close_pending key p1 d))\<lparr>gd_market_update_observations := mu\<rparr>"
  proof (cases rule: close_pending_cases [of d p1 key])
    case (1 e)
    have "r = (Inl e, put_pending key p1 d)" by (simp add: r 1(2))
    then show ?thesis
      by (intro exI [of _ "gd_market_update_observations d"]) (simp add: 1(2) put_pending_def)
  next
    case (2 ob)
    have "r = (Inr (Some ob), (snd (close_pending key p1 d))\<lparr>gd_market_update_observations :=
        gd_market_update_observations d @ [ob]\<rparr>)" by (simp add: r 2(2))
    then show ?thesis
      by (intro exI [of _ "gd_market_update_observations d @ [ob]"]) (simp add: 2(2))
  qed
  with p1 show ?thesis unfolding entry_outcome_def r_def [symmetric] by blast
next
  case (Some m)
  have "mm_market_id m = mm_market_id (pd_market p)" using map_of_SomeD [OF Some] by auto
  then have "same_gap p (p\<lparr>pd_market := m\<rparr>)" by (simp add: same_gap_def)
  then show ?thesis by (simp add: update_market_step_def Some entry_outcome_put)
qed

interpretation market_update: entry_step "update_market_step markets now_ts now_mono" for markets now_ts now_mono
  by unfold_locales (rule update_market_step_outcome)

text \<open>Passes that close exactly the gaps that meet a condition.\<close>

locale closing_step = quiet_step +
  fixes doomed :: "gap_config \<Rightarrow> pending_gap \<Rightarrow> bool"
  assumes spares: "\<not> doomed (gd_config d) p \<Longrightarrow> step (key, p) d = (Inr None, d)"
    and closes: "doomed (gd_config d) p \<Longrightarrow> fst (step (key, p) d) \<noteq> Inr None"
begin

lemma loop_closes:
  assumes "gap_loop step xs d = (Inr obs, d')" and "distinct (map fst (gd_pending d))"
    and "distinct (map fst xs)" and "set xs \<subseteq> set (gd_pending d)"
  shows "set (gd_pending d') = set (gd_pending d) - {(key, p) \<in> set xs. doomed (gd_config d) p}"
  using assms
proof (induction xs arbitrary: d obs)
  case (Cons x xs)
  obtain key p where x: "x = (key, p)" by (cases x)
  from Cons.prems(1) obtain r d1 obs' where s: "step (key, p) d = (Inr r, d1)" "gap_loop step xs d1 = (Inr obs', d')"
    by (auto simp: x split: prod.splits sum.splits)
  show ?case
  proof (cases "doomed (gd_config d) p")
    case False
    then have "d1 = d" using spares [of d p key] s(1) by simp
    with Cons.IH [OF s(2)] Cons.prems s(2) False show ?thesis by (auto simp: x)
  next
    case True
    have "fst (step (key, p) d) \<noteq> Inr None" by (rule closes [OF True])
    then have d1: "gd_pending d1 = AList.delete key (gd_pending d)"
    proof (cases rule: step_cases [of key p d])
      case (close p' mu ob)
      from close(4) s(1) have "d1 = (complete_observation ob (go_reject_stage ob) d)\<lparr>gd_pending :=
         AList.delete key (gd_pending d), gd_market_update_observations := mu\<rparr>" by (metis prod.inject)
      then show ?thesis by simp
    qed (simp_all add: s(1))
    have cfg: "gd_config d1 = gd_config d" using step_frame [of "(key, p)" d] s(1) by simp
    have del: "set (AList.delete key (gd_pending d)) = set (gd_pending d) - {(key, p)}"
      using Cons.prems(2,4) by (auto simp: x AList.delete_eq dest: eq_key_imp_eq_value)
    have "set xs \<subseteq> set (gd_pending d1)" using Cons.prems(3,4) by (force simp: d1 del x)
    from Cons.IH [OF s(2) _ _ this] Cons.prems(2,3) True show ?thesis by (auto simp: d1 cfg del x)
  qed
qed simp

lemma loop_leaves:
  assumes "gap_loop step (gd_pending d) d = (Inr obs, d')" and "distinct (map fst (gd_pending d))"
  shows "set (gd_pending d') = {(key, p) \<in> set (gd_pending d). \<not> doomed (gd_config d) p}"
  using loop_closes [OF assms assms(2) order.refl] by auto

end

lemma market_end_step_outcome: "entry_outcome key p d (market_end_step e st now_ts now_mono (key, p) d)"
  unfolding market_end_step_def Let_def prod.case
  by (auto intro!: entry_outcome_keep entry_outcome_close simp: closable_def)
    (simp_all add: same_gap_def mark_non_tradable_def refresh_from_state_def copy_current_quote_def split: option.split)

interpretation lifecycle: closing_step "market_end_step e st now_ts now_mono"
    "\<lambda>_ p. mm_market_id (pd_market p) = ml_market_id e" for e st now_ts now_mono
proof unfold_locales
  show "entry_outcome key p d (market_end_step e st now_ts now_mono (key, p) d)" for key p d
    by (rule market_end_step_outcome)
  show "gd_market_update_observations (snd (market_end_step e st now_ts now_mono (key, p) d))
      = gd_market_update_observations d" for key p d
    by (simp add: market_end_step_def Let_def)
  show "fst (market_end_step e st now_ts now_mono (key, p) d) \<noteq> Inr None"
    if "mm_market_id (pd_market p) = ml_market_id e" for d p key
    using that by (simp add: market_end_step_def Let_def map_sum_def split: sum.split)
qed (simp add: market_end_step_def Let_def)

definition over_lifetime :: "int \<Rightarrow> gap_config \<Rightarrow> pending_gap \<Rightarrow> bool" where
  "over_lifetime now_mono cfg p \<longleftrightarrow>
     fless (gc_max_pending_gap_ms cfg) (elapsed_ms (pd_first_detected_monotonic_ns p) now_mono)"

lemma expire_step_outcome: "entry_outcome key p d (expire_step st now_ts now_mono (key, p) d)"
  by (auto simp: expire_step_def Let_def closable_expire_gap intro!: entry_outcome_keep entry_outcome_close
      split: option.split)

interpretation expire: closing_step "expire_step st now_ts now_mono" "over_lifetime now_mono" for st now_ts now_mono
proof unfold_locales
  show "entry_outcome key p d (expire_step st now_ts now_mono (key, p) d)" for key p d
    by (rule expire_step_outcome)
  show "gd_market_update_observations (snd (expire_step st now_ts now_mono (key, p) d))
      = gd_market_update_observations d" for key p d
    by (simp add: expire_step_def Let_def split: option.split)
  show "fst (expire_step st now_ts now_mono (key, p) d) \<noteq> Inr None"
    if "over_lifetime now_mono (gd_config d) p" for d p key
    using that by (simp add: expire_step_def timeout_reason_def over_lifetime_def Let_def map_sum_def split: sum.split)
qed (simp add: expire_step_def timeout_reason_def over_lifetime_def)

subsection \<open>Candidates\<close>

definition fresh_pending :: "gap_detector \<Rightarrow> gap_detector \<Rightarrow> bool" where
  \<comment> \<open>the gaps of the second state are those of the first or of markets that are not invalid\<close>
  "fresh_pending d d' \<longleftrightarrow>
     (\<forall>key\<in>pending_keys d'. key \<in> pending_keys d \<or> fst (snd key) \<notin> set (gd_invalid_markets d))"

definition candidate_done :: "gap_config \<Rightarrow> gap_detector \<Rightarrow> gap_observation option gap_result \<Rightarrow> bool" where
  \<comment> \<open>a counted candidate ends as a rejection, a duplicate or a pending gap, or raises\<close>
  "candidate_done cfg d r \<longleftrightarrow> (gap_inv cfg d \<longrightarrow> gap_inv cfg (snd r)) \<and> gd_config (snd r) = gd_config d
     \<and> gd_invalid_markets (snd r) = gd_invalid_markets d
     \<and> gd_market_update_observations (snd r) = gd_market_update_observations d \<and> fresh_pending d (snd r)
     \<and> open_candidates (snd r) = open_candidates d - (case fst r of Inl _ \<Rightarrow> 0 | Inr _ \<Rightarrow> 1)
     \<and> (\<forall>ob. fst r = Inr ob \<longrightarrow> gd_completed (snd r) = gd_completed d @ (case ob of None \<Rightarrow> [] | Some ob \<Rightarrow> [ob]))"

lemma fresh_pending_same: "gd_pending d' = gd_pending d \<Longrightarrow> fresh_pending d d'"
  by (auto simp: fresh_pending_def)

lemma reject_candidate_done:
  "candidate_done cfg d (reject_candidate st c token quote reason d)"
proof (cases "pre_entry_observation d st c token quote reason")
  case (Inl e)
  then show ?thesis
    by (simp add: candidate_done_def reject_candidate_def fresh_pending_same)
next
  case (Inr ob)
  define key where "key = (go_symbol ob, go_market_id ob, go_direction ob,
    str_or (or_str (go_pre_entry_reject_reason ob) (go_reject_reason ob)) '''')"
  define d1 where "d1 = d\<lparr>gd_non_fillable := gd_non_fillable d + 1,
    gd_non_fillable_by_symbol := ctr_inc (go_symbol ob) (gd_non_fillable_by_symbol d)\<rparr>"
  define quiet where "quiet = d1\<lparr>gd_pre_entry_suppressed := gd_pre_entry_suppressed d1 + 1,
    gd_suppressed_by_symbol := ctr_inc (go_symbol ob) (gd_suppressed_by_symbol d1)\<rparr>"
  define loud where "loud = d1\<lparr>gd_last_pre_entry_log := AList.update key (go_detected_ts_ns ob) (gd_last_pre_entry_log d1),
    gd_pre_entry_written := gd_pre_entry_written d1 + 1\<rparr>"
  have ok: "observation_ok cfg ob"
    using pre_entry_observation_fields [OF Inr] by (simp add: observation_ok_def)
  have quiet: "candidate_done cfg d (Inr None, quiet)"
    by (auto simp: candidate_done_def quiet_def d1_def gap_inv_def open_candidates_def fresh_pending_def)
  have loud: "candidate_done cfg d (Inr (Some ob), complete_observation ob RS_pre_entry loud)"
    using ok by (auto simp: candidate_done_def loud_def d1_def gap_inv_def open_candidates_def fresh_pending_def)
  consider "reject_candidate st c token quote reason d = (Inr None, quiet)"
    | "reject_candidate st c token quote reason d = (Inr (Some ob), complete_observation ob RS_pre_entry loud)"
    unfolding reject_candidate_def Inr sum.case record_pre_entry_observation_def Let_def
      key_def [symmetric] d1_def [symmetric] quiet_def [symmetric] loud_def [symmetric]
    by (cases "case map_of (gd_last_pre_entry_log d1) key of None \<Rightarrow> False
       | Some t \<Rightarrow> fless (elapsed_ms t (go_detected_ts_ns ob)) (gc_pre_entry_log_cooldown_ms (gd_config d1))") simp_all
  then show ?thesis using quiet loud by cases simp_all
qed

lemma fillable_spread:
  "fillable_before_repricing d m q = None \<Longrightarrow>
     \<exists>s. pq_spread q = Some s \<and> \<not> fless (gc_max_entry_spread (gd_config d)) s"
  by (auto simp: fillable_before_repricing_def split: if_splits option.splits)

lemma open_pending_done:
  assumes "key \<notin> pending_keys d" and "key = (mo_symbol (ca_move c), mm_market_id (ca_market c), mo_direction (ca_move c))"
    and "mm_market_id (ca_market c) \<notin> set (gd_invalid_markets d)"
    and "fillable_before_repricing d (ca_market c) q = None"
  shows "candidate_done cfg d (open_pending st c token q key d)"
proof (cases "open_pending st c token q key d = (Inl AssertionError, d)")
  case True
  then show ?thesis by (simp add: candidate_done_def fresh_pending_same)
next
  case False
  then obtain ask ask_size where ask: "pq_best_ask q = Some ask" "pq_best_ask_size q = Some ask_size"
    by (auto simp: open_pending_def split: option.splits)
  define d1 where "d1 = d\<lparr>gd_candidates_per_minute := ctr_inc (mo_symbol (ca_move c) @ '':''
    @ direction_text (mo_direction (ca_move c)) @ '':'' @ int_digits (mo_now_ts (ca_move c) div 60000000000))
      (gd_candidates_per_minute d)\<rparr>"
  define p where "p = pending_of_quote d1 st c token q ask ask_size"
  define d2 where "d2 = put_pending key p d1"
  have r: "open_pending st c token q key d = (Inr None, d2\<lparr>gd_fillable := gd_fillable d2 + 1\<rparr>)"
    unfolding open_pending_def ask prod.case option.case Let_def d1_def [symmetric] p_def [symmetric] d2_def [symmetric]
    by (rule refl)
  have ok: "gd_config d = cfg \<Longrightarrow> pending_ok cfg key p"
    using assms(2) fillable_spread [OF assms(4)]
    by (auto simp: p_def pending_of_quote_def Let_def pending_ok_def)
  have pend: "gd_pending d2 = AList.update key p (gd_pending d)" by (simp add: d2_def d1_def)
  have fields: "gd_config d2 = gd_config d" "gd_completed d2 = gd_completed d" "gd_fillable d2 = gd_fillable d"
    "gd_invalid_markets d2 = gd_invalid_markets d" "gd_non_fillable d2 = gd_non_fillable d"
    "gd_pre_entry_written d2 = gd_pre_entry_written d" "gd_pre_entry_suppressed d2 = gd_pre_entry_suppressed d"
    "gd_market_update_observations d2 = gd_market_update_observations d"
    "open_candidates d2 = open_candidates d"
    by (simp_all add: d2_def d1_def open_candidates_def)
  have inv: "gap_inv cfg (d2\<lparr>gd_fillable := gd_fillable d2 + 1\<rparr>)" if "gap_inv cfg d"
    using that ok set_update [of key p "gd_pending d"] length_update_new [OF assms(1), of p]
    by (auto simp: gap_inv_def pend fields)
  have "fresh_pending d (d2\<lparr>gd_fillable := gd_fillable d2 + 1\<rparr>)"
    using assms(2,3) by (auto simp: fresh_pending_def pend keys_update)
  moreover have "open_candidates (d2\<lparr>gd_fillable := gd_fillable d2 + 1\<rparr>) = open_candidates d - 1"
    using fields(9) by (simp add: open_candidates_def)
  ultimately show ?thesis using inv by (simp add: candidate_done_def r fields)
qed

lemma examine_quote_done:
  assumes "key \<notin> pending_keys d" and "key = (mo_symbol (ca_move c), mm_market_id (ca_market c), mo_direction (ca_move c))"
    and "mm_market_id (ca_market c) \<notin> set (gd_invalid_markets d)"
  shows "candidate_done cfg d (examine_quote st c token key d)"
  using open_pending_done [OF assms]
  by (simp add: examine_quote_def reject_candidate_done split: option.split)

definition market_done :: "gap_config \<Rightarrow> gap_detector \<Rightarrow> gap_observation list gap_result \<Rightarrow> bool" where
  \<comment> \<open>the same contract for a part of the detector that has dealt with its candidates\<close>
  "market_done cfg d r \<longleftrightarrow> (gap_inv cfg d \<longrightarrow> gap_inv cfg (snd r)) \<and> gd_config (snd r) = gd_config d
     \<and> gd_invalid_markets (snd r) = gd_invalid_markets d
     \<and> gd_market_update_observations (snd r) = gd_market_update_observations d \<and> fresh_pending d (snd r)
     \<and> open_candidates d \<le> open_candidates (snd r)
     \<and> (\<forall>obs. fst r = Inr obs \<longrightarrow> open_candidates (snd r) = open_candidates d
          \<and> gd_completed (snd r) = gd_completed d @ obs)"

lemma market_done_refl: "market_done cfg d (Inr [], d)"
  by (simp add: market_done_def fresh_pending_same)

lemma market_done_then:
  assumes "market_done cfg d r" and "\<And>d' obs. r = (Inr obs, d') \<Longrightarrow> market_done cfg d' (f d')"
    and "r' = (case r of (Inl e, d') \<Rightarrow> (Inl e, d') | (Inr obs, d') \<Rightarrow> map_prod (map_sum id ((@) obs)) id (f d'))"
  shows "market_done cfg d r'"
proof (cases r)
  case (Pair x d')
  show ?thesis
  proof (cases x)
    case (Inl e)
    then show ?thesis using assms(1,3) Pair by simp
  next
    case (Inr obs)
    have f: "market_done cfg d' (f d')" using assms(2) Pair Inr by simp
    have r': "r' = map_prod (map_sum id ((@) obs)) id (f d')" using assms(3) Pair Inr by simp
    have a: "gap_inv cfg d \<longrightarrow> gap_inv cfg d'" "gd_config d' = gd_config d"
      "gd_invalid_markets d' = gd_invalid_markets d" "fresh_pending d d'"
      "gd_market_update_observations d' = gd_market_update_observations d"
      "open_candidates d' = open_candidates d" "gd_completed d' = gd_completed d @ obs"
      using assms(1) by (simp_all add: market_done_def Pair Inr)
    obtain y d2 where fd: "f d' = (y, d2)" by fastforce
    have b: "gap_inv cfg d' \<longrightarrow> gap_inv cfg d2" "gd_config d2 = gd_config d'"
      "gd_invalid_markets d2 = gd_invalid_markets d'" "fresh_pending d' d2"
      "gd_market_update_observations d2 = gd_market_update_observations d'" "open_candidates d' \<le> open_candidates d2"
      "\<And>obs. y = Inr obs \<Longrightarrow> open_candidates d2 = open_candidates d' \<and> gd_completed d2 = gd_completed d' @ obs"
      using f by (simp_all add: market_done_def fd)
    have fresh: "fresh_pending d d2"
      using a(4) b(4) unfolding fresh_pending_def a(3) by blast
    show ?thesis
    proof (cases y)
      case (Inl e)
      then show ?thesis unfolding market_done_def r' fd using a b(1-6) fresh by simp
    next
      case (Inr obs')
      then show ?thesis unfolding market_done_def r' fd using a b(1-6) b(7) [OF Inr] fresh by simp
    qed
  qed
qed

lemma gap_loop_done:
  assumes "\<And>x d. market_done cfg d (map_prod (map_sum id (\<lambda>ob. case ob of None \<Rightarrow> [] | Some ob \<Rightarrow> [ob])) id (f x d))"
  shows "market_done cfg d (gap_loop f xs d)"
proof (induction xs arbitrary: d)
  case (Cons x xs)
  show ?case
    by (rule market_done_then [OF assms [of d x] Cons.IH])
      (auto split: prod.splits sum.splits)
qed (simp add: market_done_refl)

context quiet_step
begin

lemma loop_done: "market_done cfg d (gap_loop step (gd_pending d) d)"
  using loop_inv [of cfg d] loop_frame [of "gd_pending d" d] loop_quiet [of "gd_pending d" d] loop_keys [of d]
    loop_delivers [of "gd_pending d" d]
  by (cases "gap_loop step (gd_pending d) d") (auto simp: market_done_def fresh_pending_def)

end

lemma consider_market_done:
  "market_done cfg d (map_prod (map_sum id (\<lambda>ob. case ob of None \<Rightarrow> [] | Some ob \<Rightarrow> [ob])) id
     (consider_market st mv m d))"
proof -
  define gate where "gate = book_readiness_gate d m st (mo_now_ts mv)"
  define c where "c = \<lparr>ca_move = mv, ca_market = m, ca_gate = gate\<rparr>"
  define symbol where "symbol = mo_symbol mv"
  define key where "key = (symbol, mm_market_id m, mo_direction mv)"
  define d1 where "d1 = d\<lparr>gd_detected_gaps := gd_detected_gaps d + 1,
    gd_candidates_by_symbol := ctr_inc symbol (gd_candidates_by_symbol d),
    gd_candidates_per_window := ctr_inc (mm_market_id m @ '':'' @ format_g (me_window_ms (mo_episode mv)) @ '':''
      @ int_digits (me_bucket (mo_episode mv))) (gd_candidates_per_window d)\<rparr>"
  define dup where "dup = d1\<lparr>gd_duplicate_suppressed := gd_duplicate_suppressed d1 + 1,
    gd_suppressed_by_symbol := ctr_inc symbol (gd_suppressed_by_symbol d1)\<rparr>"
  define r where "r = (if mm_market_id m \<in> set (gd_invalid_markets d1) \<or> is_market_invalid (mm_market_id m) st
       then reject_candidate st c (str_or (token_for_direction (mo_direction mv) m) []) None ''market_invalidated'' d1
       else (case token_for_direction (mo_direction mv) m of
           None \<Rightarrow> reject_candidate st c [] None ''direction_token_unmapped'' d1
         | Some t \<Rightarrow> if key \<in> pending_keys d1 then (Inr None, dup) else examine_quote st c t key d1))"
  have r: "consider_market st mv m d = (if \<not> market_signal_enabled m (mo_now_ts mv) then (Inr None, d)
       else if bg_suppress gate
       then (Inr None, d\<lparr>gd_book_warmup_suppressed := gd_book_warmup_suppressed d + 1\<rparr>) else r)"
    unfolding consider_market_def Let_def r_def gate_def c_def symbol_def key_def d1_def dup_def
    by (rule refl)
  have dup: "candidate_done cfg d1 (Inr None, dup)"
    by (auto simp: candidate_done_def dup_def gap_inv_def open_candidates_def fresh_pending_def)
  have "candidate_done cfg d1 r"
    unfolding r_def using dup reject_candidate_done
    by (auto simp: c_def key_def symbol_def intro!: examine_quote_done split: option.split)
  moreover have "gap_inv cfg d1 = gap_inv cfg d" "open_candidates d1 = open_candidates d + 1"
    "gd_config d1 = gd_config d" "gd_invalid_markets d1 = gd_invalid_markets d" "gd_completed d1 = gd_completed d"
    "gd_market_update_observations d1 = gd_market_update_observations d" "gd_pending d1 = gd_pending d"
    by (simp_all add: d1_def gap_inv_def open_candidates_def)
  ultimately have "market_done cfg d (map_prod (map_sum id (\<lambda>ob. case ob of None \<Rightarrow> [] | Some ob \<Rightarrow> [ob])) id r)"
    by (cases r; cases "fst r") (auto simp: candidate_done_def market_done_def fresh_pending_def)
  moreover have "market_done cfg d (Inr [], d\<lparr>gd_book_warmup_suppressed := gd_book_warmup_suppressed d + 1\<rparr>)"
    by (auto simp: market_done_def gap_inv_def open_candidates_def fresh_pending_def)
  ultimately show ?thesis by (simp add: r market_done_refl)
qed

lemma market_done_frame:
  assumes "market_done cfg d1 r" and "gap_inv cfg d1 = gap_inv cfg d" and "open_candidates d1 = open_candidates d"
    and "gd_config d1 = gd_config d" and "gd_invalid_markets d1 = gd_invalid_markets d"
    and "gd_completed d1 = gd_completed d" and "gd_pending d1 = gd_pending d"
    and "gd_market_update_observations d1 = gd_market_update_observations d"
  shows "market_done cfg d r"
  using assms by (simp add: market_done_def fresh_pending_def)

lemma detect_done: "market_done cfg d (detect_binance_move symbol st now_ts now_mono event_ts d)"
proof -
  have rej: "market_done cfg d (Inr [], record_reject reason stage d)" for reason stage
    by (rule market_done_frame [OF market_done_refl])
      (simp_all add: record_reject_def gap_inv_def open_candidates_def)
  have loop: "market_done cfg d (gap_loop (consider_market st mv) ms (d\<lparr>gd_moves_by_symbol := c\<rparr>))" for mv ms c
    by (rule market_done_frame [OF gap_loop_done [OF consider_market_done]])
      (simp_all add: gap_inv_def open_candidates_def)
  have none: "market_done cfg d (Inr [], d\<lparr>gd_moves_by_symbol := c\<rparr>)" for c
    by (rule market_done_frame [OF market_done_refl]) (simp_all add: gap_inv_def open_candidates_def)
  show ?thesis unfolding detect_binance_move_def Let_def
    by (simp add: rej loop none market_done_refl split: option.split prod.split)
qed

lemma then_expire_done: "market_done cfg d r \<Longrightarrow> market_done cfg d (then_expire st now_ts now_mono r)"
  by (rule market_done_then [of cfg d r "close_expired_pending st now_ts now_mono"])
    (simp_all add: close_expired_pending_def expire.loop_done then_expire_def)

lemma warmup_done: "market_done cfg (record_warmup_quote q now_ts d) r \<Longrightarrow> market_done cfg d r"
  by (erule market_done_frame)
    (simp_all add: record_warmup_quote_def gap_inv_def open_candidates_def split: option.split)

lemma event_expires:
  assumes "\<forall>l. e \<noteq> E_lifecycle l"
  obtains r where "on_market_event e st now clock d =
      then_expire st (int_or now clock) (int_or (Some (event_monotonic e)) (int_or now clock)) r"
    and "market_done cfg d r"
  using assms that unfolding on_market_event_def Let_def handle_polymarket_quote_def
  by (cases e) (simp_all add: detect_done market_done_refl warmup_done [OF quote.loop_done])

lemma event_done:
  assumes "\<forall>l. e \<noteq> E_lifecycle l"
  shows "market_done cfg d (on_market_event e st now clock d)"
  by (rule event_expires [OF assms, of st now clock d cfg]) (simp add: then_expire_done)

subsection \<open>Lifecycle events, market lists and whole runs\<close>

definition lifecycle_marked :: "market_lifecycle_event \<Rightarrow> gap_detector \<Rightarrow> gap_detector" where
  \<comment> \<open>the detector after the first part of \<open>_handle_lifecycle\<close>\<close>
  "lifecycle_marked e d = (if ml_lifecycle_type e = TickSizeChange \<and> or_float (ml_new_tick_size e) None \<noteq> None
     then d\<lparr>gd_tick_size_by_market := AList.update (ml_market_id e)
            (case ml_new_tick_size e of Some t \<Rightarrow> t | None \<Rightarrow> fzero) (gd_tick_size_by_market d)\<rparr>
     else d\<lparr>gd_invalid_markets := List.insert (ml_market_id e) (gd_invalid_markets d)\<rparr>)"

lemma handle_lifecycle_cases:
  "handle_lifecycle e st now_ts now_mono d = (if ml_lifecycle_type e = NewMarket then (Inr [], d)
     else if ml_lifecycle_type e = TickSizeChange \<and> or_float (ml_new_tick_size e) None \<noteq> None
       \<and> \<not> gc_close_pending_on_tick_size_change (gd_config d) then (Inr [], lifecycle_marked e d)
     else gap_loop (market_end_step e st now_ts now_mono) (gd_pending (lifecycle_marked e d)) (lifecycle_marked e d))"
  by (auto simp: handle_lifecycle_def lifecycle_marked_def Let_def)

lemma lifecycle_marked_fields [simp]:
  "gap_inv cfg (lifecycle_marked e d) = gap_inv cfg d" "gd_config (lifecycle_marked e d) = gd_config d"
  "open_candidates (lifecycle_marked e d) = open_candidates d" "gd_pending (lifecycle_marked e d) = gd_pending d"
  "gd_completed (lifecycle_marked e d) = gd_completed d"
  "gd_market_update_observations (lifecycle_marked e d) = gd_market_update_observations d"
  "set (gd_invalid_markets d) \<subseteq> set (gd_invalid_markets (lifecycle_marked e d))"
  "set (gd_invalid_markets (lifecycle_marked e d)) \<subseteq> insert (ml_market_id e) (set (gd_invalid_markets d))"
  by (auto simp: lifecycle_marked_def gap_inv_def open_candidates_def)

definition no_invalid_pending :: "gap_detector \<Rightarrow> bool" where
  "no_invalid_pending d \<longleftrightarrow> (\<forall>key\<in>pending_keys d. fst (snd key) \<notin> set (gd_invalid_markets d))"

lemma no_invalid_pending_mono:
  assumes "pending_keys d' \<subseteq> pending_keys d" and "set (gd_invalid_markets d') \<subseteq> set (gd_invalid_markets d)"
    and "no_invalid_pending d"
  shows "no_invalid_pending d'"
  using assms unfolding no_invalid_pending_def by blast

definition delivered :: "gap_detector \<Rightarrow> gap_observation list \<Rightarrow> gap_detector \<Rightarrow> bool" where
  \<comment> \<open>an operation without an exception: what it completes it hands out or keeps for the market update\<close>
  "delivered d obs d' \<longleftrightarrow> open_candidates d' = open_candidates d
     \<and> mset (gd_completed d') + mset (gd_market_update_observations d)
       = mset (gd_completed d) + mset obs + mset (gd_market_update_observations d')
     \<and> (no_invalid_pending d \<longrightarrow> no_invalid_pending d')"

lemma market_done_delivered: "market_done cfg d (Inr obs, d') \<Longrightarrow> delivered d obs d'"
  unfolding market_done_def delivered_def no_invalid_pending_def fresh_pending_def fst_conv snd_conv
  by (auto simp del: bex_simps ball_simps image_iff)

lemma lifecycle_inv: "gap_inv cfg d \<Longrightarrow> gap_inv cfg (snd (handle_lifecycle e st now_ts now_mono d))"
  using lifecycle.loop_inv [of cfg "lifecycle_marked e d" e st now_ts now_mono]
  by (simp add: handle_lifecycle_cases)

lemma lifecycle_closes:
  assumes "gap_inv cfg d" and "handle_lifecycle e st now_ts now_mono d = (Inr obs, d')"
    and "ml_lifecycle_type e \<noteq> NewMarket"
    and "\<not> (ml_lifecycle_type e = TickSizeChange \<and> or_float (ml_new_tick_size e) None \<noteq> None
       \<and> \<not> gc_close_pending_on_tick_size_change (gd_config d))"
  shows "set (gd_pending d') = {(key, p) \<in> set (gd_pending d). mm_market_id (pd_market p) \<noteq> ml_market_id e}"
proof -
  have "gap_loop (market_end_step e st now_ts now_mono) (gd_pending (lifecycle_marked e d)) (lifecycle_marked e d)
      = (Inr obs, d')" using assms(2-4) by (auto simp: handle_lifecycle_cases)
  from lifecycle.loop_leaves [OF this] assms(1) show ?thesis by (simp add: gap_inv_def)
qed

lemma lifecycle_delivered:
  assumes "gap_inv cfg d" and "handle_lifecycle e st now_ts now_mono d = (Inr obs, d')"
  shows "delivered d obs d'"
proof (cases "ml_lifecycle_type e = NewMarket")
  case True
  then show ?thesis using assms(2) by (simp add: handle_lifecycle_cases delivered_def)
next
  case False
  show ?thesis
  proof (cases "ml_lifecycle_type e = TickSizeChange \<and> or_float (ml_new_tick_size e) None \<noteq> None
       \<and> \<not> gc_close_pending_on_tick_size_change (gd_config d)")
    case True
    then have "(Inr [], lifecycle_marked e d) = (Inr obs, d')" using assms(2) by (auto simp: handle_lifecycle_cases)
    moreover have "gd_invalid_markets (lifecycle_marked e d) = gd_invalid_markets d"
      using True by (simp add: lifecycle_marked_def)
    ultimately have "obs = []" "d' = lifecycle_marked e d" "gd_invalid_markets d' = gd_invalid_markets d" by auto
    then show ?thesis unfolding delivered_def no_invalid_pending_def by simp
  next
    case closes: False
    let ?d1 = "lifecycle_marked e d"
    have loop: "gap_loop (market_end_step e st now_ts now_mono) (gd_pending d) ?d1 = (Inr obs, d')"
      using assms(2) False closes by (auto simp: handle_lifecycle_cases)
    have frame: "open_candidates d' = open_candidates d" "gd_invalid_markets d' = gd_invalid_markets ?d1"
      "gd_market_update_observations d' = gd_market_update_observations d" "gd_completed d' = gd_completed d @ obs"
      using lifecycle.loop_frame [of e st now_ts now_mono "gd_pending d" ?d1]
        lifecycle.loop_quiet [of e st now_ts now_mono "gd_pending d" ?d1] lifecycle.loop_delivers [OF loop]
      by (simp_all add: loop)
    have pend: "set (gd_pending d') = {(key, p) \<in> set (gd_pending d). mm_market_id (pd_market p) \<noteq> ml_market_id e}"
      by (rule lifecycle_closes [OF assms False closes])
    have "fst (snd key) \<notin> set (gd_invalid_markets d')"
      if free: "no_invalid_pending d" and key: "key \<in> pending_keys d'" for key
    proof -
      obtain p where p: "(key, p) \<in> set (gd_pending d)" "mm_market_id (pd_market p) \<noteq> ml_market_id e"
        using key pend by auto
      have "fst (snd key) = mm_market_id (pd_market p)"
        using assms(1) p(1) by (auto simp: gap_inv_def pending_ok_def)
      moreover have "fst (snd key) \<notin> set (gd_invalid_markets d)"
        using free p(1) by (force simp: no_invalid_pending_def)
      ultimately show ?thesis using p(2) by (auto simp: frame(2) dest: subsetD [OF lifecycle_marked_fields(8)])
    qed
    then show ?thesis by (simp add: delivered_def frame no_invalid_pending_def)
  qed
qed

lemma update_market_step_closes:
  "(\<exists>m. update_market_step markets now_ts now_mono (key, p) d = (Inr None, put_pending key (p\<lparr>pd_market := m\<rparr>) d))
   \<or> (\<exists>p1. update_market_step markets now_ts now_mono (key, p) d = (case close_pending key p1 d of
        (Inl e, d1) \<Rightarrow> (Inl e, d1)
      | (Inr ob, d1) \<Rightarrow> (Inr (Some ob),
          d1\<lparr>gd_market_update_observations := gd_market_update_observations d1 @ [ob]\<rparr>)))"
  unfolding update_market_step_def Let_def prod.case
  by (cases "map_of (rev (map (\<lambda>m. (mm_market_id m, m)) markets)) (mm_market_id (pd_market p))";
      simp only: option.case; blast)

lemma update_step_collects:
  assumes "fst (update_market_step markets now_ts now_mono x d) = Inr r"
  shows "gd_market_update_observations (snd (update_market_step markets now_ts now_mono x d))
       = gd_market_update_observations d @ (case r of None \<Rightarrow> [] | Some ob \<Rightarrow> [ob])"
proof -
  obtain key p where x: "x = (key, p)" by (cases x)
  consider m where "update_market_step markets now_ts now_mono x d = (Inr None, put_pending key (p\<lparr>pd_market := m\<rparr>) d)"
    | p1 where "update_market_step markets now_ts now_mono x d = (case close_pending key p1 d of
        (Inl e, d1) \<Rightarrow> (Inl e, d1)
      | (Inr ob, d1) \<Rightarrow> (Inr (Some ob),
          d1\<lparr>gd_market_update_observations := gd_market_update_observations d1 @ [ob]\<rparr>))"
    using update_market_step_closes [of markets now_ts now_mono key p d] unfolding x by blast
  then show ?thesis
  proof cases
    case (1 m)
    then show ?thesis using assms by auto
  next
    case (2 p1)
    show ?thesis
    proof (cases rule: close_pending_cases [of d p1 key])
      case (1 e)
      then show ?thesis using assms 2 by simp
    next
      case c: (2 ob)
      then show ?thesis using assms 2 by auto
    qed
  qed
qed

lemma update_loop_collects:
  "gap_loop (update_market_step markets now_ts now_mono) xs d = (Inr obs, d') \<Longrightarrow>
     gd_market_update_observations d' = gd_market_update_observations d @ obs"
proof (induction xs arbitrary: d obs)
  case (Cons x xs)
  from Cons.prems obtain r d1 obs' where s: "update_market_step markets now_ts now_mono x d = (Inr r, d1)"
    "gap_loop (update_market_step markets now_ts now_mono) xs d1 = (Inr obs', d')"
    "obs = (case r of None \<Rightarrow> [] | Some ob \<Rightarrow> [ob]) @ obs'"
    by (auto split: prod.splits sum.splits)
  then show ?case using update_step_collects [of markets now_ts now_mono x d r] Cons.IH [OF s(2)] by simp
qed simp

lemma update_markets_cases:
  obtains e d1 where "gap_loop (update_market_step markets now_ts now_mono) (gd_pending d) d = (Inl e, d1)"
    "update_markets markets now_ts now_mono d = (Inl e, d1)"
  | obs d1 where "gap_loop (update_market_step markets now_ts now_mono) (gd_pending d) d = (Inr obs, d1)"
    "update_markets markets now_ts now_mono d = (Inr (), d1\<lparr>gd_markets := markets,
       gd_markets_by_symbol := group_markets markets, gd_markets_by_token := markets_by_token markets,
       gd_tick_size_by_market := tick_sizes markets,
       gd_invalid_markets := [i \<leftarrow> gd_invalid_markets d1. i \<in> mm_market_id ` set markets]\<rparr>)"
  by (cases "gap_loop (update_market_step markets now_ts now_mono) (gd_pending d) d";
      cases "fst (gap_loop (update_market_step markets now_ts now_mono) (gd_pending d) d)")
    (simp_all add: update_markets_def)

lemma update_inv: "gap_inv cfg d \<Longrightarrow> gap_inv cfg (snd (update_markets markets now_ts now_mono d))"
  using market_update.loop_inv [of cfg d markets now_ts now_mono]
  by (cases rule: update_markets_cases [of markets now_ts now_mono d]) (simp_all add: gap_inv_def)

lemma update_delivered:
  assumes "update_markets markets now_ts now_mono d = (Inr u, d')"
  shows "delivered d [] d'"
proof (cases rule: update_markets_cases [of markets now_ts now_mono d])
  case (1 e d1)
  then show ?thesis using assms by simp
next
  case (2 obs d1)
  have d': "gd_completed d' = gd_completed d1" "gd_pending d' = gd_pending d1" "open_candidates d' = open_candidates d1"
    "gd_market_update_observations d' = gd_market_update_observations d1"
    "set (gd_invalid_markets d') \<subseteq> set (gd_invalid_markets d1)"
    using 2(2) assms by (auto simp: open_candidates_def)
  have "open_candidates d1 = open_candidates d" "gd_invalid_markets d1 = gd_invalid_markets d"
    "pending_keys d1 \<subseteq> pending_keys d" "gd_completed d1 = gd_completed d @ obs"
    "gd_market_update_observations d1 = gd_market_update_observations d @ obs"
    using market_update.loop_frame [of markets now_ts now_mono "gd_pending d" d]
      market_update.loop_keys [of markets now_ts now_mono d] market_update.loop_delivers [OF 2(1)]
      update_loop_collects [OF 2(1)] by (simp_all add: 2(1))
  then show ?thesis using d'(5) no_invalid_pending_mono [of d' d] by (simp add: delivered_def d')
qed

lemma op_inv:
  assumes "gap_inv cfg d"
  shows "gap_inv cfg (snd (gap_op_step op d))"
proof (cases op)
  case (Op_event e st now clock)
  show ?thesis
  proof (cases e)
    case (E_lifecycle l)
    then show ?thesis using assms by (simp add: Op_event on_market_event_def Let_def lifecycle_inv)
  qed (use assms event_done [where e = e and cfg = cfg and st = st and now = now and clock = clock and d = d]
    in \<open>simp_all add: Op_event market_done_def\<close>)
next
  case (Op_markets ms now_ts now_mono)
  then show ?thesis using update_inv [OF assms] by simp
next
  case Op_drain
  then show ?thesis using assms by (simp add: drain_market_update_observations_def gap_inv_def)
qed

lemma after_inv: "gap_inv cfg d \<Longrightarrow> gap_inv cfg (gap_after ops d)"
  by (induction ops d rule: gap_after.induct) (simp_all add: op_inv)

lemma op_delivered:
  assumes "gap_inv cfg d" and "gap_op_step op d = (Inr obs, d')"
  shows "delivered d obs d'"
proof (cases op)
  case (Op_event e st now clock)
  show ?thesis
  proof (cases e)
    case (E_lifecycle l)
    then show ?thesis using assms by (auto simp: Op_event on_market_event_def Let_def intro: lifecycle_delivered)
  qed (use assms(2) event_done [where e = e and cfg = cfg and st = st and now = now and clock = clock and d = d] in
    \<open>simp_all add: Op_event market_done_delivered\<close>)
next
  case (Op_markets ms now_ts now_mono)
  then show ?thesis using assms(2) update_delivered [of ms now_ts now_mono d]
    by (cases "update_markets ms now_ts now_mono d"; cases "fst (update_markets ms now_ts now_mono d)") auto
next
  case Op_drain
  then have "obs = gd_market_update_observations d" "d' = d\<lparr>gd_market_update_observations := []\<rparr>"
    using assms(2) by (auto simp: drain_market_update_observations_def)
  then show ?thesis using no_invalid_pending_mono [of d' d] by (simp add: delivered_def open_candidates_def)
qed

lemma delivered_trans:
  assumes "delivered d obs d1" and "delivered d1 obs' d2"
  shows "delivered d (obs @ obs') d2"
proof -
  have "mset (gd_completed d2) + mset (gd_market_update_observations d)
      = mset (gd_completed d) + mset (obs @ obs') + mset (gd_market_update_observations d2)"
    (is "?a = ?b")
  proof (rule multiset_eqI)
    fix x
    from assms have "count (mset (gd_completed d1) + mset (gd_market_update_observations d)) x
        = count (mset (gd_completed d) + mset obs + mset (gd_market_update_observations d1)) x"
      "count (mset (gd_completed d2) + mset (gd_market_update_observations d1)) x
        = count (mset (gd_completed d1) + mset obs' + mset (gd_market_update_observations d2)) x"
      by (simp_all only: delivered_def)
    then show "count ?a x = count ?b x" by simp
  qed
  then show ?thesis using assms by (simp add: delivered_def)
qed

lemma run_delivered:
  "gap_inv cfg d \<Longrightarrow> gap_run ops d = (Inr obs, d') \<Longrightarrow> delivered d obs d' \<and> d' = gap_after ops d"
proof (induction ops d arbitrary: obs rule: gap_run.induct)
  case (2 p ps d)
  from 2(3) obtain obs1 d1 obs2 where s: "gap_op_step p d = (Inr obs1, d1)" "gap_run ps d1 = (Inr obs2, d')"
    "obs = obs1 @ obs2"
    by (auto split: prod.splits sum.splits simp: map_prod_def map_sum_def)
  have "gap_inv cfg d1" using op_inv [OF 2(2), of p] s(1) by simp
  then show ?case using 2(1) [OF s(1) [symmetric] refl _ s(2)] op_delivered [OF 2(2) s(1)] s
    by (auto intro: delivered_trans)
qed (simp add: delivered_def)

lemma lifecycle_invalid:
  assumes "ml_lifecycle_type l \<noteq> NewMarket"
  shows "gd_invalid_markets (snd (handle_lifecycle l st now_ts now_mono d)) = gd_invalid_markets (lifecycle_marked l d)"
  using assms lifecycle.loop_frame [of l st now_ts now_mono "gd_pending (lifecycle_marked l d)" "lifecycle_marked l d"]
  by (simp add: handle_lifecycle_cases)

lemma lifecycle_keeps_invalid:
  "set (gd_invalid_markets d) \<subseteq> set (gd_invalid_markets (snd (handle_lifecycle l st now_ts now_mono d)))"
  using lifecycle_marked_fields(7) [of d l]
  by (cases "ml_lifecycle_type l = NewMarket") (simp add: handle_lifecycle_cases, simp add: lifecycle_invalid)

lemma op_keeps_invalid:
  assumes "market \<in> set (gd_invalid_markets d)"
    and "\<And>ms a b. op = Op_markets ms a b \<Longrightarrow> market \<in> mm_market_id ` set ms"
  shows "market \<in> set (gd_invalid_markets (snd (gap_op_step op d)))"
proof (cases op)
  case (Op_event e st now clock)
  show ?thesis
  proof (cases e)
    case (E_lifecycle l)
    then show ?thesis using subsetD [OF lifecycle_keeps_invalid assms(1)]
      by (simp add: Op_event on_market_event_def Let_def)
  qed (use assms(1) event_done [where e = e and st = st and now = now and clock = clock and d = d]
    in \<open>simp_all add: Op_event market_done_def\<close>)
next
  case (Op_markets ms now_ts now_mono)
  have "gd_invalid_markets (snd (gap_loop (update_market_step ms now_ts now_mono) (gd_pending d) d)) = gd_invalid_markets d"
    using market_update.loop_frame [of ms now_ts now_mono "gd_pending d" d] by simp
  with assms Op_markets show ?thesis
    by (cases rule: update_markets_cases [of ms now_ts now_mono d]) simp_all
next
  case Op_drain
  then show ?thesis using assms(1) by (simp add: drain_market_update_observations_def)
qed

lemma after_keeps_invalid:
  assumes "market \<in> set (gd_invalid_markets d)"
    and "\<And>ms a b. Op_markets ms a b \<in> set ops \<Longrightarrow> market \<in> mm_market_id ` set ms"
  shows "market \<in> set (gd_invalid_markets (gap_after ops d))"
  using assms
proof (induction ops d rule: gap_after.induct)
  case (2 p ps d)
  have "market \<in> set (gd_invalid_markets (snd (gap_op_step p d)))"
    by (rule op_keeps_invalid [OF 2(2)]) (use 2(3) in auto)
  then show ?case using 2(1) 2(3) by auto
qed simp

lemma gap_after_append: "gap_after (ops @ ops') d = gap_after ops' (gap_after ops d)"
  by (induction ops d rule: gap_after.induct) simp_all

lemma market_end_invalid:
  assumes "ml_lifecycle_type l \<notin> {NewMarket, TickSizeChange}"
  shows "ml_market_id l \<in> set (gd_invalid_markets (snd (gap_op_step (Op_event (E_lifecycle l) st now clock) d)))"
  using assms by (simp add: on_market_event_def Let_def lifecycle_invalid) (simp add: lifecycle_marked_def)

lemma init_inv: "gap_inv cfg (gap_detector_init cfg ms now)"
  by (simp add: gap_inv_def gap_detector_init_def)

end
