(* ===== verification/GapProperties.thy ===== *)
theory GapProperties
  imports GapInvariant
begin

text \<open>
  The properties of the gap detector, each with a run of the detector as its witness: a move of the
  bitcoin price opens a gap on a five-minute market, and a quote half a second later closes it.
\<close>

lemma run_facts:
  assumes "gap_run ops (gap_detector_init cfg markets now) = (Inr obs, d)"
  shows "delivered (gap_detector_init cfg markets now) obs d" and "gap_inv cfg d"
    and "gap_after ops (gap_detector_init cfg markets now) = d"
proof -
  have a: "delivered (gap_detector_init cfg markets now) obs d \<and> d = gap_after ops (gap_detector_init cfg markets now)"
    by (rule run_delivered [OF init_inv assms])
  from a show "delivered (gap_detector_init cfg markets now) obs d" by (rule conjunct1)
  from a have e: "d = gap_after ops (gap_detector_init cfg markets now)" by (rule conjunct2)
  then show "gap_after ops (gap_detector_init cfg markets now) = d" by (rule sym)
  show "gap_inv cfg d" unfolding e by (rule after_inv [OF init_inv])
qed

lemma init_fields [simp]:
  "open_candidates (gap_detector_init cfg markets now) = 0" "gd_completed (gap_detector_init cfg markets now) = []"
  "gd_pending (gap_detector_init cfg markets now) = []" "no_invalid_pending (gap_detector_init cfg markets now)"
  "gd_market_update_observations (gap_detector_init cfg markets now) = []"
  by (simp_all add: gap_detector_init_def open_candidates_def no_invalid_pending_def)

definition ex_gap_config :: gap_config where
  "ex_gap_config = \<lparr>gc_min_move_pct = Fin (1 / 8), gc_reprice_threshold = Fin (1 / 4), gc_min_exit_edge = Fin 0,
     gc_max_entry_spread = Fin (1 / 4), gc_max_entry_price_move = Fin (1 / 4), gc_max_pending_gap_ms = Fin 5000,
     gc_binance_stale_ms = Fin 500, gc_polymarket_stale_ms = Fin 1000, gc_measurement_stale_ms = Fin 5000,
     gc_pre_entry_log_cooldown_ms = Fin 500, gc_require_book_ready = False, gc_book_warmup_max_ms = Fin 3000,
     gc_validation_mode = Tolerant, gc_validation_tolerance_ticks = 1,
     gc_close_pending_on_tick_size_change = False\<rparr>"

definition ex_now :: int where
  "ex_now = 1700000200000000000"

definition ex_quote_at :: "int \<Rightarrow> rat \<Rightarrow> rat \<Rightarrow> polymarket_quote" where
  "ex_quote_at ts bid ask = ex_quote\<lparr>ts_ns := ts, recv_monotonic_ns := Some ts, pq_received_ts := Some ts,
     pq_best_bid := Some (Fin bid), pq_best_ask := Some (Fin ask), pq_spread := Some (Fin (ask - bid))\<rparr>"

definition ex_state :: market_state where
  "ex_state = (market_state_init (Fin 5000))\<lparr>
     ms_symbols := [(''BTCUSDT'', (new_symbol_state ''BTCUSDT'')\<lparr>ss_rolling_returns := [(''1s'', Some (Fin (1 / 64)))],
       ss_local_receive_timestamp := Some ex_now\<rparr>)],
     ms_polymarket_quotes := [(''up'', ex_quote_at ex_now (1 / 4) (1 / 2))]\<rparr>"

definition ex_open :: gap_op where
  "ex_open = Op_event (fst (ex_tick ex_now 64)) ex_state (Some ex_now) 0"

definition ex_exit :: gap_op where
  "ex_exit = Op_event (E_quote (ex_quote_at (ex_now + 500000000) (3 / 4) (7 / 8))) ex_state (Some (ex_now + 500000000)) 0"

definition ex_markets :: "market_metadata list" where
  "ex_markets = [ex_market\<lparr>mm_tick_size := Fin 0\<rparr>]"

abbreviation ex_detector :: gap_detector where
  "ex_detector \<equiv> gap_detector_init ex_gap_config ex_markets ex_now"

lemma ex_open_run:
  "(case gap_run [ex_open] ex_detector of (r, d) \<Rightarrow> (r, map fst (gd_pending d), gd_detected_gaps d))
     = (Inr [], [(''BTCUSDT'', ''m'', G_UP)], 1)"
  by code_simp

lemma ex_exit_run:
  "(case gap_run [ex_open, ex_exit] ex_detector of (r, d) \<Rightarrow> (isl r, map go_estimated_edge_after_spread (gd_completed d)))
     = (False, [Some (Fin (1 / 4))])"
  by code_simp

lemma ex_open_pending:
  obtains d p where "gap_run [ex_open] ex_detector = (Inr [], d)" "gap_after [ex_open] ex_detector = d"
    "gd_pending d = [((''BTCUSDT'', ''m'', G_UP), p)]" "gd_detected_gaps d = 1"
proof -
  obtain r d where rd: "gap_run [ex_open] ex_detector = (r, d)" by fastforce
  then have c: "r = Inr []" "map fst (gd_pending d) = [(''BTCUSDT'', ''m'', G_UP)]" "gd_detected_gaps d = 1"
    using ex_open_run by simp_all
  from c(2) obtain p where p: "gd_pending d = [((''BTCUSDT'', ''m'', G_UP), p)]" by (cases "gd_pending d") auto
  have run: "gap_run [ex_open] ex_detector = (Inr [], d)" unfolding rd c(1) by (rule refl)
  from run run_facts(3) [OF run] p c(3) show ?thesis by (rule that)
qed

lemma ex_exit_completed:
  obtains d ob obs where "gap_run [ex_open, ex_exit] ex_detector = (Inr obs, d)"
    "gap_after [ex_open, ex_exit] ex_detector = d" "gd_completed d = [ob]"
    "go_estimated_edge_after_spread ob = Some (Fin (1 / 4))"
proof -
  obtain r d where rd: "gap_run [ex_open, ex_exit] ex_detector = (r, d)" by fastforce
  then have c: "\<not> isl r" "map go_estimated_edge_after_spread (gd_completed d) = [Some (Fin (1 / 4))]"
    using ex_exit_run by simp_all
  from c(1) obtain obs where obs: "r = Inr obs" by (cases r) auto
  from c(2) obtain ob where ob: "gd_completed d = [ob]" "go_estimated_edge_after_spread ob = Some (Fin (1 / 4))"
    by (cases "gd_completed d") auto
  have run: "gap_run [ex_open, ex_exit] ex_detector = (Inr obs, d)" unfolding rd obs by (rule refl)
  from run run_facts(3) [OF run] ob show ?thesis by (rule that)
qed

subsection \<open>Accounting\<close>

text \<open>
  C18: as long as no event raises, the counters of the monitor add up. Every candidate it counts as detected
  was opened as a gap, rejected before entry or a duplicate of a pending gap; each rejected one was
  written or suppressed by the cooldown; and each opened gap is either still pending or completed.
\<close>

theorem gap_counters_add_up:
  assumes "gap_run ops (gap_detector_init cfg markets now) = (Inr obs, d)"
  shows "gd_detected_gaps d = gd_fillable d + gd_non_fillable d + gd_duplicate_suppressed d
    \<and> gd_non_fillable d = gd_pre_entry_written d + gd_pre_entry_suppressed d
    \<and> int (length (gd_completed d)) + int (length (gd_pending d)) = gd_pre_entry_written d + gd_fillable d"
  using run_facts(1,2) [OF assms] by (simp add: delivered_def gap_inv_def open_candidates_def [of d])

theorem gap_counters_add_up_witness:
  "\<exists>d. gap_run [ex_open] ex_detector = (Inr [], d)
     \<and> 1 = gd_fillable d + gd_non_fillable d + gd_duplicate_suppressed d"
proof -
  obtain d p where "gap_run [ex_open] ex_detector = (Inr [], d)" "gd_detected_gaps d = 1"
    by (rule ex_open_pending)
  with gap_counters_add_up [OF this(1)] show ?thesis by simp
qed

text \<open>
  C19: as long as no event raises, every observation the detector completes is handed out exactly
  once: an event returns it, or
  a change of the market list keeps it until the observations of the update are drained.
\<close>

theorem observations_are_delivered_once:
  assumes "gap_run ops (gap_detector_init cfg markets now) = (Inr obs, d)"
  shows "mset (gd_completed d) = mset obs + mset (gd_market_update_observations d)"
  using run_facts(1) [OF assms] by (simp add: delivered_def)

theorem observations_are_delivered_once_witness:
  "\<exists>obs d ob. gap_run [ex_open, ex_exit] ex_detector = (Inr obs, d)
     \<and> mset obs + mset (gd_market_update_observations d) = {#ob#}"
proof -
  obtain d ob obs where "gap_run [ex_open, ex_exit] ex_detector = (Inr obs, d)" "gd_completed d = [ob]"
    by (rule ex_exit_completed)
  with observations_are_delivered_once [OF this(1)] show ?thesis by (metis mset_single_iff)
qed

subsection \<open>Observations and pending gaps\<close>

text \<open>
  C20: an observation reports an edge only for a gap that really could be sold again: the bid it
  left at exceeds the ask it entered at by more than the required edge, the reported edge is their
  difference, and no reject reason is given. Every other observation says why there was no edge.
\<close>

theorem reported_edge_is_executable:
  assumes "ob \<in> set (gd_completed (gap_after ops (gap_detector_init cfg markets now)))"
  shows "case go_estimated_edge_after_spread ob of
      None \<Rightarrow> go_reject_stage ob \<noteq> RS_none \<and> go_reject_reason ob \<noteq> None
    | Some edge \<Rightarrow> go_reject_stage ob = RS_none \<and> go_reject_reason ob = None \<and> go_quote_was_fillable ob
        \<and> (\<exists>bid ask. go_executable_exit_bid ob = Some bid \<and> go_entry_ask ob = Some ask
             \<and> fless (fadd ask (gc_min_exit_edge cfg)) bid \<and> edge = fsub bid ask)"
proof -
  have "observation_ok cfg ob"
    using assms after_inv [OF init_inv, of cfg ops markets now] by (auto simp: gap_inv_def)
  then show ?thesis by (cases "go_reject_stage ob") (auto simp: observation_ok_def)
qed

theorem reported_edge_is_executable_witness:
  "\<exists>ob. ob \<in> set (gd_completed (gap_after [ex_open, ex_exit] ex_detector))
     \<and> go_estimated_edge_after_spread ob = Some (Fin (1 / 4)) \<and> go_reject_stage ob = RS_none"
proof -
  obtain d ob obs where "gap_after [ex_open, ex_exit] ex_detector = d" "gd_completed d = [ob]"
    "go_estimated_edge_after_spread ob = Some (Fin (1 / 4))"
    by (rule ex_exit_completed)
  moreover from this have ob: "ob \<in> set (gd_completed (gap_after [ex_open, ex_exit] ex_detector))"
    by (simp del: gap_after.simps)
  ultimately show ?thesis using reported_edge_is_executable [OF ob] by (intro exI [of _ ob]) (simp del: gap_after.simps)
qed

text \<open>
  A pending gap is stored under the symbol, market and direction it carries, even after the
  market list has been replaced, so there is at most one gap for each; and it was opened on a quote
  whose spread did not exceed the limit.
\<close>

theorem pending_gap_is_identified:
  assumes "(key, p) \<in> set (gd_pending (gap_after ops (gap_detector_init cfg markets now)))"
  shows "key = (pd_symbol p, mm_market_id (pd_market p), pd_direction p)
    \<and> distinct (map fst (gd_pending (gap_after ops (gap_detector_init cfg markets now))))
    \<and> (\<exists>spread. pd_spread_before p = Some spread \<and> \<not> fless (gc_max_entry_spread cfg) spread)"
  using assms after_inv [OF init_inv, of cfg ops markets now] by (auto simp: gap_inv_def pending_ok_def)

theorem pending_gap_is_identified_witness:
  "\<exists>p. gd_pending (gap_after [ex_open] ex_detector) = [((''BTCUSDT'', ''m'', G_UP), p)]
     \<and> pd_symbol p = ''BTCUSDT'' \<and> pd_direction p = G_UP"
proof -
  obtain d p where "gap_after [ex_open] ex_detector = d" "gd_pending d = [((''BTCUSDT'', ''m'', G_UP), p)]"
    by (rule ex_open_pending)
  with pending_gap_is_identified [of "(''BTCUSDT'', ''m'', G_UP)" p "[ex_open]" ex_gap_config ex_markets ex_now]
  show ?thesis by (simp del: gap_after.simps)
qed

text \<open>
  C21: once a lifecycle event has said that a market is resolved, closed or expired, no gap of that
  market is pending, as long as no event raises and each later market list still contains the
  market: the event closes all its gaps, and no later move opens one.
\<close>

theorem ended_market_has_no_pending_gap:
  assumes "gap_run (ops @ Op_event (E_lifecycle e) st now_ts clock # ops') (gap_detector_init cfg markets now) = (Inr obs, d)"
    and "ml_lifecycle_type e \<in> {MarketResolved, Closed, Expired}"
    and "\<forall>ms a b. Op_markets ms a b \<in> set ops' \<longrightarrow> ml_market_id e \<in> mm_market_id ` set ms"
    and "(key, p) \<in> set (gd_pending d)"
  shows "mm_market_id (pd_market p) \<noteq> ml_market_id e"
proof -
  let ?d1 = "snd (gap_op_step (Op_event (E_lifecycle e) st now_ts clock) (gap_after ops (gap_detector_init cfg markets now)))"
  have "ml_market_id e \<in> set (gd_invalid_markets (gap_after ops' ?d1))"
    by (rule after_keeps_invalid [OF market_end_invalid]) (use assms(2,3) in auto)
  then have "ml_market_id e \<in> set (gd_invalid_markets d)"
    using run_facts(3) [OF assms(1)] by (simp add: gap_after_append)
  moreover have "no_invalid_pending d" "fst (snd key) = mm_market_id (pd_market p)"
    using run_facts(1,2) [OF assms(1)] assms(4) by (auto simp: delivered_def gap_inv_def pending_ok_def)
  ultimately show ?thesis using assms(4) by (force simp: no_invalid_pending_def)
qed

definition ex_ending :: gap_op where
  \<comment> \<open>the end of another market, which leaves the gap of this one\<close>
  "ex_ending = Op_event (E_lifecycle (ex_closing\<lparr>ml_market_id := ''other''\<rparr>)) ex_state (Some ex_now) 0"

lemma ex_ending_run:
  "(case gap_run [ex_ending, ex_open] ex_detector of (r, d) \<Rightarrow> (isl r, map fst (gd_pending d)))
     = (False, [(''BTCUSDT'', ''m'', G_UP)])"
  by code_simp

theorem ended_market_has_no_pending_gap_witness:
  "\<exists>obs d p. gap_run [ex_ending, ex_open] ex_detector = (Inr obs, d)
     \<and> gd_pending d = [((''BTCUSDT'', ''m'', G_UP), p)] \<and> mm_market_id (pd_market p) \<noteq> ''other''"
proof -
  obtain r d where rd: "gap_run [ex_ending, ex_open] ex_detector = (r, d)" by fastforce
  then have c: "\<not> isl r" "map fst (gd_pending d) = [(''BTCUSDT'', ''m'', G_UP)]"
    using ex_ending_run by simp_all
  from c(1) obtain obs where obs: "r = Inr obs" by (cases r) auto
  from c(2) obtain p where p: "gd_pending d = [((''BTCUSDT'', ''m'', G_UP), p)]" by (cases "gd_pending d") auto
  let ?e = "ex_closing\<lparr>ml_market_id := ''other''\<rparr>"
  have "gap_run ([] @ Op_event (E_lifecycle ?e) ex_state (Some ex_now) 0 # [ex_open]) ex_detector = (Inr obs, d)"
    using rd by (simp add: obs ex_ending_def)
  moreover have "ml_lifecycle_type ?e \<in> {MarketResolved, Closed, Expired}"
    "\<forall>ms a b. Op_markets ms a b \<in> set [ex_open] \<longrightarrow> ml_market_id ?e \<in> mm_market_id ` set ms"
    by (simp_all add: ex_closing_def ex_open_def)
  moreover have "((''BTCUSDT'', ''m'', G_UP), p) \<in> set (gd_pending d)" by (simp add: p)
  ultimately have "mm_market_id (pd_market p) \<noteq> ml_market_id ?e" by (rule ended_market_has_no_pending_gap)
  then show ?thesis using rd obs p by auto
qed

text \<open>
  C22: no gap outlives its limit: after every event but a lifecycle event, the gaps still pending
  are at most as old as the limit on the monotonic clock of the event.
\<close>

theorem no_gap_outlives_its_limit:
  assumes "on_market_event e st now_ts clock (gap_after ops (gap_detector_init cfg markets now)) = (Inr obs, d)"
    and "\<forall>l. e \<noteq> E_lifecycle l" and "(key, p) \<in> set (gd_pending d)"
  shows "\<not> fless (gc_max_pending_gap_ms cfg) (elapsed_ms (pd_first_detected_monotonic_ns p)
    (int_or (Some (event_monotonic e)) (int_or now_ts clock)))"
proof -
  let ?d = "gap_after ops (gap_detector_init cfg markets now)"
  let ?mn = "int_or (Some (event_monotonic e)) (int_or now_ts clock)"
  have inv: "gap_inv cfg ?d" by (rule after_inv [OF init_inv])
  obtain r where r: "on_market_event e st now_ts clock ?d = then_expire st (int_or now_ts clock) ?mn r"
    "market_done cfg ?d r" by (rule event_expires [OF assms(2), of st now_ts clock ?d cfg])
  obtain obs1 d1 obs2 where d1: "r = (Inr obs1, d1)"
    "gap_loop (expire_step st (int_or now_ts clock) ?mn) (gd_pending d1) d1 = (Inr obs2, d)"
    using assms(1) unfolding r(1)
    by (auto simp: then_expire_def close_expired_pending_def map_prod_def map_sum_def
        split: prod.splits sum.splits)
  have "gap_inv cfg d1" using r(2) inv by (simp add: market_done_def d1(1))
  with expire.loop_leaves [OF d1(2)] assms(3) show ?thesis
    by (auto simp: gap_inv_def over_lifetime_def)
qed

theorem no_gap_outlives_its_limit_witness:
  "\<exists>d p. on_market_event (fst (ex_tick ex_now 64)) ex_state (Some ex_now) 0 ex_detector = (Inr [], d)
     \<and> gd_pending d = [((''BTCUSDT'', ''m'', G_UP), p)]
     \<and> \<not> fless (Fin 5000) (elapsed_ms (pd_first_detected_monotonic_ns p) ex_now)"
proof -
  obtain d p where run: "gap_run [ex_open] ex_detector = (Inr [], d)" "gd_pending d = [((''BTCUSDT'', ''m'', G_UP), p)]"
    by (rule ex_open_pending)
  have step: "gap_op_step ex_open ex_detector = on_market_event (fst (ex_tick ex_now 64)) ex_state (Some ex_now) 0 ex_detector"
    by (simp add: ex_open_def)
  have "on_market_event (fst (ex_tick ex_now 64)) ex_state (Some ex_now) 0 ex_detector = (Inr [], d)"
    using run(1) unfolding step [symmetric] by (auto split: prod.splits sum.splits)
  moreover from this have "on_market_event (fst (ex_tick ex_now 64)) ex_state (Some ex_now) 0
      (gap_after [] ex_detector) = (Inr [], d)" by simp
  moreover have "\<forall>l. fst (ex_tick ex_now 64) \<noteq> E_lifecycle l"
    "int_or (Some (event_monotonic (fst (ex_tick ex_now 64)))) (int_or (Some ex_now) 0) = ex_now"
    "gc_max_pending_gap_ms ex_gap_config = Fin 5000"
    by (simp_all add: ex_tick_def event_monotonic_def ex_now_def int_or_def or_int_def ex_gap_config_def)
  moreover have "(((''BTCUSDT'', ''m'', G_UP), p)) \<in> set (gd_pending d)" by (simp add: run(2))
  ultimately show ?thesis using no_gap_outlives_its_limit run(2) by metis
qed

subsection \<open>A change of the tick size without a size\<close>

text \<open>
  A tick size change whose new size is missing or zero ends the market for the detector, which
  adds it to the invalid markets, while the market state goes on treating the market as valid.
\<close>

theorem tick_change_without_size_ends_market:
  assumes "ml_lifecycle_type e = TickSizeChange" and "ml_new_tick_size e \<in> {None, Some (Fin 0)}"
  shows "ml_market_id e \<in> set (gd_invalid_markets (snd (on_market_event (E_lifecycle e) st now_ts clock d)))
    \<and> ms_market_invalid (snd (apply_event (E_lifecycle e) now mn ms)) = ms_market_invalid ms"
proof -
  have "gd_invalid_markets (lifecycle_marked e d) = List.insert (ml_market_id e) (gd_invalid_markets d)"
    using assms by (auto simp: lifecycle_marked_def or_float_def)
  moreover have "on_market_event (E_lifecycle e) st now_ts clock d =
     gap_loop (market_end_step e st (int_or now_ts clock) (int_or (Some (event_monotonic (E_lifecycle e))) (int_or now_ts clock)))
       (gd_pending (lifecycle_marked e d)) (lifecycle_marked e d)"
    using assms by (auto simp: on_market_event_def Let_def handle_lifecycle_cases or_float_def)
  ultimately have "ml_market_id e \<in> set (gd_invalid_markets (snd (on_market_event (E_lifecycle e) st now_ts clock d)))"
    by (simp add: lifecycle.loop_frame del: lifecycle_marked_fields)
  moreover have "ml_lifecycle_type (with_state_latency now mn e) = TickSizeChange"
    using assms(1) by (simp add: with_state_latency_def)
  then have "ms_market_invalid (snd (apply_event (E_lifecycle e) now mn ms)) = ms_market_invalid ms"
    by (simp add: apply_event_def Let_def)
  ultimately show ?thesis by simp
qed

theorem tick_change_without_size_ends_market_witness:
  "''m'' \<in> set (gd_invalid_markets (snd (on_market_event (E_lifecycle (ex_closing\<lparr>ml_lifecycle_type := TickSizeChange\<rparr>))
     ex_state (Some ex_now) 0 ex_detector)))"
  using tick_change_without_size_ends_market [of "ex_closing\<lparr>ml_lifecycle_type := TickSizeChange\<rparr>"]
  by (simp add: ex_closing_def)

end
