(* ===== verification/DiscoveryParse.thy ===== *)
theory DiscoveryParse
  imports MarketWindow
begin

text \<open>
  From a payload of the Gamma API to a market: the pure part of
  \<open>app/marketdata/polymarket_discovery.py\<close>. A payload is a JSON object; \<open>orjson.loads\<close>, which reads
  the lists that come as text, is the parameter \<open>loads\<close> (\<open>None\<close> for a decoding error). Characters
  are ASCII. The reject reasons that go to a logger are returned beside the market.
\<close>

type_synonym payload = "(string \<times> pyval) list"

subsection \<open>Reading a payload\<close>

definition or_chain :: "pyval list \<Rightarrow> pyval \<Rightarrow> pyval" where
  \<comment> \<open>\<open>a or b or ... or d\<close>\<close>
  "or_chain vs d = foldr val_or vs d"

definition first_of :: "payload \<Rightarrow> string list \<Rightarrow> pyval \<Rightarrow> pyval" where
  "first_of p keys d = or_chain (map (vget p) keys) d"

fun split_on :: "char \<Rightarrow> string \<Rightarrow> string list" where
  "split_on sep [] = [[]]"
| "split_on sep (c # s) = (if c = sep then [] # split_on sep s
     else (case split_on sep s of [] \<Rightarrow> [[c]] | w # ws \<Rightarrow> (c # w) # ws))"

definition parse_jsonish_list :: "(string \<Rightarrow> pyval option) \<Rightarrow> pyval \<Rightarrow> pyval list" where
  "parse_jsonish_list loads v = (case v of VList xs \<Rightarrow> xs
     | VStr s \<Rightarrow> (case loads s of
           None \<Rightarrow> [VStr (strip part). part \<leftarrow> split_on (CHR '','') s, strip part \<noteq> []]
         | Some (VList xs) \<Rightarrow> xs | Some _ \<Rightarrow> [])
     | _ \<Rightarrow> [])"

definition first_present :: "payload \<Rightarrow> string list \<Rightarrow> pyval" where
  "first_present p keys = (case [v. k \<leftarrow> keys, Some v \<leftarrow> [map_of p k], v \<noteq> VNone] of
     [] \<Rightarrow> VNone | v # _ \<Rightarrow> v)"

definition bool_from_any :: "pyval \<Rightarrow> bool option" where
  "bool_from_any v = (case v of VBool b \<Rightarrow> Some b
     | VStr s \<Rightarrow> (let t = lower (strip s) in
         if t \<in> {''true'', ''1'', ''yes''} then Some True
         else if t \<in> {''false'', ''0'', ''no''} then Some False else None)
     | VInt n \<Rightarrow> Some (n \<noteq> 0) | VFloat x \<Rightarrow> Some (x \<noteq> Fin 0) | _ \<Rightarrow> None)"

definition float_from_any :: "pyval \<Rightarrow> py_error + pyfloat" where
  "float_from_any v = (case v of VFloat x \<Rightarrow> Inr x
     | VBool b \<Rightarrow> Inr (if b then Fin 1 else fzero)
     | VInt n \<Rightarrow> (case float_of_int n of Fin x \<Rightarrow> Inr (Fin x) | _ \<Rightarrow> Inl OverflowError)
     | VStr s \<Rightarrow> (case float_of_str s of None \<Rightarrow> Inl ValueError | Some x \<Rightarrow> Inr x)
     | _ \<Rightarrow> Inr fzero)"

definition best_timestamp_text :: "payload \<Rightarrow> string list \<Rightarrow> string" where
  "best_timestamp_text p keys =
     (let values = [strip (py_str (vget p k)). k \<leftarrow> keys, vget p k \<noteq> VNone, strip (py_str (vget p k)) \<noteq> []]
      in case [v \<leftarrow> values. CHR ''T'' \<in> set v \<or> CHR '' '' \<in> set v] of v # _ \<Rightarrow> v
         | [] \<Rightarrow> (case values of v # _ \<Rightarrow> v | [] \<Rightarrow> []))"

fun join_spaces :: "string list \<Rightarrow> string" where
  "join_spaces [] = []"
| "join_spaces [s] = s"
| "join_spaces (s # ss) = s @ '' '' @ join_spaces ss"

definition text_of :: "payload \<Rightarrow> string list \<Rightarrow> string" where
  \<comment> \<open>\<open>" ".join(str(payload.get(key, "")) for key in ...).lower()\<close>\<close>
  "text_of p keys = lower (join_spaces
     (map (\<lambda>k. case map_of p k of None \<Rightarrow> [] | Some v \<Rightarrow> py_str v) keys))"

definition market_text_keys :: "string list" where
  "market_text_keys = [''question'', ''title'', ''slug'', ''market_slug'', ''description'', ''groupItemTitle'']"

definition infer_base_asset :: "payload \<Rightarrow> string option" where
  "infer_base_asset p =
     (let text = text_of p [''question'', ''title'', ''slug'', ''market_slug'', ''description''] in
      case rolling_slug_parts text of Some (asset, _) \<Rightarrow> Some (upper asset)
      | None \<Rightarrow> if sublist ''btc'' text \<or> sublist ''bitcoin'' text then Some ''BTC''
          else if sublist ''eth'' text \<or> sublist ''ethereum'' text then Some ''ETH'' else None)"

subsection \<open>Durations\<close>

definition ends_number :: "string \<Rightarrow> bool" where
  "ends_number s \<longleftrightarrow> (case s of [] \<Rightarrow> True | c # _ \<Rightarrow> \<not> is_digit c)"

definition minutes_at :: "string \<Rightarrow> string \<Rightarrow> bool" where
  \<comment> \<open>\<open>N[\s-]?(?:m|min|minute)s?(?!\d)\<close> at the start of the text\<close>
  "minutes_at n text = (case strip_prefix n text of None \<Rightarrow> False
     | Some r \<Rightarrow> (\<exists>r1\<in>set (r # (case r of [] \<Rightarrow> [] | c # cs \<Rightarrow> if is_space c \<or> c = CHR ''-'' then [cs] else [])).
         \<exists>u\<in>{''m'', ''min'', ''minute''}. (case strip_prefix u r1 of None \<Rightarrow> False
           | Some r2 \<Rightarrow> ends_number r2 \<or> (case strip_prefix ''s'' r2 of None \<Rightarrow> False | Some r3 \<Rightarrow> ends_number r3))))"

fun find_minutes :: "string \<Rightarrow> bool \<Rightarrow> string \<Rightarrow> bool" where
  \<comment> \<open>the flag says that the character before is a digit\<close>
  "find_minutes n digit [] = False"
| "find_minutes n digit (c # s) = ((\<not> digit \<and> minutes_at n (c # s)) \<or> find_minutes n (is_digit c) s)"

definition infer_duration_minutes :: "payload \<Rightarrow> int option" where
  "infer_duration_minutes p =
     (let text = text_of p market_text_keys in
      case rolling_slug_parts text of Some (_, horizon, _) \<Rightarrow> Some (if horizon = ''15m'' then 15 else 5)
      | None \<Rightarrow>
          if find_minutes ''15'' False text then Some 15
          else if find_minutes ''5'' False text then Some 5
          else (case (parse_datetime (Some (best_timestamp_text p [''startDate'', ''start_time'', ''startDateIso''])),
                      parse_datetime (Some (best_timestamp_text p [''endDate'', ''end_time'', ''endDateIso'']))) of
              (Some s, Some e) \<Rightarrow>
                (case fdiv (int_truediv (e - s) 1000000) (Fin 60) of
                   Fin m \<Rightarrow> if rhe m \<in> {5, 15} then Some (rhe m) else None | _ \<Rightarrow> None)
            | _ \<Rightarrow> None))"

definition is_short_duration_crypto_market :: "payload \<Rightarrow> bool" where
  "is_short_duration_crypto_market p =
     (let text = text_of p market_text_keys in
      if rolling_slug_parts text \<noteq> None then True
      else if \<not> list_ex (\<lambda>t. sublist t text) [''btc'', ''bitcoin'', ''eth'', ''ethereum''] then False
      else if \<not> list_ex (\<lambda>t. sublist t text)
                [''up or down'', ''up/down'', ''up'', ''down'', ''above'', ''below'', ''higher'', ''lower'']
      then False
      else infer_duration_minutes p \<in> {Some 5, Some 15})"

subsection \<open>The directions of the tokens\<close>

definition normalize_outcome :: "string \<Rightarrow> string" where
  "normalize_outcome s = map (\<lambda>c. if c \<in> {CHR ''_'', CHR ''-''} then CHR '' '' else c) (lower (strip s))"

definition up_outcomes :: "string list" where "up_outcomes = [''up'', ''above'', ''higher'']"
definition down_outcomes :: "string list" where "down_outcomes = [''down'', ''below'', ''lower'']"

fun has_word :: "bool \<Rightarrow> string \<Rightarrow> string \<Rightarrow> bool" where
  \<comment> \<open>\<open>\bterm\b\<close> for a term of letters; the flag says that the character before is a word character\<close>
  "has_word inside term [] = False"
| "has_word inside term (c # s) =
     ((\<not> inside \<and> (case strip_prefix term (c # s) of None \<Rightarrow> False
         | Some r \<Rightarrow> (case r of [] \<Rightarrow> True | d # _ \<Rightarrow> \<not> is_word d))) \<or> has_word (is_word c) term s)"

definition infer_yes_direction :: "string \<Rightarrow> string \<Rightarrow> string \<Rightarrow> gap_direction option" where
  "infer_yes_direction question slug description =
     (let text = lower (question @ '' '' @ slug @ '' '' @ description);
          up = list_ex (\<lambda>t. has_word False t text) up_outcomes;
          down = list_ex (\<lambda>t. has_word False t text) down_outcomes
      in if up \<and> \<not> down then Some G_UP else if down \<and> \<not> up then Some G_DOWN else None)"

record direction_mapping =
  dm_up :: "string option"
  dm_down :: "string option"
  dm_yes :: "string option"
  dm_no :: "string option"
  dm_reject :: "string option"

definition no_mapping :: direction_mapping where
  "no_mapping = \<lparr>dm_up = None, dm_down = None, dm_yes = None, dm_no = None, dm_reject = None\<rparr>"

fun collect_outcomes :: "(string \<times> string) list \<Rightarrow> direction_mapping \<Rightarrow> direction_mapping" where
  \<comment> \<open>the loop over the outcomes; an unsupported one ends it with a mapping that only has the reason\<close>
  "collect_outcomes [] d = d"
| "collect_outcomes ((token, outcome) # os) d = (let n = normalize_outcome outcome in
     if n = ''yes'' then collect_outcomes os (d\<lparr>dm_yes := Some token\<rparr>)
     else if n = ''no'' then collect_outcomes os (d\<lparr>dm_no := Some token\<rparr>)
     else if n \<in> set up_outcomes then collect_outcomes os (d\<lparr>dm_up := Some token\<rparr>)
     else if n \<in> set down_outcomes then collect_outcomes os (d\<lparr>dm_down := Some token\<rparr>)
     else no_mapping\<lparr>dm_reject := Some (''unsupported_outcome:'' @ outcome)\<rparr>)"

definition map_direction_tokens ::
  "(string \<times> string) list \<Rightarrow> string \<Rightarrow> string \<Rightarrow> string \<Rightarrow> direction_mapping" where
  "map_direction_tokens outcomes question slug description =
     (let d = collect_outcomes outcomes no_mapping in
      if dm_reject d \<noteq> None then d
      else if dm_up d \<noteq> None \<and> dm_down d \<noteq> None then d
      else if dm_yes d \<noteq> None \<and> dm_no d \<noteq> None then
        (let both = no_mapping\<lparr>dm_yes := dm_yes d, dm_no := dm_no d\<rparr> in
         case infer_yes_direction question slug description of
           Some G_UP \<Rightarrow> both\<lparr>dm_up := dm_yes d, dm_down := dm_no d\<rparr>
         | Some G_DOWN \<Rightarrow> both\<lparr>dm_up := dm_no d, dm_down := dm_yes d\<rparr>
         | None \<Rightarrow> both\<lparr>dm_reject := Some ''no_direction_mapping''\<rparr>)
      else no_mapping\<lparr>dm_reject := Some ''no_direction_mapping''\<rparr>)"

subsection \<open>Times as text\<close>

definition civil_of_days :: "int \<Rightarrow> int \<times> int \<times> int" where
  \<comment> \<open>year, month and day of a day counted from 1970\<close>
  "civil_of_days days =
     (let z = days + 719468; era = z div 146097; doe = z mod 146097;
          yoe = (doe - doe div 1460 + doe div 36524 - doe div 146096) div 365;
          doy = doe - (365 * yoe + yoe div 4 - yoe div 100); mp = (5 * doy + 2) div 153;
          m = (if mp < 10 then mp + 3 else mp - 9)
      in (yoe + era * 400 + (if m \<le> 2 then 1 else 0), m, doy - (153 * mp + 2) div 5 + 1))"

definition pad :: "nat \<Rightarrow> int \<Rightarrow> string" where
  "pad n i = (let s = int_digits i in replicate (n - length s) (CHR ''0'') @ s)"

definition iso_from_unix_seconds :: "int option \<Rightarrow> py_error + string option" where
  \<comment> \<open>for the starts of windows, which are not negative: \<open>fromtimestamp\<close> raises after the year
     9999, and differently where the C library gives up\<close>
  "iso_from_unix_seconds v = (case v of None \<Rightarrow> Inr None
     | Some s \<Rightarrow>
         if 2 ^ 63 \<le> s then Inl OverflowError
         else if 67768036191676799 < s then Inl OSError
         else if 253402300799 < s then Inl ValueError
         else (let (y, m, d) = civil_of_days (s div 86400); t = s mod 86400
               in Inr (Some (pad 4 y @ ''-'' @ pad 2 m @ ''-'' @ pad 2 d @ ''T'' @ pad 2 (t div 3600) @ '':''
                    @ pad 2 (t mod 3600 div 60) @ '':'' @ pad 2 (t mod 60) @ ''Z''))))"

subsection \<open>A market of a payload\<close>

definition text_chain :: "payload \<Rightarrow> string list \<Rightarrow> string \<Rightarrow> string" where
  \<comment> \<open>\<open>str(payload.get(a) or payload.get(b) or ... or default)\<close>\<close>
  "text_chain p keys d = py_str (first_of p keys (VStr d))"

definition some_text :: "string \<Rightarrow> string option" where
  "some_text s = (if s = [] then None else Some s)"

fun token_outcomes_of :: "pyval list \<Rightarrow> pyval list \<Rightarrow> (string \<times> string) list \<Rightarrow> (string \<times> string) list" where
  \<comment> \<open>\<open>dict(zip(...))\<close>: a repeated token keeps its place and takes the last outcome\<close>
  "token_outcomes_of (t # ts) (v # vs) d = token_outcomes_of ts vs (AList.update (py_str t) (strip (py_str v)) d)"
| "token_outcomes_of _ _ d = d"

definition parse_market_metadata ::
  "(string \<Rightarrow> pyval option) \<Rightarrow> payload \<Rightarrow> py_error + (market_metadata option \<times> string list)" where
  "parse_market_metadata loads p =
     (let tokens = parse_jsonish_list loads (first_of p [''clobTokenIds''] (vget p ''clob_token_ids''));
          outcomes = parse_jsonish_list loads (vget p ''outcomes'');
          token_outcomes = token_outcomes_of tokens outcomes [];
          condition_id = text_chain p [''conditionId'', ''condition_id'', ''condition'', ''market'', ''id''] [];
          market_id = text_chain p [''market'', ''id''] condition_id;
          slug = text_chain p [''slug'', ''market_slug''] [];
          question = text_chain p [''question'', ''title'', ''groupItemTitle''] slug;
          description = text_chain p [''description'', ''subtitle''] [];
          end_time = best_timestamp_text p [''endDate'', ''end_time'', ''end'', ''endDateIso''];
          start_time = best_timestamp_text p [''startDate'', ''start_time'', ''startDateIso''];
          event_start0 = best_timestamp_text p [''eventStartTime'', ''event_start_time'', ''eventStartDate''];
          mapping = map_direction_tokens token_outcomes question slug description
      in if length tokens < 2 then Inr (None, [''missing_clob_token_ids''])
         else if length outcomes \<noteq> length tokens then Inr (None, [''malformed_outcomes''])
         else (case if event_start0 \<noteq> [] then Inr (Some event_start0)
                    else iso_from_unix_seconds (rolling_slug_start_ts slug) of
           Inl e \<Rightarrow> Inl e
         | Inr event_start \<Rightarrow>
             if condition_id = [] \<or> market_id = [] \<or> slug = [] \<or> question = []
             then Inr (None, [''missing_required_market_metadata''])
             else if dm_up mapping = None \<or> dm_down mapping = None
             then Inr (None, [str_or (dm_reject mapping) ''no_direction_mapping''])
             else (case float_from_any (first_of p [''order_price_min_tick_size'', ''minimum_tick_size'',
                          ''tick_size'', ''tickSize''] (VFloat (f64 (1 / 100)))) of
               Inl e \<Rightarrow> Inl e
             | Inr tick_size \<Rightarrow> (case float_from_any (first_of p [''orderMinSize'', ''order_min_size'',
                          ''minimum_order_size'', ''min_order_size''] (VFloat fzero)) of
               Inl e \<Rightarrow> Inl e
             | Inr min_size \<Rightarrow> (case if vget p ''rewardsMinSize'' = VNone then Inr None
                          else map_sum id Some (float_from_any (vget p ''rewardsMinSize'')) of
               Inl e \<Rightarrow> Inl e
             | Inr rewards \<Rightarrow> Inr (Some \<lparr>mm_condition_id = condition_id, mm_market_id = market_id,
                 mm_market_slug = slug, mm_question = question, mm_end_time = end_time,
                 mm_tick_size = tick_size, mm_min_order_size = min_size, mm_rewards_min_size = rewards,
                 mm_start_time = some_text start_time,
                 mm_event_start_time = Option.bind event_start some_text,
                 mm_active = bool_from_any (first_present p [''active'']),
                 mm_closed = bool_from_any (first_present p [''closed'']),
                 mm_accepting_orders = bool_from_any (first_present p [''acceptingOrders'', ''accepting_orders'']),
                 mm_enable_order_book = bool_from_any (first_present p [''enableOrderBook'', ''enable_order_book'']),
                 mm_classification = None, mm_selected_for_runtime = False, mm_signal_enabled = False,
                 mm_runtime_selection_reason = None, mm_discovery_source = None,
                 mm_up_token_id = dm_up mapping, mm_down_token_id = dm_down mapping,
                 mm_yes_token_id = dm_yes mapping, mm_no_token_id = dm_no mapping,
                 mm_token_outcomes = token_outcomes, mm_base_asset = infer_base_asset p,
                 mm_duration_minutes = infer_duration_minutes p\<rparr>, []))))))"

end
