(* ===== verification/DiscoveryPlan.thy ===== *)
theory DiscoveryPlan
  imports DiscoveryParse
begin

text \<open>
  The discovery of the rolling markets in \<open>app/marketdata/polymarket_discovery.py\<close>: looking slugs
  up, scanning the active events, validating the cache, and \<open>discover_rolling_markets_robust\<close>,
  which puts the three together. What the network and the cache file answer is given: a \<open>gamma\<close> holds
  the answers of the service, a \<open>cache_file\<close> what reading the cache yields. The markets that a call
  writes to the cache are part of its result.
\<close>

subsection \<open>Payloads of events\<close>

definition event_keys :: "string list" where
  "event_keys = [''endDate'', ''endDateIso'', ''end_time'', ''startDate'', ''startDateIso'', ''start_time'',
     ''eventStartTime'', ''event_start_time'', ''active'', ''closed'', ''acceptingOrders'', ''accepting_orders'',
     ''enableOrderBook'', ''enable_order_book'', ''orderMinSize'', ''order_min_size'', ''minimum_order_size'',
     ''min_order_size'', ''rewardsMinSize'', ''clobTokenIds'', ''clob_token_ids'', ''outcomes'', ''groupItemTitle'',
     ''subtitle'', ''description'', ''conditionId'', ''condition_id'']"

definition merge_event_market_payload :: "payload \<Rightarrow> payload \<Rightarrow> pyval \<Rightarrow> payload" where
  "merge_event_market_payload event market fallback_slug =
     (let slug = or_chain [vget market ''slug'', vget market ''market_slug'', vget event ''slug'',
                   vget event ''market_slug''] fallback_slug;
          m1 = (if truthy slug then AList.update ''slug'' slug market else market);
          question = or_chain [vget m1 ''question'', vget m1 ''title'', vget event ''question'', vget event ''title'',
                       vget event ''groupItemTitle''] slug;
          m2 = (if truthy question then AList.update ''question'' question m1 else m1)
      in fold (\<lambda>k m. if k \<notin> fst ` set m \<and> vget event k \<noteq> VNone then AList.update k (vget event k) m else m)
           event_keys m2)"

definition extract_market_payloads :: "payload \<Rightarrow> pyval \<Rightarrow> payload list" where
  "extract_market_payloads p fallback_slug =
     (let extracted = (case vget p ''markets'' of
            VList ms \<Rightarrow> [merge_event_market_payload p m fallback_slug. VDict m \<leftarrow> ms] | _ \<Rightarrow> [])
      in if extracted \<noteq> [] then extracted else [merge_event_market_payload [] p fallback_slug])"

fun parse_candidates ::
  "(string \<Rightarrow> pyval option) \<Rightarrow> payload list \<Rightarrow> py_error + (market_metadata list \<times> string list)" where
  "parse_candidates loads [] = Inr ([], [])"
| "parse_candidates loads (p # ps) = (case parse_market_metadata loads p of Inl e \<Rightarrow> Inl e
     | Inr (m, rejects) \<Rightarrow> (case parse_candidates loads ps of Inl e \<Rightarrow> Inl e
         | Inr (ms, rs) \<Rightarrow> Inr ((case m of None \<Rightarrow> [] | Some m \<Rightarrow> [m]) @ ms, rejects @ rs)))"

definition add_new_market :: "market_metadata \<Rightarrow> market_metadata list \<Rightarrow> market_metadata list" where
  "add_new_market m ms = (if market_key m \<in> market_key ` set ms then ms else ms @ [m])"

definition parse_market_payloads ::
  "(string \<Rightarrow> pyval option) \<Rightarrow> payload list \<Rightarrow> py_error + market_metadata list" where
  \<comment> \<open>called without a source; the rejects only go to the log\<close>
  "parse_market_payloads loads ps =
     map_sum id (\<lambda>(ms, _). fold add_new_market ms [])
       (parse_candidates loads [p \<leftarrow> ps. is_short_duration_crypto_market p])"

subsection \<open>Requests\<close>

record gamma =
  \<comment> \<open>the service as the client sees it, with the same answers during one discovery: the status and the
     body of a path, the JSON of a page (endpoint, limit, offset), and \<open>orjson.loads\<close>\<close>
  g_loads :: "string \<Rightarrow> pyval option"
  g_respond :: "string \<Rightarrow> py_error + (int \<times> string)"
  g_page :: "string \<Rightarrow> int \<Rightarrow> int \<Rightarrow> py_error + pyval"

definition byte_space :: "char \<Rightarrow> bool" where
  "byte_space c \<longleftrightarrow> (of_char c :: nat) \<in> {9, 10, 11, 12, 13, 32}"

definition request_json :: "gamma \<Rightarrow> string \<Rightarrow> py_error + pyval" where
  \<comment> \<open>a body that does not decode raises \<open>orjson.JSONDecodeError\<close>, a \<open>ValueError\<close>\<close>
  "request_json g path = (case g_respond g path of Inl e \<Rightarrow> Inl e
     | Inr (status, body) \<Rightarrow>
         if status = 404 then Inr VNone
         else if 400 \<le> status then Inl ClientError
         else if list_all byte_space body then Inr VNone
         else (case g_loads g body of None \<Rightarrow> Inl ValueError | Some v \<Rightarrow> Inr v))"

definition hex_digit :: "nat \<Rightarrow> char" where
  "hex_digit n = char_of (if n < 10 then 48 + n else 55 + n)"

definition url_quote :: "string \<Rightarrow> string" where
  \<comment> \<open>\<open>urllib.parse.quote(s, safe='')\<close>\<close>
  "url_quote s = concat (map (\<lambda>c. if is_word c \<or> c \<in> {CHR ''.'', CHR ''-'', CHR ''~''} then [c]
     else [CHR ''%'', hex_digit (of_char c div 16), hex_digit (of_char c mod 16)]) s)"

fun first_dict :: "pyval list \<Rightarrow> payload option" where
  "first_dict [] = None"
| "first_dict (VDict d # _) = Some d"
| "first_dict (_ # vs) = first_dict vs"

fun try_paths :: "gamma \<Rightarrow> string list \<Rightarrow> py_error + payload option" where
  "try_paths g [] = Inr None"
| "try_paths g (path # paths) = (case request_json g path of
     Inl e \<Rightarrow> if e \<in> {ClientError, TimeoutError, OSError} \<or> e = ValueError \<and> \<not> isl (g_respond g path)
       then Inr None else Inl e
   | Inr (VDict d) \<Rightarrow> if d \<noteq> [] then Inr (Some d) else try_paths g paths
   | Inr (VList vs) \<Rightarrow> Inr (first_dict vs)
   | Inr _ \<Rightarrow> try_paths g paths)"

definition fetch_slug_object :: "gamma \<Rightarrow> string \<Rightarrow> string \<Rightarrow> py_error + payload option" where
  "fetch_slug_object g endpoint slug =
     try_paths g [endpoint @ ''/slug/'' @ url_quote slug, endpoint @ ''?slug='' @ url_quote slug]"

record discovery_client =
  dc_limit :: int
  dc_max_pages :: nat
  dc_fetch_markets :: "payload list option"  \<comment> \<open>what the injected function returns\<close>
  dc_direct_slug_lookup :: bool

definition discovery_client_init ::
  "int \<Rightarrow> int option \<Rightarrow> nat \<Rightarrow> payload list option \<Rightarrow> bool option \<Rightarrow> discovery_client" where
  "discovery_client_init limit page_limit max_pages fetch_markets direct =
     \<lparr>dc_limit = int_or page_limit limit, dc_max_pages = max_pages, dc_fetch_markets = fetch_markets,
      dc_direct_slug_lookup = (case direct of None \<Rightarrow> fetch_markets = None | Some b \<Rightarrow> b)\<rparr>"

definition fetch_page :: "gamma \<Rightarrow> string \<Rightarrow> int \<Rightarrow> int \<Rightarrow> py_error + payload list" where
  "fetch_page g endpoint limit offset = (case g_page g endpoint limit offset of Inl e \<Rightarrow> Inl e
     | Inr (VList vs) \<Rightarrow> Inr [d. VDict d \<leftarrow> vs] | Inr _ \<Rightarrow> Inl ValueError)"

fun fetch_pages :: "gamma \<Rightarrow> string \<Rightarrow> int \<Rightarrow> nat list \<Rightarrow> py_error + payload list" where
  "fetch_pages g endpoint limit [] = Inr []"
| "fetch_pages g endpoint limit (i # is) = (case fetch_page g endpoint limit (int i * limit) of
     Inl e \<Rightarrow> Inl e | Inr [] \<Rightarrow> Inr []
   | Inr page \<Rightarrow> map_sum id (\<lambda>rest. page @ rest) (fetch_pages g endpoint limit is))"

definition fetch_paginated_endpoint :: "gamma \<Rightarrow> discovery_client \<Rightarrow> string \<Rightarrow> py_error + payload list" where
  "fetch_paginated_endpoint g c endpoint = fetch_pages g endpoint (dc_limit c) [0..<dc_max_pages c]"

subsection \<open>Slugs\<close>

record lookup_attempt =
  la_endpoint :: string
  la_found :: bool
  la_candidate_count :: nat
  la_parsed_count :: nat
  la_reject_reasons :: "string list"

record lookup_result =
  lr_slug :: string
  lr_found :: bool
  lr_endpoint_used :: "string option"
  lr_parsed_markets :: "market_metadata list"
  lr_reject_reasons :: "string list"
  lr_attempts :: "lookup_attempt list"

fun try_endpoints ::
  "(string \<Rightarrow> pyval option) \<Rightarrow> (string \<Rightarrow> string \<Rightarrow> py_error + payload option) \<Rightarrow> (string \<times> string) list
     \<Rightarrow> string list \<Rightarrow> lookup_result \<Rightarrow> py_error + (market_metadata list \<times> lookup_result)" where
  "try_endpoints loads fetch [] rejects r = Inr ([], r\<lparr>lr_reject_reasons := rejects\<rparr>)"
| "try_endpoints loads fetch ((name, endpoint) # es) rejects r =
     (case fetch endpoint (lr_slug r) of
        Inl e \<Rightarrow> Inl e
      | Inr None \<Rightarrow> try_endpoints loads fetch es rejects (r\<lparr>lr_attempts := lr_attempts r @
          [\<lparr>la_endpoint = name, la_found = False, la_candidate_count = 0, la_parsed_count = 0,
            la_reject_reasons = []\<rparr>]\<rparr>)
      | Inr (Some p) \<Rightarrow>
          (let candidates = extract_market_payloads p (VStr (lr_slug r)) in
           case parse_candidates loads candidates of Inl e \<Rightarrow> Inl e
           | Inr (parsed, rs) \<Rightarrow>
               (let r1 = r\<lparr>lr_found := True, lr_attempts := lr_attempts r @
                  [\<lparr>la_endpoint = name, la_found = True, la_candidate_count = length candidates,
                    la_parsed_count = length parsed, la_reject_reasons = rs\<rparr>]\<rparr>
                in if parsed \<noteq> [] then Inr (parsed, r1\<lparr>lr_endpoint_used := Some name,
                       lr_parsed_markets := parsed, lr_reject_reasons := rejects @ rs\<rparr>)
                   else try_endpoints loads fetch es (rejects @ rs) r1)))"

definition lookup_rolling_slug ::
  "(string \<Rightarrow> pyval option) \<Rightarrow> (string \<Rightarrow> string \<Rightarrow> py_error + payload option) \<Rightarrow> string
     \<Rightarrow> py_error + (market_metadata list \<times> lookup_result)" where
  "lookup_rolling_slug loads fetch slug =
     try_endpoints loads fetch [(''markets/slug'', ''markets''), (''events/slug'', ''events'')] []
       \<lparr>lr_slug = slug, lr_found = False, lr_endpoint_used = None, lr_parsed_markets = [],
        lr_reject_reasons = [], lr_attempts = []\<rparr>"

fun lookup_slugs ::
  "(string \<Rightarrow> pyval option) \<Rightarrow> (string \<Rightarrow> string \<Rightarrow> py_error + payload option) \<Rightarrow> string list
     \<Rightarrow> market_metadata list \<Rightarrow> lookup_result list \<Rightarrow> py_error + (market_metadata list \<times> lookup_result list)" where
  "lookup_slugs loads fetch [] ms rs = Inr (ms, rs)"
| "lookup_slugs loads fetch (s # ss) ms rs = (case lookup_rolling_slug loads fetch s of Inl e \<Rightarrow> Inl e
     | Inr (found, r) \<Rightarrow> lookup_slugs loads fetch ss (fold add_new_market found ms) (rs @ [r]))"

definition discover_rolling_slug_candidates ::
  "(string \<Rightarrow> pyval option) \<Rightarrow> (string \<Rightarrow> string \<Rightarrow> py_error + payload option) \<Rightarrow> int \<Rightarrow> int
     \<Rightarrow> py_error + (market_metadata list \<times> lookup_result list)" where
  "discover_rolling_slug_candidates loads fetch now lookahead =
     (case generate_crypto_updown_slugs now [''btc'', ''eth''] [''5m'', ''15m''] 2 (max 1 lookahead) of
        Inl e \<Rightarrow> Inl e | Inr slugs \<Rightarrow> lookup_slugs loads fetch slugs [] [])"

definition with_discovery_source :: "discovery_source \<Rightarrow> market_metadata list \<Rightarrow> market_metadata list" where
  "with_discovery_source source ms = map (\<lambda>m. m\<lparr>mm_discovery_source := Some source\<rparr>) ms"

definition dedupe_prefer_runtime :: "int \<Rightarrow> market_metadata list \<Rightarrow> market_metadata list" where
  \<comment> \<open>a dict keeps the place of the first market of a key, so its values are in the order of the code\<close>
  "dedupe_prefer_runtime now ms = map snd (fold (\<lambda>m d. case map_of d (market_key m) of
       None \<Rightarrow> d @ [(market_key m, m)]
     | Some p \<Rightarrow> if is_runtime_tradable_market m now \<and> \<not> is_runtime_tradable_market p now
         then AList.update (market_key m) m d else d) ms [])"

subsection \<open>Active events\<close>

record active_result =
  ar_attempted :: bool
  ar_event_count :: int
  ar_candidate_count :: int
  ar_parsed_count :: int
  ar_runtime_tradable_count :: int
  ar_runtime_candidate_count :: int
  ar_current_signal_count :: int
  ar_next_warmup_count :: int
  ar_reject_reasons :: "string counter"
  ar_rejected_candidates :: "(string \<times> string) list"  \<comment> \<open>slug and reason\<close>
  ar_markets :: "market_metadata list"

definition empty_active_result :: "bool \<Rightarrow> active_result" where
  "empty_active_result attempted = \<lparr>ar_attempted = attempted, ar_event_count = 0, ar_candidate_count = 0,
     ar_parsed_count = 0, ar_runtime_tradable_count = 0, ar_runtime_candidate_count = 0,
     ar_current_signal_count = 0, ar_next_warmup_count = 0, ar_reject_reasons = [],
     ar_rejected_candidates = [], ar_markets = []\<rparr>"

fun join_reasons :: "string list \<Rightarrow> string" where
  "join_reasons [] = []"
| "join_reasons [s] = s"
| "join_reasons (s # ss) = s @ '','' @ join_reasons ss"

definition reject_candidates :: "string list \<Rightarrow> string \<Rightarrow> string \<Rightarrow> active_result \<Rightarrow> active_result" where
  "reject_candidates reasons slug reason r = r\<lparr>ar_reject_reasons := fold ctr_inc reasons (ar_reject_reasons r),
     ar_rejected_candidates := ar_rejected_candidates r @ [(slug, reason)]\<rparr>"

fun scan_candidates ::
  "(string \<Rightarrow> pyval option) \<Rightarrow> int \<Rightarrow> int \<Rightarrow> payload list \<Rightarrow> market_metadata list \<times> active_result
     \<Rightarrow> py_error + (market_metadata list \<times> active_result)" where
  \<comment> \<open>the loop over the candidates of all events\<close>
  "scan_candidates loads now lookahead [] acc = Inr acc"
| "scan_candidates loads now lookahead (c # cs) (ms, r) =
     (let slug = text_chain c [''slug'', ''market_slug''] [] in
      if \<not> is_short_duration_crypto_market c then
        scan_candidates loads now lookahead cs (ms, reject_candidates [''not_btc_eth_5m_15m_updown''] slug
          ''not_btc_eth_5m_15m_updown'' r)
      else (case parse_market_metadata loads c of Inl e \<Rightarrow> Inl e
        | Inr (None, rejects) \<Rightarrow>
            (let reason = str_or (Some (join_reasons rejects)) ''parse_failed'' in
             scan_candidates loads now lookahead cs (ms, reject_candidates
               (if rejects = [] then [reason] else rejects) slug reason r))
        | Inr (Some m0, _) \<Rightarrow>
            (let m = m0\<lparr>mm_discovery_source := Some D_active_events\<rparr>;
                 r1 = r\<lparr>ar_parsed_count := ar_parsed_count r + 1\<rparr>;
                 ready = is_runtime_tradable_market m now;
                 compatible = is_rolling_window_compatible m now lookahead;
                 reason = (if ready \<and> \<not> compatible then ''incompatible_rolling_window''
                           else window_text (classify_market_window m now))
             in if \<not> ready \<or> \<not> compatible
                then scan_candidates loads now lookahead cs
                       (ms, reject_candidates [reason] (mm_market_slug m) reason r1)
                else scan_candidates loads now lookahead cs (ms @ [m], r1))))"

definition active_event_markets ::
  "(string \<Rightarrow> pyval option) \<Rightarrow> payload list \<Rightarrow> int \<Rightarrow> int \<Rightarrow> py_error + (market_metadata list \<times> active_result)" where
  \<comment> \<open>\<open>discover_active_event_rolling_markets\<close> on the events it has fetched\<close>
  "active_event_markets loads events now lookahead =
     (let candidates = concat (map (\<lambda>e. extract_market_payloads e VNone) events);
          r0 = (empty_active_result True)\<lparr>ar_event_count := int (length events),
                 ar_candidate_count := int (length candidates)\<rparr>
      in case scan_candidates loads now lookahead candidates ([], r0) of Inl e \<Rightarrow> Inl e
       | Inr (ms, r) \<Rightarrow>
           (let annotated = annotate_runtime_market_roles (dedupe_prefer_runtime now ms) now lookahead;
                runtime = select_runtime_markets annotated now lookahead;
                signals = int (length (filter mm_signal_enabled runtime))
            in Inr (annotated, r\<lparr>ar_runtime_candidate_count := int (length runtime),
                 ar_runtime_tradable_count := signals, ar_current_signal_count := signals,
                 ar_next_warmup_count := int (length [m \<leftarrow> runtime. mm_runtime_selection_reason m = Some ''next_warmup'']),
                 ar_reject_reasons := sort_key fst (ar_reject_reasons r), ar_markets := annotated\<rparr>)))"

subsection \<open>The cache\<close>

datatype cache_file = No_cache | Bad_cache string | Cache "int option" "market_metadata list"

record cache_validation =
  cv_exists :: bool
  cv_valid :: bool
  cv_markets :: "market_metadata list"
  cv_runtime_markets :: "market_metadata list"
  cv_age_ms :: "pyfloat option"
  cv_ttl_ms :: int
  cv_rejected :: bool
  cv_rejected_reason :: "string option"
  cv_error :: "string option"

definition cache_age_ms :: "int option \<Rightarrow> int \<Rightarrow> pyfloat option" where
  "cache_age_ms discovered now_ns = (case discovered of None \<Rightarrow> None
     | Some t \<Rightarrow> Some (pymax fzero
         (if t > 10000000000000 then ms_of_ns (now_ns - t)
          else if t > 10000000000 then fsub (ms_of_ns now_ns) (float_of_int t)
          else fmul (fsub (fdiv (float_of_int now_ns) (Fin 1000000000)) (float_of_int t)) (Fin 1000))))"

definition older_than :: "pyfloat \<Rightarrow> int \<Rightarrow> bool" where
  \<comment> \<open>Python compares a float with an integer exactly\<close>
  "older_than age ttl = (case age of Fin r \<Rightarrow> of_int ttl < r | PInf \<Rightarrow> True | _ \<Rightarrow> False)"

definition current_or_next :: "market_metadata \<Rightarrow> bool" where
  "current_or_next m \<longleftrightarrow> mm_classification m \<in> {Some W_current_signal, Some W_next_warmup}"

definition validate_cache_for_runtime :: "cache_file \<Rightarrow> int \<Rightarrow> int \<Rightarrow> int \<Rightarrow> int \<Rightarrow> cache_validation" where
  "validate_cache_for_runtime file now ttl lookahead now_ns =
     (let base = \<lparr>cv_exists = True, cv_valid = False, cv_markets = [], cv_runtime_markets = [],
                  cv_age_ms = None, cv_ttl_ms = ttl, cv_rejected = False, cv_rejected_reason = None,
                  cv_error = None\<rparr>;
          reject = (\<lambda>reason v. v\<lparr>cv_rejected := True, cv_rejected_reason := Some reason\<rparr>)
      in case file of
        No_cache \<Rightarrow> base\<lparr>cv_exists := False\<rparr>
      | Bad_cache text \<Rightarrow> reject ''cache_missing_required_fields'' (base\<lparr>cv_error := Some text\<rparr>)
      | Cache discovered markets \<Rightarrow>
          (let age = cache_age_ms discovered now_ns;
               annotated = annotate_runtime_market_roles (with_discovery_source D_cache markets) now lookahead;
               runtime = select_runtime_markets annotated now lookahead;
               v = base\<lparr>cv_markets := annotated, cv_runtime_markets := runtime, cv_age_ms := age\<rparr>
           in case age of None \<Rightarrow> reject ''cache_missing_required_fields'' v
            | Some a \<Rightarrow>
                if older_than a ttl then reject ''cache_expired'' v
                else if annotated \<noteq> [] \<and> list_all (\<lambda>m. mm_closed m = Some True) annotated
                then reject ''cache_all_closed'' v
                else if annotated \<noteq> [] \<and> list_all (\<lambda>m. mm_accepting_orders m = Some False) annotated
                then reject ''cache_no_runtime_markets'' v
                else if runtime = [] \<or> \<not> list_ex current_or_next runtime
                then reject ''cache_no_runtime_markets'' v
                else v\<lparr>cv_valid := True\<rparr>))"

definition write_runtime_cache_if_usable ::
  "market_metadata list \<Rightarrow> market_metadata list option \<Rightarrow> int \<Rightarrow> string option \<times> market_metadata list option" where
  \<comment> \<open>the reason not to write, or the markets that are written\<close>
  "write_runtime_cache_if_usable markets runtime now =
     (let annotated = annotate_runtime_market_roles markets now 1;
          selected = (case runtime of Some ms \<Rightarrow> ms | None \<Rightarrow> select_runtime_markets annotated now 1)
      in if annotated \<noteq> [] \<and> list_all (\<lambda>m. mm_closed m = Some True) annotated
         then (Some ''cache_not_updated_all_closed'', None)
         else if annotated \<noteq> [] \<and> list_all (\<lambda>m. mm_accepting_orders m = Some False) annotated
         then (Some ''cache_not_updated_all_accepting_orders_false'', None)
         else if selected = [] then (Some ''cache_not_updated_runtime_count_zero'', None)
         else if \<not> list_ex (\<lambda>m. current_or_next m
               \<or> mm_runtime_selection_reason m \<in> {Some ''current_signal'', Some ''next_warmup''}) selected
         then (Some ''cache_not_updated_no_current_or_warmup'', None)
         else (None, Some annotated))"

end
