(* ===== verification/DiscoveryRun.thy ===== *)
theory DiscoveryRun
  imports DiscoveryPlan
begin

text \<open>
  A whole discovery: \<open>discover_rolling_markets_robust\<close> with the attempt it reports, and
  \<open>discover\<close>. The local time of the report is left out, being the clock's. Times of the call are given
  in whole seconds (and nanoseconds for the age of the cache).
\<close>

subsection \<open>The report of an attempt\<close>

definition opt_min :: "int list \<Rightarrow> int option" where
  "opt_min xs = (if xs = [] then None else Some (Min (set xs)))"

definition opt_max :: "int list \<Rightarrow> int option" where
  "opt_max xs = (if xs = [] then None else Some (Max (set xs)))"

record window_bounds =
  wb_min_start :: "int option"
  wb_max_end :: "int option"
  wb_until_next_start :: "int option"
  wb_since_last_end :: "int option"

definition horizon_seconds :: "string \<Rightarrow> int" where
  "horizon_seconds h = (case map_of rolling_horizon_seconds h of None \<Rightarrow> 0 | Some d \<Rightarrow> d)"

definition generated_window_bounds :: "int \<Rightarrow> string list \<Rightarrow> window_bounds" where
  "generated_window_bounds now slugs =
     (let windows = [(start, start + horizon_seconds h). s \<leftarrow> slugs, Some (_, h, start) \<leftarrow> [rolling_slug_parts s]];
          future = [start. (start, _) \<leftarrow> windows, start > now];
          ended = [e. (_, e) \<leftarrow> windows, e \<le> now]
      in \<lparr>wb_min_start = opt_min (map fst windows), wb_max_end = opt_max (map snd windows),
          wb_until_next_start = map_option (\<lambda>t. t - now) (opt_min future),
          wb_since_last_end = map_option (\<lambda>t. now - t) (opt_max ended)\<rparr>)"

record time_sanity =
  ts_bounds :: window_bounds
  ts_closed_future_count :: int
  ts_accepting_false_count :: int
  ts_diagnostics :: "string list"

definition current_or_future :: "int \<Rightarrow> market_metadata \<Rightarrow> bool" where
  "current_or_future now m = (case market_end m of None \<Rightarrow> False
     | Some e \<Rightarrow> (market_start m \<le> now \<and> now < e) \<or> market_start m > now)"

definition time_sanity_diagnostics :: "int \<Rightarrow> market_metadata list \<Rightarrow> lookup_result list \<Rightarrow> time_sanity" where
  "time_sanity_diagnostics now direct results =
     (let closed = length [m \<leftarrow> direct. mm_closed m = Some True \<and> current_or_future now m] in
      \<lparr>ts_bounds = generated_window_bounds now [s \<leftarrow> map lr_slug results. s \<noteq> []],
       ts_closed_future_count = int closed,
       ts_accepting_false_count =
         int (length [m \<leftarrow> direct. mm_active m = Some True \<and> mm_accepting_orders m = Some False]),
       ts_diagnostics = (if closed \<noteq> 0 then [''direct_slug_returned_closed_for_current_or_future_window''] else [])\<rparr>)"

record cache_summary =
  cs_exists :: bool
  cs_valid :: bool
  cs_age_ms :: "pyfloat option"
  cs_ttl_ms :: int
  cs_runtime_count :: int
  cs_market_count :: int
  cs_rejected :: bool
  cs_rejected_reason :: "string option"
  cs_error :: "string option"
  cs_selected_slugs :: "string list"

definition cache_to_summary :: "cache_validation \<Rightarrow> cache_summary" where
  "cache_to_summary v = \<lparr>cs_exists = cv_exists v, cs_valid = cv_valid v, cs_age_ms = cv_age_ms v,
     cs_ttl_ms = cv_ttl_ms v, cs_runtime_count = int (length (cv_runtime_markets v)),
     cs_market_count = int (length (cv_markets v)), cs_rejected = cv_rejected v,
     cs_rejected_reason = cv_rejected_reason v, cs_error = cv_error v,
     cs_selected_slugs = map mm_market_slug (cv_runtime_markets v)\<rparr>"

record direct_stats =
  ds_attempted :: bool
  ds_generated_slug_count :: int
  ds_found_count :: int
  ds_market_count :: int
  ds_runtime_tradable_count :: int

record active_stats =
  as_attempted :: bool
  as_event_count :: int
  as_candidate_count :: int
  as_parsed_count :: int
  as_market_count :: int
  as_runtime_tradable_count :: int

record attempt_details =
  \<comment> \<open>the keys that only the robust discovery reports\<close>
  ad_timestamp :: "string option"
  ad_direct :: direct_stats
  ad_active :: active_stats
  ad_cache :: cache_summary
  ad_active_found_runtime_count :: int
  ad_closed_count :: int
  ad_accepting_orders_false_count :: int
  ad_missing_orderbook_count :: int
  ad_missing_tokens_count :: int
  ad_cache_not_updated :: bool
  ad_cache_not_updated_reason :: "string option"
  ad_bounds :: window_bounds
  ad_closed_future_count :: int
  ad_accepting_false_count :: int

record discovery_attempt =
  da_refresh_reason :: "string option"
  da_direct_found_count :: int
  da_direct_runtime_count :: int
  da_active_found_count :: int
  da_active_runtime_count :: int
  da_cache_runtime_count :: int
  da_runtime_tradable_count :: int
  da_current_signal_count :: int
  da_next_warmup_count :: int
  da_fallback_used :: bool
  da_cache_used :: bool
  da_cache_rejected :: bool
  da_cache_rejected_reason :: "string option"
  da_failure_reason :: "string option"
  da_selected_slugs :: "string list"
  da_current_signal_slugs :: "string list"
  da_next_warmup_slugs :: "string list"
  da_diagnostics :: "string list"
  da_details :: "attempt_details option"

definition reject_count :: "lookup_result list \<Rightarrow> string \<Rightarrow> int" where
  "reject_count results reason = int (length [r \<leftarrow> concat (map lr_reject_reasons results). r = reason])"

definition active_reject_count :: "active_result \<Rightarrow> string \<Rightarrow> int" where
  "active_reject_count r reason = sum_list [n. (x, n) \<leftarrow> ar_reject_reasons r, x = reason]"

definition class_count :: "int \<Rightarrow> window_class \<Rightarrow> market_metadata list \<Rightarrow> int" where
  "class_count now w ms = int (length [m \<leftarrow> ms. classify_market_window m now = w])"

definition failure_of_direct :: "int \<Rightarrow> market_metadata list \<Rightarrow> market_metadata list \<Rightarrow> int \<Rightarrow> string option" where
  "failure_of_direct now runtime direct found =
     (if runtime \<noteq> [] then None
      else if found \<noteq> 0 \<and> direct \<noteq> [] \<and> list_all (\<lambda>m. classify_market_window m now = W_closed) direct
      then Some ''direct_slug_found_but_all_closed'' else Some ''no_runtime_tradable_markets'')"

definition build_attempt_details ::
  "int \<Rightarrow> market_metadata list \<Rightarrow> market_metadata list \<Rightarrow> lookup_result list \<Rightarrow> market_metadata list
     \<Rightarrow> active_result \<Rightarrow> cache_validation \<Rightarrow> string option \<Rightarrow> string option \<Rightarrow> attempt_details" where
  "build_attempt_details now final direct results active ar cv not_updated timestamp =
     (let ts = time_sanity_diagnostics now direct results in
      \<lparr>ad_timestamp = timestamp,
       ad_direct = \<lparr>ds_attempted = results \<noteq> [], ds_generated_slug_count = int (length results),
         ds_found_count = int (length [r \<leftarrow> results. lr_found r]), ds_market_count = int (length direct),
         ds_runtime_tradable_count = int (length [m \<leftarrow> direct. is_runtime_tradable_market m now])\<rparr>,
       ad_active = \<lparr>as_attempted = ar_attempted ar, as_event_count = ar_event_count ar,
         as_candidate_count = ar_candidate_count ar, as_parsed_count = ar_parsed_count ar,
         as_market_count = int (length active), as_runtime_tradable_count = ar_runtime_tradable_count ar\<rparr>,
       ad_cache = cache_to_summary cv, ad_active_found_runtime_count = ar_runtime_tradable_count ar,
       ad_closed_count = class_count now W_closed final,
       ad_accepting_orders_false_count = int (length [m \<leftarrow> final. mm_accepting_orders m = Some False]),
       ad_missing_orderbook_count = class_count now W_missing_orderbook final,
       ad_missing_tokens_count = class_count now W_missing_tokens final
         + reject_count results ''missing_clob_token_ids'' + active_reject_count ar ''missing_clob_token_ids'',
       ad_cache_not_updated = not_updated \<noteq> None, ad_cache_not_updated_reason = not_updated,
       ad_bounds = ts_bounds ts, ad_closed_future_count = ts_closed_future_count ts,
       ad_accepting_false_count = ts_accepting_false_count ts\<rparr>)"

definition build_discovery_attempt ::
  "int \<Rightarrow> market_metadata list \<Rightarrow> market_metadata list \<Rightarrow> market_metadata list \<Rightarrow> lookup_result list
     \<Rightarrow> market_metadata list \<Rightarrow> active_result \<Rightarrow> cache_validation \<Rightarrow> bool \<Rightarrow> bool \<Rightarrow> string option
     \<Rightarrow> string option \<Rightarrow> py_error + discovery_attempt" where
  "build_discovery_attempt now final runtime direct results active ar cv cache_used fallback reason not_updated =
     (let found = int (length [r \<leftarrow> results. lr_found r]);
          failure = failure_of_direct now runtime direct found;
          signals = [mm_market_slug m. m \<leftarrow> runtime, mm_signal_enabled m];
          warmups = [mm_market_slug m. m \<leftarrow> runtime, mm_runtime_selection_reason m = Some ''next_warmup'']
      in case iso_from_unix_seconds (Some now) of Inl e \<Rightarrow> Inl e
       | Inr timestamp \<Rightarrow> Inr
          \<lparr>da_refresh_reason = reason, da_direct_found_count = found,
           da_direct_runtime_count = int (length [m \<leftarrow> direct. is_runtime_tradable_market m now]),
           da_active_found_count = int (length active), da_active_runtime_count = ar_runtime_tradable_count ar,
           da_cache_runtime_count = int (length (cv_runtime_markets cv)),
           da_runtime_tradable_count = int (length runtime), da_current_signal_count = int (length signals),
           da_next_warmup_count = int (length warmups), da_fallback_used = fallback, da_cache_used = cache_used,
           da_cache_rejected = cv_rejected cv, da_cache_rejected_reason = cv_rejected_reason cv,
           da_failure_reason = failure, da_selected_slugs = map mm_market_slug runtime,
           da_current_signal_slugs = signals, da_next_warmup_slugs = warmups,
           da_diagnostics = ts_diagnostics (time_sanity_diagnostics now direct results)
             @ (if failure = Some ''direct_slug_found_but_all_closed'' then [''direct_slug_found_but_all_closed''] else []),
           da_details = Some (build_attempt_details now final direct results active ar cv not_updated timestamp)\<rparr>)"

subsection \<open>The robust discovery\<close>

record discovery_result =
  dr_markets :: "market_metadata list"
  dr_runtime_markets :: "market_metadata list"
  dr_attempt :: discovery_attempt
  dr_direct_results :: "lookup_result list"
  dr_active_result :: active_result
  dr_cache :: cache_validation
  dr_cache_used :: bool
  dr_fallback_used :: bool
  dr_written :: "market_metadata list option"  \<comment> \<open>what the call wrote to the cache\<close>

record discovery_options =
  do_now :: int
  do_now_ns :: int
  do_lookahead :: int
  do_cache_ttl_ms :: int
  do_write_cache :: bool
  do_force_active_events :: bool
  do_use_cache :: bool
  do_refresh_reason :: "string option"

definition direct_discovery ::
  "gamma \<Rightarrow> discovery_client \<Rightarrow> int \<Rightarrow> int \<Rightarrow> py_error + (market_metadata list \<times> lookup_result list)" where
  "direct_discovery g c now lookahead =
     (if dc_direct_slug_lookup c then
        map_sum id (\<lambda>(ms, rs). (annotate_runtime_market_roles (with_discovery_source D_direct_slug ms) now lookahead, rs))
          (discover_rolling_slug_candidates (g_loads g) (fetch_slug_object g) now lookahead)
      else Inr ([], []))"

definition needs_fallback ::
  "bool \<Rightarrow> int \<Rightarrow> market_metadata list \<Rightarrow> market_metadata list \<Rightarrow> cache_validation \<Rightarrow> bool" where
  "needs_fallback force now direct runtime cv \<longleftrightarrow>
     force \<or> runtime = [] \<or> \<not> list_ex mm_signal_enabled runtime
     \<or> (direct \<noteq> [] \<and> list_all (\<lambda>m. classify_market_window m now = W_closed) direct)
     \<or> (direct \<noteq> [] \<and> list_all (\<lambda>m. mm_accepting_orders m = Some False) direct)
     \<or> cv_rejected cv"

definition active_discovery ::
  "gamma \<Rightarrow> discovery_client \<Rightarrow> int \<Rightarrow> int \<Rightarrow> bool \<Rightarrow> py_error + (market_metadata list \<times> active_result)" where
  "active_discovery g c now lookahead fallback =
     (if fallback then (case fetch_paginated_endpoint g c ''events'' of Inl e \<Rightarrow> Inl e
        | Inr events \<Rightarrow> active_event_markets (g_loads g) events now lookahead)
      else Inr ([], empty_active_result False))"

definition merge_markets :: "int \<Rightarrow> int \<Rightarrow> market_metadata list \<Rightarrow> market_metadata list \<Rightarrow> market_metadata list" where
  "merge_markets now lookahead direct active =
     annotate_runtime_market_roles (dedupe_prefer_runtime now (direct @ active)) now lookahead"

definition robust_result ::
  "discovery_options \<Rightarrow> market_metadata list \<Rightarrow> lookup_result list \<Rightarrow> cache_validation \<Rightarrow> bool
     \<Rightarrow> market_metadata list \<Rightarrow> active_result \<Rightarrow> py_error + discovery_result" where
  \<comment> \<open>from the three answers to the result: merging, the cache, the report\<close>
  "robust_result opts direct results cv fallback active ar =
     (let now = do_now opts; lookahead = do_lookahead opts;
          merged = merge_markets now lookahead direct active;
          selected = select_runtime_markets merged now lookahead;
          cache_used = (do_use_cache opts \<and> selected = [] \<and> cv_valid cv);
          final = (if cache_used then cv_markets cv else merged);
          runtime = (if cache_used then cv_runtime_markets cv else selected);
          (not_updated, written) = (if do_write_cache opts \<and> \<not> cache_used
            then write_runtime_cache_if_usable final (Some runtime) now else (None, None))
      in case build_discovery_attempt now final runtime direct results active ar cv cache_used fallback
               (do_refresh_reason opts) not_updated of Inl e \<Rightarrow> Inl e
       | Inr attempt \<Rightarrow> Inr \<lparr>dr_markets = final, dr_runtime_markets = runtime, dr_attempt = attempt,
           dr_direct_results = results, dr_active_result = ar, dr_cache = cv, dr_cache_used = cache_used,
           dr_fallback_used = fallback, dr_written = written\<rparr>)"

definition discover_rolling_markets_robust ::
  "gamma \<Rightarrow> discovery_client \<Rightarrow> cache_file \<Rightarrow> discovery_options \<Rightarrow> py_error + discovery_result" where
  "discover_rolling_markets_robust g c file opts =
     (let now = do_now opts; lookahead = do_lookahead opts in
      case direct_discovery g c now lookahead of Inl e \<Rightarrow> Inl e
    | Inr (direct, results) \<Rightarrow>
        (let cv = validate_cache_for_runtime file now (do_cache_ttl_ms opts) lookahead (do_now_ns opts);
             fallback = needs_fallback (do_force_active_events opts) now direct
               (select_runtime_markets direct now lookahead) cv
         in case active_discovery g c now lookahead fallback of Inl e \<Rightarrow> Inl e
          | Inr (active, ar) \<Rightarrow> robust_result opts direct results cv fallback active ar))"

subsection \<open>The plain discovery\<close>

definition raw_market_payloads :: "gamma \<Rightarrow> discovery_client \<Rightarrow> py_error + payload list" where
  \<comment> \<open>the search finds nothing in this version of the code\<close>
  "raw_market_payloads g c = (case dc_fetch_markets c of Some ps \<Rightarrow> Inr ps
     | None \<Rightarrow> (case fetch_paginated_endpoint g c ''events'' of Inl e \<Rightarrow> Inl e
         | Inr events \<Rightarrow>
             (let ps = concat (map (\<lambda>e. extract_market_payloads e VNone) events) in
              if ps \<noteq> [] then Inr ps else fetch_paginated_endpoint g c ''markets'')))"

definition plain_markets ::
  "gamma \<Rightarrow> discovery_client \<Rightarrow> discovery_options \<Rightarrow> py_error + (market_metadata list \<times> market_metadata list option)" where
  "plain_markets g c opts = (case raw_market_payloads g c of Inl e \<Rightarrow> Inl e
     | Inr ps \<Rightarrow> (case parse_market_payloads (g_loads g) ps of Inl e \<Rightarrow> Inl e
         | Inr ms \<Rightarrow>
             (let annotated = annotate_runtime_market_roles ms (do_now opts) (do_lookahead opts) in
              Inr (annotated, if do_write_cache opts
                then snd (write_runtime_cache_if_usable annotated None (do_now opts)) else None))))"

definition discover ::
  "gamma \<Rightarrow> discovery_client \<Rightarrow> cache_file \<Rightarrow> discovery_options
     \<Rightarrow> py_error + (market_metadata list \<times> market_metadata list option)" where
  \<comment> \<open>the markets and what is written to the cache (by the robust discovery first, if it finds nothing
     then by the plain one)\<close>
  "discover g c file opts =
     (if dc_direct_slug_lookup c then
        (case discover_rolling_markets_robust g c file (opts\<lparr>do_force_active_events := False, do_use_cache := True\<rparr>) of
           Inl e \<Rightarrow> Inl e
         | Inr r \<Rightarrow> if dr_markets r \<noteq> [] then Inr (dr_markets r, dr_written r) else plain_markets g c opts)
      else plain_markets g c opts)"

definition flatten_token_ids :: "market_metadata list \<Rightarrow> string list" where
  "flatten_token_ids ms = concat (map token_ids ms)"

definition token_side_labels :: "market_metadata list \<Rightarrow> (string \<times> (market_metadata \<times> string)) list" where
  "token_side_labels ms =
     fold (\<lambda>m d. fold (\<lambda>(t, outcome). AList.update t (m, outcome)) (mm_token_outcomes m) d) ms []"

definition discover_rolling_markets ::
  "gamma \<Rightarrow> discovery_client \<Rightarrow> int \<Rightarrow> int \<Rightarrow> py_error + market_metadata list" where
  \<comment> \<open>the slugs alone, looked up whether or not the client is set to\<close>
  "discover_rolling_markets g c now lookahead =
     map_sum id (\<lambda>(ms, _). annotate_runtime_market_roles (with_discovery_source D_direct_slug ms) now lookahead)
       (discover_rolling_slug_candidates (g_loads g) (fetch_slug_object g) now lookahead)"

subsection \<open>The report for debugging\<close>

record debug_market =
  db_market :: market_metadata
  db_token_for_up :: "string option"
  db_token_for_down :: "string option"

definition debug_market_payload :: "int \<Rightarrow> market_key set \<Rightarrow> market_metadata \<Rightarrow> debug_market" where
  "debug_market_payload now keys m =
     (let c = classify_market_window m now; selected = market_key m \<in> keys;
          enabled = (selected \<and> c = W_current_signal)
      in \<lparr>db_market = m\<lparr>mm_classification := Some c, mm_selected_for_runtime := selected,
            mm_signal_enabled := enabled, mm_runtime_selection_reason := Some (window_text
              (runtime_selection_reason c (if selected then Some c else None) enabled))\<rparr>,
          db_token_for_up = token_for_direction G_UP m, db_token_for_down = token_for_direction G_DOWN m\<rparr>)"

record debug_report =
  dbr_generated_at :: int
  dbr_generated_slugs :: "string list"
  dbr_found_slugs :: "string list"
  dbr_not_found_slugs :: "string list"
  dbr_attempt :: discovery_attempt
  dbr_cache :: cache_summary
  dbr_active :: active_result
  dbr_results :: "(lookup_result \<times> debug_market list) list"  \<comment> \<open>each result with its enriched markets\<close>
  dbr_markets :: "debug_market list"

definition debug_rolling_discovery ::
  "gamma \<Rightarrow> discovery_client \<Rightarrow> cache_file \<Rightarrow> int \<Rightarrow> int \<Rightarrow> int \<Rightarrow> py_error + debug_report" where
  "debug_rolling_discovery g c file now now_ns ttl =
     (let opts = \<lparr>do_now = now, do_now_ns = now_ns, do_lookahead = 2, do_cache_ttl_ms = ttl, do_write_cache = False,
            do_force_active_events = True, do_use_cache = True, do_refresh_reason = None\<rparr> in
      map_sum id (\<lambda>r.
        (let results = dr_direct_results r; keys = market_key ` set (dr_runtime_markets r);
             found = [lr_slug x. x \<leftarrow> results, lr_found x] in
         \<lparr>dbr_generated_at = now, dbr_generated_slugs = map lr_slug results, dbr_found_slugs = found,
          dbr_not_found_slugs = [s \<leftarrow> map lr_slug results. s \<notin> set found], dbr_attempt = dr_attempt r,
          dbr_cache = cache_to_summary (dr_cache r), dbr_active = dr_active_result r,
          dbr_results = map (\<lambda>x. (x, map (debug_market_payload now keys) (lr_parsed_markets x))) results,
          dbr_markets = map (debug_market_payload now keys) (dr_markets r)\<rparr>))
        (discover_rolling_markets_robust g c file opts))"

end
