(* ===== verification/MarketUniverse.thy ===== *)
theory MarketUniverse
  imports DiscoveryRun
begin

text \<open>
  The universe of markets that the bot follows: \<open>app/marketdata/market_universe.py\<close>. A manager keeps
  the selected markets, refreshes them through the discovery and reports what changed. The clock is
  an argument; \<open>describe\<close> gives the text \<open>ClassName: message\<close> of an exception.
\<close>

subsection \<open>Selection\<close>

datatype universe_role = U_current | U_next | U_future

definition role_class :: "universe_role \<Rightarrow> window_class" where
  "role_class r = (case r of U_current \<Rightarrow> W_current_signal | U_next \<Rightarrow> W_next_warmup | U_future \<Rightarrow> W_future_tracked)"

definition annotate_universe_role :: "universe_role \<Rightarrow> market_metadata \<Rightarrow> market_metadata" where
  "annotate_universe_role r m = m\<lparr>mm_classification := Some (role_class r), mm_selected_for_runtime := True,
     mm_signal_enabled := (r = U_current), mm_runtime_selection_reason := Some (window_text (role_class r))\<rparr>"

definition market_sort_text :: "market_metadata \<Rightarrow> string" where
  "market_sort_text m = str_or (mm_event_start_time m) (str_or (mm_start_time m) (mm_market_slug m))"

definition sort_markets :: "market_metadata list \<Rightarrow> market_metadata list" where
  \<comment> \<open>by start and then by identifier: two stable sorts\<close>
  "sort_markets ms = sort_key market_sort_text (sort_key mm_market_id ms)"

definition tradable_in :: "int \<Rightarrow> window_class list \<Rightarrow> market_metadata \<Rightarrow> bool" where
  "tradable_in now ws m \<longleftrightarrow> is_runtime_tradable_market m now \<and> classify_market_window m now \<in> set ws"

definition grouped_markets :: "market_metadata list \<Rightarrow> market_metadata list list" where
  "grouped_markets ms = map snd (fold (\<lambda>m d. AList.update (market_group m)
     ((case map_of d (market_group m) of None \<Rightarrow> [] | Some g \<Rightarrow> g) @ [m]) d) ms [])"

definition select_group :: "int \<Rightarrow> int \<Rightarrow> market_metadata list \<Rightarrow> market_metadata list" where
  "select_group now lookahead g =
     map (annotate_universe_role U_current) (sort_markets (filter (tradable_in now [W_current_signal]) g))
     @ map (\<lambda>(i, m). annotate_universe_role (if i = 0 then U_next else U_future) m)
         (enumerate 0 (take (nat lookahead)
           (sort_markets (filter (tradable_in now [W_next_warmup, W_future_tracked]) g))))"

definition select_runtime_market_universe :: "market_metadata list \<Rightarrow> int \<Rightarrow> int \<Rightarrow> market_metadata list" where
  \<comment> \<open>for a lookahead that is not negative\<close>
  "select_runtime_market_universe ms now lookahead = concat (map (select_group now lookahead) (grouped_markets ms))"

definition current_signal_slugs :: "int \<Rightarrow> market_metadata list \<Rightarrow> string list" where
  "current_signal_slugs now ms = map mm_market_slug (filter (tradable_in now [W_current_signal]) ms)"

subsection \<open>What changed\<close>

record market_view =
  mv_market_id :: string
  mv_market_slug :: string
  mv_base_asset :: "string option"
  mv_duration_minutes :: "int option"
  mv_classification :: window_class
  mv_reason :: "string option"

definition market_payload :: "int \<Rightarrow> market_metadata \<Rightarrow> market_view" where
  "market_payload now m = \<lparr>mv_market_id = mm_market_id m, mv_market_slug = mm_market_slug m,
     mv_base_asset = mm_base_asset m, mv_duration_minutes = mm_duration_minutes m,
     mv_classification = classify_market_window m now, mv_reason = mm_runtime_selection_reason m\<rparr>"

record universe_diff =
  ud_added :: "market_view list"
  ud_removed :: "market_view list"
  ud_expired :: "market_view list"
  ud_closed :: "market_view list"
  ud_current_signal :: "market_view list"
  ud_next_warmup :: "market_view list"
  ud_future_tracked :: "market_view list"
  ud_new_token_ids :: "string list"
  ud_removed_token_ids :: "string list"
  ud_forced :: bool
  ud_error :: "string option"

definition no_diff :: universe_diff where
  "no_diff = \<lparr>ud_added = [], ud_removed = [], ud_expired = [], ud_closed = [], ud_current_signal = [],
     ud_next_warmup = [], ud_future_tracked = [], ud_new_token_ids = [], ud_removed_token_ids = [],
     ud_forced = False, ud_error = None\<rparr>"

definition diff_changed :: "universe_diff \<Rightarrow> bool" where
  "diff_changed d \<longleftrightarrow> ud_added d \<noteq> [] \<or> ud_removed d \<noteq> [] \<or> ud_expired d \<noteq> [] \<or> ud_closed d \<noteq> []
     \<or> ud_new_token_ids d \<noteq> [] \<or> ud_removed_token_ids d \<noteq> []"

definition by_key :: "market_metadata list \<Rightarrow> (market_key \<times> market_metadata) list" where
  \<comment> \<open>a later market of a key replaces the earlier one\<close>
  "by_key ms = fold (\<lambda>m. AList.update (market_key m) m) ms []"

datatype part_kind = P_closed | P_expired | P_current | P_future | P_next | P_other

definition universe_part :: "int \<Rightarrow> market_metadata \<Rightarrow> part_kind" where
  "universe_part now m =
     (let c = classify_market_window m now; reason = mm_runtime_selection_reason m in
      if c = W_closed then P_closed
      else if c = W_expired then P_expired
      else if c = W_current_signal then P_current
      else if reason = Some ''future_tracked'' \<or> c = W_future_tracked then P_future
      else if c = W_next_warmup \<or> reason = Some ''next_warmup'' then P_next
      else P_other)"

record universe_parts =
  up_current :: "market_metadata list"
  up_next :: "market_metadata list"
  up_future :: "market_metadata list"
  up_expired :: "market_metadata list"
  up_closed :: "market_metadata list"

definition own_markets :: "market_metadata list \<Rightarrow> int \<Rightarrow> market_metadata list" where
  \<comment> \<open>each annotated market looked up by its key among the markets\<close>
  "own_markets ms now = map (\<lambda>a. case map_of (by_key ms) (market_key a) of None \<Rightarrow> a | Some m \<Rightarrow> m)
     (annotate_runtime_market_roles ms now 1)"

definition universe_parts_of :: "market_metadata list \<Rightarrow> int \<Rightarrow> universe_parts" where
  "universe_parts_of ms now =
     (let own = own_markets ms now; of_part = (\<lambda>p. filter (\<lambda>m. universe_part now m = p) own) in
      \<lparr>up_current = map (annotate_universe_role U_current) (of_part P_current), up_next = of_part P_next,
       up_future = of_part P_future, up_expired = of_part P_expired, up_closed = of_part P_closed\<rparr>)"

definition sort_keys :: "market_key list \<Rightarrow> market_key list" where
  "sort_keys ks = sort_key fst (sort_key snd ks)"

definition market_keys :: "market_metadata list \<Rightarrow> market_key list" where
  "market_keys ms = map fst (by_key ms)"

definition only_in :: "market_metadata list \<Rightarrow> market_metadata list \<Rightarrow> market_metadata list" where
  \<comment> \<open>the markets whose key the other list does not have, in the order of their keys\<close>
  "only_in ms others = [m. k \<leftarrow> sort_keys [k \<leftarrow> market_keys ms. k \<notin> set (market_keys others)],
     Some m \<leftarrow> [map_of (by_key ms) k]]"

definition tokens_only_in :: "market_metadata list \<Rightarrow> market_metadata list \<Rightarrow> string list" where
  "tokens_only_in ms others =
     sorted_list_of_set (set (flatten_token_ids ms) - set (flatten_token_ids others))"

definition build_market_universe_diff ::
  "market_metadata list \<Rightarrow> market_metadata list \<Rightarrow> int \<Rightarrow> bool \<Rightarrow> string option \<Rightarrow> universe_diff" where
  "build_market_universe_diff previous current now forced error =
     (let removed = only_in previous current; parts = universe_parts_of current now in
      \<lparr>ud_added = map (market_payload now) (only_in current previous),
       ud_removed = map (market_payload now) removed,
       ud_expired = map (market_payload now) [m \<leftarrow> removed. classify_market_window m now = W_expired],
       ud_closed = map (market_payload now) [m \<leftarrow> removed. classify_market_window m now = W_closed],
       ud_current_signal = map (market_payload now) (up_current parts),
       ud_next_warmup = map (market_payload now) (up_next parts),
       ud_future_tracked = map (market_payload now) (up_future parts),
       ud_new_token_ids = tokens_only_in current previous,
       ud_removed_token_ids = tokens_only_in previous current,
       ud_forced = forced, ud_error = error\<rparr>)"

subsection \<open>Reasons of a failure\<close>

definition legacy_discovery_attempt ::
  "market_metadata list \<Rightarrow> int \<Rightarrow> string \<Rightarrow> discovery_attempt" where
  "legacy_discovery_attempt selected now reason =
     (let signals = [mm_market_slug m. m \<leftarrow> selected, classify_market_window m now = W_current_signal];
          warmups = [mm_market_slug m. m \<leftarrow> selected, classify_market_window m now = W_next_warmup
                       \<or> mm_runtime_selection_reason m = Some ''next_warmup'']
      in \<lparr>da_refresh_reason = Some reason, da_direct_found_count = 0, da_direct_runtime_count = 0,
          da_active_found_count = 0, da_active_runtime_count = 0, da_cache_runtime_count = 0,
          da_runtime_tradable_count = int (length selected), da_current_signal_count = int (length signals),
          da_next_warmup_count = int (length warmups), da_fallback_used = False, da_cache_used = False,
          da_cache_rejected = False, da_cache_rejected_reason = None,
          da_failure_reason = (if selected = [] then Some ''no_runtime_tradable_markets'' else None),
          da_selected_slugs = map mm_market_slug selected, da_current_signal_slugs = signals,
          da_next_warmup_slugs = warmups, da_diagnostics = [], da_details = None\<rparr>)"

definition closed_count :: "discovery_attempt \<Rightarrow> int" where
  "closed_count a = (case da_details a of None \<Rightarrow> 0 | Some d \<Rightarrow> ad_closed_count d)"

definition derive_failure_reasons :: "discovery_attempt \<Rightarrow> string list" where
  \<comment> \<open>the guard on the failure reason alone is for when none of the others applies\<close>
  "derive_failure_reasons a =
     (let reasons =
        (if da_failure_reason a = Some ''direct_slug_found_but_all_closed'' then [''direct_slug_all_closed''] else [])
        @ (if ''direct_slug_found_but_all_closed'' \<in> set (da_diagnostics a) then [''direct_slug_all_closed''] else [])
        @ (if da_direct_found_count a \<noteq> 0 \<and> da_direct_runtime_count a = 0
             \<and> closed_count a \<ge> da_direct_found_count a then [''direct_slug_all_closed''] else [])
        @ (if da_cache_rejected a then [''cache_rejected_for_runtime''] else [])
        @ (if da_fallback_used a \<and> da_active_runtime_count a = 0 then [''active_events_no_runtime_markets''] else [])
        @ (if da_runtime_tradable_count a = 0 then [''no_runtime_markets_after_full_discovery''] else [])
      in sorted_list_of_set (set (if reasons = [] then
           (case da_failure_reason a of None \<Rightarrow> [] | Some r \<Rightarrow> if r = [] then [] else [r]) else reasons)))"

definition ranked_reasons :: "string list" where
  "ranked_reasons = [''direct_slug_all_closed'', ''active_events_no_runtime_markets'',
     ''cache_rejected_for_runtime'', ''no_runtime_markets_after_full_discovery'']"

definition derive_failure_reason :: "discovery_attempt \<Rightarrow> string" where
  "derive_failure_reason a = (case derive_failure_reasons a of
     [] \<Rightarrow> str_or (da_failure_reason a) ''no_runtime_markets_after_full_discovery''
   | r # rs \<Rightarrow> (case [x \<leftarrow> ranked_reasons. x \<in> set (r # rs)] of [] \<Rightarrow> r | x # _ \<Rightarrow> x))"

datatype attempt_summary =
    No_attempt
  | Failed_attempt string string string  \<comment> \<open>refresh reason, failure reason, error\<close>
  | Attempt discovery_attempt "string list"  \<comment> \<open>the attempt, of which the summary has seventeen keys, and the reasons\<close>

definition summary_of :: "discovery_attempt \<Rightarrow> attempt_summary" where
  "summary_of a = Attempt a (derive_failure_reasons a)"

subsection \<open>The manager\<close>

record universe_manager =
  um_refresh_interval_ms :: int
  um_lookahead :: int
  um_cache_ttl_ms :: int
  um_refresh_count :: int
  um_forced_count :: int
  um_error_count :: int
  um_failure_reason :: "string option"
  um_last_attempt :: attempt_summary
  um_last_successful_ts :: "int option"
  um_last_signal_slugs :: "string list"
  um_last_discovery_ts :: "int option"
  um_next_discovery_ts :: "int option"
  um_last_diff :: universe_diff
  um_markets :: "market_metadata list"

definition manager_init :: "market_metadata list \<Rightarrow> int \<Rightarrow> int \<Rightarrow> int \<Rightarrow> int \<Rightarrow> universe_manager" where
  "manager_init ms interval lookahead ttl now =
     (let selected = select_runtime_market_universe ms now (max 1 lookahead) in
      \<lparr>um_refresh_interval_ms = max 1 interval, um_lookahead = max 1 lookahead, um_cache_ttl_ms = max 1 ttl,
       um_refresh_count = 0, um_forced_count = 0, um_error_count = 0, um_failure_reason = None,
       um_last_attempt = No_attempt,
       um_last_successful_ts = (if selected = [] then None else Some now),
       um_last_signal_slugs = (if selected = [] then [] else current_signal_slugs now selected),
       um_last_discovery_ts = None, um_next_discovery_ts = None,
       um_last_diff = build_market_universe_diff [] selected now False None, um_markets = selected\<rparr>)"

definition refresh_due :: "int \<Rightarrow> universe_manager \<Rightarrow> bool" where
  "refresh_due now u = (case um_next_discovery_ts u of None \<Rightarrow> True | Some t \<Rightarrow> t \<le> now)"

definition schedule_next :: "int \<Rightarrow> universe_manager \<Rightarrow> universe_manager" where
  "schedule_next now u = u\<lparr>um_next_discovery_ts := Some (now + max 1 (um_refresh_interval_ms u div 1000))\<rparr>"

definition count_forced :: "bool \<Rightarrow> universe_manager \<Rightarrow> universe_manager" where
  "count_forced forced u = (if forced then u\<lparr>um_forced_count := um_forced_count u + 1\<rparr> else u)"

definition refresh_reason :: "bool \<Rightarrow> string option \<Rightarrow> string" where
  "refresh_reason forced reason = str_or reason (if forced then ''forced_no_signal'' else ''scheduled'')"

definition preserving :: "string \<Rightarrow> string" where
  "preserving text = ''market_discovery_failed_preserving_previous_universe '' @ text"

definition preserved_markets :: "int \<Rightarrow> universe_manager \<Rightarrow> market_metadata list" where
  "preserved_markets now u = annotate_runtime_market_roles (um_markets u) now (um_lookahead u)"

definition refresh_raised ::
  "int \<Rightarrow> bool \<Rightarrow> string \<Rightarrow> string \<Rightarrow> universe_manager \<Rightarrow> universe_diff \<times> universe_manager" where
  "refresh_raised now forced reason text u =
     (let diff = no_diff\<lparr>ud_forced := forced, ud_error := Some (preserving text)\<rparr> in
      (diff, schedule_next now (u\<lparr>um_error_count := um_error_count u + 1,
         um_failure_reason := Some ''market_discovery_exception'', um_markets := preserved_markets now u,
         um_last_attempt := Failed_attempt reason ''market_discovery_exception'' text,
         um_last_diff := diff, um_last_discovery_ts := Some now\<rparr>)))"

definition refresh_empty ::
  "int \<Rightarrow> bool \<Rightarrow> discovery_attempt \<Rightarrow> universe_manager \<Rightarrow> universe_diff \<times> universe_manager" where
  "refresh_empty now forced a u =
     (let reason = derive_failure_reason a; preserved = preserved_markets now u;
          diff = build_market_universe_diff (um_markets u) preserved now forced (Some (preserving reason))
      in (diff, schedule_next now (u\<lparr>um_error_count := um_error_count u + 1, um_failure_reason := Some reason,
         um_markets := preserved, um_last_diff := diff, um_last_discovery_ts := Some now\<rparr>)))"

definition refresh_selected ::
  "int \<Rightarrow> bool \<Rightarrow> market_metadata list \<Rightarrow> universe_manager \<Rightarrow> universe_diff \<times> universe_manager" where
  "refresh_selected now forced selected u =
     (let slugs = current_signal_slugs now selected;
          diff = build_market_universe_diff (um_markets u) selected now forced None;
          u1 = u\<lparr>um_refresh_count := um_refresh_count u + 1, um_markets := selected,
                 um_last_discovery_ts := Some now, um_last_diff := diff\<rparr>
      in (diff, schedule_next now (if slugs \<noteq> []
            then u1\<lparr>um_failure_reason := None, um_last_successful_ts := Some now, um_last_signal_slugs := slugs\<rparr>
            else u1\<lparr>um_failure_reason := Some ''no_current_signal_markets_after_full_discovery''\<rparr>)))"

definition refresh_found ::
  "int \<Rightarrow> bool \<Rightarrow> market_metadata list \<Rightarrow> discovery_attempt \<Rightarrow> universe_manager
     \<Rightarrow> universe_diff \<times> universe_manager" where
  "refresh_found now forced discovered a u =
     (let u1 = u\<lparr>um_last_attempt := summary_of a\<rparr>;
          selected = select_runtime_market_universe discovered now (um_lookahead u)
      in if selected = [] then refresh_empty now forced a u1 else refresh_selected now forced selected u1)"

type_synonym discovery_outcome =
  "py_error + market_metadata list \<times> discovery_attempt \<times> market_metadata list option"

definition manager_discovery ::
  "gamma \<Rightarrow> discovery_client \<Rightarrow> cache_file \<Rightarrow> int \<Rightarrow> int \<Rightarrow> string \<Rightarrow> universe_manager \<Rightarrow> discovery_outcome" where
  \<comment> \<open>the body of the try block: the markets, the attempt, and what is written to the cache\<close>
  "manager_discovery g c file now now_ns reason u =
     (let opts = \<lparr>do_now = now, do_now_ns = now_ns, do_lookahead = um_lookahead u,
            do_cache_ttl_ms = um_cache_ttl_ms u, do_write_cache = True, do_force_active_events = False,
            do_use_cache = True, do_refresh_reason = Some reason\<rparr> in
      if dc_direct_slug_lookup c then
        map_sum id (\<lambda>r. (dr_markets r, dr_attempt r, dr_written r)) (discover_rolling_markets_robust g c file opts)
      else map_sum id (\<lambda>(ms, written). (ms, legacy_discovery_attempt
             (select_runtime_market_universe ms now (um_lookahead u)) now reason, written)) (discover g c file opts))"

definition refresh_catches :: "py_error \<Rightarrow> bool" where
  "refresh_catches e \<longleftrightarrow> e \<in> {ClientError, TimeoutError, OSError, ValueError}"

definition refresh_on ::
  "(py_error \<Rightarrow> string) \<Rightarrow> int \<Rightarrow> bool \<Rightarrow> string \<Rightarrow> discovery_outcome \<Rightarrow> universe_manager
     \<Rightarrow> (py_error + universe_diff) \<times> universe_manager" where
  "refresh_on describe now forced reason outcome u =
     (let u1 = count_forced forced u in
      case outcome of
        Inl e \<Rightarrow> if refresh_catches e then map_prod Inr id (refresh_raised now forced reason (describe e) u1)
                 else (Inl e, u1)
      | Inr (discovered, a, _) \<Rightarrow> map_prod Inr id (refresh_found now forced discovered a u1))"

definition refresh ::
  "(py_error \<Rightarrow> string) \<Rightarrow> gamma \<Rightarrow> discovery_client \<Rightarrow> cache_file \<Rightarrow> int \<Rightarrow> int \<Rightarrow> bool \<Rightarrow> string option
     \<Rightarrow> universe_manager \<Rightarrow> (py_error + universe_diff) \<times> universe_manager" where
  "refresh describe g c file now now_ns forced reason u =
     (let text = refresh_reason forced reason in
      refresh_on describe now forced text (manager_discovery g c file now now_ns text u) u)"

record universe_snapshot =
  us_markets :: "market_metadata list"
  us_parts :: universe_parts
  us_token_ids :: "string list"
  us_last_discovery_ts :: "int option"
  us_next_discovery_ts :: "int option"
  us_refresh_count :: int
  us_forced_count :: int
  us_error_count :: int
  us_failure_reason :: "string option"
  us_last_attempt :: attempt_summary
  us_last_successful_ts :: "int option"
  us_last_signal_slugs :: "string list"
  us_last_diff :: universe_diff

definition manager_snapshot :: "int \<Rightarrow> universe_manager \<Rightarrow> universe_snapshot" where
  "manager_snapshot now u = \<lparr>us_markets = um_markets u, us_parts = universe_parts_of (um_markets u) now,
     us_token_ids = flatten_token_ids (um_markets u), us_last_discovery_ts = um_last_discovery_ts u,
     us_next_discovery_ts = um_next_discovery_ts u, us_refresh_count = um_refresh_count u,
     us_forced_count = um_forced_count u, us_error_count = um_error_count u,
     us_failure_reason = um_failure_reason u, us_last_attempt = um_last_attempt u,
     us_last_successful_ts = um_last_successful_ts u, us_last_signal_slugs = um_last_signal_slugs u,
     us_last_diff = um_last_diff u\<rparr>"

end
