(* ===== verification/DiscoveryProperties.thy ===== *)
theory DiscoveryProperties
  imports DiscoveryRun
begin

text \<open>
  What a discovery returns: annotation and merging keep one market of a key, the runtime markets are
  tradable, the cache is only used while it is fresh and live, and a parsed market names the token of
  each direction.
\<close>

subsection \<open>Annotation keeps markets apart\<close>

lemma role_update [simp]:
  fixes m :: market_metadata and c s e r
  defines "m' \<equiv> m\<lparr>mm_classification := c, mm_selected_for_runtime := s, mm_signal_enabled := e,
    mm_runtime_selection_reason := r\<rparr>"
  shows "token_ids m' = token_ids m" "market_key m' = market_key m" "market_group m' = market_group m"
    "is_runtime_tradable_market m' now = is_runtime_tradable_market m now"
    "classify_market_window m' now = classify_market_window m now"
proof -
  have eq: "market_start m' = market_start m" "market_end m' = market_end m" "token_ids m' = token_ids m"
    "has_both_tokens m' = has_both_tokens m" "market_duration_seconds m' = market_duration_seconds m"
    by (simp_all add: m'_def market_start_def market_end_def has_both_tokens_def token_ids_def
        market_duration_seconds_def)
  have same: "mm_active m' = mm_active m" "mm_closed m' = mm_closed m" "mm_market_id m' = mm_market_id m"
    "mm_accepting_orders m' = mm_accepting_orders m" "mm_enable_order_book m' = mm_enable_order_book m"
    by (simp_all add: m'_def)
  show "token_ids m' = token_ids m" "market_key m' = market_key m" by (simp_all add: eq same market_key_def)
  show "market_group m' = market_group m" by (simp add: m'_def market_group_def)
  show "is_runtime_tradable_market m' now = is_runtime_tradable_market m now"
    by (simp add: is_runtime_tradable_market_def eq same cong: option.case_cong)
  show "classify_market_window m' now = classify_market_window m now"
    unfolding classify_market_window_def eq same Let_def ..
qed

lemma annotate_maps [simp]:
  "map market_key (annotate_runtime_market_roles ms now la) = map market_key ms"
  "map token_ids (annotate_runtime_market_roles ms now la) = map token_ids ms"
  "length (annotate_runtime_market_roles ms now la) = length ms"
  by (simp_all add: annotate_runtime_market_roles_def Let_def comp_def)

lemma annotate_elem:
  "m \<in> set (annotate_runtime_market_roles ms now la) \<Longrightarrow> \<exists>m0\<in>set ms. market_key m = market_key m0
     \<and> is_runtime_tradable_market m t = is_runtime_tradable_market m0 t"
  by (auto simp: annotate_runtime_market_roles_def Let_def)

lemma source_maps [simp]: "map market_key (with_discovery_source s ms) = map market_key ms"
  by (simp add: with_discovery_source_def market_key_def token_ids_def)

lemma keyed_lookup:
  "map_of (fold (\<lambda>m. AList.update (f m) m) xs d) k = Some m \<Longrightarrow> m \<in> set xs \<and> f m = k \<or> map_of d k = Some m"
  by (induction xs arbitrary: d) (fastforce split: if_splits)+

lemma select_runtime_tradable:
  assumes "distinct (map market_key ms)" and "m \<in> set (select_runtime_markets ms now la)"
  shows "is_runtime_tradable_market m now \<and> m \<in> set (annotate_runtime_market_roles ms now la)"
proof -
  define annotated where "annotated = annotate_runtime_market_roles ms now la"
  obtain k r where k: "(k, r) \<in> set (runtime_key_roles ms now la)"
    "map_of (fold (\<lambda>m. AList.update (market_key m) m) annotated []) k = Some m"
    using assms(2) by (auto simp: select_runtime_markets_def Let_def annotated_def split: option.splits)
  have m: "m \<in> set annotated" "market_key m = k" using keyed_lookup [OF k(2)] by auto
  obtain m0 where m0: "m0 \<in> set ms" "market_key m = market_key m0"
    "is_runtime_tradable_market m now = is_runtime_tradable_market m0 now"
    using annotate_elem m(1) unfolding annotated_def by blast
  have "is_runtime_tradable_market m0 now"
    using key_roles_mem [OF assms(1) m0(1), of r now la] k(1) m(2) m0(2) by simp
  then show ?thesis using m(1) m0(3) by (simp add: annotated_def)
qed

subsection \<open>Merging keeps one market of a key\<close>

lemma dedupe_keys: "distinct (map market_key (dedupe_prefer_runtime now ms))"
proof -
  define step where "step = (\<lambda>m d. case map_of d (market_key m) of
       None \<Rightarrow> d @ [(market_key m, m)]
     | Some p \<Rightarrow> if is_runtime_tradable_market m now \<and> \<not> is_runtime_tradable_market p now
         then AList.update (market_key m) m d else d)"
  define ok where "ok = (\<lambda>d. distinct (map fst d) \<and> (\<forall>(k, m)\<in>set d. market_key m = k))"
  have upd: "set (AList.update k m d) \<subseteq> insert (k, m) (set d)" for k and m :: market_metadata and d
    by (induction d) auto
  have "ok (step m d)" if "ok d" for m d
    using that upd [of "market_key m" m d]
    by (auto simp: ok_def step_def map_of_eq_None_iff image_iff distinct_update split: option.splits)
  then have "ok (fold step ms d)" if "ok d" for d
    using that by (induction ms arbitrary: d) auto
  from this [of "[]"] have fin: "ok (fold step ms [])" by (simp add: ok_def)
  then have "map market_key (map snd (fold step ms [])) = map fst (fold step ms [])"
    by (auto simp: ok_def)
  moreover have "distinct (map fst (fold step ms []))" using fin by (simp only: ok_def)
  ultimately show ?thesis unfolding dedupe_prefer_runtime_def step_def [symmetric] by (simp only:)
qed

lemma merge_keys: "distinct (map market_key (merge_markets now la direct active))"
  by (simp add: merge_markets_def dedupe_keys)

subsection \<open>The branches of a discovery\<close>

definition cache_keys_distinct :: "cache_file \<Rightarrow> bool" where
  "cache_keys_distinct file = (case file of Cache _ ms \<Rightarrow> distinct (map market_key ms) | _ \<Rightarrow> True)"

lemma valid_cache:
  assumes "cv_valid (validate_cache_for_runtime cf now ttl la now_ns)"
  obtains t ms where "cf = Cache (Some t) ms"
    "cv_runtime_markets (validate_cache_for_runtime cf now ttl la now_ns) = select_runtime_markets
       (annotate_runtime_market_roles (with_discovery_source D_cache ms) now la) now la"
    "cv_markets (validate_cache_for_runtime cf now ttl la now_ns) =
       annotate_runtime_market_roles (with_discovery_source D_cache ms) now la"
    "\<exists>a. cache_age_ms (Some t) now_ns = Some a \<and> \<not> older_than a ttl"
    "list_ex current_or_next (select_runtime_markets
       (annotate_runtime_market_roles (with_discovery_source D_cache ms) now la) now la)"
proof (cases cf )
  case (Cache discovered ms)
  show ?thesis
  proof (cases discovered)
    case (Some t)
    obtain a where a: "cache_age_ms (Some t) now_ns = Some a" by (simp add: cache_age_ms_def)
    show ?thesis
      by (rule that [of t ms])
        (use assms in \<open>simp_all add: Cache Some validate_cache_for_runtime_def Let_def a split: if_splits\<close>)
  qed (use assms Cache in \<open>simp add: validate_cache_for_runtime_def cache_age_ms_def Let_def\<close>)
qed (use assms in \<open>simp_all add: validate_cache_for_runtime_def Let_def\<close>)

lemma robust_result_fields:
  assumes "robust_result opts direct results cv fallback active ar = Inr r"
  defines "merged \<equiv> merge_markets (do_now opts) (do_lookahead opts) direct active"
  defines "selected \<equiv> select_runtime_markets merged (do_now opts) (do_lookahead opts)"
  shows "dr_cache r = cv"
    and "dr_cache_used r \<longleftrightarrow> do_use_cache opts \<and> selected = [] \<and> cv_valid cv"
    and "dr_markets r = (if dr_cache_used r then cv_markets cv else merged)"
    and "dr_runtime_markets r = (if dr_cache_used r then cv_runtime_markets cv else selected)"
    and "dr_written r = (if do_write_cache opts \<and> \<not> dr_cache_used r
       then snd (write_runtime_cache_if_usable (dr_markets r) (Some (dr_runtime_markets r)) (do_now opts)) else None)"
    and "dr_fallback_used r = fallback"
  using assms(1) unfolding robust_result_def Let_def merged_def [symmetric] selected_def [symmetric]
  by (auto split: sum.splits prod.splits if_splits)

lemma robust_cases:
  assumes "discover_rolling_markets_robust g c file opts = Inr r"
  obtains direct results fallback active ar where
    "robust_result opts direct results (validate_cache_for_runtime file (do_now opts) (do_cache_ttl_ms opts)
       (do_lookahead opts) (do_now_ns opts)) fallback active ar = Inr r"
  using assms unfolding discover_rolling_markets_robust_def Let_def
  by (auto split: sum.splits prod.splits)

lemma written_markets:
  "write_runtime_cache_if_usable ms runtime now = (x, Some w) \<Longrightarrow> w = annotate_runtime_market_roles ms now 1"
  by (auto simp: write_runtime_cache_if_usable_def Let_def split: if_splits)

lemma robust_runtime_tradable:
  assumes "discover_rolling_markets_robust g c file opts = Inr r" and "cache_keys_distinct file"
    and "m \<in> set (dr_runtime_markets r)"
  shows "is_runtime_tradable_market m (do_now opts)"
proof -
  define cv where "cv = validate_cache_for_runtime file (do_now opts) (do_cache_ttl_ms opts) (do_lookahead opts) (do_now_ns opts)"
  obtain direct results fallback active ar where
    "robust_result opts direct results cv fallback active ar = Inr r"
    using robust_cases [OF assms(1)] unfolding cv_def by blast
  note fields = robust_result_fields [OF this]
  show ?thesis
  proof (cases "dr_cache_used r")
    case True
    then obtain t ms where ms: "file = Cache (Some t) ms" "cv_runtime_markets cv = select_runtime_markets
        (annotate_runtime_market_roles (with_discovery_source D_cache ms) (do_now opts) (do_lookahead opts))
        (do_now opts) (do_lookahead opts)"
      using fields(2) valid_cache unfolding cv_def by metis
    then show ?thesis using True fields(4) assms(2,3)
      by (intro select_runtime_tradable [THEN conjunct1]) (simp_all add: cache_keys_distinct_def)
  next
    case False
    then show ?thesis using fields(4) assms(3) by (intro select_runtime_tradable [THEN conjunct1, OF merge_keys]) simp
  qed
qed

lemma robust_written_distinct:
  assumes "discover_rolling_markets_robust g c file opts = Inr r" and "dr_written r = Some ms"
  shows "distinct (map market_key ms) \<and> \<not> dr_cache_used r"
proof -
  define cv where "cv = validate_cache_for_runtime file (do_now opts) (do_cache_ttl_ms opts) (do_lookahead opts) (do_now_ns opts)"
  obtain direct results fallback active ar where
    "robust_result opts direct results cv fallback active ar = Inr r"
    using robust_cases [OF assms(1)] unfolding cv_def by blast
  note fields = robust_result_fields [OF this]
  have nc: "\<not> dr_cache_used r" using fields(5) assms(2) by (auto split: if_splits)
  then obtain x where "write_runtime_cache_if_usable (dr_markets r) (Some (dr_runtime_markets r)) (do_now opts) = (x, Some ms)"
    using fields(5) assms(2) by (cases "write_runtime_cache_if_usable (dr_markets r) (Some (dr_runtime_markets r)) (do_now opts)")
      (auto split: if_splits)
  then have "ms = annotate_runtime_market_roles (dr_markets r) (do_now opts) 1" by (rule written_markets)
  then show ?thesis using fields(3) nc by (simp add: merge_keys)
qed

lemma robust_cache_used:
  assumes "discover_rolling_markets_robust g c file opts = Inr r" and "dr_cache_used r"
  obtains t ms a where "file = Cache (Some t) ms" "cache_age_ms (Some t) (do_now_ns opts) = Some a"
    "\<not> older_than a (do_cache_ttl_ms opts)" "list_ex current_or_next (dr_runtime_markets r)"
    "dr_written r = None" "do_use_cache opts"
proof -
  define cv where "cv = validate_cache_for_runtime file (do_now opts) (do_cache_ttl_ms opts) (do_lookahead opts) (do_now_ns opts)"
  obtain direct results fallback active ar where
    "robust_result opts direct results cv fallback active ar = Inr r"
    using robust_cases [OF assms(1)] unfolding cv_def by blast
  note fields = robust_result_fields [OF this]
  have "cv_valid cv" "do_use_cache opts" using fields(2) assms(2) by auto
  moreover from valid_cache [OF this(1) [unfolded cv_def]] obtain t ms where
    "file = Cache (Some t) ms" "\<exists>a. cache_age_ms (Some t) (do_now_ns opts) = Some a \<and> \<not> older_than a (do_cache_ttl_ms opts)"
    "list_ex current_or_next (cv_runtime_markets cv)" unfolding cv_def by metis
  ultimately show ?thesis using that fields(4,5) assms(2) by auto
qed

subsection \<open>The directions of a parsed market\<close>

definition names_outcome :: "(string \<times> string) list \<Rightarrow> string list \<Rightarrow> string option \<Rightarrow> bool" where
  "names_outcome os names token = (case token of None \<Rightarrow> True
     | Some t \<Rightarrow> \<exists>out. (t, out) \<in> set os \<and> normalize_outcome out \<in> set names)"

definition fits_outcomes :: "(string \<times> string) list \<Rightarrow> direction_mapping \<Rightarrow> bool" where
  "fits_outcomes os d \<longleftrightarrow> names_outcome os up_outcomes (dm_up d) \<and> names_outcome os down_outcomes (dm_down d)
     \<and> names_outcome os [''yes''] (dm_yes d) \<and> names_outcome os [''no''] (dm_no d)"

lemma fits_update:
  assumes "fits_outcomes os d" and "(t, out) \<in> set os"
  shows "normalize_outcome out \<in> set up_outcomes \<Longrightarrow> fits_outcomes os (d\<lparr>dm_up := Some t\<rparr>)"
    "normalize_outcome out \<in> set down_outcomes \<Longrightarrow> fits_outcomes os (d\<lparr>dm_down := Some t\<rparr>)"
    "normalize_outcome out = ''yes'' \<Longrightarrow> fits_outcomes os (d\<lparr>dm_yes := Some t\<rparr>)"
    "normalize_outcome out = ''no'' \<Longrightarrow> fits_outcomes os (d\<lparr>dm_no := Some t\<rparr>)"
  using assms by (force simp: fits_outcomes_def names_outcome_def)+

lemma collect_fits: "set xs \<subseteq> set os \<Longrightarrow> fits_outcomes os d \<Longrightarrow> fits_outcomes os (collect_outcomes xs d)"
proof (induction xs d rule: collect_outcomes.induct)
  case (2 token outcome xs d)
  have "fits_outcomes os (no_mapping\<lparr>dm_reject := r\<rparr>)" for r
    by (simp add: fits_outcomes_def names_outcome_def no_mapping_def)
  then show ?case using 2 fits_update [OF 2(6), of token outcome] by (simp add: Let_def)
qed simp

lemma mapped_directions:
  assumes "dm_up (map_direction_tokens os q s ds) = Some u" and "dm_down (map_direction_tokens os q s ds) = Some d"
  obtains ou od where "(u, ou) \<in> set os" "(d, od) \<in> set os"
    "(normalize_outcome ou \<in> set up_outcomes \<and> normalize_outcome od \<in> set down_outcomes)
     \<or> (normalize_outcome ou = ''yes'' \<and> normalize_outcome od = ''no'' \<and> infer_yes_direction q s ds = Some G_UP)
     \<or> (normalize_outcome ou = ''no'' \<and> normalize_outcome od = ''yes'' \<and> infer_yes_direction q s ds = Some G_DOWN)"
proof -
  define c where "c = collect_outcomes os no_mapping"
  have "fits_outcomes os c"
    unfolding c_def by (rule collect_fits) (simp_all add: fits_outcomes_def names_outcome_def no_mapping_def)
  then show ?thesis using assms that
    unfolding map_direction_tokens_def c_def [symmetric] Let_def
    by (auto simp: fits_outcomes_def names_outcome_def no_mapping_def split: if_splits option.splits gap_direction.splits)
qed

lemma token_outcomes_distinct: "distinct (map fst d) \<Longrightarrow> distinct (map fst (token_outcomes_of ts vs d))"
  by (induction ts vs d rule: token_outcomes_of.induct) (simp_all add: distinct_update)

lemma parsed_fields:
  assumes "parse_market_metadata loads p = Inr (Some m, rs)"
  obtains os where "mm_token_outcomes m = os" "distinct (map fst os)"
    "mm_up_token_id m = dm_up (map_direction_tokens os (mm_question m) (mm_market_slug m)
        (text_chain p [''description'', ''subtitle''] []))" "mm_up_token_id m \<noteq> None"
    "mm_down_token_id m = dm_down (map_direction_tokens os (mm_question m) (mm_market_slug m)
        (text_chain p [''description'', ''subtitle''] []))" "mm_down_token_id m \<noteq> None"
    "mm_condition_id m \<noteq> []" "mm_market_id m \<noteq> []" "mm_market_slug m \<noteq> []" "rs = []"
proof -
  have "distinct (map fst (token_outcomes_of ts vs []))" for ts vs by (simp add: token_outcomes_distinct)
  then show ?thesis using assms that unfolding parse_market_metadata_def Let_def
    by (auto split: if_splits sum.splits)
qed

lemma map_sum_Inr: "map_sum f g s = Inr y \<Longrightarrow> (\<And>x. s = Inr x \<Longrightarrow> y = g x \<Longrightarrow> P) \<Longrightarrow> P"
  by (cases s) auto

subsection \<open>Properties\<close>

text \<open>
  C27: every runtime market of a discovery is tradable at its time, whether it was looked up, found in
  the active events or read from the cache, provided the cache does not list a market twice; and what
  the discovery writes to the cache does not.
\<close>

theorem runtime_markets_are_tradable:
  assumes "discover_rolling_markets_robust g c file opts = Inr r" and "cache_keys_distinct file"
    and "m \<in> set (dr_runtime_markets r)"
  shows "is_runtime_tradable_market m (do_now opts)
    \<and> (dr_written r = Some ms \<longrightarrow> cache_keys_distinct (Cache t ms))"
  using robust_runtime_tradable [OF assms] robust_written_distinct [OF assms(1)]
  by (simp add: cache_keys_distinct_def)

definition ex_payload :: payload where
  "ex_payload = [(''conditionId'', VStr ''0xc''), (''id'', VInt 7), (''slug'', VStr ''btc-updown-5m-1700000100''),
     (''question'', VStr ''Bitcoin Up or Down''), (''clobTokenIds'', VStr ''11, 22''),
     (''outcomes'', VList [VStr ''Up'', VStr ''Down'']), (''active'', VBool True), (''closed'', VBool False),
     (''acceptingOrders'', VBool True), (''enableOrderBook'', VBool True), (''endDate'', VStr ''2023-11-14T22:20:00Z''),
     (''tickSize'', VInt 1)]"

definition no_json :: "string \<Rightarrow> pyval option" where
  "no_json s = None"

definition ex_gamma :: "pyval list \<Rightarrow> gamma" where
  \<comment> \<open>one page of events; no slug is found and no text is JSON\<close>
  "ex_gamma events = \<lparr>g_loads = no_json, g_respond = (\<lambda>_. Inr (404, [])),
     g_page = (\<lambda>endpoint limit offset. Inr (VList (if endpoint = ''events'' \<and> offset = 0 then events else [])))\<rparr>"

definition ex_client :: discovery_client where
  "ex_client = discovery_client_init 100 None 2 None (Some False)"

definition ex_options :: discovery_options where
  "ex_options = \<lparr>do_now = 1700000200, do_now_ns = 1700000200000000000, do_lookahead = 2, do_cache_ttl_ms = 60000,
     do_write_cache = True, do_force_active_events = False, do_use_cache = True, do_refresh_reason = None\<rparr>"

definition ex_parsed :: market_metadata where
  \<comment> \<open>the market of \<open>ex_payload\<close>\<close>
  "ex_parsed = \<lparr>mm_condition_id = ''0xc'', mm_market_id = ''7'', mm_market_slug = ''btc-updown-5m-1700000100'',
     mm_question = ''Bitcoin Up or Down'', mm_end_time = ''2023-11-14T22:20:00Z'',
     mm_tick_size = Fin 1, mm_min_order_size = fzero,
     mm_rewards_min_size = None, mm_start_time = None, mm_event_start_time = Some ''2023-11-14T22:15:00Z'',
     mm_active = Some True, mm_closed = Some False, mm_accepting_orders = Some True,
     mm_enable_order_book = Some True, mm_classification = None, mm_selected_for_runtime = False,
     mm_signal_enabled = False, mm_runtime_selection_reason = None,
     mm_discovery_source = None, mm_up_token_id = Some ''11'', mm_down_token_id = Some ''22'',
     mm_yes_token_id = None, mm_no_token_id = None, mm_token_outcomes = [(''11'', ''Up''), (''22'', ''Down'')],
     mm_base_asset = Some ''BTC'', mm_duration_minutes = Some 5\<rparr>"

definition ex_found :: market_metadata where
  "ex_found = ex_parsed\<lparr>mm_discovery_source := Some D_active_events, mm_classification := Some W_current_signal,
     mm_selected_for_runtime := True, mm_signal_enabled := True,
     mm_runtime_selection_reason := Some ''current_signal''\<rparr>"

definition ex_cached :: market_metadata where
  "ex_cached = ex_market\<lparr>mm_discovery_source := Some D_cache, mm_classification := Some W_current_signal,
     mm_selected_for_runtime := True, mm_signal_enabled := True,
     mm_runtime_selection_reason := Some ''current_signal''\<rparr>"

lemma single_current_market:
  assumes "is_runtime_tradable_market m now" and "is_current_window m now"
  shows "annotate_runtime_market_roles [m] now la = [m\<lparr>mm_classification := Some W_current_signal,
      mm_selected_for_runtime := True, mm_signal_enabled := True, mm_runtime_selection_reason := Some ''current_signal''\<rparr>]"
    "select_runtime_markets [m] now la = annotate_runtime_market_roles [m] now la"
    "merge_markets now la [] [m] = annotate_runtime_market_roles [m] now la"
proof -
  have "\<not> market_start m > now" using assms(2) by (auto simp: is_current_window_def split: option.splits)
  moreover have "classify_market_window m now = W_current_signal" using assms by (simp add: current_signal_iff)
  moreover have roles: "runtime_key_roles [m] now la = [(market_key m, W_current_signal)]"
    using calculation assms by (simp add: runtime_key_roles_def market_groups_def group_roles_def)
  ultimately show ann: "annotate_runtime_market_roles [m] now la = [m\<lparr>mm_classification := Some W_current_signal,
      mm_selected_for_runtime := True, mm_signal_enabled := True, mm_runtime_selection_reason := Some ''current_signal''\<rparr>]"
    by (simp add: annotate_runtime_market_roles_def runtime_roles_def runtime_selection_reason_def)
  show "select_runtime_markets [m] now la = annotate_runtime_market_roles [m] now la"
    unfolding select_runtime_markets_def Let_def roles ann by simp
  show "merge_markets now la [] [m] = annotate_runtime_market_roles [m] now la"
    by (simp add: merge_markets_def dedupe_prefer_runtime_def)
qed

lemma ex_times:
  "unix_seconds (Some ''2023-11-14T22:20:00Z'') = Some 1700000400"
  "unix_seconds (Some ''2023-11-14T22:15:00Z'') = Some 1700000100"
  "rolling_slug_start_ts ''btc-updown-5m-1700000100'' = Some 1700000100"
  "unix_seconds None = None"
  by code_simp+

lemmas ex_market_defs = is_runtime_tradable_market_def is_current_window_def has_both_tokens_def token_ids_def
  market_start_def market_end_def market_duration_seconds_def ex_times or_int_def int_or_def
  ex_found_def ex_cached_def ex_parsed_def ex_market_def

lemma ex_markets_current:
  "is_runtime_tradable_market ex_found 1700000200" "is_current_window ex_found 1700000200"
  "is_runtime_tradable_market ex_cached 1700000200" "is_current_window ex_cached 1700000200"
  "is_runtime_tradable_market (ex_market\<lparr>mm_discovery_source := Some D_cache\<rparr>) 1700000200"
  "is_current_window (ex_market\<lparr>mm_discovery_source := Some D_cache\<rparr>) 1700000200"
  "is_runtime_tradable_market (ex_parsed\<lparr>mm_discovery_source := Some D_active_events\<rparr>) 1700000200"
  "is_current_window (ex_parsed\<lparr>mm_discovery_source := Some D_active_events\<rparr>) 1700000200"
  "is_rolling_window_compatible (ex_parsed\<lparr>mm_discovery_source := Some D_active_events\<rparr>) 1700000200 2"
  by (simp_all add: ex_market_defs is_rolling_window_compatible_def)

lemma ex_parse: "parse_market_metadata no_json ex_payload = Inr (Some ex_parsed, [])"
  by code_simp

lemma ex_candidates:
  "extract_market_payloads ex_payload VNone = [ex_payload]" "is_short_duration_crypto_market ex_payload"
  "fetch_paginated_endpoint (ex_gamma [VDict ex_payload]) ex_client ''events'' = Inr [ex_payload]"
  by code_simp+

lemma ex_active_discovery:
  "map_sum id fst (active_discovery (ex_gamma [VDict ex_payload]) ex_client 1700000200 2 True) = Inr [ex_found]"
proof -
  have "annotate_runtime_market_roles (dedupe_prefer_runtime 1700000200
      [ex_parsed\<lparr>mm_discovery_source := Some D_active_events\<rparr>]) 1700000200 2 = [ex_found]"
    using single_current_market(3) [OF ex_markets_current(7,8), of 2]
    unfolding single_current_market(1) [OF ex_markets_current(7,8)]
    by (simp add: merge_markets_def ex_found_def)
  moreover have "g_loads (ex_gamma events) = no_json" for events by (simp add: ex_gamma_def)
  ultimately show ?thesis
    by (simp add: active_discovery_def active_event_markets_def Let_def ex_candidates ex_parse ex_markets_current)
qed

lemma ex_found_facts:
  "merge_markets 1700000200 2 [] [ex_found] = [ex_found]"
  "select_runtime_markets [ex_found] 1700000200 2 = [ex_found]"
  "annotate_runtime_market_roles [ex_found] 1700000200 1 = [ex_found]"
  unfolding single_current_market [OF ex_markets_current(1,2)] by (simp_all add: ex_found_def ex_parsed_def)

lemma ex_cached_facts:
  "active_discovery (ex_gamma []) ex_client 1700000200 2 True = Inr ([], empty_active_result True)"
  "annotate_runtime_market_roles (with_discovery_source D_cache [ex_market]) 1700000200 2 = [ex_cached]"
  "select_runtime_markets [ex_cached] 1700000200 2 = [ex_cached]"
  "cache_age_ms (Some 1700000190) 1700000200000000000 = Some (Fin 10000)"
  subgoal by code_simp
  subgoal unfolding with_discovery_source_def list.map single_current_market [OF ex_markets_current(5,6)]
    by (simp add: ex_cached_def)
  subgoal unfolding single_current_market [OF ex_markets_current(3,4)] by (simp add: ex_cached_def)
  subgoal by code_simp
  done

lemma ex_common_facts:
  "direct_discovery g ex_client now la = Inr ([], [])" "select_runtime_markets [] now la = []"
  "merge_markets now la [] [] = []"
  "iso_from_unix_seconds (Some 1700000200) = Inr (Some ''2023-11-14T22:16:40Z'')"
  subgoal by (simp add: direct_discovery_def ex_client_def discovery_client_init_def)
  subgoal by (simp add: select_runtime_markets_def runtime_key_roles_def market_groups_def Let_def)
  subgoal by (simp add: merge_markets_def dedupe_prefer_runtime_def annotate_runtime_market_roles_def)
  subgoal by code_simp
  done

lemma ex_live_discovery:
  "map_sum id (\<lambda>r. (dr_runtime_markets r, dr_written r))
     (discover_rolling_markets_robust (ex_gamma [VDict ex_payload]) ex_client No_cache ex_options)
   = Inr ([ex_found], Some [ex_found])"
proof -
  obtain ar where "active_discovery (ex_gamma [VDict ex_payload]) ex_client 1700000200 2 True = Inr ([ex_found], ar)"
    using ex_active_discovery by (auto elim!: map_sum_Inr)
  moreover have "mm_closed ex_found = Some False" "mm_accepting_orders ex_found = Some True" "current_or_next ex_found"
    by (simp_all add: ex_found_def ex_parsed_def current_or_next_def)
  ultimately show ?thesis
    by (simp add: discover_rolling_markets_robust_def robust_result_def needs_fallback_def build_discovery_attempt_def
        validate_cache_for_runtime_def write_runtime_cache_if_usable_def ex_options_def Let_def ex_common_facts ex_found_facts)
qed

lemma ex_cached_discovery:
  "map_sum id (\<lambda>r. (dr_runtime_markets r, dr_cache_used r))
     (discover_rolling_markets_robust (ex_gamma []) ex_client (Cache (Some 1700000190) [ex_market]) ex_options)
   = Inr ([ex_cached], True)"
proof -
  have "mm_closed ex_cached = Some False" "mm_accepting_orders ex_cached = Some True" "current_or_next ex_cached"
    by (simp_all add: ex_cached_def ex_market_def current_or_next_def)
  then show ?thesis
    by (simp add: discover_rolling_markets_robust_def robust_result_def needs_fallback_def build_discovery_attempt_def
        validate_cache_for_runtime_def older_than_def ex_options_def Let_def ex_common_facts ex_cached_facts)
qed

theorem runtime_markets_are_tradable_witness:
  "\<exists>r m ms. discover_rolling_markets_robust (ex_gamma [VDict ex_payload]) ex_client No_cache ex_options = Inr r
     \<and> m \<in> set (dr_runtime_markets r) \<and> is_runtime_tradable_market m 1700000200
     \<and> dr_written r = Some ms \<and> cache_keys_distinct (Cache None ms)"
proof -
  obtain r where r: "discover_rolling_markets_robust (ex_gamma [VDict ex_payload]) ex_client No_cache ex_options = Inr r"
    "(dr_runtime_markets r, dr_written r) = ([ex_found], Some [ex_found])"
    using ex_live_discovery by (auto elim!: map_sum_Inr)
  then show ?thesis
    using runtime_markets_are_tradable [OF r(1), of ex_found "[ex_found]" None] r
    by (simp add: cache_keys_distinct_def [of No_cache] ex_options_def)
qed

text \<open>
  a discovery only falls back to the cache while the cache is not older than its time to live and
  has a market of the current or of the next window; and it then leaves the cache as it is.
\<close>

theorem only_fresh_cache_is_used:
  assumes "discover_rolling_markets_robust g c file opts = Inr r" and "dr_cache_used r"
  shows "\<exists>t ms a. file = Cache (Some t) ms \<and> cache_age_ms (Some t) (do_now_ns opts) = Some a
     \<and> \<not> older_than a (do_cache_ttl_ms opts) \<and> list_ex current_or_next (dr_runtime_markets r)
     \<and> dr_written r = None"
  by (rule robust_cache_used [OF assms]) blast

theorem only_fresh_cache_is_used_witness:
  "\<exists>r. discover_rolling_markets_robust (ex_gamma []) ex_client (Cache (Some 1700000190) [ex_market]) ex_options = Inr r
     \<and> list_ex current_or_next (dr_runtime_markets r) \<and> dr_written r = None"
proof -
  obtain r where r: "discover_rolling_markets_robust (ex_gamma []) ex_client (Cache (Some 1700000190) [ex_market]) ex_options = Inr r"
    "dr_cache_used r"
    using ex_cached_discovery by (auto elim!: map_sum_Inr)
  then show ?thesis using only_fresh_cache_is_used [OF r] by auto
qed

text \<open>
  a parsed market has two different tokens, both among its token ids, and their outcomes name the
  directions: up and down words, or yes and no when the texts of the market tell the direction of yes.
\<close>

theorem parsed_market_maps_directions:
  assumes "parse_market_metadata loads p = Inr (Some m, rs)"
  shows "\<exists>u d ou od. mm_up_token_id m = Some u \<and> mm_down_token_id m = Some d \<and> u \<noteq> d \<and> has_both_tokens m
     \<and> map_of (mm_token_outcomes m) u = Some ou \<and> map_of (mm_token_outcomes m) d = Some od
     \<and> (normalize_outcome ou \<in> set up_outcomes \<and> normalize_outcome od \<in> set down_outcomes
       \<or> (normalize_outcome ou, normalize_outcome od, infer_yes_direction (mm_question m) (mm_market_slug m)
            (text_chain p [''description'', ''subtitle''] []))
          \<in> {(''yes'', ''no'', Some G_UP), (''no'', ''yes'', Some G_DOWN)})"
proof -
  obtain os u d where os: "mm_token_outcomes m = os" "distinct (map fst os)"
    "mm_up_token_id m = Some u" "mm_down_token_id m = Some d"
    "dm_up (map_direction_tokens os (mm_question m) (mm_market_slug m)
        (text_chain p [''description'', ''subtitle''] [])) = Some u"
    "dm_down (map_direction_tokens os (mm_question m) (mm_market_slug m)
        (text_chain p [''description'', ''subtitle''] [])) = Some d"
    by (rule parsed_fields [OF assms]) auto
  obtain ou od where out: "(u, ou) \<in> set os" "(d, od) \<in> set os"
    "(normalize_outcome ou \<in> set up_outcomes \<and> normalize_outcome od \<in> set down_outcomes)
     \<or> (normalize_outcome ou, normalize_outcome od, infer_yes_direction (mm_question m) (mm_market_slug m)
            (text_chain p [''description'', ''subtitle''] []))
          \<in> {(''yes'', ''no'', Some G_UP), (''no'', ''yes'', Some G_DOWN)}"
    by (rule mapped_directions [OF os(5,6)]) auto
  have outs: "map_of os u = Some ou" "map_of os d = Some od" using os(2) out(1,2) by auto
  have ne: "u \<noteq> d" using outs out(3) by (auto simp: up_outcomes_def down_outcomes_def)
  then have "2 \<le> length os" using out(1,2) by (cases os rule: remdups_adj.cases) auto
  then have "has_both_tokens m"
    using os(1,3,4) out(1) by (auto simp: has_both_tokens_def token_ids_def)
  then show ?thesis using os outs ne out(3) by blast
qed

theorem parsed_market_maps_directions_witness:
  "has_both_tokens ex_parsed \<and> mm_up_token_id ex_parsed \<noteq> mm_down_token_id ex_parsed"
  using parsed_market_maps_directions [OF ex_parse] by auto

subsection \<open>Words inside words\<close>

text \<open>
  The asset is searched as a part of the text: a question with the word whether is taken for one about
  ether, and with up in a word and a duration it passes the filter of the short crypto markets.
\<close>

lemma whether_is_taken_for_ether:
  "infer_base_asset [(''question'', VStr ''Whether supply rises in 5 min'')] = Some ''ETH''
   \<and> is_short_duration_crypto_market [(''question'', VStr ''Whether supply rises in 5 min'')]"
  by code_simp

end
