(* ===== verification/UniverseProperties.thy ===== *)
theory UniverseProperties
  imports MarketUniverse DiscoveryProperties
begin

text \<open>
  What the manager of the universe keeps: every refresh is counted once and schedules the next one, a
  failed one keeps the markets, the reported token changes lead from one subscription to the next, and
  only markets whose window is the current one are enabled for signals.
\<close>

subsection \<open>Groups\<close>

lemma annotate_role [simp]:
  "market_group (annotate_universe_role r m) = market_group m"
  "market_key (annotate_universe_role r m) = market_key m"
  "is_runtime_tradable_market (annotate_universe_role r m) now = is_runtime_tradable_market m now"
  "classify_market_window (annotate_universe_role r m) now = classify_market_window m now"
  "mm_signal_enabled (annotate_universe_role r m) \<longleftrightarrow> r = U_current"
  "mm_selected_for_runtime (annotate_universe_role r m)"
  unfolding annotate_universe_role_def by simp_all

lemma group_dict:
  fixes ms :: "market_metadata list"
  defines "d \<equiv> fold (\<lambda>m d. AList.update (market_group m)
     ((case map_of d (market_group m) of None \<Rightarrow> [] | Some g \<Rightarrow> g) @ [m]) d) ms []"
  shows "distinct (map fst d) \<and> (\<forall>(k, g)\<in>set d. \<forall>m\<in>set g. market_group m = k \<and> m \<in> set ms)"
proof -
  define step where "step = (\<lambda>m d. AList.update (market_group m)
     ((case map_of d (market_group m) of None \<Rightarrow> [] | Some g \<Rightarrow> g) @ [m]) d)"
  define ok where "ok = (\<lambda>d. distinct (map fst d) \<and> (\<forall>(k, g)\<in>set d. \<forall>m\<in>set g. market_group m = k \<and> m \<in> set ms))"
  have upd: "set (AList.update k g d) \<subseteq> insert (k, g) (set d)" for k and g :: "market_metadata list" and d
    by (induction d) auto
  have "ok (step m d)" if "ok d" "m \<in> set ms" for m d
  proof -
    define g' where "g' = (case map_of d (market_group m) of None \<Rightarrow> [] | Some g \<Rightarrow> g) @ [m]"
    have old: "\<forall>x\<in>set g. market_group x = k \<and> x \<in> set ms" if "(k, g) \<in> set d" for k g
      using \<open>ok d\<close> that by (auto simp: ok_def)
    have new: "\<forall>x\<in>set g'. market_group x = market_group m \<and> x \<in> set ms"
      using \<open>m \<in> set ms\<close> old [OF map_of_SomeD] by (cases "map_of d (market_group m)") (auto simp: g'_def)
    have step: "step m d = AList.update (market_group m) g' d" by (simp add: step_def g'_def)
    have "distinct (map fst (step m d))" using \<open>ok d\<close> by (simp add: ok_def step distinct_update)
    moreover have "\<forall>x\<in>set g. market_group x = k \<and> x \<in> set ms" if "(k, g) \<in> set (step m d)" for k g
      using that upd [of "market_group m" g' d] old [of k g] new unfolding step by blast
    ultimately show ?thesis unfolding ok_def by blast
  qed
  then have "ok (fold step xs d)" if "ok d" "set xs \<subseteq> set ms" for xs d
    using that by (induction xs arbitrary: d) auto
  from this [of "[]" ms] have "ok (fold step ms [])" by (simp add: ok_def)
  then show ?thesis by (simp add: ok_def step_def d_def)
qed

lemma select_group_elem:
  assumes "m \<in> set (select_group now la g)"
  shows "is_runtime_tradable_market m now \<and> mm_selected_for_runtime m
    \<and> (mm_signal_enabled m \<longleftrightarrow> classify_market_window m now = W_current_signal)
    \<and> (\<exists>m0\<in>set g. market_key m = market_key m0 \<and> market_group m = market_group m0)"
proof -
  have upcoming: "x \<in> set (filter (tradable_in now ws) g)"
    if "(i, x) \<in> set (enumerate 0 (take k (sort_markets (filter (tradable_in now ws) g))))" for i x k ws
    using that by (auto simp: enumerate_eq_zip sort_markets_def dest!: set_zip_rightD in_set_takeD)
  have "\<exists>r x ws. m = annotate_universe_role r x \<and> x \<in> set (filter (tradable_in now ws) g)
      \<and> (r = U_current \<and> ws = [W_current_signal] \<or> r \<noteq> U_current \<and> ws = [W_next_warmup, W_future_tracked])"
    using assms unfolding select_group_def set_append Un_iff
  proof
    assume "m \<in> set (map (annotate_universe_role U_current) (sort_markets (filter (tradable_in now [W_current_signal]) g)))"
    then show ?thesis by (auto simp: sort_markets_def)
  next
    assume "m \<in> set (map (\<lambda>(i, m). annotate_universe_role (if i = 0 then U_next else U_future) m)
         (enumerate 0 (take (nat la) (sort_markets (filter (tradable_in now [W_next_warmup, W_future_tracked]) g)))))"
    then obtain i x where ix: "(i, x) \<in> set (enumerate 0 (take (nat la) (sort_markets (filter (tradable_in now [W_next_warmup, W_future_tracked]) g))))"
      and m: "m = annotate_universe_role (if i = 0 then U_next else U_future) x"
      by (metis (no_types, lifting) case_prod_conv imageE list.set_map old.prod.exhaust)
    have "x \<in> set (filter (tradable_in now [W_next_warmup, W_future_tracked]) g)" by (rule upcoming [OF ix])
    then show ?thesis using m by (cases "i = 0") (blast | force)+
  qed
  then show ?thesis by (auto simp: tradable_in_def)
qed

lemma select_group_upcoming:
  "length (filter (\<lambda>m. P m \<and> \<not> mm_signal_enabled m) (select_group now la g)) \<le> nat la"
proof -
  have "length (filter Q (map f (enumerate 0 (take (nat la) xs)))) \<le> nat la" for Q :: "market_metadata \<Rightarrow> bool" and f xs
    by (rule order_trans [OF length_filter_le]) simp
  moreover have "filter (\<lambda>m. P m \<and> \<not> mm_signal_enabled m) (map (annotate_universe_role U_current) xs) = []" for xs
    by (induction xs) auto
  ultimately show ?thesis by (simp add: select_group_def)
qed

lemma universe_upcoming:
  "length [m \<leftarrow> select_runtime_market_universe ms now la. market_group m = k \<and> \<not> mm_signal_enabled m] \<le> nat la"
proof -
  define d where "d = fold (\<lambda>m d. AList.update (market_group m)
     ((case map_of d (market_group m) of None \<Rightarrow> [] | Some g \<Rightarrow> g) @ [m]) d) ms []"
  have d: "distinct (map fst d)" "\<forall>(k, g)\<in>set d. \<forall>m\<in>set g. market_group m = k"
    using group_dict [of ms] by (auto simp: d_def)
  let ?P = "\<lambda>m. market_group m = k \<and> \<not> mm_signal_enabled m"
  have other: "filter ?P (select_group now la g) = []" if "\<forall>m\<in>set g. market_group m = k'" "k' \<noteq> k" for g k'
    using that select_group_elem by (fastforce simp: filter_empty_conv)
  have "length (filter ?P (concat (map (\<lambda>x. select_group now la (snd x)) d))) \<le> nat la"
    "k \<notin> fst ` set d \<Longrightarrow> filter ?P (concat (map (\<lambda>x. select_group now la (snd x)) d)) = []"
    using d
  proof (induction d)
    case (Cons x d)
    {
      case 1
      show ?case
      proof (cases "fst x = k")
        case True
        then show ?thesis using Cons 1 select_group_upcoming [of "\<lambda>m. market_group m = k"] by auto
      next
        case False
        then show ?thesis using Cons 1 other [of "snd x" "fst x"] by (auto split: prod.splits)
      qed
    next
      case 2
      then show ?case using Cons other [of "snd x" "fst x"] by (auto split: prod.splits)
    }
  qed simp_all
  then show ?thesis
    by (simp add: select_runtime_market_universe_def grouped_markets_def d_def [symmetric] comp_def)
qed

lemma universe_elem:
  assumes "m \<in> set (select_runtime_market_universe ms now la)"
  shows "is_runtime_tradable_market m now \<and> mm_selected_for_runtime m
    \<and> (mm_signal_enabled m \<longleftrightarrow> classify_market_window m now = W_current_signal)
    \<and> market_key m \<in> market_key ` set ms"
proof -
  obtain g where g: "g \<in> set (grouped_markets ms)" "m \<in> set (select_group now la g)"
    using assms by (auto simp: select_runtime_market_universe_def)
  have "\<forall>m\<in>set g. m \<in> set ms" using g(1) group_dict [of ms] unfolding grouped_markets_def by force
  then show ?thesis using select_group_elem [OF g(2)] by auto
qed

subsection \<open>Refreshing\<close>

lemma preserved_tokens [simp]: "flatten_token_ids (preserved_markets now u) = flatten_token_ids (um_markets u)"
  by (simp add: preserved_markets_def flatten_token_ids_def)

lemma preserved_keys [simp]: "map market_key (preserved_markets now u) = map market_key (um_markets u)"
  by (simp add: preserved_markets_def)

definition apply_token_diff :: "universe_diff \<Rightarrow> string set \<Rightarrow> string set" where
  "apply_token_diff d ts = (ts - set (ud_removed_token_ids d)) \<union> set (ud_new_token_ids d)"

definition universe_tokens :: "universe_manager \<Rightarrow> string set" where
  "universe_tokens u = set (flatten_token_ids (um_markets u))"

lemma diff_tokens:
  "apply_token_diff (build_market_universe_diff previous current now forced error) (set (flatten_token_ids previous))
     = set (flatten_token_ids current)"
  by (auto simp: apply_token_diff_def build_market_universe_diff_def tokens_only_in_def Let_def)

definition refresh_kept :: "int \<Rightarrow> universe_manager \<Rightarrow> universe_diff \<Rightarrow> universe_manager \<Rightarrow> bool" where
  \<comment> \<open>what every refresh that returns does\<close>
  "refresh_kept now u d u' \<longleftrightarrow>
     um_refresh_count u' + um_error_count u' = um_refresh_count u + um_error_count u + 1
     \<and> (if ud_error d = None then um_error_count u' = um_error_count u \<and> um_markets u' \<noteq> []
        else um_refresh_count u' = um_refresh_count u \<and> map market_key (um_markets u') = map market_key (um_markets u))
     \<and> apply_token_diff d (universe_tokens u) = universe_tokens u'
     \<and> um_last_diff u' = d \<and> um_last_discovery_ts u' = Some now
     \<and> um_next_discovery_ts u' = Some (now + max 1 (um_refresh_interval_ms u div 1000))
     \<and> um_refresh_interval_ms u' = um_refresh_interval_ms u \<and> um_lookahead u' = um_lookahead u
     \<and> um_forced_count u' = um_forced_count u"

lemma refresh_raised_kept:
  assumes "refresh_raised now forced reason text u = (d, u')"
  shows "refresh_kept now u d u' \<and> ud_error d \<noteq> None"
proof -
  have m: "um_markets u' = preserved_markets now u"
    and d: "d = no_diff\<lparr>ud_forced := forced, ud_error := Some (preserving text)\<rparr>"
    using assms by (auto simp: refresh_raised_def schedule_next_def Let_def)
  have "apply_token_diff d (universe_tokens u) = universe_tokens u'"
    by (simp add: universe_tokens_def m d apply_token_diff_def no_diff_def)
  moreover have "ud_error d \<noteq> None" by (simp add: d)
  ultimately show ?thesis using assms preserved_keys [of now u]
    by (auto simp: refresh_kept_def refresh_raised_def schedule_next_def Let_def)
qed

lemma refresh_empty_kept:
  assumes "refresh_empty now forced a u = (d, u')"
  shows "refresh_kept now u d u' \<and> ud_error d \<noteq> None"
proof -
  have m: "um_markets u' = preserved_markets now u"
    and d: "d = build_market_universe_diff (um_markets u) (preserved_markets now u) now forced
      (Some (preserving (derive_failure_reason a)))"
    using assms by (auto simp: refresh_empty_def schedule_next_def Let_def)
  have "apply_token_diff d (universe_tokens u) = universe_tokens u'"
    by (simp only: universe_tokens_def m d diff_tokens)
  moreover have "ud_error d \<noteq> None" by (simp add: d build_market_universe_diff_def Let_def)
  ultimately show ?thesis using assms preserved_keys [of now u]
    by (auto simp: refresh_kept_def refresh_empty_def schedule_next_def Let_def)
qed

lemma refresh_selected_kept:
  assumes "refresh_selected now forced selected u = (d, u')" and "selected \<noteq> []"
  shows "refresh_kept now u d u' \<and> ud_error d = None \<and> um_markets u' = selected"
proof -
  have m: "um_markets u' = selected"
    and d: "d = build_market_universe_diff (um_markets u) selected now forced None"
    using assms by (auto simp: refresh_selected_def schedule_next_def Let_def split: if_splits)
  have "apply_token_diff d (universe_tokens u) = universe_tokens u'"
    by (simp only: universe_tokens_def m d diff_tokens)
  moreover have "ud_error d = None" by (simp add: d build_market_universe_diff_def Let_def)
  ultimately show ?thesis using assms
    by (auto simp: refresh_kept_def refresh_selected_def schedule_next_def Let_def m)
qed

lemma refresh_found_kept:
  assumes "refresh_found now forced discovered a u = (d, u')"
  shows "refresh_kept now u d u' \<and> (if ud_error d = None
    then um_markets u' = select_runtime_market_universe discovered now (um_lookahead u) else True)"
proof -
  define u1 where "u1 = u\<lparr>um_last_attempt := summary_of a\<rparr>"
  have same: "refresh_kept now u d u' = refresh_kept now u1 d u'"
    by (simp add: u1_def refresh_kept_def universe_tokens_def)
  show ?thesis
    using assms refresh_empty_kept [of now forced a u1 d u']
      refresh_selected_kept [of now forced "select_runtime_market_universe discovered now (um_lookahead u)" u1 d u']
    unfolding refresh_found_def Let_def same u1_def [symmetric] by (auto split: if_splits)
qed

lemma refresh_on_kept:
  assumes "refresh_on describe now forced reason outcome u = (Inr d, u')"
  shows "refresh_kept now (count_forced forced u) d u'"
proof (cases outcome)
  case (Inl e)
  then show ?thesis using assms refresh_raised_kept [of now forced reason "describe e" "count_forced forced u" d u']
    by (cases "refresh_raised now forced reason (describe e) (count_forced forced u)")
      (auto simp: refresh_on_def Let_def split: if_splits)
next
  case (Inr x)
  obtain discovered a w where x: "x = (discovered, a, w)" by (cases x)
  then show ?thesis using assms Inr refresh_found_kept [of now forced discovered a "count_forced forced u" d u']
    by (cases "refresh_found now forced discovered a (count_forced forced u)")
      (auto simp: refresh_on_def Let_def)
qed

lemma returned_not_raised [simp]: "map_prod Inr id p \<noteq> (Inl e, u)"
  by (cases p) simp

lemma refresh_on_raises:
  assumes "refresh_on describe now forced reason outcome u = (Inl e, u')"
  shows "outcome = Inl e \<and> \<not> refresh_catches e \<and> u' = count_forced forced u"
  using assms by (auto simp: refresh_on_def Let_def split: sum.splits prod.splits if_splits)

lemma count_forced_simps [simp]:
  "um_markets (count_forced forced u) = um_markets u" "um_lookahead (count_forced forced u) = um_lookahead u"
  "um_refresh_count (count_forced forced u) = um_refresh_count u"
  "um_error_count (count_forced forced u) = um_error_count u"
  "um_refresh_interval_ms (count_forced forced u) = um_refresh_interval_ms u"
  "um_forced_count (count_forced forced u) = um_forced_count u + (if forced then 1 else 0)"
  "universe_tokens (count_forced forced u) = universe_tokens u"
  by (simp_all add: count_forced_def universe_tokens_def)

subsection \<open>A subscriber that follows the diffs\<close>

fun feed_run :: "('c \<Rightarrow> 's \<Rightarrow> (py_error + universe_diff) \<times> 's) \<Rightarrow> 'c list \<Rightarrow> 's \<Rightarrow> universe_diff list \<times> 's" where
  \<comment> \<open>the diffs that a sequence of calls returns; a call that raises returns none\<close>
  "feed_run step [] s = ([], s)"
| "feed_run step (c # cs) s = (case step c s of (r, s1) \<Rightarrow> (case feed_run step cs s1 of (ds, s2) \<Rightarrow>
     ((case r of Inl _ \<Rightarrow> ds | Inr d \<Rightarrow> d # ds), s2)))"

locale token_feed =
  fixes step :: "'c \<Rightarrow> 's \<Rightarrow> (py_error + universe_diff) \<times> 's" and tokens :: "'s \<Rightarrow> string set"
  assumes returned: "step c s = (Inr d, s') \<Longrightarrow> apply_token_diff d (tokens s) = tokens s'"
    and raised: "step c s = (Inl e, s') \<Longrightarrow> tokens s' = tokens s"
begin

lemma follows:
  "feed_run step cs s = (ds, s') \<Longrightarrow> fold apply_token_diff ds (tokens s) = tokens s'"
proof (induction cs arbitrary: s ds s')
  case (Cons c cs)
  obtain r s1 where r: "step c s = (r, s1)" by (cases "step c s")
  obtain ds2 s2 where ds2: "feed_run step cs s1 = (ds2, s2)" by (cases "feed_run step cs s1")
  show ?case using Cons.prems Cons.IH [OF ds2] returned raised r ds2 by (cases r) auto
qed simp

end

record refresh_call =
  rc_gamma :: gamma
  rc_client :: discovery_client
  rc_file :: cache_file
  rc_now :: int
  rc_now_ns :: int
  rc_forced :: bool
  rc_reason :: "string option"

definition refresh_step ::
  "(py_error \<Rightarrow> string) \<Rightarrow> refresh_call \<Rightarrow> universe_manager \<Rightarrow> (py_error + universe_diff) \<times> universe_manager" where
  "refresh_step describe c u = refresh describe (rc_gamma c) (rc_client c) (rc_file c) (rc_now c) (rc_now_ns c)
     (rc_forced c) (rc_reason c) u"

lemma refresh_step_kept:
  assumes "refresh_step describe c u = (Inr d, u')"
  shows "refresh_kept (rc_now c) (count_forced (rc_forced c) u) d u'"
  using assms unfolding refresh_step_def refresh_def Let_def by (rule refresh_on_kept)

interpretation universe_feed: token_feed "refresh_step describe" universe_tokens
proof
  show "apply_token_diff d (universe_tokens u) = universe_tokens u'"
    if "refresh_step describe c u = (Inr d, u')" for c u d u'
    using refresh_step_kept [OF that] by (simp add: refresh_kept_def)
  show "universe_tokens u' = universe_tokens u" if "refresh_step describe c u = (Inl e, u')" for c u e u'
    using that refresh_on_raises unfolding refresh_step_def refresh_def Let_def by fastforce
qed

subsection \<open>Properties\<close>

text \<open>
  C28: the diffs that a sequence of refreshes returns lead from the tokens of the first universe to
  those of the last: a subscriber that adds the new and drops the removed tokens of each diff follows
  the universe through successful, empty and failed refreshes.
\<close>

theorem subscriptions_follow_refreshes:
  "case feed_run (refresh_step describe) calls u of (ds, u') \<Rightarrow>
     fold apply_token_diff ds (universe_tokens u) = universe_tokens u'"
  by (cases "feed_run (refresh_step describe) calls u") (simp add: universe_feed.follows)

text \<open>
  Every refresh that returns is counted once, as a refresh or as an error, and is not due again
  before its interval; one that reports an error keeps the markets, and one that does not has some.
\<close>

theorem refresh_is_counted_once:
  assumes "refresh describe g c file now now_ns forced reason u = (Inr d, u')"
  shows "um_refresh_count u' + um_error_count u' = um_refresh_count u + um_error_count u + 1
    \<and> um_forced_count u' = um_forced_count u + (if forced then 1 else 0)
    \<and> (if ud_error d = None then um_error_count u' = um_error_count u \<and> um_markets u' \<noteq> []
       else um_refresh_count u' = um_refresh_count u \<and> map market_key (um_markets u') = map market_key (um_markets u))
    \<and> (refresh_due t u' \<longleftrightarrow> now + max 1 (um_refresh_interval_ms u div 1000) \<le> t)"
  using refresh_on_kept [OF assms [unfolded refresh_def Let_def]]
  by (auto simp: refresh_kept_def refresh_due_def split: if_splits)

lemma ex_no_discovery:
  "manager_discovery (ex_gamma []) ex_client No_cache 1700000200 1700000200000000000 ''scheduled''
     (manager_init [] 60000 3 60000 1700000000)
   = Inr ([], legacy_discovery_attempt [] 1700000200 ''scheduled'', None)"
  by code_simp

theorem refresh_is_counted_once_witness:
  "\<exists>d u'. refresh describe (ex_gamma []) ex_client No_cache 1700000200 1700000200000000000 False None
       (manager_init [] 60000 3 60000 1700000000) = (Inr d, u')
     \<and> um_refresh_count u' + um_error_count u' = 1 \<and> \<not> refresh_due 1700000259 u' \<and> refresh_due 1700000260 u'"
proof -
  define u where "u = manager_init [] 60000 3 60000 1700000000"
  have u: "um_refresh_count u = 0" "um_error_count u = 0" "um_refresh_interval_ms u = 60000"
    by (simp_all add: u_def manager_init_def Let_def)
  obtain d u' where r: "refresh describe (ex_gamma []) ex_client No_cache 1700000200 1700000200000000000 False None u = (Inr d, u')"
    by (cases "refresh_found 1700000200 False [] (legacy_discovery_attempt [] 1700000200 ''scheduled'') (count_forced False u)")
      (simp add: refresh_def refresh_reason_def str_or_def refresh_on_def ex_no_discovery [folded u_def] Let_def)
  show ?thesis
    using refresh_is_counted_once [OF r, of 1700000259] refresh_is_counted_once [OF r, of 1700000260] r u
    by (auto simp: u_def [symmetric])
qed

text \<open>
  C29: every market of a selected universe is tradable and is enabled for signals exactly when its
  window is the current one; and of each asset and duration at most as many upcoming markets as the
  lookahead are selected.
\<close>

theorem universe_signals_only_current_windows:
  assumes "m \<in> set (select_runtime_market_universe ms now lookahead)"
  shows "is_runtime_tradable_market m now \<and> mm_selected_for_runtime m
    \<and> (mm_signal_enabled m \<longleftrightarrow> classify_market_window m now = W_current_signal)
    \<and> market_key m \<in> market_key ` set ms
    \<and> length [x \<leftarrow> select_runtime_market_universe ms now lookahead.
        market_group x = market_group m \<and> \<not> mm_signal_enabled x] \<le> nat lookahead"
  using universe_elem [OF assms] universe_upcoming [of "market_group m" ms now lookahead] by blast

lemma ex_selected: "select_runtime_market_universe [ex_found] 1700000200 3 = [ex_found]"
proof -
  have "tradable_in 1700000200 [W_current_signal] ex_found" "\<not> tradable_in 1700000200 [W_next_warmup, W_future_tracked] ex_found"
    using ex_markets_current(1,2) current_signal_iff [of ex_found 1700000200] by (simp_all add: tradable_in_def)
  then show ?thesis
    by (simp add: select_runtime_market_universe_def grouped_markets_def select_group_def sort_markets_def
        annotate_universe_role_def role_class_def ex_found_def ex_parsed_def)
qed

theorem universe_signals_only_current_windows_witness:
  "mm_signal_enabled ex_found \<and> classify_market_window ex_found 1700000200 = W_current_signal"
  using universe_signals_only_current_windows [of ex_found "[ex_found]" 1700000200 3]
  by (simp add: ex_selected) (simp add: ex_found_def)

end
