(* ===== verification/BatchWriter.thy ===== *)
theory BatchWriter
  imports QueueMonitor DiscoveryParse
begin

text \<open>
  The threaded writer of \<open>app/marketdata/batch_writer.py\<close>: callers put records into a bounded queue,
  and a thread takes them in batches and appends them to files. Each action below is one step of a
  caller or of the thread that no other step can divide, so that the runs are all the interleavings.
  Clocks and what the file system answers are inputs of the steps. A row is written as JSON text; the
  model keeps the row that is handed to the file.
\<close>

subsection \<open>Records\<close>

record queued_record =
  qr_path :: string
  qr_row :: payload
  qr_enqueue_ns :: int

definition annotate_writer_enqueue :: "payload \<Rightarrow> int \<Rightarrow> payload" where
  "annotate_writer_enqueue row t = (case vget row ''stages'' of
     VDict stages \<Rightarrow> AList.update ''stages'' (VDict (AList.update ''writer_enqueue_monotonic_ns'' (VInt t) stages)) row
   | _ \<Rightarrow> row)"

definition with_stage_times :: "payload \<Rightarrow> int \<Rightarrow> int \<Rightarrow> payload" where
  "with_stage_times row start end_ns = (case vget row ''stages'' of
     VDict stages \<Rightarrow> AList.update ''stages'' (VDict (AList.update ''file_write_end_monotonic_ns'' (VInt end_ns)
       (AList.update ''file_write_start_monotonic_ns'' (VInt start) stages))) row
   | _ \<Rightarrow> row)"

definition writer_enqueue_of :: "payload \<Rightarrow> int option" where
  \<comment> \<open>an integer that is not a boolean\<close>
  "writer_enqueue_of row = (case vget row ''stages'' of
     VDict stages \<Rightarrow> (case vget stages ''writer_enqueue_monotonic_ns'' of VInt n \<Rightarrow> Some n | _ \<Rightarrow> None)
   | _ \<Rightarrow> None)"

definition with_file_write_timestamps :: "payload \<Rightarrow> int \<Rightarrow> int \<Rightarrow> payload" where
  "with_file_write_timestamps row start end_ns =
     (let row1 = with_stage_times row start end_ns in
      case vget row1 ''metrics'' of
        VDict metrics \<Rightarrow>
          (let m1 = AList.update ''file_write_duration_ms'' (VFloat (ms_of_ns (end_ns - start))) metrics;
               m2 = (case writer_enqueue_of row1 of None \<Rightarrow> m1
                 | Some t \<Rightarrow> AList.update ''writer_wait_ms'' (VFloat (ms_of_ns (start - t))) m1)
           in AList.update ''metrics'' (VDict m2) row1)
      | _ \<Rightarrow> row1)"

subsection \<open>The state\<close>

datatype writer_thread =
    T_idle                          \<comment> \<open>not started\<close>
  | T_checking                      \<comment> \<open>at the condition of the loop\<close>
  | T_waiting                       \<comment> \<open>waiting for the first record of a batch\<close>
  | T_filling "queued_record list"  \<comment> \<open>taking more records without waiting\<close>
  | T_flushing "queued_record list"
  | T_done

record batch_writer =
  bw_batch_size :: nat
  bw_flush_interval_ms :: pyfloat
  bw_queue_max :: nat
  bw_samples :: nat
  bw_queue :: "queued_record list"
  bw_stop :: bool
  bw_thread :: writer_thread
  bw_closed :: bool
  bw_flush_completed :: bool
  bw_dropped :: int
  bw_errors :: int
  bw_enqueued :: int
  bw_written :: int
  bw_flushes :: int
  bw_durations :: "pyfloat list"
  bw_depths :: "int list"
  bw_last_error :: "string option"
  bw_uncounted :: nat  \<comment> \<open>records in the queue whose callers have yet to count them\<close>
  bw_handed :: "(queued_record \<times> payload) list"  \<comment> \<open>what the thread has handed to the files\<close>

definition writer_init :: "int \<Rightarrow> pyfloat \<Rightarrow> int \<Rightarrow> nat \<Rightarrow> batch_writer" where
  "writer_init batch_size interval queue_max samples =
     \<lparr>bw_batch_size = nat (max 1 batch_size), bw_flush_interval_ms = pymax (Fin 1) interval,
      bw_queue_max = nat (max 1 queue_max), bw_samples = samples, bw_queue = [], bw_stop = False,
      bw_thread = T_idle, bw_closed = False, bw_flush_completed = False, bw_dropped = 0, bw_errors = 0,
      bw_enqueued = 0, bw_written = 0, bw_flushes = 0, bw_durations = [], bw_depths = [],
      bw_last_error = None, bw_uncounted = 0, bw_handed = []\<rparr>"

definition writer_start :: "batch_writer \<Rightarrow> batch_writer" where
  "writer_start w = (if bw_thread w \<noteq> T_idle then w else w\<lparr>bw_thread := T_checking\<rparr>)"

subsection \<open>Callers\<close>

record enqueue_result =
  en_start_ns :: int
  en_end_ns :: int
  en_enqueued :: bool
  en_dropped :: bool
  en_write_start_ns :: "int option"
  en_write_end_ns :: "int option"

definition sample_depth :: "int \<Rightarrow> batch_writer \<Rightarrow> batch_writer" where
  "sample_depth d w = w\<lparr>bw_depths := push_bounded (bw_samples w) d (bw_depths w)\<rparr>"

definition enqueue_put :: "string \<Rightarrow> payload \<Rightarrow> int \<Rightarrow> batch_writer \<Rightarrow> queued_record option \<times> batch_writer" where
  \<comment> \<open>up to \<open>put_nowait\<close>; \<open>None\<close> for a record that is dropped because the queue is full\<close>
  "enqueue_put path row now w =
     (let w1 = writer_start w;
          r = \<lparr>qr_path = path, qr_row = annotate_writer_enqueue row now, qr_enqueue_ns = now\<rparr>
      in if length (bw_queue w1) < bw_queue_max w1
         then (Some r, w1\<lparr>bw_queue := bw_queue w1 @ [r], bw_uncounted := Suc (bw_uncounted w1)\<rparr>)
         else (None, sample_depth (int (bw_queue_max w1)) (w1\<lparr>bw_dropped := bw_dropped w1 + 1\<rparr>)))"

definition enqueue_count :: "batch_writer \<Rightarrow> batch_writer" where
  \<comment> \<open>under the lock, after the record is in the queue\<close>
  "enqueue_count w = (case bw_uncounted w of 0 \<Rightarrow> w
     | Suc n \<Rightarrow> sample_depth (int (length (bw_queue w)))
         (w\<lparr>bw_uncounted := n, bw_enqueued := bw_enqueued w + 1\<rparr>))"

definition enqueue_jsonl ::
  "string \<Rightarrow> payload \<Rightarrow> int \<Rightarrow> int \<Rightarrow> batch_writer \<Rightarrow> enqueue_result \<times> batch_writer" where
  \<comment> \<open>the whole call, when no step of the thread comes in between\<close>
  "enqueue_jsonl path row start end_ns w = (case enqueue_put path row start w of
     (None, w1) \<Rightarrow> (\<lparr>en_start_ns = start, en_end_ns = end_ns, en_enqueued = False, en_dropped = True,
         en_write_start_ns = None, en_write_end_ns = None\<rparr>, w1)
   | (Some _, w1) \<Rightarrow> (\<lparr>en_start_ns = start, en_end_ns = end_ns, en_enqueued = True, en_dropped = False,
         en_write_start_ns = None, en_write_end_ns = None\<rparr>, enqueue_count w1))"

definition close_begin :: "batch_writer \<Rightarrow> batch_writer" where
  "close_begin w =
     (if bw_closed w then w
      else let w1 = w\<lparr>bw_closed := True\<rparr> in
        if bw_thread w = T_idle then w1\<lparr>bw_flush_completed := True\<rparr> else w1\<lparr>bw_stop := True\<rparr>)"

definition close_end :: "batch_writer \<Rightarrow> batch_writer" where
  \<comment> \<open>when the join has returned, for the end of the thread or for its timeout\<close>
  "close_end w = (if bw_stop w then w\<lparr>bw_flush_completed := bw_thread w = T_done \<and> bw_queue w = []\<rparr> else w)"

subsection \<open>The thread\<close>

record flush_answer =
  fa_start_ns :: int
  fa_records :: "(int \<times> string option) list"
    \<comment> \<open>per record the clock, and the text of the exception if opening, encoding or writing raises\<close>
  fa_finish :: "string option"  \<comment> \<open>if flushing or closing the files raises\<close>
  fa_end_ns :: int

fun write_batch ::
  "queued_record list \<Rightarrow> (int \<times> string option) list \<Rightarrow> (queued_record \<times> payload) list \<times> string option" where
  \<comment> \<open>the answers are given for every record: none stands for an exception\<close>
  "write_batch [] as = ([], None)"
| "write_batch (r # rs) [] = ([], Some [])"
| "write_batch (r # rs) ((now, Some text) # as) = ([], Some text)"
| "write_batch (r # rs) ((now, None) # as) = (case write_batch rs as of (done, e) \<Rightarrow>
     ((r, with_file_write_timestamps (qr_row r) now now) # done, e))"

definition flush_batch :: "flush_answer \<Rightarrow> queued_record list \<Rightarrow> batch_writer \<Rightarrow> batch_writer" where
  \<comment> \<open>an exception ends the batch, the files are closed in any case\<close>
  "flush_batch a batch w =
     (let (done, e) = write_batch batch (fa_records a);
          error = (case fa_finish a of None \<Rightarrow> e | Some text \<Rightarrow> Some text);
          w1 = (case error of None \<Rightarrow> w
            | Some text \<Rightarrow> w\<lparr>bw_errors := bw_errors w + 1, bw_last_error := Some text\<rparr>)
      in w1\<lparr>bw_written := bw_written w1 + int (length done), bw_flushes := bw_flushes w1 + 1,
         bw_durations := push_bounded (bw_samples w1) (ms_of_ns (fa_end_ns a - fa_start_ns a)) (bw_durations w1),
         bw_handed := bw_handed w1 @ done, bw_thread := T_checking\<rparr>)"

fun thread_step :: "flush_answer \<Rightarrow> batch_writer \<Rightarrow> batch_writer" where
  "thread_step a w = (case bw_thread w of
     T_idle \<Rightarrow> w
   | T_done \<Rightarrow> w
   | T_checking \<Rightarrow> if bw_stop w \<and> bw_queue w = [] then w\<lparr>bw_thread := T_done\<rparr> else w\<lparr>bw_thread := T_waiting\<rparr>
   | T_waiting \<Rightarrow> (case bw_queue w of [] \<Rightarrow> w\<lparr>bw_thread := T_checking\<rparr>
       | r # rs \<Rightarrow> w\<lparr>bw_queue := rs, bw_thread := T_filling [r]\<rparr>)
   | T_filling batch \<Rightarrow>
       if length batch < bw_batch_size w then
         (case bw_queue w of [] \<Rightarrow> w\<lparr>bw_thread := T_flushing batch\<rparr>
          | r # rs \<Rightarrow> w\<lparr>bw_queue := rs, bw_thread := T_filling (batch @ [r])\<rparr>)
       else w\<lparr>bw_thread := T_flushing batch\<rparr>
   | T_flushing batch \<Rightarrow> flush_batch a batch w)"

declare thread_step.simps [simp del]

subsection \<open>The report\<close>

record batch_writer_report =
  wr_batch_size :: nat
  wr_flush_interval_ms :: pyfloat
  wr_queue_max_size :: nat
  wr_thread_count :: int
  wr_shutdown_flush_completed :: bool
  wr_dropped_records :: int
  wr_error_count :: int
  wr_records_enqueued :: int
  wr_records_written :: int
  wr_flush_count :: int
  wr_flush_ms :: percentiles
  wr_flush_max_ms :: pyfloat
  wr_queue_depth :: percentiles
  wr_queue_depth_max :: pyfloat
  wr_last_error :: "string option"

definition max_or_zero :: "pyfloat list \<Rightarrow> pyfloat" where
  "max_or_zero xs = (case xs of [] \<Rightarrow> fzero | x # rest \<Rightarrow> foldl pymax x rest)"

definition batch_writer_report_of :: "batch_writer \<Rightarrow> batch_writer_report" where
  "batch_writer_report_of w =
     (let depths = map float_of_int (bw_depths w) in
      \<lparr>wr_batch_size = bw_batch_size w, wr_flush_interval_ms = bw_flush_interval_ms w,
       wr_queue_max_size = bw_queue_max w, wr_thread_count = (if bw_thread w = T_idle then 0 else 1),
       wr_shutdown_flush_completed = bw_flush_completed w, wr_dropped_records = bw_dropped w,
       wr_error_count = bw_errors w, wr_records_enqueued = bw_enqueued w, wr_records_written = bw_written w,
       wr_flush_count = bw_flushes w, wr_flush_ms = percentiles_of (bw_durations w),
       wr_flush_max_ms = max_or_zero (bw_durations w), wr_queue_depth = percentiles_of depths,
       wr_queue_depth_max = max_or_zero depths, wr_last_error = bw_last_error w\<rparr>)"

subsection \<open>Writing without the thread\<close>

definition write_jsonl_sync :: "payload \<Rightarrow> int \<Rightarrow> int \<Rightarrow> payload \<times> enqueue_result" where
  \<comment> \<open>the row that is appended to the file, and the result\<close>
  "write_jsonl_sync row start end_ns = (with_file_write_timestamps row start start,
     \<lparr>en_start_ns = start, en_end_ns = start, en_enqueued = True, en_dropped = False,
      en_write_start_ns = Some start, en_write_end_ns = Some end_ns\<rparr>)"

subsection \<open>Runs\<close>

datatype writer_action =
    A_put string payload int
  | A_count
  | A_close
  | A_joined
  | A_thread flush_answer

fun writer_act :: "writer_action \<Rightarrow> batch_writer \<Rightarrow> queued_record option \<times> batch_writer" where
  "writer_act (A_put path row now) w = enqueue_put path row now w"
| "writer_act A_count w = (None, enqueue_count w)"
| "writer_act A_close w = (None, close_begin w)"
| "writer_act A_joined w = (None, close_end w)"
| "writer_act (A_thread a) w = (None, thread_step a w)"

fun writer_run :: "writer_action list \<Rightarrow> batch_writer \<Rightarrow> queued_record list \<times> batch_writer" where
  \<comment> \<open>the records that were accepted into the queue, and the state\<close>
  "writer_run [] w = ([], w)"
| "writer_run (a # as) w = (case writer_act a w of (r, w1) \<Rightarrow> (case writer_run as w1 of (rs, w2) \<Rightarrow>
     ((case r of None \<Rightarrow> rs | Some r \<Rightarrow> r # rs), w2)))"

end
