(* ===== verification/WriterProperties.thy ===== *)
theory WriterProperties
  imports BatchWriter
begin

text \<open>
  What the batch writer promises for every interleaving of its callers and its thread: records are
  handed to the files once and in the order of the queue, a completed shutdown has written all of them,
  and the thread ends once it is told to.
\<close>

subsection \<open>Batches\<close>

definition thread_batch :: "writer_thread \<Rightarrow> queued_record list" where
  "thread_batch t = (case t of T_filling b \<Rightarrow> b | T_flushing b \<Rightarrow> b | _ \<Rightarrow> [])"

lemma thread_batch_simps [simp]:
  "thread_batch T_idle = []" "thread_batch T_checking = []" "thread_batch T_waiting = []" "thread_batch T_done = []"
  "thread_batch (T_filling b) = b" "thread_batch (T_flushing b) = b"
  by (simp_all add: thread_batch_def)

lemma written_prefix: "write_batch rs as = (ds, e) \<Longrightarrow> prefix (map fst ds) rs \<and> (e = None \<longrightarrow> map fst ds = rs)"
  by (induction rs as arbitrary: ds e rule: write_batch.induct) (auto split: prod.splits)

definition in_writer :: "batch_writer \<Rightarrow> queued_record list" where
  \<comment> \<open>every record the writer has had, in the order of the queue\<close>
  "in_writer w = map fst (bw_handed w) @ thread_batch (bw_thread w) @ bw_queue w"

definition writer_inv :: "queued_record list \<Rightarrow> batch_writer \<Rightarrow> bool" where
  "writer_inv acc w \<longleftrightarrow> bw_enqueued w + int (bw_uncounted w) = int (length acc)
     \<and> length (bw_queue w) \<le> bw_queue_max w \<and> bw_written w = int (length (bw_handed w))
     \<and> subseq (in_writer w) acc \<and> 0 \<le> bw_errors w \<and> (bw_errors w = 0 \<longrightarrow> in_writer w = acc)"

subsection \<open>Steps\<close>

lemma inv_put:
  assumes "writer_inv acc w" and "enqueue_put path row now w = (r, w')"
  shows "writer_inv (acc @ (case r of None \<Rightarrow> [] | Some r \<Rightarrow> [r])) w'"
proof -
  have start: "thread_batch (bw_thread (writer_start w)) = thread_batch (bw_thread w)"
    "bw_queue (writer_start w) = bw_queue w" "bw_handed (writer_start w) = bw_handed w"
    "bw_queue_max (writer_start w) = bw_queue_max w" "bw_errors (writer_start w) = bw_errors w"
    "bw_enqueued (writer_start w) = bw_enqueued w" "bw_uncounted (writer_start w) = bw_uncounted w"
    "bw_written (writer_start w) = bw_written w"
    by (simp_all add: writer_start_def)
  have app: "subseq (in_writer w @ [x]) (acc @ [x])" for x
    using assms(1) by (simp add: writer_inv_def)
  show ?thesis using assms app
    by (auto simp: writer_inv_def enqueue_put_def Let_def start in_writer_def sample_depth_def split: if_splits)
qed

lemma inv_flush:
  assumes "writer_inv acc w" and "bw_thread w = T_flushing batch"
  shows "writer_inv acc (flush_batch a batch w)"
proof -
  obtain ds e where wb: "write_batch batch (fa_records a) = (ds, e)" by fastforce
  note p = written_prefix [OF wb]
  have "subseq (map fst (bw_handed w) @ map fst ds @ bw_queue w) (map fst (bw_handed w) @ batch @ bw_queue w)"
    using p by (intro list_emb_append_mono subseq_order.order_refl prefix_imp_subseq) simp
  then have "subseq (map fst (bw_handed w) @ map fst ds @ bw_queue w) acc"
    using assms by (auto simp: writer_inv_def in_writer_def intro: subseq_order.order_trans)
  moreover have "map fst (bw_handed w) @ map fst ds @ bw_queue w = acc" if "bw_errors w = 0" "e = None"
    using that assms p by (simp add: writer_inv_def in_writer_def)
  ultimately show ?thesis using assms
    by (auto simp: writer_inv_def flush_batch_def wb in_writer_def Let_def split: option.splits)
qed

lemma inv_thread:
  assumes "writer_inv acc w"
  shows "writer_inv acc (thread_step a w)"
  using assms inv_flush [OF assms]
  by (auto simp: thread_step.simps writer_inv_def in_writer_def split: writer_thread.splits list.splits)

lemma inv_act:
  assumes "writer_inv acc w" and "writer_act act w = (r, w')"
  shows "writer_inv (acc @ (case r of None \<Rightarrow> [] | Some r \<Rightarrow> [r])) w'"
proof (cases act)
  case (A_put path row now)
  then show ?thesis using assms inv_put by simp
next
  case (A_thread a)
  then show ?thesis using assms inv_thread [OF assms(1), of a] by auto
qed (use assms in \<open>auto simp: writer_inv_def in_writer_def enqueue_count_def sample_depth_def close_begin_def
    close_end_def Let_def split: nat.splits if_splits\<close>)

lemma inv_run: "writer_inv acc w \<Longrightarrow> writer_run acts w = (rs, w') \<Longrightarrow> writer_inv (acc @ rs) w'"
proof (induction acts arbitrary: acc w rs)
  case (Cons a acts)
  obtain r w1 where a: "writer_act a w = (r, w1)" by fastforce
  obtain rs1 where "writer_run acts w1 = (rs1, w')" "rs = (case r of None \<Rightarrow> [] | Some r \<Rightarrow> [r]) @ rs1"
    using Cons.prems(2) by (auto simp: a split: prod.splits option.splits)
  then show ?case using Cons.IH [OF inv_act [OF Cons.prems(1) a]] by simp
qed simp

lemma inv_init: "writer_inv [] (writer_init batch interval queue_max samples)"
  by (simp add: writer_inv_def writer_init_def in_writer_def)

subsection \<open>The end of the thread\<close>

definition steps_left :: "batch_writer \<Rightarrow> nat" where
  "steps_left w = (let q = length (bw_queue w) in case bw_thread w of
     T_idle \<Rightarrow> 0 | T_done \<Rightarrow> 0 | T_checking \<Rightarrow> 4 * q + 1 | T_waiting \<Rightarrow> if q = 0 then 2 else 4 * q
   | T_filling _ \<Rightarrow> 4 * q + 3 | T_flushing _ \<Rightarrow> 4 * q + 2)"

lemma thread_progress:
  assumes "bw_stop w" and "bw_thread w \<noteq> T_idle"
  shows "bw_stop (thread_step a w) \<and> bw_thread (thread_step a w) \<noteq> T_idle
    \<and> steps_left (thread_step a w) \<le> steps_left w - 1"
  using assms
  by (auto simp: thread_step.simps steps_left_def flush_batch_def Let_def
      split: writer_thread.splits list.splits prod.splits option.splits)

lemma steps_left_zero: "steps_left w = 0 \<Longrightarrow> bw_thread w \<noteq> T_idle \<Longrightarrow> bw_thread w = T_done"
  by (auto simp: steps_left_def Let_def split: writer_thread.splits if_splits)

lemma steps_left_bound: "steps_left w \<le> 4 * length (bw_queue w) + 3"
  by (auto simp: steps_left_def Let_def split: writer_thread.splits)

lemma done_keeps:
  "bw_thread w = T_done \<Longrightarrow> writer_run acts w = (rs, w') \<Longrightarrow>
     bw_thread w' = T_done \<and> bw_handed w' = bw_handed w \<and> bw_queue w' = bw_queue w @ rs"
proof (induction acts arbitrary: w rs)
  case (Cons a acts)
  obtain r w1 where a: "writer_act a w = (r, w1)" by fastforce
  have "bw_thread w1 = T_done \<and> bw_handed w1 = bw_handed w
      \<and> bw_queue w1 = bw_queue w @ (case r of None \<Rightarrow> [] | Some r \<Rightarrow> [r])"
    using Cons.prems(1) a
    by (cases a) (auto simp: enqueue_put_def writer_start_def enqueue_count_def sample_depth_def close_begin_def
        close_end_def thread_step.simps Let_def split: if_splits nat.splits)
  then show ?case using Cons.IH [of w1] Cons.prems(2) by (auto simp: a split: prod.splits option.splits)
qed simp

fun is_thread_step :: "writer_action \<Rightarrow> bool" where
  "is_thread_step (A_thread _) = True"
| "is_thread_step _ = False"

definition thread_steps :: "writer_action list \<Rightarrow> nat" where
  "thread_steps acts = length [a \<leftarrow> acts. is_thread_step a]"

lemma act_progress:
  assumes "bw_stop w" and "bw_thread w \<notin> {T_idle, T_done}" and "writer_act act w = (r, w')"
  shows "bw_stop w' \<and> bw_thread w' \<noteq> T_idle
    \<and> steps_left w' + (if is_thread_step act then 1 else 0) \<le> steps_left w + (if r = None then 0 else 4)"
proof (cases act)
  case (A_put path row now)
  then show ?thesis using assms
    by (auto simp: enqueue_put_def writer_start_def sample_depth_def steps_left_def Let_def
        split: if_splits writer_thread.splits)
next
  case (A_thread a)
  have "0 < steps_left w" using assms(2) by (auto simp: steps_left_def Let_def split: writer_thread.splits)
  then show ?thesis using assms thread_progress [of w a] A_thread by auto
next
  case A_count
  then have "bw_queue w' = bw_queue w" "bw_thread w' = bw_thread w" "bw_stop w' = bw_stop w"
    using assms(3) by (auto simp: enqueue_count_def sample_depth_def split: nat.splits)
  then show ?thesis using assms A_count by (simp add: steps_left_def)
next
  case A_close
  then have "bw_queue w' = bw_queue w" "bw_thread w' = bw_thread w" "bw_stop w'"
    using assms by (auto simp: close_begin_def Let_def split: if_splits)
  then show ?thesis using assms A_close by (simp add: steps_left_def)
next
  case A_joined
  then have "bw_queue w' = bw_queue w" "bw_thread w' = bw_thread w" "bw_stop w'"
    using assms by (auto simp: close_end_def split: if_splits)
  then show ?thesis using assms A_joined by (simp add: steps_left_def)
qed

lemma run_progress:
  assumes "bw_stop w" and "bw_thread w \<notin> {T_idle, T_done}" and "writer_run acts w = (acc, w')"
  shows "bw_thread w' = T_done \<or> bw_thread w' \<noteq> T_idle \<and> steps_left w' + thread_steps acts \<le> steps_left w + 4 * length acc"
  using assms
proof (induction acts arbitrary: w acc)
  case (Cons a acts)
  obtain r w1 where a: "writer_act a w = (r, w1)" by fastforce
  obtain acc1 where run: "writer_run acts w1 = (acc1, w')" "acc = (case r of None \<Rightarrow> [] | Some r \<Rightarrow> [r]) @ acc1"
    using Cons.prems(3) by (auto simp: a split: prod.splits option.splits)
  note step = act_progress [OF Cons.prems(1,2) a]
  show ?case
  proof (cases "bw_thread w1 = T_done")
    case True
    from done_keeps [OF this run(1)] show ?thesis by simp
  next
    case False
    then have "bw_thread w' = T_done
        \<or> bw_thread w' \<noteq> T_idle \<and> steps_left w' + thread_steps acts \<le> steps_left w1 + 4 * length acc1"
      using Cons.IH [OF _ _ run(1)] step by simp
    then show ?thesis using step by (auto simp: thread_steps_def run(2) split: option.splits if_splits)
  qed
qed (simp add: thread_steps_def)

lemma act_done:
  assumes "bw_thread w \<noteq> T_done" and "writer_act act w = (r, w')" and "bw_thread w' = T_done"
  shows "r = None \<and> bw_queue w' = []"
proof (cases act)
  case (A_thread a)
  then show ?thesis using assms
    by (auto simp: thread_step.simps flush_batch_def Let_def split: writer_thread.splits list.splits prod.splits if_splits option.splits)
qed (use assms in \<open>auto simp: enqueue_put_def writer_start_def enqueue_count_def sample_depth_def close_begin_def
    close_end_def Let_def split: nat.splits if_splits\<close>)

lemma done_split:
  assumes "bw_thread w \<noteq> T_done" and "writer_run acts w = (acc, w')" and "bw_thread w' = T_done"
  shows "\<exists>as1 as2 acc1 acc2 w1. acts = as1 @ as2 \<and> acc = acc1 @ acc2 \<and> writer_run as1 w = (acc1, w1)
    \<and> bw_thread w1 = T_done \<and> bw_queue w1 = [] \<and> writer_run as2 w1 = (acc2, w')"
  using assms
proof (induction acts arbitrary: w acc)
  case (Cons a acts)
  obtain r w1 where a: "writer_act a w = (r, w1)" by fastforce
  obtain acc1 where run: "writer_run acts w1 = (acc1, w')" "acc = (case r of None \<Rightarrow> [] | Some r \<Rightarrow> [r]) @ acc1"
    using Cons.prems(2) by (auto simp: a split: prod.splits option.splits)
  show ?case
  proof (cases "bw_thread w1 = T_done")
    case True
    from act_done [OF Cons.prems(1) a this] have "writer_run [a] w = ([], w1)" "bw_queue w1 = []" "acc = acc1"
      by (simp_all add: a run(2))
    then show ?thesis using True run(1) by (intro exI [of _ "[a]"] exI [of _ acts]) auto
  next
    case False
    from Cons.IH [OF this run(1) Cons.prems(3)] obtain as1 as2 accs1 accs2 w2 where s: "acts = as1 @ as2"
      "acc1 = accs1 @ accs2" "writer_run as1 w1 = (accs1, w2)" "bw_thread w2 = T_done" "bw_queue w2 = []"
      "writer_run as2 w2 = (accs2, w')" by blast
    have "writer_run (a # as1) w = ((case r of None \<Rightarrow> [] | Some r \<Rightarrow> [r]) @ accs1, w2)"
      by (simp add: a s(3) split: option.splits)
    then show ?thesis using s run(2)
      by (intro exI [of _ "a # as1"] exI [of _ as2] exI [of _ "(case r of None \<Rightarrow> [] | Some r \<Rightarrow> [r]) @ accs1"]
          exI [of _ accs2] exI [of _ w2]) simp
  qed
qed simp

subsection \<open>Properties\<close>

text \<open>
  C36: for every interleaving of callers and thread, the records that are handed to the files are
  records that were accepted, each once and in the order of the queue; without a write error those not
  yet handed over are in the batch or in the queue, and the counters say how many there are.
\<close>

theorem records_are_written_once_in_order:
  assumes "writer_run acts (writer_init batch interval queue_max samples) = (acc, w)"
  shows "subseq (map fst (bw_handed w)) acc
    \<and> (bw_errors w = 0 \<longrightarrow> map fst (bw_handed w) @ thread_batch (bw_thread w) @ bw_queue w = acc)
    \<and> bw_written w = int (length (bw_handed w))
    \<and> bw_enqueued w + int (bw_uncounted w) = int (length acc) \<and> length (bw_queue w) \<le> bw_queue_max w"
proof -
  have inv: "writer_inv acc w" using inv_run [OF inv_init assms] by simp
  have "prefix (map fst (bw_handed w)) (in_writer w)" by (simp add: in_writer_def)
  then have "subseq (map fst (bw_handed w)) acc"
    using inv prefix_imp_subseq subseq_order.order_trans unfolding writer_inv_def by blast
  then show ?thesis using inv by (simp add: writer_inv_def in_writer_def)
qed

definition ex_answer :: flush_answer where
  "ex_answer = \<lparr>fa_start_ns = 5, fa_records = [(6, None), (7, None)], fa_finish = None, fa_end_ns = 8\<rparr>"

definition ex_acts :: "writer_action list" where
  "ex_acts = [A_put ''a'' [] 1, A_thread ex_answer, A_thread ex_answer, A_count, A_put ''b'' [] 2, A_close,
     A_thread ex_answer, A_thread ex_answer, A_thread ex_answer, A_thread ex_answer, A_count]"

lemma ex_writer_run:
  "map_prod (map qr_path) (\<lambda>w. (map (qr_path \<circ> fst) (bw_handed w), bw_errors w, bw_stop w))
     (writer_run ex_acts (writer_init 2 (Fin 1) 10 0)) = ([''a'', ''b''], [''a'', ''b''], 0, True)"
  "(\<lambda>(_, w). bw_flush_completed (close_end w)) (writer_run ex_acts (writer_init 2 (Fin 1) 10 0))"
  by (simp_all add: ex_acts_def ex_answer_def writer_init_def enqueue_put_def writer_start_def enqueue_count_def
      sample_depth_def close_begin_def close_end_def thread_step.simps flush_batch_def Let_def
      cong: prod.case_cong_weak option.case_cong_weak writer_thread.case_cong_weak list.case_cong_weak)

theorem records_are_written_once_in_order_witness:
  "\<exists>acc w. writer_run ex_acts (writer_init 2 (Fin 1) 10 0) = (acc, w) \<and> length acc = 2
     \<and> map fst (bw_handed w) @ thread_batch (bw_thread w) @ bw_queue w = acc"
proof -
  obtain acc w where r: "writer_run ex_acts (writer_init 2 (Fin 1) 10 0) = (acc, w)" by fastforce
  have "map qr_path acc = [''a'', ''b'']" "bw_errors w = 0" using ex_writer_run(1) by (simp_all add: r)
  moreover from this(1) have "length acc = 2" by (metis length_map length_Cons list.size(3) numeral_2_eq_2)
  ultimately show ?thesis using records_are_written_once_in_order [OF r] r by blast
qed

text \<open>
  C37: a shutdown that reports its flush as completed, after a run without a write error, has handed
  every accepted record to the files.
\<close>

theorem completed_shutdown_wrote_everything:
  assumes "writer_run acts (writer_init batch interval queue_max samples) = (acc, w)"
    and "bw_stop w" and "bw_flush_completed (close_end w)" and "bw_errors w = 0"
  shows "map fst (bw_handed (close_end w)) = acc"
proof -
  have "in_writer w = acc" using inv_run [OF inv_init assms(1)] assms(4) by (simp add: writer_inv_def)
  then show ?thesis using assms(2,3) by (simp add: close_end_def in_writer_def)
qed

theorem completed_shutdown_wrote_everything_witness:
  "\<exists>acc w. writer_run ex_acts (writer_init 2 (Fin 1) 10 0) = (acc, w) \<and> map fst (bw_handed (close_end w)) = acc"
proof -
  obtain acc w where r: "writer_run ex_acts (writer_init 2 (Fin 1) 10 0) = (acc, w)" by fastforce
  then show ?thesis using completed_shutdown_wrote_everything [OF r] ex_writer_run by (simp add: r)
qed

text \<open>
  C39: once it is told to stop, the thread ends, whatever the callers do in between and whatever the
  file system answers: the thread needs at most four steps for each record that is queued or still
  accepted, and three more. When it ends the queue is empty; records that callers put after that stay
  in the queue, since a put does not ask whether the writer is closed.
\<close>

theorem writer_thread_ends:
  assumes "bw_stop w" and "bw_thread w \<notin> {T_idle, T_done}" and "writer_run acts w = (acc, w')"
    and "4 * (length (bw_queue w) + length acc) + 3 \<le> thread_steps acts"
  shows "bw_thread w' = T_done \<and> (\<exists>before after acc1 acc2 w1. acts = before @ after \<and> acc = acc1 @ acc2
    \<and> writer_run before w = (acc1, w1) \<and> bw_thread w1 = T_done \<and> bw_queue w1 = []
    \<and> writer_run after w1 = (acc2, w') \<and> bw_queue w' = acc2 \<and> bw_handed w' = bw_handed w1)"
proof -
  have "bw_thread w' = T_done"
    using run_progress [OF assms(1-3)] steps_left_bound [of w] assms(4) steps_left_zero [of w'] by fastforce
  moreover obtain as1 as2 acc1 acc2 w1 where s: "acts = as1 @ as2" "acc = acc1 @ acc2"
    "writer_run as1 w = (acc1, w1)" "bw_thread w1 = T_done" "bw_queue w1 = []" "writer_run as2 w1 = (acc2, w')"
    using done_split [OF _ assms(3) calculation] assms(2) by blast
  moreover from done_keeps [OF s(4,6)] s(5) have "bw_queue w' = acc2" "bw_handed w' = bw_handed w1" by simp_all
  ultimately show ?thesis by blast
qed

definition ex_stopping :: batch_writer where
  "ex_stopping = (writer_init 2 (Fin 1) 10 0)\<lparr>bw_thread := T_waiting, bw_stop := True,
     bw_queue := [\<lparr>qr_path = ''a'', qr_row = [], qr_enqueue_ns = 1\<rparr>]\<rparr>"

lemma thread_steps_take_nothing: "fst (writer_run (replicate n (A_thread a) @ [A_count]) w) = []"
  by (induction n arbitrary: w) (simp_all add: case_prod_beta)

theorem writer_thread_ends_witness:
  "\<exists>w'. writer_run (A_put ''b'' [] 2 # replicate 11 (A_thread ex_answer) @ [A_count]) ex_stopping
       = ([\<lparr>qr_path = ''b'', qr_row = [], qr_enqueue_ns = 2\<rparr>], w') \<and> bw_thread w' = T_done"
proof -
  let ?acts = "A_put ''b'' [] 2 # replicate 11 (A_thread ex_answer) @ [A_count]"
  let ?r = "\<lparr>qr_path = ''b'', qr_row = [], qr_enqueue_ns = 2\<rparr>"
  obtain w1 where put: "writer_act (A_put ''b'' [] 2) ex_stopping = (Some ?r, w1)"
    by (simp add: enqueue_put_def ex_stopping_def writer_init_def writer_start_def annotate_writer_enqueue_def vget_def Let_def)
  obtain w' where "writer_run (replicate 11 (A_thread ex_answer) @ [A_count]) w1 = ([], w')"
    using thread_steps_take_nothing [of 11 ex_answer w1] by (metis prod.collapse)
  with put have r: "writer_run ?acts ex_stopping = ([?r], w')"
    by (simp only: writer_run.simps split_conv option.case)
  have "bw_stop ex_stopping" "bw_thread ex_stopping \<notin> {T_idle, T_done}" "length (bw_queue ex_stopping) = 1"
    "thread_steps ?acts = 11"
    by (simp_all add: ex_stopping_def thread_steps_def)
  with writer_thread_ends [OF _ _ r] r show ?thesis by simp
qed

subsection \<open>After the end\<close>

text \<open>
  A record that is put after the thread has ended is accepted and counted as enqueued, but stays in the
  queue: by \<open>done_keeps\<close> no step hands it over, while the report keeps its completed flush.
\<close>

lemma record_after_end_is_lost:
  assumes "bw_thread w = T_done" and "length (bw_queue w) < bw_queue_max w"
  shows "case enqueue_jsonl path row t0 t1 w of (r, w') \<Rightarrow> en_enqueued r \<and> \<not> en_dropped r
     \<and> bw_enqueued w' = bw_enqueued w + 1 \<and> bw_handed w' = bw_handed w
     \<and> bw_flush_completed w' = bw_flush_completed w \<and> length (bw_queue w') = Suc (length (bw_queue w))"
  using assms by (simp add: enqueue_jsonl_def enqueue_put_def writer_start_def enqueue_count_def sample_depth_def Let_def)

end
