(* ===== verification/StrategyShells.thy ===== *)
theory StrategyShells
  imports MarketState
begin

text \<open>
  The small modules between a quote and an order: the fair value of
  \<open>app/strategy/probability_model.py\<close>, the signals of \<open>app/strategy/mispricing_detector.py\<close>, the gate of
  \<open>app/risk/risk_gate.py\<close>, the two executors of \<open>app/execution\<close> and the trace of
  \<open>app/core/telemetry.py\<close>. Fresh identifiers are arguments.
\<close>

definition fair_probability :: "market_tick option \<Rightarrow> order_book_top option \<Rightarrow> pyfloat option" where
  "fair_probability tick book =
     (if tick = None \<and> book = None then None
      else (let mid = (case book of
                  Some b \<Rightarrow> fdiv (fadd (top_bid_price b) (top_ask_price b)) (Fin 2)
                | None \<Rightarrow> (case tick of Some t \<Rightarrow> tick_price t | None \<Rightarrow> fzero))
            in Some (pymax fzero (pymin (Fin 1) mid))))"

record mispricing_detector =
  md_strategy_id :: string
  md_min_edge_bps :: pyfloat

definition signal_of :: "mispricing_detector \<Rightarrow> polymarket_quote \<Rightarrow> pyfloat \<Rightarrow> order_side \<Rightarrow> pyfloat \<Rightarrow> pyfloat
    \<Rightarrow> signal_event" where
  "signal_of d q fair side price edge = \<lparr>sig_strategy_id = md_strategy_id d, sig_market_id = pq_market_id q,
     sig_token_id = pq_token_id q, sig_side = side, sig_fair_probability = fair, sig_quoted_probability = price,
     sig_edge_bps = edge, sig_confidence = fzero,
     sig_features = [(''source_sequence'', case sequence_no q of None \<Rightarrow> VNone | Some n \<Rightarrow> VInt n)]\<rparr>"

definition evaluate :: "mispricing_detector \<Rightarrow> polymarket_quote \<Rightarrow> pyfloat \<Rightarrow> signal_event option" where
  "evaluate d q fair =
     (let buy_edge = fmul (fsub fair (ask_probability q)) (Fin 10000);
          sell_edge = fmul (fsub (bid_probability q) fair) (Fin 10000)
      in if fle (md_min_edge_bps d) buy_edge then Some (signal_of d q fair BUY (ask_probability q) buy_edge)
         else if fle (md_min_edge_bps d) sell_edge then Some (signal_of d q fair SELL (bid_probability q) sell_edge)
         else None)"

record risk_gate =
  rg_max_order_size :: pyfloat
  rg_min_confidence :: pyfloat

definition approve :: "risk_gate \<Rightarrow> signal_event \<Rightarrow> bool" where
  "approve g s \<longleftrightarrow> fle (rg_min_confidence g) (sig_confidence s)"

definition format_2f :: "pyfloat \<Rightarrow> string" where
  \<comment> \<open>\<open>f"{x:.2f}"\<close>; a negative zero is not told apart\<close>
  "format_2f x = (case x of PInf \<Rightarrow> ''inf'' | NInf \<Rightarrow> ''-inf'' | NaN \<Rightarrow> ''nan''
     | Fin r \<Rightarrow> (let n = rhe (\<bar>r\<bar> * 100); cents = int_digits (n mod 100) in
         (if r < 0 then ''-'' else []) @ int_digits (n div 100) @ ''.'' @ (if length cents = 1 then CHR ''0'' # cents else cents)))"

definition to_order_intent :: "risk_gate \<Rightarrow> signal_event \<Rightarrow> pyfloat \<Rightarrow> string \<Rightarrow> order_intent option" where
  "to_order_intent g s amount order_id =
     (if \<not> approve g s then None
      else Some \<lparr>oi_strategy_id = sig_strategy_id s, oi_market_id = sig_market_id s, oi_token_id = sig_token_id s,
        oi_side = sig_side s, oi_order_type = LIMIT, oi_limit_price = Some (sig_quoted_probability s),
        oi_size = pymin amount (rg_max_order_size g), oi_time_in_force = IOC,
        oi_reason = ''edge_bps='' @ format_2f (sig_edge_bps s), oi_client_order_id = order_id\<rparr>)"

definition paper_submit :: "order_intent \<Rightarrow> execution_report" where
  "paper_submit i = \<lparr>er_client_order_id = oi_client_order_id i, er_venue_order_id = None, er_status = ACCEPTED,
     er_filled_size = fzero, er_avg_fill_price = None, er_reject_reason = None,
     er_raw = [(''mode'', VStr ''paper'')]\<rparr>"

definition polymarket_submit :: "order_intent \<Rightarrow> execution_report" where
  "polymarket_submit i = \<lparr>er_client_order_id = oi_client_order_id i, er_venue_order_id = None, er_status = REJECTED,
     er_filled_size = fzero, er_avg_fill_price = None, er_reject_reason = Some ''live execution is not implemented'',
     er_raw = [(''mode'', VStr ''live_stub'')]\<rparr>"

definition build_latency_trace :: "string \<Rightarrow> int \<Rightarrow> string option \<Rightarrow> int option \<Rightarrow> latency_trace" where
  "build_latency_trace trace recv source execution = \<lparr>lt_trace_id = trace, lt_source_event_id = source,
     lt_recv_ns = recv, lt_normalized_ns = None, lt_strategy_ns = None, lt_risk_ns = None, lt_execution_ns = execution\<rparr>"

subsection \<open>From a quote to an order\<close>

definition quote_to_intent ::
  "mispricing_detector \<Rightarrow> risk_gate \<Rightarrow> polymarket_quote \<Rightarrow> pyfloat \<Rightarrow> pyfloat \<Rightarrow> string \<Rightarrow> order_intent option" where
  \<comment> \<open>the detector and the gate in a row\<close>
  "quote_to_intent d g q fair amount order_id =
     Option.bind (evaluate d q fair) (\<lambda>s. to_order_intent g s amount order_id)"

lemma edge_sign:
  assumes "fle m (fmul (fsub x y) (Fin 10000))" and "fless fzero m"
  shows "fless y x"
proof (rule ccontr)
  assume neg: "\<not> fless y x"
  have fin: "x \<noteq> NaN" "y \<noteq> NaN" using assms(1) by (auto simp: fsub_def) (cases x; simp)+
  have "fle (fmul (fsub x y) (Fin 10000)) fzero"
  proof (cases x; cases y)
    fix a b assume xy: "x = Fin a" "y = Fin b"
    then have "a - b \<le> 0" using neg by simp
    then have "fle (f64 (a - b)) fzero" using f64_mono [of "a - b" 0] by simp
    then show ?thesis using xy f64_mono [of _ 0]
      by (cases "f64 (a - b)") (auto simp: fsub_def inf_of_sign_def mult_nonpos_nonneg)
  qed (use neg fin assms in \<open>auto simp: fsub_def inf_of_sign_def\<close>)
  then show False using assms fle_trans fless_fle_trans fless_asym fle_refl by blast
qed

text \<open>
  C40: with a positive required edge an order only buys below and only sells above the fair value, at
  the best price of the quote, and no more than the gate allows.
\<close>

theorem intent_trades_on_the_right_side:
  assumes "quote_to_intent d g q fair amount order_id = Some i" and "fless fzero (md_min_edge_bps d)"
    and "amount \<noteq> NaN" and "rg_max_order_size g \<noteq> NaN"
  shows "fle (oi_size i) (rg_max_order_size g) \<and> oi_client_order_id i = order_id
    \<and> (case oi_side i of BUY \<Rightarrow> oi_limit_price i = Some (ask_probability q) \<and> fless (ask_probability q) fair
       | SELL \<Rightarrow> oi_limit_price i = Some (bid_probability q) \<and> fless fair (bid_probability q))"
proof -
  obtain s where s: "evaluate d q fair = Some s" "to_order_intent g s amount order_id = Some i"
    using assms(1) by (auto simp: quote_to_intent_def bind_eq_Some_conv)
  have i: "oi_side i = sig_side s" "oi_limit_price i = Some (sig_quoted_probability s)"
    "oi_size i = pymin amount (rg_max_order_size g)" "oi_client_order_id i = order_id"
    using s(2) by (auto simp: to_order_intent_def split: if_splits)
  have "fle (oi_size i) (rg_max_order_size g)"
    using assms(3,4) i(3) by (auto simp: pymin_def not_fless_iff)
  moreover have "sig_side s = BUY \<and> sig_quoted_probability s = ask_probability q \<and> fless (ask_probability q) fair
      \<or> sig_side s = SELL \<and> sig_quoted_probability s = bid_probability q \<and> fless fair (bid_probability q)"
    using s(1) edge_sign [OF _ assms(2)]
    by (auto simp: evaluate_def signal_of_def Let_def split: if_splits)
  ultimately show ?thesis using i by auto
qed

lemma ex_intent:
  "map_option oi_side (quote_to_intent \<lparr>md_strategy_id = ''s'', md_min_edge_bps = Fin 25\<rparr>
     \<lparr>rg_max_order_size = Fin 1, rg_min_confidence = fzero\<rparr> ex_quote (Fin (3 / 4)) (Fin 5) ''o'') = Some BUY"
  by code_simp

theorem intent_trades_on_the_right_side_witness:
  "\<exists>i. quote_to_intent \<lparr>md_strategy_id = ''s'', md_min_edge_bps = Fin 25\<rparr>
       \<lparr>rg_max_order_size = Fin 1, rg_min_confidence = fzero\<rparr> ex_quote (Fin (3 / 4)) (Fin 5) ''o'' = Some i
     \<and> fle (oi_size i) (Fin 1) \<and> oi_limit_price i = Some (ask_probability ex_quote)"
proof -
  obtain i where i: "quote_to_intent \<lparr>md_strategy_id = ''s'', md_min_edge_bps = Fin 25\<rparr>
       \<lparr>rg_max_order_size = Fin 1, rg_min_confidence = fzero\<rparr> ex_quote (Fin (3 / 4)) (Fin 5) ''o'' = Some i"
    "oi_side i = BUY" using ex_intent by auto
  then show ?thesis using intent_trades_on_the_right_side [OF i(1)] by simp
qed

end
