(* ===== verification/WsReconnect.thy ===== *)
theory WsReconnect
  imports MarketState
begin

text \<open>
  What the two websocket clients share (\<open>binance_ws.py\<close>, \<open>polymarket_ws.py\<close>): reading integers, the
  heartbeat around \<open>recv\<close>, the delay before a reconnect, and the generator \<open>stream\<close> as a state
  machine whose phase says which \<open>await\<close> or \<open>yield\<close> it is suspended at. The network is an input:
  each \<open>recv\<close> brings a message, a timeout with the outcome of the ping, or an exception.
\<close>

subsection \<open>Numbers\<close>

definition int_of_str :: "string \<Rightarrow> int option" where
  \<comment> \<open>\<open>int(text)\<close>: white space around, a sign, digits with single underscores between them, at most
     4300 digits\<close>
  "int_of_str s0 = (let (neg, t) = split_sign (strip s0); digits = filter (\<lambda>c. c \<noteq> CHR ''_'') t in
     if digits = [] \<or> \<not> list_all is_digit digits \<or> \<not> underscores_ok False t \<or> 4300 < length digits then None
     else Some (if neg then - digits_val digits else digits_val digits))"

definition int_of_val :: "pyval \<Rightarrow> py_error + int" where
  \<comment> \<open>\<open>int(value)\<close>\<close>
  "int_of_val v = (case v of VBool b \<Rightarrow> Inr (if b then 1 else 0) | VInt n \<Rightarrow> Inr n
     | VFloat x \<Rightarrow> (case fint x of Some n \<Rightarrow> Inr n | None \<Rightarrow> Inl (if x = NaN then ValueError else OverflowError))
     | VStr s \<Rightarrow> (case int_of_str s of None \<Rightarrow> Inl ValueError | Some n \<Rightarrow> Inr n)
     | _ \<Rightarrow> Inl TypeError)"

definition float_of_val :: "pyval \<Rightarrow> py_error + pyfloat" where
  \<comment> \<open>\<open>float(value)\<close>\<close>
  "float_of_val v = (case v of VNone \<Rightarrow> Inl TypeError | VList _ \<Rightarrow> Inl TypeError | VDict _ \<Rightarrow> Inl TypeError
     | _ \<Rightarrow> float_from v)"

definition int_from :: "pyval \<Rightarrow> py_error + int" where
  \<comment> \<open>\<open>_int_from\<close> raises a message error, which is a \<open>ValueError\<close>, for a value that is no number or text\<close>
  "int_from v = (case v of VNone \<Rightarrow> Inl ValueError | VList _ \<Rightarrow> Inl ValueError | VDict _ \<Rightarrow> Inl ValueError
     | _ \<Rightarrow> int_of_val v)"

definition int_or_none :: "pyval \<Rightarrow> py_error + int option" where
  "int_or_none v = (if v = VNone then Inr None else map_sum id Some (int_from v))"

definition latency_between :: "int option \<Rightarrow> int option \<Rightarrow> pyfloat option" where
  "latency_between start end_ns = (case (start, end_ns) of (Some a, Some b) \<Rightarrow> Some (ms_of_ns (b - a)) | _ \<Rightarrow> None)"

definition ends_with :: "string \<Rightarrow> string \<Rightarrow> bool" where
  \<comment> \<open>\<open>s.endswith(t)\<close>\<close>
  "ends_with t s \<longleftrightarrow> suffix t s"

definition rstrip_slash :: "string \<Rightarrow> string" where
  "rstrip_slash s = rev (dropWhile (\<lambda>c. c = CHR ''/'') (rev s))"

subsection \<open>Receiving\<close>

datatype recv_answer = R_message string | R_timeout "py_error option" | R_raised py_error

definition recv_with_heartbeat :: "recv_answer \<Rightarrow> (py_error + string) option" where
  \<comment> \<open>one round of the loop, \<open>None\<close> when it goes on waiting after a ping that was answered; a failed
     ping, whatever its exception, raises the heartbeat error, a \<open>RuntimeError\<close>\<close>
  "recv_with_heartbeat a = (case a of R_message m \<Rightarrow> Some (Inr m) | R_timeout None \<Rightarrow> None
     | R_timeout (Some _) \<Rightarrow> Some (Inl RuntimeError) | R_raised e \<Rightarrow> Some (Inl e))"

subsection \<open>The generator\<close>

datatype 'e phase =
    P_start
  | P_connecting
  | P_sending            \<comment> \<open>the subscription\<close>
  | P_receiving
  | P_suspended "'e list"  \<comment> \<open>an event is handed out, the list is what is left of its message\<close>
  | P_closing
  | P_leaving            \<comment> \<open>the end of the \<open>async with\<close> after the last event\<close>
  | P_sleeping pyfloat   \<comment> \<open>before the next attempt\<close>
  | P_returned
  | P_raised py_error
  | P_cancelled

record stream_options =
  so_max_events :: "int option"
  so_max_attempts :: "nat option"
  so_initial_backoff :: pyfloat
  so_max_backoff :: pyfloat

record 'e stream =
  st_phase :: "'e phase"
  st_yielded :: int
  st_attempt :: nat

definition stream_start :: "'e stream" where
  "stream_start = \<lparr>st_phase = P_start, st_yielded = 0, st_attempt = 0\<rparr>"

definition int_times_float :: "int \<Rightarrow> pyfloat \<Rightarrow> py_error + pyfloat" where
  \<comment> \<open>a product of an integer and a float converts the integer, and raises if it is too large\<close>
  "int_times_float n x = (case float_of_int n of Fin y \<Rightarrow> Inr (fmul x (Fin y)) | _ \<Rightarrow> Inl OverflowError)"

definition backoff_delay :: "stream_options \<Rightarrow> nat \<Rightarrow> py_error + pyfloat" where
  \<comment> \<open>\<open>min(max_backoff_sec, initial_backoff_sec * (2**attempt))\<close>\<close>
  "backoff_delay opts attempt =
     map_sum id (pymin (so_max_backoff opts)) (int_times_float (2 ^ attempt) (so_initial_backoff opts))"

definition attempts_used_up :: "stream_options \<Rightarrow> nat \<Rightarrow> bool" where
  "attempts_used_up opts attempt \<longleftrightarrow> (case so_max_attempts opts of None \<Rightarrow> False | Some n \<Rightarrow> n \<le> attempt)"

definition after_exception :: "stream_options \<Rightarrow> py_error \<Rightarrow> ('e, 'z) stream_scheme \<Rightarrow> ('e, 'z) stream_scheme" where
  \<comment> \<open>the handler of \<open>stream\<close>; an exception of the handler itself leaves the generator too\<close>
  "after_exception opts e s =
     (if attempts_used_up opts (st_attempt s) then s\<lparr>st_phase := P_raised e\<rparr>
      else (case backoff_delay opts (st_attempt s) of
        Inl err \<Rightarrow> s\<lparr>st_phase := P_raised err\<rparr>
      | Inr delay \<Rightarrow> s\<lparr>st_phase := P_sleeping delay, st_attempt := Suc (st_attempt s)\<rparr>))"

definition limit_reached :: "stream_options \<Rightarrow> int \<Rightarrow> bool" where
  "limit_reached opts n \<longleftrightarrow> (case so_max_events opts of None \<Rightarrow> False | Some k \<Rightarrow> k \<le> n)"

definition hand_out ::
  "(('e, 'z) stream_scheme \<Rightarrow> ('e, 'z) stream_scheme) \<Rightarrow> 'e list \<Rightarrow> ('e, 'z) stream_scheme
     \<Rightarrow> 'e list \<times> ('e, 'z) stream_scheme" where
  \<comment> \<open>the next event of the message, or the head of the loop when there is none\<close>
  "hand_out head es s = (case es of [] \<Rightarrow> ([], head s) | e # rest \<Rightarrow> ([e], s\<lparr>st_phase := P_suspended rest\<rparr>))"

definition resume ::
  "stream_options \<Rightarrow> (('e, 'z) stream_scheme \<Rightarrow> ('e, 'z) stream_scheme) \<Rightarrow> ('e, 'z) stream_scheme
     \<Rightarrow> 'e list \<times> ('e, 'z) stream_scheme" where
  \<comment> \<open>the consumer asks for the next event; at the limit the \<open>return\<close> has to leave the connection first\<close>
  "resume opts head s = (case st_phase s of
     P_suspended rest \<Rightarrow>
       (let s1 = s\<lparr>st_yielded := st_yielded s + 1\<rparr> in
        if limit_reached opts (st_yielded s1) then ([], s1\<lparr>st_phase := P_leaving\<rparr>) else hand_out head rest s1)
   | _ \<Rightarrow> ([], s))"

definition running :: "'e phase \<Rightarrow> bool" where
  "running p \<longleftrightarrow> (case p of P_start \<Rightarrow> False | P_returned \<Rightarrow> False | P_raised _ \<Rightarrow> False | P_cancelled \<Rightarrow> False
     | _ \<Rightarrow> True)"

subsection \<open>How many failures a stream survives\<close>

lemma power_two_r64: "r64 (2 ^ n) = 2 ^ n"
proof -
  have e: "(of_nat 2 :: rat) powi int n = 2 ^ n" by simp
  have f: "fexp 2 (2 ^ n :: rat) = int n"
    by (rule fexp_unique) (simp_all add: power_int_def nat_add_distrib)
  have q: "quantum_exp 2 53 (-1074) (2 ^ n) \<le> int n" by (simp add: quantum_exp_def f)
  have "round_sig 2 53 (-1074) (2 ^ n) \<le> of_nat 2 powi int n"
    by (rule round_sig_le_power) (use q in simp_all)
  moreover have "of_nat 2 powi int n \<le> round_sig 2 53 (-1074) (2 ^ n)"
    by (rule power_le_round_sig) (use q in simp_all)
  ultimately show ?thesis unfolding e r64_def by simp
qed

lemma power_two_float: "float_of_int (2 ^ n) = (if n < 1024 then Fin (2 ^ n) else PInf)"
proof -
  have "(2 :: rat) ^ 1024 \<le> 2 ^ n \<longleftrightarrow> 1024 \<le> n" by (rule power_increasing_iff) simp
  moreover have "\<not> (2 :: rat) ^ n \<le> - (2 ^ 1024)"
    using zero_less_power [of "2 :: rat" n] zero_less_power [of "2 :: rat" 1024] by linarith
  ultimately show ?thesis
    unfolding float_of_int_def f64_def Let_def of_int_power of_int_numeral power_two_r64 f64_limit_def by auto
qed

lemma backoff_delay_cases:
  "backoff_delay opts n = (if n < 1024 then Inr (pymin (so_max_backoff opts) (fmul (so_initial_backoff opts) (Fin (2 ^ n))))
     else Inl OverflowError)"
  by (simp add: backoff_delay_def int_times_float_def power_two_float)


lemma after_exception_unlimited:
  assumes "so_max_attempts opts = None"
  shows "st_attempt s < 1024 \<Longrightarrow> after_exception opts e s = s\<lparr>st_phase := P_sleeping (pymin (so_max_backoff opts)
           (fmul (so_initial_backoff opts) (Fin (2 ^ st_attempt s)))), st_attempt := Suc (st_attempt s)\<rparr>"
    and "1024 \<le> st_attempt s \<Longrightarrow> after_exception opts e s = s\<lparr>st_phase := P_raised OverflowError\<rparr>"
  using assms by (simp_all add: after_exception_def attempts_used_up_def backoff_delay_cases)

end
