(* ===== verification/BinanceStream.thy ===== *)
theory BinanceStream
  imports WsReconnect PolyBook
begin

text \<open>
  The client of \<open>app/marketdata/binance_ws.py\<close>: the combined stream it subscribes to, the
  normalisation of a message into an event, and \<open>stream\<close> with its reconnects. \<open>orjson.loads\<close> is the
  parameter \<open>loads\<close> (\<open>None\<close> for a decoding error); clock readings and fresh event ids are inputs.
\<close>

subsection \<open>The stream\<close>

definition stream_names :: "string list \<Rightarrow> string list \<Rightarrow> string list" where
  "stream_names symbols streams = [lower (upper symbol) @ ''@'' @ stream. symbol \<leftarrow> symbols, stream \<leftarrow> streams]"

definition stream_url :: "string \<Rightarrow> string list \<Rightarrow> string list \<Rightarrow> string" where
  "stream_url url symbols streams =
     (if sublist ''streams='' url then url
      else let base0 = rstrip_slash url;
               base1 = (if ends_with ''/ws'' base0 then take (length base0 - 3) base0 else base0);
               base = (if ends_with ''/stream'' base1 then base1 else base1 @ ''/stream'')
           in base @ ''?streams='' @ join_with ''/'' (stream_names symbols streams))"

subsection \<open>Normalising a message\<close>

record message_times =
  mt_event_id :: string           \<comment> \<open>the default factories of the event model\<close>
  mt_ts_ns :: int
  mt_utc_now :: int               \<comment> \<open>read when the caller gives no time\<close>
  mt_monotonic_now :: int
  mt_local_received :: "int option"  \<comment> \<open>the arguments of \<open>normalize_message\<close>\<close>
  mt_recv_monotonic :: "int option"
  mt_socket_recv :: "int option"
  mt_raw_callback :: "int option"
  mt_ws_received :: "int option"
  mt_dispatch_start :: "int option"
  mt_parse_start :: int           \<comment> \<open>read while it runs\<close>
  mt_parse_done :: int
  mt_parse_done_monotonic :: int

definition base_event :: "message_times \<Rightarrow> int option \<Rightarrow> int option \<Rightarrow> realtime_event" where
  \<comment> \<open>the fields every normalised event has: the exchange's time, then the sequence number\<close>
  "base_event t exchange seq_no =
     (let recv = int_or (mt_recv_monotonic t) (mt_monotonic_now t);
          ws = int_or (mt_ws_received t) recv;
          raw = int_or (mt_raw_callback t) ws;
          dispatch = int_or (mt_dispatch_start t) ws
      in \<lparr>event_id = mt_event_id t, ts_ns = mt_ts_ns t, exchange_event_ts = exchange,
          local_received_ts = Some (int_or (mt_local_received t) (mt_utc_now t)),
          parse_done_ts = Some (mt_parse_done t), state_updated_ts = None,
          recv_monotonic_ns = Some recv, parse_done_monotonic_ns = Some (mt_parse_done_monotonic t),
          state_updated_monotonic_ns = None, socket_recv_monotonic_ns = mt_socket_recv t,
          raw_ws_callback_monotonic_ns = Some raw, ws_message_received_monotonic_ns = Some ws,
          message_dispatch_start_monotonic_ns = Some dispatch, parse_start_monotonic_ns = Some (mt_parse_start t),
          parse_end_monotonic_ns = Some (mt_parse_done_monotonic t),
          latency_ms = latency_between (Some recv) (Some (mt_parse_done_monotonic t)),
          exchange_ts_ns = exchange, sequence_no = seq_no\<rparr>)"

definition event_ts_ms_to_ns :: "pyval \<Rightarrow> py_error + int option" where
  "event_ts_ms_to_ns v = (if v = VNone then Inr None else map_sum id (\<lambda>n. Some (n * 1000000)) (int_from v))"

definition decode_payload :: "(string \<Rightarrow> pyval option) \<Rightarrow> string \<Rightarrow> py_error + (string \<times> pyval) list" where
  "decode_payload loads raw = (case loads raw of Some (VDict d) \<Rightarrow> Inr d | _ \<Rightarrow> Inl ValueError)"

definition message_data :: "(string \<times> pyval) list \<Rightarrow> py_error + (string \<times> pyval) list" where
  "message_data p = (case map_of p ''data'' of None \<Rightarrow> Inr p | Some (VDict d) \<Rightarrow> Inr d | _ \<Rightarrow> Inl ValueError)"

definition is_agg_trade :: "(string \<times> pyval) list \<Rightarrow> string \<Rightarrow> bool" where
  "is_agg_trade d stream \<longleftrightarrow> vget d ''e'' = VStr ''aggTrade'' \<or> ends_with ''@aggTrade'' stream"

definition is_book_ticker :: "(string \<times> pyval) list \<Rightarrow> string \<Rightarrow> bool" where
  "is_book_ticker d stream \<longleftrightarrow> ends_with ''@bookTicker'' stream
     \<or> {''u'', ''b'', ''B'', ''a'', ''A''} \<subseteq> fst ` set d"

definition is_depth_update :: "(string \<times> pyval) list \<Rightarrow> string \<Rightarrow> bool" where
  "is_depth_update d stream \<longleftrightarrow> vget d ''e'' = VStr ''depthUpdate'' \<or> sublist ''@depth'' stream"

definition float_at :: "(string \<times> pyval) list \<Rightarrow> string \<Rightarrow> py_error + pyfloat" where
  "float_at d k = and_then (dict_item d k) float_of_val"

definition int_at :: "(string \<times> pyval) list \<Rightarrow> string \<Rightarrow> py_error + int" where
  "int_at d k = and_then (dict_item d k) int_of_val"

definition normalize_agg_trade :: "(string \<times> pyval) list \<Rightarrow> message_times \<Rightarrow> py_error + market_tick" where
  "normalize_agg_trade d t =
     and_then (event_ts_ms_to_ns (val_or (vget d ''E'') (vget d ''T''))) (\<lambda>exchange.
     and_then (dict_item d ''s'') (\<lambda>symbol.
     and_then (float_at d ''p'') (\<lambda>price.
     and_then (float_at d ''q'') (\<lambda>qty.
     and_then (int_or_none (vget d ''a'')) (\<lambda>seq_no.
       Inr (realtime_event.extend (base_event t exchange seq_no)
         (market_tick.fields Binance (upper (py_str symbol)) price qty)))))))"

definition ticker_symbol :: "(string \<times> pyval) list \<Rightarrow> string \<Rightarrow> string" where
  "ticker_symbol d stream =
     upper (py_str (val_or (vget d ''s'') (VStr (takeWhile (\<lambda>c. c \<noteq> CHR ''@'') stream))))"

definition normalize_book_ticker ::
  "(string \<times> pyval) list \<Rightarrow> string \<Rightarrow> message_times \<Rightarrow> py_error + order_book_top" where
  "normalize_book_ticker d stream t =
     and_then (float_at d ''b'') (\<lambda>bid.
     and_then (float_at d ''B'') (\<lambda>bid_size.
     and_then (float_at d ''a'') (\<lambda>ask.
     and_then (float_at d ''A'') (\<lambda>ask_size.
     and_then (int_or_none (vget d ''u'')) (\<lambda>seq_no.
       Inr (realtime_event.extend (base_event t None seq_no)
         (order_book_top.fields Binance (ticker_symbol d stream) bid bid_size ask ask_size)))))))"

definition book_level_of :: "pyval \<Rightarrow> py_error + book_level" where
  "book_level_of row = (case row of VList (p # q # _) \<Rightarrow>
       and_then (float_from p) (\<lambda>price. and_then (float_from q) (\<lambda>qty.
         Inr \<lparr>level_price = price, level_size = qty\<rparr>))
     | _ \<Rightarrow> Inl ValueError)"

fun book_levels :: "pyval list \<Rightarrow> py_error + book_level list" where
  "book_levels [] = Inr []"
| "book_levels (row # rows) = and_then (book_level_of row) (\<lambda>l. and_then (book_levels rows) (\<lambda>ls. Inr (l # ls)))"

definition book_levels_at :: "(string \<times> pyval) list \<Rightarrow> string \<Rightarrow> py_error + book_level list" where
  "book_levels_at d k = (case map_of d k of None \<Rightarrow> Inr [] | Some (VList rows) \<Rightarrow> book_levels rows
     | Some _ \<Rightarrow> Inl ValueError)"

definition normalize_depth_update :: "(string \<times> pyval) list \<Rightarrow> message_times \<Rightarrow> py_error + depth_update" where
  "normalize_depth_update d t =
     and_then (event_ts_ms_to_ns (vget d ''E'')) (\<lambda>exchange.
     and_then (dict_item d ''s'') (\<lambda>symbol.
     and_then (int_at d ''U'') (\<lambda>first.
     and_then (int_at d ''u'') (\<lambda>final.
     and_then (int_or_none (vget d ''pu'')) (\<lambda>previous.
     and_then (book_levels_at d ''b'') (\<lambda>bids.
     and_then (book_levels_at d ''a'') (\<lambda>asks.
     and_then (int_or_none (vget d ''u'')) (\<lambda>seq_no.
       Inr (realtime_event.extend (base_event t exchange seq_no)
         (depth_update.fields Binance (upper (py_str symbol)) first final previous bids asks))))))))))"

definition normalize_data ::
  "(string \<times> pyval) list \<Rightarrow> string \<Rightarrow> message_times \<Rightarrow> py_error + market_event" where
  "normalize_data d stream t =
     (if is_agg_trade d stream then map_sum id E_tick (normalize_agg_trade d t)
      else if is_book_ticker d stream then map_sum id E_top (normalize_book_ticker d stream t)
      else if is_depth_update d stream then map_sum id E_depth (normalize_depth_update d t)
      else Inl ValueError)"

definition normalize_binance ::
  "(string \<Rightarrow> pyval option) \<Rightarrow> string \<Rightarrow> message_times \<Rightarrow> py_error + market_event list" where
  \<comment> \<open>\<open>BinanceWSClient.normalize_message\<close>: one event per message\<close>
  "normalize_binance loads raw t =
     and_then (decode_payload loads raw) (\<lambda>payload.
     and_then (message_data payload) (\<lambda>d.
     and_then (normalize_data d (case map_of payload ''stream'' of None \<Rightarrow> [] | Some v \<Rightarrow> py_str v) t) (\<lambda>e.
       Inr [e])))"

subsection \<open>The generator\<close>

datatype binance_input =
    B_start
  | B_connected "py_error option"  \<comment> \<open>the context manager opens the connection or raises\<close>
  | B_recv recv_answer message_times
  | B_next                         \<comment> \<open>the consumer asks for the next event\<close>
  | B_wake
  | B_closed "py_error option"     \<comment> \<open>the end of the \<open>async with\<close>\<close>
  | B_cancel

type_synonym binance_stream = "market_event stream"

definition receiving :: "('e, 'z) stream_scheme \<Rightarrow> ('e, 'z) stream_scheme" where
  "receiving s = s\<lparr>st_phase := P_receiving\<rparr>"

definition binance_message ::
  "stream_options \<Rightarrow> (string \<Rightarrow> pyval option) \<Rightarrow> string \<Rightarrow> message_times \<Rightarrow> binance_stream
     \<Rightarrow> market_event list \<times> binance_stream" where
  "binance_message opts loads raw t s = (case normalize_binance loads raw t of
     Inl e \<Rightarrow> ([], after_exception opts e s) | Inr es \<Rightarrow> hand_out receiving es s)"

definition binance_step ::
  "stream_options \<Rightarrow> (string \<Rightarrow> pyval option) \<Rightarrow> binance_input \<Rightarrow> binance_stream
     \<Rightarrow> market_event list \<times> binance_stream" where
  \<comment> \<open>the events the step yields; an input that does not fit the phase changes nothing\<close>
  "binance_step opts loads i s = (case (st_phase s, i) of
     (P_start, B_start) \<Rightarrow> ([], s\<lparr>st_phase := P_connecting\<rparr>)
   | (P_connecting, B_connected None) \<Rightarrow> ([], receiving (s\<lparr>st_attempt := 0\<rparr>))
   | (P_connecting, B_connected (Some e)) \<Rightarrow> ([], after_exception opts e s)
   | (P_receiving, B_recv a t) \<Rightarrow> (case recv_with_heartbeat a of None \<Rightarrow> ([], s)
       | Some (Inl e) \<Rightarrow> ([], after_exception opts e s)
       | Some (Inr raw) \<Rightarrow> binance_message opts loads raw t s)
   | (P_suspended _, B_next) \<Rightarrow> resume opts receiving s
   | (P_leaving, B_closed None) \<Rightarrow> ([], s\<lparr>st_phase := P_returned\<rparr>)
   | (P_leaving, B_closed (Some e)) \<Rightarrow> ([], after_exception opts e s)
   | (P_sleeping _, B_wake) \<Rightarrow> ([], s\<lparr>st_phase := P_connecting\<rparr>)
   | (p, B_cancel) \<Rightarrow> ([], if running p then s\<lparr>st_phase := P_cancelled\<rparr> else s)
   | _ \<Rightarrow> ([], s))"

fun binance_run ::
  "stream_options \<Rightarrow> (string \<Rightarrow> pyval option) \<Rightarrow> binance_input list \<Rightarrow> binance_stream
     \<Rightarrow> market_event list \<times> binance_stream" where
  "binance_run opts loads [] s = ([], s)"
| "binance_run opts loads (i # is) s = (case binance_step opts loads i s of (es, s1) \<Rightarrow>
     (case binance_run opts loads is s1 of (es', s2) \<Rightarrow> (es @ es', s2)))"

end
