(* ===== verification/PolyStream.thy ===== *)
theory PolyStream
  imports BinanceStream PolyRun MarketWindow
begin

text \<open>
  The client of \<open>app/marketdata/polymarket_ws.py\<close>: the metadata of the tokens it subscribes to, the
  normalisation of messages through the token books, the subscription with its versions and
  diagnostics, and \<open>stream\<close> as a state machine that interleaves with \<open>update_markets\<close>.
  \<open>orjson.loads\<close> is the parameter \<open>loads\<close>; the network, the clocks and fresh event ids are inputs.
\<close>

subsection \<open>Metadata\<close>

definition market_ws_url :: "string \<Rightarrow> string" where
  "market_ws_url url = (let cleaned = rstrip_slash url in
     if ends_with ''/market'' cleaned then cleaned
     else if ends_with ''/ws'' cleaned then cleaned @ ''/market'' else cleaned)"

definition side_label_for_outcome :: "string \<Rightarrow> side_label" where
  "side_label_for_outcome outcome =
     (let normalized = map (\<lambda>c. if c = CHR ''-'' \<or> c = CHR '' '' then CHR ''_'' else c) (upper (strip outcome)) in
      case map_of [(''YES'', L_YES), (''NO'', L_NO), (''UP'', L_UP), (''DOWN'', L_DOWN), (''ABOVE'', L_ABOVE),
                   (''BELOW'', L_BELOW), (''HIGHER'', L_HIGHER), (''LOWER'', L_LOWER)] normalized of
        Some l \<Rightarrow> l | None \<Rightarrow> L_UNKNOWN)"

definition metadata_of_token :: "market_metadata \<Rightarrow> string \<Rightarrow> token_metadata" where
  "metadata_of_token m outcome = \<lparr>tm_condition_id = Some (mm_condition_id m), tm_market_id = mm_market_id m,
     tm_side_label = side_label_for_outcome outcome, tm_market_slug = Some (mm_market_slug m),
     tm_base_asset = mm_base_asset m, tm_duration_minutes = mm_duration_minutes m,
     tm_token_outcome = Some outcome, tm_tick_size = mm_tick_size m\<rparr>"

definition unknown_metadata :: "side_label \<Rightarrow> token_metadata" where
  \<comment> \<open>a token of no known market\<close>
  "unknown_metadata label = \<lparr>tm_condition_id = None, tm_market_id = [], tm_side_label = label,
     tm_market_slug = None, tm_base_asset = None, tm_duration_minutes = None, tm_token_outcome = None,
     tm_tick_size = f64 (1 / 100)\<rparr>"

type_synonym token_metadata_dict = "(string \<times> token_metadata) list"

definition add_market :: "market_metadata \<Rightarrow> token_metadata_dict \<Rightarrow> token_metadata_dict" where
  "add_market m d = fold (\<lambda>(token, outcome). AList.update token (metadata_of_token m outcome)) (mm_token_outcomes m) d"

definition override_label :: "string \<times> side_label \<Rightarrow> token_metadata_dict \<Rightarrow> token_metadata_dict" where
  "override_label given d = (case given of (token, label) \<Rightarrow> AList.update token
     (case map_of d token of None \<Rightarrow> unknown_metadata label | Some m \<Rightarrow> m\<lparr>tm_side_label := label\<rparr>) d)"

definition add_unknown :: "string \<Rightarrow> token_metadata_dict \<Rightarrow> token_metadata_dict" where
  \<comment> \<open>\<open>setdefault\<close>\<close>
  "add_unknown token d = (if map_of d token = None then AList.update token (unknown_metadata L_UNKNOWN) d else d)"

definition build_token_metadata ::
  "market_metadata list \<Rightarrow> string list \<Rightarrow> (string \<times> side_label) list \<Rightarrow> token_metadata_dict" where
  "build_token_metadata markets tokens overrides =
     fold add_unknown tokens (fold override_label overrides (fold add_market markets []))"

subsection \<open>Normalising a message\<close>

record message_clock =
  mc_utc_now :: int             \<comment> \<open>read when the caller gives no time\<close>
  mc_monotonic_now :: int
  mc_received :: "int option"   \<comment> \<open>the arguments of \<open>normalize_message\<close>\<close>
  mc_recv_monotonic :: "int option"
  mc_parse_done :: int          \<comment> \<open>read after decoding\<close>
  mc_parse_done_monotonic :: int
  mc_fresh :: "nat \<Rightarrow> string \<times> int"  \<comment> \<open>id and time stamp of the n-th event made\<close>

definition mc_received_ts :: "message_clock \<Rightarrow> int" where
  "mc_received_ts c = int_or (mc_received c) (mc_utc_now c)"

definition mc_recv_mono :: "message_clock \<Rightarrow> int" where
  "mc_recv_mono c = int_or (mc_recv_monotonic c) (mc_monotonic_now c)"

definition timestamp_to_ns :: "pyval \<Rightarrow> py_error + int option" where
  "timestamp_to_ns v =
     (if v = VNone then Inr None
      else let raw = py_str v in
        if raw = [] then Inr None
        else (case int_of_str raw of None \<Rightarrow> Inl ValueError
          | Some timestamp \<Rightarrow>
              let digits = length (dropWhile (\<lambda>c. c = CHR ''-'') raw) in
              Inr (Some (if digits \<le> 10 then timestamp * 1000000000
                else if digits \<le> 13 then timestamp * 1000000
                else if digits \<le> 16 then timestamp * 1000 else timestamp))))"

definition decode_payloads :: "(string \<Rightarrow> pyval option) \<Rightarrow> string \<Rightarrow> py_error + (string \<times> pyval) list list" where
  "decode_payloads loads raw = (case loads raw of
     Some (VList items) \<Rightarrow> Inr [d. VDict d \<leftarrow> items] | Some (VDict d) \<Rightarrow> Inr [d] | _ \<Rightarrow> Inl ValueError)"

definition quote_inputs_at :: "message_clock \<Rightarrow> int option \<Rightarrow> nat \<Rightarrow> pyval \<Rightarrow> quote_inputs" where
  "quote_inputs_at c event_ts n seq_no = \<lparr>qin_event_id = fst (mc_fresh c n), qin_ts_ns = snd (mc_fresh c n),
     qin_received = mc_received_ts c, qin_parse_done = mc_parse_done c, qin_recv_monotonic = mc_recv_mono c,
     qin_parse_done_monotonic = mc_parse_done_monotonic c, qin_event_ts = event_ts, qin_sequence = seq_no\<rparr>"

definition poly_base_event :: "message_clock \<Rightarrow> int option \<Rightarrow> nat \<Rightarrow> realtime_event" where
  "poly_base_event c event_ts n = \<lparr>event_id = fst (mc_fresh c n), ts_ns = snd (mc_fresh c n),
     exchange_event_ts = event_ts, local_received_ts = Some (mc_received_ts c),
     parse_done_ts = Some (mc_parse_done c), state_updated_ts = None,
     recv_monotonic_ns = Some (mc_recv_mono c), parse_done_monotonic_ns = Some (mc_parse_done_monotonic c),
     state_updated_monotonic_ns = None, socket_recv_monotonic_ns = None, raw_ws_callback_monotonic_ns = None,
     ws_message_received_monotonic_ns = None, message_dispatch_start_monotonic_ns = None,
     parse_start_monotonic_ns = None, parse_end_monotonic_ns = None,
     latency_ms = Some (ms_of_ns (mc_parse_done_monotonic c - mc_recv_mono c)),
     exchange_ts_ns = event_ts, sequence_no = None\<rparr>"

definition tick_from_trade ::
  "(string \<times> pyval) list \<Rightarrow> message_clock \<Rightarrow> int option \<Rightarrow> nat \<Rightarrow> py_error + market_tick" where
  "tick_from_trade p c event_ts n =
     and_then (float_item p ''price'') (\<lambda>price.
     and_then (case map_of p ''size'' of None \<Rightarrow> Inr fzero | Some v \<Rightarrow> float_from v) (\<lambda>qty.
       Inr (realtime_event.extend (poly_base_event c event_ts n)
         (market_tick.fields Polymarket (py_str (val_or (vget p ''asset_id'') (vget p ''token_id''))) price qty))))"

definition lifecycle_type_of :: "string \<Rightarrow> lifecycle_type option" where
  "lifecycle_type_of t = map_of [(''tick_size_change'', TickSizeChange), (''new_market'', NewMarket),
     (''market_resolved'', MarketResolved), (''closed'', Closed), (''expired'', Expired)] t"

definition lifecycle_event_of ::
  "lifecycle_type \<Rightarrow> (string \<times> pyval) list \<Rightarrow> message_clock \<Rightarrow> int option \<Rightarrow> nat
     \<Rightarrow> py_error + market_lifecycle_event" where
  "lifecycle_event_of lt p c event_ts n =
     and_then (optional_float (vget p ''old_tick_size'')) (\<lambda>old.
     and_then (optional_float (val_or (vget p ''new_tick_size'') (vget p ''tick_size''))) (\<lambda>new.
       Inr (realtime_event.extend (poly_base_event c event_ts n)
         (market_lifecycle_event.fields
           (py_str (val_or (vget p ''market'') (val_or (vget p ''market_id'') (VStr []))))
           (if vget p ''asset_id'' = VNone \<and> vget p ''token_id'' = VNone then None
            else Some (py_str (val_or (vget p ''asset_id'') (vget p ''token_id''))))
           lt old new p event_ts (Some (mc_received_ts c))))))"

definition apply_lifecycle :: "market_lifecycle_event \<Rightarrow> poly_book \<Rightarrow> poly_book" where
  "apply_lifecycle l pb = (case ml_lifecycle_type l of
     TickSizeChange \<Rightarrow> (case ml_new_tick_size l of None \<Rightarrow> pb
       | Some tick \<Rightarrow> if tick = fzero then pb else update_tick_size (ml_market_id l) (ml_token_id l) tick pb)
   | NewMarket \<Rightarrow> pb
   | _ \<Rightarrow> mark_market_invalid (ml_market_id l) pb)"

definition price_change_rows :: "(string \<times> pyval) list \<Rightarrow> (string \<times> pyval) list list" where
  "price_change_rows p = (case vget p ''price_changes'' of VList xs \<Rightarrow> [row. VDict row \<leftarrow> xs] | _ \<Rightarrow> [p])"

fun quotes_from_price_change ::
  "message_clock \<Rightarrow> int option \<Rightarrow> (string \<times> pyval) list \<Rightarrow> (string \<times> pyval) list list \<Rightarrow> nat \<Rightarrow> poly_book
     \<Rightarrow> polymarket_quote list outcome" where
  "quotes_from_price_change c event_ts p [] n pb = (Inr [], pb)"
| "quotes_from_price_change c event_ts p (row # rows) n pb =
     (case apply_price_change row p
             (quote_inputs_at c event_ts n (val_or (vget row ''hash'') (vget p ''hash''))) pb of
        (Inl e, pb1) \<Rightarrow> (Inl e, pb1)
      | (Inr q, pb1) \<Rightarrow> (case quotes_from_price_change c event_ts p rows (Suc n) pb1 of
            (Inl e, pb2) \<Rightarrow> (Inl e, pb2) | (Inr qs, pb2) \<Rightarrow> (Inr (q # qs), pb2)))"

definition event_type_of :: "(string \<times> pyval) list \<Rightarrow> string" where
  "event_type_of p = (case map_of p ''event_type'' of None \<Rightarrow> [] | Some v \<Rightarrow> py_str v)"

definition one_event :: "('a \<Rightarrow> market_event) \<Rightarrow> 'a outcome \<Rightarrow> market_event list outcome" where
  "one_event f r = map_prod (map_sum id (\<lambda>x. [f x])) id r"

definition normalize_payload ::
  "message_clock \<Rightarrow> (string \<times> pyval) list \<Rightarrow> nat \<Rightarrow> poly_book \<Rightarrow> market_event list outcome" where
  \<comment> \<open>one payload of a message, of which \<open>n\<close> events have been made\<close>
  "normalize_payload c p n pb =
     (let event_type = event_type_of p in
      case timestamp_to_ns (vget p ''timestamp'') of Inl e \<Rightarrow> (Inl e, pb)
      | Inr event_ts \<Rightarrow>
          let inp = quote_inputs_at c event_ts n (vget p ''hash'') in
          if event_type = ''book'' then one_event E_quote (apply_book p inp pb)
          else if event_type = ''price_change'' then
            map_prod (map_sum id (map E_quote)) id
              (quotes_from_price_change c event_ts p (price_change_rows p) n pb)
          else if event_type = ''best_bid_ask'' then one_event E_quote (apply_best_bid_ask p inp pb)
          else if event_type = ''last_trade_price'' \<or> event_type = ''trade'' then
            one_event E_tick (tick_from_trade p c event_ts n, pb)
          else (case lifecycle_type_of event_type of None \<Rightarrow> (Inl ValueError, pb)
            | Some lt \<Rightarrow> (case lifecycle_event_of lt p c event_ts n of Inl e \<Rightarrow> (Inl e, pb)
                | Inr l \<Rightarrow> (Inr [E_lifecycle l], apply_lifecycle l pb))))"

fun normalize_payloads ::
  "message_clock \<Rightarrow> (string \<times> pyval) list list \<Rightarrow> nat \<Rightarrow> poly_book \<Rightarrow> market_event list outcome" where
  \<comment> \<open>an exception loses the events made before it, not what it did to the books\<close>
  "normalize_payloads c [] n pb = (Inr [], pb)"
| "normalize_payloads c (p # ps) n pb = (case normalize_payload c p n pb of
     (Inl e, pb1) \<Rightarrow> (Inl e, pb1)
   | (Inr es, pb1) \<Rightarrow> (case normalize_payloads c ps (n + length es) pb1 of
        (Inl e, pb2) \<Rightarrow> (Inl e, pb2) | (Inr es', pb2) \<Rightarrow> (Inr (es @ es'), pb2)))"

definition normalize_polymarket ::
  "(string \<Rightarrow> pyval option) \<Rightarrow> string \<Rightarrow> message_clock \<Rightarrow> poly_book \<Rightarrow> market_event list outcome" where
  \<comment> \<open>\<open>PolymarketWSClient.normalize_message\<close>\<close>
  "normalize_polymarket loads raw c pb = (case decode_payloads loads raw of
     Inl e \<Rightarrow> (Inl e, pb) | Inr ps \<Rightarrow> normalize_payloads c ps 0 pb)"

subsection \<open>The client\<close>

record poly_client = "market_event stream" +
  pc_url :: string
  pc_markets :: "market_metadata list"
  pc_token_ids :: "string list"
  pc_overrides :: "(string \<times> side_label) list"  \<comment> \<open>empty when none are given\<close>
  pc_books :: poly_book
  pc_version :: int
  pc_active_version :: int
  pc_active_tokens :: "string list"
  pc_transition :: bool
  pc_update_count :: int
  pc_reconnect_count :: int
  pc_connected :: bool            \<comment> \<open>an active websocket is known\<close>
  pc_close_requests :: int        \<comment> \<open>tasks that close it, made by \<open>update_markets\<close>\<close>

definition tokens_or_all :: "string list \<Rightarrow> market_metadata list \<Rightarrow> string list" where
  "tokens_or_all tokens markets = (if tokens \<noteq> [] then tokens else concat (map token_ids markets))"

definition poly_client_init ::
  "string \<Rightarrow> string list \<Rightarrow> market_metadata list \<Rightarrow> (string \<times> side_label) list \<Rightarrow> pyfloat \<Rightarrow> validation_mode
     \<Rightarrow> int \<Rightarrow> string option \<Rightarrow> int \<Rightarrow> poly_client" where
  "poly_client_init url tokens markets overrides stale_after mode tolerance path per_min =
     (let all = tokens_or_all tokens markets in
      \<lparr>st_phase = P_start, st_yielded = 0, st_attempt = 0, pc_url = market_ws_url url, pc_markets = markets,
       pc_token_ids = all, pc_overrides = overrides,
       pc_books = poly_book_init (build_token_metadata markets all overrides) stale_after mode tolerance path
         per_min (f64 (5 / 100)),
       pc_version = 0, pc_active_version = -1, pc_active_tokens = [], pc_transition = False,
       pc_update_count = 0, pc_reconnect_count = 0, pc_connected = False, pc_close_requests = 0\<rparr>)"

definition subscription_message :: "poly_client \<Rightarrow> pyval" where
  \<comment> \<open>what \<open>orjson.dumps\<close> is given\<close>
  "subscription_message s = VDict [(''assets_ids'', VList (map VStr (pc_token_ids s))),
     (''type'', VStr ''market''), (''custom_feature_enabled'', VBool True)]"

definition same_market :: "market_metadata \<Rightarrow> market_metadata \<Rightarrow> bool" where
  \<comment> \<open>equality of models: the dictionary of the outcomes is compared as a mapping\<close>
  "same_market a b \<longleftrightarrow> a\<lparr>mm_token_outcomes := []\<rparr> = b\<lparr>mm_token_outcomes := []\<rparr>
     \<and> list_all (\<lambda>k. map_of (mm_token_outcomes a) k = map_of (mm_token_outcomes b) k)
         (map fst (mm_token_outcomes a @ mm_token_outcomes b))"

definition update_stream_markets ::
  "market_metadata list \<Rightarrow> string list option \<Rightarrow> poly_client \<Rightarrow> poly_client" where
  \<comment> \<open>\<open>update_markets\<close>\<close>
  "update_stream_markets markets tokens s =
     (let new_tokens = tokens_or_all (case tokens of None \<Rightarrow> [] | Some ts \<Rightarrow> ts) markets in
      if new_tokens = pc_token_ids s \<and> list_all2 same_market markets (pc_markets s) then s
      else s\<lparr>pc_markets := markets, pc_token_ids := new_tokens,
             pc_books := update_token_metadata (build_token_metadata markets new_tokens (pc_overrides s))
               new_tokens (pc_books s),
             pc_version := pc_version s + 1, pc_update_count := pc_update_count s + 1, pc_transition := True,
             pc_close_requests := pc_close_requests s + (if pc_connected s then 1 else 0)\<rparr>)"

datatype subscription_status = Sub_pending | Sub_transition | Sub_active | Sub_out_of_sync

record subscription_report =
  sr_runtime_token_count :: nat
  sr_active_token_count :: nat
  sr_established :: bool
  sr_status :: subscription_status
  sr_transition_active :: bool
  sr_update_count :: int
  sr_reconnect_count :: int
  sr_missing :: "string list"
  sr_extra :: "string list"
  sr_out_of_sync :: "bool option"

definition subscription_state :: "poly_client \<Rightarrow> subscription_status \<times> bool option" where
  "subscription_state s =
     (let same = (set (pc_token_ids s) = set (pc_active_tokens s)) in
      if pc_active_version s < 0 then (Sub_pending, None)
      else if pc_transition s then (Sub_transition, Some (\<not> same))
      else if same then (Sub_active, Some False) else (Sub_out_of_sync, Some True))"

definition subscription_diagnostics :: "poly_client \<Rightarrow> subscription_report" where
  "subscription_diagnostics s =
     (let runtime = set (pc_token_ids s); active = set (pc_active_tokens s) in
      \<lparr>sr_runtime_token_count = card runtime, sr_active_token_count = card active,
       sr_established = (0 \<le> pc_active_version s), sr_status = fst (subscription_state s),
       sr_transition_active = pc_transition s, sr_update_count = pc_update_count s,
       sr_reconnect_count = pc_reconnect_count s, sr_missing = sorted_list_of_set (runtime - active),
       sr_extra = sorted_list_of_set (active - runtime), sr_out_of_sync = snd (subscription_state s)\<rparr>)"

subsection \<open>The generator\<close>

definition poly_failed :: "stream_options \<Rightarrow> py_error \<Rightarrow> poly_client \<Rightarrow> poly_client" where
  "poly_failed opts e s = after_exception opts e (s\<lparr>pc_connected := False\<rparr>)"

definition poly_loop_head :: "poly_client \<Rightarrow> poly_client" where
  \<comment> \<open>before each \<open>recv\<close>: a newer subscription closes the connection\<close>
  "poly_loop_head s = (if pc_active_version s \<noteq> pc_version s
     then s\<lparr>pc_transition := True, st_phase := P_closing\<rparr> else receiving s)"

definition poly_connected :: "poly_client \<Rightarrow> poly_client" where
  \<comment> \<open>up to the \<open>send\<close> of the subscription\<close>
  "poly_connected s0 = (let s = s0\<lparr>pc_connected := True, st_phase := P_sending\<rparr> in
     if 0 < st_attempt s
     then s\<lparr>pc_books := record_reconnect (pc_books s), pc_reconnect_count := pc_reconnect_count s + 1\<rparr> else s)"

definition poly_subscribed :: "poly_client \<Rightarrow> poly_client" where
  "poly_subscribed s = poly_loop_head (s\<lparr>pc_active_tokens := pc_token_ids s, pc_active_version := pc_version s,
     pc_transition := False, st_attempt := 0\<rparr>)"

definition poly_message ::
  "stream_options \<Rightarrow> (string \<Rightarrow> pyval option) \<Rightarrow> string \<Rightarrow> message_clock \<Rightarrow> poly_client
     \<Rightarrow> market_event list \<times> poly_client" where
  "poly_message opts loads raw c s = (case normalize_polymarket loads raw c (pc_books s) of
     (Inl e, pb) \<Rightarrow> ([], poly_failed opts e (s\<lparr>pc_books := pb\<rparr>))
   | (Inr es, pb) \<Rightarrow> hand_out poly_loop_head es (s\<lparr>pc_books := pb\<rparr>))"

definition disconnect_if_ended :: "market_event list \<times> poly_client \<Rightarrow> market_event list \<times> poly_client" where
  \<comment> \<open>the \<open>finally\<close> clause of a generator that returns or is cancelled\<close>
  "disconnect_if_ended r = (case r of (es, s) \<Rightarrow>
     (es, if running (st_phase s) then s else s\<lparr>pc_connected := False\<rparr>))"

datatype poly_input =
    In_start
  | In_connected "py_error option"
  | In_sent "py_error option"
  | In_recv recv_answer message_clock
  | In_next
  | In_closed "py_error option"  \<comment> \<open>\<open>websocket.close()\<close> and the end of the \<open>async with\<close>\<close>
  | In_wake
  | In_cancel
  | In_update "market_metadata list" "string list option"

definition poly_stream_step ::
  "stream_options \<Rightarrow> (string \<Rightarrow> pyval option) \<Rightarrow> poly_input \<Rightarrow> poly_client \<Rightarrow> market_event list \<times> poly_client" where
  \<comment> \<open>the events the step yields; an input that does not fit the phase changes nothing\<close>
  "poly_stream_step opts loads i s = (case (st_phase s, i) of
     (_, In_update markets tokens) \<Rightarrow> ([], update_stream_markets markets tokens s)
   | (P_start, In_start) \<Rightarrow> ([], s\<lparr>st_phase := if pc_token_ids s = [] then P_returned else P_connecting\<rparr>)
   | (P_connecting, In_connected None) \<Rightarrow> ([], poly_connected s)
   | (P_connecting, In_connected (Some e)) \<Rightarrow> ([], poly_failed opts e s)
   | (P_sending, In_sent None) \<Rightarrow> ([], poly_subscribed s)
   | (P_sending, In_sent (Some e)) \<Rightarrow> ([], poly_failed opts e s)
   | (P_receiving, In_recv a c) \<Rightarrow> (case recv_with_heartbeat a of None \<Rightarrow> ([], s)
       | Some (Inl e) \<Rightarrow> ([], poly_failed opts e s)
       | Some (Inr raw) \<Rightarrow> poly_message opts loads raw c s)
   | (P_suspended _, In_next) \<Rightarrow> resume opts poly_loop_head s
   | (P_closing, In_closed None) \<Rightarrow> ([], s\<lparr>pc_connected := False, st_phase := P_connecting\<rparr>)
   | (P_closing, In_closed (Some e)) \<Rightarrow> ([], poly_failed opts e s)
   | (P_leaving, In_closed None) \<Rightarrow> disconnect_if_ended ([], s\<lparr>st_phase := P_returned\<rparr>)
   | (P_leaving, In_closed (Some e)) \<Rightarrow> ([], poly_failed opts e s)
   | (P_sleeping _, In_wake) \<Rightarrow> ([], s\<lparr>st_phase := P_connecting\<rparr>)
   | (p, In_cancel) \<Rightarrow> disconnect_if_ended ([], if running p then s\<lparr>st_phase := P_cancelled\<rparr> else s)
   | _ \<Rightarrow> ([], s))"

fun poly_stream_run ::
  "stream_options \<Rightarrow> (string \<Rightarrow> pyval option) \<Rightarrow> poly_input list \<Rightarrow> poly_client
     \<Rightarrow> market_event list \<times> poly_client" where
  "poly_stream_run opts loads [] s = ([], s)"
| "poly_stream_run opts loads (i # is) s = (case poly_stream_step opts loads i s of (es, s1) \<Rightarrow>
     (case poly_stream_run opts loads is s1 of (es', s2) \<Rightarrow> (es @ es', s2)))"

end
