(* ===== verification/StreamProperties.thy ===== *)
theory StreamProperties
  imports PolyStream PolyQuotes
begin

text \<open>
  What the websocket streams promise: how many events they hand out (one locale for both
  clients), how long they go on reconnecting, what the quotes of the Polymarket stream say and
  when a market has ended for it, and what its subscription diagnostics mean.
\<close>

subsection \<open>Handing out events\<close>

text \<open>
  What a step of a stream may do to its phase and to the count of the events handed out: in the
  view of the consumer both clients are the same machine.
\<close>

definition ended :: "'e phase \<Rightarrow> bool" where
  "ended p \<longleftrightarrow> p = P_returned \<or> p = P_cancelled \<or> (\<exists>e. p = P_raised e)"

definition is_suspended :: "'e phase \<Rightarrow> bool" where
  "is_suspended p \<longleftrightarrow> (\<exists>rest. p = P_suspended rest)"

lemma phase_kinds [simp]:
  "ended P_returned" "ended P_cancelled" "ended (P_raised e)" "\<not> ended P_start" "\<not> ended P_connecting"
  "\<not> ended P_sending" "\<not> ended P_leaving" "\<not> ended P_receiving" "\<not> ended (P_suspended es)" "\<not> ended P_closing" "\<not> ended (P_sleeping d)"
  "is_suspended (P_suspended es)" "\<not> is_suspended P_start" "\<not> is_suspended P_connecting" "\<not> is_suspended P_sending"
  "\<not> is_suspended P_receiving" "\<not> is_suspended P_leaving" "\<not> is_suspended P_closing" "\<not> is_suspended (P_sleeping d)"
  "\<not> is_suspended P_returned" "\<not> is_suspended P_cancelled" "\<not> is_suspended (P_raised e)"
  by (simp_all add: ended_def is_suspended_def)

definition yields ::
  "stream_options \<Rightarrow> bool \<Rightarrow> ('e, 'z) stream_scheme \<Rightarrow> 'e list \<Rightarrow> ('e, 'z) stream_scheme \<Rightarrow> bool" where
  \<comment> \<open>\<open>f\<close>: leaving the connection raises\<close>
  "yields opts f s out s' \<longleftrightarrow>
     (st_yielded s' = st_yielded s \<and> out = [] \<and> st_phase s' = st_phase s)
   \<or> (st_yielded s' = st_yielded s \<and> out = [] \<and> is_suspended (st_phase s) \<and> st_phase s' = P_cancelled)
   \<or> (st_yielded s' = st_yielded s + 1 \<and> is_suspended (st_phase s)
       \<and> (if limit_reached opts (st_yielded s') then out = [] \<and> st_phase s' = P_leaving
          else length out = (if is_suspended (st_phase s') then 1 else 0)
            \<and> \<not> ended (st_phase s') \<and> st_phase s' \<noteq> P_leaving))
   \<or> (st_yielded s' = st_yielded s \<and> out = [] \<and> st_phase s = P_leaving \<and> \<not> is_suspended (st_phase s')
       \<and> (f \<or> ended (st_phase s')))
   \<or> (st_yielded s' = st_yielded s \<and> \<not> is_suspended (st_phase s) \<and> \<not> ended (st_phase s)
       \<and> st_phase s \<noteq> P_leaving \<and> st_phase s' \<noteq> P_leaving
       \<and> length out = (if is_suspended (st_phase s') then 1 else 0))"

definition between_events :: "'e phase \<Rightarrow> bool" where
  \<comment> \<open>the next event may still come\<close>
  "between_events p \<longleftrightarrow> \<not> is_suspended p \<and> \<not> ended p \<and> p \<noteq> P_leaving"

definition handed_out :: "int \<Rightarrow> ('e, 'z) stream_scheme \<Rightarrow> nat \<Rightarrow> nat \<Rightarrow> bool" where
  \<comment> \<open>\<open>n\<close> events have been handed out, and leaving the connection has raised \<open>f\<close> times\<close>
  "handed_out k s n f \<longleftrightarrow>
     (int n = st_yielded s + (if is_suspended (st_phase s) then 1 else 0)
        \<or> int n = st_yielded s + 1 \<and> st_phase s = P_cancelled)
     \<and> int n + (if between_events (st_phase s) then 1 else 0) \<le> max 1 k + int f"

lemma handed_out_step:
  assumes "so_max_events opts = Some k" and "handed_out k s n f" and "yields opts e s out s'"
  shows "handed_out k s' (n + length out) (f + (if e then 1 else 0))"
  using assms(3) unfolding yields_def
proof (elim disjE)
  assume "st_yielded s' = st_yielded s \<and> out = [] \<and> st_phase s' = st_phase s"
  then show ?thesis using assms(2) by (simp add: handed_out_def)
next
  assume "st_yielded s' = st_yielded s \<and> out = [] \<and> is_suspended (st_phase s) \<and> st_phase s' = P_cancelled"
  then show ?thesis using assms(2) by (auto simp: handed_out_def between_events_def)
next
  assume y: "st_yielded s' = st_yielded s + 1 \<and> is_suspended (st_phase s)
    \<and> (if limit_reached opts (st_yielded s') then out = [] \<and> st_phase s' = P_leaving
       else length out = (if is_suspended (st_phase s') then 1 else 0)
         \<and> \<not> ended (st_phase s') \<and> st_phase s' \<noteq> P_leaving)"
  then have n: "int n = st_yielded s + 1" "int n \<le> max 1 k + int f"
    using assms(2) by (auto simp: handed_out_def between_events_def)
  show ?thesis
  proof (cases "limit_reached opts (st_yielded s')")
    case True
    then show ?thesis using y n by (simp add: handed_out_def between_events_def)
  next
    case False
    then have "st_yielded s' < k" using assms(1) by (simp add: limit_reached_def)
    then show ?thesis using False y n
      by (cases "is_suspended (st_phase s')") (simp_all add: handed_out_def between_events_def)
  qed
next
  assume "st_yielded s' = st_yielded s \<and> out = [] \<and> st_phase s = P_leaving \<and> \<not> is_suspended (st_phase s')
    \<and> (e \<or> ended (st_phase s'))"
  then show ?thesis using assms(2) by (auto simp: handed_out_def between_events_def)
next
  assume "st_yielded s' = st_yielded s \<and> \<not> is_suspended (st_phase s) \<and> \<not> ended (st_phase s)
    \<and> st_phase s \<noteq> P_leaving \<and> st_phase s' \<noteq> P_leaving \<and> length out = (if is_suspended (st_phase s') then 1 else 0)"
  then show ?thesis using assms(2)
    by (cases "is_suspended (st_phase s')") (auto simp: handed_out_def between_events_def)
qed

text \<open>The consumer's interface: a client whose steps hand out events as \<open>yields\<close> says.\<close>

locale event_stream =
  fixes opts :: stream_options
    and exit_fails :: "'i \<Rightarrow> bool"
    and step :: "'i \<Rightarrow> ('e, 'z) stream_scheme \<Rightarrow> 'e list \<times> ('e, 'z) stream_scheme"
    and run :: "'i list \<Rightarrow> ('e, 'z) stream_scheme \<Rightarrow> 'e list \<times> ('e, 'z) stream_scheme"
  assumes step_yields: "step i s = (out, s') \<Longrightarrow> yields opts (exit_fails i) s out s'"
    and run_Nil: "run [] s = ([], s)"
    and run_Cons: "run (i # is) s = (case step i s of (es, s1) \<Rightarrow> (case run is s1 of (es', s2) \<Rightarrow> (es @ es', s2)))"
begin

lemma run_hands_out:
  "so_max_events opts = Some k \<Longrightarrow> run is s = (out, s') \<Longrightarrow> handed_out k s n f
     \<Longrightarrow> handed_out k s' (n + length out) (f + length (filter exit_fails is))"
proof (induction "is" arbitrary: s out n f)
  case (Cons i "is")
  obtain es s1 where 1: "step i s = (es, s1)" by fastforce
  obtain es' s2 where 2: "run is s1 = (es', s2)" by fastforce
  have e: "out = es @ es'" and s2: "s2 = s'" using Cons.prems(2) 1 2 by (simp_all add: run_Cons)
  from Cons.IH [OF Cons.prems(1) 2 [unfolded s2] handed_out_step [OF Cons.prems(1,3) step_yields [OF 1]]]
  show ?case by (simp add: e add.assoc split: if_splits)
qed (simp add: run_Nil)

lemma hands_out_at_most:
  assumes "run is s = (out, s')" and "st_phase s = P_start" and "st_yielded s = 0" and "so_max_events opts = Some k"
  shows "int (length out) \<le> max 1 k + int (length (filter exit_fails is))"
proof -
  have "handed_out k s 0 0" using assms(2,3) by (simp add: handed_out_def between_events_def)
  from run_hands_out [OF assms(4,1) this] show ?thesis by (simp add: handed_out_def split: if_splits)
qed

end

lemma yields_fail:
  "st_yielded s' = st_yielded s \<Longrightarrow> \<not> is_suspended (st_phase s') \<Longrightarrow> between_events (st_phase s) \<Longrightarrow> st_phase s' \<noteq> P_leaving
     \<Longrightarrow> yields opts f s [] s'"
  "st_yielded s' = st_yielded s \<Longrightarrow> \<not> is_suspended (st_phase s') \<Longrightarrow> st_phase s = P_leaving \<Longrightarrow> yields opts True s [] s'"
  "st_yielded s' = st_yielded s \<Longrightarrow> ended (st_phase s') \<Longrightarrow> \<not> is_suspended (st_phase s') \<Longrightarrow> st_phase s = P_leaving
     \<Longrightarrow> yields opts f s [] s'"
  by (simp_all add: yields_def between_events_def)

lemma after_exception_quiet:
  "st_yielded (after_exception opts e s) = st_yielded s" "\<not> is_suspended (st_phase (after_exception opts e s))"
  "st_phase (after_exception opts e s) \<noteq> P_leaving"
  by (simp_all add: after_exception_def split: sum.splits)

lemma between_kinds [simp]:
  "between_events P_connecting" "between_events P_sending" "between_events P_receiving" "between_events P_closing"
  "between_events (P_sleeping d)" "between_events P_start" "\<not> between_events (P_suspended es)" "\<not> between_events P_leaving"
  by (simp_all add: between_events_def)

lemmas yields_quietly = yields_fail(1) [OF after_exception_quiet(1,2) _ after_exception_quiet(3)]
  yields_fail(2) [OF after_exception_quiet(1,2)]

lemma hand_out_yields:
  assumes "hand_out head es s = (out, s')" and "\<And>s. st_yielded (head s) = st_yielded s"
    and "\<And>s. between_events (st_phase (head s))"
  shows "st_yielded s' = st_yielded s \<and> length out = (if is_suspended (st_phase s') then 1 else 0)
    \<and> \<not> ended (st_phase s') \<and> st_phase s' \<noteq> P_leaving"
  using assms by (auto simp: hand_out_def between_events_def split: list.splits)

lemma resume_yields:
  assumes "resume opts head s = (out, s')" and "\<And>s. st_yielded (head s) = st_yielded s"
    and "\<And>s. between_events (st_phase (head s))"
  shows "yields opts f s out s'"
proof (cases "st_phase s")
  case (P_suspended rest)
  then show ?thesis using assms hand_out_yields [OF _ assms(2,3), of rest "s\<lparr>st_yielded := st_yielded s + 1\<rparr>" out s']
    by (auto simp: resume_def yields_def Let_def split: if_splits)
qed (use assms(1) in \<open>auto simp: resume_def yields_def\<close>)

lemma receiving_simps [simp]:
  "st_yielded (receiving s) = st_yielded s" "st_phase (receiving s) = P_receiving"
  "st_attempt (receiving s) = st_attempt s"
  by (simp_all add: receiving_def)

lemma yields_same [simp]: "yields opts f s [] s"
  by (simp add: yields_def)

lemma yields_message:
  assumes "hand_out head es s = (out, s')" and "\<And>s. st_yielded (head s) = st_yielded s"
    and "\<And>s. between_events (st_phase (head s))" and "between_events (st_phase s0)" and "st_yielded s = st_yielded s0"
  shows "yields opts f s0 out s'"
  using hand_out_yields [OF assms(1-3)] assms(4,5) by (simp add: yields_def between_events_def)

lemma cancel_yields: "yields opts f s [] (if running (st_phase s) then s\<lparr>st_phase := P_cancelled\<rparr> else s)"
  by (cases "st_phase s") (simp_all add: yields_def running_def)

lemma binance_message_yields:
  assumes "st_phase s = P_receiving" and "binance_message opts loads raw t s = (out, s')"
  shows "yields opts f s out s'"
proof (cases "normalize_binance loads raw t")
  case (Inl e)
  then have "out = []" "s' = after_exception opts e s" using assms(2) by (simp_all add: binance_message_def)
  then show ?thesis using assms(1) by (simp add: yields_quietly(1))
next
  case (Inr es)
  then have "hand_out receiving es s = (out, s')" using assms(2) by (simp add: binance_message_def)
  then show ?thesis by (rule yields_message) (simp_all add: assms(1))
qed

definition binance_exit_fails :: "binance_input \<Rightarrow> bool" where
  "binance_exit_fails i \<longleftrightarrow> (case i of B_closed (Some _) \<Rightarrow> True | _ \<Rightarrow> False)"

lemma binance_step_yields:
  assumes "binance_step opts loads i s = (out, s')"
  shows "yields opts (binance_exit_fails i) s out s'"
proof -
  note r = resume_yields [of opts receiving s out s', simplified]
  note m = binance_message_yields [of s opts loads _ _ out s']
  show ?thesis
  proof (cases i)
    case B_cancel
    then have "(out, s') = ([], if running (st_phase s) then s\<lparr>st_phase := P_cancelled\<rparr> else s)"
      using assms by (cases "st_phase s") (simp_all add: binance_step_def)
    then show ?thesis using cancel_yields [of opts _ s] by simp
  next
    case (B_recv a t)
    then show ?thesis using assms m
      by (cases "st_phase s") (auto simp: binance_step_def split: option.splits sum.splits intro: yields_quietly)
  next
    case B_next
    then show ?thesis using assms r by (cases "st_phase s") (auto simp: binance_step_def)
  next
    case (B_closed e)
    then show ?thesis using assms
      by (cases "st_phase s"; cases e)
        (auto simp: binance_step_def binance_exit_fails_def intro: yields_fail(3) yields_quietly(2))
  qed (use assms in \<open>cases "st_phase s"; auto simp: binance_step_def split: option.splits
         intro: yields_quietly yields_fail(1)\<close>)+
qed

lemma poly_failed_yields:
  "between_events (st_phase s) \<Longrightarrow> yields opts f s [] (poly_failed opts e (s\<lparr>pc_books := pb\<rparr>))"
  "between_events (st_phase s) \<Longrightarrow> yields opts f s [] (poly_failed opts e s)"
  "st_phase s = P_leaving \<Longrightarrow> yields opts True s [] (poly_failed opts e s)"
  unfolding poly_failed_def
  by (rule yields_fail(1) yields_fail(2); simp add: after_exception_quiet)+

lemma poly_loop_head_simps [simp]:
  "st_yielded (poly_loop_head s) = st_yielded s" "between_events (st_phase (poly_loop_head s))"
  "\<not> is_suspended (st_phase (poly_loop_head s))" "st_phase (poly_loop_head s) \<noteq> P_leaving"
  by (simp_all add: poly_loop_head_def)

lemma poly_connection_simps [simp]:
  "st_yielded (poly_connected s) = st_yielded s" "st_phase (poly_connected s) = P_sending"
  "st_yielded (poly_subscribed s) = st_yielded s" "\<not> is_suspended (st_phase (poly_subscribed s))"
  "st_phase (poly_subscribed s) \<noteq> P_leaving"
  by (simp_all add: poly_connected_def poly_subscribed_def Let_def)

lemma poly_message_yields:
  assumes "st_phase s = P_receiving" and "poly_message opts loads raw c s = (out, s')"
  shows "yields opts f s out s'"
proof -
  obtain r pb where n: "normalize_polymarket loads raw c (pc_books s) = (r, pb)" by fastforce
  show ?thesis
  proof (cases r)
    case (Inl e)
    then have "out = []" "s' = poly_failed opts e (s\<lparr>pc_books := pb\<rparr>)" using assms(2) n by (simp_all add: poly_message_def)
    then show ?thesis using assms(1) by (simp add: poly_failed_yields)
  next
    case (Inr es)
    then have "hand_out poly_loop_head es (s\<lparr>pc_books := pb\<rparr>) = (out, s')" using assms(2) n by (simp add: poly_message_def)
    then show ?thesis by (rule yields_message) (simp_all add: assms(1))
  qed
qed

lemma disconnect_yields:
  assumes d: "disconnect_if_ended (out, s1) = (out', s')" and y: "yields opts f s out s1"
  shows "yields opts f s out' s'"
proof -
  from d have "out' = out" "st_yielded s' = st_yielded s1" "st_phase s' = st_phase s1"
    by (auto simp: disconnect_if_ended_def split: if_splits)
  then show ?thesis using y by (simp only: yields_def)
qed

definition polymarket_exit_fails :: "poly_input \<Rightarrow> bool" where
  "polymarket_exit_fails i \<longleftrightarrow> (case i of In_closed (Some _) \<Rightarrow> True | _ \<Rightarrow> False)"

lemma poly_recv_yields:
  assumes "st_phase s = P_receiving" and "poly_stream_step opts loads (In_recv a c) s = (out, s')"
  shows "yields opts f s out s'"
proof -
  have st: "(case recv_with_heartbeat a of None \<Rightarrow> ([], s)
     | Some (Inl e) \<Rightarrow> ([], poly_failed opts e s)
     | Some (Inr raw) \<Rightarrow> poly_message opts loads raw c s) = (out, s')"
    using assms by (simp add: poly_stream_step_def)
  consider "recv_with_heartbeat a = None" | e where "recv_with_heartbeat a = Some (Inl e)"
    | raw where "recv_with_heartbeat a = Some (Inr raw)"
    by (cases "recv_with_heartbeat a"; metis sum.exhaust)
  then show ?thesis
  proof cases
    case 1
    then show ?thesis using st by simp
  next
    case 2
    then have "out = []" "s' = poly_failed opts e s" using st by simp_all
    then show ?thesis using assms(1) by (simp add: poly_failed_yields)
  next
    case 3
    then have "poly_message opts loads raw c s = (out, s')" using st by simp
    then show ?thesis by (rule poly_message_yields [OF assms(1)])
  qed
qed

lemma poly_stream_step_yields:
  assumes "poly_stream_step opts loads i s = (out, s')"
  shows "yields opts (polymarket_exit_fails i) s out s'"
proof (cases i)
  case (In_update markets tokens)
  then have "(out, s') = ([], update_stream_markets markets tokens s)"
    using assms by (cases "st_phase s") (simp_all add: poly_stream_step_def)
  then show ?thesis by (simp add: yields_def update_stream_markets_def Let_def)
next
  case In_cancel
  then have "disconnect_if_ended ([], if running (st_phase s) then s\<lparr>st_phase := P_cancelled\<rparr> else s) = (out, s')"
    using assms by (cases "st_phase s") (simp_all add: poly_stream_step_def)
  then show ?thesis by (rule disconnect_yields) (rule cancel_yields)
next
  case (In_recv a c)
  show ?thesis
  proof (cases "st_phase s = P_receiving")
    case True
    then show ?thesis using assms poly_recv_yields unfolding In_recv by blast
  next
    case False
    then show ?thesis using assms In_recv by (cases "st_phase s") (simp_all add: poly_stream_step_def)
  qed
next
  case In_next
  then show ?thesis using assms resume_yields [of opts poly_loop_head s out s']
    by (cases "st_phase s") (auto simp: poly_stream_step_def)
next
  case (In_closed e)
  have "yields opts f s [] (s\<lparr>st_phase := P_returned\<rparr>)" if "st_phase s = P_leaving" for f
    using that by (intro yields_fail(3)) simp_all
  then show ?thesis using assms In_closed
    by (cases "st_phase s"; cases e)
      (auto simp: poly_stream_step_def polymarket_exit_fails_def
         intro: poly_failed_yields yields_fail(1) disconnect_yields)
next
  case In_start
  then show ?thesis using assms
    by (cases "st_phase s") (auto simp: poly_stream_step_def yields_fail(1))
next
  case (In_connected e)
  then show ?thesis using assms
    by (cases "st_phase s"; cases e) (auto simp: poly_stream_step_def yields_fail(1) poly_failed_yields)
next
  case (In_sent e)
  then show ?thesis using assms
    by (cases "st_phase s"; cases e) (auto simp: poly_stream_step_def yields_fail(1) poly_failed_yields)
next
  case In_wake
  then show ?thesis using assms
    by (cases "st_phase s") (auto simp: poly_stream_step_def yields_fail(1))
qed

interpretation binance_events:
  event_stream opts binance_exit_fails "binance_step opts loads" "binance_run opts loads" for opts loads
  by unfold_locales (auto intro: binance_step_yields)

interpretation polymarket_events:
  event_stream opts polymarket_exit_fails "poly_stream_step opts loads" "poly_stream_run opts loads" for opts loads
  by unfold_locales (auto intro: poly_stream_step_yields)

subsection \<open>The subscription\<close>

definition sub_ok :: "poly_client \<Rightarrow> bool" where
  "sub_ok s \<longleftrightarrow> 0 \<le> pc_version s \<and> -1 \<le> pc_active_version s \<and> pc_active_version s \<le> pc_version s
     \<and> (if pc_active_version s = pc_version s then pc_active_tokens s = pc_token_ids s \<and> \<not> pc_transition s
        else 0 \<le> pc_active_version s \<longrightarrow> pc_transition s)"

definition pending :: "('e, 'z) stream_scheme \<Rightarrow> 'e list" where
  \<comment> \<open>the events of the last message that are still to be handed out\<close>
  "pending s = (case st_phase s of P_suspended rest \<Rightarrow> rest | _ \<Rightarrow> [])"

definition quiet :: "poly_client \<Rightarrow> market_event list \<Rightarrow> poly_client \<Rightarrow> bool" where
  \<comment> \<open>a step that does not touch the books and makes no event\<close>
  "quiet s out s' \<longleftrightarrow> pc_books s' = pc_books s \<and> (sub_ok s \<longrightarrow> sub_ok s')
     \<and> (out @ pending s' = pending s \<or> out = [] \<and> pending s' = [])"

lemma quietI:
  "pc_books s' = pc_books s \<Longrightarrow> (sub_ok s \<Longrightarrow> sub_ok s') \<Longrightarrow> \<not> is_suspended (st_phase s') \<Longrightarrow> quiet s [] s'"
  by (auto simp: quiet_def pending_def is_suspended_def split: phase.splits)

lemma sub_ok_frame [simp]:
  "sub_ok (s\<lparr>st_phase := p\<rparr>) = sub_ok s" "sub_ok (s\<lparr>st_yielded := n\<rparr>) = sub_ok s"
  "sub_ok (s\<lparr>st_attempt := k\<rparr>) = sub_ok s" "sub_ok (s\<lparr>pc_connected := c\<rparr>) = sub_ok s"
  "sub_ok (s\<lparr>pc_books := pb\<rparr>) = sub_ok s" "sub_ok (s\<lparr>pc_reconnect_count := r\<rparr>) = sub_ok s"
  by (simp_all add: sub_ok_def)

lemma poly_failed_client:
  "pc_books (poly_failed opts e s) = pc_books s" "sub_ok (poly_failed opts e s) = sub_ok s"
  "\<not> is_suspended (st_phase (poly_failed opts e s))"
  by (auto simp: poly_failed_def after_exception_def split: sum.splits)

lemma loop_head_client:
  "pc_books (poly_loop_head s) = pc_books s" "sub_ok s \<Longrightarrow> sub_ok (poly_loop_head s)" "pending (poly_loop_head s) = []"
  by (auto simp: poly_loop_head_def receiving_def sub_ok_def pending_def)

lemma hand_out_client:
  assumes "hand_out poly_loop_head es s = (out, s')"
  shows "pc_books s' = pc_books s \<and> (sub_ok s \<longrightarrow> sub_ok s') \<and> out @ pending s' = es"
proof (cases es)
  case Nil
  then show ?thesis using assms loop_head_client [of s] by (simp add: hand_out_def)
next
  case (Cons e rest)
  then show ?thesis using assms by (auto simp: hand_out_def pending_def)
qed

lemma resume_client:
  assumes "resume opts poly_loop_head s = (out, s')"
  shows "quiet s out s'"
proof (cases "st_phase s")
  case (P_suspended rest)
  define s1 where "s1 = s\<lparr>st_yielded := st_yielded s + 1\<rparr>"
  show ?thesis
  proof (cases "limit_reached opts (st_yielded s1)")
    case True
    then show ?thesis using assms P_suspended by (auto simp: resume_def Let_def s1_def intro: quietI)
  next
    case False
    then have "hand_out poly_loop_head rest s1 = (out, s')"
      using assms P_suspended by (simp add: resume_def Let_def s1_def)
    from hand_out_client [OF this] show ?thesis
      using P_suspended by (simp add: quiet_def s1_def pending_def)
  qed
qed (use assms in \<open>auto simp: resume_def quiet_def\<close>)

lemma disconnect_client:
  assumes "disconnect_if_ended (out, s1) = (out', s')" and "quiet s out s1"
  shows "quiet s out' s'"
proof -
  have "out' = out" "pc_books s' = pc_books s1" "sub_ok s' = sub_ok s1" "pending s' = pending s1"
    using assms(1) by (auto simp: disconnect_if_ended_def pending_def split: if_splits)
  then show ?thesis using assms(2) by (simp add: quiet_def)
qed

lemma update_markets_sub: "sub_ok s \<Longrightarrow> sub_ok (update_stream_markets markets tokens s)"
  by (auto simp: update_stream_markets_def Let_def sub_ok_def)

lemma subscribed_sub: "sub_ok s \<Longrightarrow> sub_ok (poly_subscribed s)"
  unfolding poly_subscribed_def by (rule loop_head_client) (simp add: sub_ok_def)

lemma connected_sub: "sub_ok s \<Longrightarrow> sub_ok (poly_connected s)"
  by (simp add: poly_connected_def Let_def)

text \<open>What a step does, by the input it takes.\<close>

lemma poly_stream_step_cases [consumes 1, case_names quiet update connected message]:
  assumes "poly_stream_step opts loads i s = (out, s')"
  obtains "quiet s out s'"
    | markets tokens where "out = []" "s' = update_stream_markets markets tokens s"
    | "out = []" "st_phase s = P_connecting" "s' = poly_connected s"
    | raw c where "st_phase s = P_receiving" "poly_message opts loads raw c s = (out, s')"
proof -
  note f = poly_failed_client
  have q: "quiet s [] s" by (simp add: quiet_def)
  show thesis
  proof (cases i)
    case (In_update markets tokens)
    then show thesis using assms that(2) by (cases "st_phase s") (auto simp: poly_stream_step_def)
  next
    case (In_recv a c)
    show thesis
    proof (cases "st_phase s = P_receiving \<and> (\<exists>raw. recv_with_heartbeat a = Some (Inr raw))")
      case True
      then show thesis using assms In_recv that(4) by (auto simp: poly_stream_step_def)
    next
      case False
      then have "quiet s out s'" using assms In_recv q f
        by (cases "st_phase s") (auto simp: poly_stream_step_def intro!: quietI split: option.splits sum.splits)
      then show thesis by (rule that(1))
    qed
  next
    case In_next
    have "quiet s out s'" using assms In_next q resume_client
      by (cases "st_phase s") (auto simp: poly_stream_step_def)
    then show thesis by (rule that(1))
  next
    case In_cancel
    define s1 where "s1 = (if running (st_phase s) then s\<lparr>st_phase := P_cancelled\<rparr> else s)"
    have "quiet s [] s1" unfolding s1_def by (auto intro!: quietI simp: q)
    moreover have "disconnect_if_ended ([], s1) = (out, s')"
      using assms In_cancel unfolding s1_def by (cases "st_phase s") (simp_all add: poly_stream_step_def)
    ultimately have "quiet s out s'" by (rule disconnect_client [rotated])
    then show thesis by (rule that(1))
  next
    case (In_connected e)
    show thesis
    proof (cases "st_phase s = P_connecting \<and> e = None")
      case True
      then show thesis using assms In_connected that(3) by (simp add: poly_stream_step_def)
    next
      case False
      then have "quiet s out s'" using assms In_connected q f
        by (cases "st_phase s"; cases e) (auto simp: poly_stream_step_def intro!: quietI)
      then show thesis by (rule that(1))
    qed
  next
    case (In_sent e)
    have "quiet s [] (poly_subscribed s)"
      using subscribed_sub loop_head_client unfolding poly_subscribed_def by (intro quietI) auto
    then have "quiet s out s'" using assms In_sent q f
      by (cases "st_phase s"; cases e) (auto simp: poly_stream_step_def intro!: quietI)
    then show thesis by (rule that(1))
  next
    case In_start
    then have "quiet s out s'" using assms q
      by (cases "st_phase s") (auto simp: poly_stream_step_def intro!: quietI split: if_splits)
    then show thesis by (rule that(1))
  next
    case (In_closed e)
    have "quiet s [] (s\<lparr>st_phase := P_returned\<rparr>)" by (rule quietI) simp_all
    then have "quiet s out s'" using assms In_closed q f disconnect_client
      by (cases "st_phase s"; cases e) (auto simp: poly_stream_step_def intro!: quietI)
    then show thesis by (rule that(1))
  next
    case In_wake
    then have "quiet s out s'" using assms q by (cases "st_phase s") (auto simp: poly_stream_step_def intro!: quietI)
    then show thesis by (rule that(1))
  qed
qed

lemma poly_message_sub: "poly_message opts loads raw c s = (out, s') \<Longrightarrow> sub_ok s \<Longrightarrow> sub_ok s'"
  using hand_out_client
  by (fastforce simp: poly_message_def poly_failed_client split: prod.splits sum.splits)

lemma poly_stream_step_sub:
  assumes "poly_stream_step opts loads i s = (out, s')" and "sub_ok s"
  shows "sub_ok s'"
  using assms
  by (cases rule: poly_stream_step_cases)
    (auto simp: quiet_def update_markets_sub connected_sub dest: poly_message_sub)

lemma poly_stream_run_sub: "poly_stream_run opts loads is s = (out, s') \<Longrightarrow> sub_ok s \<Longrightarrow> sub_ok s'"
  by (induction "is" arbitrary: s out) (auto dest: poly_stream_step_sub split: prod.splits)

lemma poly_client_init_sub: "sub_ok (poly_client_init url tokens markets ov sa mode tol path n)"
  by (simp add: sub_ok_def poly_client_init_def Let_def)

subsection \<open>The feed of quotes and lifecycle events\<close>

definition sized_quote_ok :: "polymarket_quote \<Rightarrow> bool" where
  "sized_quote_ok q \<longleftrightarrow> (\<forall>s s'. pq_book_complete q \<and> pq_best_bid_size q = Some s \<and> pq_best_ask_size q = Some s' \<longrightarrow>
     (\<exists>bid ask. pq_best_bid q = Some bid \<and> pq_best_ask q = Some ask \<and> fless bid ask
        \<and> \<not> fle s fzero \<and> \<not> fle s' fzero))"

definition ends_market :: "lifecycle_type \<Rightarrow> bool" where
  "ends_market t \<longleftrightarrow> t = MarketResolved \<or> t = Closed \<or> t = Expired"

fun feed_ok :: "string set \<Rightarrow> market_event list \<Rightarrow> bool" where
  \<comment> \<open>after the markets \<open>M\<close> have ended\<close>
  "feed_ok M [] = True"
| "feed_ok M (E_quote q # es) =
     (sized_quote_ok q \<and> (pq_book_complete q \<longrightarrow> pq_market_id q \<notin> M) \<and> feed_ok M es)"
| "feed_ok M (E_lifecycle l # es) =
     feed_ok (if ends_market (ml_lifecycle_type l) then insert (ml_market_id l) M else M) es"
| "feed_ok M (_ # es) = feed_ok M es"

fun ended_by :: "market_event list \<Rightarrow> string set" where
  "ended_by [] = {}"
| "ended_by (E_lifecycle l # es) =
     (if ends_market (ml_lifecycle_type l) then insert (ml_market_id l) (ended_by es) else ended_by es)"
| "ended_by (_ # es) = ended_by es"

lemma ended_by_append [simp]: "ended_by (es @ es') = ended_by es \<union> ended_by es'"
  by (induction es rule: ended_by.induct) auto

lemma feed_ok_append: "feed_ok M (es @ es') \<longleftrightarrow> feed_ok M es \<and> feed_ok (M \<union> ended_by es) es'"
  by (induction M es rule: feed_ok.induct) auto

lemma feed_ok_anti: "feed_ok N es \<Longrightarrow> M \<subseteq> N \<Longrightarrow> feed_ok M es"
proof (induction M es arbitrary: N rule: feed_ok.induct)
  case (2 M q es)
  then show ?case by auto
next
  case (3 M l es)
  show ?case using 3(1) [of "if ends_market (ml_lifecycle_type l) then insert (ml_market_id l) N else N"] 3(2,3)
    by (auto split: if_splits)
qed auto

lemma feed_ok_market:
  assumes "feed_ok M es" and "es = es1 @ E_lifecycle l # es2" and "ends_market (ml_lifecycle_type l)"
    and "E_quote q \<in> set es2" and "pq_market_id q = ml_market_id l"
  shows "\<not> pq_book_complete q"
proof -
  have "feed_ok N es2 \<Longrightarrow> E_quote q \<in> set es2 \<Longrightarrow> pq_market_id q \<in> N \<Longrightarrow> \<not> pq_book_complete q" for N
    by (induction N es2 rule: feed_ok.induct) (auto split: if_splits)
  then show ?thesis using assms by (auto simp: feed_ok_append)
qed

lemma feed_ok_quote: "feed_ok M es \<Longrightarrow> E_quote q \<in> set es \<Longrightarrow> sized_quote_ok q"
  by (induction M es rule: feed_ok.induct) auto

lemma published_sized:
  assumes "published q pb"
  shows "sized_quote_ok q \<and> (pq_book_complete q \<longrightarrow> pq_market_id q \<notin> set (pb_market_invalid pb))"
proof -
  obtain inp b ut pb1 where q: "q = make_quote inp b ut pb1" "book_ok b" "tb_invalid b = market_is_invalid b pb"
    using assms by (auto simp: published_def)
  have "sized_quote_ok q" unfolding sized_quote_ok_def
  proof (intro allI impI)
    fix s s' assume c: "pq_book_complete q \<and> pq_best_bid_size q = Some s \<and> pq_best_ask_size q = Some s'"
    then have o: "tb_bid_override b = None" "tb_ask_override b = None" "structurally_complete b"
      by (auto simp: q(1) make_quote_fields split: if_splits)
    obtain bid ask u u' where l: "best_bid_level (tb_bids b) = Some (bid, u)" "best_ask_level (tb_asks b) = Some (ask, u')"
      "fless bid ask" "\<not> fle u fzero" "\<not> fle u' fzero"
      using complete_quote_levels [OF o(3) q(2) o(1,2)] by blast
    then show "\<exists>bid ask. pq_best_bid q = Some bid \<and> pq_best_ask q = Some ask \<and> fless bid ask
        \<and> \<not> fle s fzero \<and> \<not> fle s' fzero"
      using c o by (intro exI [of _ bid] exI [of _ ask]) (auto simp: q(1) make_quote_fields)
  qed
  then show ?thesis using q(3) by (auto simp: q(1) make_quote_fields market_is_invalid_def)
qed

text \<open>What a message does to the books, and what its events say.\<close>

definition feeds :: "poly_book \<Rightarrow> market_event list outcome \<Rightarrow> bool" where
  "feeds pb r \<longleftrightarrow> poly_inv (snd r) \<and> set (pb_market_invalid pb) \<subseteq> set (pb_market_invalid (snd r))
     \<and> (\<forall>es. fst r = Inr es \<longrightarrow> feed_ok (set (pb_market_invalid pb)) es
          \<and> ended_by es \<subseteq> set (pb_market_invalid (snd r)))"

lemma feeds_failed: "poly_inv pb \<Longrightarrow> feeds pb (Inl e, pb)"
  by (simp add: feeds_def)

lemma feeds_quote: "step_ok pb r \<Longrightarrow> feeds pb (one_event E_quote r)"
  by (cases r; cases "fst r") (auto simp: feeds_def step_ok_def one_event_def dest: published_sized)

lemma feeds_then:
  assumes "feeds pb (Inr es, pb1)" and "feeds pb1 (Inr es', pb2)"
  shows "feeds pb (Inr (es @ es'), pb2)"
  using assms by (auto simp: feeds_def feed_ok_append intro: feed_ok_anti)

lemma feeds_then_failed:
  "feeds pb (Inr es, pb1) \<Longrightarrow> feeds pb1 (Inl e, pb2) \<Longrightarrow> feeds pb (Inl e, pb2)"
  by (auto simp: feeds_def)

lemma quotes_feed:
  "poly_inv pb \<Longrightarrow> feeds pb (map_prod (map_sum id (map E_quote)) id (quotes_from_price_change c t p rows n pb))"
proof (induction rows arbitrary: n pb)
  case (Cons row rows)
  define inp where "inp = quote_inputs_at c t n (val_or (vget row ''hash'') (vget p ''hash''))"
  obtain r pb1 where r: "apply_price_change row p inp pb = (r, pb1)" by fastforce
  have ok: "step_ok pb (r, pb1)" using apply_price_change_ok [OF Cons.prems, of row p inp] r by simp
  then have f: "feeds pb (one_event E_quote (r, pb1))" and "poly_inv pb1"
    by (simp_all add: feeds_quote step_ok_def)
  show ?case
  proof (cases r)
    case (Inl e)
    then show ?thesis using f r by (simp add: one_event_def inp_def)
  next
    case (Inr q)
    obtain r2 pb2 where r2: "quotes_from_price_change c t p rows (Suc n) pb1 = (r2, pb2)" by fastforce
    have i: "feeds pb1 (map_sum id (map E_quote) r2, pb2)" using Cons.IH [OF \<open>poly_inv pb1\<close>, of "Suc n"] r2 by (simp add: id_def)
    show ?thesis
      using f i feeds_then [of pb "[E_quote q]" pb1] feeds_then_failed [of pb "[E_quote q]" pb1]
      by (cases r2) (simp_all add: r [unfolded inp_def] r2 Inr one_event_def)
  qed
qed (simp add: feeds_def)

lemma lifecycle_event_of_type: "lifecycle_event_of lt p c t n = Inr l \<Longrightarrow> ml_lifecycle_type l = lt"
  by (auto simp: lifecycle_event_of_def and_then_def realtime_event.extend_def market_lifecycle_event.fields_def
      split: sum.splits)

lemma lifecycle_feeds:
  assumes "poly_inv pb"
  shows "feeds pb (Inr [E_lifecycle l], apply_lifecycle l pb)"
proof -
  note t = update_tick_size_ok [OF assms, of "ml_market_id l" "ml_token_id l"]
  show ?thesis using assms t mark_market_invalid_ok [OF assms, of "ml_market_id l"]
    by (cases "ml_lifecycle_type l"; cases "ml_new_tick_size l")
      (auto simp: feeds_def apply_lifecycle_def ends_market_def same_marks_def mark_market_invalid_def)
qed

lemma payload_feeds:
  assumes "poly_inv pb"
  shows "feeds pb (normalize_payload c p n pb)"
proof (cases "timestamp_to_ns (vget p ''timestamp'')")
  case (Inl e)
  then show ?thesis using assms by (simp add: normalize_payload_def Let_def feeds_failed)
next
  case (Inr t)
  define inp where "inp = quote_inputs_at c t n (vget p ''hash'')"
  note q = feeds_quote [OF apply_book_ok [OF assms, of p inp]]
    feeds_quote [OF apply_best_bid_ask_ok [OF assms, of p inp]] quotes_feed [OF assms]
    lifecycle_feeds [OF assms] feeds_failed [OF assms]
  have tick: "feeds pb (one_event E_tick (x, pb))" for x
    using assms by (cases x) (simp_all add: one_event_def feeds_def)
  show ?thesis using q tick
    unfolding normalize_payload_def Let_def Inr sum.case inp_def [symmetric]
    by (simp split: option.split sum.split)
qed

lemma payloads_feed: "poly_inv pb \<Longrightarrow> feeds pb (normalize_payloads c ps n pb)"
proof (induction ps arbitrary: n pb)
  case (Cons p ps)
  obtain r pb1 where r: "normalize_payload c p n pb = (r, pb1)" by fastforce
  have f: "feeds pb (r, pb1)" using payload_feeds [OF Cons.prems, of c p n] r by simp
  then have i: "poly_inv pb1" by (simp add: feeds_def)
  show ?case
  proof (cases r)
    case (Inl e)
    then show ?thesis using f r by simp
  next
    case (Inr es)
    obtain r2 pb2 where r2: "normalize_payloads c ps (n + length es) pb1 = (r2, pb2)" by fastforce
    have "feeds pb1 (r2, pb2)" using Cons.IH [OF i, of "n + length es"] r2 by simp
    then show ?thesis using f feeds_then [of pb es pb1] feeds_then_failed [of pb es pb1]
      by (cases r2) (simp_all add: r r2 Inr)
  qed
qed (simp add: feeds_def)

lemma message_feeds: "poly_inv pb \<Longrightarrow> feeds pb (normalize_polymarket loads raw c pb)"
  by (auto simp: normalize_polymarket_def payloads_feed feeds_failed split: sum.split)

subsection \<open>The feed of a run\<close>

definition client_ok :: "poly_client \<Rightarrow> market_event list \<Rightarrow> bool" where
  \<comment> \<open>the events \<open>es\<close> have been handed out\<close>
  "client_ok s es \<longleftrightarrow> poly_inv (pc_books s) \<and> feed_ok {} (es @ pending s)
     \<and> ended_by (es @ pending s) \<subseteq> set (pb_market_invalid (pc_books s))"

lemma client_ok_quiet: "client_ok s es \<Longrightarrow> quiet s out s' \<Longrightarrow> client_ok s' (es @ out)"
proof -
  assume c: "client_ok s es" and q: "quiet s out s'"
  then consider "(es @ out) @ pending s' = es @ pending s" | "out = []" "pending s' = []" by (auto simp: quiet_def)
  then show "client_ok s' (es @ out)"
  proof cases
    case 1
    then show ?thesis using c q by (simp only: client_ok_def quiet_def)
  next
    case 2
    then show ?thesis using c q by (simp add: client_ok_def quiet_def feed_ok_append)
  qed
qed

lemma client_ok_books:
  "client_ok s es \<Longrightarrow> pending s' = pending s \<Longrightarrow> poly_inv (pc_books s')
     \<Longrightarrow> set (pb_market_invalid (pc_books s)) \<subseteq> set (pb_market_invalid (pc_books s')) \<Longrightarrow> client_ok s' es"
  by (auto simp: client_ok_def)

lemma update_markets_books:
  assumes "poly_inv (pc_books s)"
  shows "poly_inv (pc_books (update_stream_markets markets tokens s))"
    "pb_market_invalid (pc_books (update_stream_markets markets tokens s)) = pb_market_invalid (pc_books s)"
    "pending (update_stream_markets markets tokens s) = pending s"
  using update_token_metadata_ok [OF assms] assms
  by (auto simp: update_stream_markets_def Let_def same_marks_def pending_def)

lemma connected_books:
  assumes "poly_inv (pc_books s)"
  shows "poly_inv (pc_books (poly_connected s))"
    "pb_market_invalid (pc_books (poly_connected s)) = pb_market_invalid (pc_books s)"
    "pending (poly_connected s) = []"
  using record_reconnect_ok [OF assms] assms
  by (auto simp: poly_connected_def Let_def pending_def record_reconnect_def)

lemma client_ok_message:
  assumes "client_ok s es" and "pending s = []" and "poly_message opts loads raw c s = (out, s')"
  shows "client_ok s' (es @ out)"
proof -
  obtain r pb where n: "normalize_polymarket loads raw c (pc_books s) = (r, pb)" by fastforce
  have f: "feeds (pc_books s) (r, pb)" using message_feeds [of "pc_books s" loads raw c] assms(1) n by (simp add: client_ok_def)
  show ?thesis
  proof (cases r)
    case (Inl e)
    then have "out = []" "s' = poly_failed opts e (s\<lparr>pc_books := pb\<rparr>)" using assms(3) n by (simp_all add: poly_message_def)
    moreover have "pending s' = []" using calculation poly_failed_client(3) [of opts e "s\<lparr>pc_books := pb\<rparr>"]
      by (auto simp: pending_def is_suspended_def split: phase.splits)
    ultimately show ?thesis using assms(1,2) f by (auto simp: client_ok_def poly_failed_client feeds_def)
  next
    case (Inr new)
    then have "hand_out poly_loop_head new (s\<lparr>pc_books := pb\<rparr>) = (out, s')" using assms(3) n by (simp add: poly_message_def)
    from hand_out_client [OF this] have h: "pc_books s' = pb" "out @ pending s' = new" by simp_all
    have "feed_ok {} (es @ new)" using assms(1,2) f Inr
      by (auto simp: client_ok_def feeds_def feed_ok_append intro: feed_ok_anti)
    moreover have "ended_by (es @ new) \<subseteq> set (pb_market_invalid pb)"
      using assms(1,2) f Inr by (auto simp: client_ok_def feeds_def)
    ultimately show ?thesis using f h by (simp add: client_ok_def feeds_def)
  qed
qed

lemma client_ok_step:
  assumes "poly_stream_step opts loads i s = (out, s')" and "client_ok s es"
  shows "client_ok s' (es @ out)"
  using assms(1)
proof (cases rule: poly_stream_step_cases)
  case quiet
  then show ?thesis using client_ok_quiet [OF assms(2)] by blast
next
  case (update markets tokens)
  then show ?thesis using assms(2) update_markets_books [of s markets tokens] client_ok_books [OF assms(2), of s']
    by (simp add: client_ok_def)
next
  case connected
  then have "pending s = []" by (simp add: pending_def)
  then show ?thesis using connected assms(2) connected_books [of s] client_ok_books [OF assms(2), of s']
    by (simp add: client_ok_def)
next
  case (message raw c)
  then have "pending s = []" by (simp add: pending_def)
  then show ?thesis using client_ok_message [OF assms(2) _ message(2)] by simp
qed

lemma client_ok_run:
  "poly_stream_run opts loads is s = (out, s') \<Longrightarrow> client_ok s es \<Longrightarrow> client_ok s' (es @ out)"
proof (induction "is" arbitrary: s es out)
  case (Cons i "is")
  obtain o1 s1 where 1: "poly_stream_step opts loads i s = (o1, s1)" by fastforce
  obtain o2 s2 where 2: "poly_stream_run opts loads is s1 = (o2, s2)" by fastforce
  have e: "out = o1 @ o2" and s2: "s2 = s'" using Cons.prems(1) 1 2 by simp_all
  from Cons.IH [OF 2 [unfolded s2] client_ok_step [OF 1 Cons.prems(2)]] show ?case by (simp add: e)
qed simp

lemma distinct_fold:
  "(\<And>x d. distinct (map fst d) \<Longrightarrow> distinct (map fst (f x d))) \<Longrightarrow> distinct (map fst d) \<Longrightarrow> distinct (map fst (fold f xs d))"
  by (induction xs arbitrary: d) simp_all

lemma build_token_metadata_distinct: "distinct (map fst (build_token_metadata markets tokens overrides))"
  unfolding build_token_metadata_def
  by (intro distinct_fold)
    (auto simp: add_unknown_def override_label_def add_market_def distinct_update split: prod.splits intro!: distinct_fold)

lemma poly_client_init_ok: "client_ok (poly_client_init url tokens markets ov sa mode tol path n) []"
  using poly_book_init_inv [OF build_token_metadata_distinct]
  by (simp add: client_ok_def poly_client_init_def Let_def pending_def)

subsection \<open>Concrete runs\<close>

definition ex_stream_options :: stream_options where
  "ex_stream_options = \<lparr>so_max_events = Some 2, so_max_attempts = None, so_initial_backoff = Fin (1 / 4), so_max_backoff = Fin 8\<rparr>"

definition ex_payloads :: "(string \<times> pyval) list list" where
  \<comment> \<open>one message: the market closes, then a book of its token comes\<close>
  "ex_payloads = [[(''event_type'', VStr ''closed''), (''market'', VStr ''m'')],
     [(''event_type'', VStr ''book''), (''asset_id'', VStr ''U''), (''bids'', VList [ex_row (1 / 2) 4]),
      (''asks'', VList [ex_row (5 / 8) 2])]]"

definition ex_loads :: "string \<Rightarrow> pyval option" where
  "ex_loads raw = Some (VList (map VDict ex_payloads))"

definition ex_clock :: message_clock where
  "ex_clock = \<lparr>mc_utc_now = 1, mc_monotonic_now = 1, mc_received = Some 5, mc_recv_monotonic = Some 6, mc_parse_done = 7,
     mc_parse_done_monotonic = 6, mc_fresh = (\<lambda>n. ([], 0))\<rparr>"

definition ex_listed :: market_metadata where
  "ex_listed = ex_market\<lparr>mm_token_outcomes := [(''U'', ''Up'')]\<rparr>"

definition ex_stream_client :: poly_client where
  "ex_stream_client = poly_client_init ''wss://host/ws/'' [] [ex_listed] [] (Fin 1000) Strict 1 None 20"

definition ex_inputs :: "poly_input list" where
  "ex_inputs = [In_start, In_connected None, In_sent None, In_recv (R_message []) ex_clock, In_next, In_next]"

definition ex_books :: "pyfloat \<Rightarrow> poly_book" where
  "ex_books th = poly_book_init [(''U'', metadata_of_token ex_listed ''Up'')] (Fin 1000) Strict 1 None 20 th"

definition view_event :: "market_event \<Rightarrow> string \<times> bool" where
  "view_event e = (case e of E_quote q \<Rightarrow> (pq_market_id q, pq_book_complete q)
     | E_lifecycle l \<Rightarrow> (ml_market_id l, ends_market (ml_lifecycle_type l)) | _ \<Rightarrow> ([], False))"

lemma ex_normalized: "(case fst (normalize_payloads ex_clock ex_payloads 0 (ex_books th)) of
    Inr [E_lifecycle l, E_quote q] \<Rightarrow> Some (view_event (E_lifecycle l), view_event (E_quote q)) | _ \<Rightarrow> None)
    = Some ((''m'', True), (''m'', False))"
  by code_simp

lemma ex_message:
  obtains l q s where "poly_stream_run ex_stream_options ex_loads ex_inputs ex_stream_client = ([E_lifecycle l, E_quote q], s)"
    "ends_market (ml_lifecycle_type l)" "pq_market_id q = ml_market_id l" "ml_market_id l = ''m''"
proof -
  have b: "pc_books ex_stream_client = ex_books (f64 (1 / 20))" "pc_token_ids ex_stream_client = [''U'']" "st_phase ex_stream_client = P_start"
    "st_attempt ex_stream_client = 0" "pc_version ex_stream_client = 0" "pc_active_version ex_stream_client = -1" "st_yielded ex_stream_client = 0"
    by (simp_all add: ex_stream_client_def poly_client_init_def Let_def ex_books_def build_token_metadata_def add_market_def
        ex_listed_def add_unknown_def tokens_or_all_def token_ids_def)
  obtain l q pb where n: "normalize_payloads ex_clock ex_payloads 0 (ex_books (f64 (1 / 20))) = (Inr [E_lifecycle l, E_quote q], pb)"
    and v: "view_event (E_lifecycle l) = (''m'', True)" "view_event (E_quote q) = (''m'', False)"
    using ex_normalized [of "f64 (1 / 20)"]
    by (cases "normalize_payloads ex_clock ex_payloads 0 (ex_books (f64 (1 / 20)))")
      (auto split: sum.splits list.splits market_event.splits)
  have d: "decode_payloads ex_loads [] = Inr ex_payloads" by (simp add: decode_payloads_def ex_loads_def ex_payloads_def)
  have "\<exists>s. poly_stream_run ex_stream_options ex_loads ex_inputs ex_stream_client = ([E_lifecycle l, E_quote q], s)"
    by (simp add: ex_inputs_def poly_stream_step_def b poly_connected_def poly_subscribed_def poly_loop_head_def
        receiving_def recv_with_heartbeat_def poly_message_def normalize_polymarket_def d n hand_out_def resume_def
        limit_reached_def ex_stream_options_def disconnect_if_ended_def running_def)
  then show thesis using v that by (auto simp: view_event_def)
qed

subsection \<open>Failing to connect\<close>

definition binance_failures :: "py_error list \<Rightarrow> binance_input list" where
  "binance_failures errs = concat (map (\<lambda>e. [B_connected (Some e), B_wake]) errs)"

definition polymarket_failures :: "py_error list \<Rightarrow> poly_input list" where
  "polymarket_failures errs = concat (map (\<lambda>e. [In_connected (Some e), In_wake]) errs)"

lemma binance_failures_absorbed:
  "st_phase s = P_raised x \<Longrightarrow> binance_run opts loads (binance_failures errs) s = ([], s)"
  by (induction errs) (simp_all add: binance_failures_def binance_step_def)

lemma polymarket_failures_absorbed:
  "st_phase s = P_raised x \<Longrightarrow> poly_stream_run opts loads (polymarket_failures errs) s = ([], s)"
  by (induction errs) (simp_all add: polymarket_failures_def poly_stream_step_def)

lemma binance_failures_phase:
  "so_max_attempts opts = None \<Longrightarrow> st_phase s = P_connecting \<Longrightarrow> st_attempt s \<le> 1024
     \<Longrightarrow> st_phase (snd (binance_run opts loads (binance_failures errs) s))
       = (if st_attempt s + length errs \<le> 1024 then P_connecting else P_raised OverflowError)"
proof (induction errs arbitrary: s)
  case (Cons e errs)
  define s1 where "s1 = after_exception opts e s"
  have step: "binance_step opts loads (B_connected (Some e)) s = ([], s1)"
    using Cons.prems by (simp add: binance_step_def s1_def)
  have run: "binance_run opts loads (binance_failures (e # errs)) s
      = binance_run opts loads (binance_failures errs) (snd (binance_step opts loads B_wake s1))"
    using step by (simp add: binance_failures_def binance_step_def split: phase.split prod.split)
  show ?case
  proof (cases "st_attempt s < 1024")
    case True
    note a = after_exception_unlimited(1) [OF Cons.prems(1) True, of e]
    have "snd (binance_step opts loads B_wake s1) = s1\<lparr>st_phase := P_connecting\<rparr>"
      by (simp add: s1_def a binance_step_def)
    then show ?thesis using Cons.IH [of "s1\<lparr>st_phase := P_connecting\<rparr>"] Cons.prems True run
      by (simp add: s1_def a)
  next
    case False
    then have a: "s1 = s\<lparr>st_phase := P_raised OverflowError\<rparr>"
      using after_exception_unlimited(2) [OF Cons.prems(1), of s e] by (simp add: s1_def)
    then have "binance_step opts loads B_wake s1 = ([], s1)" by (simp add: binance_step_def)
    then show ?thesis using False run a binance_failures_absorbed [of s1 OverflowError opts loads errs] by simp
  qed
qed (simp add: binance_failures_def)

lemma polymarket_failures_phase:
  "so_max_attempts opts = None \<Longrightarrow> st_phase s = P_connecting \<Longrightarrow> st_attempt s \<le> 1024
     \<Longrightarrow> st_phase (snd (poly_stream_run opts loads (polymarket_failures errs) s))
       = (if st_attempt s + length errs \<le> 1024 then P_connecting else P_raised OverflowError)"
proof (induction errs arbitrary: s)
  case (Cons e errs)
  define s1 where "s1 = poly_failed opts e s"
  have step: "poly_stream_step opts loads (In_connected (Some e)) s = ([], s1)"
    using Cons.prems by (simp add: poly_stream_step_def s1_def)
  have run: "poly_stream_run opts loads (polymarket_failures (e # errs)) s
      = poly_stream_run opts loads (polymarket_failures errs) (snd (poly_stream_step opts loads In_wake s1))"
    using step by (simp add: polymarket_failures_def poly_stream_step_def split: phase.split prod.split)
  show ?case
  proof (cases "st_attempt s < 1024")
    case True
    note a = after_exception_unlimited(1) [OF Cons.prems(1), of "s\<lparr>pc_connected := False\<rparr>" e]
    have "snd (poly_stream_step opts loads In_wake s1) = s1\<lparr>st_phase := P_connecting\<rparr>"
      using True by (simp add: s1_def a poly_failed_def poly_stream_step_def)
    then show ?thesis using Cons.IH [of "s1\<lparr>st_phase := P_connecting\<rparr>"] Cons.prems True run
      by (simp add: s1_def a poly_failed_def)
  next
    case False
    then have a: "s1 = s\<lparr>pc_connected := False, st_phase := P_raised OverflowError\<rparr>"
      using after_exception_unlimited(2) [OF Cons.prems(1), of "s\<lparr>pc_connected := False\<rparr>" e]
      by (simp add: s1_def poly_failed_def)
    then have "poly_stream_step opts loads In_wake s1 = ([], s1)" by (simp add: poly_stream_step_def)
    then show ?thesis using False run a polymarket_failures_absorbed [of s1 OverflowError opts loads errs] by simp
  qed
qed (simp add: polymarket_failures_def)

text \<open>
  The server was sent the tokens of before an update that comes while the subscription is sent, and
  the client takes the new ones for subscribed; only the close it has asked for corrects that.
\<close>

lemma update_while_sending_is_taken_for_subscribed:
  assumes "st_phase s = P_sending" and "0 \<le> pc_version s"
    and "s1 = snd (poly_stream_step opts loads (In_update markets tokens) s)"
    and "s2 = snd (poly_stream_step opts loads (In_sent None) s1)"
  shows "sr_status (subscription_diagnostics s2) = Sub_active" and "pc_active_tokens s2 = pc_token_ids s1"
    and "st_phase s2 = P_receiving"
proof -
  have "s1 = update_stream_markets markets tokens s" using assms(1,3) by (simp add: poly_stream_step_def)
  then have "st_phase s1 = P_sending" "0 \<le> pc_version s1"
    using assms(1,2) by (auto simp: update_stream_markets_def Let_def)
  then have "s2 = poly_subscribed s1" using assms(4) by (simp add: poly_stream_step_def)
  then show "sr_status (subscription_diagnostics s2) = Sub_active" "pc_active_tokens s2 = pc_token_ids s1"
    "st_phase s2 = P_receiving"
    using \<open>0 \<le> pc_version s1\<close>
    by (simp_all add: poly_subscribed_def poly_loop_head_def receiving_def subscription_diagnostics_def
        subscription_state_def Let_def)
qed

subsection \<open>Properties\<close>

text \<open>
  C30: once the Polymarket stream has handed out an event that a market is resolved, closed or
  expired, no quote it hands out later is complete for that market, whatever messages, failures,
  reconnects and changes of the subscription come between.
\<close>

theorem streamed_market_end_is_final:
  assumes "poly_stream_run opts loads is (poly_client_init url tokens markets ov sa mode tol path n)
      = (es1 @ E_lifecycle l # es2, s)"
    and "ends_market (ml_lifecycle_type l)" and "E_quote q \<in> set es2" and "pq_market_id q = ml_market_id l"
  shows "\<not> pq_book_complete q"
proof -
  have "feed_ok {} (es1 @ E_lifecycle l # es2)"
    using client_ok_run [OF assms(1) poly_client_init_ok] by (simp add: client_ok_def feed_ok_append)
  then show ?thesis using assms(2-4) by (rule feed_ok_market [OF _ refl])
qed

theorem streamed_market_end_is_final_witness:
  "\<exists>l q s. poly_stream_run ex_stream_options ex_loads ex_inputs ex_stream_client = ([] @ E_lifecycle l # [E_quote q], s)
     \<and> ml_market_id l = ''m'' \<and> pq_market_id q = ''m'' \<and> \<not> pq_book_complete q"
proof -
  obtain l q s where m: "poly_stream_run ex_stream_options ex_loads ex_inputs ex_stream_client = ([] @ E_lifecycle l # [E_quote q], s)"
    "ends_market (ml_lifecycle_type l)" "pq_market_id q = ml_market_id l" "ml_market_id l = ''m''"
    using ex_message by auto
  have "\<not> pq_book_complete q"
    by (rule streamed_market_end_is_final [OF m(1) [unfolded ex_stream_client_def] m(2) _ m(3)]) simp
  then show ?thesis using m by fastforce
qed

text \<open>
  C31: in every state the Polymarket client reaches, its diagnostics say active exactly when the
  subscription is of the current version, and then the tokens agree, none missing and none left
  over; they say pending before the first subscription, and transition in every other state, so
  that they never have to report a subscription that is out of sync.
\<close>

theorem subscription_status_is_truthful:
  "let s = snd (poly_stream_run opts loads is (poly_client_init url tokens markets ov sa mode tol path n));
       r = subscription_diagnostics s
   in sr_status r = (if \<not> sr_established r then Sub_pending
        else if pc_active_version s = pc_version s then Sub_active else Sub_transition)
    \<and> (pc_active_version s = pc_version s) = (sr_status r = Sub_active \<and> pc_active_tokens s = pc_token_ids s
         \<and> sr_missing r = [] \<and> sr_extra r = [] \<and> sr_out_of_sync r = Some False)"
proof -
  define s where "s = snd (poly_stream_run opts loads is (poly_client_init url tokens markets ov sa mode tol path n))"
  have "sub_ok s" unfolding s_def
    by (rule poly_stream_run_sub [OF prod.collapse [symmetric] poly_client_init_sub])
  then show ?thesis unfolding Let_def s_def [symmetric]
    by (auto simp: sub_ok_def subscription_diagnostics_def subscription_state_def Let_def split: if_splits)
qed

text \<open>
  C32: with no limit on reconnects both clients keep on trying through 1024 failed attempts in a
  row; the next failure ends the stream with an overflow error, because the delay is a product
  with a power of two that no float can hold.
\<close>

theorem reconnecting_ends_in_overflow:
  assumes "so_max_attempts opts = None"
    and "st_phase b = P_connecting" and "st_attempt b = 0" and "st_phase p = P_connecting" and "st_attempt p = 0"
  shows "st_phase (snd (binance_run opts loads (binance_failures errs) b))
      = (if length errs \<le> 1024 then P_connecting else P_raised OverflowError)
    \<and> st_phase (snd (poly_stream_run opts loads (polymarket_failures errs) p))
      = (if length errs \<le> 1024 then P_connecting else P_raised OverflowError)"
  using binance_failures_phase [OF assms(1,2)] polymarket_failures_phase [OF assms(1,4)] assms(3,5) by simp

theorem reconnecting_ends_in_overflow_witness:
  "st_phase (snd (binance_run ex_stream_options ex_loads (binance_failures (replicate 1025 OSError))
     (stream_start\<lparr>st_phase := P_connecting\<rparr>))) = P_raised OverflowError"
proof -
  have "so_max_attempts ex_stream_options = None" "st_phase (stream_start\<lparr>st_phase := P_connecting\<rparr>) = P_connecting"
    "st_attempt (stream_start\<lparr>st_phase := P_connecting\<rparr>) = 0" "st_phase (ex_stream_client\<lparr>st_phase := P_connecting\<rparr>) = P_connecting"
    "st_attempt (ex_stream_client\<lparr>st_phase := P_connecting\<rparr>) = 0"
    by (simp_all add: ex_stream_options_def stream_start_def ex_stream_client_def poly_client_init_def Let_def)
  from reconnecting_ends_in_overflow [OF this, of ex_loads "replicate 1025 OSError"] show ?thesis by simp
qed

text \<open>
  C38: with a limit on the events both clients hand out at most that many, and at most one when the
  limit is zero or less, and one more for each time that leaving the connection raises, whatever
  their messages hold: the handler of the loop takes the exception of a \<open>return\<close> at the limit for a
  failed connection, connects again and goes on.
\<close>

theorem streams_hand_out_at_most_the_limit:
  assumes "so_max_events opts = Some k"
  shows "int (length (fst (binance_run opts loads bs stream_start)))
      \<le> max 1 k + int (length (filter (\<lambda>i. case i of B_closed (Some _) \<Rightarrow> True | _ \<Rightarrow> False) bs))
    \<and> int (length (fst (poly_stream_run opts loads ps
        (poly_client_init url tokens markets ov sa mode tol path n))))
      \<le> max 1 k + int (length (filter (\<lambda>i. case i of In_closed (Some _) \<Rightarrow> True | _ \<Rightarrow> False) ps))"
proof (rule conjI)
  show "int (length (fst (binance_run opts loads bs stream_start)))
      \<le> max 1 k + int (length (filter (\<lambda>i. case i of B_closed (Some _) \<Rightarrow> True | _ \<Rightarrow> False) bs))"
    unfolding binance_exit_fails_def [symmetric]
    by (rule binance_events.hands_out_at_most [OF prod.collapse [symmetric] _ _ assms]) (simp_all add: stream_start_def)
  show "int (length (fst (poly_stream_run opts loads ps
        (poly_client_init url tokens markets ov sa mode tol path n))))
      \<le> max 1 k + int (length (filter (\<lambda>i. case i of In_closed (Some _) \<Rightarrow> True | _ \<Rightarrow> False) ps))"
    unfolding polymarket_exit_fails_def [symmetric]
    by (rule polymarket_events.hands_out_at_most [OF prod.collapse [symmetric] _ _ assms])
      (simp_all add: poly_client_init_def Let_def)
qed

theorem streams_hand_out_at_most_the_limit_witness:
  "so_max_events ex_stream_options = Some 2
     \<and> int (length (fst (poly_stream_run ex_stream_options ex_loads ex_inputs ex_stream_client))) = 2
     \<and> int (length (fst (poly_stream_run ex_stream_options ex_loads ex_inputs ex_stream_client))) \<le> max 1 2"
proof -
  have o: "so_max_events ex_stream_options = Some 2" by (simp add: ex_stream_options_def)
  have "length (fst (poly_stream_run ex_stream_options ex_loads ex_inputs ex_stream_client)) = 2" using ex_message by fastforce
  then show ?thesis
    using o streams_hand_out_at_most_the_limit [OF o, of ex_loads "[]" ex_inputs "''wss://host/ws/''" "[]" "[ex_listed]"
        "[]" "Fin 1000" Strict 1 None 20, folded ex_stream_client_def] by (simp add: ex_inputs_def)
qed

end
