(* ===== verification/LabeledRows.thy ===== *)
theory LabeledRows
  imports LevelBook WsReconnect
begin

text \<open>
  The labelled data set of \<open>app/research/orderbook_labeled_dataset.py\<close>: validating the clean samples,
  the features of a sample and of its past, and the labels from its future. Samples and rows are the
  JSON objects the code reads and writes. An exception is the left of a sum; \<open>ValueError\<close> is the only
  one the code catches. A file is the list of its decoded lines.
\<close>

type_synonym json = "(string \<times> pyval) list"

subsection \<open>Numbers\<close>

definition as_float :: "pyval \<Rightarrow> py_error + pyfloat" where
  \<comment> \<open>\<open>float(value)\<close>, of which the code only catches \<open>TypeError\<close> and \<open>ValueError\<close>; not finite is a \<open>ValueError\<close>\<close>
  "as_float v = (case (case v of VInt n \<Rightarrow> (case float_of_int n of Fin x \<Rightarrow> Inr (Fin x) | _ \<Rightarrow> Inl OverflowError)
       | _ \<Rightarrow> float_from v) of
     Inl e \<Rightarrow> Inl e | Inr (Fin x) \<Rightarrow> Inr (Fin x) | Inr _ \<Rightarrow> Inl ValueError)"

definition int_instance :: "pyval \<Rightarrow> int option" where
  \<comment> \<open>\<open>isinstance(value, int)\<close>; a \<open>bool\<close> is one\<close>
  "int_instance v = (case v of VInt n \<Rightarrow> Some n | VBool b \<Rightarrow> Some (if b then 1 else 0) | _ \<Rightarrow> None)"

definition num_val :: "pyfloat option \<Rightarrow> pyval" where
  "num_val x = (case x of None \<Rightarrow> VNone | Some f \<Rightarrow> VFloat f)"

definition json_number :: "pyfloat \<Rightarrow> pyfloat option" where
  "json_number x = (case x of Fin _ \<Rightarrow> Some x | _ \<Rightarrow> None)"

fun collect :: "(py_error + 'a) list \<Rightarrow> py_error + 'a list" where
  \<comment> \<open>a comprehension; it ends with the first exception\<close>
  "collect [] = Inr []"
| "collect (x # xs) = and_then x (\<lambda>a. and_then (collect xs) (\<lambda>as. Inr (a # as)))"

subsection \<open>Price levels\<close>

definition parse_level :: "pyval \<Rightarrow> py_error + pyfloat \<times> pyfloat" where
  "parse_level item = (case item of VList [p, q] \<Rightarrow>
       and_then (as_float p) (\<lambda>price. and_then (as_float q) (\<lambda>qty.
         if fle price fzero \<or> fless qty fzero then Inl ValueError else Inr (price, qty)))
     | _ \<Rightarrow> Inl ValueError)"

definition parse_book_levels :: "pyval \<Rightarrow> py_error + (pyfloat \<times> pyfloat) list" where
  \<comment> \<open>\<open>_parse_levels\<close>\<close>
  "parse_book_levels v = (case v of VList items \<Rightarrow> collect (map parse_level items) | _ \<Rightarrow> Inl ValueError)"

subsection \<open>Clean samples\<close>

definition required_sample_fields :: "string list" where
  "required_sample_fields = [''schema_version'', ''symbol'', ''source'', ''generation_id'',
     ''local_recv_monotonic_ns'', ''local_recv_wall_ts'', ''last_update_id'', ''best_bid'', ''best_ask'',
     ''bids'', ''asks'', ''quality'', ''lifecycle'']"

definition is_int :: "pyval \<Rightarrow> bool" where
  \<comment> \<open>an \<open>int\<close> that is no \<open>bool\<close>\<close>
  "is_int v = (case v of VInt _ \<Rightarrow> True | _ \<Rightarrow> False)"

definition best_price_errors :: "json \<Rightarrow> py_error + string list" where
  "best_price_errors row =
     (case and_then (as_float (vget row ''best_bid'')) (\<lambda>bid. and_then (as_float (vget row ''best_ask'')) (\<lambda>ask.
        Inr ((if fle bid fzero \<or> fle ask fzero then [''non_positive_best_price''] else [])
           @ (if fle ask bid then [''best_bid_not_less_than_best_ask''] else [])))) of
      Inl ValueError \<Rightarrow> Inr [''invalid_best_bid_or_ask''] | r \<Rightarrow> r)"

definition adjacent :: "(pyfloat \<Rightarrow> pyfloat \<Rightarrow> bool) \<Rightarrow> (pyfloat \<times> pyfloat) list \<Rightarrow> bool" where
  \<comment> \<open>two neighbouring prices are in the relation\<close>
  "adjacent r levels \<longleftrightarrow> list_ex (\<lambda>(a, b). r (fst a) (fst b)) (zip levels (tl levels))"

definition book_errors :: "json \<Rightarrow> py_error + string list" where
  "book_errors row =
     (case and_then (parse_book_levels (vget row ''bids'')) (\<lambda>bids.
        and_then (parse_book_levels (vget row ''asks'')) (\<lambda>asks.
        Inr ((if bids = [] then [''bids_empty''] else []) @ (if asks = [] then [''asks_empty''] else [])
           @ (if adjacent fless bids then [''bids_not_sorted_descending''] else [])
           @ (if adjacent (\<lambda>a b. fless b a) asks then [''asks_not_sorted_ascending''] else [])))) of
      Inl ValueError \<Rightarrow> Inr [''invalid_book_levels''] | r \<Rightarrow> r)"

definition quality_errors :: "json \<Rightarrow> string list" where
  "quality_errors row = (case vget row ''quality'' of
     VDict q \<Rightarrow> (if vget q ''errors'' \<noteq> VList [] then [''quality.errors_present''] else [])
       @ (if vget q ''is_valid'' = VBool False then [''quality.is_valid_false''] else [])
   | _ \<Rightarrow> [''quality_not_object''])"

definition lifecycle_errors :: "json \<Rightarrow> string list" where
  "lifecycle_errors row = (case vget row ''lifecycle'' of
     VDict l \<Rightarrow> [''lifecycle.'' @ f @ ''_not_true''.
       f \<leftarrow> [''snapshot_ready'', ''ready_to_emit'', ''sequence_continuous''], vget l f \<noteq> VBool True]
   | _ \<Rightarrow> [''lifecycle_not_object''])"

definition clean_sample_errors :: "json \<Rightarrow> py_error + string list" where
  \<comment> \<open>the text of the exception in \<open>invalid_book_levels\<close> is left out\<close>
  "clean_sample_errors row =
     and_then (best_price_errors row) (\<lambda>best. and_then (book_errors row) (\<lambda>book.
       Inr (sorted_list_of_set (set
         ([''missing_or_null_'' @ f. f \<leftarrow> required_sample_fields, vget row f = VNone]
          @ (if is_int (vget row ''generation_id'') then [] else [''invalid_generation_id''])
          @ (if is_int (vget row ''local_recv_monotonic_ns'') then [] else [''invalid_local_recv_monotonic_ns''])
          @ (if truthy (vget row ''local_recv_wall_ts'') then [] else [''invalid_local_recv_wall_ts''])
          @ (if vget row ''last_update_id'' = VNone then [''invalid_last_update_id''] else [])
          @ best @ book @ quality_errors row @ lifecycle_errors row)))))"

datatype sample_line = Blank_line | Bad_json | Json_line pyval

datatype input_class = Input_file_missing | Input_empty | Input_schema_failure

text \<open>
  A violation also carries copies of the sample's identifying fields, and the path or the parser's message
  in its reason; both are left out.
\<close>

record sample_violation =
  sv_line :: "int option"
  sv_sample_index :: "int option"
  sv_reason :: string
  sv_class :: input_class

record sample_validation =
  sva_valid :: bool
  sva_samples :: "json list"
  sva_invalid_count :: int
  sva_violations :: "sample_violation list"
  sva_class :: "input_class option"

definition schema_violation :: "int \<Rightarrow> nat \<Rightarrow> string \<Rightarrow> sample_violation" where
  "schema_violation line n reason = \<lparr>sv_line = Some line, sv_sample_index = Some (int n), sv_reason = reason,
     sv_class = Input_schema_failure\<rparr>"

fun read_samples :: "int \<Rightarrow> sample_line list \<Rightarrow> nat \<Rightarrow> py_error + json list \<times> sample_violation list" where
  \<comment> \<open>from the given line number on, with so many samples read before\<close>
  "read_samples line [] n = Inr ([], [])"
| "read_samples line (Blank_line # ls) n = read_samples (line + 1) ls n"
| "read_samples line (Bad_json # ls) n = map_sum id (\<lambda>(ss, vs). (ss, schema_violation line n ''invalid_json'' # vs))
     (read_samples (line + 1) ls n)"
| "read_samples line (Json_line (VDict row) # ls) n =
     and_then (clean_sample_errors row) (\<lambda>errs.
       map_sum id (\<lambda>(ss, vs). (row # ss, map (schema_violation line n) errs @ vs)) (read_samples (line + 1) ls (Suc n)))"
| "read_samples line (Json_line _ # ls) n = map_sum id (\<lambda>(ss, vs). (ss, schema_violation line n ''row_not_object'' # vs))
     (read_samples (line + 1) ls n)"

definition whole_file_violation :: "string \<Rightarrow> input_class \<Rightarrow> int \<Rightarrow> sample_validation" where
  "whole_file_violation reason c n = \<lparr>sva_valid = False, sva_samples = [], sva_invalid_count = n,
     sva_violations = [\<lparr>sv_line = None, sv_sample_index = None, sv_reason = reason, sv_class = c\<rparr>],
     sva_class = Some c\<rparr>"

definition validate_clean_samples :: "sample_line list option \<Rightarrow> py_error + sample_validation" where
  \<comment> \<open>\<open>None\<close> for a file that does not exist\<close>
  "validate_clean_samples file = (case file of
     None \<Rightarrow> Inr (whole_file_violation ''input_file_missing'' Input_file_missing 1)
   | Some ls \<Rightarrow> and_then (read_samples 1 ls 0) (\<lambda>(samples, violations).
       Inr (if list_all (\<lambda>l. l = Blank_line) ls then whole_file_violation ''input_empty'' Input_empty 0
         else \<lparr>sva_valid = (violations = []), sva_samples = samples,
           sva_invalid_count = int (card (set (map sv_line violations))), sva_violations = violations,
           sva_class = (if violations = [] then None else Some Input_schema_failure)\<rparr>)))"

subsection \<open>Features of a sample\<close>

type_synonym feature_map = "(string \<times> pyfloat option) list"

definition feature :: "string \<Rightarrow> feature_map \<Rightarrow> pyfloat option" where
  \<comment> \<open>the value, \<open>None\<close> also for a feature that is not there; every name that is read is there\<close>
  "feature name fs = (case map_of fs name of None \<Rightarrow> None | Some x \<Rightarrow> x)"

definition bps :: "pyfloat \<Rightarrow> pyfloat" where
  "bps x = fmul x (Fin 10000)"

definition ratio_of :: "pyfloat \<Rightarrow> pyfloat \<Rightarrow> pyfloat option" where
  \<comment> \<open>no quotient for a zero denominator\<close>
  "ratio_of a b = (if b = fzero then None else json_number (fdiv a b))"

definition depth_of :: "nat \<Rightarrow> (pyfloat \<times> pyfloat) list \<Rightarrow> pyfloat" where
  "depth_of n levels = float_sum (map snd (take n levels))"

definition level_name :: "string \<Rightarrow> nat \<Rightarrow> string" where
  "level_name name n = name @ ''_l'' @ int_digits (int n)"

definition depth_features :: "(pyfloat \<times> pyfloat) list \<Rightarrow> (pyfloat \<times> pyfloat) list \<Rightarrow> nat \<Rightarrow> feature_map" where
  "depth_features bids asks n =
     (let bid = depth_of n bids; ask = depth_of n asks; total = fadd bid ask in
      [(level_name ''bid_depth'' n, json_number bid), (level_name ''ask_depth'' n, json_number ask),
       (level_name ''total_depth'' n, json_number total),
       (level_name ''depth_imbalance'' n, ratio_of (fsub bid ask) total),
       (level_name ''depth_ratio'' n, ratio_of bid ask)])"

definition depth_warnings :: "(pyfloat \<times> pyfloat) list \<Rightarrow> (pyfloat \<times> pyfloat) list \<Rightarrow> nat \<Rightarrow> string list" where
  "depth_warnings bids asks n =
     (let bid = depth_of n bids; ask = depth_of n asks in
      (if fadd bid ask = fzero then [level_name ''depth_imbalance'' n @ ''_denominator_zero''] else [])
      @ (if ask = fzero then [level_name ''depth_ratio'' n @ ''_denominator_zero''] else []))"

definition depth_levels :: "nat list" where "depth_levels = [1, 3, 5, 10, 20]"

definition l1_sizes :: "(pyfloat \<times> pyfloat) list \<Rightarrow> (pyfloat \<times> pyfloat) list \<Rightarrow> (pyfloat \<times> pyfloat) option" where
  \<comment> \<open>the sizes at the top, when both are there and their sum is not zero\<close>
  "l1_sizes bids asks = (case (bids, asks) of
     ((_, b) # _, (_, a) # _) \<Rightarrow> if fadd b a = fzero then None else Some (b, a) | _ \<Rightarrow> None)"

definition l1_features ::
  "(pyfloat \<times> pyfloat) list \<Rightarrow> (pyfloat \<times> pyfloat) list \<Rightarrow> feature_map" where
  "l1_features bids asks =
     [(''bid_size_l1'', case bids of [] \<Rightarrow> None | (_, s) # _ \<Rightarrow> json_number s),
      (''ask_size_l1'', case asks of [] \<Rightarrow> None | (_, s) # _ \<Rightarrow> json_number s),
      (''l1_size_imbalance'', case l1_sizes bids asks of None \<Rightarrow> None
         | Some (b, a) \<Rightarrow> json_number (fdiv (fsub b a) (fadd b a)))]"

definition microprice_features ::
  "pyfloat \<Rightarrow> pyfloat \<Rightarrow> pyfloat \<Rightarrow> (pyfloat \<times> pyfloat) list \<Rightarrow> (pyfloat \<times> pyfloat) list \<Rightarrow> py_error + feature_map" where
  "microprice_features bid ask mid bids asks = (case l1_sizes bids asks of
     None \<Rightarrow> Inr [(''microprice_l1'', None), (''microprice_edge_bps'', None)]
   | Some (b, a) \<Rightarrow>
       let micro = fdiv (fadd (fmul ask b) (fmul bid a)) (fadd b a) in
       if mid = fzero then Inl ZeroDivisionError
       else Inr [(''microprice_l1'', json_number micro),
         (''microprice_edge_bps'', json_number (bps (fdiv (fsub micro mid) mid)))])"

definition epsilon :: pyfloat where "epsilon = f64 (1 / 1000000000000)"

definition slope :: "pyfloat \<Rightarrow> (pyfloat \<times> pyfloat) list \<Rightarrow> pyfloat option \<Rightarrow> py_error + pyfloat option" where
  \<comment> \<open>\<open>abs(best - levels[4][0]) / max(depth, EPSILON)\<close>; a depth that is \<open>None\<close> cannot be compared\<close>
  "slope best levels depth =
     (if length levels < 5 then Inr None
      else (case depth of None \<Rightarrow> Inl TypeError
        | Some d \<Rightarrow> Inr (json_number (fdiv (fabs (fsub best (fst (levels ! 4)))) (pymax d epsilon)))))"

record horizon_policy =
  hp_name :: string
  hp_ms :: int
  hp_max_gap_ms :: int

definition past_policies :: "horizon_policy list" where
  \<comment> \<open>\<open>PAST_FEATURE_POLICY_MS\<close> and \<open>PAST_MAX_GAP_MS\<close>\<close>
  "past_policies = [\<lparr>hp_name = ''past_mid_return_100ms_bps'', hp_ms = 100, hp_max_gap_ms = 100\<rparr>,
     \<lparr>hp_name = ''past_mid_return_500ms_bps'', hp_ms = 500, hp_max_gap_ms = 500\<rparr>,
     \<lparr>hp_name = ''past_mid_return_1000ms_bps'', hp_ms = 1000, hp_max_gap_ms = 1000\<rparr>,
     \<lparr>hp_name = ''past_spread_change_500ms_bps'', hp_ms = 500, hp_max_gap_ms = 500\<rparr>]"

definition horizons :: "horizon_policy list" where
  \<comment> \<open>\<open>HORIZONS\<close> and \<open>MAX_FUTURE_GAP_MS\<close>\<close>
  "horizons = [\<lparr>hp_name = ''horizon_100ms'', hp_ms = 100, hp_max_gap_ms = 100\<rparr>,
     \<lparr>hp_name = ''horizon_250ms'', hp_ms = 250, hp_max_gap_ms = 150\<rparr>,
     \<lparr>hp_name = ''horizon_500ms'', hp_ms = 500, hp_max_gap_ms = 250\<rparr>,
     \<lparr>hp_name = ''horizon_1000ms'', hp_ms = 1000, hp_max_gap_ms = 500\<rparr>,
     \<lparr>hp_name = ''horizon_2000ms'', hp_ms = 2000, hp_max_gap_ms = 1000\<rparr>,
     \<lparr>hp_name = ''horizon_5000ms'', hp_ms = 5000, hp_max_gap_ms = 2000\<rparr>]"

definition price_features :: "pyfloat \<Rightarrow> pyfloat \<Rightarrow> feature_map" where
  "price_features bid ask =
     (let mid = fdiv (fadd bid ask) (Fin 2); spread = fsub ask bid in
      [(''best_bid'', json_number bid), (''best_ask'', json_number ask), (''mid_price'', json_number mid),
       (''spread'', json_number spread),
       (''spread_bps'', if fless fzero mid then json_number (bps (fdiv spread mid)) else None)])"

definition extract_current_features :: "json \<Rightarrow> py_error + feature_map \<times> string list" where
  \<comment> \<open>the source index of every feature is the sample's own\<close>
  "extract_current_features sample =
     and_then (parse_book_levels (vget sample ''bids'')) (\<lambda>bids.
     and_then (parse_book_levels (vget sample ''asks'')) (\<lambda>asks.
     and_then (as_float (vget sample ''best_bid'')) (\<lambda>bid.
     and_then (as_float (vget sample ''best_ask'')) (\<lambda>ask.
     and_then (microprice_features bid ask (fdiv (fadd bid ask) (Fin 2)) bids asks) (\<lambda>micro.
     and_then (slope bid bids (json_number (depth_of 5 bids))) (\<lambda>bid_slope.
     and_then (slope ask asks (json_number (depth_of 5 asks))) (\<lambda>ask_slope.
       Inr (price_features bid ask @ l1_features bids asks
              @ concat (map (depth_features bids asks) depth_levels) @ micro
              @ [(''bid_slope_l5'', bid_slope), (''ask_slope_l5'', ask_slope)]
              @ map (\<lambda>p. (hp_name p, None)) past_policies,
            sorted_list_of_set (set
              ((if l1_sizes bids asks = None then [''l1_size_imbalance_denominator_zero''] else [])
               @ concat (map (depth_warnings bids asks) depth_levels)
               @ (if l1_sizes bids asks = None then [''microprice_l1_denominator_zero''] else [])
               @ (if length bids < 5 then [''bid_slope_l5_insufficient_levels''] else [])
               @ (if length asks < 5 then [''ask_slope_l5_insufficient_levels''] else [])))))))))))"

subsection \<open>Features of the past\<close>

definition compute_return_bps :: "pyfloat \<Rightarrow> pyfloat \<Rightarrow> py_error + pyfloat" where
  "compute_return_bps current future =
     (case (current, future) of
        (Fin c, Fin f) \<Rightarrow> if c \<le> 0 then Inl ValueError else Inr (bps (fdiv (fsub future current) current))
      | _ \<Rightarrow> Inl ValueError)"

definition past_index :: "int list \<Rightarrow> nat \<Rightarrow> int \<Rightarrow> nat option" where
  \<comment> \<open>the last sample at or before \<open>target\<close>, among those up to the current one\<close>
  "past_index ts i target = (case bisect_right_in ts target 0 (i + 1) of 0 \<Rightarrow> None | Suc j \<Rightarrow> Some j)"

record past_feature =
  pf_value :: "pyfloat option"
  pf_source :: "nat option"
  pf_warning :: "string option"

definition no_past :: "string \<Rightarrow> past_feature" where
  "no_past warning = \<lparr>pf_value = None, pf_source = None, pf_warning = Some warning\<rparr>"

definition past_value :: "feature_map \<Rightarrow> feature_map \<Rightarrow> string \<Rightarrow> nat \<Rightarrow> py_error + past_feature" where
  \<comment> \<open>from the features of the past sample and the current ones; \<open>float(None)\<close> is a \<open>TypeError\<close>\<close>
  "past_value past current name j =
     (if take 15 name = ''past_mid_return'' then
        (case feature ''mid_price'' past of
           Some m \<Rightarrow> if fle m fzero then Inr (no_past (name @ ''_past_mid_invalid''))
             else (case feature ''mid_price'' current of None \<Rightarrow> Inl TypeError
               | Some c \<Rightarrow> map_sum id (\<lambda>r. \<lparr>pf_value = Some r, pf_source = Some j, pf_warning = None\<rparr>)
                   (compute_return_bps m c))
         | None \<Rightarrow> Inr (no_past (name @ ''_past_mid_invalid'')))
      else
        (case feature ''spread_bps'' past of
           Some s \<Rightarrow> (case feature ''spread_bps'' current of None \<Rightarrow> Inl TypeError
             | Some c \<Rightarrow> Inr \<lparr>pf_value = Some (fsub c s), pf_source = Some j, pf_warning = None\<rparr>)
         | None \<Rightarrow> Inr (no_past (name @ ''_past_spread_invalid''))))"

definition past_feature_of ::
  "int list \<Rightarrow> feature_map list \<Rightarrow> nat \<Rightarrow> horizon_policy \<Rightarrow> py_error + past_feature" where
  "past_feature_of ts all i p =
     (let target = ts ! i - hp_ms p * 1000000 in
      case past_index ts i target of
        None \<Rightarrow> Inr (no_past (hp_name p @ ''_no_past_sample''))
      | Some j \<Rightarrow>
          if fless (float_of_int (hp_max_gap_ms p)) (int_truediv (target - ts ! j) 1000000)
          then Inr (no_past (hp_name p @ ''_gap_too_large''))
          else past_value (all ! j) (all ! i) (hp_name p) j)"

definition past_features_of :: "int list \<Rightarrow> feature_map list \<Rightarrow> nat \<Rightarrow> py_error + (string \<times> past_feature) list" where
  \<comment> \<open>\<open>_add_past_features\<close>; it reads only the features that do not look back\<close>
  "past_features_of ts all i =
     collect (map (\<lambda>p. map_sum id (\<lambda>f. (hp_name p, f)) (past_feature_of ts all i p)) past_policies)"

subsection \<open>Labels\<close>

record future_label =
  fl_horizon_ms :: int
  fl_target :: int
  fl_max_gap_ms :: int
  fl_index :: "nat option"
  fl_ts :: "int option"
  fl_last_update :: pyval
  fl_mid :: "pyfloat option"
  fl_gap_ms :: "pyfloat option"
  fl_return_bps :: "pyfloat option"
  fl_direction :: "int option"
  fl_spread_direction :: "int option"
  fl_valid :: bool
  fl_reason :: "string option"

definition select_future_index :: "int list \<Rightarrow> nat \<Rightarrow> int \<Rightarrow> nat option" where
  "select_future_index ts i horizon_ms =
     (let j = bisect_left_in ts (ts ! i + horizon_ms * 1000000) (i + 1) (length ts)
      in if j < length ts then Some j else None)"

definition direction_label :: "pyfloat \<Rightarrow> pyfloat \<Rightarrow> int" where
  "direction_label r threshold = (if fless threshold r then 1 else if fless r (fneg threshold) then -1 else 0)"

definition spread_adjusted_direction_label :: "pyfloat \<Rightarrow> pyfloat \<Rightarrow> py_error + int" where
  "spread_adjusted_direction_label r spread =
     (if fless spread fzero then Inl ValueError else Inr (direction_label r spread))"

definition sample_mid_price :: "json \<Rightarrow> pyfloat option" where
  \<comment> \<open>an integer too large for a float has raised when the features were made\<close>
  "sample_mid_price sample =
     (case and_then (as_float (vget sample ''best_bid'')) (\<lambda>bid. and_then (as_float (vget sample ''best_ask'')) (\<lambda>ask.
        Inr (json_number (fdiv (fadd bid ask) (Fin 2))))) of Inl _ \<Rightarrow> None | Inr m \<Rightarrow> m)"

definition empty_label :: "horizon_policy \<Rightarrow> int \<Rightarrow> future_label" where
  "empty_label p target = \<lparr>fl_horizon_ms = hp_ms p, fl_target = target, fl_max_gap_ms = hp_max_gap_ms p,
     fl_index = None, fl_ts = None, fl_last_update = VNone, fl_mid = None, fl_gap_ms = None, fl_return_bps = None,
     fl_direction = None, fl_spread_direction = None, fl_valid = False, fl_reason = None\<rparr>"

definition invalid_because :: "string \<Rightarrow> future_label \<Rightarrow> future_label" where
  "invalid_because reason l = l\<lparr>fl_reason := Some reason\<rparr>"

definition label_returns ::
  "pyfloat \<Rightarrow> pyfloat \<Rightarrow> pyfloat \<Rightarrow> pyfloat \<Rightarrow> py_error + pyfloat \<times> int \<times> int" where
  "label_returns current future spread threshold =
     and_then (compute_return_bps current future) (\<lambda>r.
     and_then (spread_adjusted_direction_label r spread) (\<lambda>s. Inr (r, direction_label r threshold, s)))"

definition finish_label ::
  "pyfloat \<Rightarrow> pyfloat option \<Rightarrow> pyfloat \<Rightarrow> future_label \<Rightarrow> future_label" where
  \<comment> \<open>once the future sample is known\<close>
  "finish_label current spread threshold l =
     (case fl_mid l of None \<Rightarrow> invalid_because ''FUTURE_MID_INVALID'' l
      | Some future \<Rightarrow>
          if fle future fzero then invalid_because ''FUTURE_MID_INVALID'' l
          else (case spread of None \<Rightarrow> invalid_because ''CURRENT_MID_INVALID'' l
            | Some s \<Rightarrow>
                if fless s fzero then invalid_because ''CURRENT_MID_INVALID'' l
                else (case label_returns current future s threshold of
                    Inl _ \<Rightarrow> invalid_because ''CURRENT_MID_INVALID'' l
                  | Inr (r, d, sd) \<Rightarrow> l\<lparr>fl_return_bps := Some r, fl_direction := Some d,
                      fl_spread_direction := Some sd, fl_valid := True\<rparr>)))"

definition build_label ::
  "json list \<Rightarrow> int list \<Rightarrow> nat \<Rightarrow> horizon_policy \<Rightarrow> feature_map \<Rightarrow> pyfloat \<Rightarrow> future_label" where
  "build_label samples ts i p fs threshold =
     (let target = ts ! i + hp_ms p * 1000000; base = empty_label p target in
      case feature ''mid_price'' fs of None \<Rightarrow> invalid_because ''CURRENT_MID_INVALID'' base
      | Some current \<Rightarrow>
          if fle current fzero then invalid_because ''CURRENT_MID_INVALID'' base
          else (case select_future_index ts i (hp_ms p) of None \<Rightarrow> invalid_because ''NO_FUTURE_SAMPLE'' base
            | Some j \<Rightarrow>
                let gap = int_truediv (ts ! j - target) 1000000;
                    l = base\<lparr>fl_index := Some j, fl_ts := Some (ts ! j),
                          fl_last_update := vget (samples ! j) ''last_update_id'',
                          fl_mid := sample_mid_price (samples ! j), fl_gap_ms := Some gap\<rparr>
                in if fless (float_of_int (hp_max_gap_ms p)) gap then invalid_because ''FUTURE_GAP_TOO_LARGE'' l
                   else finish_label current (feature ''spread_bps'' fs) threshold l))"

subsection \<open>Rows\<close>

definition opt_val :: "('a \<Rightarrow> pyval) \<Rightarrow> 'a option \<Rightarrow> pyval" where
  "opt_val f x = (case x of None \<Rightarrow> VNone | Some a \<Rightarrow> f a)"

definition label_json :: "future_label \<Rightarrow> pyval" where
  "label_json l = VDict [(''horizon_ms'', VInt (fl_horizon_ms l)), (''target_local_recv_monotonic_ns'', VInt (fl_target l)),
     (''max_future_gap_ms'', VInt (fl_max_gap_ms l)), (''future_index'', opt_val (VInt \<circ> int) (fl_index l)),
     (''future_local_recv_monotonic_ns'', opt_val VInt (fl_ts l)), (''future_last_update_id'', fl_last_update l),
     (''future_mid_price'', num_val (fl_mid l)), (''future_gap_ms'', num_val (fl_gap_ms l)),
     (''return_bps'', num_val (fl_return_bps l)), (''direction'', opt_val VInt (fl_direction l)),
     (''spread_adjusted_direction'', opt_val VInt (fl_spread_direction l)), (''valid'', VBool (fl_valid l)),
     (''invalid_reason'', opt_val VStr (fl_reason l))]"

definition put_all :: "('k \<times> 'v) list \<Rightarrow> ('k \<times> 'v) list \<Rightarrow> ('k \<times> 'v) list" where
  "put_all kvs d = fold (\<lambda>(k, v). AList.update k v) kvs d"

definition copied_fields :: "string list" where
  "copied_fields = [''symbol'', ''source'', ''generation_id'', ''state_version'', ''snapshot_version'',
     ''last_update_id'', ''local_recv_monotonic_ns'', ''local_recv_wall_ts'', ''exchange_event_ts'']"

definition label_warnings :: "(string \<times> future_label) list \<Rightarrow> string list" where
  "label_warnings labels = sorted_list_of_set (set [h @ '':'' @ r. (h, l) \<leftarrow> labels, \<not> fl_valid l, Some r \<leftarrow> [fl_reason l], r \<noteq> []])"

definition row_quality ::
  "nat \<Rightarrow> string list \<Rightarrow> (string \<times> future_label) list \<Rightarrow> (string \<times> nat option) list \<Rightarrow> pyval" where
  "row_quality i warnings labels sources = VDict [(''input_clean_sample_valid'', VBool True),
     (''feature_warnings'', VList (map VStr (sorted_list_of_set (set warnings)))),
     (''label_warnings'', VList (map VStr (label_warnings labels))), (''leakage_checked'', VBool True),
     (''future_label_policy'', VStr ''first_sample_at_or_after_target_time''),
     (''past_feature_policy'', VStr ''latest_sample_at_or_before_target_time''),
     (''max_future_gap_policy_ms'', VDict (map (\<lambda>p. (hp_name p, VInt (hp_max_gap_ms p))) horizons)),
     (''current_index'', VInt (int i)),
     (''feature_source_indices'', VDict (map (\<lambda>(n, s). (n, opt_val (VInt \<circ> int) s)) sources))]"

definition row_json ::
  "json \<Rightarrow> nat \<Rightarrow> feature_map \<Rightarrow> string list \<Rightarrow> (string \<times> nat option) list \<Rightarrow> (string \<times> future_label) list \<Rightarrow> json" where
  "row_json sample i fs warnings sources labels =
     (''schema_version'', VStr ''orderbook_labeled_v1'') # map (\<lambda>k. (k, vget sample k)) copied_fields
     @ map (\<lambda>k. (k, num_val (feature k fs))) [''best_bid'', ''best_ask'', ''mid_price'', ''spread'', ''spread_bps'']
     @ [(''features'', VDict (map (\<lambda>(n, x). (n, num_val x)) fs)),
        (''labels'', VDict (map (\<lambda>(h, l). (h, label_json l)) labels)),
        (''quality'', row_quality i warnings labels sources)]"

definition labels_of ::
  "json list \<Rightarrow> int list \<Rightarrow> nat \<Rightarrow> feature_map \<Rightarrow> pyfloat \<Rightarrow> (string \<times> future_label) list" where
  "labels_of samples ts i fs threshold = map (\<lambda>p. (hp_name p, build_label samples ts i p fs threshold)) horizons"

definition labeled_row ::
  "json list \<Rightarrow> int list \<Rightarrow> (feature_map \<times> string list) list \<Rightarrow> pyfloat \<Rightarrow> nat \<Rightarrow> py_error + json" where
  "labeled_row samples ts base threshold i =
     and_then (past_features_of ts (map fst base) i) (\<lambda>past.
       let fs0 = fst (base ! i);
           fs = put_all (map (\<lambda>(n, f). (n, pf_value f)) past) fs0;
           sources = put_all (map (\<lambda>(n, f). (n, pf_source f)) past) (map (\<lambda>(n, _). (n, Some i)) fs0);
           warnings = snd (base ! i) @ [w. (_, f) \<leftarrow> past, Some w \<leftarrow> [pf_warning f]]
       in Inr (row_json (samples ! i) i fs warnings sources (labels_of samples ts i fs threshold)))"

definition sample_timestamps :: "json list \<Rightarrow> py_error + int list" where
  "sample_timestamps samples = collect (map (\<lambda>s. case map_of s ''local_recv_monotonic_ns'' of None \<Rightarrow> Inl KeyError
     | Some v \<Rightarrow> int_of_val v) samples)"

definition generate_labeled_rows :: "json list \<Rightarrow> pyfloat \<Rightarrow> py_error + json list" where
  "generate_labeled_rows samples threshold =
     and_then (sample_timestamps samples) (\<lambda>ts.
     and_then (collect (map extract_current_features samples)) (\<lambda>base.
       collect (map (labeled_row samples ts base threshold) [0..<length samples])))"

end
