(* ===== verification/LabeledReport.thy ===== *)
theory LabeledReport
  imports LabeledRows
begin

text \<open>
  The checks and the report of \<open>app/research/orderbook_labeled_dataset.py\<close>: the schema of the labelled
  rows, the leakage check, the qualities of time stamps, labels and features, the reasons to fail or to
  warn, and the pipeline that generates rows only from a valid input. Writing files and Markdown is left
  out; what is written is returned.
\<close>

subsection \<open>The schema of labelled rows\<close>

definition required_features :: "string list" where
  "required_features = [''mid_price'', ''spread'', ''spread_bps'', ''best_bid'', ''best_ask'', ''bid_size_l1'',
     ''ask_size_l1'', ''l1_size_imbalance'', ''microprice_l1'', ''microprice_edge_bps'', ''bid_slope_l5'',
     ''ask_slope_l5''] @ map hp_name past_policies
     @ [level_name name n. n \<leftarrow> depth_levels,
          name \<leftarrow> [''bid_depth'', ''ask_depth'', ''total_depth'', ''depth_imbalance'', ''depth_ratio'']]"

definition required_top_level :: "string list" where
  "required_top_level = [''schema_version'', ''symbol'', ''source'', ''generation_id'', ''state_version'',
     ''snapshot_version'', ''last_update_id'', ''local_recv_monotonic_ns'', ''local_recv_wall_ts'', ''best_bid'',
     ''best_ask'', ''mid_price'', ''spread'', ''spread_bps'', ''features'', ''labels'', ''quality'']"

definition required_when_valid :: "string list" where
  "required_when_valid = [''future_local_recv_monotonic_ns'', ''future_last_update_id'', ''future_mid_price'',
     ''future_gap_ms'', ''return_bps'', ''direction'', ''spread_adjusted_direction'']"

definition required_label_fields :: "string list" where
  "required_label_fields = required_when_valid @ [''valid'', ''invalid_reason'']"

record row_violation =
  rv_index :: nat
  rv_reason :: string

definition dict_or_empty :: "pyval \<Rightarrow> json" where
  \<comment> \<open>\<open>value if isinstance(value, dict) else {}\<close>\<close>
  "dict_or_empty v = (case v of VDict d \<Rightarrow> d | _ \<Rightarrow> [])"

definition missing_fields :: "string list \<Rightarrow> json \<Rightarrow> string list" where
  \<comment> \<open>\<open>sorted(required - set(row))\<close>\<close>
  "missing_fields required d = sorted_list_of_set (set required - fst ` set d)"

definition label_reasons :: "string \<Rightarrow> json \<Rightarrow> string list" where
  "label_reasons h l =
     [''missing_label_field_'' @ h @ ''_'' @ f. f \<leftarrow> missing_fields required_label_fields l]
     @ (if vget l ''valid'' = VBool True then
          [''valid_label_missing_'' @ h @ ''_'' @ f. f \<leftarrow> required_when_valid, vget l f = VNone]
          @ (if vget l ''invalid_reason'' \<noteq> VNone then [''valid_label_has_invalid_reason_'' @ h] else [])
        else if \<not> truthy (vget l ''invalid_reason'') then [''invalid_label_missing_reason_'' @ h] else [])"

definition row_reasons :: "json \<Rightarrow> string list" where
  "row_reasons row =
     (let features = vget row ''features''; labels = vget row ''labels''; fs = dict_or_empty features;
          ls = dict_or_empty labels
      in [''missing_top_level_'' @ f. f \<leftarrow> missing_fields required_top_level row]
       @ (if vget row ''schema_version'' \<noteq> VStr ''orderbook_labeled_v1'' then [''invalid_schema_version''] else [])
       @ (if features \<noteq> VDict fs then [''features_not_object''] else [])
       @ [''missing_feature_'' @ f. f \<leftarrow> missing_fields required_features fs]
       @ (if labels \<noteq> VDict ls then [''labels_not_object''] else [])
       @ concat (map (\<lambda>p. case vget ls (hp_name p) of VDict l \<Rightarrow> label_reasons (hp_name p) l
           | _ \<Rightarrow> [''missing_label_'' @ hp_name p]) horizons))"

definition validate_labeled_rows :: "json list \<Rightarrow> row_violation list" where
  "validate_labeled_rows rows = [\<lparr>rv_index = i, rv_reason = r\<rparr>. (i, row) \<leftarrow> enumerate 0 rows, r \<leftarrow> row_reasons row]"

subsection \<open>The leakage check\<close>

datatype leak = Feature_leak nat string int | Label_leak nat string string

definition feature_leaks :: "nat \<Rightarrow> json \<Rightarrow> leak list" where
  "feature_leaks i row =
     (let quality = dict_or_empty (vget row ''quality'');
          sources = (case map_of quality ''feature_source_indices'' of None \<Rightarrow> [] | Some v \<Rightarrow> dict_or_empty v)
      in [Feature_leak i name j. (name, v) \<leftarrow> sources, Some j \<leftarrow> [int_instance v], int i < j])"

definition label_leak_reason :: "nat \<Rightarrow> int \<Rightarrow> int \<Rightarrow> json \<Rightarrow> string option" where
  "label_leak_reason i now target l =
     (let index = int_instance (vget l ''future_index''); ts = int_instance (vget l ''future_local_recv_monotonic_ns'')
      in if (case index of None \<Rightarrow> False | Some j \<Rightarrow> j \<le> int i) then Some ''future_index_not_greater_than_current_index''
         else if (case ts of None \<Rightarrow> False | Some t \<Rightarrow> t \<le> now) then Some ''future_timestamp_not_after_current_timestamp''
         else if (case ts of None \<Rightarrow> False | Some t \<Rightarrow> t < target) then Some ''future_timestamp_before_target_time''
         else if vget l ''valid'' = VBool True then
           (if index = None then Some ''valid_label_missing_future_index''
            else if ts = None then Some ''valid_label_missing_future_timestamp'' else None)
         else None)"

definition label_leaks :: "nat \<Rightarrow> int \<Rightarrow> json \<Rightarrow> leak list" where
  "label_leaks i now row =
     (let labels = dict_or_empty (vget row ''labels'') in
      [Label_leak i (hp_name p) r. p \<leftarrow> horizons, VDict l \<leftarrow> [vget labels (hp_name p)],
         Some r \<leftarrow> [label_leak_reason i now (now + hp_ms p * 1000000) l]])"

definition row_leaks :: "nat \<Rightarrow> json \<Rightarrow> leak list" where
  "row_leaks i row = (case int_instance (vget row ''local_recv_monotonic_ns'') of None \<Rightarrow> []
     | Some now \<Rightarrow> feature_leaks i row @ label_leaks i now row)"

record leakage_result =
  lk_passed :: bool
  lk_feature_count :: int
  lk_label_count :: int
  lk_checked :: int
  lk_violations :: "leak list"

definition is_feature_leak :: "leak \<Rightarrow> bool" where
  "is_feature_leak l = (case l of Feature_leak _ _ _ \<Rightarrow> True | _ \<Rightarrow> False)"

definition run_leakage_check :: "json list \<Rightarrow> leakage_result" where
  "run_leakage_check rows =
     (let violations = concat (map (\<lambda>(i, row). row_leaks i row) (enumerate 0 rows));
          features = length (filter is_feature_leak violations);
          labels = length (filter (\<lambda>l. \<not> is_feature_leak l) violations)
      in \<lparr>lk_passed = (features = 0 \<and> labels = 0), lk_feature_count = int features, lk_label_count = int labels,
          lk_checked = int (length rows), lk_violations = violations\<rparr>)"

definition empty_leakage_result :: "int \<Rightarrow> leakage_result" where
  "empty_leakage_result n = \<lparr>lk_passed = True, lk_feature_count = 0, lk_label_count = 0, lk_checked = n,
     lk_violations = []\<rparr>"

subsection \<open>Time stamps\<close>

definition is_finite :: "pyfloat \<Rightarrow> bool" where
  "is_finite x = (case x of Fin _ \<Rightarrow> True | _ \<Rightarrow> False)"

definition float_percentile :: "pyfloat list \<Rightarrow> pyfloat \<Rightarrow> pyfloat option" where
  \<comment> \<open>\<open>_percentile\<close>\<close>
  "float_percentile xs p =
     (let clean = sort (filter is_finite xs); n = length clean in
      if clean = [] then None
      else if n = 1 then Some (hd clean)
      else let index = (case fmul (float_of_int (int n - 1)) p of Fin r \<Rightarrow> rhe r | _ \<Rightarrow> 0)
           in Some (clean ! nat (min (max index 0) (int n - 1))))"

record timestamp_quality =
  tq_monotonic_violations :: int
  tq_duplicates :: int
  tq_large_gaps :: int
  tq_max_gap :: "pyfloat option"
  tq_p50 :: "pyfloat option"
  tq_p95 :: "pyfloat option"
  tq_p99 :: "pyfloat option"

definition int_timestamps :: "json list \<Rightarrow> int list" where
  "int_timestamps samples = [t. s \<leftarrow> samples, Some t \<leftarrow> [int_instance (vget s ''local_recv_monotonic_ns'')]]"

definition gaps_ms :: "int list \<Rightarrow> pyfloat list" where
  "gaps_ms ts = map (\<lambda>(a, b). int_truediv (b - a) 1000000) (zip ts (tl ts))"

definition how_many :: "('a \<Rightarrow> bool) \<Rightarrow> 'a list \<Rightarrow> int" where
  "how_many P xs = int (length (filter P xs))"

definition compute_timestamp_quality :: "json list \<Rightarrow> timestamp_quality" where
  "compute_timestamp_quality samples =
     (let gaps = gaps_ms (int_timestamps samples); kept = filter (\<lambda>g. fle fzero g) gaps in
      \<lparr>tq_monotonic_violations = how_many (\<lambda>g. fless g fzero) gaps, tq_duplicates = how_many (\<lambda>g. g = fzero) gaps,
       tq_large_gaps = how_many (\<lambda>g. fless (Fin 1000) g) kept,
       tq_max_gap = (case kept of [] \<Rightarrow> None | g # gs \<Rightarrow> Some (foldl pymax g gs)),
       tq_p50 = float_percentile kept (f64 (50 / 100)), tq_p95 = float_percentile kept (f64 (95 / 100)),
       tq_p99 = float_percentile kept (f64 (99 / 100))\<rparr>)"

definition duration_sec :: "json list \<Rightarrow> py_error + pyfloat" where
  \<comment> \<open>the difference becomes a float before it is divided\<close>
  "duration_sec samples =
     (if length samples < 2 then Inr fzero
      else and_then (sample_timestamps [hd samples]) (\<lambda>a. and_then (sample_timestamps [last samples]) (\<lambda>b.
        case float_of_int (hd b - hd a) of
          Fin x \<Rightarrow> Inr (pymax fzero (fdiv (Fin x) (Fin 1000000000)))
        | _ \<Rightarrow> Inl OverflowError)))"

subsection \<open>The quality of labels and features\<close>

record horizon_quality =
  hq_valid :: int
  hq_invalid :: int
  hq_eligible :: int
  hq_rate_all :: pyfloat
  hq_rate_eligible :: pyfloat
  hq_tail :: int
  hq_reasons :: "string counter"
  hq_up :: int
  hq_down :: int
  hq_flat :: int
  hq_up_pct :: pyfloat
  hq_down_pct :: pyfloat
  hq_flat_pct :: pyfloat
  hq_return_p50 :: "pyfloat option"
  hq_return_p95_abs :: "pyfloat option"
  hq_gap_p50 :: "pyfloat option"
  hq_gap_p95 :: "pyfloat option"
  hq_gap_p99 :: "pyfloat option"

definition labels_at :: "json list \<Rightarrow> string \<Rightarrow> pyval list" where
  "labels_at rows h = [vget ls h. row \<leftarrow> rows, VDict ls \<leftarrow> [vget row ''labels'']]"

definition is_valid_label :: "pyval \<Rightarrow> bool" where
  "is_valid_label v = (case v of VDict l \<Rightarrow> vget l ''valid'' = VBool True | _ \<Rightarrow> False)"

definition is_invalid_label :: "pyval \<Rightarrow> bool" where
  "is_invalid_label v = (case v of VDict l \<Rightarrow> vget l ''valid'' \<noteq> VBool True | _ \<Rightarrow> False)"

definition numbers_at :: "string \<Rightarrow> pyval list \<Rightarrow> pyfloat list" where
  \<comment> \<open>the values of a field that are numbers, as floats\<close>
  "numbers_at f vs = [x. VDict l \<leftarrow> vs, Some x \<leftarrow> [case vget l f of VFloat y \<Rightarrow> Some y | VInt n \<Rightarrow> Some (float_of_int n)
     | VBool b \<Rightarrow> Some (if b then Fin 1 else fzero) | _ \<Rightarrow> None]]"

definition count_reasons :: "pyval list \<Rightarrow> string counter" where
  "count_reasons vs = AList.delete ''None'' (fold (\<lambda>v c. ctr_inc (py_str (vget (dict_or_empty v) ''invalid_reason'')) c) vs [])"

definition direction_count :: "int \<Rightarrow> pyval list \<Rightarrow> int" where
  "direction_count n vs = how_many (\<lambda>v. vget (dict_or_empty v) ''direction'' = VInt n) vs"

definition eligible_count :: "int list \<Rightarrow> horizon_policy \<Rightarrow> int" where
  \<comment> \<open>the samples whose horizon ends before the file does\<close>
  "eligible_count ts p = (if ts = [] then 0 else how_many (\<lambda>t. t + hp_ms p * 1000000 \<le> last ts) ts)"

definition safe_rate :: "int \<Rightarrow> int \<Rightarrow> pyfloat" where
  "safe_rate n m = (if m = 0 then fzero else int_truediv n m)"

definition horizon_quality_of :: "int list \<Rightarrow> json list \<Rightarrow> horizon_policy \<Rightarrow> horizon_quality" where
  "horizon_quality_of ts rows p =
     (let labels = labels_at rows (hp_name p);
          valids = filter is_valid_label labels; invalids = filter is_invalid_label labels;
          valid = int (length valids); eligible = eligible_count ts p; reasons = count_reasons invalids;
          denominator = (if valid = 0 then 1 else valid);
          returns = numbers_at ''return_bps'' valids; gaps = numbers_at ''future_gap_ms'' valids;
          up = direction_count 1 valids; down = direction_count (-1) valids; flat = direction_count 0 valids
      in \<lparr>hq_valid = valid, hq_invalid = int (length labels) - valid, hq_eligible = eligible,
          hq_rate_all = safe_rate valid (int (length rows)), hq_rate_eligible = safe_rate valid eligible,
          hq_tail = ctr reasons ''NO_FUTURE_SAMPLE'', hq_reasons = reasons, hq_up = up, hq_down = down, hq_flat = flat,
          hq_up_pct = int_truediv up denominator, hq_down_pct = int_truediv down denominator,
          hq_flat_pct = int_truediv flat denominator, hq_return_p50 = float_percentile returns (f64 (50 / 100)),
          hq_return_p95_abs = float_percentile (map fabs returns) (f64 (95 / 100)),
          hq_gap_p50 = float_percentile gaps (f64 (50 / 100)), hq_gap_p95 = float_percentile gaps (f64 (95 / 100)),
          hq_gap_p99 = float_percentile gaps (f64 (99 / 100))\<rparr>)"

definition label_quality :: "int list \<Rightarrow> json list \<Rightarrow> (string \<times> horizon_quality) list" where
  "label_quality ts rows = map (\<lambda>p. (hp_name p, horizon_quality_of ts rows p)) horizons"

definition null_feature_counts :: "json list \<Rightarrow> (string \<times> int) list" where
  \<comment> \<open>sorted by name, without the zeros\<close>
  "null_feature_counts rows = [(f, n). f \<leftarrow> sorted_list_of_set (set required_features),
     n \<leftarrow> [how_many (\<lambda>row. case (case map_of row ''features'' of None \<Rightarrow> VDict [] | Some v \<Rightarrow> v) of
             VDict fs \<Rightarrow> vget fs f = VNone | _ \<Rightarrow> False) rows], n \<noteq> 0]"

definition feature_warning_counts :: "json list \<Rightarrow> (string \<times> int) list" where
  "feature_warning_counts rows = sort_key fst (fold ctr_inc
     [py_str w. row \<leftarrow> rows, VDict q \<leftarrow> [vget row ''quality''], VList ws \<leftarrow> [vget q ''feature_warnings''], w \<leftarrow> ws] [])"

subsection \<open>The verdict\<close>

definition counted_reason :: "string \<Rightarrow> int \<Rightarrow> string list" where
  "counted_reason name n = (if 0 < n then [name @ '' > 0 ('' @ int_digits n @ '')''] else [])"

definition hard_fail_reasons ::
  "json list \<Rightarrow> json list \<Rightarrow> int \<Rightarrow> timestamp_quality \<Rightarrow> int \<Rightarrow> leakage_result \<Rightarrow> (string \<times> horizon_quality) list
     \<Rightarrow> (string \<times> pyfloat) list \<Rightarrow> py_error + string list" where
  \<comment> \<open>a threshold of an unknown horizon is a \<open>KeyError\<close>; the digits of the rate are left out of its reason\<close>
  "hard_fail_reasons samples rows invalid tq schema leaks quality min_rates =
     and_then (collect (map (\<lambda>(h, threshold). case map_of quality h of None \<Rightarrow> Inl KeyError
         | Some q \<Rightarrow> Inr (if hq_eligible q \<le> 0 \<or> fless (hq_rate_eligible q) threshold
                         then [h @ '' valid_rate_eligible_rows below threshold''] else [])) min_rates)) (\<lambda>rates.
       Inr ((if samples = [] then [''input_sample_count = 0''] else [])
         @ (if rows = [] then [''labeled_sample_count = 0''] else [])
         @ (if samples \<noteq> [] \<and> rows \<noteq> [] \<and> length samples \<noteq> length rows
            then [''labeled_sample_count != input_sample_count''] else [])
         @ counted_reason ''invalid_clean_sample_count'' invalid
         @ counted_reason ''timestamp_monotonic_violations'' (tq_monotonic_violations tq)
         @ counted_reason ''duplicate_timestamp_count'' (tq_duplicates tq)
         @ counted_reason ''labeled_schema_violation_count'' schema
         @ counted_reason ''feature_leakage_violations'' (lk_feature_count leaks)
         @ counted_reason ''label_leakage_violations'' (lk_label_count leaks)
         @ concat rates))"

definition horizon_warnings :: "string \<times> horizon_quality \<Rightarrow> string list" where
  "horizon_warnings hq = (case hq of (h, q) \<Rightarrow>
     if hq_valid q = 0 then []
     else let limit = f64 (90 / 100) in
       (if fle limit (hq_flat_pct q) then [h @ '':too_many_flat_labels_or_low_volatility_period''] else [])
       @ (if fle limit (pymax (pymax (hq_up_pct q) (hq_down_pct q)) (hq_flat_pct q)) then [h @ '':class_imbalance''] else [])
       @ (if 0 < hq_tail q then [h @ '':null_future_labels_near_end_of_file''] else [])
       @ (if fless (case hq_return_p95_abs q of None \<Rightarrow> fzero | Some x \<Rightarrow> x) (f64 (1 / 100))
          then [h @ '':low_volatility_period''] else []))"

definition warning_reasons ::
  "pyfloat \<Rightarrow> timestamp_quality \<Rightarrow> (string \<times> int) list \<Rightarrow> (string \<times> horizon_quality) list \<Rightarrow> string list" where
  "warning_reasons duration tq nulls quality = sorted_list_of_set (set
     ((if fless duration (Fin 60) then [''short_dataset_duration''] else [])
      @ (if 0 < tq_large_gaps tq then [''large_but_non_failing_timestamp_gaps''] else [])
      @ (if list_ex (\<lambda>(f, n). take 5 f = ''past_'' \<and> 0 < n) nulls
         then [''null_past_change_features_near_beginning_or_sparse_gaps''] else [])
      @ concat (map horizon_warnings quality)))"

definition min_valid_rates :: "(string \<times> pyfloat) list" where
  "min_valid_rates = [(''horizon_100ms'', f64 (95 / 100)), (''horizon_250ms'', f64 (95 / 100)),
     (''horizon_500ms'', f64 (95 / 100)), (''horizon_1000ms'', f64 (95 / 100)),
     (''horizon_2000ms'', f64 (90 / 100)), (''horizon_5000ms'', f64 (90 / 100))]"

record quality_report =
  qr_passed :: bool
  qr_symbol :: pyval
  qr_source :: pyval
  qr_input_count :: int
  qr_labeled_count :: int
  qr_duration :: pyfloat
  qr_sample_rate :: pyfloat
  qr_hard_fail :: "string list"
  qr_warnings :: "string list"
  qr_timestamps :: timestamp_quality
  qr_invalid_samples :: int
  qr_schema_violations :: int
  qr_row_violations :: int
  qr_null_features :: "(string \<times> int) list"
  qr_warning_counts :: "(string \<times> int) list"
  qr_labels :: "(string \<times> horizon_quality) list"
  qr_leakage :: leakage_result

definition build_quality_report ::
  "sample_validation \<Rightarrow> json list \<Rightarrow> row_violation list \<Rightarrow> leakage_result \<Rightarrow> (string \<times> pyfloat) list
     \<Rightarrow> py_error + quality_report" where
  \<comment> \<open>with no thresholds given the defaults apply; the constants of the report are left out\<close>
  "build_quality_report v rows schema leaks rates =
     (let samples = sva_samples v; tq = compute_timestamp_quality samples; nulls = null_feature_counts rows in
      and_then (duration_sec samples) (\<lambda>duration.
      and_then (sample_timestamps (if samples = [] then [] else [last samples])) (\<lambda>_.
      and_then (sample_timestamps samples) (\<lambda>ts.
        let quality = label_quality ts rows in
        and_then (hard_fail_reasons samples rows (sva_invalid_count v) tq (int (length schema)) leaks quality
                    (if rates = [] then min_valid_rates else rates)) (\<lambda>reasons.
        Inr \<lparr>qr_passed = (reasons = []),
          qr_symbol = (case samples of [] \<Rightarrow> VNone | s # _ \<Rightarrow> vget s ''symbol''),
          qr_source = (case samples of [] \<Rightarrow> VNone | s # _ \<Rightarrow> vget s ''source''),
          qr_input_count = int (length samples), qr_labeled_count = int (length rows), qr_duration = duration,
          qr_sample_rate = (if fless fzero duration then fdiv (float_of_int (int (length samples))) duration else fzero),
          qr_hard_fail = reasons, qr_warnings = warning_reasons duration tq nulls quality, qr_timestamps = tq,
          qr_invalid_samples = sva_invalid_count v, qr_schema_violations = int (length (sva_violations v)),
          qr_row_violations = int (length schema), qr_null_features = nulls,
          qr_warning_counts = feature_warning_counts rows, qr_labels = quality,
          qr_leakage = leaks\<rparr>)))))"

subsection \<open>The pipeline\<close>

record pipeline_result =
  pr_report :: quality_report
  pr_rows :: "json list"
  pr_validation :: sample_validation
  pr_schema :: "row_violation list"
  pr_leakage :: leakage_result

definition may_generate :: "sample_validation \<Rightarrow> bool" where
  "may_generate v \<longleftrightarrow> sva_valid v \<and> tq_monotonic_violations (compute_timestamp_quality (sva_samples v)) = 0
     \<and> tq_duplicates (compute_timestamp_quality (sva_samples v)) = 0"

definition pipeline_rows :: "sample_validation \<Rightarrow> py_error + json list" where
  "pipeline_rows v = (if may_generate v then generate_labeled_rows (sva_samples v) fzero else Inr [])"

definition run_phase42_pipeline ::
  "sample_line list option \<Rightarrow> (string \<times> pyfloat) list \<Rightarrow> py_error + pipeline_result" where
  "run_phase42_pipeline file rates =
     and_then (validate_clean_samples file) (\<lambda>v.
     and_then (pipeline_rows v) (\<lambda>rows.
       let schema = (if may_generate v then validate_labeled_rows rows else []);
           leaks = (if may_generate v then run_leakage_check rows else empty_leakage_result 0)
       in and_then (build_quality_report v rows schema leaks rates) (\<lambda>report.
         Inr \<lparr>pr_report = report, pr_rows = rows, pr_validation = v, pr_schema = schema, pr_leakage = leaks\<rparr>)))"

record invalid_case =
  ic_row :: json           \<comment> \<open>symbol, generation and ids are copied from it\<close>
  ic_horizon :: string
  ic_reason :: pyval
  ic_target :: pyval
  ic_future_ts :: pyval
  ic_gap :: pyval

definition invalid_label_cases :: "json list \<Rightarrow> invalid_case list" where
  \<comment> \<open>\<open>write_invalid_label_cases\<close>\<close>
  "invalid_label_cases rows =
     [\<lparr>ic_row = row, ic_horizon = h, ic_reason = vget l ''invalid_reason'',
       ic_target = vget l ''target_local_recv_monotonic_ns'', ic_future_ts = vget l ''future_local_recv_monotonic_ns'',
       ic_gap = vget l ''future_gap_ms''\<rparr>.
       row \<leftarrow> rows, VDict ls \<leftarrow> [case map_of row ''labels'' of None \<Rightarrow> VDict [] | Some v \<Rightarrow> v],
       (h, VDict l) \<leftarrow> ls, vget l ''valid'' \<noteq> VBool True]"

definition classify_report_failure :: "string list \<Rightarrow> string" where
  "classify_report_failure reasons =
     (let text = join_with '' '' reasons;
          table = [(''input clean sample file missing'', ''INPUT_FILE_MISSING''), (''input_file_missing'', ''INPUT_FILE_MISSING''),
            (''input_sample_count = 0'', ''INPUT_EMPTY''), (''invalid_clean_sample_count'', ''INPUT_SCHEMA_FAILURE''),
            (''timestamp_monotonic_violations'', ''TIMESTAMP_MONOTONIC_FAILURE''),
            (''duplicate_timestamp_count'', ''DUPLICATE_TIMESTAMP_FAILURE''),
            (''feature_leakage_violations'', ''FEATURE_LEAKAGE_FAILURE''),
            (''label_leakage_violations'', ''LABEL_LEAKAGE_FAILURE''),
            (''labeled_schema_violation_count'', ''LABELED_SCHEMA_FAILURE''),
            (''valid_rate_eligible_rows'', ''LABEL_VALID_RATE_FAILURE''), (''report JSON'', ''REPORT_SCHEMA_FAILURE'')]
      in case filter (\<lambda>(t, c). sublist t text) table of (_, c) # _ \<Rightarrow> c | [] \<Rightarrow> ''UNKNOWN_PHASE42_FAILURE'')"

end
