(* ===== verification/LabeledProperties.thy ===== *)
theory LabeledProperties
  imports LabeledReport
begin

text \<open>
  What the labelled data set promises: the sample of a label is the first at or after its target time
  and the sample of a past feature the last at or before it, as a reference over the whole list of
  time stamps finds them; no row uses what it must not know; every generated row has the schema; no
  horizon has more valid labels than eligible samples; and a passed report means what it says.
\<close>

subsection \<open>Sequences of evaluations\<close>

lemma and_then_Inr: "and_then x f = Inr y \<longleftrightarrow> (\<exists>a. x = Inr a \<and> f a = Inr y)"
  by (cases x) (simp_all add: and_then_def)

lemma collect_Inr: "collect xs = Inr ys \<longleftrightarrow> list_all2 (\<lambda>x y. x = Inr y) xs ys"
  by (induction xs arbitrary: ys) (auto simp: and_then_Inr list_all2_Cons1)

lemma collect_map:
  "collect (map f xs) = Inr ys \<longleftrightarrow> length ys = length xs \<and> (\<forall>i<length xs. f (xs ! i) = Inr (ys ! i))"
  by (auto simp: collect_Inr list_all2_conv_all_nth)

subsection \<open>The samples of the past and of the future\<close>

definition first_at_or_after :: "int list \<Rightarrow> int \<Rightarrow> nat option" where
  "first_at_or_after ts t = (case filter (\<lambda>j. t \<le> ts ! j) [0..<length ts] of [] \<Rightarrow> None | j # _ \<Rightarrow> Some j)"

definition last_at_or_before :: "int list \<Rightarrow> int \<Rightarrow> nat option" where
  "last_at_or_before ts t = (case rev (filter (\<lambda>j. ts ! j \<le> t) [0..<length ts]) of [] \<Rightarrow> None | j # _ \<Rightarrow> Some j)"

lemma future_split:
  fixes ts :: "int list"
  assumes "sorted ts" and "i < length ts" and "0 < ms"
  defines "target \<equiv> ts ! i + ms * 1000000"
  defines "j \<equiv> bisect_left_in ts target (i + 1) (length ts)"
  shows "i < j" and "j \<le> length ts" and "\<forall>k<j. ts ! k < target" and "\<forall>k<length ts. j \<le> k \<longrightarrow> target \<le> ts ! k"
proof -
  have "ts ! k < target" if "k < i + 1" for k
    using that assms(2,3) sorted_nth_mono [OF assms(1), of k i] by (simp add: target_def)
  then have "\<forall>k<i + 1. ts ! k < target" by blast
  from bisect_left_in_spec [OF assms(1) _ _ this, of "length ts"] assms(2)
  have s: "j \<le> length ts" "\<forall>k<j. ts ! k < target" "\<forall>k<length ts. j \<le> k \<longrightarrow> target \<le> ts ! k"
    by (simp_all add: j_def)
  show "i < j" using s(3) assms(2) \<open>\<forall>k<i + 1. ts ! k < target\<close> by (meson less_add_one not_le)
  show "j \<le> length ts" "\<forall>k<j. ts ! k < target" "\<forall>k<length ts. j \<le> k \<longrightarrow> target \<le> ts ! k" using s by auto
qed

lemma select_future_index_Some:
  assumes "sorted ts" and "i < length ts" and "0 < ms" and "select_future_index ts i ms = Some j"
  shows "i < j \<and> j < length ts \<and> ts ! i + ms * 1000000 \<le> ts ! j"
  using assms(4) future_split [OF assms(1-3)] by (auto simp: select_future_index_def Let_def split: if_splits)

lemma filter_upt_ge: "j \<le> n \<Longrightarrow> filter (\<lambda>k. j \<le> k) [0..<n] = [j..<n]"
proof -
  assume "j \<le> n"
  then have "[0..<n] = [0..<j] @ [j..<n]" using upt_add_eq_append [of 0 j "n - j"] by simp
  moreover have "filter (\<lambda>k. j \<le> k) [0..<j] = []" "filter (\<lambda>k. j \<le> k) [j..<n] = [j..<n]"
    by (auto simp: filter_empty_conv filter_id_conv)
  ultimately show ?thesis by simp
qed

lemma filter_upt_less: "j \<le> n \<Longrightarrow> filter (\<lambda>k. k < j) [0..<n] = [0..<j]"
proof -
  assume "j \<le> n"
  then have "[0..<n] = [0..<j] @ [j..<n]" using upt_add_eq_append [of 0 j "n - j"] by simp
  moreover have "filter (\<lambda>k. k < j) [0..<j] = [0..<j]" "filter (\<lambda>k. k < j) [j..<n] = []"
    by (auto simp: filter_empty_conv filter_id_conv)
  ultimately show ?thesis by simp
qed

lemma select_future_index_reference:
  assumes "sorted ts" and "i < length ts" and "0 < ms"
  shows "select_future_index ts i ms = first_at_or_after ts (ts ! i + ms * 1000000)"
proof -
  define j where "j = bisect_left_in ts (ts ! i + ms * 1000000) (i + 1) (length ts)"
  note s = future_split [OF assms, folded j_def]
  have "(ts ! i + ms * 1000000 \<le> ts ! k) = (j \<le> k)" if "k < length ts" for k
    using s(3,4) that by (metis leD not_le)
  then have "filter (\<lambda>k. ts ! i + ms * 1000000 \<le> ts ! k) [0..<length ts] = filter (\<lambda>k. j \<le> k) [0..<length ts]"
    by (intro filter_cong) simp_all
  also have "\<dots> = [j..<length ts]" using s(2) by (rule filter_upt_ge)
  finally have f: "filter (\<lambda>k. ts ! i + ms * 1000000 \<le> ts ! k) [0..<length ts] = [j..<length ts]" .
  have "select_future_index ts i ms = (if j < length ts then Some j else None)"
    by (simp add: select_future_index_def Let_def j_def)
  then show ?thesis using f by (cases "j < length ts") (simp_all add: first_at_or_after_def upt_conv_Cons)
qed

lemma past_split:
  fixes ts :: "int list"
  assumes "sorted ts" and "i < length ts" and "target < ts ! i"
  defines "j \<equiv> bisect_right_in ts target 0 (i + 1)"
  shows "j \<le> i" and "\<forall>k<j. ts ! k \<le> target" and "\<forall>k<length ts. j \<le> k \<longrightarrow> target < ts ! k"
proof -
  have "\<forall>k<length ts. i + 1 \<le> k \<longrightarrow> target < ts ! k"
    using assms(3) sorted_nth_mono [OF assms(1), of i] by (auto intro: less_le_trans)
  from bisect_right_in_spec [OF assms(1) _ _ _ this, of 0] assms(2)
  have s: "j \<le> length ts" "\<forall>k<j. ts ! k \<le> target" "\<forall>k<length ts. j \<le> k \<longrightarrow> target < ts ! k"
    by (simp_all add: j_def)
  show "j \<le> i" using s(2) assms(3) by (meson leI leD)
  show "\<forall>k<j. ts ! k \<le> target" "\<forall>k<length ts. j \<le> k \<longrightarrow> target < ts ! k" using s by auto
qed

lemma past_index_Some:
  assumes "sorted ts" and "i < length ts" and "target < ts ! i" and "past_index ts i target = Some j"
  shows "j < i \<and> ts ! j \<le> target"
  using assms(4) past_split [OF assms(1-3)] by (auto simp: past_index_def split: nat.splits)

lemma past_index_reference:
  assumes "sorted ts" and "i < length ts" and "target < ts ! i"
  shows "past_index ts i target = last_at_or_before ts target"
proof -
  define j where "j = bisect_right_in ts target 0 (i + 1)"
  note s = past_split [OF assms, folded j_def]
  have "(ts ! k \<le> target) = (k < j)" if "k < length ts" for k
    using s(2,3) that by (metis leD not_le)
  then have "filter (\<lambda>k. ts ! k \<le> target) [0..<length ts] = filter (\<lambda>k. k < j) [0..<length ts]"
    by (intro filter_cong) simp_all
  then have "filter (\<lambda>k. ts ! k \<le> target) [0..<length ts] = [0..<j]"
    using s(1) assms(2) by (simp add: filter_upt_less)
  moreover have "past_index ts i target = (case j of 0 \<Rightarrow> None | Suc j \<Rightarrow> Some j)" by (simp add: past_index_def j_def)
  ultimately show ?thesis by (cases j) (simp_all add: last_at_or_before_def)
qed

subsection \<open>Labels and rows\<close>

lemma horizon_positive: "p \<in> set horizons \<Longrightarrow> 0 < hp_ms p"
  by (auto simp: horizons_def)

lemma policy_positive: "p \<in> set past_policies \<Longrightarrow> 0 < hp_ms p"
  by (auto simp: past_policies_def)

definition label_ok :: "int list \<Rightarrow> nat \<Rightarrow> horizon_policy \<Rightarrow> future_label \<Rightarrow> bool" where
  "label_ok ts i p l \<longleftrightarrow>
     (case fl_index l of None \<Rightarrow> fl_ts l = None \<and> \<not> fl_valid l
      | Some j \<Rightarrow> fl_ts l = Some (ts ! j) \<and> select_future_index ts i (hp_ms p) = Some j)
     \<and> (fl_valid l \<longleftrightarrow> fl_reason l = None) \<and> fl_reason l \<noteq> Some []
     \<and> (fl_valid l \<longrightarrow> fl_mid l \<noteq> None \<and> fl_gap_ms l \<noteq> None \<and> fl_return_bps l \<noteq> None \<and> fl_direction l \<noteq> None
         \<and> fl_spread_direction l \<noteq> None)"

lemma finish_label_ok:
  assumes "label_ok ts i p (invalid_because r l)" and "r \<noteq> []" and "fl_index l \<noteq> None" and "fl_gap_ms l \<noteq> None"
    and "\<not> fl_valid l" and "fl_reason l = None"
  shows "label_ok ts i p (finish_label c s th l)"
  using assms
  by (auto simp: finish_label_def label_ok_def invalid_because_def split: option.splits sum.splits prod.splits)

lemma build_label_ok: "label_ok ts i p (build_label samples ts i p fs th)"
proof (cases "feature ''mid_price'' fs")
  case None
  then show ?thesis by (simp add: build_label_def Let_def label_ok_def invalid_because_def empty_label_def)
next
  case (Some current)
  show ?thesis
  proof (cases "fle current fzero \<or> select_future_index ts i (hp_ms p) = None")
    case True
    then show ?thesis using Some
      by (auto simp: build_label_def Let_def label_ok_def invalid_because_def empty_label_def)
  next
    case False
    then obtain j where j: "select_future_index ts i (hp_ms p) = Some j" by auto
    define l where "l = (empty_label p (ts ! i + hp_ms p * 1000000))\<lparr>fl_index := Some j, fl_ts := Some (ts ! j),
       fl_last_update := vget (samples ! j) ''last_update_id'', fl_mid := sample_mid_price (samples ! j),
       fl_gap_ms := Some (int_truediv (ts ! j - (ts ! i + hp_ms p * 1000000)) 1000000)\<rparr>"
    have ok: "label_ok ts i p (invalid_because r l)" if "r \<noteq> []" for r
      using that j by (simp add: label_ok_def l_def invalid_because_def empty_label_def)
    have "label_ok ts i p (finish_label current (feature ''spread_bps'' fs) th l)"
      by (rule finish_label_ok [OF ok [of "''x''"]]) (simp_all add: l_def empty_label_def)
    then show ?thesis using False Some j ok [of "''FUTURE_GAP_TOO_LARGE''"]
      by (simp add: build_label_def Let_def l_def [symmetric])
  qed
qed

lemma build_label_last_update:
  "fl_last_update (build_label samples ts i p fs th)
     = (case fl_index (build_label samples ts i p fs th) of None \<Rightarrow> VNone | Some j \<Rightarrow> vget (samples ! j) ''last_update_id'')"
  by (auto simp: build_label_def Let_def invalid_because_def empty_label_def finish_label_def
      split: option.splits sum.splits prod.splits)

lemma map_sum_is_Inr: "map_sum id g x = Inr y \<longleftrightarrow> (\<exists>a. x = Inr a \<and> y = g a)"
  by (cases x) auto

lemma past_features_nth:
  "past_features_of ts all i = Inr past \<longleftrightarrow> length past = length past_policies
     \<and> (\<forall>k<length past_policies. \<exists>f. past_feature_of ts all i (past_policies ! k) = Inr f
          \<and> past ! k = (hp_name (past_policies ! k), f))"
  by (simp add: past_features_of_def collect_map map_sum_is_Inr)

lemma past_value_source: "past_value past current name k = Inr f \<Longrightarrow> pf_source f = Some j \<Longrightarrow> j = k"
  by (auto simp: past_value_def no_past_def map_sum_is_Inr split: option.splits if_splits)

lemma past_feature_source:
  assumes "past_feature_of ts all i p = Inr f" and "pf_source f = Some j"
  shows "past_index ts i (ts ! i - hp_ms p * 1000000) = Some j"
proof (cases "past_index ts i (ts ! i - hp_ms p * 1000000)")
  case None
  then show ?thesis using assms by (auto simp: past_feature_of_def Let_def no_past_def)
next
  case (Some k)
  then show ?thesis using assms
    by (auto simp: past_feature_of_def Let_def no_past_def split: if_splits dest: past_value_source)
qed

lemma past_source_before:
  assumes "past_features_of ts all i = Inr past" and "sorted ts" and "i < length ts" and "(n, f) \<in> set past"
    and "pf_source f = Some j"
  shows "j < i"
proof -
  obtain k where k: "k < length past_policies" "past_feature_of ts all i (past_policies ! k) = Inr f"
    using assms(1,4) unfolding past_features_nth in_set_conv_nth by (metis Pair_inject)
  then have "ts ! i - hp_ms (past_policies ! k) * 1000000 < ts ! i"
    using policy_positive [of "past_policies ! k"] by simp
  from past_index_Some [OF assms(2,3) this past_feature_source [OF k(2) assms(5)]] show ?thesis ..
qed

lemma past_names:
  assumes "past_features_of ts all i = Inr past"
  shows "map fst past = map hp_name past_policies"
  using assms by (intro nth_equalityI) (auto simp: past_features_nth)

lemma put_all_values: "(k, v) \<in> set (put_all kvs d) \<Longrightarrow> (k, v) \<in> set kvs \<or> (k, v) \<in> set d"
proof (induction kvs arbitrary: d)
  case (Cons x kvs)
  obtain a b where x: "x = (a, b)" by (cases x)
  have "put_all (x # kvs) d = put_all kvs (AList.update a b d)" by (simp add: put_all_def x)
  then show ?case using Cons.IH [of "AList.update a b d"] Cons.prems set_update [of a b d] by (auto simp: x)
qed (simp add: put_all_def)

lemma put_all_keys: "fst ` set (put_all kvs d) = fst ` set kvs \<union> fst ` set d"
proof (induction kvs arbitrary: d)
  case (Cons x kvs)
  obtain a b where x: "x = (a, b)" by (cases x)
  have "put_all (x # kvs) d = put_all kvs (AList.update a b d)" by (simp add: put_all_def x)
  then show ?case using Cons.IH [of "AList.update a b d"] by (auto simp: x dom_update [unfolded dom_map_of_conv_image_fst])
qed (simp add: put_all_def)

lemma row_json_fields:
  "vget (row_json sample i fs ws src labels) ''local_recv_monotonic_ns'' = vget sample ''local_recv_monotonic_ns''"
  "vget (row_json sample i fs ws src labels) ''schema_version'' = VStr ''orderbook_labeled_v1''"
  "vget (row_json sample i fs ws src labels) ''features'' = VDict (map (\<lambda>(n, x). (n, num_val x)) fs)"
  "vget (row_json sample i fs ws src labels) ''labels'' = VDict (map (\<lambda>(h, l). (h, label_json l)) labels)"
  "vget (row_json sample i fs ws src labels) ''quality'' = row_quality i ws labels src"
  by (simp_all add: row_json_def vget_def copied_fields_def)

lemma row_json_keys: "set required_top_level \<subseteq> fst ` set (row_json sample i fs ws src labels)"
  by (simp add: row_json_def required_top_level_def copied_fields_def)

lemma label_of_horizon:
  "p \<in> set horizons \<Longrightarrow> vget (map (\<lambda>(h, l). (h, label_json l)) (labels_of samples ts i fs th)) (hp_name p)
     = label_json (build_label samples ts i p fs th)"
  by (auto simp: labels_of_def horizons_def vget_def)

lemma label_json_fields:
  "vget (case label_json l of VDict d \<Rightarrow> d | _ \<Rightarrow> []) ''valid'' = VBool (fl_valid l)"
  by (simp add: label_json_def vget_def)

text \<open>What a successful generation consists of.\<close>

definition generated_row ::
  "json list \<Rightarrow> int list \<Rightarrow> (feature_map \<times> string list) list \<Rightarrow> pyfloat \<Rightarrow> nat \<Rightarrow> json \<Rightarrow> bool" where
  "generated_row samples ts base th i row \<longleftrightarrow> (\<exists>past fs ws src.
     past_features_of ts (map fst base) i = Inr past
     \<and> fs = put_all (map (\<lambda>(n, f). (n, pf_value f)) past) (fst (base ! i))
     \<and> src = put_all (map (\<lambda>(n, f). (n, pf_source f)) past) (map (\<lambda>(n, _). (n, Some i)) (fst (base ! i)))
     \<and> row = row_json (samples ! i) i fs ws src (labels_of samples ts i fs th))"

lemma generate_rows:
  assumes "generate_labeled_rows samples th = Inr rows"
  obtains ts base where "sample_timestamps samples = Inr ts" "length ts = length samples" "length rows = length samples"
    "\<forall>i<length samples. extract_current_features (samples ! i) = Inr (base ! i)"
    "\<forall>i<length samples. generated_row samples ts base th i (rows ! i)"
proof -
  obtain ts base where g: "sample_timestamps samples = Inr ts" "collect (map extract_current_features samples) = Inr base"
    "collect (map (labeled_row samples ts base th) [0..<length samples]) = Inr rows"
    using assms by (auto simp: generate_labeled_rows_def and_then_Inr)
  have "\<forall>i<length samples. generated_row samples ts base th i (rows ! i)"
  proof (intro allI impI)
    fix i assume "i < length samples"
    then have "labeled_row samples ts base th i = Inr (rows ! i)" using g(3) by (auto simp: collect_map)
    then show "generated_row samples ts base th i (rows ! i)"
      unfolding labeled_row_def and_then_Inr Let_def generated_row_def sum.inject by metis
  qed
  moreover have "length ts = length samples" using g(1) by (auto simp: sample_timestamps_def collect_map)
  ultimately show thesis using g that by (auto simp: collect_map)
qed

lemma sample_timestamp_nth:
  assumes "sample_timestamps samples = Inr ts" and "i < length samples"
    and "int_instance (vget (samples ! i) ''local_recv_monotonic_ns'') = Some now"
  shows "ts ! i = now"
  using assms
  by (auto simp: sample_timestamps_def collect_map vget_def int_instance_def int_of_val_def
      split: option.splits pyval.splits)

subsection \<open>No leaks\<close>

lemma no_label_leak:
  assumes "sorted ts" and "i < length ts" and "p \<in> set horizons"
    and "label_json (build_label samples ts i p fs th) = VDict l"
  shows "label_leak_reason i (ts ! i) (ts ! i + hp_ms p * 1000000) l = None"
proof -
  define b where "b = build_label samples ts i p fs th"
  have ok: "label_ok ts i p b" unfolding b_def by (rule build_label_ok)
  have l: "vget l ''future_index'' = opt_val (VInt \<circ> int) (fl_index b)"
    "vget l ''future_local_recv_monotonic_ns'' = opt_val VInt (fl_ts b)" "vget l ''valid'' = VBool (fl_valid b)"
    using assms(4) by (auto simp: b_def [symmetric] label_json_def vget_def)
  show ?thesis
  proof (cases "fl_index b")
    case None
    then show ?thesis using ok l by (simp add: label_leak_reason_def label_ok_def opt_val_def int_instance_def)
  next
    case (Some j)
    then have "select_future_index ts i (hp_ms p) = Some j" "fl_ts b = Some (ts ! j)" using ok by (simp_all add: label_ok_def)
    with select_future_index_Some [OF assms(1,2) horizon_positive [OF assms(3)]] horizon_positive [OF assms(3)]
    show ?thesis using Some l by (auto simp: label_leak_reason_def opt_val_def int_instance_def)
  qed
qed

lemma generated_row_no_leaks:
  assumes "generated_row samples ts base th i row" and "sorted ts" and "i < length samples" and "length ts = length samples"
    and "sample_timestamps samples = Inr ts"
  shows "row_leaks i row = []"
proof -
  obtain past fs ws src where g: "past_features_of ts (map fst base) i = Inr past"
    "src = put_all (map (\<lambda>(n, f). (n, pf_source f)) past) (map (\<lambda>(n, _). (n, Some i)) (fst (base ! i)))"
    "row = row_json (samples ! i) i fs ws src (labels_of samples ts i fs th)"
    using assms(1) by (auto simp: generated_row_def)
  have i: "i < length ts" using assms(3,4) by simp
  have "j \<le> i" if "(n, Some j) \<in> set src" for n j
    using put_all_values [OF that [unfolded g(2)]]
  proof
    assume "(n, Some j) \<in> set (map (\<lambda>(n, f). (n, pf_source f)) past)"
    then obtain f where "(n, f) \<in> set past" "pf_source f = Some j" by auto
    from past_source_before [OF g(1) assms(2) i this] show ?thesis by simp
  qed auto
  then have "feature_leaks i row = []"
    by (auto simp: feature_leaks_def Let_def g(3) row_json_fields row_quality_def dict_or_empty_def opt_val_def
        int_instance_def split: option.splits) (meson not_le)
  moreover have "label_leaks i (ts ! i) row = []"
    using no_label_leak [OF assms(2)] assms(3,4)
    by (auto simp: label_leaks_def g(3) row_json_fields dict_or_empty_def label_of_horizon split: pyval.splits)
  ultimately show ?thesis
    using sample_timestamp_nth [OF assms(5,3)] by (auto simp: row_leaks_def g(3) row_json_fields split: option.splits)
qed

lemma run_leakage_check_clean:
  "(\<And>i. i < length rows \<Longrightarrow> row_leaks i (rows ! i) = []) \<Longrightarrow>
     run_leakage_check rows = \<lparr>lk_passed = True, lk_feature_count = 0, lk_label_count = 0,
       lk_checked = int (length rows), lk_violations = []\<rparr>"
proof -
  assume "\<And>i. i < length rows \<Longrightarrow> row_leaks i (rows ! i) = []"
  then have "concat (map (\<lambda>(i, row). row_leaks i row) (enumerate 0 rows)) = []"
    by (auto simp: in_set_enumerate_eq)
  then show ?thesis by (simp add: run_leakage_check_def Let_def del: concat_eq_Nil_conv)
qed

lemma generated_rows_pass:
  assumes "generate_labeled_rows samples th = Inr rows" and "sample_timestamps samples = Inr ts" and "sorted ts"
  shows "run_leakage_check rows = \<lparr>lk_passed = True, lk_feature_count = 0, lk_label_count = 0,
       lk_checked = int (length rows), lk_violations = []\<rparr>"
proof -
  obtain ts' base where g: "sample_timestamps samples = Inr ts'" "length ts' = length samples" "length rows = length samples"
    "\<forall>i<length samples. generated_row samples ts' base th i (rows ! i)"
    using generate_rows [OF assms(1)] by metis
  then have "ts' = ts" using assms(2) by simp
  have "row_leaks i (rows ! i) = []" if "i < length rows" for i
    using generated_row_no_leaks [of samples ts base th i "rows ! i"] g assms(2,3) that \<open>ts' = ts\<close> by simp
  then show ?thesis by (rule run_leakage_check_clean)
qed

subsection \<open>The schema of the rows\<close>

lemma missing_none: "set required \<subseteq> fst ` set d \<Longrightarrow> missing_fields required d = []"
  by (simp add: missing_fields_def Diff_eq_empty_iff [THEN iffD2])

definition feature_names :: "string list" where
  "feature_names = [''best_bid'', ''best_ask'', ''mid_price'', ''spread'', ''spread_bps'', ''bid_size_l1'', ''ask_size_l1'',
     ''l1_size_imbalance'']
     @ concat (map (\<lambda>n. [level_name ''bid_depth'' n, level_name ''ask_depth'' n, level_name ''total_depth'' n,
         level_name ''depth_imbalance'' n, level_name ''depth_ratio'' n]) depth_levels)
     @ [''microprice_l1'', ''microprice_edge_bps'', ''bid_slope_l5'', ''ask_slope_l5''] @ map hp_name past_policies"

lemma required_features_named: "set required_features \<subseteq> set feature_names"
  by (auto simp: required_features_def feature_names_def)

lemma extract_names:
  assumes "extract_current_features s = Inr (fs, ws)"
  shows "map fst fs = feature_names"
proof -
  have m: "map fst x = [''microprice_l1'', ''microprice_edge_bps'']" if "microprice_features a b c d e = Inr x" for a b c d e x
    using that by (auto simp: microprice_features_def Let_def split: option.splits if_splits)
  show ?thesis using assms m
    by (auto simp: extract_current_features_def and_then_Inr feature_names_def price_features_def l1_features_def
        depth_features_def Let_def map_concat comp_def)
qed

lemma generated_row_schema:
  assumes "generated_row samples ts base th i row" and "extract_current_features (samples ! i) = Inr (base ! i)"
    and "i < length samples" and "length ts = length samples" and "sorted ts"
    and "\<forall>s\<in>set samples. vget s ''last_update_id'' \<noteq> VNone"
  shows "row_reasons row = []"
proof -
  obtain past fs ws src where g: "past_features_of ts (map fst base) i = Inr past"
    "fs = put_all (map (\<lambda>(n, f). (n, pf_value f)) past) (fst (base ! i))"
    "row = row_json (samples ! i) i fs ws src (labels_of samples ts i fs th)"
    using assms(1) by (auto simp: generated_row_def)
  have n: "map fst (fst (base ! i)) = feature_names" using extract_names assms(2) by (metis prod.collapse)
  have "set feature_names \<subseteq> fst ` set fs" unfolding g(2) put_all_keys n [symmetric] by auto
  then have "set required_features \<subseteq> fst ` set fs" using required_features_named by (rule subset_trans [rotated])
  then have f: "missing_fields required_features (map (\<lambda>(n, x). (n, num_val x)) fs) = []"
    by (intro missing_none) (force simp: image_iff)
  have l: "label_reasons (hp_name p) l = []"
    if "p \<in> set horizons" "label_json (build_label samples ts i p fs th) = VDict l" for p l
  proof -
    define b where "b = build_label samples ts i p fs th"
    have ok: "label_ok ts i p b" unfolding b_def by (rule build_label_ok)
    have d: "VDict l = label_json b" using that(2) by (simp add: b_def)
    have "set required_label_fields \<subseteq> fst ` set l" using d
      by (auto simp: label_json_def required_label_fields_def required_when_valid_def)
    moreover have "fl_valid b \<longrightarrow> fl_last_update b \<noteq> VNone"
    proof
      assume "fl_valid b"
      then obtain j where j: "fl_index b = Some j" "select_future_index ts i (hp_ms p) = Some j"
        using ok by (auto simp: label_ok_def split: option.splits)
      then have "j < length samples" using select_future_index_Some [OF assms(5) _ horizon_positive [OF that(1)] j(2)] assms(3,4) by simp
      then show "fl_last_update b \<noteq> VNone" using assms(6) j(1) by (simp add: b_def build_label_last_update)
    qed
    ultimately show ?thesis using ok d
      by (auto simp: label_reasons_def missing_none label_json_def vget_def required_when_valid_def label_ok_def
          opt_val_def num_val_def split: option.splits)
  qed
  have "(case vget (map (\<lambda>(h, l). (h, label_json l)) (labels_of samples ts i fs th)) (hp_name p) of
      VDict l \<Rightarrow> label_reasons (hp_name p) l | _ \<Rightarrow> [''missing_label_'' @ hp_name p]) = []" if "p \<in> set horizons" for p
    using l [OF that] by (simp add: label_of_horizon [OF that]) (simp add: label_json_def)
  then show ?thesis
    using f by (simp add: row_reasons_def Let_def g(3) row_json_fields dict_or_empty_def missing_none [OF row_json_keys])
qed

lemma generated_rows_schema:
  assumes "generate_labeled_rows samples th = Inr rows" and "sample_timestamps samples = Inr ts" and "sorted ts"
    and "\<forall>s\<in>set samples. vget s ''last_update_id'' \<noteq> VNone"
  shows "validate_labeled_rows rows = []"
proof -
  obtain ts' base where g: "sample_timestamps samples = Inr ts'" "length ts' = length samples" "length rows = length samples"
    "\<forall>i<length samples. extract_current_features (samples ! i) = Inr (base ! i)"
    "\<forall>i<length samples. generated_row samples ts' base th i (rows ! i)"
    using generate_rows [OF assms(1)] by metis
  then have "row_reasons (rows ! i) = []" if "i < length rows" for i
    using generated_row_schema [of samples ts base th i "rows ! i"] assms(2-4) that by simp
  then show ?thesis by (auto simp: validate_labeled_rows_def in_set_enumerate_eq)
qed

subsection \<open>Valid samples\<close>

lemma read_samples_clean:
  "read_samples line ls n = Inr (ss, []) \<Longrightarrow> s \<in> set ss \<Longrightarrow> clean_sample_errors s = Inr []"
proof (induction line ls n arbitrary: ss rule: read_samples.induct)
  case (4 line row ls n)
  then show ?case by (auto simp: and_then_Inr map_sum_is_Inr)
qed (auto simp: map_sum_is_Inr)

lemma valid_samples_clean:
  assumes "validate_clean_samples file = Inr v" and "sva_valid v" and "s \<in> set (sva_samples v)"
  shows "clean_sample_errors s = Inr []"
proof -
  obtain ls ss vs where "file = Some ls" "read_samples 1 ls 0 = Inr (ss, vs)" "vs = []" "sva_samples v = ss"
    using assms by (auto simp: validate_clean_samples_def and_then_Inr whole_file_violation_def
        split: option.splits if_splits prod.splits)
  then show ?thesis using read_samples_clean assms(3) by metis
qed

lemma clean_sample_fields:
  assumes "clean_sample_errors s = Inr []"
  shows "is_int (vget s ''local_recv_monotonic_ns'') \<and> vget s ''last_update_id'' \<noteq> VNone"
  using assms by (auto simp: clean_sample_errors_def and_then_Inr split: if_splits)

lemma clean_timestamps:
  assumes "\<forall>s\<in>set samples. is_int (vget s ''local_recv_monotonic_ns'')"
  shows "sample_timestamps samples = Inr (int_timestamps samples)" and "length (int_timestamps samples) = length samples"
proof -
  have "int_timestamps samples = map (\<lambda>s. case vget s ''local_recv_monotonic_ns'' of VInt n \<Rightarrow> n | _ \<Rightarrow> 0) samples"
    using assms by (induction samples) (auto simp: int_timestamps_def is_int_def int_instance_def split: pyval.splits)
  moreover from this have "sample_timestamps samples = Inr (int_timestamps samples)"
    using assms by (auto simp: sample_timestamps_def collect_map is_int_def int_of_val_def vget_def
        split: pyval.splits option.splits dest!: nth_mem)
  ultimately show "sample_timestamps samples = Inr (int_timestamps samples)" "length (int_timestamps samples) = length samples"
    by simp_all
qed

lemma negative_gap: "n < 0 \<Longrightarrow> fless (int_truediv n 1000000) fzero"
proof -
  assume "n < 0"
  then have "of_int n / of_int 1000000 \<le> (- 1 / 1000000 :: rat)" by (simp add: divide_right_mono)
  then have "fle (int_truediv n 1000000) (f64 (- 1 / 1000000))" unfolding int_truediv_def by (rule f64_mono)
  moreover have "fless (f64 (- 1 / 1000000)) fzero" by code_simp
  ultimately show ?thesis by (rule fle_fless_trans)
qed

lemma gaps_increasing:
  assumes "how_many (\<lambda>g. fless g fzero) (gaps_ms ts) = 0" and "how_many (\<lambda>g. g = fzero) (gaps_ms ts) = 0"
  shows "sorted_wrt (<) ts"
proof -
  have "ts ! k < ts ! Suc k" if "Suc k < length ts" for k
  proof -
    have "int_truediv (ts ! Suc k - ts ! k) 1000000 \<in> set (gaps_ms ts)"
      using that by (force simp: gaps_ms_def set_zip nth_tl)
    then have "\<not> fless (int_truediv (ts ! Suc k - ts ! k) 1000000) fzero" "int_truediv (ts ! Suc k - ts ! k) 1000000 \<noteq> fzero"
      using assms by (auto simp: how_many_def filter_empty_conv)
    moreover have "int_truediv 0 1000000 = fzero" by code_simp
    ultimately have "ts ! Suc k - ts ! k \<noteq> 0" "\<not> ts ! Suc k - ts ! k < 0"
      using negative_gap [of "ts ! Suc k - ts ! k"] by metis+
    then show ?thesis by linarith
  qed
  then show ?thesis by (simp add: sorted_wrt_iff_nth_Suc_transp)
qed

lemma may_generate_timestamps:
  assumes "validate_clean_samples file = Inr v" and "may_generate v"
  shows "sample_timestamps (sva_samples v) = Inr (int_timestamps (sva_samples v))"
    and "length (int_timestamps (sva_samples v)) = length (sva_samples v)"
    and "sorted_wrt (<) (int_timestamps (sva_samples v))"
    and "\<forall>s\<in>set (sva_samples v). clean_sample_errors s = Inr []"
proof -
  show c: "\<forall>s\<in>set (sva_samples v). clean_sample_errors s = Inr []"
    using valid_samples_clean [OF assms(1)] assms(2) by (simp add: may_generate_def)
  then have "\<forall>s\<in>set (sva_samples v). is_int (vget s ''local_recv_monotonic_ns'')" using clean_sample_fields by blast
  from clean_timestamps [OF this] show "sample_timestamps (sva_samples v) = Inr (int_timestamps (sva_samples v))"
    "length (int_timestamps (sva_samples v)) = length (sva_samples v)" .
  show "sorted_wrt (<) (int_timestamps (sva_samples v))"
    using assms(2) by (intro gaps_increasing) (simp_all add: may_generate_def compute_timestamp_quality_def Let_def)
qed

subsection \<open>Valid labels have a sample\<close>

lemma how_many_mono: "(\<And>x. x \<in> set xs \<Longrightarrow> P x \<Longrightarrow> Q x) \<Longrightarrow> how_many P xs \<le> how_many Q xs"
  unfolding how_many_def by (induction xs) auto

lemma generated_row_labels:
  assumes "generated_row samples ts base th i row"
  shows "\<exists>fs. vget row ''labels'' = VDict (map (\<lambda>(h, l). (h, label_json l)) (labels_of samples ts i fs th))"
proof -
  obtain fs ws src where "row = row_json (samples ! i) i fs ws src (labels_of samples ts i fs th)"
    using assms by (auto simp: generated_row_def)
  then show ?thesis by (intro exI [of _ fs]) (simp only: row_json_fields)
qed

lemma labels_at_rows:
  assumes "\<forall>i<length samples. generated_row samples ts base th i (rows ! i)" and "length rows = length samples"
    and "p \<in> set horizons"
  shows "\<exists>f. labels_at rows (hp_name p) = map (\<lambda>i. label_json (build_label samples ts i p (f i) th)) [0..<length samples]"
proof -
  define fs where "fs = (\<lambda>i. SOME fs. vget (rows ! i) ''labels''
      = VDict (map (\<lambda>(h, l). (h, label_json l)) (labels_of samples ts i fs th)))"
  have f: "vget (rows ! i) ''labels'' = VDict (map (\<lambda>(h, l). (h, label_json l)) (labels_of samples ts i (fs i) th))"
    if "i < length samples" for i
  proof -
    have "\<exists>fs. vget (rows ! i) ''labels'' = VDict (map (\<lambda>(h, l). (h, label_json l)) (labels_of samples ts i fs th))"
      using assms(1) that by (intro generated_row_labels [of samples ts base th]) simp
    then show ?thesis unfolding fs_def by (rule someI_ex)
  qed
  have r: "rows = map (\<lambda>i. rows ! i) [0..<length samples]" unfolding assms(2) [symmetric] by (rule map_nth [symmetric])
  have "labels_at rows (hp_name p) = labels_at (map (\<lambda>i. rows ! i) [0..<length samples]) (hp_name p)"
    by (rule arg_cong [OF r])
  also have "\<dots> = concat (map (\<lambda>i. case vget (rows ! i) ''labels'' of VDict ls \<Rightarrow> [vget ls (hp_name p)] | _ \<Rightarrow> [])
      [0..<length samples])"
    unfolding labels_at_def by (simp add: comp_def)
  also have "\<dots> = concat (map (\<lambda>i. [label_json (build_label samples ts i p (fs i) th)]) [0..<length samples])"
    using f label_of_horizon [OF assms(3)] by (intro arg_cong [of _ _ concat] map_cong) auto
  finally have "labels_at rows (hp_name p) = map (\<lambda>i. label_json (build_label samples ts i p (fs i) th)) [0..<length samples]"
    by simp
  then show ?thesis by blast
qed

lemma valid_le_eligible:
  assumes "\<forall>i<length samples. generated_row samples ts base th i (rows ! i)" and "length rows = length samples"
    and "length ts = length samples" and "sorted ts" and "p \<in> set horizons"
  shows "hq_valid (horizon_quality_of ts rows p) \<le> hq_eligible (horizon_quality_of ts rows p)"
proof -
  obtain f where f: "labels_at rows (hp_name p) = map (\<lambda>i. label_json (build_label samples ts i p (f i) th)) [0..<length samples]"
    using labels_at_rows [OF assms(1,2,5)] by blast
  have "hq_valid (horizon_quality_of ts rows p)
      = how_many (\<lambda>i. fl_valid (build_label samples ts i p (f i) th)) [0..<length samples]"
    by (simp add: horizon_quality_of_def Let_def f how_many_def filter_map comp_def is_valid_label_def label_json_def vget_def)
  also have "\<dots> \<le> how_many (\<lambda>i. ts ! i + hp_ms p * 1000000 \<le> last ts) [0..<length samples]"
  proof (rule how_many_mono)
    fix i assume i: "i \<in> set [0..<length samples]" and v: "fl_valid (build_label samples ts i p (f i) th)"
    obtain j where "select_future_index ts i (hp_ms p) = Some j"
      using v build_label_ok [of ts i p samples "f i" th] by (auto simp: label_ok_def split: option.splits)
    from select_future_index_Some [OF assms(4) _ horizon_positive [OF assms(5)] this] i assms(3)
    have "ts ! i + hp_ms p * 1000000 \<le> ts ! j" "j < length ts" by simp_all
    moreover have "ts ! j \<le> last ts" using sorted_nth_mono [OF assms(4), of j "length ts - 1"] \<open>j < length ts\<close>
      by (subst last_conv_nth) auto
    ultimately show "ts ! i + hp_ms p * 1000000 \<le> last ts" by simp
  qed
  also have "\<dots> = how_many (\<lambda>t. t + hp_ms p * 1000000 \<le> last ts) (map (\<lambda>i. ts ! i) [0..<length ts])"
    by (simp add: how_many_def filter_map comp_def assms(3))
  also have "\<dots> \<le> eligible_count ts p" by (simp add: eligible_count_def map_nth how_many_def)
  finally show ?thesis by (simp add: horizon_quality_of_def Let_def)
qed

subsection \<open>What the pipeline returns\<close>

lemma pipeline_returns:
  assumes "run_phase42_pipeline file rates = Inr r"
  obtains v where "validate_clean_samples file = Inr v" "pr_validation r = v" "pipeline_rows v = Inr (pr_rows r)"
    "pr_schema r = (if may_generate v then validate_labeled_rows (pr_rows r) else [])"
    "pr_leakage r = (if may_generate v then run_leakage_check (pr_rows r) else empty_leakage_result 0)"
    "build_quality_report v (pr_rows r) (pr_schema r) (pr_leakage r) rates = Inr (pr_report r)"
proof -
  obtain v rows report where p: "validate_clean_samples file = Inr v" "pipeline_rows v = Inr rows"
    and r: "r = \<lparr>pr_report = report, pr_rows = rows, pr_validation = v,
        pr_schema = (if may_generate v then validate_labeled_rows rows else []),
        pr_leakage = (if may_generate v then run_leakage_check rows else empty_leakage_result 0)\<rparr>"
    and b: "build_quality_report v rows (if may_generate v then validate_labeled_rows rows else [])
        (if may_generate v then run_leakage_check rows else empty_leakage_result 0) rates = Inr report"
    using assms unfolding run_phase42_pipeline_def and_then_Inr Let_def by blast
  show thesis by (rule that [OF p(1)]) (simp_all add: r p(2) b del: if_split)
qed

lemma generated_rows_are_sound:
  assumes "validate_clean_samples file = Inr v" and "may_generate v"
    and "generate_labeled_rows (sva_samples v) th = Inr rows"
  shows "validate_labeled_rows rows = []" and "length rows = length (sva_samples v)"
    and "run_leakage_check rows = \<lparr>lk_passed = True, lk_feature_count = 0, lk_label_count = 0,
       lk_checked = int (length rows), lk_violations = []\<rparr>"
proof -
  note t = may_generate_timestamps [OF assms(1,2)]
  have "sorted (int_timestamps (sva_samples v))" using t(3) by (simp add: strict_sorted_iff)
  then show "validate_labeled_rows rows = []" "run_leakage_check rows = \<lparr>lk_passed = True, lk_feature_count = 0,
      lk_label_count = 0, lk_checked = int (length rows), lk_violations = []\<rparr>"
    using generated_rows_schema [OF assms(3) t(1)] generated_rows_pass [OF assms(3) t(1)] t(4) clean_sample_fields
    by blast+
  show "length rows = length (sva_samples v)" using generate_rows [OF assms(3)] by metis
qed

lemma horizon_quality_nonneg: "0 \<le> hq_valid (horizon_quality_of ts rows p)"
  by (simp add: horizon_quality_of_def Let_def)

lemma label_quality_horizon:
  "map_of (label_quality ts rows) h = Some q \<Longrightarrow> \<exists>p\<in>set horizons. hp_name p = h \<and> q = horizon_quality_of ts rows p"
  by (auto simp: label_quality_def dest!: map_of_SomeD)

lemma report_passed:
  assumes "build_quality_report v rows schema leaks rates = Inr q" and "qr_passed q"
  obtains ts where "sample_timestamps (sva_samples v) = Inr ts" "qr_labels q = label_quality ts rows"
    "sva_samples v \<noteq> []" "length rows = length (sva_samples v)" "sva_invalid_count v \<le> 0" "schema = []"
    "\<forall>(h, threshold)\<in>set (if rates = [] then min_valid_rates else rates). \<exists>x. map_of (qr_labels q) h = Some x
       \<and> 0 < hq_eligible x \<and> \<not> fless (hq_rate_eligible x) threshold"
proof -
  define th where "th = (if rates = [] then min_valid_rates else rates)"
  obtain ts where ts: "sample_timestamps (sva_samples v) = Inr ts" "qr_labels q = label_quality ts rows"
    and r: "hard_fail_reasons (sva_samples v) rows (sva_invalid_count v) (compute_timestamp_quality (sva_samples v))
        (int (length schema)) leaks (label_quality ts rows) th = Inr []"
    using assms by (auto simp: build_quality_report_def and_then_Inr Let_def th_def)
  obtain rs where rs: "collect (map (\<lambda>(h, threshold). case map_of (label_quality ts rows) h of None \<Rightarrow> Inl KeyError
         | Some q \<Rightarrow> Inr (if hq_eligible q \<le> 0 \<or> fless (hq_rate_eligible q) threshold
                         then [h @ '' valid_rate_eligible_rows below threshold''] else [])) th) = Inr rs"
      "concat rs = []"
    and c: "sva_samples v \<noteq> []" "length rows = length (sva_samples v)" "sva_invalid_count v \<le> 0" "schema = []"
    using r by (auto simp: hard_fail_reasons_def and_then_Inr counted_reason_def simp del: concat_eq_Nil_conv split: if_splits)
  have "\<exists>x. map_of (label_quality ts rows) h = Some x \<and> 0 < hq_eligible x \<and> \<not> fless (hq_rate_eligible x) t"
    if m: "(h, t) \<in> set th" for h t
  proof -
    obtain k where k: "k < length th" "th ! k = (h, t)" using m by (metis in_set_conv_nth)
    with rs(1) have l: "length rs = length th"
      "(case map_of (label_quality ts rows) h of None \<Rightarrow> Inl KeyError
         | Some q \<Rightarrow> Inr (if hq_eligible q \<le> 0 \<or> fless (hq_rate_eligible q) t
                         then [h @ '' valid_rate_eligible_rows below threshold''] else [])) = Inr (rs ! k)"
      by (auto simp: collect_map)
    have "rs ! k = []" using rs(2) k(1) l(1) by (metis concat_eq_Nil_conv nth_mem)
    with l(2) show ?thesis by (cases "map_of (label_quality ts rows) h") (simp_all split: if_splits)
  qed
  then have a: "\<forall>(h, threshold)\<in>set th. \<exists>x. map_of (qr_labels q) h = Some x
       \<and> 0 < hq_eligible x \<and> \<not> fless (hq_rate_eligible x) threshold" using ts(2) by auto
  show thesis by (rule that [OF ts c a [unfolded th_def]])
qed

lemma quality_of_valid_file:
  assumes "validate_clean_samples file = Inr v" and "may_generate v"
    and "generate_labeled_rows (sva_samples v) th = Inr rows" and "sample_timestamps (sva_samples v) = Inr ts"
    and "map_of (label_quality ts rows) h = Some x"
  shows "hq_valid x \<le> hq_eligible x"
proof -
  note t = may_generate_timestamps [OF assms(1,2)]
  have s: "sorted ts" using t(1,3) assms(4) by (simp add: strict_sorted_iff)
  obtain p where p: "p \<in> set horizons" "x = horizon_quality_of ts rows p" using label_quality_horizon [OF assms(5)] by blast
  obtain ts' base where "sample_timestamps (sva_samples v) = Inr ts'" "length ts' = length (sva_samples v)"
    "length rows = length (sva_samples v)"
    "\<forall>i<length (sva_samples v). generated_row (sva_samples v) ts' base th i (rows ! i)"
    using generate_rows [OF assms(3)] by metis
  with assms(4) show ?thesis unfolding p(2) by (intro valid_le_eligible [OF _ _ _ s p(1)]) simp_all
qed

lemma valid_label_gap:
  assumes "fl_valid (build_label samples ts i p fs th)"
  shows "\<exists>j. select_future_index ts i (hp_ms p) = Some j
     \<and> \<not> fless (float_of_int (hp_max_gap_ms p)) (int_truediv (ts ! j - (ts ! i + hp_ms p * 1000000)) 1000000)"
  using assms
  by (auto simp: build_label_def Let_def invalid_because_def empty_label_def split: option.splits if_splits)

lemma missing_timestamp_stops_the_report:
  assumes "validate_clean_samples file = Inr v" and "s \<in> set (sva_samples v)"
    and "map_of s ''local_recv_monotonic_ns'' = None"
  shows "\<exists>e. run_phase42_pipeline file rates = Inl e"
proof (rule ccontr)
  assume "\<nexists>e. run_phase42_pipeline file rates = Inl e"
  then obtain r where r: "run_phase42_pipeline file rates = Inr r" by (cases "run_phase42_pipeline file rates") auto
  obtain ts where "sample_timestamps (sva_samples v) = Inr ts"
    using pipeline_returns [OF r] assms(1) by (auto simp: build_quality_report_def and_then_Inr Let_def)
  then show False using assms(2,3) by (auto simp: sample_timestamps_def collect_map in_set_conv_nth)
qed

subsection \<open>A file that passes\<close>

text \<open>Evaluation is quicker when small integers are not rounded.\<close>

lemma f64_code [code]:
  "f64 x = (case quotient_of x of (n, d) \<Rightarrow> if d = 1 \<and> \<bar>n\<bar> \<le> 4503599627370496 then Fin x
     else let r = r64 x in if f64_limit \<le> r then PInf else if r \<le> - f64_limit then NInf else Fin r)"
proof -
  obtain n d where q: "quotient_of x = (n, d)" by (cases "quotient_of x")
  have "f64 x = Fin x" if d: "d = 1" and n: "\<bar>n\<bar> \<le> 4503599627370496"
  proof -
    have x: "x = of_int n" using quotient_of_div [OF q] d by simp
    have "\<bar>x\<bar> \<le> of_int 4503599627370496" using n unfolding x of_int_abs [symmetric] of_int_le_iff .
    also have "\<dots> < f64_limit" by (simp add: f64_limit_def)
    finally have "is_f64 x" using r64_int [OF n] by (simp add: is_f64_def x)
    then show ?thesis by (rule f64_exact)
  qed
  then show ?thesis by (simp add: q f64_def)
qed

definition example_sample :: "int \<Rightarrow> json" where
  "example_sample t = [(''schema_version'', VStr ''v1''), (''symbol'', VStr ''B''), (''source'', VStr ''x''),
     (''generation_id'', VInt 1), (''local_recv_monotonic_ns'', VInt t), (''local_recv_wall_ts'', VStr ''w''),
     (''last_update_id'', VInt 1), (''best_bid'', VFloat (Fin 1)), (''best_ask'', VFloat (Fin 3)),
     (''bids'', VList [VList [VFloat (Fin 1), VFloat (Fin 1)]]), (''asks'', VList [VList [VFloat (Fin 3), VFloat (Fin 1)]]),
     (''quality'', VDict [(''errors'', VList [])]),
     (''lifecycle'', VDict [(''snapshot_ready'', VBool True), (''ready_to_emit'', VBool True),
        (''sequence_continuous'', VBool True)])]"

definition example_samples :: "json list" where
  "example_samples = [example_sample 0, example_sample 5000000000]"

definition example_timestamps :: "int list" where "example_timestamps = [0, 5000000000]"

definition example_file :: "sample_line list option" where
  "example_file = Some [Json_line (VDict (example_sample 0)), Json_line (VDict (example_sample 5000000000))]"

definition example_rates :: "(string \<times> pyfloat) list" where
  "example_rates = [(''horizon_5000ms'', Fin 1)]"

definition example_validation :: sample_validation where
  "example_validation = \<lparr>sva_valid = True, sva_samples = example_samples, sva_invalid_count = 0, sva_violations = [],
     sva_class = None\<rparr>"

lemma example_validation_samples [simp]: "sva_samples example_validation = example_samples"
  by (simp add: example_validation_def)

lemma example_clean:
  "clean_sample_errors (example_sample 0) = Inr []" "clean_sample_errors (example_sample 5000000000) = Inr []"
  by code_simp+

lemma example_valid: "validate_clean_samples example_file = Inr example_validation"
  by (simp add: validate_clean_samples_def example_file_def and_then_def example_clean example_validation_def
      example_samples_def)

lemma example_int_timestamps: "int_timestamps example_samples = example_timestamps"
  by code_simp

lemma example_sample_timestamps: "sample_timestamps example_samples = Inr example_timestamps"
  by code_simp

lemma example_may_generate: "may_generate example_validation"
proof -
  have "gaps_ms example_timestamps = [Fin 5000]" by code_simp
  then show ?thesis
    by (simp add: may_generate_def example_validation_def compute_timestamp_quality_def example_int_timestamps
        how_many_def Let_def)
qed

definition example_features :: "(feature_map \<times> string list) list \<Rightarrow> nat \<Rightarrow> (string \<times> past_feature) list \<Rightarrow> feature_map" where
  "example_features base i past = put_all (map (\<lambda>(n, f). (n, pf_value f)) past) (fst (base ! i))"

lemma example_generation:
  "(case collect (map extract_current_features example_samples) of Inl _ \<Rightarrow> False | Inr base \<Rightarrow>
    (case past_features_of example_timestamps (map fst base) 0 of Inl _ \<Rightarrow> False | Inr past \<Rightarrow>
    (case past_features_of example_timestamps (map fst base) 1 of Inl _ \<Rightarrow> False | Inr _ \<Rightarrow>
      fl_valid (build_label example_samples example_timestamps 0 (horizons ! 5) (example_features base 0 past) fzero))))"
  by code_simp

lemma is_valid_label_json: "is_valid_label (label_json l) = fl_valid l"
  by (simp add: is_valid_label_def label_json_def vget_def)

lemma example_rows:
  obtains rows where "generate_labeled_rows example_samples fzero = Inr rows"
    "0 < hq_valid (horizon_quality_of example_timestamps rows (horizons ! 5))"
proof -
  obtain base past past' where b: "collect (map extract_current_features example_samples) = Inr base"
    "past_features_of example_timestamps (map fst base) 0 = Inr past"
    "past_features_of example_timestamps (map fst base) 1 = Inr past'"
    "fl_valid (build_label example_samples example_timestamps 0 (horizons ! 5) (example_features base 0 past) fzero)"
    using example_generation by (auto split: sum.splits)
  define row where "row = (\<lambda>i past. row_json (example_samples ! i) i (example_features base i past)
     (snd (base ! i) @ [w. (_, f) \<leftarrow> past, Some w \<leftarrow> [pf_warning f]])
     (put_all (map (\<lambda>(n, f). (n, pf_source f)) past) (map (\<lambda>(n, _). (n, Some i)) (fst (base ! i))))
     (labels_of example_samples example_timestamps i (example_features base i past) fzero))"
  have l: "length example_samples = 2" by (simp add: example_samples_def)
  have "labeled_row example_samples example_timestamps base fzero 0 = Inr (row 0 past)"
    "labeled_row example_samples example_timestamps base fzero 1 = Inr (row 1 past')"
    using b(2,3) by (simp_all add: labeled_row_def and_then_def row_def example_features_def Let_def)
  moreover have "[0..<2] = [0, 1::nat]" by (simp add: upt_rec)
  ultimately have g: "generate_labeled_rows example_samples fzero = Inr [row 0 past, row 1 past']"
    using b(1) by (simp add: generate_labeled_rows_def example_sample_timestamps and_then_def l)
  have h: "horizons ! 5 \<in> set horizons" by (simp add: horizons_def)
  have v: "vget (row i p) ''labels'' = VDict (map (\<lambda>(h, l). (h, label_json l))
      (labels_of example_samples example_timestamps i (example_features base i p) fzero))" for i p
    by (simp add: row_def row_json_fields)
  have "labels_at [row 0 past, row 1 past'] (hp_name (horizons ! 5))
      = [label_json (build_label example_samples example_timestamps 0 (horizons ! 5) (example_features base 0 past) fzero),
         label_json (build_label example_samples example_timestamps 1 (horizons ! 5) (example_features base 1 past') fzero)]"
    by (simp add: labels_at_def v label_of_horizon [OF h])
  then have "0 < hq_valid (horizon_quality_of example_timestamps [row 0 past, row 1 past'] (horizons ! 5))"
    using b(4) by (simp add: horizon_quality_of_def Let_def is_valid_label_json)
  with g show thesis by (rule that)
qed

lemma labelled_example_run: "\<exists>r. run_phase42_pipeline example_file example_rates = Inr r \<and> qr_passed (pr_report r) \<and> pr_rows r \<noteq> []"
proof -
  obtain rows where g: "generate_labeled_rows example_samples fzero = Inr rows"
    and v: "0 < hq_valid (horizon_quality_of example_timestamps rows (horizons ! 5))"
    using example_rows by metis
  define q where "q = horizon_quality_of example_timestamps rows (horizons ! 5)"
  have q: "map_of (label_quality example_timestamps rows) ''horizon_5000ms'' = Some q"
    by (simp add: label_quality_def horizons_def q_def)
  note s = generated_rows_are_sound [OF example_valid example_may_generate, unfolded example_validation_def, simplified, OF g]
  have e: "hq_eligible q = 1"
    by (simp add: q_def horizon_quality_of_def Let_def eligible_count_def how_many_def example_timestamps_def horizons_def)
  have "hq_valid q \<le> hq_eligible q"
    by (rule quality_of_valid_file [OF example_valid example_may_generate _ _ q, of fzero])
      (simp_all add: example_validation_def g example_sample_timestamps)
  then have "hq_valid q = 1" using v e by (simp add: q_def)
  moreover have "int_truediv 1 1 = Fin 1" by code_simp
  ultimately have r: "hq_rate_eligible q = Fin 1"
    using e by (simp add: q_def horizon_quality_of_def Let_def safe_rate_def)
  have l: "length example_samples = 2" "example_samples \<noteq> []" by (simp_all add: example_samples_def)
  have n: "rows \<noteq> []" using s(2) l by auto
  have h: "hard_fail_reasons example_samples rows 0 (compute_timestamp_quality example_samples) 0 (run_leakage_check rows)
      (label_quality example_timestamps rows) example_rates = Inr []"
    using s(2) n l example_may_generate
    by (simp add: hard_fail_reasons_def example_rates_def and_then_def q e r s(3) counted_reason_def may_generate_def
        example_validation_def)
  have d: "duration_sec example_samples = Inr (Fin 5)" by code_simp
  obtain t where t: "sample_timestamps [last example_samples] = Inr t"
    using example_sample_timestamps by (auto simp: example_samples_def sample_timestamps_def and_then_Inr)
  have "example_rates \<noteq> []" by (simp add: example_rates_def)
  then have "\<exists>report. build_quality_report example_validation rows [] (run_leakage_check rows) example_rates = Inr report
      \<and> qr_passed report"
    using l by (simp add: build_quality_report_def Let_def and_then_def example_validation_def d t example_sample_timestamps h)
  then show ?thesis
    using n s(1) by (auto simp: run_phase42_pipeline_def example_valid and_then_def pipeline_rows_def
        example_may_generate g Let_def)
qed

subsection \<open>Properties of the labelled data set\<close>

lemma object_without_timestamp_stops_the_report:
  "\<exists>e. run_phase42_pipeline (Some [Json_line (VDict [])]) rates = Inl e"
proof -
  have "\<not> isl (clean_sample_errors [])" by code_simp
  then obtain es where "clean_sample_errors [] = Inr es" by (cases "clean_sample_errors []") auto
  then have "\<exists>v. validate_clean_samples (Some [Json_line (VDict [])]) = Inr v \<and> sva_samples v = [[]]"
    by (simp add: validate_clean_samples_def and_then_def)
  then show ?thesis using missing_timestamp_stops_the_report by fastforce
qed

text \<open>C33: Whatever the file holds, a run that returns has written no row that looks ahead: the leakage check
  passes without a violation, every row has the schema, and there is one row for each sample or none at all.\<close>
theorem pipeline_rows_do_not_leak:
  assumes "run_phase42_pipeline file rates = Inr r"
  shows "lk_passed (pr_leakage r) \<and> lk_violations (pr_leakage r) = [] \<and> pr_schema r = []
     \<and> (pr_rows r = [] \<or> length (pr_rows r) = length (sva_samples (pr_validation r)))"
proof -
  obtain v where p: "validate_clean_samples file = Inr v" "pr_validation r = v" "pipeline_rows v = Inr (pr_rows r)"
    "pr_schema r = (if may_generate v then validate_labeled_rows (pr_rows r) else [])"
    "pr_leakage r = (if may_generate v then run_leakage_check (pr_rows r) else empty_leakage_result 0)"
    using pipeline_returns [OF assms] by blast
  show ?thesis
  proof (cases "may_generate v")
    case True
    then have "generate_labeled_rows (sva_samples v) fzero = Inr (pr_rows r)" using p(3) by (simp add: pipeline_rows_def)
    note s = generated_rows_are_sound [OF p(1) True this]
    show ?thesis using p(2,4,5) s True by simp
  next
    case False
    then show ?thesis using p by (simp add: pipeline_rows_def empty_leakage_result_def)
  qed
qed

theorem pipeline_rows_do_not_leak_witness:
  "\<exists>r. run_phase42_pipeline example_file example_rates = Inr r \<and> pr_rows r \<noteq> [] \<and> lk_passed (pr_leakage r)
     \<and> length (pr_rows r) = length (sva_samples (pr_validation r))"
  using labelled_example_run pipeline_rows_do_not_leak [of example_file example_rates] by blast

text \<open>C34: With increasing time stamps the binary searches find what a scan of the whole list would: the label
  comes from the first sample at or after its target time, the past features from the last sample at or before
  theirs; and a valid label's sample is not later than its largest gap allows.\<close>
theorem labels_and_features_use_reference_samples:
  assumes "sorted ts" and "i < length ts" and "p \<in> set horizons" and "q \<in> set past_policies"
  shows "select_future_index ts i (hp_ms p) = first_at_or_after ts (ts ! i + hp_ms p * 1000000)
     \<and> past_index ts i (ts ! i - hp_ms q * 1000000) = last_at_or_before ts (ts ! i - hp_ms q * 1000000)
     \<and> (fl_valid (build_label samples ts i p fs threshold) \<longrightarrow>
         (\<exists>j. first_at_or_after ts (ts ! i + hp_ms p * 1000000) = Some j
            \<and> fl_index (build_label samples ts i p fs threshold) = Some j
            \<and> \<not> fless (float_of_int (hp_max_gap_ms p)) (int_truediv (ts ! j - (ts ! i + hp_ms p * 1000000)) 1000000)))"
proof (intro conjI impI)
  show f: "select_future_index ts i (hp_ms p) = first_at_or_after ts (ts ! i + hp_ms p * 1000000)"
    by (rule select_future_index_reference [OF assms(1,2) horizon_positive [OF assms(3)]])
  show "past_index ts i (ts ! i - hp_ms q * 1000000) = last_at_or_before ts (ts ! i - hp_ms q * 1000000)"
    using policy_positive [OF assms(4)] by (intro past_index_reference [OF assms(1,2)]) simp
  assume v: "fl_valid (build_label samples ts i p fs threshold)"
  obtain j where j: "select_future_index ts i (hp_ms p) = Some j"
    "\<not> fless (float_of_int (hp_max_gap_ms p)) (int_truediv (ts ! j - (ts ! i + hp_ms p * 1000000)) 1000000)"
    using valid_label_gap [OF v] by blast
  moreover have "fl_index (build_label samples ts i p fs threshold) = Some j"
    using build_label_ok [of ts i p samples fs threshold] v j(1) by (auto simp: label_ok_def split: option.splits)
  ultimately show "\<exists>j. first_at_or_after ts (ts ! i + hp_ms p * 1000000) = Some j
      \<and> fl_index (build_label samples ts i p fs threshold) = Some j
      \<and> \<not> fless (float_of_int (hp_max_gap_ms p)) (int_truediv (ts ! j - (ts ! i + hp_ms p * 1000000)) 1000000)"
    using f by auto
qed

theorem labels_and_features_use_reference_samples_witness:
  "select_future_index [0, 100000000, 250000000] 0 100 = Some 1
     \<and> first_at_or_after [0, 100000000, 250000000] 100000000 = Some 1
     \<and> past_index [0, 100000000, 250000000] 1 0 = Some 0"
  using labels_and_features_use_reference_samples [of "[0, 100000000, 250000000]" 0 "horizons ! 0" "past_policies ! 0"]
    labels_and_features_use_reference_samples [of "[0, 100000000, 250000000]" 1 "horizons ! 0" "past_policies ! 0"]
  by (simp add: horizons_def past_policies_def first_at_or_after_def last_at_or_before_def upt_rec)

text \<open>C35: A report that passes is earned: every sample of the file is clean, the time stamps increase strictly,
  each sample has its row, and every horizon that has a threshold has eligible samples, at most as many valid
  labels, and a rate of valid labels that is not below the threshold.\<close>
theorem passed_report_is_earned:
  assumes "run_phase42_pipeline file rates = Inr r" and "qr_passed (pr_report r)"
  shows "sva_samples (pr_validation r) \<noteq> [] \<and> (\<forall>s\<in>set (sva_samples (pr_validation r)). clean_sample_errors s = Inr [])
     \<and> sorted_wrt (<) (int_timestamps (sva_samples (pr_validation r)))
     \<and> length (pr_rows r) = length (sva_samples (pr_validation r))
     \<and> (\<forall>(h, threshold)\<in>set (if rates = [] then min_valid_rates else rates).
          \<exists>x. map_of (qr_labels (pr_report r)) h = Some x \<and> 0 < hq_eligible x \<and> hq_valid x \<le> hq_eligible x
            \<and> \<not> fless (hq_rate_eligible x) threshold)"
proof -
  obtain v where p: "validate_clean_samples file = Inr v" "pr_validation r = v" "pipeline_rows v = Inr (pr_rows r)"
    "build_quality_report v (pr_rows r) (pr_schema r) (pr_leakage r) rates = Inr (pr_report r)"
    using pipeline_returns [OF assms(1)] by blast
  obtain ts where q: "sample_timestamps (sva_samples v) = Inr ts" "qr_labels (pr_report r) = label_quality ts (pr_rows r)"
    "sva_samples v \<noteq> []" "length (pr_rows r) = length (sva_samples v)"
    "\<forall>(h, threshold)\<in>set (if rates = [] then min_valid_rates else rates). \<exists>x. map_of (qr_labels (pr_report r)) h = Some x
       \<and> 0 < hq_eligible x \<and> \<not> fless (hq_rate_eligible x) threshold"
    by (rule report_passed [OF p(4) assms(2)])
  then have m: "may_generate v" using p(3) by (auto simp: pipeline_rows_def split: if_splits)
  then have g: "generate_labeled_rows (sva_samples v) fzero = Inr (pr_rows r)" using p(3) by (simp add: pipeline_rows_def)
  have c: "hq_valid x \<le> hq_eligible x" if "map_of (qr_labels (pr_report r)) h = Some x" for h x
    using quality_of_valid_file [OF p(1) m g q(1)] that q(2) by simp
  have "\<exists>x. map_of (qr_labels (pr_report r)) h = Some x \<and> 0 < hq_eligible x \<and> hq_valid x \<le> hq_eligible x
      \<and> \<not> fless (hq_rate_eligible x) t" if "(h, t) \<in> set (if rates = [] then min_valid_rates else rates)" for h t
    using bspec [OF q(5) that] c by blast
  then show ?thesis unfolding p(2) using q(3,4) may_generate_timestamps(3,4) [OF p(1) m] by (intro conjI) blast+
qed

theorem passed_report_is_earned_witness:
  "\<exists>r. run_phase42_pipeline example_file example_rates = Inr r \<and> qr_passed (pr_report r)
     \<and> sorted_wrt (<) (int_timestamps (sva_samples (pr_validation r)))
     \<and> length (pr_rows r) = length (sva_samples (pr_validation r))"
  using labelled_example_run passed_report_is_earned [of example_file example_rates] by blast

end
