(* ===== verification/Spec2Isabelle.thy ===== *)
theory Spec2Isabelle
  imports Phase41Summary Ticks PolyQuotes GapProperties UniverseProperties WriterProperties StrategyShells
    StreamProperties LabeledProperties
begin

text \<open>
  A verification library for the trading bot under \<open>src/bot/app\<close>: the code on its data and trading
  path, translated function by function into executable definitions, and what makes it correct.

  \<^bold>\<open>The program.\<close> Binance sends trades and depth updates of its markets, Polymarket sends the books of
  short prediction markets on the same prices. A discovery service looks for the Polymarket markets
  whose time window is open or next, and a universe manager refreshes that list and says which tokens to
  subscribe to. Two websocket clients normalise the messages; the Polymarket client keeps a book per
  token and turns its changes into quotes. The market state collects the events, a gap detector watches
  for moves of the reference price that the quotes have not followed yet, and a chain of small modules
  turns an estimate of fair value into an order. A separate pipeline (phase 4.1) captures a clean
  order book of Binance: a reader fills a bounded queue, a consumer applies the updates to a book with
  snapshots, a validator judges each sample, a lifecycle tracker and a queue monitor count, and a batch
  writer hands records to files in its own thread. A later step (phase 4.2) turns the captured samples
  into a data set: rows of features with labels from their future, checked for leaks.

  \<^bold>\<open>Theories and code\<close> (file names under \<open>src/bot/app\<close>):
  \<^item> \<open>PyPrelude\<close>, \<open>PyNum\<close>, \<open>PyVal\<close>, \<open>ShortDecimal\<close>, \<open>IsoTime\<close>: the parts of Python the program uses. Dictionaries are
    association lists in insertion order; a float is the rational it stands for, or an infinity, or
    NaN, with correctly rounded operations; a \<open>Decimal\<close> is a rational in the default context; \<open>pyval\<close>
    is a decoded JSON value; the decimal a float prints as has at most 17 digits; texts of times are
    parsed.
  \<^item> \<open>Events\<close>: the records and enumerations of \<open>core/events.py\<close>.
  \<^item> \<open>LevelBook\<close>, \<open>BookState\<close>: \<open>marketdata/orderbook_state.py\<close>; \<open>BookQuality\<close>:
    \<open>marketdata/orderbook_quality.py\<close>; \<open>WsLifecycle\<close>: \<open>marketdata/ws_lifecycle.py\<close>; \<open>QueueMonitor\<close>:
    \<open>marketdata/queue_monitor.py\<close>.
  \<^item> \<open>Phase41\<close> (processor), \<open>CleanSample\<close> (samples and their schema), \<open>QueuePurge\<close> (cleaning the queue
    after a snapshot), \<open>Phase41Capture\<close> (reader, consumer and snapshot retries as steps that
    interleave), \<open>Phase41Summary\<close> (report and verdict), with the invariants in \<open>Phase41Emission\<close> and
    \<open>Phase41Flow\<close>: \<open>marketdata/orderbook_phase41.py\<close>.
  \<^item> \<open>Ticks\<close>: \<open>core/tick_math.py\<close>.
  \<^item> \<open>PolyBook\<close> with \<open>PolyInvariant\<close>, \<open>PolyRun\<close> and \<open>PolyQuotes\<close>: \<open>marketdata/polymarket_orderbook.py\<close>.
  \<^item> \<open>MarketWindow\<close> (windows and slugs), \<open>DiscoveryParse\<close> (payloads), \<open>DiscoveryPlan\<close> (requests, cache),
    \<open>DiscoveryRun\<close> (whole discoveries), \<open>DiscoveryProperties\<close>: \<open>marketdata/polymarket_discovery.py\<close>.
  \<^item> \<open>MarketUniverse\<close>, \<open>UniverseProperties\<close>: \<open>marketdata/market_universe.py\<close>.
  \<^item> \<open>WsReconnect\<close> (what the clients share), \<open>BinanceStream\<close>, \<open>PolyStream\<close>, \<open>StreamProperties\<close>:
    \<open>marketdata/binance_ws.py\<close> and \<open>marketdata/polymarket_ws.py\<close>.
  \<^item> \<open>MarketState\<close>: \<open>state/market_state.py\<close>.
  \<^item> \<open>GapTypes\<close>, \<open>GapDetector\<close>, \<open>GapOps\<close>, \<open>GapFlow\<close>, \<open>GapMarkets\<close> with \<open>GapInvariant\<close> and
    \<open>GapProperties\<close>: \<open>strategy/gap_detector.py\<close>.
  \<^item> \<open>BatchWriter\<close>, \<open>WriterProperties\<close>: \<open>marketdata/batch_writer.py\<close>.
  \<^item> \<open>StrategyShells\<close>: \<open>strategy/probability_model.py\<close>, \<open>strategy/mispricing_detector.py\<close>,
    \<open>risk/risk_gate.py\<close>, the two executors and \<open>core/telemetry.py\<close>.
  \<^item> \<open>LabeledRows\<close> (validation, features, labels), \<open>LabeledReport\<close> (checks, qualities, verdict,
    pipeline), \<open>LabeledProperties\<close>: \<open>research/orderbook_labeled_dataset.py\<close>.

  \<^bold>\<open>State and operations.\<close> An object is a record with the fields of its class, an operation a function
  of the same name from the state to the state. An operation that can raise returns a sum, \<open>Inl\<close> the
  exception, together with the state it leaves, because the code often changes objects before it
  raises. Objects that the code shares or mutates while it iterates over them are passed explicitly.
  Tasks and threads that interleave are step functions or \<open>inductive\<close> relations: a generator's phase
  says at which \<open>await\<close> or \<open>yield\<close> it is suspended, and a run is a list of inputs in any order.
  Clock readings, fresh identifiers, the network's and the file system's answers are inputs, the JSON
  decoder is a parameter; nothing is assumed of them, except that the capture's own debug files take
  what is written to them (with the batch writer a write only fills a queue).

  \<^bold>\<open>What the lemmas show.\<close>
  \<^item> Books: whatever deltas and snapshots come, a book that may be emitted is loaded, continuous,
    two-sided and uncrossed; accepted deltas form one chain; dictionary and sorted index refine one map.
  \<^item> Capture: for every interleaving the updates are accounted for, samples are clean, a
    sample is valid when the book is ready and fresh, the retry loop ends, and an exception that ends the
    capture comes from the snapshot request, the session or the reader; the purge loop is the reference
    purge.
  \<^item> Token books and stream: levels stay well formed, a complete quote is the top of a valid book, the
    end of a market is final even across reconnects, the diagnostics of the subscription tell the truth,
    and the number of events is bounded by the limit and the failed disconnects. The interface \<open>event_stream\<close> serves both clients.
  \<^item> Discovery and universe: slugs parse back, the enabled market is the one an independent
    classification calls current, runtime markets are tradable, the reported token changes lead from one subscription to the next.
  \<^item> State and gaps: incremental returns equal those of a reference with the whole history; counters add
    up, a market that has ended has neither a pending gap nor a complete quote, observations are delivered once and report an edge only when it is executable.
  \<^item> Writer: it refines a queue that is written once and in order, and it ends when it is told to,
    whatever its callers still put.
  \<^item> Ticks: rounding to the tick never crosses the price on the wrong side, through the decimal and the
    float rounding.
  \<^item> Labelled data: the binary searches find the samples a scan would find, no row looks ahead, every row
    has the schema, and a passed report means what it says.
  \<^item> Some lemmas show behaviour the code does not mean to have; the findings of the manifest name them.

  \<^bold>\<open>Interfaces.\<close> Contracts that several operations or two components share are locales (the rounding
  of numbers, books of price levels, the loops over pending gaps, the token feed of the universe, the
  event stream); each is interpreted on the model's own definitions.

  \<^bold>\<open>Bounds and fuel.\<close> Fuel occurs in two places: the search for the shortest decimal of a float tries
  up to 17 digits, which suffice (\<open>short_at_17\<close>), and the integer square root has as many rounds as half the
  bits of its argument. Every other recursion is structural. Loops over a network are
  bounded in the code (three snapshot requests, pages of a scan) or are steps. Integers are unbounded as
  in Python. Overflow appears where a float does: a product with an integer that no float holds raises,
  which bounds the reconnects at 1024 in a row.

  \<^bold>\<open>Not modelled.\<close>
  \<^item> \<open>main.py\<close> (command line, task wiring, console), \<open>config/settings.py\<close>, \<open>core/clock.py\<close> and
    \<open>logging/event_logger.py\<close>: glue around the modelled parts, or reads of the environment.
  \<^item> The rest of \<open>research/\<close> and \<open>backtest/\<close>: offline studies and audits of recorded files with
    numerical libraries, sockets and report writing; they are not on the trading path. Of the labelled
    data set the files, the Markdown report and the bundle are left out.
  \<^item> Log lines, Markdown, console tables and files themselves; HTTP below a decoded answer.
  \<^item> Pydantic's validation of types; the code passes values of the declared types.
  \<^item> \<open>math.sqrt\<close> and \<open>**\<close> on floats are taken as correctly rounded, and \<open>sum\<close> of floats is the
    compensated sum of Python 3.12; characters are ASCII; dates are in the years 1 to 9999.
\<close>

end
